(* ===== verification/Treasury_Prelude.thy ===== *)
theory Treasury_Prelude
  imports Main "HOL-Library.List_Lexorder" "HOL-Library.Char_ord"
begin

text \<open>
  The shared vocabulary of the development: the types every component uses, the
  exceptions the services throw, the two small monads in which handlers are written
  (a pure one for validation, a stateful one for database transactions), and the
  collections of rewrite rules the component proofs draw on.

  A JavaScript promise chain run inside \<open>database.db.transaction\<close> is a function from
  the database to either an exception or a result with the new database. An exception
  leaves no new database, which is the rollback.
\<close>

section \<open>Types\<close>

type_synonym str = string
type_synonym uuid = string
type_synonym instant = int
type_synonym 'a nullable = "'a option"

section \<open>Exceptions\<close>

text \<open>
  \<open>Message\<close> is \<open>new Error('...')\<close> with one of the constants the services match on,
  \<open>PgError\<close> is an error of the database driver with its SQLSTATE, \<open>Problem\<close> is a
  \<open>TreasuryProblem\<close> with its code, HTTP status and detail, \<open>Thrown\<close> an error of another class
  with its name and message, \<open>JsFault\<close> any other exception of the language runtime.
\<close>

datatype exn = Message str | PgError str | Problem str nat "str option"
  | Thrown str str | JsFault str

named_theorems tx_inv \<open>inversion of successful transaction steps\<close>
named_theorems tx_run \<open>forward execution of transaction steps\<close>

section \<open>Validation results\<close>

type_synonym 'a res = "exn + 'a"

definition res_bind :: "'a res \<Rightarrow> ('a \<Rightarrow> 'b res) \<Rightarrow> 'b res" where
  "res_bind m f = (case m of Inl e \<Rightarrow> Inl e | Inr a \<Rightarrow> f a)"

definition res_guard :: "bool \<Rightarrow> exn \<Rightarrow> unit res" where
  "res_guard b e = (if b then Inr () else Inl e)"

fun res_map :: "('a \<Rightarrow> 'b res) \<Rightarrow> 'a list \<Rightarrow> 'b list res" where
  "res_map f [] = Inr []"
| "res_map f (x # xs) = res_bind (f x) (\<lambda>y. res_bind (res_map f xs) (\<lambda>ys. Inr (y # ys)))"

lemma res_bind_Inr [tx_inv]:
  "res_bind m f = Inr b \<longleftrightarrow> (\<exists>a. m = Inr a \<and> f a = Inr b)"
  by (cases m) (simp_all add: res_bind_def)

lemma res_bind_Inl [simp]: "res_bind (Inl e) f = Inl e"
  by (simp add: res_bind_def)

lemma res_bind_run [simp]: "res_bind (Inr a) f = f a"
  by (simp add: res_bind_def)

lemma res_guard_Inr [tx_inv]: "res_guard b e = Inr u \<longleftrightarrow> b"
  by (simp add: res_guard_def)

lemma res_guard_True [simp]: "res_guard True e = Inr ()"
  by (simp add: res_guard_def)

lemma res_guard_False [simp]: "res_guard False e = Inl e"
  by (simp add: res_guard_def)

lemma res_map_Inr:
  "res_map f xs = Inr ys \<longleftrightarrow> list_all2 (\<lambda>x y. f x = Inr y) xs ys"
proof (induction xs arbitrary: ys)
  case Nil
  then show ?case by auto
next
  case (Cons x xs)
  then show ?case
    by (cases ys) (auto simp: res_bind_Inr)
qed

lemma res_map_length: "res_map f xs = Inr ys \<Longrightarrow> length ys = length xs"
  by (simp add: res_map_Inr list_all2_lengthD)

section \<open>Transactions\<close>

type_synonym ('s, 'a) tx = "'s \<Rightarrow> exn + 'a \<times> 's"

definition tx_return :: "'a \<Rightarrow> ('s, 'a) tx" where
  "tx_return a = (\<lambda>s. Inr (a, s))"

definition tx_throw :: "exn \<Rightarrow> ('s, 'a) tx" where
  "tx_throw e = (\<lambda>s. Inl e)"

definition tx_bind :: "('s, 'a) tx \<Rightarrow> ('a \<Rightarrow> ('s, 'b) tx) \<Rightarrow> ('s, 'b) tx" where
  "tx_bind m f = (\<lambda>s. case m s of Inl e \<Rightarrow> Inl e | Inr (a, s') \<Rightarrow> f a s')"

definition tx_then :: "('s, 'a) tx \<Rightarrow> ('s, 'b) tx \<Rightarrow> ('s, 'b) tx" where
  "tx_then m k = tx_bind m (\<lambda>_. k)"

definition tx_guard :: "bool \<Rightarrow> exn \<Rightarrow> ('s, unit) tx" where
  "tx_guard b e = (if b then tx_return () else tx_throw e)"

definition tx_read :: "('s \<Rightarrow> 'a) \<Rightarrow> ('s, 'a) tx" where
  "tx_read f = (\<lambda>s. Inr (f s, s))"

definition tx_write :: "('s \<Rightarrow> 's) \<Rightarrow> ('s, unit) tx" where
  "tx_write f = (\<lambda>s. Inr ((), f s))"

definition tx_lift :: "'a res \<Rightarrow> ('s, 'a) tx" where
  "tx_lift r = (case r of Inl e \<Rightarrow> tx_throw e | Inr a \<Rightarrow> tx_return a)"

fun tx_map :: "('a \<Rightarrow> ('s, 'b) tx) \<Rightarrow> 'a list \<Rightarrow> ('s, 'b list) tx" where
  "tx_map f [] = tx_return []"
| "tx_map f (x # xs) =
     tx_bind (f x) (\<lambda>y. tx_bind (tx_map f xs) (\<lambda>ys. tx_return (y # ys)))"

fun tx_for :: "'a list \<Rightarrow> ('a \<Rightarrow> ('s, unit) tx) \<Rightarrow> ('s, unit) tx" where
  "tx_for [] f = tx_return ()"
| "tx_for (x # xs) f = tx_then (f x) (tx_for xs f)"

text \<open>
  \<open>database.db.transaction(work)\<close>: the work runs on the current database; its new
  database is committed when it returns, dropped when it throws. The second component
  is the database afterwards.
\<close>

definition transaction :: "('s, 'a) tx \<Rightarrow> 's \<Rightarrow> 'a res \<times> 's" where
  "transaction m s = (case m s of Inl e \<Rightarrow> (Inl e, s) | Inr (a, s') \<Rightarrow> (Inr a, s'))"

text \<open>\<open>catch (error) { throw mapped(error) }\<close>, the last step of every handler.\<close>

definition rethrow :: "(exn \<Rightarrow> exn) \<Rightarrow> 'a res \<times> 's \<Rightarrow> 'a res \<times> 's" where
  "rethrow f r = (case fst r of Inl e \<Rightarrow> (Inl (f e), snd r) | Inr a \<Rightarrow> (Inr a, snd r))"

lemma tx_return_run [simp]: "tx_return a s = Inr (a, s)"
  by (simp add: tx_return_def)

lemma tx_throw_run [simp]: "tx_throw e s = Inl e"
  by (simp add: tx_throw_def)

lemma tx_read_run [simp]: "tx_read f s = Inr (f s, s)"
  by (simp add: tx_read_def)

lemma tx_write_run [simp]: "tx_write f s = Inr ((), f s)"
  by (simp add: tx_write_def)

lemma tx_bind_Inr [tx_inv]:
  "tx_bind m f s = Inr r \<longleftrightarrow> (\<exists>a s1. m s = Inr (a, s1) \<and> f a s1 = Inr r)"
  by (auto simp: tx_bind_def split: sum.splits)

lemma tx_bind_Inl:
  "tx_bind m f s = Inl e \<longleftrightarrow>
     m s = Inl e \<or> (\<exists>a s1. m s = Inr (a, s1) \<and> f a s1 = Inl e)"
  by (auto simp: tx_bind_def split: sum.splits)

lemma tx_bind_run [tx_run]: "m s = Inr (a, s1) \<Longrightarrow> tx_bind m f s = f a s1"
  by (simp add: tx_bind_def)

lemma tx_bind_fail [tx_run]: "m s = Inl e \<Longrightarrow> tx_bind m f s = Inl e"
  by (simp add: tx_bind_def)

lemma tx_then_Inr [tx_inv]:
  "tx_then m k s = Inr r \<longleftrightarrow> (\<exists>a s1. m s = Inr (a, s1) \<and> k s1 = Inr r)"
  by (simp add: tx_then_def tx_bind_Inr)

lemma tx_then_run [tx_run]: "m s = Inr (a, s1) \<Longrightarrow> tx_then m k s = k s1"
  by (simp add: tx_then_def tx_bind_def)

lemma tx_then_fail [tx_run]: "m s = Inl e \<Longrightarrow> tx_then m k s = Inl e"
  by (simp add: tx_then_def tx_bind_def)

lemma tx_guard_Inr [tx_inv]: "tx_guard b e s = Inr r \<longleftrightarrow> b \<and> r = ((), s)"
  by (auto simp: tx_guard_def)

lemma tx_guard_True [simp]: "tx_guard True e s = Inr ((), s)"
  by (simp add: tx_guard_def)

lemma tx_guard_False [simp]: "tx_guard False e s = Inl e"
  by (simp add: tx_guard_def)

lemma tx_lift_Inr [tx_inv]: "tx_lift r s = Inr p \<longleftrightarrow> (\<exists>a. r = Inr a \<and> p = (a, s))"
  by (auto simp: tx_lift_def split: sum.splits)

lemma tx_lift_run [simp]: "tx_lift (Inr a) s = Inr (a, s)"
  by (simp add: tx_lift_def)

lemma tx_lift_fail [simp]: "tx_lift (Inl e) s = Inl e"
  by (simp add: tx_lift_def)

lemma transaction_Inr:
  "transaction m s = (Inr a, s') \<longleftrightarrow> m s = Inr (a, s')"
  by (auto simp: transaction_def split: sum.splits)

lemma transaction_Inl:
  "transaction m s = (Inl e, s') \<longleftrightarrow> m s = Inl e \<and> s' = s"
  by (auto simp: transaction_def split: sum.splits)

lemma rethrow_Inr: "rethrow f r = (Inr a, s') \<longleftrightarrow> r = (Inr a, s')"
  by (cases r) (auto simp: rethrow_def split: sum.splits)

lemma rethrow_Inl:
  "rethrow f r = (Inl e, s') \<longleftrightarrow> (\<exists>e0. r = (Inl e0, s') \<and> e = f e0)"
  by (cases r) (auto simp: rethrow_def split: sum.splits)

subsection \<open>Preconditions and postconditions of transactions\<close>

text \<open>
  \<open>tx_hoare P m Q\<close>: from a database satisfying \<open>P\<close>, a run of \<open>m\<close> that returns ends with
  a result and database satisfying \<open>Q\<close>. A run that throws has no database to speak of.
\<close>

definition tx_hoare :: "('s \<Rightarrow> bool) \<Rightarrow> ('s, 'a) tx \<Rightarrow> ('a \<Rightarrow> 's \<Rightarrow> bool) \<Rightarrow> bool" where
  "tx_hoare P m Q \<longleftrightarrow> (\<forall>s a s'. P s \<longrightarrow> m s = Inr (a, s') \<longrightarrow> Q a s')"

lemma tx_hoareI: "(\<And>s a s'. P s \<Longrightarrow> m s = Inr (a, s') \<Longrightarrow> Q a s') \<Longrightarrow> tx_hoare P m Q"
  by (simp add: tx_hoare_def)

lemma tx_hoareD: "tx_hoare P m Q \<Longrightarrow> m s = Inr (a, s') \<Longrightarrow> P s \<Longrightarrow> Q a s'"
  by (simp add: tx_hoare_def)

lemma tx_hoare_bind:
  "tx_hoare P m R \<Longrightarrow> (\<And>a. tx_hoare (R a) (f a) Q) \<Longrightarrow> tx_hoare P (tx_bind m f) Q"
  by (fastforce simp: tx_hoare_def tx_bind_Inr)

lemma tx_hoare_for:
  "(\<And>x. x \<in> set xs \<Longrightarrow> tx_hoare P (f x) (\<lambda>_. P)) \<Longrightarrow> tx_hoare P (tx_for xs f) (\<lambda>_. P)"
proof (induction xs)
  case Nil
  then show ?case by (simp add: tx_hoare_def)
next
  case (Cons x xs)
  have x: "tx_hoare P (f x) (\<lambda>_. P)" and xs: "tx_hoare P (tx_for xs f) (\<lambda>_. P)"
    using Cons by simp_all
  show ?case
  proof (rule tx_hoareI)
    fix s a s' assume "P s" and "tx_for (x # xs) f s = Inr (a, s')"
    then show "P s'"
      using tx_hoareD [OF x] tx_hoareD [OF xs] by (auto simp: tx_then_Inr)
  qed
qed

lemma tx_hoare_map:
  "(\<And>x. x \<in> set xs \<Longrightarrow> tx_hoare P (f x) (\<lambda>_. P)) \<Longrightarrow> tx_hoare P (tx_map f xs) (\<lambda>_. P)"
proof (induction xs)
  case Nil
  then show ?case by (simp add: tx_hoare_def)
next
  case (Cons x xs)
  have x: "tx_hoare P (f x) (\<lambda>_. P)" and xs: "tx_hoare P (tx_map f xs) (\<lambda>_. P)"
    using Cons by simp_all
  show ?case
  proof (rule tx_hoareI)
    fix s a s' assume "P s" and "tx_map f (x # xs) s = Inr (a, s')"
    then show "P s'"
      using tx_hoareD [OF x] tx_hoareD [OF xs] by (auto simp: tx_bind_Inr)
  qed
qed

subsection \<open>Frames\<close>

text \<open>
  \<open>tx_keeps f m\<close>: a run of \<open>m\<close> that returns leaves the part \<open>f\<close> of the database as it was.
  The rules follow the structure of a handler, so a frame is proved by introduction alone.
\<close>

definition tx_keeps :: "('s \<Rightarrow> 'b) \<Rightarrow> ('s, 'a) tx \<Rightarrow> bool" where
  "tx_keeps f m \<longleftrightarrow> (\<forall>s a s'. m s = Inr (a, s') \<longrightarrow> f s' = f s)"

named_theorems tx_frame \<open>introduction rules for frames\<close>

lemma tx_keepsI: "(\<And>s a s'. m s = Inr (a, s') \<Longrightarrow> f s' = f s) \<Longrightarrow> tx_keeps f m"
  by (simp add: tx_keeps_def)

lemma tx_keepsD: "tx_keeps f m \<Longrightarrow> m s = Inr (a, s') \<Longrightarrow> f s' = f s"
  by (simp add: tx_keeps_def)

lemma keeps_return [tx_frame]: "tx_keeps f (tx_return a)"
  by (simp add: tx_keeps_def)

lemma keeps_throw [tx_frame]: "tx_keeps f (tx_throw e)"
  by (simp add: tx_keeps_def)

lemma keeps_guard [tx_frame]: "tx_keeps f (tx_guard b e)"
  by (simp add: tx_keeps_def tx_guard_def)

lemma keeps_read [tx_frame]: "tx_keeps f (tx_read g)"
  by (simp add: tx_keeps_def)

lemma keeps_lift [tx_frame]: "tx_keeps f (tx_lift r)"
  by (cases r) (simp_all add: tx_keeps_def)

lemma keeps_write: "(\<And>s. f (g s) = f s) \<Longrightarrow> tx_keeps f (tx_write g)"
  by (simp add: tx_keeps_def)

lemma keeps_bind [tx_frame]: "tx_keeps f m \<Longrightarrow> (\<And>a. tx_keeps f (k a)) \<Longrightarrow> tx_keeps f (tx_bind m k)"
  by (auto simp: tx_keeps_def tx_bind_Inr)

lemma keeps_then [tx_frame]: "tx_keeps f m \<Longrightarrow> tx_keeps f k \<Longrightarrow> tx_keeps f (tx_then m k)"
  by (simp add: tx_then_def keeps_bind)

lemma keeps_if [tx_frame]: "tx_keeps f m \<Longrightarrow> tx_keeps f k \<Longrightarrow> tx_keeps f (if b then m else k)"
  by simp

lemma keeps_option [tx_frame]:
  "tx_keeps f m \<Longrightarrow> (\<And>x. tx_keeps f (k x)) \<Longrightarrow>
     tx_keeps f (case v of None \<Rightarrow> m | Some x \<Rightarrow> k x)"
  by (cases v) simp_all

lemma keeps_prod [tx_frame]:
  "(\<And>x y. tx_keeps f (k x y)) \<Longrightarrow> tx_keeps f (case p of (x, y) \<Rightarrow> k x y)"
  by (cases p) simp_all

lemma keeps_list [tx_frame]:
  "tx_keeps f m \<Longrightarrow> (\<And>x xs. tx_keeps f (k x xs)) \<Longrightarrow>
     tx_keeps f (case v of [] \<Rightarrow> m | x # xs \<Rightarrow> k x xs)"
  by (cases v) simp_all

lemma keeps_for [tx_frame]: "(\<And>x. tx_keeps f (k x)) \<Longrightarrow> tx_keeps f (tx_for xs k)"
  by (induction xs) (auto intro: tx_frame)

lemma keeps_map [tx_frame]: "(\<And>x. tx_keeps f (k x)) \<Longrightarrow> tx_keeps f (tx_map k xs)"
  by (induction xs) (auto intro: tx_frame)

text \<open>A loop whose every step appends rows to a table appends the rows of all its steps.\<close>

lemma tx_map_appends:
  assumes "tx_map h xs s = Inr (ys, s')"
    and "\<And>x s y s'. x \<in> set xs \<Longrightarrow> h x s = Inr (y, s') \<Longrightarrow> \<exists>rs. f s' = f s @ rs \<and> P x rs"
  shows "\<exists>rss. f s' = f s @ concat rss \<and> list_all2 P xs rss"
  using assms
proof (induction xs arbitrary: s ys)
  case Nil
  then show ?case by (auto intro: exI [of _ "[]"])
next
  case (Cons x xs)
  obtain y s1 zs where x: "h x s = Inr (y, s1)" and xs: "tx_map h xs s1 = Inr (zs, s')"
    using Cons.prems(1) by (auto simp: tx_bind_Inr)
  obtain rs where rs: "f s1 = f s @ rs" "P x rs" using Cons.prems(2) x by force
  obtain rss where "f s' = f s1 @ concat rss" "list_all2 P xs rss"
    using Cons.IH [OF xs] Cons.prems(2) by auto
  then have "f s' = f s @ concat (rs # rss)" "list_all2 P (x # xs) (rs # rss)" using rs by simp_all
  then show ?case by blast
qed

lemma tx_for_Inr_each:
  assumes "tx_for xs k s = Inr (u, s')" and "\<And>x. tx_keeps f (k x)" and "x \<in> set xs"
  shows "\<exists>t v t'. k x t = Inr (v, t') \<and> f t = f s"
  using assms
proof (induction xs arbitrary: s)
  case Nil
  then show ?case by simp
next
  case (Cons y ys)
  obtain v s1 where y: "k y s = Inr (v, s1)" and ys: "tx_for ys k s1 = Inr (u, s')"
    using Cons.prems(1) by (auto simp: tx_then_Inr)
  have f1: "f s1 = f s" using tx_keepsD [OF Cons.prems(2) y] .
  show ?case
  proof (cases "x = y")
    case True
    then show ?thesis using y by blast
  next
    case False
    then show ?thesis using Cons.IH [OF ys Cons.prems(2)] Cons.prems(3) f1 by auto
  qed
qed

section \<open>Lists as JavaScript arrays, sets and maps\<close>

text \<open>
  \<open>[...new Set(xs)]\<close> keeps the first occurrence of each element, in order
  (\<open>remdups\<close> of HOL keeps the last one).
\<close>

fun dedup_acc :: "'a list \<Rightarrow> 'a list \<Rightarrow> 'a list" where
  "dedup_acc seen [] = []"
| "dedup_acc seen (x # xs) =
     (if x \<in> set seen then dedup_acc seen xs else x # dedup_acc (x # seen) xs)"

definition dedup :: "'a list \<Rightarrow> 'a list" where
  "dedup xs = dedup_acc [] xs"

lemma set_dedup_acc: "set (dedup_acc seen xs) = set xs - set seen"
  by (induction seen xs rule: dedup_acc.induct) auto

lemma set_dedup [simp]: "set (dedup xs) = set xs"
  by (simp add: dedup_def set_dedup_acc)

lemma distinct_dedup_acc: "distinct (dedup_acc seen xs)"
  by (induction seen xs rule: dedup_acc.induct) (auto simp: set_dedup_acc)

lemma distinct_dedup [simp]: "distinct (dedup xs)"
  by (simp add: dedup_def distinct_dedup_acc)

lemma dedup_Nil_iff [simp]: "dedup xs = [] \<longleftrightarrow> xs = []"
  by (metis set_dedup set_empty)

lemma dedup_Nil [simp]: "dedup [] = []"
  by simp

lemma length_dedup: "length (dedup xs) = card (set xs)"
  by (metis distinct_card distinct_dedup set_dedup)

text \<open>The first element satisfying a predicate: \<open>xs.find(p)\<close>, and \<open>rows[0]\<close>.\<close>

definition first_row :: "'a list \<Rightarrow> 'a option" where
  "first_row xs = (case xs of [] \<Rightarrow> None | x # _ \<Rightarrow> Some x)"

lemma first_row_Nil [simp]: "first_row [] = None"
  by (simp add: first_row_def)

lemma first_row_Cons [simp]: "first_row (x # xs) = Some x"
  by (simp add: first_row_def)

lemma first_row_Some: "first_row xs = Some x \<Longrightarrow> x \<in> set xs"
  by (cases xs) simp_all

lemma first_row_None: "first_row xs = None \<longleftrightarrow> xs = []"
  by (cases xs) simp_all

lemma find_SomeD: "find p xs = Some x \<Longrightarrow> x \<in> set xs \<and> p x"
  by (auto simp: find_Some_iff)

text \<open>\<open>UPDATE t SET ... WHERE p\<close> on a table kept as a list of rows.\<close>

definition update_where :: "('r \<Rightarrow> bool) \<Rightarrow> ('r \<Rightarrow> 'r) \<Rightarrow> 'r list \<Rightarrow> 'r list" where
  "update_where p f rows = map (\<lambda>r. if p r then f r else r) rows"

lemma length_update_where [simp]: "length (update_where p f rows) = length rows"
  by (simp add: update_where_def)

lemma update_where_Nil [simp]: "update_where p f [] = []"
  by (simp add: update_where_def)

lemma update_where_Cons [simp]:
  "update_where p f (r # rows) = (if p r then f r else r) # update_where p f rows"
  by (simp add: update_where_def)

lemma set_update_where:
  "set (update_where p f rows) = {r. r \<in> set rows \<and> \<not> p r} \<union> f ` {r. r \<in> set rows \<and> p r}"
  by (auto simp: update_where_def)

lemma filter_update_where_other:
  assumes "\<And>r. p r \<Longrightarrow> \<not> q r" and "\<And>r. p r \<Longrightarrow> \<not> q (f r)"
  shows "filter q (update_where p f rows) = filter q rows"
  using assms by (induction rows) auto

lemma filter_update_where_same:
  assumes "\<And>r. p r \<Longrightarrow> p (f r)"
  shows "filter p (update_where p f rows) = map f (filter p rows)"
  using assms by (induction rows) auto

lemma map_update_where_id:
  assumes "\<And>r. g (f r) = g r"
  shows "map g (update_where p f rows) = map g rows"
  using assms by (induction rows) auto

text \<open>Option helpers for nullable columns and optional fields.\<close>

definition coalesce :: "'a option \<Rightarrow> 'a option \<Rightarrow> 'a option" where
  "coalesce a b = (case a of None \<Rightarrow> b | Some x \<Rightarrow> Some x)"

lemma coalesce_simps [simp]:
  "coalesce None b = b" "coalesce (Some x) b = Some x"
  by (simp_all add: coalesce_def)

definition present_text :: "str option \<Rightarrow> bool" where
  "present_text v = (case v of None \<Rightarrow> False | Some s \<Rightarrow> s \<noteq> [])"

definition option_list :: "'a option \<Rightarrow> 'a list" where
  "option_list v = (case v of None \<Rightarrow> [] | Some x \<Rightarrow> [x])"

lemma option_list_simps [simp]: "option_list None = []" "option_list (Some x) = [x]"
  by (simp_all add: option_list_def)

lemma set_option_list [simp]: "set (option_list v) = set_option v"
  by (cases v) simp_all

end
