(* ===== verification/Js_Text.thy ===== *)
theory Js_Text
  imports Treasury_Prelude
begin

text \<open>
  The string operations of the language that the services use: \<open>split\<close>, \<open>padStart\<close>,
  \<open>padEnd\<close>, \<open>trim\<close>, decimal rendering and parsing of \<open>BigInt\<close>, the UUID, date and
  entity-tag patterns, and the instant of a calendar date.

  A string is a list of characters, one per UTF-16 code unit, in the Latin-1 range that
  \<open>char\<close> covers.
\<close>

section \<open>Splitting, padding and trimming\<close>

fun split_on :: "char \<Rightarrow> str \<Rightarrow> str list" where
  "split_on c [] = [[]]"
| "split_on c (x # xs) =
     (if x = c then [] # split_on c xs
      else (case split_on c xs of [] \<Rightarrow> [[x]] | w # ws \<Rightarrow> (x # w) # ws))"

definition pad_start :: "nat \<Rightarrow> char \<Rightarrow> str \<Rightarrow> str" where
  "pad_start n c s = replicate (n - length s) c @ s"

definition pad_end :: "nat \<Rightarrow> char \<Rightarrow> str \<Rightarrow> str" where
  "pad_end n c s = s @ replicate (n - length s) c"

definition is_space :: "char \<Rightarrow> bool" where
  "is_space c \<longleftrightarrow> of_char c \<in> {9, 10, 11, 12, 13, 32, 160 :: nat}"

definition trim :: "str \<Rightarrow> str" where
  "trim s = rev (dropWhile is_space (rev (dropWhile is_space s)))"

text \<open>\<open>s.replace(/0+$/, '')\<close>: the trailing zeros removed.\<close>

definition strip_zeros :: "str \<Rightarrow> str" where
  "strip_zeros s = rev (dropWhile (\<lambda>c. c = CHR ''0'') (rev s))"

fun join_with :: "str \<Rightarrow> str list \<Rightarrow> str" where
  "join_with sep [] = []"
| "join_with sep [w] = w"
| "join_with sep (w # v # ws) = w @ sep @ join_with sep (v # ws)"

section \<open>Digits and integers\<close>

definition is_digit :: "char \<Rightarrow> bool" where
  "is_digit c \<longleftrightarrow> 48 \<le> (of_char c :: nat) \<and> (of_char c :: nat) \<le> 57"

definition digit_char :: "nat \<Rightarrow> char" where
  "digit_char d = char_of (48 + d)"

definition digit_val :: "char \<Rightarrow> nat" where
  "digit_val c = of_char c - 48"

fun digits_val_acc :: "nat \<Rightarrow> str \<Rightarrow> nat" where
  "digits_val_acc a [] = a"
| "digits_val_acc a (c # cs) = digits_val_acc (10 * a + digit_val c) cs"

definition digits_val :: "str \<Rightarrow> nat" where
  "digits_val s = digits_val_acc 0 s"

fun show_nat :: "nat \<Rightarrow> str" where
  "show_nat n = (if n < 10 then [digit_char n] else show_nat (n div 10) @ [digit_char (n mod 10)])"

declare show_nat.simps [simp del]

definition show_int :: "int \<Rightarrow> str" where
  "show_int v = (if v < 0 then ''-'' @ show_nat (nat (- v)) else show_nat (nat v))"

text \<open>
  \<open>BigInt(s)\<close> on an optional minus sign followed by decimal digits, the only strings the
  services give it: amounts have passed the DTO pattern or come from a \<open>numeric\<close> column.
\<close>

definition bigint :: "str \<Rightarrow> int" where
  "bigint s = (case s of [] \<Rightarrow> 0
     | c # cs \<Rightarrow> if c = CHR ''-'' then - int (digits_val cs) else int (digits_val s))"

definition all_digits :: "str \<Rightarrow> bool" where
  "all_digits s \<longleftrightarrow> list_all is_digit s"

lemma digit_char_range: "d < 10 \<Longrightarrow> (of_char (digit_char d) :: nat) = 48 + d"
  by (simp add: digit_char_def)

lemma is_digit_digit_char [simp]: "d < 10 \<Longrightarrow> is_digit (digit_char d)"
  by (simp add: is_digit_def digit_char_range)

lemma digit_val_digit_char [simp]: "d < 10 \<Longrightarrow> digit_val (digit_char d) = d"
  by (simp add: digit_val_def digit_char_range)

lemma is_digit_zero [simp]: "is_digit (CHR ''0'')"
  by (simp add: is_digit_def)

lemma digit_val_zero [simp]: "digit_val (CHR ''0'') = 0"
  by (simp add: digit_val_def)

lemma not_digit_dot [simp]: "\<not> is_digit (CHR ''.'')"
  by (simp add: is_digit_def)

lemma not_digit_minus [simp]: "\<not> is_digit (CHR ''-'')"
  by (simp add: is_digit_def)

lemma all_digits_simps [simp]:
  "all_digits []" "all_digits (c # s) \<longleftrightarrow> is_digit c \<and> all_digits s"
  "all_digits (s @ t) \<longleftrightarrow> all_digits s \<and> all_digits t"
  "all_digits (rev s) \<longleftrightarrow> all_digits s"
  by (auto simp: all_digits_def list_all_iff)

lemma all_digits_replicate [simp]: "all_digits (replicate n (CHR ''0''))"
  by (induction n) simp_all

lemma all_digits_take: "all_digits s \<Longrightarrow> all_digits (take n s)"
  by (metis append_take_drop_id all_digits_simps(3))

lemma all_digits_drop: "all_digits s \<Longrightarrow> all_digits (drop n s)"
  by (metis append_take_drop_id all_digits_simps(3))

lemma all_digits_no_dot: "all_digits s \<Longrightarrow> CHR ''.'' \<notin> set s"
  by (induction s) auto

lemma digits_val_acc_eq: "digits_val_acc a s = a * 10 ^ length s + digits_val s"
proof (induction s arbitrary: a)
  case Nil
  then show ?case by (simp add: digits_val_def)
next
  case (Cons c s)
  have "digits_val (c # s) = digits_val_acc (digit_val c) s" by (simp add: digits_val_def)
  also have "\<dots> = digit_val c * 10 ^ length s + digits_val s" by (rule Cons.IH)
  finally have val: "digits_val (c # s) = digit_val c * 10 ^ length s + digits_val s" .
  have "digits_val_acc a (c # s) = digits_val_acc (10 * a + digit_val c) s" by simp
  also have "\<dots> = (10 * a + digit_val c) * 10 ^ length s + digits_val s" by (rule Cons.IH)
  finally show ?case using val by (simp add: algebra_simps)
qed

lemma digits_val_Nil [simp]: "digits_val [] = 0"
  by (simp add: digits_val_def)

lemma digits_val_Cons: "digits_val (c # s) = digit_val c * 10 ^ length s + digits_val s"
  by (simp add: digits_val_def digits_val_acc_eq [of "digit_val c"])

lemma digits_val_append: "digits_val (s @ t) = digits_val s * 10 ^ length t + digits_val t"
  by (induction s) (simp_all add: digits_val_Cons power_add algebra_simps)

lemma digits_val_replicate [simp]: "digits_val (replicate n (CHR ''0'')) = 0"
  by (induction n) (simp_all add: digits_val_Cons)

lemma digits_val_pad_start [simp]: "digits_val (pad_start n (CHR ''0'') s) = digits_val s"
  by (simp add: pad_start_def digits_val_append)

lemma digits_val_pad_end:
  "length s \<le> n \<Longrightarrow> digits_val (pad_end n (CHR ''0'') s) = digits_val s * 10 ^ (n - length s)"
  by (simp add: pad_end_def digits_val_append)

lemma digits_val_less: "all_digits s \<Longrightarrow> digits_val s < 10 ^ length s"
proof (induction s)
  case Nil
  then show ?case by simp
next
  case (Cons c s)
  then have "digit_val c \<le> 9" by (auto simp: is_digit_def digit_val_def)
  then have a: "digit_val c * 10 ^ length s \<le> 9 * 10 ^ length s" by simp
  have b: "digits_val s < 10 ^ length s" using Cons by simp
  have "digits_val (c # s) < 9 * 10 ^ length s + 10 ^ length s"
    unfolding digits_val_Cons by (rule add_le_less_mono [OF a b])
  then show ?case by simp
qed

lemma show_nat_all_digits [simp]: "all_digits (show_nat n)"
proof (induction n rule: show_nat.induct)
  case (1 n)
  then show ?case by (subst show_nat.simps) auto
qed

lemma digits_val_show_nat [simp]: "digits_val (show_nat n) = n"
proof (induction n rule: show_nat.induct)
  case (1 n)
  then show ?case
    by (subst show_nat.simps) (auto simp: digits_val_append digits_val_Cons)
qed

lemma show_nat_nonempty [simp]: "show_nat n \<noteq> []"
  by (subst show_nat.simps) simp

lemma show_nat_inject [simp]: "show_nat m = show_nat n \<longleftrightarrow> m = n"
  by (metis digits_val_show_nat)

lemma digit_head_not_minus: "all_digits s \<Longrightarrow> s = c # cs \<Longrightarrow> c \<noteq> CHR ''-''"
  by auto

lemma bigint_digits: "all_digits s \<Longrightarrow> bigint s = int (digits_val s)"
  by (cases s) (auto simp: bigint_def)

lemma bigint_neg: "bigint (CHR ''-'' # s) = - int (digits_val s)"
  by (simp add: bigint_def)

lemma bigint_show_int [simp]: "bigint (show_int v) = v"
  by (auto simp: show_int_def bigint_digits bigint_neg)

lemma split_on_nonempty [simp]: "split_on c s \<noteq> []"
  by (induction s) (auto split: list.splits)

lemma split_on_none: "c \<notin> set s \<Longrightarrow> split_on c s = [s]"
  by (induction s) auto

lemma split_on_first: "c \<notin> set s \<Longrightarrow> split_on c (s @ c # t) = s # split_on c t"
  by (induction s) auto

lemma strip_zeros_decomp: "\<exists>n. s = strip_zeros s @ replicate n (CHR ''0'')"
proof -
  let ?z = "\<lambda>c. c = CHR ''0''"
  have eq: "rev s = takeWhile ?z (rev s) @ dropWhile ?z (rev s)" by simp
  have "takeWhile ?z (rev s) = replicate (length (takeWhile ?z (rev s))) (CHR ''0'')"
    by (rule replicate_length_same [symmetric]) (auto dest: set_takeWhileD)
  then obtain n where n: "takeWhile ?z (rev s) = replicate n (CHR ''0'')" by blast
  have "s = rev (dropWhile ?z (rev s)) @ rev (takeWhile ?z (rev s))"
    by (metis eq rev_append rev_rev_ident)
  then show ?thesis using n by (metis rev_replicate strip_zeros_def)
qed

lemma strip_zeros_length: "length (strip_zeros s) \<le> length s"
  by (metis strip_zeros_decomp length_append le_add1)

lemma strip_zeros_digits: "all_digits s \<Longrightarrow> all_digits (strip_zeros s)"
  by (metis strip_zeros_decomp all_digits_simps(3))

lemma strip_zeros_val:
  "digits_val s = digits_val (strip_zeros s) * 10 ^ (length s - length (strip_zeros s))"
proof -
  obtain n where n: "s = strip_zeros s @ replicate n (CHR ''0'')" using strip_zeros_decomp by blast
  then have "length s = length (strip_zeros s) + n" by (metis length_append length_replicate)
  moreover have "digits_val s = digits_val (strip_zeros s) * 10 ^ n"
    by (subst n) (simp add: digits_val_append)
  ultimately show ?thesis by simp
qed

section \<open>Patterns\<close>

definition is_hex :: "char \<Rightarrow> bool" where
  "is_hex c \<longleftrightarrow> is_digit c \<or> c \<in> set ''abcdefABCDEF''"

text \<open>
  The UUID pattern of the services: 8-4-4-4-12 hexadecimal digits, a version digit
  from 1 to 5 and a variant digit among 8, 9, a and b, case ignored.
\<close>

definition is_uuid :: "str \<Rightarrow> bool" where
  "is_uuid s \<longleftrightarrow> length s = 36
     \<and> s ! 8 = CHR ''-'' \<and> s ! 13 = CHR ''-'' \<and> s ! 18 = CHR ''-'' \<and> s ! 23 = CHR ''-''
     \<and> list_all is_hex (take 8 s) \<and> list_all is_hex (take 4 (drop 9 s))
     \<and> s ! 14 \<in> set ''12345'' \<and> list_all is_hex (take 3 (drop 15 s))
     \<and> s ! 19 \<in> set ''89abAB'' \<and> list_all is_hex (take 3 (drop 20 s))
     \<and> list_all is_hex (drop 24 s)"

definition is_date :: "str \<Rightarrow> bool" where
  "is_date s \<longleftrightarrow> length s = 10 \<and> s ! 4 = CHR ''-'' \<and> s ! 7 = CHR ''-''
     \<and> all_digits (take 4 s) \<and> all_digits (take 2 (drop 5 s)) \<and> all_digits (drop 8 s)"

text \<open>A strong numeric entity tag: \<open>/^"([0-9]+)"$/\<close>, its digits on a match.\<close>

definition etag_digits :: "str \<Rightarrow> str option" where
  "etag_digits s =
     (if length s \<ge> 3 \<and> hd s = CHR 34 \<and> last s = CHR 34
         \<and> all_digits (butlast (tl s))
      then Some (butlast (tl s)) else None)"

definition max_safe_integer :: int where
  "max_safe_integer = 9007199254740991"

lemma etag_digits_of_version:
  "etag_digits (CHR 34 # show_nat n @ [CHR 34]) = Some (show_nat n)"
  by (auto simp: etag_digits_def Suc_le_eq)

section \<open>Instants of calendar dates\<close>

text \<open>
  \<open>new Date('YYYY-MM-DDT00:00:00.000Z')\<close> in milliseconds: the proleptic Gregorian day
  count from 1970-01-01 times the milliseconds of a day.
\<close>

definition days_from_civil :: "int \<Rightarrow> int \<Rightarrow> int \<Rightarrow> int" where
  "days_from_civil y m d =
     (let y' = (if m \<le> 2 then y - 1 else y);
          era = y' div 400;
          yoe = y' - era * 400;
          doy = (153 * (if m > 2 then m - 3 else m + 9) + 2) div 5 + d - 1;
          doe = yoe * 365 + yoe div 4 - yoe div 100 + doy
      in era * 146097 + doe - 719468)"

definition utc_midnight :: "str \<Rightarrow> instant" where
  "utc_midnight s =
     days_from_civil (int (digits_val (take 4 s))) (int (digits_val (take 2 (drop 5 s))))
       (int (digits_val (take 2 (drop 8 s)))) * 86400000"

definition utc_end_of_day :: "str \<Rightarrow> instant" where
  "utc_end_of_day s = utc_midnight s + 86399999"

lemma utc_midnight_epoch: "utc_midnight ''1970-01-01'' = 0"
  by (simp add: utc_midnight_def days_from_civil_def digits_val_Cons digit_val_def)

section \<open>Evaluation on integers\<close>

text \<open>
  Code equations for the numeric texts that stay with binary integers, so that amounts are
  evaluated in the kernel without unary numbers.
\<close>

fun digits_int_acc :: "int \<Rightarrow> str \<Rightarrow> int" where
  "digits_int_acc a [] = a"
| "digits_int_acc a (c # cs) = digits_int_acc (10 * a + int (digit_val c)) cs"

lemma digits_int_acc_nat: "digits_int_acc (int a) s = int (digits_val_acc a s)"
proof (induction s arbitrary: a)
  case (Cons c s)
  then show ?case using Cons [of "10 * a + digit_val c"] by simp
qed simp

lemma digits_int: "int (digits_val s) = digits_int_acc 0 s"
  using digits_int_acc_nat [of 0 s] by (simp add: digits_val_def)

lemma bigint_code [code]:
  "bigint s = (case s of [] \<Rightarrow> 0
     | c # cs \<Rightarrow> if c = CHR ''-'' then - digits_int_acc 0 cs else digits_int_acc 0 s)"
  by (simp add: bigint_def digits_int split: list.split)

function show_digits :: "int \<Rightarrow> str" where
  "show_digits v = (if v < 10 then [digit_char (nat v)]
     else show_digits (v div 10) @ [digit_char (nat (v mod 10))])"
  by auto
termination by (relation "measure nat") auto

declare show_digits.simps [simp del]

lemma show_digits_nat: "show_digits (int n) = show_nat n"
proof (induction n rule: show_nat.induct)
  case (1 n)
  show ?case
  proof (cases "n < 10")
    case True
    then show ?thesis by (simp add: show_digits.simps [of "int n"] show_nat.simps [of n])
  next
    case False
    then have "show_digits (int n div 10) = show_nat (n div 10)"
      using 1 by (simp add: zdiv_int)
    moreover have "nat (int n mod 10) = n mod 10" by (simp add: nat_mod_distrib)
    ultimately show ?thesis
      using False by (simp add: show_digits.simps [of "int n"] show_nat.simps [of n])
  qed
qed

lemma show_nat_digits: "0 \<le> v \<Longrightarrow> show_nat (nat v) = show_digits v"
  using show_digits_nat [of "nat v"] by simp

lemma show_int_code [code]:
  "show_int v = (if v < 0 then CHR ''-'' # show_digits (- v) else show_digits v)"
  by (simp add: show_int_def show_nat_digits)

end
