(* ===== verification/Json_Digest.thy ===== *)
theory Json_Digest
  imports Js_Text
begin

text \<open>
  The helpers of \<open>common/http.ts\<close>: the JSON values a request or a \<open>jsonb\<close> column holds, the
  canonical rendering \<open>stableJson\<close> with the keys of every object sorted, the command digest
  computed from it, the request id and the parsing of cookies.

  \<open>localeCompare\<close>, the HMAC and the hash are arguments: the collation of the host and the
  cryptographic primitives are not part of the repository.
\<close>

section \<open>Text searches\<close>

fun starts_with :: "str \<Rightarrow> str \<Rightarrow> bool" where
  "starts_with [] s = True"
| "starts_with (p # ps) [] = False"
| "starts_with (p # ps) (c # s) = (p = c \<and> starts_with ps s)"

fun contains :: "str \<Rightarrow> str \<Rightarrow> bool" where
  "contains p [] = (p = [])"
| "contains p (c # s) = (starts_with p (c # s) \<or> contains p s)"

section \<open>JSON values\<close>

text \<open>
  A number is rendered by \<open>JSON.stringify\<close>; the requests of the modelled handlers only hold
  integers. An object is the list of its entries in the order \<open>Object.entries\<close> gives, with
  distinct keys. A field of a request class that the client left out is an entry whose value
  is \<open>JUndefined\<close>: a template literal renders it \<open>undefined\<close>, \<open>join\<close> renders it empty.
\<close>

datatype json =
    JUndefined
  | JNull
  | JBool bool
  | JNumber int
  | JString str
  | JArray "json list"
  | JObject "(str \<times> json) list"

definition hex_digit :: "nat \<Rightarrow> char" where
  "hex_digit d = (if d < 10 then char_of (48 + d) else char_of (87 + d))"

definition json_char :: "char \<Rightarrow> str" where
  "json_char c =
     (let n = (of_char c :: nat) in
      if n = 34 then [CHR 92, CHR 34]
      else if n = 92 then [CHR 92, CHR 92]
      else if n = 8 then [CHR 92, CHR ''b'']
      else if n = 9 then [CHR 92, CHR ''t'']
      else if n = 10 then [CHR 92, CHR ''n'']
      else if n = 12 then [CHR 92, CHR ''f'']
      else if n = 13 then [CHR 92, CHR ''r'']
      else if n < 32 then [CHR 92, CHR ''u'', CHR ''0'', CHR ''0'',
        hex_digit (n div 16), hex_digit (n mod 16)]
      else [c])"

definition json_text :: "str \<Rightarrow> str" where
  "json_text s = [CHR 34] @ concat (map json_char s) @ [CHR 34]"

section \<open>The canonical rendering\<close>

text \<open>
  \<open>Object.entries(value).sort(([a], [b]) => a.localeCompare(b))\<close>: a stable sort by the
  comparator, here insertion from the right, so entries the comparator calls equal keep
  their order.
\<close>

fun insert_entry :: "(str \<Rightarrow> str \<Rightarrow> int) \<Rightarrow> str \<times> 'a \<Rightarrow> (str \<times> 'a) list \<Rightarrow> (str \<times> 'a) list" where
  "insert_entry cmp e [] = [e]"
| "insert_entry cmp e (f # fs) =
     (if cmp (fst e) (fst f) \<le> 0 then e # f # fs else f # insert_entry cmp e fs)"

definition sort_entries :: "(str \<Rightarrow> str \<Rightarrow> int) \<Rightarrow> (str \<times> 'a) list \<Rightarrow> (str \<times> 'a) list" where
  "sort_entries cmp es = foldr (insert_entry cmp) es []"

lemma set_insert_entry [simp]: "set (insert_entry cmp e fs) = insert e (set fs)"
  by (induction fs) auto

lemma set_sort_entries [simp]: "set (sort_entries cmp es) = set es"
  by (induction es) (auto simp: sort_entries_def)

fun stableJson :: "(str \<Rightarrow> str \<Rightarrow> int) \<Rightarrow> json \<Rightarrow> str" where
  "stableJson cmp JUndefined = ''undefined''"
| "stableJson cmp JNull = ''null''"
| "stableJson cmp (JBool b) = (if b then ''true'' else ''false'')"
| "stableJson cmp (JNumber n) = show_int n"
| "stableJson cmp (JString s) = json_text s"
| "stableJson cmp (JArray vs) = ''['' @ join_with '',''
     (map (\<lambda>v. if v = JUndefined then [] else stableJson cmp v) vs) @ '']''"
| "stableJson cmp (JObject es) =
     ''{'' @ join_with '','' (map (\<lambda>e. json_text (fst e) @ '':'' @ snd e)
       (sort_entries cmp (map (\<lambda>e. (fst e, stableJson cmp (snd e))) es))) @ ''}''"

section \<open>Digests\<close>

text \<open>
  \<open>digest\<close> and \<open>commandDigest\<close>: the key is the decoded
  \<open>COMMAND_DIGEST_HMAC_KEY_BASE64\<close>; a key of fewer than 32 bytes is an \<open>Error\<close>.
\<close>

record http_env =
  he_sha256 :: "str \<Rightarrow> str"
  he_hmac :: "str \<Rightarrow> str \<Rightarrow> str"
  he_localeCompare :: "str \<Rightarrow> str \<Rightarrow> int"
  he_commandKey :: str

definition digest :: "('z http_env_scheme) \<Rightarrow> str \<Rightarrow> str" where
  "digest env value = he_sha256 env value"

definition digest_message :: "(str \<Rightarrow> str \<Rightarrow> int) \<Rightarrow> str \<Rightarrow> json \<Rightarrow> str" where
  "digest_message cmp scope value =
     ''treasury-command-digest:v1'' @ [char_of (0 :: nat)] @ scope @ [char_of (0 :: nat)]
       @ stableJson cmp value"

definition commandDigest :: "('z http_env_scheme) \<Rightarrow> str \<Rightarrow> json \<Rightarrow> str res" where
  "commandDigest env scope value =
     (if length (he_commandKey env) < 32
      then Inl (Message ''COMMAND_DIGEST_HMAC_KEY_BASE64 is invalid'')
      else Inr (he_hmac env (he_commandKey env)
        (digest_message (he_localeCompare env) scope value)))"

section \<open>Request ids and cookies\<close>

definition requestId :: "uuid \<Rightarrow> str option \<Rightarrow> str" where
  "requestId fresh value =
     (case value of Some v \<Rightarrow> if v \<noteq> [] \<and> length v \<le> 128 then v else fresh | None \<Rightarrow> fresh)"

text \<open>
  \<open>decodeURIComponent\<close> on Latin-1 text: a percent sign is followed by two hexadecimal
  digits of an ASCII byte; anything else throws. Multi-byte sequences fall outside the
  characters of this model and are reported as a failure.
\<close>

definition hex_val :: "char \<Rightarrow> nat" where
  "hex_val c = (if is_digit c then digit_val c
     else if (of_char c :: nat) \<ge> 97 then of_char c - 87 else of_char c - 55)"

fun decodeURIComponent :: "str \<Rightarrow> str option" where
  "decodeURIComponent [] = Some []"
| "decodeURIComponent (c # s) =
     (if c \<noteq> CHR ''%'' then map_option ((#) c) (decodeURIComponent s)
      else (case s of
          h # l # rest \<Rightarrow>
            if is_hex h \<and> is_hex l \<and> 16 * hex_val h + hex_val l < 128
            then map_option ((#) (char_of (16 * hex_val h + hex_val l))) (decodeURIComponent rest)
            else None
        | _ \<Rightarrow> None))"

definition parse_cookie :: "str \<Rightarrow> (str \<rightharpoonup> str) \<Rightarrow> (str \<rightharpoonup> str)" where
  "parse_cookie part cookies =
     (if CHR ''='' \<notin> set part then cookies(trim part \<mapsto> [])
      else (let name = takeWhile (\<lambda>c. c \<noteq> CHR ''='') part;
                value = drop (length name + 1) part
            in (case decodeURIComponent value of
                  Some v \<Rightarrow> cookies(trim name \<mapsto> v)
                | None \<Rightarrow> cookies)))"

definition parseCookies :: "str option \<Rightarrow> (str \<rightharpoonup> str)" where
  "parseCookies header =
     (case header of
        None \<Rightarrow> Map.empty
      | Some h \<Rightarrow> if h = [] then Map.empty
          else fold parse_cookie (split_on (CHR '';'') h) Map.empty)"

end
