(* ===== verification/Access_Views.thy ===== *)
theory Access_Views
  imports Json_Digest
begin

text \<open>
  The values the access administration answers with (\<open>access-control/access-admin.repository.ts\<close>
  and \<open>access-admin.dto.ts\<close>): the canonical scope of a grant and the views of a role, a grant,
  an approval policy and a delegation. A key the source spreads conditionally is an option.
\<close>

record grant_money =
  my_amount :: str
  my_currency :: str

record canonical_scope =
  sk_branchIds :: "uuid list"
  sk_treasuryUnitIds :: "uuid list"
  sk_cashboxIds :: "uuid list"
  sk_bankAccountIds :: "uuid list"
  sk_documentTypes :: "str list"
  sk_methodCategories :: "str list"
  sk_currencies :: "str list"
  sk_amountCeiling :: "grant_money option"

record labelled =
  lb_id :: uuid
  lb_label :: str

record role_view =
  rw_id :: uuid
  rw_code :: str
  rw_name :: str
  rw_state :: str
  rw_version :: int
  rw_createdAt :: instant
  rw_updatedAt :: instant
  rw_permissions :: "str list"

record grant_view =
  gw_id :: uuid
  gw_userId :: uuid
  gw_roleId :: uuid
  gw_organizationWide :: bool
  gw_scope :: "canonical_scope option"
  gw_validFrom :: instant
  gw_validTo :: "instant option"
  gw_reason :: "str option"
  gw_state :: str
  gw_version :: int
  gw_createdAt :: instant
  gw_updatedAt :: instant

record policy_scope_view =
  ws_branch :: "labelled option"
  ws_treasuryUnit :: "labelled option"
  ws_currency :: "str option"
  ws_methodCategory :: "str option"
  ws_minimumBaseAmount :: "str option"
  ws_maximumBaseAmount :: "str option"

record policy_step_view =
  wt_id :: uuid
  wt_order :: int
  wt_role :: "labelled option"
  wt_approver :: "labelled option"
  wt_approvalsRequired :: int

record payment_aggregation =
  wa_windowKind :: str
  wa_keys :: "str list"
  wa_overrideRequiresSecondApproval :: bool

record policy_view =
  pw_id :: uuid
  pw_code :: str
  pw_documentType :: str
  pw_organizationWide :: bool
  pw_scope :: "policy_scope_view option"
  pw_steps :: "policy_step_view list"
  pw_separationRules :: "str list"
  pw_paymentAggregation :: "payment_aggregation option"
  pw_state :: str
  pw_policyVersion :: int
  pw_createdAt :: instant
  pw_updatedAt :: instant

record delegation_scope_view =
  ds_branch :: "labelled option"
  ds_treasuryUnit :: "labelled option"
  ds_documentType :: "str option"
  ds_methodCategory :: "str option"
  ds_currency :: "str option"
  ds_amountCeiling :: "grant_money option"

record delegation_view =
  dv_id :: uuid
  dv_accessGrant :: labelled
  dv_sourceGrantVersion :: int
  dv_grantor :: labelled
  dv_delegate :: labelled
  dv_scope :: delegation_scope_view
  dv_reason :: str
  dv_validFrom :: instant
  dv_validTo :: instant
  dv_revoked :: "(instant \<times> labelled \<times> str) option"
  dv_state :: str
  dv_createdAt :: instant

datatype access_response =
    RoleResponse role_view
  | GrantResponse grant_view
  | PolicyResponse policy_view
  | DelegationResponse delegation_view

end
