(* ===== verification/Transfer_Views.thy ===== *)
theory Transfer_Views
  imports Access_Views
begin

text \<open>
  The request bodies and the responses of the transfer routes (\<open>transfers/transfer.dto.ts\<close>). The
  enumerations of endpoints, routes and assets are the texts the database stores; the predicates
  say what a validated body may hold. A key the source spreads conditionally is an option, and a
  timestamp is the instant that \<open>toISOString\<close> renders.
\<close>

section \<open>Request bodies\<close>

definition is_endpoint_type :: "str \<Rightarrow> bool" where
  "is_endpoint_type t \<longleftrightarrow> t \<in> {''CASHBOX'', ''BANK_ACCOUNT'', ''USER''}"

definition is_transfer_route :: "str \<Rightarrow> bool" where
  "is_transfer_route r \<longleftrightarrow> r \<in> {''CASHBOX_TO_CASHBOX'', ''CASHBOX_TO_BANK'', ''BANK_TO_CASHBOX'',
     ''BANK_TO_BANK'', ''CASHBOX_TO_USER'', ''USER_TO_CASHBOX'', ''USER_TO_USER'', ''BRANCH_TRANSFER'',
     ''CURRENCY_EXCHANGE'', ''PETTY_CASH''}"

definition is_asset_type :: "str \<Rightarrow> bool" where
  "is_asset_type t \<longleftrightarrow>
     t \<in> {''RECEIVED_CHEQUE'', ''ISSUED_CHEQUE'', ''DOCUMENT'', ''OTHER_CONTROLLED''}"

datatype transfer_approval_action = APPROVE | REJECT

record transfer_money =
  tm_amount :: str
  tm_currency :: str

record transfer_endpoint =
  te_type :: str
  te_id :: uuid

record transfer_asset =
  ta_type :: str
  ta_id :: uuid
  ta_quantity :: "str option"

record transfer_attachment =
  tt_id :: uuid
  tt_contentDigest :: str
  tt_purpose :: "str option"

text \<open>
  Each body keeps, beside its decoded fields, the request object that the command digest and the
  null checks read.
\<close>

record transfer_create =
  tc_businessDate :: str
  tc_route :: str
  tc_source :: transfer_endpoint
  tc_destination :: transfer_endpoint
  tc_sourceMoney :: transfer_money
  tc_destinationCurrency :: str
  tc_expectedReceiptAt :: "str option"
  tc_purpose :: str
  tc_accountingDimensions :: "(str \<times> json) list option"
  tc_assets :: "transfer_asset list option"
  tc_attachments :: "transfer_attachment list option"
  tc_body :: json

record transfer_action_dto =
  tn_action :: transfer_approval_action
  tn_reason :: "str option"
  tn_body :: json

record transfer_acknowledge_dto =
  tk_receivedMoney :: transfer_money
  tk_receivedAt :: str
  tk_receivedAssetIds :: "uuid list option"
  tk_discrepancyReason :: "str option"
  tk_attachments :: "transfer_attachment list option"
  tk_body :: json

section \<open>Views\<close>

record transfer_endpoint_view = transfer_endpoint +
  te_resource :: labelled

record transfer_rate_snapshot =
  tr_sourceCurrency :: str
  tr_targetCurrency :: str
  tr_rate :: str
  tr_rateType :: str
  tr_rateSource :: str
  tr_ratedAt :: instant
  tr_rateRecordId :: "uuid option"
  tr_targetAmount :: str
  tr_roundingDifference :: str

record transfer_asset_view =
  tav_type :: str
  tav_id :: uuid
  tav_asset :: labelled
  tav_quantity :: str
  tav_state :: str

record transfer_evidence_ref =
  tev_attachmentId :: uuid
  tev_attachment :: labelled
  tev_digest :: str
  tev_purpose :: "str option"

record transfer_step_view =
  tsv_order :: int
  tsv_roleId :: "uuid option"
  tsv_role :: "labelled option"
  tsv_approverUserId :: "uuid option"
  tsv_approver :: "labelled option"
  tsv_approvalsRequired :: int
  tsv_approvalsRecorded :: nat
  tsv_separationRules :: "str list"
  tsv_sourceContextOrders :: "int list"
  tsv_state :: str

record transfer_action_view =
  tqv_id :: uuid
  tqv_approvalSnapshotId :: uuid
  tqv_approvalSnapshotStepId :: uuid
  tqv_stepOrder :: int
  tqv_actorUserId :: uuid
  tqv_actor :: labelled
  tqv_delegatedFromUserId :: "uuid option"
  tqv_delegatedFrom :: "labelled option"
  tqv_action :: str
  tqv_reason :: "str option"
  tqv_actedAt :: instant

record transfer_policy_context =
  tpc_order :: int
  tpc_currency :: str
  tpc_policyId :: uuid
  tpc_policy :: labelled
  tpc_policyVersion :: int

record transfer_snapshot_view =
  tnv_id :: uuid
  tnv_documentVersion :: int
  tnv_amountBasis :: transfer_money
  tnv_evaluatedAt :: instant
  tnv_policyContexts :: "transfer_policy_context list"
  tnv_steps :: "transfer_step_view list"
  tnv_actions :: "transfer_action_view list"
  tnv_state :: str

record transfer_release_view =
  trv_releasedByUserId :: uuid
  trv_releasedBy :: labelled
  trv_releasedAt :: instant

record transfer_receipt_view =
  tcv_receivedByUserId :: uuid
  tcv_receivedBy :: labelled
  tcv_receivedMoney :: transfer_money
  tcv_receivedAt :: instant
  tcv_recordedAt :: instant
  tcv_receivedAssetIds :: "uuid list"
  tcv_discrepancyMoney :: transfer_money
  tcv_discrepancyReason :: "str option"
  tcv_attachments :: "transfer_evidence_ref list"

record transfer_obligation_view =
  tov_id :: uuid
  tov_state :: str
  tov_sourceMoney :: transfer_money
  tov_destinationMoney :: transfer_money
  tov_sourceMovementFactId :: uuid
  tov_destinationMovementFactId :: "uuid option"

record transfer_view =
  tv_id :: uuid
  tv_organizationId :: uuid
  tv_organization :: labelled
  tv_businessNumber :: str
  tv_businessDate :: str
  tv_route :: str
  tv_source :: transfer_endpoint_view
  tv_destination :: transfer_endpoint_view
  tv_sourceMoney :: transfer_money
  tv_destinationMoney :: transfer_money
  tv_rateSnapshot :: transfer_rate_snapshot
  tv_rateRecord :: "labelled option"
  tv_expectedReceiptAt :: "instant option"
  tv_purpose :: str
  tv_accountingDimensions :: "(str \<times> json) list option"
  tv_creatorUserId :: uuid
  tv_creator :: labelled
  tv_sourceCustodianUserId :: "uuid option"
  tv_sourceCustodian :: "labelled option"
  tv_destinationCustodianUserId :: "uuid option"
  tv_destinationCustodian :: "labelled option"
  tv_approvalSnapshot :: "transfer_snapshot_view option"
  tv_assets :: "transfer_asset_view list"
  tv_attachments :: "transfer_evidence_ref list"
  tv_release :: "transfer_release_view option"
  tv_receipt :: "transfer_receipt_view option"
  tv_transitObligation :: "transfer_obligation_view option"
  tv_state :: str
  tv_version :: int
  tv_createdAt :: instant
  tv_updatedAt :: instant

end
