(* ===== verification/Payment_Types.thy ===== *)
theory Payment_Types
  imports Transfer_Views
begin

text \<open>
  The request bodies and the responses of the payment routes (\<open>payments/payment.dto.ts\<close>): the
  patterns a validated body satisfies, a record per request class with its optional fields as
  options, and a record per view. A timestamp of a view is the instant that
  \<open>toISOString\<close> renders.
\<close>

section \<open>Patterns\<close>

definition currency_char :: "char \<Rightarrow> bool" where
  "currency_char c \<longleftrightarrow> is_digit c \<or> (65 \<le> (of_char c :: nat) \<and> (of_char c :: nat) \<le> 90)"

definition is_currency :: "str \<Rightarrow> bool" where
  "is_currency s \<longleftrightarrow> 3 \<le> length s \<and> length s \<le> 8 \<and> list_all currency_char s"

text \<open>
  \<open>POSITIVE_DECIMAL\<close>: a zero whole part needs a nonzero digit after the point, of any length;
  a positive whole part has no leading zero and one to twelve fraction digits, if any.
\<close>

definition is_positive_decimal :: "str \<Rightarrow> bool" where
  "is_positive_decimal s \<longleftrightarrow>
     (take 2 s = ''0.'' \<and> all_digits (drop 2 s) \<and> (\<exists>c \<in> set (drop 2 s). c \<noteq> CHR ''0''))
     \<or> (case split_on (CHR ''.'') s of
          [w] \<Rightarrow> w \<noteq> [] \<and> all_digits w \<and> hd w \<noteq> CHR ''0''
        | [w, f] \<Rightarrow> w \<noteq> [] \<and> all_digits w \<and> hd w \<noteq> CHR ''0''
            \<and> 1 \<le> length f \<and> length f \<le> 12 \<and> all_digits f
        | _ \<Rightarrow> False)"

definition is_content_digest :: "str \<Rightarrow> bool" where
  "is_content_digest s \<longleftrightarrow> length s = 64
     \<and> list_all (\<lambda>c. is_digit c \<or> c \<in> set ''abcdef'') s"

section \<open>Request bodies\<close>

text \<open>
  Every body keeps, beside its decoded fields, the entries of the request object: the command
  digest and the null checks read the object itself.
\<close>

record money =
  mo_amount :: str
  mo_currency :: str

record accounting_dimensions =
  ad_generalAccount :: "str option"
  ad_subsidiaryAccount :: "str option"
  ad_detailAccount :: "str option"
  ad_floatingDetail :: "str option"
  ad_costCenter :: "str option"
  ad_project :: "str option"
  ad_branch :: "str option"

record attachment_ref =
  ar_id :: uuid
  ar_contentDigest :: str
  ar_purpose :: "str option"

record payment_request_create =
  qc_beneficiaryPartyId :: uuid
  qc_requestedMoney :: money
  qc_branchId :: "uuid option"
  qc_treasuryUnitId :: "uuid option"
  qc_dueDate :: "str option"
  qc_purpose :: str
  qc_contractRef :: "str option"
  qc_invoiceRef :: "str option"
  qc_accountingDimensions :: "accounting_dimensions option"
  qc_attachments :: "attachment_ref list option"
  qc_body :: json

record payment_line_input =
  li_lineNumber :: int
  li_methodId :: uuid
  li_money :: money
  li_cashboxId :: "uuid option"
  li_bankAccountId :: "uuid option"
  li_beneficiaryPartyId :: uuid
  li_beneficiaryAccountReference :: "str option"
  li_trackingNumber :: "str option"
  li_dueDate :: "str option"
  li_description :: "str option"
  li_accountingDimensions :: "accounting_dimensions option"
  li_attachments :: "attachment_ref list option"

record payment_create =
  cr_businessDate :: str
  cr_beneficiaryPartyId :: uuid
  cr_branchId :: "uuid option"
  cr_treasuryUnitId :: uuid
  cr_baseCurrency :: str
  cr_purpose :: str
  cr_dueDate :: "str option"
  cr_lines :: "payment_line_input list"
  cr_body :: json

datatype payment_approval_action = APPROVE | REJECT | RETURN

record payment_approval_action_dto =
  aa_action :: payment_approval_action
  aa_reason :: "str option"
  aa_body :: json

record separation_override =
  so_reason :: str
  so_independentApprovalActionId :: uuid

record payment_execute =
  ex_separationOverride :: separation_override
  ex_body :: json

record payment_reverse =
  rv_reason :: str
  rv_businessDate :: str
  rv_body :: "(str \<times> json) list"

section \<open>Responses\<close>

record semantic_ref =
  sr_id :: str
  sr_label :: str

record evidence_ref =
  ev_id :: uuid
  ev_label :: str
  ev_contentDigest :: str
  ev_purpose :: "str option"

record rate_snapshot =
  rs_sourceCurrency :: str
  rs_targetCurrency :: str
  rs_rate :: str
  rs_rateType :: str
  rs_rateSource :: str
  rs_ratedAt :: instant
  rs_rateRecordId :: "uuid option"
  rs_targetAmount :: str
  rs_roundingDifference :: str

record policy_context_view =
  xv_order :: int
  xv_firstLineNumber :: int
  xv_currency :: str
  xv_methodCategory :: str
  xv_policyId :: uuid
  xv_policy :: semantic_ref
  xv_policyVersion :: int

record approval_action_view =
  av_id :: uuid
  av_approvalSnapshotId :: uuid
  av_approvalSnapshotStepId :: "uuid option"
  av_stepOrder :: "int option"
  av_actorUserId :: uuid
  av_actor :: semantic_ref
  av_delegatedFromUserId :: "uuid option"
  av_delegatedFrom :: "semantic_ref option"
  av_action :: str
  av_reason :: "str option"
  av_actedAt :: instant

record snapshot_step_view =
  tv_order :: int
  tv_roleId :: "uuid option"
  tv_role :: "semantic_ref option"
  tv_approverUserId :: "uuid option"
  tv_approver :: "semantic_ref option"
  tv_approvalsRequired :: int
  tv_approvalsRecorded :: nat
  tv_separationRules :: "str list"
  tv_sourceContextOrders :: "int list"
  tv_state :: str

record participant_view =
  wv_paymentId :: uuid
  wv_payment :: semantic_ref
  wv_versionBasis :: str
  wv_paymentVersion :: int
  wv_baseAmount :: money

record aggregation_view =
  gv_businessDate :: str
  gv_keys :: "str list"
  gv_participants :: "participant_view list"

record approval_snapshot_view =
  sv_id :: uuid
  sv_documentVersion :: int
  sv_amountBasis :: money
  sv_evaluatedAt :: instant
  sv_policyContexts :: "policy_context_view list"
  sv_steps :: "snapshot_step_view list"
  sv_actions :: "approval_action_view list"
  sv_paymentAggregation :: "aggregation_view option"
  sv_state :: str

record approval_progress =
  apg_state :: str
  apg_completedSteps :: int
  apg_requiredSteps :: int

record payment_request_view =
  qv_id :: uuid
  qv_organizationId :: uuid
  qv_organization :: semantic_ref
  qv_businessNumber :: str
  qv_requesterUserId :: uuid
  qv_requester :: semantic_ref
  qv_beneficiaryPartyId :: uuid
  qv_beneficiary :: semantic_ref
  qv_requestedMoney :: money
  qv_branchId :: "uuid option"
  qv_branch :: "semantic_ref option"
  qv_treasuryUnitId :: "uuid option"
  qv_treasuryUnit :: "semantic_ref option"
  qv_dueDate :: "str option"
  qv_purpose :: str
  qv_contractRef :: "str option"
  qv_invoiceRef :: "str option"
  qv_accountingDimensions :: "accounting_dimensions option"
  qv_attachments :: "evidence_ref list option"
  qv_approvalProgress :: approval_progress
  qv_state :: str
  qv_version :: int
  qv_createdAt :: instant
  qv_updatedAt :: instant

record execution_effect_view =
  xe_paymentEffectId :: uuid
  xe_effectKey :: str
  xe_effectType :: str
  xe_effect :: semantic_ref
  xe_direction :: str
  xe_money :: money
  xe_businessDate :: str
  xe_sourceVersion :: int
  xe_reversalOfEffectId :: "uuid option"

record payment_line_view =
  lv_id :: uuid
  lv_lineNumber :: int
  lv_methodId :: uuid
  lv_method :: semantic_ref
  lv_methodBehaviorCategory :: str
  lv_methodRequiredReferences :: "str list"
  lv_requiresApproval :: bool
  lv_money :: money
  lv_baseAmount :: money
  lv_rateSnapshot :: rate_snapshot
  lv_rateRecord :: "semantic_ref option"
  lv_cashboxId :: "uuid option"
  lv_cashbox :: "semantic_ref option"
  lv_bankAccountId :: "uuid option"
  lv_bankAccount :: "semantic_ref option"
  lv_beneficiaryPartyId :: uuid
  lv_beneficiary :: semantic_ref
  lv_beneficiaryAccountReference :: "str option"
  lv_trackingNumber :: "str option"
  lv_dueDate :: "str option"
  lv_description :: "str option"
  lv_accountingDimensions :: "accounting_dimensions option"
  lv_attachments :: "evidence_ref list option"
  lv_executedAt :: "instant option"
  lv_executedByUserId :: "uuid option"
  lv_executedBy :: "semantic_ref option"
  lv_executionEffects :: "execution_effect_view list option"
  lv_state :: str
  lv_version :: int

record payment_view =
  vw_id :: uuid
  vw_organizationId :: uuid
  vw_organization :: semantic_ref
  vw_businessNumber :: str
  vw_businessDate :: str
  vw_beneficiaryPartyId :: uuid
  vw_beneficiary :: semantic_ref
  vw_paymentRequestId :: "uuid option"
  vw_paymentRequest :: "semantic_ref option"
  vw_branchId :: "uuid option"
  vw_branch :: "semantic_ref option"
  vw_treasuryUnitId :: uuid
  vw_treasuryUnit :: semantic_ref
  vw_baseCurrency :: str
  vw_baseCurrencyRef :: semantic_ref
  vw_purpose :: str
  vw_dueDate :: "str option"
  vw_creatorUserId :: uuid
  vw_creator :: semantic_ref
  vw_totalBaseAmount :: money
  vw_lines :: "payment_line_view list"
  vw_approvalSnapshot :: "approval_snapshot_view option"
  vw_reversedPaymentId :: "uuid option"
  vw_reversedPayment :: "semantic_ref option"
  vw_state :: str
  vw_workflowState :: str
  vw_executionState :: str
  vw_accountingState :: str
  vw_version :: int
  vw_createdAt :: instant
  vw_updatedAt :: instant

record payment_page =
  pg_items :: "payment_view list"
  pg_limit :: int
  pg_hasMore :: bool
  pg_nextCursor :: "str option"
  pg_asOf :: instant

record payment_reversal_result =
  rr_original :: payment_view
  rr_reversal :: payment_view

text \<open>What the \<open>response_body\<close> column of an idempotency record holds.\<close>

datatype response =
    RequestResponse (request_response: payment_request_view)
  | PaymentResponse (payment_response: payment_view)
  | AccessResponse (access_response: access_response)
  | TransferResponse (transfer_response: transfer_view)

end
