(* ===== verification/Decimal_Text.thy ===== *)
theory Decimal_Text
  imports Complex_Main Js_Text
begin

text \<open>
  Decimal arithmetic on strings with \<open>BigInt\<close>, as the services do it: amounts, rates
  and totals are strings in the database and in requests, and every computation parses
  them, works on integers at a common scale and prints the result.

  \<^item> \<open>decimalParts\<close>, \<open>compareDecimal\<close>, \<open>scaled\<close>, \<open>formatScaled\<close> and
    \<open>deriveTarget\<close> are the helpers at the end of \<open>payments/payment.service.ts\<close>;
  \<^item> the \<open>approval\<close> ones are those of \<open>payments/payment-approval.service.ts\<close>;
  \<^item> \<open>decimal8\<close> and \<open>amountString\<close> are those of \<open>payments/payment-execution.service.ts\<close>
    and of the two effect services, \<open>decimal12\<close> that of the authorization service.

  The value of a decimal string is the rational \<open>dec_rat\<close>; the lemmas relate every
  routine to it. The two fixed-point readings meet one interface, \<open>fixed_point\<close>.
\<close>

section \<open>Decimal strings and their values\<close>

definition whole_part :: "str \<Rightarrow> str" where
  "whole_part s = hd (split_on (CHR ''.'') s)"

definition fraction_part :: "str \<Rightarrow> str" where
  "fraction_part s = (case split_on (CHR ''.'') s of _ # f # _ \<Rightarrow> f | _ \<Rightarrow> [])"

definition is_decimal :: "str \<Rightarrow> bool" where
  "is_decimal s \<longleftrightarrow> (case split_on (CHR ''.'') s of
     [w] \<Rightarrow> w \<noteq> [] \<and> all_digits w
   | [w, f] \<Rightarrow> w \<noteq> [] \<and> all_digits w \<and> f \<noteq> [] \<and> all_digits f
   | _ \<Rightarrow> False)"

definition frac_digits :: "str \<Rightarrow> nat" where
  "frac_digits s = length (fraction_part s)"

definition dec_rat :: "str \<Rightarrow> rat" where
  "dec_rat s = of_nat (digits_val (whole_part s))
     + of_nat (digits_val (fraction_part s)) / 10 ^ frac_digits s"

lemma split_on_join:
  "split_on c s = w # ws \<Longrightarrow>
     s = (case ws of [] \<Rightarrow> w | _ \<Rightarrow> w @ c # join_with [c] ws)"
proof (induction s arbitrary: w ws)
  case Nil
  then show ?case by simp
next
  case (Cons x s)
  obtain v vs where v: "split_on c s = v # vs" by (meson list.exhaust split_on_nonempty)
  then have s: "s = (case vs of [] \<Rightarrow> v | _ \<Rightarrow> v @ c # join_with [c] vs)" by (rule Cons.IH)
  show ?case
  proof (cases "x = c")
    case True
    then have "w = []" "ws = v # vs" using Cons.prems v by auto
    with s True show ?thesis by (cases vs) auto
  next
    case False
    then have "w = x # v" "ws = vs" using Cons.prems v by auto
    with s show ?thesis by (cases vs) auto
  qed
qed

lemma is_decimalE:
  assumes "is_decimal s"
  obtains w f where "w \<noteq> []" "all_digits w" "all_digits f"
    "s = (if f = [] then w else w @ CHR ''.'' # f)"
    "whole_part s = w" "fraction_part s = f"
proof -
  obtain w ws where sp: "split_on (CHR ''.'') s = w # ws"
    by (meson list.exhaust split_on_nonempty)
  from assms sp consider "ws = []" "w \<noteq> []" "all_digits w"
    | f where "ws = [f]" "w \<noteq> []" "all_digits w" "f \<noteq> []" "all_digits f"
    by (auto simp: is_decimal_def split: list.splits)
  then show ?thesis
  proof cases
    case 1
    then show ?thesis
      using that [of w "[]"] split_on_join [OF sp] sp
      by (simp add: whole_part_def fraction_part_def)
  next
    case 2
    then show ?thesis
      using that [of w f] split_on_join [OF sp] sp
      by (simp add: whole_part_def fraction_part_def)
  qed
qed

lemma decimal_split:
  assumes "all_digits w" "all_digits f"
  shows "split_on (CHR ''.'') (if f = [] then w else w @ CHR ''.'' # f)
    = (if f = [] then [w] else [w, f])"
  using assms by (auto simp: split_on_none split_on_first all_digits_no_dot)

lemma decimal_make:
  assumes "w \<noteq> []" "all_digits w" "all_digits f"
  defines "s \<equiv> if f = [] then w else w @ CHR ''.'' # f"
  shows "is_decimal s" "whole_part s = w" "fraction_part s = f" "frac_digits s = length f"
  unfolding s_def is_decimal_def whole_part_def fraction_part_def frac_digits_def
    decimal_split [OF assms(2,3)]
  using assms(1-3) by auto

lemma dec_rat_make:
  assumes "w \<noteq> []" "all_digits w" "all_digits f"
  shows "dec_rat (if f = [] then w else w @ CHR ''.'' # f)
    = of_nat (digits_val (w @ f)) / 10 ^ length f"
  using decimal_make [OF assms] unfolding dec_rat_def frac_digits_def
  by (simp add: digits_val_append add_divide_distrib)

lemma dec_rat_nonneg [simp]: "0 \<le> dec_rat s"
  by (simp add: dec_rat_def)

section \<open>Helpers of the payment service\<close>

definition js_div :: "int \<Rightarrow> int \<Rightarrow> int" where
  "js_div a b = sgn a * sgn b * (\<bar>a\<bar> div \<bar>b\<bar>)"

definition decimalParts :: "str \<Rightarrow> int \<times> nat" where
  "decimalParts value =
     (let parts = split_on (CHR ''.'') value;
          whole = hd parts;
          rawFraction = (case parts of _ # f # _ \<Rightarrow> f | _ \<Rightarrow> []);
          fraction = strip_zeros rawFraction
      in (bigint (whole @ fraction), length fraction))"

definition decimalPlaces :: "str \<Rightarrow> nat" where
  "decimalPlaces value = snd (decimalParts value)"

definition compareDecimal :: "str \<Rightarrow> str \<Rightarrow> int" where
  "compareDecimal left right =
     (let a = decimalParts left; b = decimalParts right;
          scale = max (snd a) (snd b);
          av = fst a * 10 ^ (scale - snd a);
          bv = fst b * 10 ^ (scale - snd b)
      in if av < bv then -1 else if av > bv then 1 else 0)"

definition scaled :: "str \<Rightarrow> nat \<Rightarrow> int res" where
  "scaled value scale =
     (let parsed = decimalParts value
      in if snd parsed > scale then Inl (Message ''VALIDATION'')
         else Inr (fst parsed * 10 ^ (scale - snd parsed)))"

definition roundDivision :: "int \<Rightarrow> int \<Rightarrow> int" where
  "roundDivision numerator denominator =
     js_div (numerator + js_div denominator 2) denominator"

definition roundSignedDivision :: "int \<Rightarrow> int \<Rightarrow> int" where
  "roundSignedDivision numerator denominator =
     (if numerator < 0 then - roundDivision (- numerator) denominator
      else roundDivision numerator denominator)"

definition formatScaled :: "int \<Rightarrow> nat \<Rightarrow> str" where
  "formatScaled value scale =
     (let negative = value < 0;
          raw = pad_start (scale + 1) (CHR ''0'') (show_nat (nat \<bar>value\<bar>));
          output = (if scale = 0 then raw
                    else take (length raw - scale) raw @ ''.'' @ drop (length raw - scale) raw)
      in (if negative then ''-'' else '''') @ output)"

lemma formatScaled_code [code]:
  "formatScaled value scale =
     (let raw = pad_start (scale + 1) (CHR ''0'') (show_digits \<bar>value\<bar>);
          output = (if scale = 0 then raw
                    else take (length raw - scale) raw @ ''.'' @ drop (length raw - scale) raw)
      in (if value < 0 then ''-'' else '''') @ output)"
  by (simp add: formatScaled_def show_nat_digits Let_def)

record derived_target =
  dt_targetAmount :: str
  dt_roundingDifference :: str

definition targetValue :: "str \<Rightarrow> str \<Rightarrow> nat \<Rightarrow> int" where
  "targetValue amount rate targetScale =
     (let source = decimalParts amount; multiplier = decimalParts rate
      in roundDivision (fst source * fst multiplier * 10 ^ targetScale)
           (10 ^ (snd source + snd multiplier)))"

definition targetDifference :: "str \<Rightarrow> str \<Rightarrow> nat \<Rightarrow> int" where
  "targetDifference amount rate targetScale =
     (let source = decimalParts amount; multiplier = decimalParts rate;
          numerator = fst source * fst multiplier;
          denominator = 10 ^ (snd source + snd multiplier)
      in roundSignedDivision
           (numerator * 100000000
              - targetValue amount rate targetScale * denominator * 10 ^ (8 - targetScale))
           denominator)"

definition deriveTarget :: "str \<Rightarrow> str \<Rightarrow> nat \<Rightarrow> derived_target" where
  "deriveTarget amount rate targetScale =
     \<lparr>dt_targetAmount = formatScaled (targetValue amount rate targetScale) targetScale,
      dt_roundingDifference = formatScaled (targetDifference amount rate targetScale) 8\<rparr>"

section \<open>Helpers of the approval and execution services\<close>

definition approvalDecimalParts :: "str \<Rightarrow> int \<times> nat" where
  "approvalDecimalParts value =
     (let parts = split_on (CHR ''.'') value;
          whole = hd parts;
          fraction = (case parts of _ # f # _ \<Rightarrow> f | _ \<Rightarrow> [])
      in (bigint (whole @ fraction), length fraction))"

definition approvalCompareDecimal :: "str \<Rightarrow> str \<Rightarrow> int" where
  "approvalCompareDecimal left right =
     (let a = approvalDecimalParts left; b = approvalDecimalParts right;
          scale = max (snd a) (snd b);
          av = fst a * 10 ^ (scale - snd a);
          bv = fst b * 10 ^ (scale - snd b)
      in if av < bv then -1 else if av > bv then 1 else 0)"

definition sumAmounts :: "str list \<Rightarrow> str" where
  "sumAmounts amounts =
     (let scale = fold max (map (\<lambda>amount. snd (approvalDecimalParts amount)) amounts) 0;
          total = sum_list (map (\<lambda>amount.
            fst (approvalDecimalParts amount) * 10 ^ (scale - snd (approvalDecimalParts amount)))
            amounts);
          raw = pad_start (scale + 1) (CHR ''0'') (show_int total)
      in if scale \<noteq> 0 then take (length raw - scale) raw @ ''.'' @ drop (length raw - scale) raw
         else raw)"

definition decimal8 :: "str \<Rightarrow> int" where
  "decimal8 value =
     (let parts = split_on (CHR ''.'') value;
          whole = hd parts;
          fraction = (case parts of _ # f # _ \<Rightarrow> f | _ \<Rightarrow> [])
      in bigint whole * 100000000 + bigint (pad_end 8 (CHR ''0'') fraction))"

definition amountString :: "int \<Rightarrow> str" where
  "amountString value =
     (let whole = js_div value 100000000;
          fraction = strip_zeros (pad_start 8 (CHR ''0'')
            (show_int (value - whole * 100000000)))
      in if fraction \<noteq> [] then show_int whole @ ''.'' @ fraction else show_int whole)"

definition decimal12 :: "str \<Rightarrow> int" where
  "decimal12 value =
     (let parts = split_on (CHR ''.'') value;
          whole = hd parts;
          fraction = (case parts of _ # f # _ \<Rightarrow> f | _ \<Rightarrow> [])
      in bigint whole * 1000000000000 + bigint (pad_end 12 (CHR ''0'') fraction))"

section \<open>Parsing is exact\<close>

lemma parts_fraction: "(case split_on (CHR ''.'') v of _ # f # _ \<Rightarrow> f | _ \<Rightarrow> []) = fraction_part v"
  by (simp add: fraction_part_def)

lemma parts_whole: "hd (split_on (CHR ''.'') v) = whole_part v"
  by (simp add: whole_part_def)

lemmas decimal_parts = parts_fraction parts_whole

lemma pow10_diff: "a \<le> m \<Longrightarrow> (10 :: rat) ^ (m - a) = 10 ^ m / 10 ^ a"
  by (simp add: power_diff)

lemma decimalParts_decimal:
  assumes "is_decimal s"
  shows "fst (decimalParts s) = int (digits_val (whole_part s @ strip_zeros (fraction_part s)))"
    and "snd (decimalParts s) = length (strip_zeros (fraction_part s))"
    and "0 \<le> fst (decimalParts s)"
    and "of_int (fst (decimalParts s)) / 10 ^ snd (decimalParts s) = dec_rat s"
    and "snd (decimalParts s) \<le> frac_digits s"
proof -
  obtain w f where wf: "w \<noteq> []" "all_digits w" "all_digits f" "whole_part s = w" "fraction_part s = f"
    using assms by (rule is_decimalE)
  let ?g = "strip_zeros f"
  have g: "all_digits ?g" using wf by (simp add: strip_zeros_digits)
  show 1: "fst (decimalParts s) = int (digits_val (whole_part s @ strip_zeros (fraction_part s)))"
    using wf g by (simp add: decimalParts_def Let_def decimal_parts bigint_digits)
  show 2: "snd (decimalParts s) = length (strip_zeros (fraction_part s))"
    by (simp add: decimalParts_def Let_def decimal_parts)
  show "0 \<le> fst (decimalParts s)" using 1 by simp
  have le: "length ?g \<le> length f" by (rule strip_zeros_length)
  have "of_nat (digits_val f) / (10 ^ length f :: rat) = of_nat (digits_val ?g) / 10 ^ length ?g"
    using le by (subst strip_zeros_val) (simp add: pow10_diff)
  then show "of_int (fst (decimalParts s)) / 10 ^ snd (decimalParts s) = dec_rat s"
    using 1 2 wf by (simp add: dec_rat_def frac_digits_def digits_val_append add_divide_distrib)
  show "snd (decimalParts s) \<le> frac_digits s"
    using 2 wf le by (simp add: frac_digits_def)
qed

lemma approvalDecimalParts_decimal:
  assumes "is_decimal s"
  shows "of_int (fst (approvalDecimalParts s)) / 10 ^ snd (approvalDecimalParts s) = dec_rat s"
    and "0 \<le> fst (approvalDecimalParts s)"
    and "snd (approvalDecimalParts s) = frac_digits s"
proof -
  obtain w f where wf: "w \<noteq> []" "all_digits w" "all_digits f" "whole_part s = w" "fraction_part s = f"
    using assms by (rule is_decimalE)
  then show "of_int (fst (approvalDecimalParts s)) / 10 ^ snd (approvalDecimalParts s) = dec_rat s"
    and "0 \<le> fst (approvalDecimalParts s)"
    and "snd (approvalDecimalParts s) = frac_digits s"
    by (simp_all add: approvalDecimalParts_def Let_def decimal_parts bigint_digits dec_rat_def
        frac_digits_def digits_val_append add_divide_distrib)
qed

lemma rescale:
  fixes v :: int
  assumes "a \<le> m"
  shows "(of_int (v * 10 ^ (m - a)) :: rat) = of_int v / 10 ^ a * 10 ^ m"
  using assms by (simp add: pow10_diff)

text \<open>Comparison at the common scale is comparison of the values.\<close>

lemma compare_scaled:
  fixes av bv :: int and l r :: rat
  assumes "of_int av = l * 10 ^ m" and "of_int bv = r * 10 ^ m"
  shows "(if av < bv then (- 1 :: int) else if av > bv then 1 else 0)
    = (if l < r then - 1 else if l > r then 1 else 0)"
proof -
  have "av < bv \<longleftrightarrow> l < r"
  proof -
    have "av < bv \<longleftrightarrow> (of_int av :: rat) < of_int bv" by simp
    also have "\<dots> \<longleftrightarrow> l < r" unfolding assms by simp
    finally show ?thesis .
  qed
  moreover have "bv < av \<longleftrightarrow> r < l"
  proof -
    have "bv < av \<longleftrightarrow> (of_int bv :: rat) < of_int av" by simp
    also have "\<dots> \<longleftrightarrow> r < l" unfolding assms by simp
    finally show ?thesis .
  qed
  ultimately show ?thesis by simp
qed

lemma compareDecimal_rat:
  assumes "is_decimal l" "is_decimal r"
  shows "compareDecimal l r
    = (if dec_rat l < dec_rat r then - 1 else if dec_rat l > dec_rat r then 1 else 0)"
proof -
  let ?m = "max (snd (decimalParts l)) (snd (decimalParts r))"
  have l: "(of_int (fst (decimalParts l) * 10 ^ (?m - snd (decimalParts l))) :: rat) = dec_rat l * 10 ^ ?m"
    by (subst rescale) (simp_all add: decimalParts_decimal(4) [OF assms(1)])
  have r: "(of_int (fst (decimalParts r) * 10 ^ (?m - snd (decimalParts r))) :: rat) = dec_rat r * 10 ^ ?m"
    by (subst rescale) (simp_all add: decimalParts_decimal(4) [OF assms(2)])
  show ?thesis
    unfolding compareDecimal_def Let_def by (rule compare_scaled [OF l r])
qed

lemma approvalCompareDecimal_rat:
  assumes "is_decimal l" "is_decimal r"
  shows "approvalCompareDecimal l r
    = (if dec_rat l < dec_rat r then - 1 else if dec_rat l > dec_rat r then 1 else 0)"
proof -
  let ?m = "max (snd (approvalDecimalParts l)) (snd (approvalDecimalParts r))"
  have l: "(of_int (fst (approvalDecimalParts l) * 10 ^ (?m - snd (approvalDecimalParts l))) :: rat)
      = dec_rat l * 10 ^ ?m"
    by (subst rescale) (simp_all add: approvalDecimalParts_decimal(1) [OF assms(1)])
  have r: "(of_int (fst (approvalDecimalParts r) * 10 ^ (?m - snd (approvalDecimalParts r))) :: rat)
      = dec_rat r * 10 ^ ?m"
    by (subst rescale) (simp_all add: approvalDecimalParts_decimal(1) [OF assms(2)])
  show ?thesis
    unfolding approvalCompareDecimal_def Let_def by (rule compare_scaled [OF l r])
qed

lemma scaled_Inr:
  assumes "is_decimal s" "scaled s m = Inr v"
  shows "of_int v = dec_rat s * 10 ^ m" and "0 \<le> v"
proof -
  have le: "snd (decimalParts s) \<le> m" and v: "v = fst (decimalParts s) * 10 ^ (m - snd (decimalParts s))"
    using assms(2) by (auto simp: scaled_def Let_def split: if_splits)
  show "of_int v = dec_rat s * 10 ^ m"
    unfolding v by (subst rescale [OF le]) (simp add: decimalParts_decimal(4) [OF assms(1)])
  show "0 \<le> v" using v decimalParts_decimal(3) [OF assms(1)] by simp
qed

section \<open>The fixed-point readings\<close>

text \<open>
  The interface the two fixed-point readings share: on a decimal string with at most
  \<open>k\<close> fraction digits the reading is the value times \<open>10 ^ k\<close>. What the clients use is
  that comparing and adding readings is comparing and adding the values.
\<close>

locale fixed_point =
  fixes k :: nat
    and reading :: "str \<Rightarrow> int"
  assumes reading_digits:
    "w \<noteq> [] \<Longrightarrow> all_digits w \<Longrightarrow> all_digits f \<Longrightarrow> length f \<le> k \<Longrightarrow>
       reading (if f = [] then w else w @ CHR ''.'' # f)
         = int (digits_val w) * 10 ^ k + int (digits_val f) * 10 ^ (k - length f)"
begin

lemma reading_rat:
  assumes "is_decimal s" "frac_digits s \<le> k"
  shows "of_int (reading s) = dec_rat s * 10 ^ k"
proof -
  obtain w f where wf: "w \<noteq> []" "all_digits w" "all_digits f"
      "s = (if f = [] then w else w @ CHR ''.'' # f)"
      "whole_part s = w" "fraction_part s = f"
    using assms(1) by (rule is_decimalE)
  have len: "length f \<le> k" using assms(2) wf by (simp add: frac_digits_def)
  have "reading s = int (digits_val w) * 10 ^ k + int (digits_val f) * 10 ^ (k - length f)"
    using reading_digits [OF wf(1,2,3) len] wf(4) by simp
  then have "(of_int (reading s) :: rat)
      = of_nat (digits_val w) * 10 ^ k + of_nat (digits_val f) * 10 ^ (k - length f)"
    by simp
  then show ?thesis
    using wf(5,6) len by (simp add: dec_rat_def frac_digits_def pow10_diff algebra_simps)
qed

lemma reading_le_iff:
  assumes "is_decimal s" "frac_digits s \<le> k" "is_decimal t" "frac_digits t \<le> k"
  shows "reading s \<le> reading t \<longleftrightarrow> dec_rat s \<le> dec_rat t"
proof -
  have "reading s \<le> reading t \<longleftrightarrow> (of_int (reading s) :: rat) \<le> of_int (reading t)" by simp
  also have "\<dots> \<longleftrightarrow> dec_rat s \<le> dec_rat t" unfolding reading_rat [OF assms(1,2)] reading_rat [OF assms(3,4)] by simp
  finally show ?thesis .
qed

lemma reading_sum:
  assumes "\<forall>s \<in> set ss. is_decimal s \<and> frac_digits s \<le> k"
  shows "of_int (sum_list (map reading ss)) = sum_list (map dec_rat ss) * 10 ^ k"
  using assms by (induction ss) (simp_all add: reading_rat algebra_simps)

lemma reading_nonneg:
  assumes "is_decimal s" "frac_digits s \<le> k"
  shows "0 \<le> reading s"
proof -
  have "0 \<le> (of_int (reading s) :: rat)" unfolding reading_rat [OF assms] by simp
  then show ?thesis by simp
qed

end

lemma fixed_point_digits:
  assumes "w \<noteq> []" "all_digits w" "all_digits f" "length f \<le> k"
  defines "s \<equiv> if f = [] then w else w @ CHR ''.'' # f"
  shows "bigint (whole_part s) * 10 ^ k + bigint (pad_end k (CHR ''0'') (fraction_part s))
    = int (digits_val w) * 10 ^ k + int (digits_val f) * 10 ^ (k - length f)"
proof -
  have parts: "whole_part s = w" "fraction_part s = f"
    using decimal_make [OF assms(1-3)] unfolding s_def by simp_all
  have "all_digits (pad_end k (CHR ''0'') f)" using assms(3) by (simp add: pad_end_def)
  then show ?thesis
    unfolding parts using assms(2-4) by (simp add: bigint_digits digits_val_pad_end)
qed

interpretation fixed8: fixed_point 8 decimal8
proof
  fix w f assume "w \<noteq> []" "all_digits w" "all_digits f" "length f \<le> (8 :: nat)"
  from fixed_point_digits [OF this]
  show "decimal8 (if f = [] then w else w @ CHR ''.'' # f)
      = int (digits_val w) * 10 ^ 8 + int (digits_val f) * 10 ^ (8 - length f)"
    by (simp add: decimal8_def Let_def decimal_parts)
qed

interpretation fixed12: fixed_point 12 decimal12
proof
  fix w f assume "w \<noteq> []" "all_digits w" "all_digits f" "length f \<le> (12 :: nat)"
  from fixed_point_digits [OF this]
  show "decimal12 (if f = [] then w else w @ CHR ''.'' # f)
      = int (digits_val w) * 10 ^ 12 + int (digits_val f) * 10 ^ (12 - length f)"
    by (simp add: decimal12_def Let_def decimal_parts)
qed

section \<open>Rounding\<close>

lemma js_div_nonneg: "0 \<le> a \<Longrightarrow> 0 < b \<Longrightarrow> js_div a b = a div b"
  by (auto simp: js_div_def sgn_if)

lemma roundDivision_half:
  assumes "0 \<le> n" "0 < d"
  shows "2 * \<bar>roundDivision n d * d - n\<bar> \<le> d" and "0 \<le> roundDivision n d"
proof -
  let ?q = "(n + d div 2) div d" and ?r = "(n + d div 2) mod d"
  have q: "roundDivision n d = ?q"
    using assms by (simp add: roundDivision_def js_div_nonneg)
  have e: "?q * d - n = d div 2 - ?r"
    using div_mult_mod_eq [of "n + d div 2" d] by linarith
  have r: "0 \<le> ?r" "?r < d" using assms by simp_all
  have h: "d - 1 \<le> 2 * (d div 2)" "2 * (d div 2) \<le> d" by linarith+
  have "2 * \<bar>d div 2 - ?r\<bar> \<le> d" using r h by (simp add: abs_if)
  then show "2 * \<bar>roundDivision n d * d - n\<bar> \<le> d" unfolding q e .
  show "0 \<le> roundDivision n d" unfolding q using assms by (simp add: div_int_pos_iff)
qed

lemma roundSignedDivision_half:
  assumes "0 < d"
  shows "2 * \<bar>roundSignedDivision n d * d - n\<bar> \<le> d"
proof (cases "n < 0")
  case True
  then have "2 * \<bar>roundDivision (- n) d * d - (- n)\<bar> \<le> d"
    using assms by (intro roundDivision_half) simp_all
  moreover have "\<bar>roundSignedDivision n d * d - n\<bar> = \<bar>roundDivision (- n) d * d - (- n)\<bar>"
    using True by (simp add: roundSignedDivision_def)
  ultimately show ?thesis by simp
next
  case False
  then show ?thesis using roundDivision_half [of n d] assms by (simp add: roundSignedDivision_def)
qed

lemma rat_half_unit:
  fixes q n d :: int
  assumes "2 * \<bar>q * d - n\<bar> \<le> d" "0 < d"
  shows "\<bar>of_int q - (of_int n / of_int d :: rat)\<bar> \<le> 1 / 2"
proof -
  have "of_int (2 * \<bar>q * d - n\<bar>) \<le> (of_int d :: rat)" using assms(1) by (simp only: of_int_le_iff)
  then have h: "2 * \<bar>of_int q * of_int d - of_int n\<bar> \<le> (of_int d :: rat)" by simp
  have d: "0 < (of_int d :: rat)" using assms(2) by simp
  have "of_int q - (of_int n / of_int d :: rat) = (of_int q * of_int d - of_int n) / of_int d"
    using d by (simp add: field_simps)
  then have "\<bar>of_int q - (of_int n / of_int d :: rat)\<bar>
      = \<bar>of_int q * of_int d - of_int n\<bar> / of_int d"
    using d by simp
  then show ?thesis using h d by (simp add: field_simps)
qed

text \<open>
  The converted amount is within half a unit of the target currency of the exact product.
\<close>

lemma targetValue_half:
  assumes "is_decimal amount" "is_decimal rate"
  shows "\<bar>of_int (targetValue amount rate t) - dec_rat amount * dec_rat rate * 10 ^ t\<bar> \<le> 1 / 2"
    and "0 \<le> targetValue amount rate t"
proof -
  let ?a = "decimalParts amount" and ?r = "decimalParts rate"
  let ?n = "fst ?a * fst ?r * 10 ^ t" and ?d = "10 ^ (snd ?a + snd ?r) :: int"
  have n: "0 \<le> ?n" using decimalParts_decimal(3) assms by simp
  have exact: "(of_int ?n / of_int ?d :: rat) = dec_rat amount * dec_rat rate * 10 ^ t"
    by (simp add: power_add flip: decimalParts_decimal(4) [OF assms(1)] decimalParts_decimal(4) [OF assms(2)])
  have tv: "targetValue amount rate t = roundDivision ?n ?d"
    by (simp add: targetValue_def Let_def)
  show "\<bar>of_int (targetValue amount rate t) - dec_rat amount * dec_rat rate * 10 ^ t\<bar> \<le> 1 / 2"
    unfolding tv exact [symmetric]
    using roundDivision_half(1) [OF n, of ?d] by (intro rat_half_unit) simp_all
  show "0 \<le> targetValue amount rate t"
    unfolding tv using n by (intro roundDivision_half(2)) simp_all
qed

text \<open>
  Target amount plus recorded rounding difference is the exact product, to half a unit of
  the eighth decimal place: the residue of the rounding is not lost.
\<close>

lemma targetDifference_half:
  assumes "is_decimal amount" "is_decimal rate" "t \<le> 8"
  shows "\<bar>of_int (targetValue amount rate t) * 10 ^ (8 - t) + of_int (targetDifference amount rate t)
      - dec_rat amount * dec_rat rate * 10 ^ 8\<bar> \<le> (1 / 2 :: rat)"
proof -
  let ?a = "decimalParts amount" and ?r = "decimalParts rate"
  let ?n = "fst ?a * fst ?r" and ?d = "10 ^ (snd ?a + snd ?r) :: int"
  let ?T = "targetValue amount rate t" and ?D = "targetDifference amount rate t"
  let ?m = "?n * 100000000 - ?T * ?d * 10 ^ (8 - t)"
  have exact: "(of_int ?n / of_int ?d :: rat) = dec_rat amount * dec_rat rate"
    by (simp add: power_add flip: decimalParts_decimal(4) [OF assms(1)] decimalParts_decimal(4) [OF assms(2)])
  have D: "?D = roundSignedDivision ?m ?d"
    by (simp add: targetDifference_def Let_def)
  have "\<bar>of_int ?D - (of_int ?m / of_int ?d :: rat)\<bar> \<le> 1 / 2"
    unfolding D using roundSignedDivision_half [of ?d ?m] by (intro rat_half_unit) simp_all
  moreover have m: "(of_int ?m / of_int ?d :: rat)
      = dec_rat amount * dec_rat rate * 10 ^ 8 - of_int ?T * 10 ^ (8 - t)"
    unfolding exact [symmetric] by (simp add: diff_divide_distrib)
  ultimately have "\<bar>of_int ?D - (dec_rat amount * dec_rat rate * 10 ^ 8 - of_int ?T * 10 ^ (8 - t))\<bar>
      \<le> 1 / 2"
    by (simp only: m)
  then show ?thesis by linarith
qed

section \<open>Printing and parsing back\<close>

lemma show_nat_length: "0 < k \<Longrightarrow> n < 10 ^ k \<Longrightarrow> length (show_nat n) \<le> k"
proof (induction n arbitrary: k rule: show_nat.induct)
  case (1 n)
  show ?case
  proof (cases "n < 10")
    case True
    then show ?thesis using 1 by (subst show_nat.simps) simp
  next
    case False
    obtain j where k: "k = Suc j" using "1.prems" by (cases k) auto
    have j: "0 < j" using False "1.prems" k by (cases j) auto
    have "n div 10 < 10 ^ j" using "1.prems" k by (simp add: less_mult_imp_div_less)
    then have "length (show_nat (n div 10)) \<le> j" using "1.IH" False j by simp
    then show ?thesis using False k by (subst show_nat.simps) simp
  qed
qed

lemma formatScaled_shape:
  obtains w f where "w \<noteq> []" "all_digits w" "all_digits f" "length f = scale"
    "digits_val (w @ f) = nat \<bar>v\<bar>"
    "formatScaled v scale = (if v < 0 then ''-'' else '''') @ (if f = [] then w else w @ CHR ''.'' # f)"
proof -
  let ?raw = "pad_start (scale + 1) (CHR ''0'') (show_nat (nat \<bar>v\<bar>))"
  let ?w = "take (length ?raw - scale) ?raw" and ?f = "drop (length ?raw - scale) ?raw"
  have dig: "all_digits ?raw" by (simp add: pad_start_def)
  have len: "scale + 1 \<le> length ?raw" by (simp add: pad_start_def)
  have "?w \<noteq> []" "length ?f = scale" using len by auto
  moreover have "all_digits ?w" "all_digits ?f" using dig by (rule all_digits_take, rule all_digits_drop)
  moreover have "digits_val (?w @ ?f) = nat \<bar>v\<bar>" by simp
  moreover have "formatScaled v scale
      = (if v < 0 then ''-'' else '''') @ (if ?f = [] then ?w else ?w @ CHR ''.'' # ?f)"
    using len by (auto simp: formatScaled_def Let_def)
  ultimately show ?thesis using that by blast
qed

lemma decimalParts_signed:
  assumes "w \<noteq> []" "all_digits w" "all_digits f"
  shows "decimalParts ((if neg then ''-'' else '''') @ (if f = [] then w else w @ CHR ''.'' # f))
    = ((if neg then - int (digits_val (w @ strip_zeros f)) else int (digits_val (w @ strip_zeros f))),
       length (strip_zeros f))"
proof -
  have nodot: "CHR ''.'' \<notin> set (CHR ''-'' # w)" "CHR ''.'' \<notin> set f"
    using assms by (simp_all add: all_digits_no_dot)
  have dig: "all_digits (w @ strip_zeros f)" using assms by (simp add: strip_zeros_digits)
  have neg: "split_on (CHR ''.'') ((CHR ''-'' # w) @ CHR ''.'' # f) = [CHR ''-'' # w, f]"
    using split_on_first [OF nodot(1), of f] split_on_none [OF nodot(2)] by simp
  have neg0: "split_on (CHR ''.'') (CHR ''-'' # w) = [CHR ''-'' # w]"
    by (rule split_on_none [OF nodot(1)])
  show ?thesis
    using decimal_split [OF assms(2,3)] neg neg0 dig
    by (cases neg; cases "f = []") (simp_all add: decimalParts_def Let_def bigint_neg bigint_digits strip_zeros_def)
qed

lemma scaled_formatScaled: "scaled (formatScaled v scale) scale = Inr v"
proof -
  obtain w f where f: "w \<noteq> []" "all_digits w" "all_digits f" "length f = scale"
    "digits_val (w @ f) = nat \<bar>v\<bar>"
    "formatScaled v scale = (if v < 0 then ''-'' else '''') @ (if f = [] then w else w @ CHR ''.'' # f)"
    by (rule formatScaled_shape)
  let ?g = "strip_zeros f"
  have le: "length ?g \<le> scale" using strip_zeros_length [of f] f(4) by simp
  have "digits_val (w @ f) = digits_val (w @ ?g) * 10 ^ (scale - length ?g)"
    using strip_zeros_val [of f] le f(4)
    by (simp add: digits_val_append algebra_simps flip: power_add)
  then have val: "int (digits_val (w @ ?g)) * 10 ^ (scale - length ?g) = \<bar>v\<bar>"
    using f(5) by (metis abs_ge_zero int_nat_eq of_nat_mult of_nat_numeral of_nat_power)
  show ?thesis
    unfolding scaled_def Let_def f(6) decimalParts_signed [OF f(1-3)] using val le by auto
qed

lemma decimal_formatScaled:
  assumes "0 \<le> v"
  shows "is_decimal (formatScaled v scale)" and "frac_digits (formatScaled v scale) = scale"
    and "dec_rat (formatScaled v scale) = of_int v / 10 ^ scale"
proof -
  obtain w f where f: "w \<noteq> []" "all_digits w" "all_digits f" "length f = scale"
    "digits_val (w @ f) = nat \<bar>v\<bar>"
    "formatScaled v scale = (if v < 0 then ''-'' else '''') @ (if f = [] then w else w @ CHR ''.'' # f)"
    by (rule formatScaled_shape)
  have eq: "formatScaled v scale = (if f = [] then w else w @ CHR ''.'' # f)" using f(6) assms by simp
  show "is_decimal (formatScaled v scale)" "frac_digits (formatScaled v scale) = scale"
    unfolding eq using decimal_make [OF f(1-3)] f(4) by simp_all
  show "dec_rat (formatScaled v scale) = of_int v / 10 ^ scale"
    unfolding eq dec_rat_make [OF f(1-3)] using f(4,5) assms by simp
qed

lemma show_int_nonneg: "0 \<le> v \<Longrightarrow> show_int v = show_nat (nat v)"
  by (simp add: show_int_def)

lemma amountString_shape:
  assumes "0 \<le> v"
  obtains w f where "w \<noteq> []" "all_digits w" "all_digits f" "length f \<le> 8"
    "amountString v = (if f = [] then w else w @ CHR ''.'' # f)"
    "int (digits_val w) * 100000000 + int (digits_val f) * 10 ^ (8 - length f) = v"
proof -
  let ?w = "show_nat (nat (v div 100000000))"
  let ?p = "pad_start 8 (CHR ''0'') (show_nat (nat (v mod 100000000)))"
  let ?f = "strip_zeros ?p"
  have d: "js_div v 100000000 = v div 100000000" using assms by (simp add: js_div_nonneg)
  have m: "v - v div 100000000 * 100000000 = v mod 100000000" by (simp add: minus_div_mult_eq_mod)
  have nn: "0 \<le> v div 100000000" using assms by (simp add: div_int_pos_iff)
  have mm: "0 \<le> v mod 100000000" "v mod 100000000 < 100000000" by simp_all
  have "length (show_nat (nat (v mod 100000000))) \<le> 8"
    by (rule show_nat_length) (use mm in simp_all)
  then have len: "length ?p = 8" by (simp add: pad_start_def)
  have val: "int (digits_val ?f) * 10 ^ (8 - length ?f) = v mod 100000000"
  proof -
    have "digits_val ?p = digits_val ?f * 10 ^ (8 - length ?f)" using strip_zeros_val [of ?p] len by simp
    then have "int (digits_val ?f * 10 ^ (8 - length ?f)) = v mod 100000000" using mm by simp
    then show ?thesis by simp
  qed
  have am: "amountString v = (if ?f = [] then ?w else ?w @ CHR ''.'' # ?f)"
    unfolding amountString_def Let_def d m show_int_nonneg [OF nn] show_int_nonneg [OF mm(1)] by simp
  show ?thesis
  proof (rule that [of ?w ?f])
    show "?w \<noteq> []" "all_digits ?w" by simp_all
    show "all_digits ?f" by (rule strip_zeros_digits) (simp add: pad_start_def)
    show "length ?f \<le> 8" using strip_zeros_length [of ?p] len by simp
    show "int (digits_val ?w) * 100000000 + int (digits_val ?f) * 10 ^ (8 - length ?f) = v"
      using val nn by simp
  qed (rule am)
qed

lemma decimal8_amountString: "0 \<le> v \<Longrightarrow> decimal8 (amountString v) = v"
  by (erule amountString_shape) (simp add: fixed8.reading_digits)

lemma decimal_amountString:
  assumes "0 \<le> v"
  shows "is_decimal (amountString v)" and "frac_digits (amountString v) \<le> 8"
proof -
  obtain w f where wf: "w \<noteq> []" "all_digits w" "all_digits f" "length f \<le> 8"
    "amountString v = (if f = [] then w else w @ CHR ''.'' # f)"
    using amountString_shape [OF assms] by blast
  show "is_decimal (amountString v)" "frac_digits (amountString v) \<le> 8"
    unfolding wf(5) using decimal_make [OF wf(1-3)] wf(4) by simp_all
qed

end
