(* ===== verification/Schema.thy ===== *)
theory Schema
  imports Payment_Types Decimal_Text "HOL-Library.Multiset"
begin

text \<open>
  The database as the services see it: a record per table of \<open>database/schema.ts\<close> with the
  columns in their order, and the statements the repositories issue, each a transaction
  step. A table is the list of its rows in insertion order. Identifiers, dates and amounts
  are text, as the driver returns them; a timestamp is its milliseconds.

  The state is built up in layers, each extending the one below, so that a component is
  stated over the layer it needs and holds for every extension: the world outside the
  tables, the reference data, the access-control tables, the ledger shared by the
  operational domains (idempotency records, movement facts, audit and outbox events).
\<close>

section \<open>The world outside the tables\<close>

text \<open>
  \<open>randomUUID()\<close> and \<open>new Date()\<close> read the next element of a stream of the environment, the
  state counts how many have been read; \<open>now()\<close> of the database is the start of the
  transaction. An advisory lock is recorded with its two hashed texts.
\<close>

record env = http_env +
  env_uuids :: "nat \<Rightarrow> uuid"
  env_clock :: "nat \<Rightarrow> instant"
  env_now :: instant

record world =
  uuids_drawn :: nat
  clock_reads :: nat
  advisory_locks :: "(str \<times> str) list"

definition randomUUID :: "env \<Rightarrow> ('z world_scheme, uuid) tx" where
  "randomUUID env = (\<lambda>s. Inr (env_uuids env (uuids_drawn s),
     s\<lparr>uuids_drawn := uuids_drawn s + 1\<rparr>))"

definition newDate :: "env \<Rightarrow> ('z world_scheme, instant) tx" where
  "newDate env = (\<lambda>s. Inr (env_clock env (clock_reads s),
     s\<lparr>clock_reads := clock_reads s + 1\<rparr>))"

definition pg_advisory_xact_lock :: "str \<Rightarrow> str \<Rightarrow> ('z world_scheme, unit) tx" where
  "pg_advisory_xact_lock a b = tx_write (advisory_locks_update (\<lambda>ls. ls @ [(a, b)]))"

section \<open>Statements\<close>

text \<open>
  An \<open>INSERT\<close> of one row: the check constraints, then the unique indexes, then the foreign
  keys, each with its SQLSTATE; on success the row is appended. An \<open>UPDATE\<close> rechecks the
  rows it writes.
\<close>

definition tx_insert ::
  "('r \<Rightarrow> bool) \<Rightarrow> ('r \<Rightarrow> 'r \<Rightarrow> bool) \<Rightarrow> ('s \<Rightarrow> 'r \<Rightarrow> bool) \<Rightarrow> ('s \<Rightarrow> 'r list)
     \<Rightarrow> (('r list \<Rightarrow> 'r list) \<Rightarrow> 's \<Rightarrow> 's) \<Rightarrow> 'r \<Rightarrow> ('s, unit) tx" where
  "tx_insert check clash refs get upd r = (\<lambda>s.
     if \<not> check r then Inl (PgError ''23514'')
     else if \<exists>r' \<in> set (get s). clash r r' then Inl (PgError ''23505'')
     else if \<not> refs s r then Inl (PgError ''23503'')
     else Inr ((), upd (\<lambda>rows. rows @ [r]) s))"

definition tx_update ::
  "('r \<Rightarrow> bool) \<Rightarrow> ('s \<Rightarrow> 'r list) \<Rightarrow> (('r list \<Rightarrow> 'r list) \<Rightarrow> 's \<Rightarrow> 's)
     \<Rightarrow> ('r \<Rightarrow> bool) \<Rightarrow> ('r \<Rightarrow> 'r) \<Rightarrow> ('s, unit) tx" where
  "tx_update check get upd p f = (\<lambda>s.
     if \<exists>r \<in> set (get s). p r \<and> \<not> check (f r) then Inl (PgError ''23514'')
     else Inr ((), upd (update_where p f) s))"

lemma tx_insert_Inr [tx_inv]:
  "tx_insert check clash refs get upd r s = Inr p \<longleftrightarrow>
     check r \<and> (\<forall>r' \<in> set (get s). \<not> clash r r') \<and> refs s r
       \<and> p = ((), upd (\<lambda>rows. rows @ [r]) s)"
  by (auto simp: tx_insert_def)

lemma tx_update_Inr [tx_inv]:
  "tx_update check get upd p f s = Inr q \<longleftrightarrow>
     (\<forall>r \<in> set (get s). p r \<longrightarrow> check (f r)) \<and> q = ((), upd (update_where p f) s)"
  by (auto simp: tx_update_def)

lemma randomUUID_Inr [tx_inv]:
  "randomUUID env s = Inr p \<longleftrightarrow>
     p = (env_uuids env (uuids_drawn s), s\<lparr>uuids_drawn := uuids_drawn s + 1\<rparr>)"
  by (auto simp: randomUUID_def)

lemma newDate_Inr [tx_inv]:
  "newDate env s = Inr p \<longleftrightarrow>
     p = (env_clock env (clock_reads s), s\<lparr>clock_reads := clock_reads s + 1\<rparr>)"
  by (auto simp: newDate_def)

lemma tx_read_Inr [tx_inv]: "tx_read f s = Inr p \<longleftrightarrow> p = (f s, s)"
  by (auto simp: tx_read_def)

lemma tx_write_Inr [tx_inv]: "tx_write f s = Inr p \<longleftrightarrow> p = ((), f s)"
  by (auto simp: tx_write_def)

lemma tx_return_Inr [tx_inv]: "tx_return a s = Inr p \<longleftrightarrow> p = (a, s)"
  by (auto simp: tx_return_def)

lemma tx_throw_Inr [tx_inv]: "tx_throw e s = Inr p \<longleftrightarrow> False"
  by (simp add: tx_throw_def)

text \<open>\<open>ORDER BY key\<close>: a stable insertion sort by the key.\<close>

definition order_by :: "('r \<Rightarrow> 'k :: linorder) \<Rightarrow> 'r list \<Rightarrow> 'r list" where
  "order_by = sort_key"

lemma set_order_by [simp]: "set (order_by k rows) = set rows"
  by (simp add: order_by_def)

lemma length_order_by [simp]: "length (order_by k rows) = length rows"
  by (simp add: order_by_def)

lemma mset_order_by [simp]: "mset (order_by k rows) = mset rows"
  by (simp add: order_by_def)

text \<open>
  A value written to a \<open>numeric(38, scale)\<close> column: rounded half away from zero to the scale
  and read back with all its decimals; more than 38 digits is SQLSTATE 22003.
\<close>

definition pg_numeric :: "nat \<Rightarrow> str \<Rightarrow> str res" where
  "pg_numeric scale value =
     (let parts = decimalParts value;
          units = (if snd parts \<le> scale then fst parts * 10 ^ (scale - snd parts)
                   else roundSignedDivision (fst parts) (10 ^ (snd parts - scale)))
      in if \<bar>units\<bar> < 10 ^ 38 then Inr (formatScaled units scale)
         else Inl (PgError ''22003''))"

definition numeric_pos :: "str \<Rightarrow> bool" where
  "numeric_pos value \<longleftrightarrow> 0 < fst (decimalParts value)"

section \<open>Reference data\<close>

record currency_row =
  cu_organizationId :: str
  cu_code :: str
  cu_name :: str
  cu_englishName :: "str option"
  cu_symbol :: "str option"
  cu_decimalPlaces :: int
  cu_baseCurrency :: bool
  cu_state :: str
  cu_version :: int
  cu_createdAt :: instant

record organization_row =
  og_id :: str
  og_singletonKey :: bool
  og_code :: str
  og_legalName :: str
  og_timezone :: str
  og_baseCurrency :: str
  og_state :: str
  og_version :: int
  og_createdAt :: instant

record branch_row =
  br_id :: str
  br_organizationId :: str
  br_code :: str
  br_name :: str
  br_state :: str
  br_version :: int
  br_createdAt :: instant

record treasury_unit_row =
  tu_id :: str
  tu_organizationId :: str
  tu_branchId :: "str option"
  tu_code :: str
  tu_name :: str
  tu_defaultCurrency :: str
  tu_state :: str
  tu_version :: int
  tu_createdAt :: instant

record user_ref_row =
  us_id :: str
  us_organizationId :: str
  us_subjectKey :: str
  us_displayName :: str
  us_state :: str
  us_version :: int
  us_createdAt :: instant

record role_row =
  ro_id :: str
  ro_organizationId :: str
  ro_code :: str
  ro_name :: str
  ro_state :: str
  ro_version :: int
  ro_createdAt :: instant
  ro_updatedAt :: instant

record party_row =
  py_id :: str
  py_organizationId :: str
  py_code :: str
  py_displayName :: str
  py_legalName :: "str option"
  py_nationalId :: "str option"
  py_registrationId :: "str option"
  py_phone :: "str option"
  py_email :: "str option"
  py_notes :: "str option"
  py_state :: str
  py_mergedIntoPartyId :: "str option"
  py_version :: int
  py_createdAt :: instant
  py_updatedAt :: instant

record method_definition_row =
  md_id :: str
  md_organizationId :: str
  md_code :: str
  md_name :: str
  md_direction :: str
  md_behaviorCategory :: str
  md_createsFundsInTransit :: bool
  md_requiresApproval :: bool
  md_state :: str
  md_version :: int
  md_createdAt :: instant

record method_mapping_row =
  mm_methodId :: str
  mm_mappingKind :: str
  mm_mappingRef :: str

record method_required_reference_row =
  mr_methodId :: str
  mr_reference :: str

record method_allowed_currency_row =
  mc_methodId :: str
  mc_organizationId :: str
  mc_currencyCode :: str

record method_amount_limit_row =
  ml_methodId :: str
  ml_currencyCode :: str
  ml_amount :: str

record cashbox_row =
  cb_id :: str
  cb_organizationId :: str
  cb_branchId :: "str option"
  cb_treasuryUnitId :: str
  cb_code :: str
  cb_name :: str
  cb_cashboxType :: str
  cb_mainCurrency :: str
  cb_canReceive :: bool
  cb_canPay :: bool
  cb_canTransfer :: bool
  cb_requiresApproval :: bool
  cb_accountingDimensions :: "accounting_dimensions option"
  cb_activeFrom :: instant
  cb_activeTo :: "instant option"
  cb_state :: str
  cb_version :: int
  cb_createdAt :: instant
  cb_updatedAt :: instant

record cashbox_currency_control_row =
  cc_cashboxId :: str
  cc_organizationId :: str
  cc_currency :: str
  cc_transactionCeiling :: "str option"
  cc_minimumPosition :: "str option"
  cc_maximumHolding :: "str option"
  cc_allowNegative :: bool

record cashbox_day_row =
  cd_id :: str
  cd_organizationId :: str
  cd_cashboxId :: str
  cd_businessDate :: str
  cd_closeCycle :: int
  cd_businessNumber :: "str option"
  cd_priorCloseId :: "str option"
  cd_bookSnapshotDigest :: "str option"
  cd_heldInstrumentSnapshot :: "json option"
  cd_observedInstrumentIds :: "str list"
  cd_state :: str
  cd_version :: int
  cd_approvalActionId :: "str option"
  cd_closedByUserId :: "str option"
  cd_closedAt :: "instant option"
  cd_reopenReason :: "str option"
  cd_reopenedByUserId :: "str option"
  cd_reopenedAt :: "instant option"
  cd_createdAt :: instant
  cd_updatedAt :: instant

record bank_account_row =
  ba_id :: str
  ba_organizationId :: str
  ba_bankId :: str
  ba_bankBranchId :: "str option"
  ba_organizationBranchId :: "str option"
  ba_treasuryUnitId :: "str option"
  ba_accountType :: str
  ba_accountNumber :: str
  ba_iban :: "str option"
  ba_maskedCardNumber :: "str option"
  ba_currency :: str
  ba_legalOwnerName :: str
  ba_openingDate :: str
  ba_closingDate :: "str option"
  ba_chequeEnabled :: bool
  ba_canReceive :: bool
  ba_canPay :: bool
  ba_canTransfer :: bool
  ba_withdrawalCeiling :: "str option"
  ba_withdrawalCeilingCurrency :: "str option"
  ba_accountingDimensions :: "accounting_dimensions option"
  ba_state :: str
  ba_version :: int
  ba_createdAt :: instant
  ba_updatedAt :: instant

record exchange_rate_row =
  er_id :: str
  er_sourceCurrency :: str
  er_targetCurrency :: str
  er_rateType :: str
  er_rate :: str
  er_validAt :: instant
  er_sourceName :: str
  er_recordedBy :: str
  er_approvedBy :: "str option"
  er_state :: str
  er_createdAt :: instant

record attachment_row =
  at_id :: str
  at_organizationId :: str
  at_contentDigest :: str
  at_attachmentVersion :: int
  at_fileName :: str
  at_mediaType :: str
  at_byteLength :: int
  at_storageRef :: str
  at_state :: str
  at_createdBy :: str
  at_createdAt :: instant

section \<open>Access control\<close>

record approval_policy_row =
  ap_id :: str
  ap_organizationId :: str
  ap_code :: str
  ap_name :: str
  ap_documentType :: str
  ap_organizationWide :: bool
  ap_branchId :: "str option"
  ap_treasuryUnitId :: "str option"
  ap_currency :: "str option"
  ap_methodCategory :: "str option"
  ap_minimumBaseAmount :: "str option"
  ap_maximumBaseAmount :: "str option"
  ap_separationRules :: "str list"
  ap_aggregationWindowKind :: "str option"
  ap_aggregationKeys :: "str list option"
  ap_aggregationOverrideSecondApproval :: "bool option"
  ap_state :: str
  ap_policyVersion :: int
  ap_createdAt :: instant
  ap_updatedAt :: instant

record approval_step_row =
  as_id :: str
  as_organizationId :: str
  as_approvalPolicyId :: str
  as_stepOrder :: int
  as_requiredRoleId :: "str option"
  as_namedApproverId :: "str option"
  as_approvalsRequired :: int
  as_separationRules :: "str list"

record identity_account_row =
  ia_id :: str
  ia_userRefId :: str
  ia_normalizedLogin :: str
  ia_passwordHash :: str
  ia_passwordProfileVersion :: int
  ia_totpCiphertext :: "str option"
  ia_totpIv :: "str option"
  ia_totpAuthTag :: "str option"
  ia_totpKeyVersion :: "int option"
  ia_totpLastCounter :: "int option"
  ia_recoveryCodeHash :: "str option"
  ia_recoveryVersion :: int
  ia_state :: str
  ia_privileged :: bool
  ia_authorizationEpoch :: int
  ia_version :: int
  ia_createdAt :: instant

record role_permission_row =
  rp_roleId :: str
  rp_permission :: str

record access_grant_row =
  ag_id :: str
  ag_organizationId :: str
  ag_userRefId :: str
  ag_roleId :: str
  ag_scopeType :: str
  ag_scopeId :: str
  ag_organizationWide :: bool
  ag_amountCeiling :: "str option"
  ag_amountCeilingCurrency :: "str option"
  ag_validFrom :: instant
  ag_validTo :: "instant option"
  ag_reason :: "str option"
  ag_state :: str
  ag_version :: int
  ag_createdAt :: instant
  ag_updatedAt :: instant

record delegation_row =
  dg_id :: str
  dg_organizationId :: str
  dg_accessGrantId :: str
  dg_sourceGrantVersion :: int
  dg_sourceScopeDigest :: str
  dg_grantorUserId :: str
  dg_delegateUserId :: str
  dg_branchId :: "str option"
  dg_treasuryUnitId :: "str option"
  dg_currency :: "str option"
  dg_documentType :: "str option"
  dg_methodCategory :: "str option"
  dg_amountCeiling :: "str option"
  dg_amountCeilingCurrency :: "str option"
  dg_reason :: str
  dg_validFrom :: instant
  dg_validTo :: instant
  dg_revokedAt :: "instant option"
  dg_revokedByUserId :: "str option"
  dg_revocationReason :: "str option"
  dg_createdAt :: instant

record grant_branch_scope_row =
  gb_accessGrantId :: str
  gb_branchId :: str

record grant_treasury_unit_scope_row =
  gu_accessGrantId :: str
  gu_treasuryUnitId :: str

record grant_cashbox_scope_row =
  gc_accessGrantId :: str
  gc_cashboxId :: str

record grant_bank_account_scope_row =
  ga_accessGrantId :: str
  ga_bankAccountId :: str

record grant_document_type_scope_row =
  gd_accessGrantId :: str
  gd_documentType :: str

record grant_method_category_scope_row =
  gm_accessGrantId :: str
  gm_methodCategory :: str

record grant_currency_scope_row =
  gy_accessGrantId :: str
  gy_organizationId :: str
  gy_currency :: str

record auth_challenge_row =
  ch_id :: str
  ch_identityAccountId :: str
  ch_sessionId :: "str option"
  ch_tokenDigest :: str
  ch_kind :: str
  ch_httpMethod :: "str option"
  ch_httpPath :: "str option"
  ch_requestBodyDigest :: "str option"
  ch_idempotencyKey :: "str option"
  ch_deviceLabel :: "str option"
  ch_attempts :: int
  ch_expiresAt :: instant
  ch_consumedAt :: "instant option"
  ch_createdAt :: instant

record auth_step_up_proof_row =
  sp_id :: str
  sp_challengeId :: str
  sp_tokenDigest :: str
  sp_expiresAt :: instant
  sp_consumedAt :: "instant option"

section \<open>The shared ledger\<close>

record idempotency_row =
  ir_id :: str
  ir_organizationId :: str
  ir_scope :: str
  ir_idempotencyKey :: str
  ir_requestDigest :: str
  ir_responseStatus :: "int option"
  ir_responseBody :: "response option"
  ir_createdAt :: instant

record movement_fact_row =
  mf_id :: str
  mf_organizationId :: str
  mf_owner :: str
  mf_sourceType :: str
  mf_sourceId :: str
  mf_sourceLineId :: "str option"
  mf_effectKey :: str
  mf_endpointType :: str
  mf_endpointId :: str
  mf_direction :: str
  mf_amount :: str
  mf_currency :: str
  mf_businessDate :: str
  mf_executedAt :: instant
  mf_reversalOfFactId :: "str option"
  mf_state :: str

record audit_event_row =
  ae_id :: str
  ae_organizationId :: str
  ae_requestId :: str
  ae_sequenceNo :: int
  ae_actorUserId :: "str option"
  ae_entityType :: str
  ae_entityId :: str
  ae_action :: str
  ae_reason :: "str option"
  ae_outcome :: str
  ae_occurredAt :: instant

record outbox_event_row =
  oe_id :: str
  oe_organizationId :: str
  oe_aggregateType :: str
  oe_aggregateId :: str
  oe_aggregateVersion :: int
  oe_eventType :: str
  oe_payload :: json
  oe_occurredAt :: instant
  oe_publishedAt :: "instant option"

section \<open>The layers of the state\<close>

record reference_db = world +
  t_currencies :: "currency_row list"
  t_organizations :: "organization_row list"
  t_branches :: "branch_row list"
  t_treasuryUnits :: "treasury_unit_row list"
  t_userRefs :: "user_ref_row list"
  t_roles :: "role_row list"
  t_parties :: "party_row list"
  t_methodDefinitions :: "method_definition_row list"
  t_methodMappings :: "method_mapping_row list"
  t_methodRequiredReferences :: "method_required_reference_row list"
  t_methodAllowedCurrencies :: "method_allowed_currency_row list"
  t_methodAmountLimits :: "method_amount_limit_row list"
  t_cashboxes :: "cashbox_row list"
  t_cashboxCurrencyControls :: "cashbox_currency_control_row list"
  t_cashboxDays :: "cashbox_day_row list"
  t_bankAccounts :: "bank_account_row list"
  t_exchangeRates :: "exchange_rate_row list"
  t_attachments :: "attachment_row list"

record access_db = reference_db +
  t_approvalPolicies :: "approval_policy_row list"
  t_approvalSteps :: "approval_step_row list"
  t_identityAccounts :: "identity_account_row list"
  t_rolePermissions :: "role_permission_row list"
  t_accessGrants :: "access_grant_row list"
  t_delegations :: "delegation_row list"
  t_accessGrantBranchScopes :: "grant_branch_scope_row list"
  t_accessGrantTreasuryUnitScopes :: "grant_treasury_unit_scope_row list"
  t_accessGrantCashboxScopes :: "grant_cashbox_scope_row list"
  t_accessGrantBankAccountScopes :: "grant_bank_account_scope_row list"
  t_accessGrantDocumentTypeScopes :: "grant_document_type_scope_row list"
  t_accessGrantMethodCategoryScopes :: "grant_method_category_scope_row list"
  t_accessGrantCurrencyScopes :: "grant_currency_scope_row list"
  t_authChallenges :: "auth_challenge_row list"
  t_authStepUpProofs :: "auth_step_up_proof_row list"

record ledger_db = access_db +
  t_idempotencyRecords :: "idempotency_row list"
  t_movementFacts :: "movement_fact_row list"
  t_auditEvents :: "audit_event_row list"
  t_outboxEvents :: "outbox_event_row list"

end
