(* ===== verification/Payment_Schema.thy ===== *)
theory Payment_Schema
  imports Schema
begin

text \<open>
  The tables of the payment domain and their constraints as \<open>database/schema.ts\<close> states them,
  with the unique index on approval actions that only the migrations have.
\<close>

section \<open>Rows\<close>

record payment_request_counter_row =
  rn_organizationId :: str
  rn_nextValue :: int

record payment_counter_row =
  pn_organizationId :: str
  pn_businessDate :: str
  pn_nextValue :: int

record payment_request_row =
  pq_id :: str
  pq_organizationId :: str
  pq_businessNumber :: str
  pq_requesterUserId :: str
  pq_beneficiaryPartyId :: str
  pq_requestedAmount :: str
  pq_currency :: str
  pq_branchId :: "str option"
  pq_treasuryUnitId :: "str option"
  pq_dueDate :: "str option"
  pq_purpose :: str
  pq_contractRef :: "str option"
  pq_invoiceRef :: "str option"
  pq_accountingDimensions :: "accounting_dimensions option"
  pq_approvalProgress :: approval_progress
  pq_state :: str
  pq_version :: int
  pq_createdAt :: instant
  pq_updatedAt :: instant

record payment_document_row =
  pd_id :: str
  pd_organizationId :: str
  pd_businessNumber :: str
  pd_businessDate :: str
  pd_beneficiaryPartyId :: str
  pd_paymentRequestId :: "str option"
  pd_branchId :: "str option"
  pd_treasuryUnitId :: str
  pd_baseCurrency :: str
  pd_totalBaseAmount :: str
  pd_dueDate :: "str option"
  pd_purpose :: str
  pd_creatorUserId :: str
  pd_currentApprovalSnapshotId :: "str option"
  pd_reversedPaymentId :: "str option"
  pd_executedAt :: "instant option"
  pd_executedByUserId :: "str option"
  pd_state :: str
  pd_workflowState :: str
  pd_executionState :: str
  pd_accountingState :: str
  pd_version :: int
  pd_createdAt :: instant
  pd_updatedAt :: instant

record approval_snapshot_row =
  ps_id :: str
  ps_organizationId :: str
  ps_paymentDocumentId :: str
  ps_documentVersion :: int
  ps_amountBasis :: str
  ps_baseCurrency :: str
  ps_evaluatedAt :: instant

record snapshot_context_row =
  px_organizationId :: str
  px_approvalSnapshotId :: str
  px_contextOrder :: int
  px_firstLineNumber :: int
  px_currency :: str
  px_methodCategory :: str
  px_policyId :: str
  px_policyCode :: str
  px_policyName :: str
  px_policyVersion :: int

record snapshot_step_row =
  pt_id :: str
  pt_organizationId :: str
  pt_approvalSnapshotId :: str
  pt_stepOrder :: int
  pt_roleId :: "str option"
  pt_roleName :: "str option"
  pt_approverUserId :: "str option"
  pt_approverName :: "str option"
  pt_approvalsRequired :: int
  pt_separationRules :: "str list"
  pt_sourceContextOrders :: "int list"
  pt_obligationKey :: str

record approval_action_row =
  pc_id :: str
  pc_organizationId :: str
  pc_approvalSnapshotId :: str
  pc_approvalSnapshotStepId :: "str option"
  pc_stepOrder :: "int option"
  pc_actorUserId :: str
  pc_delegatedFromUserId :: "str option"
  pc_action :: str
  pc_reason :: "str option"
  pc_actedAt :: instant

record approval_aggregation_row =
  gg_organizationId :: str
  gg_approvalSnapshotId :: str
  gg_businessDate :: str
  gg_aggregationKeys :: "str list"
  gg_beneficiaryPartyId :: "str option"
  gg_externalObligationKey :: "str option"

record aggregation_participant_row =
  pp_organizationId :: str
  pp_approvalSnapshotId :: str
  pp_paymentDocumentId :: str
  pp_paymentNumber :: str
  pp_versionBasis :: str
  pp_paymentVersion :: int
  pp_baseAmount :: str
  pp_baseCurrency :: str

record payment_line_row =
  pl_id :: str
  pl_organizationId :: str
  pl_paymentDocumentId :: str
  pl_lineNumber :: int
  pl_methodId :: str
  pl_methodName :: str
  pl_methodCategory :: str
  pl_methodRequiredReferences :: "str list"
  pl_requiresApproval :: bool
  pl_amount :: str
  pl_currency :: str
  pl_baseCurrency :: str
  pl_exchangeRate :: str
  pl_rateType :: str
  pl_rateSource :: str
  pl_rateRecordId :: "str option"
  pl_rateAt :: instant
  pl_baseAmount :: str
  pl_roundingDifference :: str
  pl_cashboxId :: "str option"
  pl_bankAccountId :: "str option"
  pl_beneficiaryPartyId :: str
  pl_beneficiaryAccountReference :: "str option"
  pl_trackingNumber :: "str option"
  pl_dueDate :: "str option"
  pl_description :: "str option"
  pl_accountingDimensions :: "accounting_dimensions option"
  pl_executedAt :: "instant option"
  pl_executedByUserId :: "str option"
  pl_state :: str
  pl_version :: int
  pl_createdAt :: instant
  pl_updatedAt :: instant

record payment_allocation_row =
  pa_id :: str
  pa_organizationId :: str
  pa_paymentDocumentId :: str
  pa_sourceNamespace :: str
  pa_externalObjectType :: str
  pa_externalObjectId :: str
  pa_allocatedAmount :: str
  pa_currency :: str
  pa_knownObligationTotal :: "str option"
  pa_duplicateOverrideReason :: "str option"
  pa_overrideApprovalActionId :: "str option"
  pa_state :: str
  pa_version :: int

record payment_reservation_row =
  pv_id :: str
  pv_organizationId :: str
  pv_paymentDocumentId :: str
  pv_sourceType :: str
  pv_sourceId :: str
  pv_amount :: str
  pv_currency :: str
  pv_reviewDueAt :: instant
  pv_reviewedAt :: "instant option"
  pv_releaseReason :: "str option"
  pv_state :: str
  pv_version :: int

record bank_instruction_row =
  bi_id :: str
  bi_organizationId :: str
  bi_paymentLineId :: str
  bi_bankAccountId :: str
  bi_amount :: str
  bi_currency :: str
  bi_beneficiaryAccountReference :: str
  bi_localReference :: str
  bi_statementLineId :: "str option"
  bi_correctionPaymentId :: "str option"
  bi_outcomeReason :: "str option"
  bi_outcomeEvidence :: "json option"
  bi_state :: str
  bi_version :: int
  bi_createdAt :: instant
  bi_updatedAt :: instant

record execution_effect_row =
  pe_id :: str
  pe_organizationId :: str
  pe_paymentLineId :: str
  pe_effectKey :: str
  pe_effectType :: str
  pe_direction :: str
  pe_amount :: str
  pe_currency :: str
  pe_businessDate :: str
  pe_sourceVersion :: int
  pe_movementFactId :: "str option"
  pe_bankInstructionId :: "str option"
  pe_issuedChequeId :: "str option"
  pe_reversalOfEffectId :: "str option"
  pe_createdAt :: instant

record request_attachment_row =
  rl_organizationId :: str
  rl_paymentRequestId :: str
  rl_attachmentId :: str
  rl_contentDigest :: str
  rl_purpose :: str
  rl_linkedAt :: instant

record line_attachment_row =
  ll_organizationId :: str
  ll_paymentLineId :: str
  ll_attachmentId :: str
  ll_contentDigest :: str
  ll_purpose :: str
  ll_linkedAt :: instant

record payment_db = ledger_db +
  t_paymentRequestNumberCounters :: "payment_request_counter_row list"
  t_paymentNumberCounters :: "payment_counter_row list"
  t_paymentRequests :: "payment_request_row list"
  t_paymentDocuments :: "payment_document_row list"
  t_paymentApprovalSnapshots :: "approval_snapshot_row list"
  t_paymentApprovalSnapshotContexts :: "snapshot_context_row list"
  t_paymentApprovalSnapshotSteps :: "snapshot_step_row list"
  t_paymentApprovalActions :: "approval_action_row list"
  t_paymentApprovalAggregations :: "approval_aggregation_row list"
  t_paymentApprovalAggregationParticipants :: "aggregation_participant_row list"
  t_paymentLines :: "payment_line_row list"
  t_paymentAllocations :: "payment_allocation_row list"
  t_paymentReservations :: "payment_reservation_row list"
  t_bankInstructions :: "bank_instruction_row list"
  t_paymentExecutionEffects :: "execution_effect_row list"
  t_paymentRequestAttachmentLinks :: "request_attachment_row list"
  t_paymentLineAttachmentLinks :: "line_attachment_row list"

end
