(* ===== verification/Payment_Constraints.thy ===== *)
theory Payment_Constraints
  imports Payment_Schema
begin

text \<open>
  The constraints of \<open>database/schema.ts\<close> on the tables the payment handlers write: check
  constraints as predicates on a row, unique indexes as clashes between two rows, foreign
  keys as predicates on the database and a row. A null column never clashes and refers to
  nothing. Lengths of character columns are not modelled.
\<close>

section \<open>References\<close>

definition ref_ok :: "('r \<Rightarrow> uuid) \<Rightarrow> ('r \<Rightarrow> uuid) \<Rightarrow> 'r list \<Rightarrow> uuid \<Rightarrow> uuid option \<Rightarrow> bool" where
  "ref_ok org key rows organizationId value =
     (case value of None \<Rightarrow> True
      | Some v \<Rightarrow> \<exists>r \<in> set rows. org r = organizationId \<and> key r = v)"

definition some_clash :: "'a option \<Rightarrow> 'a option \<Rightarrow> bool" where
  "some_clash a b = (case a of None \<Rightarrow> False | Some x \<Rightarrow> b = Some x)"

lemma ref_ok_None [simp]: "ref_ok org key rows organizationId None"
  by (simp add: ref_ok_def)

lemma some_clash_simps [simp]:
  "\<not> some_clash None b" "some_clash (Some x) b \<longleftrightarrow> b = Some x"
  by (simp_all add: some_clash_def)

lemma ref_ok_append: "ref_ok org key rows o' v \<Longrightarrow> ref_ok org key (rows @ rest) o' v"
  by (auto simp: ref_ok_def split: option.splits)

section \<open>Payment documents\<close>

definition payment_states :: "str list" where
  "payment_states = [''DRAFT'', ''SUBMITTED'', ''APPROVAL_PENDING'', ''APPROVED'', ''REJECTED'',
     ''SCHEDULED'', ''EXECUTED'', ''ACCOUNTING_READY'', ''ACCOUNTING_POSTED'', ''CANCELLED'',
     ''REVERSED'']"

definition payment_document_check :: "payment_document_row \<Rightarrow> bool" where
  "payment_document_check r \<longleftrightarrow>
     numeric_pos (pd_totalBaseAmount r)
     \<and> pd_state r \<in> set payment_states
     \<and> pd_workflowState r \<in> {''DRAFT'', ''SUBMITTED'', ''APPROVAL_PENDING'', ''APPROVED'',
          ''REJECTED'', ''CANCELLED''}
     \<and> (if pd_state r \<in> {''DRAFT'', ''SUBMITTED'', ''APPROVAL_PENDING'', ''APPROVED'', ''REJECTED''}
        then pd_workflowState r = pd_state r else pd_workflowState r = ''APPROVED'')
     \<and> (pd_state r = ''DRAFT'' \<and> pd_currentApprovalSnapshotId r = None
        \<or> pd_state r \<in> {''SUBMITTED'', ''APPROVAL_PENDING'', ''APPROVED'', ''REJECTED'', ''SCHEDULED''}
          \<and> pd_currentApprovalSnapshotId r \<noteq> None
        \<or> pd_state r \<in> {''EXECUTED'', ''ACCOUNTING_READY'', ''ACCOUNTING_POSTED'', ''CANCELLED'',
          ''REVERSED''})
     \<and> pd_executionState r \<in> {''NOT_EXECUTED'', ''SCHEDULED'', ''EXECUTED'', ''REVERSED''}
     \<and> pd_accountingState r \<in> {''NOT_READY'', ''MAPPING_REQUIRED'', ''READY'', ''QUEUED'',
          ''SENDING'', ''SENDING_UNKNOWN'', ''ACCEPTED'', ''FAILED'', ''RETURNED'', ''CORRECTED''}
     \<and> (if pd_executionState r \<in> {''EXECUTED'', ''REVERSED''}
        then pd_executedAt r \<noteq> None \<and> pd_executedByUserId r \<noteq> None
        else pd_executedAt r = None \<and> pd_executedByUserId r = None)
     \<and> 0 \<le> pd_version r"

definition payment_document_clash :: "payment_document_row \<Rightarrow> payment_document_row \<Rightarrow> bool" where
  "payment_document_clash r r' \<longleftrightarrow> pd_id r = pd_id r'
     \<or> pd_organizationId r = pd_organizationId r' \<and> pd_businessNumber r = pd_businessNumber r'"

definition payment_document_refs :: "'z payment_db_scheme \<Rightarrow> payment_document_row \<Rightarrow> bool" where
  "payment_document_refs s r \<longleftrightarrow> (let org = pd_organizationId r in
     (\<exists>g \<in> set (t_organizations s). og_id g = org)
     \<and> ref_ok py_organizationId py_id (t_parties s) org (Some (pd_beneficiaryPartyId r))
     \<and> ref_ok pq_organizationId pq_id (t_paymentRequests s) org (pd_paymentRequestId r)
     \<and> ref_ok br_organizationId br_id (t_branches s) org (pd_branchId r)
     \<and> ref_ok tu_organizationId tu_id (t_treasuryUnits s) org (Some (pd_treasuryUnitId r))
     \<and> ref_ok cu_organizationId cu_code (t_currencies s) org (Some (pd_baseCurrency r))
     \<and> ref_ok us_organizationId us_id (t_userRefs s) org (Some (pd_creatorUserId r))
     \<and> ref_ok pd_organizationId pd_id (t_paymentDocuments s) org (pd_reversedPaymentId r)
     \<and> ref_ok us_organizationId us_id (t_userRefs s) org (pd_executedByUserId r))"

section \<open>Payment lines\<close>

definition payment_line_check :: "payment_line_row \<Rightarrow> bool" where
  "payment_line_check r \<longleftrightarrow>
     0 < pl_lineNumber r
     \<and> numeric_pos (pl_amount r) \<and> numeric_pos (pl_exchangeRate r) \<and> numeric_pos (pl_baseAmount r)
     \<and> pl_state r \<in> {''DRAFT'', ''RESERVED'', ''EXECUTED'', ''REVERSED''}
     \<and> (if pl_state r \<in> {''EXECUTED'', ''REVERSED''}
        then pl_executedAt r \<noteq> None \<and> pl_executedByUserId r \<noteq> None
        else pl_executedAt r = None \<and> pl_executedByUserId r = None)
     \<and> 0 \<le> pl_version r
     \<and> (pl_rateSource r = ''IDENTITY'' \<and> pl_currency r = pl_baseCurrency r
          \<and> compareDecimal (pl_exchangeRate r) ''1'' = 0 \<and> pl_rateRecordId r = None
          \<and> compareDecimal (pl_roundingDifference r) ''0'' = 0
        \<or> pl_rateSource r = ''TABLE'' \<and> pl_currency r \<noteq> pl_baseCurrency r
          \<and> pl_rateRecordId r \<noteq> None)"

definition payment_line_clash :: "payment_line_row \<Rightarrow> payment_line_row \<Rightarrow> bool" where
  "payment_line_clash r r' \<longleftrightarrow> pl_id r = pl_id r'
     \<or> pl_organizationId r = pl_organizationId r'
       \<and> pl_paymentDocumentId r = pl_paymentDocumentId r' \<and> pl_lineNumber r = pl_lineNumber r'"

definition payment_line_refs :: "'z payment_db_scheme \<Rightarrow> payment_line_row \<Rightarrow> bool" where
  "payment_line_refs s r \<longleftrightarrow> (let org = pl_organizationId r in
     (\<exists>g \<in> set (t_organizations s). og_id g = org)
     \<and> (\<exists>d \<in> set (t_paymentDocuments s). pd_organizationId d = org
          \<and> pd_id d = pl_paymentDocumentId r \<and> pd_baseCurrency d = pl_baseCurrency r)
     \<and> ref_ok md_organizationId md_id (t_methodDefinitions s) org (Some (pl_methodId r))
     \<and> ref_ok cb_organizationId cb_id (t_cashboxes s) org (pl_cashboxId r)
     \<and> ref_ok ba_organizationId ba_id (t_bankAccounts s) org (pl_bankAccountId r)
     \<and> ref_ok py_organizationId py_id (t_parties s) org (Some (pl_beneficiaryPartyId r))
     \<and> ref_ok cu_organizationId cu_code (t_currencies s) org (Some (pl_currency r))
     \<and> ref_ok us_organizationId us_id (t_userRefs s) org (pl_executedByUserId r)
     \<and> ref_ok (\<lambda>_. org) er_id (t_exchangeRates s) org (pl_rateRecordId r))"

section \<open>Requests, attachments, allocations and reservations\<close>

definition payment_request_check :: "payment_request_row \<Rightarrow> bool" where
  "payment_request_check r \<longleftrightarrow> numeric_pos (pq_requestedAmount r)
     \<and> pq_approvalProgress r = \<lparr>apg_state = ''NOT_STARTED'', apg_completedSteps = 0,
          apg_requiredSteps = 0\<rparr>
     \<and> pq_state r = ''DRAFT'' \<and> 0 \<le> pq_version r"

definition payment_request_clash :: "payment_request_row \<Rightarrow> payment_request_row \<Rightarrow> bool" where
  "payment_request_clash r r' \<longleftrightarrow> pq_id r = pq_id r'
     \<or> pq_organizationId r = pq_organizationId r' \<and> pq_businessNumber r = pq_businessNumber r'"

definition payment_request_refs :: "'z payment_db_scheme \<Rightarrow> payment_request_row \<Rightarrow> bool" where
  "payment_request_refs s r \<longleftrightarrow> (let org = pq_organizationId r in
     (\<exists>g \<in> set (t_organizations s). og_id g = org)
     \<and> ref_ok us_organizationId us_id (t_userRefs s) org (Some (pq_requesterUserId r))
     \<and> ref_ok py_organizationId py_id (t_parties s) org (Some (pq_beneficiaryPartyId r))
     \<and> ref_ok br_organizationId br_id (t_branches s) org (pq_branchId r)
     \<and> ref_ok tu_organizationId tu_id (t_treasuryUnits s) org (pq_treasuryUnitId r)
     \<and> ref_ok cu_organizationId cu_code (t_currencies s) org (Some (pq_currency r)))"

definition attachment_known :: "'z payment_db_scheme \<Rightarrow> uuid \<Rightarrow> uuid \<Rightarrow> str \<Rightarrow> bool" where
  "attachment_known s org attachmentId contentDigest \<longleftrightarrow>
     (\<exists>a \<in> set (t_attachments s). at_organizationId a = org \<and> at_id a = attachmentId
        \<and> at_contentDigest a = contentDigest)"

definition request_attachment_clash :: "request_attachment_row \<Rightarrow> request_attachment_row \<Rightarrow> bool" where
  "request_attachment_clash r r' \<longleftrightarrow> rl_organizationId r = rl_organizationId r'
     \<and> rl_paymentRequestId r = rl_paymentRequestId r' \<and> rl_attachmentId r = rl_attachmentId r'
     \<and> rl_purpose r = rl_purpose r'"

definition request_attachment_refs :: "'z payment_db_scheme \<Rightarrow> request_attachment_row \<Rightarrow> bool" where
  "request_attachment_refs s r \<longleftrightarrow>
     (\<exists>g \<in> set (t_organizations s). og_id g = rl_organizationId r)
     \<and> ref_ok pq_organizationId pq_id (t_paymentRequests s) (rl_organizationId r)
          (Some (rl_paymentRequestId r))
     \<and> attachment_known s (rl_organizationId r) (rl_attachmentId r) (rl_contentDigest r)"

definition line_attachment_clash :: "line_attachment_row \<Rightarrow> line_attachment_row \<Rightarrow> bool" where
  "line_attachment_clash r r' \<longleftrightarrow> ll_organizationId r = ll_organizationId r'
     \<and> ll_paymentLineId r = ll_paymentLineId r' \<and> ll_attachmentId r = ll_attachmentId r'
     \<and> ll_purpose r = ll_purpose r'"

definition line_attachment_refs :: "'z payment_db_scheme \<Rightarrow> line_attachment_row \<Rightarrow> bool" where
  "line_attachment_refs s r \<longleftrightarrow>
     (\<exists>g \<in> set (t_organizations s). og_id g = ll_organizationId r)
     \<and> ref_ok pl_organizationId pl_id (t_paymentLines s) (ll_organizationId r)
          (Some (ll_paymentLineId r))
     \<and> attachment_known s (ll_organizationId r) (ll_attachmentId r) (ll_contentDigest r)"

definition payment_allocation_check :: "payment_allocation_row \<Rightarrow> bool" where
  "payment_allocation_check r \<longleftrightarrow>
     pa_externalObjectType r \<in> {''INVOICE'', ''DEBT'', ''CONTRACT_ITEM'', ''OTHER_PAYABLE''}
     \<and> numeric_pos (pa_allocatedAmount r)
     \<and> (case pa_knownObligationTotal r of None \<Rightarrow> True
        | Some known \<Rightarrow> numeric_pos known \<and> compareDecimal (pa_allocatedAmount r) known \<le> 0)
     \<and> (pa_duplicateOverrideReason r = None \<longleftrightarrow> pa_overrideApprovalActionId r = None)
     \<and> pa_state r \<in> {''ACTIVE'', ''REVERSED''} \<and> 0 \<le> pa_version r"

definition payment_reservation_check :: "payment_reservation_row \<Rightarrow> bool" where
  "payment_reservation_check r \<longleftrightarrow>
     pv_sourceType r \<in> {''CASHBOX'', ''BANK_ACCOUNT''} \<and> numeric_pos (pv_amount r)
     \<and> pv_state r \<in> {''ACTIVE'', ''REVIEW_REQUIRED'', ''CONSUMED'', ''RELEASED''}
     \<and> 0 \<le> pv_version r"

section \<open>Bank instructions and execution effects\<close>

definition bank_instruction_check :: "bank_instruction_row \<Rightarrow> bool" where
  "bank_instruction_check r \<longleftrightarrow> numeric_pos (bi_amount r)
     \<and> bi_state r \<in> {''PENDING_CONFIRMATION'', ''CONFIRMED'', ''REJECTED'', ''CANCELLED'', ''RETURNED''}
     \<and> 0 \<le> bi_version r
     \<and> (if bi_state r = ''PENDING_CONFIRMATION''
        then bi_statementLineId r = None \<and> bi_correctionPaymentId r = None
          \<and> bi_outcomeReason r = None \<and> bi_outcomeEvidence r = None
        else (case bi_outcomeEvidence r of Some (JObject _) \<Rightarrow> True | _ \<Rightarrow> False))"

definition bank_instruction_clash :: "bank_instruction_row \<Rightarrow> bank_instruction_row \<Rightarrow> bool" where
  "bank_instruction_clash r r' \<longleftrightarrow> bi_id r = bi_id r'
     \<or> bi_organizationId r = bi_organizationId r'
       \<and> (bi_paymentLineId r = bi_paymentLineId r'
          \<or> bi_bankAccountId r = bi_bankAccountId r' \<and> bi_localReference r = bi_localReference r')"

definition bank_instruction_refs :: "'z payment_db_scheme \<Rightarrow> bank_instruction_row \<Rightarrow> bool" where
  "bank_instruction_refs s r \<longleftrightarrow> (let org = bi_organizationId r in
     (\<exists>g \<in> set (t_organizations s). og_id g = org)
     \<and> ref_ok pl_organizationId pl_id (t_paymentLines s) org (Some (bi_paymentLineId r))
     \<and> ref_ok ba_organizationId ba_id (t_bankAccounts s) org (Some (bi_bankAccountId r))
     \<and> ref_ok pd_organizationId pd_id (t_paymentDocuments s) org (bi_correctionPaymentId r))"

definition execution_effect_check :: "execution_effect_row \<Rightarrow> bool" where
  "execution_effect_check r \<longleftrightarrow>
     pe_effectType r \<in> {''CASHBOX_MOVEMENT'', ''BANK_MOVEMENT'', ''BANK_INSTRUCTION'', ''ISSUED_CHEQUE''}
     \<and> pe_direction r \<in> {''OUTGOING'', ''REVERSAL''}
     \<and> numeric_pos (pe_amount r) \<and> 0 < pe_sourceVersion r
     \<and> (if pe_direction r = ''OUTGOING'' then
          pe_reversalOfEffectId r = None
          \<and> (pe_effectType r \<in> {''CASHBOX_MOVEMENT'', ''BANK_MOVEMENT''} \<and> pe_movementFactId r \<noteq> None
               \<and> pe_bankInstructionId r = None \<and> pe_issuedChequeId r = None
             \<or> pe_effectType r = ''BANK_INSTRUCTION'' \<and> pe_movementFactId r = None
               \<and> pe_bankInstructionId r \<noteq> None \<and> pe_issuedChequeId r = None
             \<or> pe_effectType r = ''ISSUED_CHEQUE'' \<and> pe_movementFactId r = None
               \<and> pe_bankInstructionId r = None \<and> pe_issuedChequeId r \<noteq> None)
        else
          pe_effectType r \<in> {''CASHBOX_MOVEMENT'', ''BANK_MOVEMENT''}
          \<and> pe_reversalOfEffectId r \<noteq> None \<and> pe_movementFactId r \<noteq> None
          \<and> pe_bankInstructionId r = None \<and> pe_issuedChequeId r = None)"

definition execution_effect_clash :: "execution_effect_row \<Rightarrow> execution_effect_row \<Rightarrow> bool" where
  "execution_effect_clash r r' \<longleftrightarrow> pe_id r = pe_id r'
     \<or> pe_organizationId r = pe_organizationId r'
       \<and> (pe_paymentLineId r = pe_paymentLineId r' \<and> pe_effectKey r = pe_effectKey r'
            \<and> pe_direction r = pe_direction r'
          \<or> some_clash (pe_reversalOfEffectId r) (pe_reversalOfEffectId r')
          \<or> some_clash (pe_movementFactId r) (pe_movementFactId r')
          \<or> some_clash (pe_bankInstructionId r) (pe_bankInstructionId r')
          \<or> some_clash (pe_issuedChequeId r) (pe_issuedChequeId r'))"

definition execution_effect_refs :: "'z payment_db_scheme \<Rightarrow> execution_effect_row \<Rightarrow> bool" where
  "execution_effect_refs s r \<longleftrightarrow> (let org = pe_organizationId r in
     (\<exists>g \<in> set (t_organizations s). og_id g = org)
     \<and> ref_ok pl_organizationId pl_id (t_paymentLines s) org (Some (pe_paymentLineId r))
     \<and> ref_ok mf_organizationId mf_id (t_movementFacts s) org (pe_movementFactId r)
     \<and> ref_ok bi_organizationId bi_id (t_bankInstructions s) org (pe_bankInstructionId r)
     \<and> (case pe_reversalOfEffectId r of None \<Rightarrow> True
        | Some e \<Rightarrow> \<exists>r' \<in> set (t_paymentExecutionEffects s). pe_organizationId r' = org
            \<and> pe_id r' = e \<and> pe_currency r' = pe_currency r \<and> pe_amount r' = pe_amount r))"

section \<open>Approval evidence\<close>

text \<open>
  The approval tables of the schema mirror have keys and references only; their checks and
  the two partial unique indexes on approval actions (one action of an actor per step, one
  per snapshot without steps) are those of \<open>migrations/0018_payment_submit_approval.sql\<close>.
\<close>

definition approval_snapshot_clash :: "approval_snapshot_row \<Rightarrow> approval_snapshot_row \<Rightarrow> bool" where
  "approval_snapshot_clash r r' \<longleftrightarrow> ps_id r = ps_id r'"

definition approval_snapshot_refs :: "'z payment_db_scheme \<Rightarrow> approval_snapshot_row \<Rightarrow> bool" where
  "approval_snapshot_refs s r \<longleftrightarrow> (\<exists>d \<in> set (t_paymentDocuments s).
     pd_organizationId d = ps_organizationId r \<and> pd_id d = ps_paymentDocumentId r
     \<and> pd_baseCurrency d = ps_baseCurrency r)"

definition snapshot_context_clash :: "snapshot_context_row \<Rightarrow> snapshot_context_row \<Rightarrow> bool" where
  "snapshot_context_clash r r' \<longleftrightarrow> px_organizationId r = px_organizationId r'
     \<and> px_approvalSnapshotId r = px_approvalSnapshotId r' \<and> px_contextOrder r = px_contextOrder r'"

definition snapshot_step_clash :: "snapshot_step_row \<Rightarrow> snapshot_step_row \<Rightarrow> bool" where
  "snapshot_step_clash r r' \<longleftrightarrow> pt_id r = pt_id r'
     \<or> pt_organizationId r = pt_organizationId r' \<and> pt_approvalSnapshotId r = pt_approvalSnapshotId r'
       \<and> (pt_stepOrder r = pt_stepOrder r' \<or> pt_obligationKey r = pt_obligationKey r')"

definition aggregation_clash :: "approval_aggregation_row \<Rightarrow> approval_aggregation_row \<Rightarrow> bool" where
  "aggregation_clash r r' \<longleftrightarrow> gg_organizationId r = gg_organizationId r'
     \<and> gg_approvalSnapshotId r = gg_approvalSnapshotId r'"

definition aggregation_participant_clash ::
  "aggregation_participant_row \<Rightarrow> aggregation_participant_row \<Rightarrow> bool" where
  "aggregation_participant_clash r r' \<longleftrightarrow> pp_organizationId r = pp_organizationId r'
     \<and> pp_approvalSnapshotId r = pp_approvalSnapshotId r'
     \<and> pp_paymentDocumentId r = pp_paymentDocumentId r'"

definition aggregation_participant_check :: "aggregation_participant_row \<Rightarrow> bool" where
  "aggregation_participant_check r \<longleftrightarrow>
     pp_versionBasis r \<in> {''SUBMITTED_CONTENT'', ''LIVE_AGGREGATE''}
     \<and> 0 < pp_paymentVersion r \<and> numeric_pos (pp_baseAmount r)"

definition aggregation_participant_refs ::
  "'z payment_db_scheme \<Rightarrow> aggregation_participant_row \<Rightarrow> bool" where
  "aggregation_participant_refs s r \<longleftrightarrow> (\<exists>d \<in> set (t_paymentDocuments s).
     pd_organizationId d = pp_organizationId r \<and> pd_id d = pp_paymentDocumentId r
     \<and> pd_baseCurrency d = pp_baseCurrency r)"

definition snapshot_step_check :: "snapshot_step_row \<Rightarrow> bool" where
  "snapshot_step_check r \<longleftrightarrow> 0 < pt_stepOrder r \<and> 0 < pt_approvalsRequired r
     \<and> (pt_roleId r = None \<longleftrightarrow> pt_approverUserId r \<noteq> None)
     \<and> (pt_roleName r = None \<longleftrightarrow> pt_approverName r \<noteq> None)
     \<and> pt_sourceContextOrders r \<noteq> []"

definition snapshot_context_check :: "snapshot_context_row \<Rightarrow> bool" where
  "snapshot_context_check r \<longleftrightarrow> 0 < px_contextOrder r \<and> 0 < px_firstLineNumber r
     \<and> 0 < px_policyVersion r"

definition approval_snapshot_check :: "approval_snapshot_row \<Rightarrow> bool" where
  "approval_snapshot_check r \<longleftrightarrow> 0 < ps_documentVersion r \<and> numeric_pos (ps_amountBasis r)"

definition approval_action_check :: "approval_action_row \<Rightarrow> bool" where
  "approval_action_check r \<longleftrightarrow>
     pc_action r \<in> {''APPROVED'', ''REJECTED'', ''RETURNED''}
     \<and> (case pc_approvalSnapshotStepId r of
          None \<Rightarrow> pc_stepOrder r = None \<and> pc_action r = ''RETURNED''
        | Some _ \<Rightarrow> (case pc_stepOrder r of None \<Rightarrow> False | Some n \<Rightarrow> 0 < n))
     \<and> (case pc_reason r of
          None \<Rightarrow> pc_action r = ''APPROVED''
        | Some reason \<Rightarrow> \<exists>c \<in> set reason. c \<noteq> CHR '' '')"

definition approval_action_clash :: "approval_action_row \<Rightarrow> approval_action_row \<Rightarrow> bool" where
  "approval_action_clash r r' \<longleftrightarrow> pc_id r = pc_id r'
     \<or> pc_organizationId r = pc_organizationId r'
       \<and> pc_approvalSnapshotId r = pc_approvalSnapshotId r' \<and> pc_actorUserId r = pc_actorUserId r'
       \<and> pc_approvalSnapshotStepId r = pc_approvalSnapshotStepId r'"

definition approval_action_refs :: "'z payment_db_scheme \<Rightarrow> approval_action_row \<Rightarrow> bool" where
  "approval_action_refs s r \<longleftrightarrow> (let org = pc_organizationId r in
     ref_ok ps_organizationId ps_id (t_paymentApprovalSnapshots s) org
       (Some (pc_approvalSnapshotId r))
     \<and> (case pc_approvalSnapshotStepId r of None \<Rightarrow> True
        | Some step \<Rightarrow> \<exists>t \<in> set (t_paymentApprovalSnapshotSteps s). pt_organizationId t = org
            \<and> pt_approvalSnapshotId t = pc_approvalSnapshotId r \<and> pt_id t = step)
     \<and> ref_ok us_organizationId us_id (t_userRefs s) org (Some (pc_actorUserId r))
     \<and> ref_ok us_organizationId us_id (t_userRefs s) org (pc_delegatedFromUserId r))"

end
