(* ===== verification/Foundation_Effects.thy ===== *)
theory Foundation_Effects
  imports Schema
begin

text \<open>
  \<open>foundation-effects/foundation-effects.service.ts\<close>: the three append-only writes every
  operational domain shares, a movement fact, an audit event and an outbox event, with the
  defaults of the source and the constraints of the tables. The service class forwards to
  the repository, so one definition stands for both.

  The lemmas give each write in the forward direction and its inversion, so a handler's
  proof only sees which row was appended; the ledger is append-only.
\<close>

section \<open>Constraints\<close>

definition movement_fact_check :: "movement_fact_row \<Rightarrow> bool" where
  "movement_fact_check r \<longleftrightarrow> mf_endpointType r \<in> {''CASHBOX'', ''BANK_ACCOUNT'', ''USER''}
     \<and> mf_direction r \<in> {''DEBIT'', ''CREDIT''} \<and> numeric_pos (mf_amount r)
     \<and> mf_state r \<in> {''POSTED'', ''REVERSED''}"

definition movement_fact_clash :: "movement_fact_row \<Rightarrow> movement_fact_row \<Rightarrow> bool" where
  "movement_fact_clash r r' \<longleftrightarrow> mf_id r = mf_id r'
     \<or> mf_organizationId r = mf_organizationId r'
       \<and> (mf_owner r = mf_owner r' \<and> mf_sourceType r = mf_sourceType r'
            \<and> mf_sourceId r = mf_sourceId r' \<and> mf_sourceLineId r \<noteq> None
            \<and> mf_sourceLineId r = mf_sourceLineId r' \<and> mf_effectKey r = mf_effectKey r'
          \<or> mf_reversalOfFactId r \<noteq> None \<and> mf_reversalOfFactId r = mf_reversalOfFactId r')"

definition movement_fact_refs :: "'z ledger_db_scheme \<Rightarrow> movement_fact_row \<Rightarrow> bool" where
  "movement_fact_refs s r \<longleftrightarrow>
     (\<exists>g \<in> set (t_organizations s). og_id g = mf_organizationId r)
     \<and> (\<exists>c \<in> set (t_currencies s). cu_organizationId c = mf_organizationId r
          \<and> cu_code c = mf_currency r)
     \<and> (case mf_reversalOfFactId r of None \<Rightarrow> True
        | Some f \<Rightarrow> \<exists>m \<in> set (t_movementFacts s). mf_organizationId m = mf_organizationId r
            \<and> mf_id m = f)"

definition audit_event_clash :: "audit_event_row \<Rightarrow> audit_event_row \<Rightarrow> bool" where
  "audit_event_clash r r' \<longleftrightarrow> ae_id r = ae_id r'
     \<or> ae_organizationId r = ae_organizationId r' \<and> ae_requestId r = ae_requestId r'
       \<and> ae_sequenceNo r = ae_sequenceNo r'"

definition audit_event_refs :: "'z ledger_db_scheme \<Rightarrow> audit_event_row \<Rightarrow> bool" where
  "audit_event_refs s r \<longleftrightarrow>
     (\<exists>g \<in> set (t_organizations s). og_id g = ae_organizationId r)
     \<and> (case ae_actorUserId r of None \<Rightarrow> True
        | Some u \<Rightarrow> \<exists>x \<in> set (t_userRefs s). us_organizationId x = ae_organizationId r \<and> us_id x = u)"

definition outbox_event_check :: "outbox_event_row \<Rightarrow> bool" where
  "outbox_event_check r \<longleftrightarrow> 0 < oe_aggregateVersion r
     \<and> (case oe_payload r of JObject _ \<Rightarrow> True | _ \<Rightarrow> False)"

definition outbox_event_clash :: "outbox_event_row \<Rightarrow> outbox_event_row \<Rightarrow> bool" where
  "outbox_event_clash r r' \<longleftrightarrow> oe_id r = oe_id r'
     \<or> oe_organizationId r = oe_organizationId r' \<and> oe_aggregateType r = oe_aggregateType r'
       \<and> oe_aggregateId r = oe_aggregateId r' \<and> oe_aggregateVersion r = oe_aggregateVersion r'
       \<and> oe_eventType r = oe_eventType r'"

definition outbox_event_refs :: "'z ledger_db_scheme \<Rightarrow> outbox_event_row \<Rightarrow> bool" where
  "outbox_event_refs s r \<longleftrightarrow> (\<exists>g \<in> set (t_organizations s). og_id g = oe_organizationId r)"

section \<open>The three writes\<close>

record movement_fact_command =
  mv_organizationId :: uuid
  mv_owner :: "str option"
  mv_sourceType :: "str option"
  mv_sourceId :: uuid
  mv_sourceLineId :: "uuid option"
  mv_effectKey :: str
  mv_endpointType :: str
  mv_endpointId :: uuid
  mv_amount :: str
  mv_currency :: str
  mv_businessDate :: str
  mv_reversalOfFactId :: "uuid option"
  mv_direction :: "str option"
  mv_state :: "str option"

record audit_input =
  ai_organizationId :: uuid
  ai_requestId :: str
  ai_actorUserId :: uuid
  ai_entityType :: "str option"
  ai_entityId :: uuid
  ai_action :: str
  ai_reason :: "str option"

record outbox_input =
  oi_organizationId :: uuid
  oi_aggregateType :: "str option"
  oi_aggregateId :: uuid
  oi_aggregateVersion :: int
  oi_eventType :: str
  oi_payload :: json

definition orElse :: "'a option \<Rightarrow> 'a \<Rightarrow> 'a" where
  "orElse v d = (case v of None \<Rightarrow> d | Some x \<Rightarrow> x)"

lemma orElse_simps [simp]: "orElse None d = d" "orElse (Some x) d = x"
  by (simp_all add: orElse_def)

definition movement_row ::
  "env \<Rightarrow> uuid \<Rightarrow> str \<Rightarrow> movement_fact_command \<Rightarrow> movement_fact_row" where
  "movement_row env i amount command = \<lparr>
     mf_id = i,
     mf_organizationId = mv_organizationId command,
     mf_owner = orElse (mv_owner command) ''domain.receipts'',
     mf_sourceType = orElse (mv_sourceType command) ''RECEIPT'',
     mf_sourceId = mv_sourceId command,
     mf_sourceLineId = mv_sourceLineId command,
     mf_effectKey = mv_effectKey command,
     mf_endpointType = mv_endpointType command,
     mf_endpointId = mv_endpointId command,
     mf_direction = orElse (mv_direction command)
       (if present_text (mv_reversalOfFactId command) then ''DEBIT'' else ''CREDIT''),
     mf_amount = amount,
     mf_currency = mv_currency command,
     mf_businessDate = mv_businessDate command,
     mf_executedAt = env_now env,
     mf_reversalOfFactId = mv_reversalOfFactId command,
     mf_state = orElse (mv_state command)
       (if present_text (mv_reversalOfFactId command) then ''REVERSED'' else ''POSTED'')\<rparr>"

definition appendMovement :: "env \<Rightarrow> movement_fact_command \<Rightarrow> ('z ledger_db_scheme, uuid) tx" where
  "appendMovement env command =
     tx_bind (randomUUID env) (\<lambda>i.
     tx_bind (tx_lift (pg_numeric 8 (mv_amount command))) (\<lambda>amount.
     tx_then (tx_insert movement_fact_check movement_fact_clash movement_fact_refs
         t_movementFacts t_movementFacts_update (movement_row env i amount command))
       (tx_return i)))"

definition audit_row :: "env \<Rightarrow> uuid \<Rightarrow> audit_input \<Rightarrow> audit_event_row" where
  "audit_row env i input = \<lparr>
     ae_id = i,
     ae_organizationId = ai_organizationId input,
     ae_requestId = ai_requestId input,
     ae_sequenceNo = 1,
     ae_actorUserId = Some (ai_actorUserId input),
     ae_entityType = orElse (ai_entityType input) ''Receipt'',
     ae_entityId = ai_entityId input,
     ae_action = ai_action input,
     ae_reason = ai_reason input,
     ae_outcome = ''SUCCEEDED'',
     ae_occurredAt = env_now env\<rparr>"

definition appendAudit :: "env \<Rightarrow> audit_input \<Rightarrow> ('z ledger_db_scheme, unit) tx" where
  "appendAudit env input =
     tx_bind (randomUUID env) (\<lambda>i.
       tx_insert (\<lambda>_. True) audit_event_clash audit_event_refs
         t_auditEvents t_auditEvents_update (audit_row env i input))"

definition outbox_row :: "env \<Rightarrow> uuid \<Rightarrow> outbox_input \<Rightarrow> outbox_event_row" where
  "outbox_row env i input = \<lparr>
     oe_id = i,
     oe_organizationId = oi_organizationId input,
     oe_aggregateType = orElse (oi_aggregateType input) ''Receipt'',
     oe_aggregateId = oi_aggregateId input,
     oe_aggregateVersion = oi_aggregateVersion input,
     oe_eventType = oi_eventType input,
     oe_payload = oi_payload input,
     oe_occurredAt = env_now env,
     oe_publishedAt = None\<rparr>"

definition appendOutbox :: "env \<Rightarrow> outbox_input \<Rightarrow> ('z ledger_db_scheme, unit) tx" where
  "appendOutbox env input =
     tx_bind (randomUUID env) (\<lambda>i.
       tx_insert outbox_event_check outbox_event_clash outbox_event_refs
         t_outboxEvents t_outboxEvents_update (outbox_row env i input))"

section \<open>What a write does\<close>

text \<open>
  Each write draws one identifier and appends one row. The lemmas state the new database
  exactly, so the tables they do not name are unchanged by simplification.
\<close>

lemma appendMovement_Inr [tx_inv]:
  "appendMovement env command s = Inr (i, s') \<longleftrightarrow>
     (\<exists>amount. i = env_uuids env (uuids_drawn s)
        \<and> pg_numeric 8 (mv_amount command) = Inr amount
        \<and> movement_fact_check (movement_row env i amount command)
        \<and> (\<forall>r \<in> set (t_movementFacts s).
             \<not> movement_fact_clash (movement_row env i amount command) r)
        \<and> movement_fact_refs (s\<lparr>uuids_drawn := uuids_drawn s + 1\<rparr>)
            (movement_row env i amount command)
        \<and> s' = s\<lparr>uuids_drawn := uuids_drawn s + 1,
              t_movementFacts := t_movementFacts s @ [movement_row env i amount command]\<rparr>)"
  unfolding appendMovement_def by (auto simp: tx_inv)

lemma appendAudit_Inr [tx_inv]:
  "appendAudit env input s = Inr (u, s') \<longleftrightarrow>
     (let row = audit_row env (env_uuids env (uuids_drawn s)) input in
        (\<forall>r \<in> set (t_auditEvents s). \<not> audit_event_clash row r)
        \<and> audit_event_refs (s\<lparr>uuids_drawn := uuids_drawn s + 1\<rparr>) row
        \<and> s' = s\<lparr>uuids_drawn := uuids_drawn s + 1, t_auditEvents := t_auditEvents s @ [row]\<rparr>)"
  unfolding appendAudit_def by (auto simp: tx_inv Let_def)

lemma appendOutbox_Inr [tx_inv]:
  "appendOutbox env input s = Inr (u, s') \<longleftrightarrow>
     (let row = outbox_row env (env_uuids env (uuids_drawn s)) input in
        outbox_event_check row
        \<and> (\<forall>r \<in> set (t_outboxEvents s). \<not> outbox_event_clash row r)
        \<and> outbox_event_refs (s\<lparr>uuids_drawn := uuids_drawn s + 1\<rparr>) row
        \<and> s' = s\<lparr>uuids_drawn := uuids_drawn s + 1, t_outboxEvents := t_outboxEvents s @ [row]\<rparr>)"
  unfolding appendOutbox_def by (auto simp: tx_inv Let_def)

text \<open>
  The audit table has one row per organization, request id and sequence number, and the
  repository always writes sequence number 1: a request id already audited is refused.
\<close>

lemma appendAudit_repeated_request:
  assumes "r \<in> set (t_auditEvents s)" and "ae_organizationId r = ai_organizationId input"
    and "ae_requestId r = ai_requestId input" and "ae_sequenceNo r = 1"
  shows "appendAudit env input s = Inl (PgError ''23505'')"
proof -
  have "\<exists>r' \<in> set (t_auditEvents s).
      audit_event_clash (audit_row env (env_uuids env (uuids_drawn s)) input) r'"
    using assms by (intro bexI [of _ r]) (auto simp: audit_event_clash_def audit_row_def)
  then show ?thesis
    by (simp add: appendAudit_def randomUUID_def tx_bind_def tx_insert_def)
qed

end
