(* ===== verification/Source_Effects.thy ===== *)
theory Source_Effects
  imports Payment_Constraints Foundation_Effects
begin

text \<open>
  The effect services of cashboxes and bank accounts, which decide whether a source can pay
  or receive: \<open>cashbox-and-custody/payment-cashbox-effects.service.ts\<close>,
  \<open>cashbox-and-custody/receipt-cashbox-effects.service.ts\<close>,
  \<open>banking/payment-banking-effects.service.ts\<close> and \<open>banking/receipt-banking-effects.service.ts\<close>.

  The position of an endpoint is the signed sum of its movement facts. A ledger contract
  states how posting moves positions; the decisions are shown to be the arithmetic ones where
  the position is not negative, and refuted by an example where it is.
\<close>

section \<open>Positions\<close>

text \<open>The value of a \<open>numeric(38,8)\<close> text in units of its last decimal.\<close>

definition units8 :: "str \<Rightarrow> int" where
  "units8 value = fst (decimalParts value) * 10 ^ (8 - snd (decimalParts value))"

definition signed_units :: "movement_fact_row \<Rightarrow> int" where
  "signed_units m = (if mf_direction m = ''CREDIT'' then units8 (mf_amount m) else - units8 (mf_amount m))"

record endpoint =
  ep_organizationId :: uuid
  ep_type :: str
  ep_id :: uuid
  ep_currency :: str

definition movement_endpoint :: "movement_fact_row \<Rightarrow> endpoint" where
  "movement_endpoint m = \<lparr>ep_organizationId = mf_organizationId m, ep_type = mf_endpointType m,
     ep_id = mf_endpointId m, ep_currency = mf_currency m\<rparr>"

definition position_units :: "endpoint \<Rightarrow> 'z ledger_db_scheme \<Rightarrow> int" where
  "position_units e s =
     sum_list (map signed_units (filter (\<lambda>m. movement_endpoint m = e) (t_movementFacts s)))"

text \<open>\<open>COALESCE(SUM(...), 0)::text\<close>: \<open>0\<close> without a decimal when there is no movement.\<close>

definition balance_text :: "endpoint \<Rightarrow> 'z ledger_db_scheme \<Rightarrow> str" where
  "balance_text e s =
     (if \<exists>m \<in> set (t_movementFacts s). movement_endpoint m = e
      then formatScaled (position_units e s) 8 else ''0'')"

definition reserved_amounts :: "endpoint \<Rightarrow> uuid \<Rightarrow> 'z payment_db_scheme \<Rightarrow> str list" where
  "reserved_amounts e paymentId s = map pv_amount (filter (\<lambda>v.
     pv_organizationId v = ep_organizationId e \<and> pv_sourceType v = ep_type e
     \<and> pv_sourceId v = ep_id e \<and> pv_currency v = ep_currency e
     \<and> pv_state v \<in> {''ACTIVE'', ''REVIEW_REQUIRED''}
     \<and> pv_paymentDocumentId v \<noteq> paymentId) (t_paymentReservations s))"

definition reserved_units :: "endpoint \<Rightarrow> uuid \<Rightarrow> 'z payment_db_scheme \<Rightarrow> int" where
  "reserved_units e paymentId s = sum_list (map decimal8 (reserved_amounts e paymentId s))"

section \<open>Cashboxes\<close>

datatype source_state = OK | UNAVAILABLE | CLOSED | INSUFFICIENT

definition find_cashbox :: "'z payment_db_scheme \<Rightarrow> uuid \<Rightarrow> uuid \<Rightarrow> cashbox_row option" where
  "find_cashbox s org cashboxId =
     find (\<lambda>c. cb_organizationId c = org \<and> cb_id c = cashboxId) (t_cashboxes s)"

definition find_control ::
  "'z payment_db_scheme \<Rightarrow> uuid \<Rightarrow> uuid \<Rightarrow> str \<Rightarrow> cashbox_currency_control_row option" where
  "find_control s org cashboxId currency =
     find (\<lambda>c. cc_organizationId c = org \<and> cc_cashboxId c = cashboxId \<and> cc_currency c = currency)
       (t_cashboxCurrencyControls s)"

definition active_at :: "cashbox_row \<Rightarrow> str \<Rightarrow> bool" where
  "active_at c businessDate \<longleftrightarrow> cb_activeFrom c \<le> utc_midnight businessDate
     \<and> (case cb_activeTo c of None \<Rightarrow> True | Some t \<Rightarrow> utc_midnight businessDate < t)"

text \<open>The latest close cycle of a business date: \<open>ORDER BY close_cycle DESC LIMIT 1\<close>.\<close>

definition latest_day :: "'z payment_db_scheme \<Rightarrow> uuid \<Rightarrow> uuid \<Rightarrow> str \<Rightarrow> cashbox_day_row option" where
  "latest_day s org cashboxId businessDate = first_row (order_by (\<lambda>d. - cd_closeCycle d)
     (filter (\<lambda>d. cd_organizationId d = org \<and> cd_cashboxId d = cashboxId
        \<and> cd_businessDate d = businessDate) (t_cashboxDays s)))"

definition day_closed :: "'z payment_db_scheme \<Rightarrow> uuid \<Rightarrow> uuid \<Rightarrow> str \<Rightarrow> bool" where
  "day_closed s org cashboxId businessDate =
     (case latest_day s org cashboxId businessDate of None \<Rightarrow> False | Some d \<Rightarrow> cd_state d \<noteq> ''OPEN'')"

definition position_floor :: "cashbox_currency_control_row \<Rightarrow> str option" where
  "position_floor control = coalesce (cc_minimumPosition control)
     (if cc_allowNegative control then None else Some ''0'')"

definition cashbox_endpoint :: "uuid \<Rightarrow> uuid \<Rightarrow> str \<Rightarrow> endpoint" where
  "cashbox_endpoint org cashboxId currency = \<lparr>ep_organizationId = org, ep_type = ''CASHBOX'',
     ep_id = cashboxId, ep_currency = currency\<rparr>"

definition cashbox_payable ::
  "'z payment_db_scheme \<Rightarrow> uuid \<Rightarrow> uuid \<Rightarrow> str \<Rightarrow> str \<Rightarrow> uuid \<Rightarrow> str \<Rightarrow> source_state" where
  "cashbox_payable s org cashboxId currency businessDate paymentId amount =
     (case (find_cashbox s org cashboxId, find_control s org cashboxId currency) of
        (Some c, Some control) \<Rightarrow>
          if cb_state c \<noteq> ''ACTIVE'' \<or> \<not> cb_canPay c \<or> \<not> active_at c businessDate then UNAVAILABLE
          else if day_closed s org cashboxId businessDate then CLOSED
          else if (case cc_transactionCeiling control of None \<Rightarrow> False
              | Some limit \<Rightarrow> decimal8 amount > decimal8 limit) then INSUFFICIENT
          else
            (let e = cashbox_endpoint org cashboxId currency;
                 reserved = reserved_units e paymentId s
             in (case position_floor control of None \<Rightarrow> OK
                 | Some fl \<Rightarrow>
                     if decimal8 (balance_text e s) - reserved - decimal8 amount < decimal8 fl
                     then INSUFFICIENT else OK))
      | _ \<Rightarrow> UNAVAILABLE)"

definition cashbox_receivable ::
  "'z payment_db_scheme \<Rightarrow> uuid \<Rightarrow> uuid \<Rightarrow> str \<Rightarrow> str \<Rightarrow> source_state" where
  "cashbox_receivable s org cashboxId currency businessDate =
     (case (find_cashbox s org cashboxId, find_control s org cashboxId currency) of
        (Some c, Some control) \<Rightarrow>
          if cb_state c \<noteq> ''ACTIVE'' \<or> \<not> cb_canReceive c \<or> \<not> active_at c businessDate then UNAVAILABLE
          else if day_closed s org cashboxId businessDate then CLOSED else OK
      | _ \<Rightarrow> UNAVAILABLE)"

section \<open>Bank accounts\<close>

definition account_endpoint :: "uuid \<Rightarrow> uuid \<Rightarrow> str \<Rightarrow> endpoint" where
  "account_endpoint org accountId currency = \<lparr>ep_organizationId = org, ep_type = ''BANK_ACCOUNT'',
     ep_id = accountId, ep_currency = currency\<rparr>"

definition bank_payable ::
  "'z payment_db_scheme \<Rightarrow> uuid \<Rightarrow> uuid \<Rightarrow> str \<Rightarrow> str \<Rightarrow> uuid \<Rightarrow> str \<Rightarrow> bool" where
  "bank_payable s org bankAccountId currency businessDate paymentId amount =
     (case find (\<lambda>b. ba_organizationId b = org \<and> ba_id b = bankAccountId \<and> ba_currency b = currency
          \<and> ba_state b = ''ACTIVE'' \<and> ba_canPay b) (t_bankAccounts s) of
        None \<Rightarrow> False
      | Some account \<Rightarrow>
          if businessDate < ba_openingDate account
             \<or> (case ba_closingDate account of None \<Rightarrow> False | Some closing \<Rightarrow> businessDate > closing)
             \<or> (case ba_withdrawalCeiling account of None \<Rightarrow> False
                | Some limit \<Rightarrow> decimal8 amount > decimal8 limit)
          then False
          else
            (let e = account_endpoint org bankAccountId currency
             in decimal8 (balance_text e s) - reserved_units e paymentId s \<ge> decimal8 amount))"

definition bank_receivable :: "'z payment_db_scheme \<Rightarrow> uuid \<Rightarrow> uuid \<Rightarrow> str \<Rightarrow> bool" where
  "bank_receivable s org bankAccountId currency \<longleftrightarrow>
     length (filter (\<lambda>b. ba_organizationId b = org \<and> ba_id b = bankAccountId
       \<and> ba_currency b = currency \<and> ba_state b = ''ACTIVE'' \<and> ba_canReceive b) (t_bankAccounts s)) = 1"

record bank_instruction_input =
  bn_id :: uuid
  bn_organizationId :: uuid
  bn_paymentLineId :: uuid
  bn_bankAccountId :: uuid
  bn_amount :: str
  bn_currency :: str
  bn_beneficiaryAccountReference :: str
  bn_localReference :: str

definition instruction_row :: "env \<Rightarrow> str \<Rightarrow> bank_instruction_input \<Rightarrow> bank_instruction_row" where
  "instruction_row env amount input = \<lparr>
     bi_id = bn_id input,
     bi_organizationId = bn_organizationId input,
     bi_paymentLineId = bn_paymentLineId input,
     bi_bankAccountId = bn_bankAccountId input,
     bi_amount = amount,
     bi_currency = bn_currency input,
     bi_beneficiaryAccountReference = bn_beneficiaryAccountReference input,
     bi_localReference = bn_localReference input,
     bi_statementLineId = None,
     bi_correctionPaymentId = None,
     bi_outcomeReason = None,
     bi_outcomeEvidence = None,
     bi_state = ''PENDING_CONFIRMATION'',
     bi_version = 0,
     bi_createdAt = env_now env,
     bi_updatedAt = env_now env\<rparr>"

definition createInstruction :: "env \<Rightarrow> bank_instruction_input \<Rightarrow> ('z payment_db_scheme, unit) tx" where
  "createInstruction env input =
     tx_bind (tx_lift (pg_numeric 8 (bn_amount input))) (\<lambda>amount.
       tx_insert bank_instruction_check bank_instruction_clash bank_instruction_refs
         t_bankInstructions t_bankInstructions_update (instruction_row env amount input))"

section \<open>Normalised amounts\<close>

text \<open>
  What a \<open>numeric(38,8)\<close> column holds: the rendering of an integer number of units with eight
  decimals. Such a text is read back exactly and written unchanged.
\<close>

definition numeric8 :: "str \<Rightarrow> bool" where
  "numeric8 t \<longleftrightarrow> formatScaled (units8 t) 8 = t \<and> \<bar>units8 t\<bar> < 10 ^ 38"

lemma units8_formatScaled [simp]: "units8 (formatScaled v 8) = v"
proof -
  have "scaled (formatScaled v 8) 8 = Inr v" by (rule scaled_formatScaled)
  then show ?thesis by (auto simp: scaled_def units8_def Let_def split: if_splits)
qed

lemma decimalPlaces_formatScaled: "snd (decimalParts (formatScaled v 8)) \<le> 8"
  using scaled_formatScaled [of v 8] by (auto simp: scaled_def Let_def split: if_splits)

lemma numeric8_formatScaled: "\<bar>v\<bar> < 10 ^ 38 \<Longrightarrow> numeric8 (formatScaled v 8)"
  by (simp add: numeric8_def)

lemma numeric8_places: "numeric8 t \<Longrightarrow> snd (decimalParts t) \<le> 8"
  by (metis numeric8_def decimalPlaces_formatScaled)

lemma pg_numeric_numeric8 [simp]: "numeric8 t \<Longrightarrow> pg_numeric 8 t = Inr t"
  using numeric8_places [of t] by (simp add: pg_numeric_def Let_def numeric8_def units8_def)

lemma decimal8_formatScaled [simp]:
  assumes "0 \<le> v"
  shows "decimal8 (formatScaled v 8) = v"
proof -
  have "(of_int (decimal8 (formatScaled v 8)) :: rat) = of_int v"
    using decimal_formatScaled [OF assms, of 8] fixed8.reading_rat [of "formatScaled v 8"] by simp
  then show ?thesis by simp
qed

lemma numeric8_decimal8: "numeric8 t \<Longrightarrow> 0 \<le> units8 t \<Longrightarrow> decimal8 t = units8 t"
  by (metis numeric8_def decimal8_formatScaled)

lemma numeric_pos_units8: "numeric_pos t \<Longrightarrow> 0 < units8 t"
  by (simp add: numeric_pos_def units8_def)

lemma decimal8_balance:
  assumes "0 \<le> position_units e s"
  shows "decimal8 (balance_text e s) = position_units e s"
proof (cases "\<exists>m \<in> set (t_movementFacts s). movement_endpoint m = e")
  case True
  then show ?thesis using assms by (simp add: balance_text_def)
next
  case False
  then have "filter (\<lambda>m. movement_endpoint m = e) (t_movementFacts s) = []"
    by (simp add: filter_empty_conv)
  then have "position_units e s = 0" by (simp only: position_units_def list.map sum_list.Nil)
  moreover have "balance_text e s = ''0''" using False by (simp add: balance_text_def)
  moreover have "decimal8 ''0'' = 0"
    by (simp add: decimal8_def Let_def bigint_digits pad_end_def digits_val_Cons)
  ultimately show ?thesis by simp
qed

section \<open>The ledger contract\<close>

text \<open>
  What the handlers rely on: posting a movement changes the position of its endpoint by its
  signed amount and no other position. A list of postings then changes each position by the
  sum of the amounts that concern it, whatever else the handler does between the postings.
\<close>

locale movement_ledger =
  fixes post :: "'c \<Rightarrow> ('s, 'i) tx"
    and concerns :: "'c \<Rightarrow> 'e"
    and signed :: "'c \<Rightarrow> int"
    and position :: "'e \<Rightarrow> 's \<Rightarrow> int"
  assumes post_position: "post c s = Inr (i, s') \<Longrightarrow>
    position e s' = position e s + (if concerns c = e then signed c else 0)"
begin

definition net :: "'e \<Rightarrow> 'c list \<Rightarrow> int" where
  "net e cs = sum_list (map signed (filter (\<lambda>c. concerns c = e) cs))"

lemma net_Nil [simp]: "net e [] = 0"
  by (simp add: net_def)

lemma net_Cons [simp]: "net e (c # cs) = (if concerns c = e then signed c else 0) + net e cs"
  by (simp add: net_def)

lemma step_position:
  assumes "tx_bind pre (\<lambda>a. tx_bind (post c) (rest a)) s = Inr (r, s')"
    and "\<And>s a t. pre s = Inr (a, t) \<Longrightarrow> position e t = position e s"
    and "\<And>a i s r t. rest a i s = Inr (r, t) \<Longrightarrow> position e t = position e s"
  shows "position e s' = position e s + (if concerns c = e then signed c else 0)"
proof -
  obtain a s1 i s2 where pre: "pre s = Inr (a, s1)" and "post c s1 = Inr (i, s2)"
    and rest: "rest a i s2 = Inr (r, s')"
    using assms(1) by (auto simp: tx_inv)
  then show ?thesis
    using post_position [of c s1 i s2 e] assms(2) [OF pre] assms(3) [OF rest] by simp
qed

lemma posts_position:
  assumes "tx_map h xs s = Inr (ys, s')"
    and "\<And>x s y s'. x \<in> set xs \<Longrightarrow> h x s = Inr (y, s') \<Longrightarrow>
      position e s' = position e s + (if concerns (cmd x) = e then signed (cmd x) else 0)"
  shows "position e s' = position e s + net e (map cmd xs)"
  using assms
proof (induction xs arbitrary: s ys)
  case Nil
  then show ?case by (simp add: tx_inv)
next
  case (Cons x xs)
  obtain y s1 zs where x: "h x s = Inr (y, s1)" and xs: "tx_map h xs s1 = Inr (zs, s')"
    using Cons.prems(1) by (auto simp: tx_inv)
  have "position e s1 = position e s + (if concerns (cmd x) = e then signed (cmd x) else 0)"
    using Cons.prems(2) x by simp
  moreover have "position e s' = position e s1 + net e (map cmd xs)"
    using Cons.IH [OF xs] Cons.prems(2) by simp
  ultimately show ?case by simp
qed

end

definition command_endpoint :: "movement_fact_command \<Rightarrow> endpoint" where
  "command_endpoint c = \<lparr>ep_organizationId = mv_organizationId c, ep_type = mv_endpointType c,
     ep_id = mv_endpointId c, ep_currency = mv_currency c\<rparr>"

definition command_direction :: "movement_fact_command \<Rightarrow> str" where
  "command_direction c = orElse (mv_direction c)
     (if present_text (mv_reversalOfFactId c) then ''DEBIT'' else ''CREDIT'')"

definition numeric_units :: "str \<Rightarrow> int" where
  "numeric_units t = (case pg_numeric 8 t of Inr a \<Rightarrow> units8 a | Inl _ \<Rightarrow> 0)"

definition command_signed :: "movement_fact_command \<Rightarrow> int" where
  "command_signed c = (if command_direction c = ''CREDIT'' then numeric_units (mv_amount c)
     else - numeric_units (mv_amount c))"

lemma numeric_units_numeric8 [simp]: "numeric8 t \<Longrightarrow> numeric_units t = units8 t"
  by (simp add: numeric_units_def)

lemma movement_row_endpoint [simp]:
  "movement_endpoint (movement_row env i amount c) = command_endpoint c"
  by (simp add: movement_endpoint_def movement_row_def command_endpoint_def)

interpretation ledger: movement_ledger "appendMovement env" command_endpoint command_signed position_units
  for env
proof
  fix c i e and s s' :: "'z ledger_db_scheme"
  assume "appendMovement env c s = Inr (i, s')"
  then obtain amount where a: "pg_numeric 8 (mv_amount c) = Inr amount"
    and s': "s' = s\<lparr>uuids_drawn := uuids_drawn s + 1,
      t_movementFacts := t_movementFacts s @ [movement_row env i amount c]\<rparr>"
    by (auto simp: appendMovement_Inr)
  have "signed_units (movement_row env i amount c) = command_signed c"
    using a by (simp add: signed_units_def command_signed_def command_direction_def
      numeric_units_def movement_row_def)
  then show "position_units e s' = position_units e s
      + (if command_endpoint c = e then command_signed c else 0)"
    by (simp add: s' position_units_def)
qed

end
