(* ===== verification/Commit_Guards.thy ===== *)
theory Commit_Guards
  imports Source_Effects
begin

text \<open>
  The deferred constraint triggers of \<open>migrations/0017_payment_request_drafts.sql\<close> and
  \<open>migrations/0019_payment_execution_outcomes.sql\<close>, which run when a transaction commits: the
  header total of a payment equals the sum of its lines, its branch is the branch of its
  treasury unit, and every execution effect rests on its matching movement fact or bank
  instruction. A trigger sees the rows the transaction inserted or changed.
\<close>

section \<open>The triggers\<close>

definition changed_rows :: "'r list \<Rightarrow> 'r list \<Rightarrow> 'r list" where
  "changed_rows old new = filter (\<lambda>r. r \<notin> set old) new"

definition payment_total_ok :: "'z payment_db_scheme \<Rightarrow> uuid \<Rightarrow> uuid \<Rightarrow> bool" where
  "payment_total_ok s org paymentId =
     (case find (\<lambda>d. pd_organizationId d = org \<and> pd_id d = paymentId) (t_paymentDocuments s) of
        None \<Rightarrow> True
      | Some d \<Rightarrow>
          (let lines = filter (\<lambda>l. pl_organizationId l = org \<and> pl_paymentDocumentId l = paymentId)
             (t_paymentLines s)
           in lines \<noteq> []
              \<and> sum_list (map (units8 \<circ> pl_baseAmount) lines) = units8 (pd_totalBaseAmount d)))"

definition unit_branch_ok :: "'z payment_db_scheme \<Rightarrow> uuid \<Rightarrow> uuid option \<Rightarrow> uuid option \<Rightarrow> bool" where
  "unit_branch_ok s org branchId treasuryUnitId =
     (case (branchId, treasuryUnitId) of
        (Some b, Some u) \<Rightarrow> \<exists>t \<in> set (t_treasuryUnits s).
          tu_organizationId t = org \<and> tu_id t = u \<and> tu_branchId t = Some b
      | _ \<Rightarrow> True)"

definition reversal_target_ok :: "'z payment_db_scheme \<Rightarrow> execution_effect_row \<Rightarrow> bool" where
  "reversal_target_ok s e \<longleftrightarrow> (pe_direction e = ''REVERSAL'' \<longrightarrow>
     (\<exists>original \<in> set (t_paymentExecutionEffects s). pe_organizationId original = pe_organizationId e
        \<and> pe_reversalOfEffectId e = Some (pe_id original) \<and> pe_direction original = ''OUTGOING''
        \<and> pe_effectType original = pe_effectType e \<and> pe_currency original = pe_currency e
        \<and> pe_amount original = pe_amount e))"

definition reversed_fact :: "'z payment_db_scheme \<Rightarrow> execution_effect_row \<Rightarrow> uuid option" where
  "reversed_fact s e =
     (case find (\<lambda>original. pe_organizationId original = pe_organizationId e
          \<and> pe_reversalOfEffectId e = Some (pe_id original)) (t_paymentExecutionEffects s) of
        None \<Rightarrow> None | Some original \<Rightarrow> pe_movementFactId original)"

definition movement_supports ::
  "'z payment_db_scheme \<Rightarrow> execution_effect_row \<Rightarrow> payment_line_row \<Rightarrow> payment_document_row
     \<Rightarrow> movement_fact_row \<Rightarrow> bool" where
  "movement_supports s e line payment moved \<longleftrightarrow>
     mf_organizationId moved = pe_organizationId e \<and> pe_movementFactId e = Some (mf_id moved)
     \<and> mf_owner moved = ''domain.payments'' \<and> mf_sourceType moved = ''Payment''
     \<and> mf_sourceId moved = pd_id payment \<and> mf_sourceLineId moved = Some (pl_id line)
     \<and> mf_effectKey moved = pe_effectKey e
     \<and> mf_currency moved = pe_currency e \<and> mf_amount moved = pe_amount e
     \<and> mf_businessDate moved = pe_businessDate e
     \<and> mf_direction moved = (if pe_direction e = ''OUTGOING'' then ''DEBIT'' else ''CREDIT'')
     \<and> mf_state moved = ''POSTED''
     \<and> pd_businessDate payment = pe_businessDate e \<and> pd_version payment = pe_sourceVersion e
     \<and> (pe_effectType e = ''CASHBOX_MOVEMENT'' \<and> mf_endpointType moved = ''CASHBOX''
          \<and> pl_cashboxId line = Some (mf_endpointId moved)
        \<or> pe_effectType e = ''BANK_MOVEMENT'' \<and> mf_endpointType moved = ''BANK_ACCOUNT''
          \<and> pl_bankAccountId line = Some (mf_endpointId moved))
     \<and> (pe_direction e = ''OUTGOING'' \<and> mf_reversalOfFactId moved = None
        \<or> pe_direction e = ''REVERSAL'' \<and> mf_reversalOfFactId moved \<noteq> None
          \<and> mf_reversalOfFactId moved = reversed_fact s e)"

definition line_payment ::
  "'z payment_db_scheme \<Rightarrow> execution_effect_row \<Rightarrow> (payment_line_row \<times> payment_document_row) list" where
  "line_payment s e = concat (map
     (\<lambda>l. map (Pair l) (filter (\<lambda>d. pd_organizationId d = pl_organizationId l
        \<and> pd_id d = pl_paymentDocumentId l) (t_paymentDocuments s)))
     (filter (\<lambda>l. pl_organizationId l = pe_organizationId e \<and> pl_id l = pe_paymentLineId e)
       (t_paymentLines s)))"

definition effect_evidence_ok :: "'z payment_db_scheme \<Rightarrow> execution_effect_row \<Rightarrow> bool" where
  "effect_evidence_ok s e \<longleftrightarrow>
     reversal_target_ok s e
     \<and> (pe_effectType e \<in> {''CASHBOX_MOVEMENT'', ''BANK_MOVEMENT''} \<longrightarrow>
          (\<exists>lp \<in> set (line_payment s e). \<exists>moved \<in> set (t_movementFacts s).
             movement_supports s e (fst lp) (snd lp) moved))
     \<and> (pe_effectType e = ''BANK_INSTRUCTION'' \<longrightarrow>
          (\<exists>lp \<in> set (line_payment s e). \<exists>i \<in> set (t_bankInstructions s).
             bi_organizationId i = pe_organizationId e \<and> pe_bankInstructionId e = Some (bi_id i)
             \<and> bi_paymentLineId i = pe_paymentLineId e
             \<and> pl_bankAccountId (fst lp) = Some (bi_bankAccountId i)
             \<and> bi_currency i = pe_currency e \<and> bi_amount i = pe_amount e
             \<and> pd_businessDate (snd lp) = pe_businessDate e
             \<and> pd_version (snd lp) = pe_sourceVersion e))
     \<and> pe_effectType e \<noteq> ''ISSUED_CHEQUE''"

section \<open>Commit\<close>

definition commit_guards :: "'z payment_db_scheme \<Rightarrow> 'z payment_db_scheme \<Rightarrow> bool" where
  "commit_guards old new \<longleftrightarrow>
     (\<forall>d \<in> set (changed_rows (t_paymentDocuments old) (t_paymentDocuments new)).
        payment_total_ok new (pd_organizationId d) (pd_id d)
        \<and> unit_branch_ok new (pd_organizationId d) (pd_branchId d) (Some (pd_treasuryUnitId d)))
     \<and> (\<forall>l \<in> set (changed_rows (t_paymentLines old) (t_paymentLines new)).
        payment_total_ok new (pl_organizationId l) (pl_paymentDocumentId l))
     \<and> (\<forall>r \<in> set (changed_rows (t_paymentRequests old) (t_paymentRequests new)).
        unit_branch_ok new (pq_organizationId r) (pq_branchId r) (pq_treasuryUnitId r))
     \<and> (\<forall>e \<in> set (changed_rows (t_paymentExecutionEffects old) (t_paymentExecutionEffects new)).
        effect_evidence_ok new e)"

text \<open>A unit of work with the triggers that run at its end.\<close>

definition committed :: "('z payment_db_scheme, 'a) tx \<Rightarrow> ('z payment_db_scheme, 'a) tx" where
  "committed work = (\<lambda>s. case work s of Inl e \<Rightarrow> Inl e
     | Inr (a, s') \<Rightarrow> if commit_guards s s' then Inr (a, s') else Inl (PgError ''23514''))"

lemma committed_Inr [tx_inv]:
  "committed work s = Inr (a, s') \<longleftrightarrow> work s = Inr (a, s') \<and> commit_guards s s'"
  by (auto simp: committed_def split: sum.splits)

lemma changed_rows_append: "changed_rows xs (xs @ ys) = filter (\<lambda>r. r \<notin> set xs) ys"
  by (auto simp: changed_rows_def filter_empty_conv)

lemma changed_rows_same [simp]: "changed_rows xs xs = []"
  by (simp add: changed_rows_def filter_empty_conv)

end
