(* ===== verification/Payment_Repository.thy ===== *)
theory Payment_Repository
  imports Payment_Constraints Foundation_Effects
begin

text \<open>
  \<open>payments/payment.repository.ts\<close>: the idempotency records, the number counters, the facts a
  draft is checked against, the inserts of requests and payments, and the views read back.
  Reads are functions of the database; writes are transaction steps.

  A label whose row a foreign key guarantees is read with an empty text as the value the
  source's non-null assertion never meets.
\<close>

section \<open>Idempotency records\<close>

record idempotency_key =
  ik_organizationId :: uuid
  ik_scope :: str
  ik_key :: str

definition idempotency_matches :: "idempotency_key \<Rightarrow> idempotency_row \<Rightarrow> bool" where
  "idempotency_matches k r \<longleftrightarrow> ir_organizationId r = ik_organizationId k
     \<and> ir_scope r = ik_scope k \<and> ir_idempotencyKey r = ik_key k"

definition acquireIdempotencyLock :: "idempotency_key \<Rightarrow> ('z payment_db_scheme, unit) tx" where
  "acquireIdempotencyLock k =
     pg_advisory_xact_lock (ik_organizationId k) (ik_scope k @ '':'' @ ik_key k)"

record 'r replay =
  re_requestDigest :: str
  re_response :: "'r option"

definition findIdempotency ::
  "idempotency_key \<Rightarrow> 'z payment_db_scheme \<Rightarrow> response replay option" where
  "findIdempotency k s = map_option
     (\<lambda>r. \<lparr>re_requestDigest = ir_requestDigest r, re_response = ir_responseBody r\<rparr>)
     (find (idempotency_matches k) (t_idempotencyRecords s))"

definition idempotency_clash :: "idempotency_row \<Rightarrow> idempotency_row \<Rightarrow> bool" where
  "idempotency_clash r r' \<longleftrightarrow> ir_id r = ir_id r'
     \<or> ir_organizationId r = ir_organizationId r' \<and> ir_scope r = ir_scope r'
       \<and> ir_idempotencyKey r = ir_idempotencyKey r'"

definition idempotency_refs :: "'z payment_db_scheme \<Rightarrow> idempotency_row \<Rightarrow> bool" where
  "idempotency_refs s r \<longleftrightarrow> (\<exists>g \<in> set (t_organizations s). og_id g = ir_organizationId r)"

definition idempotency_fresh :: "env \<Rightarrow> uuid \<Rightarrow> idempotency_key \<Rightarrow> str \<Rightarrow> idempotency_row" where
  "idempotency_fresh env i k requestDigest = \<lparr>
     ir_id = i,
     ir_organizationId = ik_organizationId k,
     ir_scope = ik_scope k,
     ir_idempotencyKey = ik_key k,
     ir_requestDigest = requestDigest,
     ir_responseStatus = None,
     ir_responseBody = None,
     ir_createdAt = env_now env\<rparr>"

definition insertIdempotency ::
  "env \<Rightarrow> idempotency_key \<Rightarrow> str \<Rightarrow> ('z payment_db_scheme, unit) tx" where
  "insertIdempotency env k requestDigest =
     tx_bind (randomUUID env) (\<lambda>i.
       tx_insert (\<lambda>_. True) idempotency_clash idempotency_refs
         t_idempotencyRecords t_idempotencyRecords_update (idempotency_fresh env i k requestDigest))"

definition saveIdempotency ::
  "idempotency_key \<Rightarrow> response \<Rightarrow> int \<Rightarrow> ('z payment_db_scheme, unit) tx" where
  "saveIdempotency k response responseStatus =
     tx_write (t_idempotencyRecords_update (update_where (idempotency_matches k)
       (\<lambda>r. r\<lparr>ir_responseStatus := Some responseStatus, ir_responseBody := Some response\<rparr>)))"

section \<open>Numbers\<close>

text \<open>
  \<open>INSERT ... ON CONFLICT DO UPDATE ... RETURNING next_value - 1\<close>: the counter row is created
  with 2 or incremented; the number handed out is the value before.
\<close>

definition counter_value :: "('r \<Rightarrow> bool) \<Rightarrow> ('r \<Rightarrow> int) \<Rightarrow> 'r list \<Rightarrow> int" where
  "counter_value p nextValue rows = (case find p rows of None \<Rightarrow> 1 | Some r \<Rightarrow> nextValue r)"

definition counter_bump ::
  "('r \<Rightarrow> bool) \<Rightarrow> ((int \<Rightarrow> int) \<Rightarrow> 'r \<Rightarrow> 'r) \<Rightarrow> 'r \<Rightarrow> 'r list \<Rightarrow> 'r list" where
  "counter_bump p bump fresh rows =
     (if \<exists>r \<in> set rows. p r then update_where p (bump (\<lambda>n. n + 1)) rows else rows @ [fresh])"

definition nextRequestNumber :: "uuid \<Rightarrow> ('z payment_db_scheme, str) tx" where
  "nextRequestNumber organizationId = (\<lambda>s.
     let p = (\<lambda>r. rn_organizationId r = organizationId);
         issued = counter_value p rn_nextValue (t_paymentRequestNumberCounters s)
     in Inr (''PR-'' @ pad_start 8 (CHR ''0'') (show_int issued),
          t_paymentRequestNumberCounters_update
            (counter_bump p rn_nextValue_update
              \<lparr>rn_organizationId = organizationId, rn_nextValue = 2\<rparr>) s))"

definition nextPaymentNumber :: "uuid \<Rightarrow> str \<Rightarrow> ('z payment_db_scheme, str) tx" where
  "nextPaymentNumber organizationId businessDate = (\<lambda>s.
     let p = (\<lambda>r. pn_organizationId r = organizationId \<and> pn_businessDate r = businessDate);
         issued = counter_value p pn_nextValue (t_paymentNumberCounters s)
     in Inr (filter (\<lambda>c. c \<noteq> CHR ''-'') businessDate @ ''-PAY-''
            @ pad_start 6 (CHR ''0'') (show_int issued),
          t_paymentNumberCounters_update
            (counter_bump p pn_nextValue_update
              \<lparr>pn_organizationId = organizationId, pn_businessDate = businessDate,
               pn_nextValue = 2\<rparr>) s))"

section \<open>Views\<close>

definition label_of :: "('r \<Rightarrow> bool) \<Rightarrow> ('r \<Rightarrow> str) \<Rightarrow> 'r list \<Rightarrow> str option" where
  "label_of p label rows = map_option label (find p rows)"

definition party_label :: "'z reference_db_scheme \<Rightarrow> uuid \<Rightarrow> uuid \<Rightarrow> str option" where
  "party_label s org i = label_of (\<lambda>r. py_organizationId r = org \<and> py_id r = i) py_displayName (t_parties s)"

definition branch_label :: "'z reference_db_scheme \<Rightarrow> uuid \<Rightarrow> uuid \<Rightarrow> str option" where
  "branch_label s org i = label_of (\<lambda>r. br_organizationId r = org \<and> br_id r = i) br_name (t_branches s)"

definition unit_label :: "'z reference_db_scheme \<Rightarrow> uuid \<Rightarrow> uuid \<Rightarrow> str option" where
  "unit_label s org i = label_of (\<lambda>r. tu_organizationId r = org \<and> tu_id r = i) tu_name (t_treasuryUnits s)"

definition user_label :: "'z reference_db_scheme \<Rightarrow> uuid \<Rightarrow> uuid \<Rightarrow> str option" where
  "user_label s org i = label_of (\<lambda>r. us_organizationId r = org \<and> us_id r = i) us_displayName (t_userRefs s)"

definition currency_label :: "'z reference_db_scheme \<Rightarrow> uuid \<Rightarrow> str \<Rightarrow> str option" where
  "currency_label s org i = label_of (\<lambda>r. cu_organizationId r = org \<and> cu_code r = i) cu_name (t_currencies s)"

definition organization_label :: "'z reference_db_scheme \<Rightarrow> uuid \<Rightarrow> str option" where
  "organization_label s org = label_of (\<lambda>r. og_id r = org) og_legalName (t_organizations s)"

definition text_or_empty :: "str option \<Rightarrow> str" where
  "text_or_empty v = (case v of None \<Rightarrow> [] | Some t \<Rightarrow> t)"

definition optional_ref :: "uuid option \<Rightarrow> (uuid \<Rightarrow> str option) \<Rightarrow> semantic_ref option" where
  "optional_ref i label = map_option (\<lambda>v. \<lparr>sr_id = v, sr_label = text_or_empty (label v)\<rparr>) i"

definition nonempty_text :: "str \<Rightarrow> str option" where
  "nonempty_text t = (if t = [] then None else Some t)"

definition nonempty_list :: "'a list \<Rightarrow> 'a list option" where
  "nonempty_list xs = (if xs = [] then None else Some xs)"

definition effectLabel :: "str \<Rightarrow> str \<Rightarrow> str" where
  "effectLabel type direction =
     (let label = (if type = ''CASHBOX_MOVEMENT'' then ''Cashbox movement''
        else if type = ''BANK_MOVEMENT'' then ''Bank account movement''
        else if type = ''ISSUED_CHEQUE'' then ''Issued cheque''
        else ''Bank instruction'')
      in if direction = ''REVERSAL'' then label @ '' reversal'' else label)"

definition effect_view :: "'z payment_db_scheme \<Rightarrow> execution_effect_row \<Rightarrow> execution_effect_view" where
  "effect_view s e =
     (let instructionReference = (case pe_bankInstructionId e of None \<Rightarrow> None
            | Some b \<Rightarrow> label_of (\<lambda>r. bi_organizationId r = pe_organizationId e \<and> bi_id r = b)
                bi_localReference (t_bankInstructions s))
      in \<lparr>xe_paymentEffectId = pe_id e,
          xe_effectKey = pe_effectKey e,
          xe_effectType = pe_effectType e,
          xe_effect = \<lparr>sr_id = text_or_empty (coalesce (pe_movementFactId e)
              (coalesce (pe_bankInstructionId e) (pe_issuedChequeId e))),
            sr_label = orElse instructionReference (effectLabel (pe_effectType e) (pe_direction e))\<rparr>,
          xe_direction = pe_direction e,
          xe_money = \<lparr>mo_amount = pe_amount e, mo_currency = pe_currency e\<rparr>,
          xe_businessDate = pe_businessDate e,
          xe_sourceVersion = pe_sourceVersion e,
          xe_reversalOfEffectId = pe_reversalOfEffectId e\<rparr>)"

definition evidence_ref_of ::
  "'z payment_db_scheme \<Rightarrow> uuid \<Rightarrow> uuid \<Rightarrow> str \<Rightarrow> str \<Rightarrow> evidence_ref list" where
  "evidence_ref_of s org attachmentId contentDigest purpose =
     (case find (\<lambda>a. at_organizationId a = org \<and> at_id a = attachmentId) (t_attachments s) of
        None \<Rightarrow> []
      | Some a \<Rightarrow> [\<lparr>ev_id = at_id a, ev_label = at_fileName a, ev_contentDigest = contentDigest,
          ev_purpose = nonempty_text purpose\<rparr>])"

definition lineEvidence :: "'z payment_db_scheme \<Rightarrow> uuid \<Rightarrow> uuid \<Rightarrow> evidence_ref list" where
  "lineEvidence s org lineId = concat (map
     (\<lambda>l. evidence_ref_of s org (ll_attachmentId l) (ll_contentDigest l) (ll_purpose l))
     (filter (\<lambda>l. ll_organizationId l = org \<and> ll_paymentLineId l = lineId)
       (t_paymentLineAttachmentLinks s)))"

definition requestEvidence :: "'z payment_db_scheme \<Rightarrow> uuid \<Rightarrow> uuid \<Rightarrow> evidence_ref list" where
  "requestEvidence s org paymentRequestId = concat (map
     (\<lambda>l. evidence_ref_of s org (rl_attachmentId l) (rl_contentDigest l) (rl_purpose l))
     (filter (\<lambda>l. rl_organizationId l = org \<and> rl_paymentRequestId l = paymentRequestId)
       (t_paymentRequestAttachmentLinks s)))"
definition lineView :: "'z payment_db_scheme \<Rightarrow> payment_line_row \<Rightarrow> str \<Rightarrow> payment_line_view" where
  "lineView s line beneficiaryLabel =
     (let org = pl_organizationId line;
          effects = filter (\<lambda>e. pe_organizationId e = org \<and> pe_paymentLineId e = pl_id line)
            (t_paymentExecutionEffects s)
      in \<lparr>lv_id = pl_id line,
          lv_lineNumber = pl_lineNumber line,
          lv_methodId = pl_methodId line,
          lv_method = \<lparr>sr_id = pl_methodId line, sr_label = pl_methodName line\<rparr>,
          lv_methodBehaviorCategory = pl_methodCategory line,
          lv_methodRequiredReferences = pl_methodRequiredReferences line,
          lv_requiresApproval = pl_requiresApproval line,
          lv_money = \<lparr>mo_amount = pl_amount line, mo_currency = pl_currency line\<rparr>,
          lv_baseAmount = \<lparr>mo_amount = pl_baseAmount line, mo_currency = pl_baseCurrency line\<rparr>,
          lv_rateSnapshot = \<lparr>
            rs_sourceCurrency = pl_currency line,
            rs_targetCurrency = pl_baseCurrency line,
            rs_rate = pl_exchangeRate line,
            rs_rateType = pl_rateType line,
            rs_rateSource = pl_rateSource line,
            rs_ratedAt = pl_rateAt line,
            rs_rateRecordId = pl_rateRecordId line,
            rs_targetAmount = pl_baseAmount line,
            rs_roundingDifference = pl_roundingDifference line\<rparr>,
          lv_rateRecord = optional_ref (pl_rateRecordId line)
            (\<lambda>i. label_of (\<lambda>r. er_id r = i) er_sourceName (t_exchangeRates s)),
          lv_cashboxId = pl_cashboxId line,
          lv_cashbox = optional_ref (pl_cashboxId line)
            (\<lambda>i. label_of (\<lambda>r. cb_organizationId r = org \<and> cb_id r = i) cb_name (t_cashboxes s)),
          lv_bankAccountId = pl_bankAccountId line,
          lv_bankAccount = optional_ref (pl_bankAccountId line)
            (\<lambda>i. label_of (\<lambda>r. ba_organizationId r = org \<and> ba_id r = i) ba_accountNumber
              (t_bankAccounts s)),
          lv_beneficiaryPartyId = pl_beneficiaryPartyId line,
          lv_beneficiary = \<lparr>sr_id = pl_beneficiaryPartyId line, sr_label = beneficiaryLabel\<rparr>,
          lv_beneficiaryAccountReference = pl_beneficiaryAccountReference line,
          lv_trackingNumber = pl_trackingNumber line,
          lv_dueDate = pl_dueDate line,
          lv_description = pl_description line,
          lv_accountingDimensions = pl_accountingDimensions line,
          lv_attachments = nonempty_list (lineEvidence s org (pl_id line)),
          lv_executedAt = pl_executedAt line,
          lv_executedByUserId = pl_executedByUserId line,
          lv_executedBy = optional_ref (pl_executedByUserId line) (user_label s org),
          lv_executionEffects = nonempty_list (map (effect_view s) effects),
          lv_state = pl_state line,
          lv_version = pl_version line\<rparr>)"

text \<open>The lines of a payment in line order, with the inner join on their beneficiary.\<close>

definition lineViews :: "'z payment_db_scheme \<Rightarrow> uuid \<Rightarrow> uuid \<Rightarrow> payment_line_view list" where
  "lineViews s org paymentId = concat (map
     (\<lambda>line. case party_label s org (pl_beneficiaryPartyId line) of None \<Rightarrow> []
        | Some beneficiaryLabel \<Rightarrow> [lineView s line beneficiaryLabel])
     (order_by pl_lineNumber (filter
       (\<lambda>line. pl_organizationId line = org \<and> pl_paymentDocumentId line = paymentId)
       (t_paymentLines s))))"

definition document_view ::
  "'z payment_db_scheme \<Rightarrow> payment_document_row \<Rightarrow> str \<Rightarrow> str \<Rightarrow> str \<Rightarrow> str \<Rightarrow> str \<Rightarrow> payment_view" where
  "document_view s pd organizationLabel beneficiaryLabel unitLabel currencyLabel creatorLabel =
     (let org = pd_organizationId pd
      in \<lparr>vw_id = pd_id pd,
          vw_organizationId = org,
          vw_organization = \<lparr>sr_id = org, sr_label = organizationLabel\<rparr>,
          vw_businessNumber = pd_businessNumber pd,
          vw_businessDate = pd_businessDate pd,
          vw_beneficiaryPartyId = pd_beneficiaryPartyId pd,
          vw_beneficiary = \<lparr>sr_id = pd_beneficiaryPartyId pd, sr_label = beneficiaryLabel\<rparr>,
          vw_paymentRequestId = pd_paymentRequestId pd,
          vw_paymentRequest = optional_ref (pd_paymentRequestId pd)
            (\<lambda>i. label_of (\<lambda>r. pq_organizationId r = org \<and> pq_id r = i) pq_businessNumber
              (t_paymentRequests s)),
          vw_branchId = pd_branchId pd,
          vw_branch = optional_ref (pd_branchId pd) (branch_label s org),
          vw_treasuryUnitId = pd_treasuryUnitId pd,
          vw_treasuryUnit = \<lparr>sr_id = pd_treasuryUnitId pd, sr_label = unitLabel\<rparr>,
          vw_baseCurrency = pd_baseCurrency pd,
          vw_baseCurrencyRef = \<lparr>sr_id = pd_baseCurrency pd, sr_label = currencyLabel\<rparr>,
          vw_purpose = pd_purpose pd,
          vw_dueDate = pd_dueDate pd,
          vw_creatorUserId = pd_creatorUserId pd,
          vw_creator = \<lparr>sr_id = pd_creatorUserId pd, sr_label = creatorLabel\<rparr>,
          vw_totalBaseAmount = \<lparr>mo_amount = pd_totalBaseAmount pd, mo_currency = pd_baseCurrency pd\<rparr>,
          vw_lines = lineViews s org (pd_id pd),
          vw_approvalSnapshot = None,
          vw_reversedPaymentId = pd_reversedPaymentId pd,
          vw_reversedPayment = (case pd_reversedPaymentId pd of None \<Rightarrow> None
            | Some i \<Rightarrow> map_option (\<lambda>r. \<lparr>sr_id = pd_id r, sr_label = pd_businessNumber r\<rparr>)
                (find (\<lambda>r. pd_organizationId r = org \<and> pd_id r = i) (t_paymentDocuments s))),
          vw_state = pd_state pd,
          vw_workflowState = pd_workflowState pd,
          vw_executionState = pd_executionState pd,
          vw_accountingState = pd_accountingState pd,
          vw_version = pd_version pd,
          vw_createdAt = pd_createdAt pd,
          vw_updatedAt = pd_updatedAt pd\<rparr>)"

text \<open>
  The view of a payment: absent when there is no such document or one of the inner joins
  (organization, beneficiary, treasury unit, base currency, creator) has no row.
\<close>

definition find_document :: "'z payment_db_scheme \<Rightarrow> uuid \<Rightarrow> uuid \<Rightarrow> payment_document_row option" where
  "find_document s org paymentId =
     find (\<lambda>pd. pd_organizationId pd = org \<and> pd_id pd = paymentId) (t_paymentDocuments s)"

definition paymentView :: "'z payment_db_scheme \<Rightarrow> uuid \<Rightarrow> uuid \<Rightarrow> payment_view option" where
  "paymentView s org paymentId =
     Option.bind (find_document s org paymentId) (\<lambda>pd.
     Option.bind (organization_label s org) (\<lambda>organizationLabel.
     Option.bind (party_label s org (pd_beneficiaryPartyId pd)) (\<lambda>beneficiaryLabel.
     Option.bind (unit_label s org (pd_treasuryUnitId pd)) (\<lambda>unitLabel.
     Option.bind (currency_label s org (pd_baseCurrency pd)) (\<lambda>currencyLabel.
     Option.bind (user_label s org (pd_creatorUserId pd)) (\<lambda>creatorLabel.
       Some (document_view s pd organizationLabel beneficiaryLabel unitLabel currencyLabel
         creatorLabel)))))))"

definition paymentViews :: "'z payment_db_scheme \<Rightarrow> uuid \<Rightarrow> uuid list \<Rightarrow> payment_view list" where
  "paymentViews s org ids = concat (map (\<lambda>i. option_list (paymentView s org i)) ids)"

definition requestView :: "'z payment_db_scheme \<Rightarrow> uuid \<Rightarrow> uuid \<Rightarrow> payment_request_view option" where
  "requestView s org paymentRequestId =
     Option.bind (find (\<lambda>r. pq_organizationId r = org \<and> pq_id r = paymentRequestId)
       (t_paymentRequests s)) (\<lambda>r.
     Option.bind (organization_label s org) (\<lambda>organizationLabel.
     Option.bind (user_label s org (pq_requesterUserId r)) (\<lambda>requesterLabel.
     Option.bind (party_label s org (pq_beneficiaryPartyId r)) (\<lambda>beneficiaryLabel.
       Some \<lparr>qv_id = pq_id r,
          qv_organizationId = org,
          qv_organization = \<lparr>sr_id = org, sr_label = organizationLabel\<rparr>,
          qv_businessNumber = pq_businessNumber r,
          qv_requesterUserId = pq_requesterUserId r,
          qv_requester = \<lparr>sr_id = pq_requesterUserId r, sr_label = requesterLabel\<rparr>,
          qv_beneficiaryPartyId = pq_beneficiaryPartyId r,
          qv_beneficiary = \<lparr>sr_id = pq_beneficiaryPartyId r, sr_label = beneficiaryLabel\<rparr>,
          qv_requestedMoney = \<lparr>mo_amount = pq_requestedAmount r, mo_currency = pq_currency r\<rparr>,
          qv_branchId = pq_branchId r,
          qv_branch = optional_ref (pq_branchId r) (branch_label s org),
          qv_treasuryUnitId = pq_treasuryUnitId r,
          qv_treasuryUnit = optional_ref (pq_treasuryUnitId r) (unit_label s org),
          qv_dueDate = pq_dueDate r,
          qv_purpose = pq_purpose r,
          qv_contractRef = pq_contractRef r,
          qv_invoiceRef = pq_invoiceRef r,
          qv_accountingDimensions = pq_accountingDimensions r,
          qv_attachments = nonempty_list (requestEvidence s org paymentRequestId),
          qv_approvalProgress = pq_approvalProgress r,
          qv_state = ''DRAFT'',
          qv_version = pq_version r,
          qv_createdAt = pq_createdAt r,
          qv_updatedAt = pq_updatedAt r\<rparr>))))"

section \<open>The idempotency contract\<close>

text \<open>
  What the handlers rely on: a record can be inserted only once for a key, is found with its
  digest and no response until one is saved, and one key never disturbs another. The client
  lemma is the exactly-once argument: a handler that inserts, works without touching its own
  record and saves its response leaves a record whose replay is that response.
\<close>

lemma find_append_None: "find p xs = None \<Longrightarrow> find p (xs @ ys) = find p ys"
  by (induction xs) (auto split: if_splits)

lemma find_append_Some: "find p xs = Some x \<Longrightarrow> find p (xs @ ys) = Some x"
  by (induction xs) (auto split: if_splits)

lemma find_update_where_same:
  assumes "\<And>r. p r \<Longrightarrow> p (f r)"
  shows "find p (update_where p f rows) = map_option f (find p rows)"
  using assms by (induction rows) auto

lemma find_update_where_other:
  assumes "\<And>r. q r \<Longrightarrow> \<not> p r" and "\<And>r. q r \<Longrightarrow> \<not> p (f r)"
  shows "find p (update_where q f rows) = find p rows"
  using assms by (induction rows) auto

locale idempotency_store =
  fixes lookup :: "'k \<Rightarrow> 's \<Rightarrow> 'r replay option"
    and enter :: "'k \<Rightarrow> str \<Rightarrow> ('s, unit) tx"
    and save :: "'k \<Rightarrow> 'r \<Rightarrow> ('s, unit) tx"
  assumes enter_fresh: "enter k d s = Inr (u, s') \<Longrightarrow> lookup k s = None"
    and enter_lookup: "enter k d s = Inr (u, s') \<Longrightarrow>
      lookup k s' = Some \<lparr>re_requestDigest = d, re_response = None\<rparr>"
    and enter_other: "enter k d s = Inr (u, s') \<Longrightarrow> j \<noteq> k \<Longrightarrow> lookup j s' = lookup j s"
    and save_lookup: "save k r s = Inr (u, s') \<Longrightarrow>
      lookup k s' = map_option (\<lambda>p. \<lparr>re_requestDigest = re_requestDigest p, re_response = Some r\<rparr>)
        (lookup k s)"
    and save_other: "save k r s = Inr (u, s') \<Longrightarrow> j \<noteq> k \<Longrightarrow> lookup j s' = lookup j s"
begin

definition handler :: "'k \<Rightarrow> str \<Rightarrow> ('s, 'r) tx \<Rightarrow> ('s, 'r) tx" where
  "handler k d work = tx_then (enter k d)
     (tx_bind work (\<lambda>r. tx_then (save k r) (tx_return r)))"

lemma handler_records:
  assumes "handler k d work s = Inr (r, s')"
    and "\<And>s1 r1 s2. work s1 = Inr (r1, s2) \<Longrightarrow> lookup k s2 = lookup k s1"
  shows "lookup k s' = Some \<lparr>re_requestDigest = d, re_response = Some r\<rparr>"
proof -
  obtain u s1 s2 v where "enter k d s = Inr (u, s1)" and w: "work s1 = Inr (r, s2)"
    and "save k r s2 = Inr (v, s')"
    using assms(1) by (auto simp: handler_def tx_inv)
  then show ?thesis
    using enter_lookup [of k d s u s1] save_lookup [of k r s2 v s'] assms(2) [OF w] by simp
qed

lemma handler_once: "handler k d work s = Inr (r, s') \<Longrightarrow> lookup k s = None"
  by (auto simp: handler_def tx_inv dest: enter_fresh)

end

lemma insertIdempotency_Inr [tx_inv]:
  "insertIdempotency env k d s = Inr (u, s') \<longleftrightarrow>
     (let row = idempotency_fresh env (env_uuids env (uuids_drawn s)) k d in
        (\<forall>r \<in> set (t_idempotencyRecords s). \<not> idempotency_clash row r)
        \<and> idempotency_refs (s\<lparr>uuids_drawn := uuids_drawn s + 1\<rparr>) row
        \<and> s' = s\<lparr>uuids_drawn := uuids_drawn s + 1,
              t_idempotencyRecords := t_idempotencyRecords s @ [row]\<rparr>)"
  unfolding insertIdempotency_def by (auto simp: tx_inv Let_def)

lemma saveIdempotency_Inr [tx_inv]:
  "saveIdempotency k response st s = Inr (u, s') \<longleftrightarrow>
     s' = s\<lparr>t_idempotencyRecords := update_where (idempotency_matches k)
       (\<lambda>r. r\<lparr>ir_responseStatus := Some st, ir_responseBody := Some response\<rparr>)
       (t_idempotencyRecords s)\<rparr>"
  unfolding saveIdempotency_def by (auto simp: tx_inv)

lemma acquireIdempotencyLock_Inr [tx_inv]:
  "acquireIdempotencyLock k s = Inr (u, s') \<longleftrightarrow>
     s' = s\<lparr>advisory_locks := advisory_locks s
       @ [(ik_organizationId k, ik_scope k @ '':'' @ ik_key k)]\<rparr>"
  unfolding acquireIdempotencyLock_def pg_advisory_xact_lock_def by (auto simp: tx_inv)

lemma fresh_matches: "idempotency_matches j (idempotency_fresh env i k d) \<longleftrightarrow> j = k"
  by (cases j; cases k) (auto simp: idempotency_matches_def idempotency_fresh_def)

lemma idempotency_fresh_fields [simp]:
  "ir_requestDigest (idempotency_fresh env i k d) = d"
  "ir_responseBody (idempotency_fresh env i k d) = None"
  by (simp_all add: idempotency_fresh_def)

lemma idempotency_matches_saved [simp]:
  "idempotency_matches j (r\<lparr>ir_responseStatus := a, ir_responseBody := b\<rparr>) = idempotency_matches j r"
  by (simp add: idempotency_matches_def)

lemma no_clash_unmatched:
  assumes "\<forall>r \<in> set rows. \<not> idempotency_clash (idempotency_fresh env i k d) r"
  shows "find (idempotency_matches k) rows = None"
  using assms
  by (auto simp: find_None_iff idempotency_clash_def idempotency_fresh_def idempotency_matches_def)

lemma matches_other: "j \<noteq> k \<Longrightarrow> idempotency_matches k r \<Longrightarrow> \<not> idempotency_matches j r"
  by (cases j; cases k) (auto simp: idempotency_matches_def)

interpretation idem: idempotency_store findIdempotency "insertIdempotency env"
  "\<lambda>k r. saveIdempotency k r st" for env st
proof unfold_locales
  fix k d u j r
  fix s s' :: "'z payment_db_scheme"
  assume ins: "insertIdempotency env k d s = Inr (u, s')"
  show "findIdempotency k s = None"
    using ins by (auto simp: insertIdempotency_Inr Let_def findIdempotency_def
      dest: no_clash_unmatched)
  show "findIdempotency k s' = Some \<lparr>re_requestDigest = d, re_response = None\<rparr>"
    using ins by (auto simp: insertIdempotency_Inr Let_def findIdempotency_def
      find_append_None fresh_matches dest!: no_clash_unmatched)
  show "findIdempotency j s' = findIdempotency j s" if "j \<noteq> k"
    using ins that by (cases "find (idempotency_matches j) (t_idempotencyRecords s)")
      (auto simp: insertIdempotency_Inr Let_def findIdempotency_def
        find_append_None find_append_Some fresh_matches)
next
  fix k u j r
  fix s s' :: "'z payment_db_scheme"
  assume sv: "saveIdempotency k r st s = Inr (u, s')"
  show "findIdempotency k s' = map_option
      (\<lambda>p. \<lparr>re_requestDigest = re_requestDigest p, re_response = Some r\<rparr>) (findIdempotency k s)"
    using sv by (auto simp: saveIdempotency_Inr findIdempotency_def
      find_update_where_same option.map_comp comp_def)
  show "findIdempotency j s' = findIdempotency j s" if "j \<noteq> k"
    using sv that matches_other [of j k]
    by (auto simp: saveIdempotency_Inr findIdempotency_def
      intro!: arg_cong [where f = "map_option _"] find_update_where_other)
qed

end
