(* ===== verification/Execution_Repository.thy ===== *)
theory Execution_Repository
  imports Commit_Guards Payment_Repository
begin

text \<open>
  \<open>payments/payment-execution.repository.ts\<close>: the payment read under lock with its lines,
  approvers, allocations and reservations, the check of an override approval, and the writes
  of execution and reversal. \<open>FOR UPDATE\<close> locks are not modelled: a transaction runs alone.
\<close>

section \<open>The locked payment\<close>

record locked_line =
  kl_line :: payment_line_row
  kl_methodState :: str

record locked_payment =
  lk_document :: payment_document_row
  lk_lines :: "locked_line list"
  lk_approverUserIds :: "uuid list"
  lk_allocations :: "payment_allocation_row list"
  lk_reservations :: "payment_reservation_row list"
  lk_effectiveBranchId :: "uuid option"

definition locked_lines :: "'z payment_db_scheme \<Rightarrow> uuid \<Rightarrow> uuid \<Rightarrow> locked_line list" where
  "locked_lines s org paymentId = concat (map
     (\<lambda>line. case find (\<lambda>m. md_organizationId m = org \<and> md_id m = pl_methodId line)
          (t_methodDefinitions s) of
        None \<Rightarrow> []
      | Some m \<Rightarrow> [\<lparr>kl_line = line, kl_methodState = md_state m\<rparr>])
     (order_by pl_lineNumber (filter
       (\<lambda>line. pl_organizationId line = org \<and> pl_paymentDocumentId line = paymentId)
       (t_paymentLines s))))"

definition approver_ids :: "'z payment_db_scheme \<Rightarrow> uuid \<Rightarrow> uuid \<Rightarrow> uuid list" where
  "approver_ids s org snapshotId = dedup (concat (map
     (\<lambda>a. pc_actorUserId a # option_list (pc_delegatedFromUserId a))
     (filter (\<lambda>a. pc_organizationId a = org \<and> pc_approvalSnapshotId a = snapshotId
        \<and> pc_action a = ''APPROVED'') (t_paymentApprovalActions s))))"

definition lockPayment :: "'z payment_db_scheme \<Rightarrow> uuid \<Rightarrow> uuid \<Rightarrow> locked_payment option" where
  "lockPayment s org paymentId = map_option
     (\<lambda>document. \<lparr>
        lk_document = document,
        lk_lines = locked_lines s org paymentId,
        lk_approverUserIds = (case pd_currentApprovalSnapshotId document of
            None \<Rightarrow> [] | Some snapshotId \<Rightarrow> approver_ids s org snapshotId),
        lk_allocations = filter (\<lambda>a. pa_organizationId a = org
            \<and> pa_paymentDocumentId a = paymentId) (t_paymentAllocations s),
        lk_reservations = filter (\<lambda>v. pv_organizationId v = org
            \<and> pv_paymentDocumentId v = paymentId) (t_paymentReservations s),
        lk_effectiveBranchId = coalesce (pd_branchId document)
            (case find (\<lambda>u. tu_organizationId u = org \<and> tu_id u = pd_treasuryUnitId document)
                (t_treasuryUnits s) of None \<Rightarrow> None | Some u \<Rightarrow> tu_branchId u)\<rparr>)
     (find_document s org paymentId)"

section \<open>The override approval\<close>

datatype override_result = VALID | INVALID_EVIDENCE | NOT_INDEPENDENT

definition overrideApprovalValid ::
  "'z payment_db_scheme \<Rightarrow> uuid \<Rightarrow> locked_payment \<Rightarrow> uuid \<Rightarrow> str \<Rightarrow> uuid \<Rightarrow> uuid list \<Rightarrow> override_result" where
  "overrideApprovalValid s org payment approvalActionId reason executorUserId conflictingUserIds =
     (case find (\<lambda>a. pc_organizationId a = org \<and> pc_id a = approvalActionId)
         (t_paymentApprovalActions s) of
        None \<Rightarrow> INVALID_EVIDENCE
      | Some a \<Rightarrow>
          (case find (\<lambda>n. ps_organizationId n = pc_organizationId a
               \<and> ps_id n = pc_approvalSnapshotId a) (t_paymentApprovalSnapshots s) of
             None \<Rightarrow> INVALID_EVIDENCE
           | Some snapshot \<Rightarrow>
               if pc_action a \<noteq> ''APPROVED''
                  \<or> Some (pc_approvalSnapshotId a) \<noteq> pd_currentApprovalSnapshotId (lk_document payment)
                  \<or> map_option trim (pc_reason a) \<noteq> Some (trim reason)
                  \<or> ps_documentVersion snapshot > pd_version (lk_document payment)
               then INVALID_EVIDENCE
               else if pc_actorUserId a = executorUserId
                  \<or> pc_actorUserId a \<in> set conflictingUserIds
               then NOT_INDEPENDENT else VALID))"

section \<open>Reservations, allocations and effects\<close>

definition consumeReservations :: "uuid \<Rightarrow> uuid list \<Rightarrow> ('z payment_db_scheme, unit) tx" where
  "consumeReservations org reservationIds =
     (if reservationIds = [] then tx_return ()
      else tx_update payment_reservation_check t_paymentReservations t_paymentReservations_update
        (\<lambda>v. pv_organizationId v = org \<and> pv_id v \<in> set reservationIds)
        (\<lambda>v. v\<lparr>pv_state := ''CONSUMED'', pv_version := pv_version v + 1\<rparr>))"

definition siblingAllocations ::
  "'z payment_db_scheme \<Rightarrow> uuid \<Rightarrow> payment_allocation_row \<Rightarrow> payment_allocation_row list" where
  "siblingAllocations s org a = filter (\<lambda>b. pa_organizationId b = org
     \<and> pa_sourceNamespace b = pa_sourceNamespace a
     \<and> pa_externalObjectType b = pa_externalObjectType a
     \<and> pa_externalObjectId b = pa_externalObjectId a
     \<and> pa_currency b = pa_currency a \<and> pa_state b = ''ACTIVE'') (t_paymentAllocations s)"

record effect_input =
  fi_organizationId :: uuid
  fi_paymentLineId :: uuid
  fi_effectKey :: str
  fi_effectType :: str
  fi_direction :: str
  fi_amount :: str
  fi_currency :: str
  fi_businessDate :: str
  fi_sourceVersion :: int
  fi_movementFactId :: "uuid option"
  fi_bankInstructionId :: "uuid option"
  fi_issuedChequeId :: "uuid option"
  fi_reversalOfEffectId :: "uuid option"

definition effect_row :: "env \<Rightarrow> uuid \<Rightarrow> str \<Rightarrow> effect_input \<Rightarrow> execution_effect_row" where
  "effect_row env i amount input = \<lparr>
     pe_id = i,
     pe_organizationId = fi_organizationId input,
     pe_paymentLineId = fi_paymentLineId input,
     pe_effectKey = fi_effectKey input,
     pe_effectType = fi_effectType input,
     pe_direction = fi_direction input,
     pe_amount = amount,
     pe_currency = fi_currency input,
     pe_businessDate = fi_businessDate input,
     pe_sourceVersion = fi_sourceVersion input,
     pe_movementFactId = fi_movementFactId input,
     pe_bankInstructionId = fi_bankInstructionId input,
     pe_issuedChequeId = fi_issuedChequeId input,
     pe_reversalOfEffectId = fi_reversalOfEffectId input,
     pe_createdAt = env_now env\<rparr>"

definition appendEffect :: "env \<Rightarrow> effect_input \<Rightarrow> ('z payment_db_scheme, uuid) tx" where
  "appendEffect env input =
     tx_bind (randomUUID env) (\<lambda>i.
     tx_bind (tx_lift (pg_numeric 8 (fi_amount input))) (\<lambda>amount.
     tx_then (tx_insert execution_effect_check execution_effect_clash execution_effect_refs
         t_paymentExecutionEffects t_paymentExecutionEffects_update (effect_row env i amount input))
       (tx_return i)))"

section \<open>Execution and reversal\<close>

definition executed_document :: "uuid \<Rightarrow> instant \<Rightarrow> int \<Rightarrow> payment_document_row \<Rightarrow> payment_document_row" where
  "executed_document actorUserId executedAt sourceVersion d = d\<lparr>
     pd_state := ''EXECUTED'',
     pd_executionState := ''EXECUTED'',
     pd_executedAt := Some executedAt,
     pd_executedByUserId := Some actorUserId,
     pd_version := sourceVersion,
     pd_updatedAt := executedAt\<rparr>"

definition executed_line :: "uuid \<Rightarrow> instant \<Rightarrow> payment_line_row \<Rightarrow> payment_line_row" where
  "executed_line actorUserId executedAt l = l\<lparr>
     pl_state := ''EXECUTED'',
     pl_executedAt := Some executedAt,
     pl_executedByUserId := Some actorUserId,
     pl_version := pl_version l + 1,
     pl_updatedAt := executedAt\<rparr>"

definition is_document :: "uuid \<Rightarrow> uuid \<Rightarrow> payment_document_row \<Rightarrow> bool" where
  "is_document org paymentId d \<longleftrightarrow> pd_organizationId d = org \<and> pd_id d = paymentId"

definition is_line_of :: "uuid \<Rightarrow> uuid \<Rightarrow> payment_line_row \<Rightarrow> bool" where
  "is_line_of org paymentId l \<longleftrightarrow> pl_organizationId l = org \<and> pl_paymentDocumentId l = paymentId"

definition completeExecution ::
  "uuid \<Rightarrow> uuid \<Rightarrow> uuid \<Rightarrow> instant \<Rightarrow> int \<Rightarrow> ('z payment_db_scheme, unit) tx" where
  "completeExecution org paymentId actorUserId executedAt sourceVersion =
     tx_then (tx_update payment_document_check t_paymentDocuments t_paymentDocuments_update
         (is_document org paymentId) (executed_document actorUserId executedAt sourceVersion))
       (tx_update payment_line_check t_paymentLines t_paymentLines_update
         (is_line_of org paymentId) (executed_line actorUserId executedAt))"

text \<open>The effects of a payment with the state of their bank instruction, in line order.\<close>

record payment_effect =
  pf_effect :: execution_effect_row
  pf_instructionState :: "str option"

definition effects :: "'z payment_db_scheme \<Rightarrow> uuid \<Rightarrow> uuid \<Rightarrow> payment_effect list" where
  "effects s org paymentId = concat (map
     (\<lambda>l. map (\<lambda>e. \<lparr>pf_effect = e,
          pf_instructionState = (case pe_bankInstructionId e of None \<Rightarrow> None
            | Some b \<Rightarrow> map_option bi_state (find (\<lambda>i. bi_organizationId i = org \<and> bi_id i = b)
                (t_bankInstructions s)))\<rparr>)
        (order_by pe_createdAt (filter (\<lambda>e. pe_organizationId e = org \<and> pe_paymentLineId e = pl_id l)
          (t_paymentExecutionEffects s))))
     (order_by pl_lineNumber (filter (is_line_of org paymentId) (t_paymentLines s))))"

record reversal_input =
  ri_original :: locked_payment
  ri_actorUserId :: uuid
  ri_businessDate :: str
  ri_businessNumber :: str
  ri_reason :: str
  ri_executedAt :: instant

definition reversal_document :: "uuid \<Rightarrow> reversal_input \<Rightarrow> payment_document_row" where
  "reversal_document i input = (let d = lk_document (ri_original input) in \<lparr>
     pd_id = i,
     pd_organizationId = pd_organizationId d,
     pd_businessNumber = ri_businessNumber input,
     pd_businessDate = ri_businessDate input,
     pd_beneficiaryPartyId = pd_beneficiaryPartyId d,
     pd_paymentRequestId = None,
     pd_branchId = pd_branchId d,
     pd_treasuryUnitId = pd_treasuryUnitId d,
     pd_baseCurrency = pd_baseCurrency d,
     pd_totalBaseAmount = pd_totalBaseAmount d,
     pd_dueDate = pd_dueDate d,
     pd_purpose = ''Reversal of '' @ pd_businessNumber d @ '': '' @ ri_reason input,
     pd_creatorUserId = ri_actorUserId input,
     pd_currentApprovalSnapshotId = None,
     pd_reversedPaymentId = None,
     pd_executedAt = Some (ri_executedAt input),
     pd_executedByUserId = Some (ri_actorUserId input),
     pd_state = ''EXECUTED'',
     pd_workflowState = ''APPROVED'',
     pd_executionState = ''EXECUTED'',
     pd_accountingState = ''NOT_READY'',
     pd_version = 1,
     pd_createdAt = ri_executedAt input,
     pd_updatedAt = ri_executedAt input\<rparr>)"

definition reversal_line :: "uuid \<Rightarrow> uuid \<Rightarrow> reversal_input \<Rightarrow> payment_line_row \<Rightarrow> payment_line_row" where
  "reversal_line lineId paymentId input line = line\<lparr>
     pl_id := lineId,
     pl_paymentDocumentId := paymentId,
     pl_executedAt := Some (ri_executedAt input),
     pl_executedByUserId := Some (ri_actorUserId input),
     pl_state := ''EXECUTED'',
     pl_version := 1,
     pl_createdAt := ri_executedAt input,
     pl_updatedAt := ri_executedAt input\<rparr>"

text \<open>
  The lines are built first, one identifier each in line order, then inserted by one
  statement, which refuses an empty list; the result pairs each original line with its
  reversal line.
\<close>

definition createReversal ::
  "env \<Rightarrow> reversal_input \<Rightarrow> ('z payment_db_scheme, uuid \<times> (uuid \<times> uuid) list) tx" where
  "createReversal env input =
     tx_bind (randomUUID env) (\<lambda>i.
     tx_then (tx_insert payment_document_check payment_document_clash payment_document_refs
         t_paymentDocuments t_paymentDocuments_update (reversal_document i input))
     (tx_bind (tx_map (\<lambda>l. tx_bind (randomUUID env) (\<lambda>lineId. tx_return (kl_line l, lineId)))
         (lk_lines (ri_original input))) (\<lambda>pairs.
     tx_then (tx_guard (pairs \<noteq> [])
       (JsFault ''values() must be called with at least one value''))
     (tx_then (tx_for pairs (\<lambda>p. tx_insert payment_line_check payment_line_clash payment_line_refs
         t_paymentLines t_paymentLines_update (reversal_line (snd p) i input (fst p))))
     (tx_return (i, map (\<lambda>p. (pl_id (fst p), snd p)) pairs))))))"

definition completeReversal ::
  "uuid \<Rightarrow> uuid \<Rightarrow> uuid \<Rightarrow> int \<Rightarrow> instant \<Rightarrow> ('z payment_db_scheme, unit) tx" where
  "completeReversal org originalPaymentId reversalPaymentId originalVersion moment =
     tx_then (tx_update payment_document_check t_paymentDocuments t_paymentDocuments_update
         (is_document org originalPaymentId)
         (\<lambda>d. d\<lparr>pd_reversedPaymentId := Some reversalPaymentId, pd_state := ''REVERSED'',
            pd_executionState := ''REVERSED'', pd_version := originalVersion,
            pd_updatedAt := moment\<rparr>))
     (tx_then (tx_update payment_line_check t_paymentLines t_paymentLines_update
         (is_line_of org originalPaymentId)
         (\<lambda>l. l\<lparr>pl_state := ''REVERSED'', pl_version := pl_version l + 1, pl_updatedAt := moment\<rparr>))
       (tx_update payment_allocation_check t_paymentAllocations t_paymentAllocations_update
         (\<lambda>a. pa_organizationId a = org \<and> pa_paymentDocumentId a = originalPaymentId
            \<and> pa_state a = ''ACTIVE'')
         (\<lambda>a. a\<lparr>pa_state := ''REVERSED'', pa_version := pa_version a + 1\<rparr>)))"

end
