(* ===== verification/Authorization.thy ===== *)
theory Authorization
  imports Schema
begin

text \<open>
  \<open>access-control/access-authorization.repository.ts\<close> and
  \<open>access-control/access-authorization.service.ts\<close>: which grants an actor may use, own or
  delegated, which of them cover a payment, and the authority the actor acts under. The two
  database functions the queries call, \<open>access_grant_scope_digest\<close> and
  \<open>delegation_is_current\<close>, are those of \<open>migrations/0025_approval_policy_delegation.sql\<close>.

  The lemmas show that an authority comes from a valid grant that covers the payment, and
  that a delegation never gives more than its grantor holds.
\<close>

section \<open>Grant scopes\<close>

definition branch_scope :: "'z access_db_scheme \<Rightarrow> uuid \<Rightarrow> uuid list" where
  "branch_scope s grantId = map gb_branchId (order_by gb_branchId
     (filter (\<lambda>r. gb_accessGrantId r = grantId) (t_accessGrantBranchScopes s)))"

definition unit_scope :: "'z access_db_scheme \<Rightarrow> uuid \<Rightarrow> uuid list" where
  "unit_scope s grantId = map gu_treasuryUnitId (order_by gu_treasuryUnitId
     (filter (\<lambda>r. gu_accessGrantId r = grantId) (t_accessGrantTreasuryUnitScopes s)))"

definition cashbox_scope :: "'z access_db_scheme \<Rightarrow> uuid \<Rightarrow> uuid list" where
  "cashbox_scope s grantId = map gc_cashboxId (order_by gc_cashboxId
     (filter (\<lambda>r. gc_accessGrantId r = grantId) (t_accessGrantCashboxScopes s)))"

definition account_scope :: "'z access_db_scheme \<Rightarrow> uuid \<Rightarrow> uuid list" where
  "account_scope s grantId = map ga_bankAccountId (order_by ga_bankAccountId
     (filter (\<lambda>r. ga_accessGrantId r = grantId) (t_accessGrantBankAccountScopes s)))"

definition document_scope :: "'z access_db_scheme \<Rightarrow> uuid \<Rightarrow> str list" where
  "document_scope s grantId = map gd_documentType (order_by gd_documentType
     (filter (\<lambda>r. gd_accessGrantId r = grantId) (t_accessGrantDocumentTypeScopes s)))"

definition method_scope :: "'z access_db_scheme \<Rightarrow> uuid \<Rightarrow> str list" where
  "method_scope s grantId = map gm_methodCategory (order_by gm_methodCategory
     (filter (\<lambda>r. gm_accessGrantId r = grantId) (t_accessGrantMethodCategoryScopes s)))"

definition currency_scope :: "'z access_db_scheme \<Rightarrow> uuid \<Rightarrow> str list" where
  "currency_scope s grantId = map gy_currency (order_by gy_currency
     (filter (\<lambda>r. gy_accessGrantId r = grantId) (t_accessGrantCurrencyScopes s)))"

definition access_grant_scope_digest :: "env \<Rightarrow> 'z access_db_scheme \<Rightarrow> access_grant_row \<Rightarrow> str" where
  "access_grant_scope_digest env s ag = he_sha256 env (join_with [char_of (31 :: nat)] [
     join_with '','' (branch_scope s (ag_id ag)),
     join_with '','' (unit_scope s (ag_id ag)),
     join_with '','' (cashbox_scope s (ag_id ag)),
     join_with '','' (account_scope s (ag_id ag)),
     join_with '','' (document_scope s (ag_id ag)),
     join_with '','' (method_scope s (ag_id ag)),
     join_with '','' (currency_scope s (ag_id ag)),
     (case ag_amountCeiling ag of None \<Rightarrow> [] | Some c \<Rightarrow> c),
     (case ag_amountCeilingCurrency ag of None \<Rightarrow> [] | Some c \<Rightarrow> c)])"

section \<open>Current grants and delegations\<close>

definition grant_current :: "env \<Rightarrow> access_grant_row \<Rightarrow> bool" where
  "grant_current env ag \<longleftrightarrow> ag_state ag = ''ACTIVE'' \<and> ag_validFrom ag \<le> env_now env
     \<and> (case ag_validTo ag of None \<Rightarrow> True | Some t \<Rightarrow> env_now env < t)"

definition role_active :: "'z access_db_scheme \<Rightarrow> uuid \<Rightarrow> bool" where
  "role_active s roleId \<longleftrightarrow> (\<exists>r \<in> set (t_roles s). ro_id r = roleId \<and> ro_state r = ''ACTIVE'')"

definition role_permits :: "'z access_db_scheme \<Rightarrow> uuid \<Rightarrow> str \<Rightarrow> bool" where
  "role_permits s roleId permission \<longleftrightarrow>
     (\<exists>p \<in> set (t_rolePermissions s). rp_roleId p = roleId \<and> rp_permission p = permission)"

definition user_active :: "'z access_db_scheme \<Rightarrow> uuid \<Rightarrow> uuid \<Rightarrow> bool" where
  "user_active s organizationId userId \<longleftrightarrow>
     (\<exists>u \<in> set (t_userRefs s). us_id u = userId \<and> us_organizationId u = organizationId
        \<and> us_state u = ''ACTIVE'')
     \<and> (\<exists>a \<in> set (t_identityAccounts s). ia_userRefId a = userId \<and> ia_state a = ''ACTIVE'')"

definition within_scope :: "str list \<Rightarrow> str option \<Rightarrow> bool" where
  "within_scope scope value = (case value of None \<Rightarrow> True | Some v \<Rightarrow> scope = [] \<or> v \<in> set scope)"

definition narrows_scope :: "str list \<Rightarrow> str option \<Rightarrow> bool" where
  "narrows_scope scope value = (value \<noteq> None \<and> length scope \<noteq> 1)"

definition delegation_current_for ::
  "env \<Rightarrow> 'z access_db_scheme \<Rightarrow> delegation_row \<Rightarrow> access_grant_row \<Rightarrow> uuid \<Rightarrow> bool" where
  "delegation_current_for env s d ag actorUserId \<longleftrightarrow>
     ag_id ag = dg_accessGrantId d \<and> ag_organizationId ag = dg_organizationId d
     \<and> (\<exists>r \<in> set (t_roles s). ro_id r = ag_roleId ag
          \<and> ro_organizationId r = ag_organizationId ag \<and> ro_state r = ''ACTIVE'')
     \<and> user_active s (dg_organizationId d) (dg_grantorUserId d)
     \<and> user_active s (dg_organizationId d) (dg_delegateUserId d)
     \<and> dg_grantorUserId d = ag_userRefId ag \<and> dg_delegateUserId d = actorUserId
     \<and> dg_revokedAt d = None
     \<and> dg_validFrom d \<le> env_now env \<and> env_now env < dg_validTo d
     \<and> grant_current env ag
     \<and> dg_sourceGrantVersion d = ag_version ag
     \<and> dg_sourceScopeDigest d = access_grant_scope_digest env s ag
     \<and> within_scope (branch_scope s (ag_id ag)) (dg_branchId d)
     \<and> within_scope (unit_scope s (ag_id ag)) (dg_treasuryUnitId d)
     \<and> within_scope (document_scope s (ag_id ag)) (dg_documentType d)
     \<and> within_scope (method_scope s (ag_id ag)) (dg_methodCategory d)
     \<and> within_scope (currency_scope s (ag_id ag)) (dg_currency d)
     \<and> (case dg_amountCeiling d of None \<Rightarrow> True
        | Some c \<Rightarrow>
            (case ag_amountCeiling ag of None \<Rightarrow> True
             | Some g \<Rightarrow> ag_amountCeilingCurrency ag \<noteq> None
                 \<and> ag_amountCeilingCurrency ag = dg_amountCeilingCurrency d
                 \<and> compareDecimal c g \<le> 0)
            \<and> (currency_scope s (ag_id ag) = []
               \<or> (case dg_amountCeilingCurrency d of None \<Rightarrow> False
                  | Some y \<Rightarrow> y \<in> set (currency_scope s (ag_id ag)))))
     \<and> (narrows_scope (branch_scope s (ag_id ag)) (dg_branchId d)
        \<or> narrows_scope (unit_scope s (ag_id ag)) (dg_treasuryUnitId d)
        \<or> narrows_scope (document_scope s (ag_id ag)) (dg_documentType d)
        \<or> narrows_scope (method_scope s (ag_id ag)) (dg_methodCategory d)
        \<or> narrows_scope (currency_scope s (ag_id ag)) (dg_currency d)
        \<or> (case dg_amountCeiling d of None \<Rightarrow> False
           | Some c \<Rightarrow> (case ag_amountCeiling ag of None \<Rightarrow> True
               | Some g \<Rightarrow> compareDecimal c g < 0)))"

definition delegation_is_current ::
  "env \<Rightarrow> 'z access_db_scheme \<Rightarrow> uuid \<Rightarrow> uuid \<Rightarrow> uuid \<Rightarrow> bool" where
  "delegation_is_current env s delegationId grantId actorUserId \<longleftrightarrow>
     (\<exists>d \<in> set (t_delegations s). \<exists>ag \<in> set (t_accessGrants s).
        dg_id d = delegationId \<and> ag_id ag = grantId
        \<and> delegation_current_for env s d ag actorUserId)"

section \<open>The grants an actor may use\<close>

record payment_grant =
  gr_id :: uuid
  gr_grantUserId :: uuid
  gr_delegatedFromUserId :: "uuid option"
  gr_amountCeiling :: "str option"
  gr_amountCeilingCurrency :: "str option"
  gr_branchIds :: "uuid list"
  gr_treasuryUnitIds :: "uuid list"
  gr_cashboxIds :: "uuid list"
  gr_bankAccountIds :: "uuid list"
  gr_documentTypes :: "str list"
  gr_methodCategories :: "str list"
  gr_currencies :: "str list"

text \<open>\<open>LEAST\<close> of two numeric texts.\<close>

definition least_numeric :: "str \<Rightarrow> str \<Rightarrow> str" where
  "least_numeric a b = (if compareDecimal a b \<le> 0 then a else b)"

definition or_scope :: "str option \<Rightarrow> str list \<Rightarrow> str list" where
  "or_scope value scope = (case value of None \<Rightarrow> scope | Some v \<Rightarrow> [v])"

text \<open>
  A row of the lateral join: the grant used by its own user, or through one delegation.
\<close>

definition own_grant :: "'z access_db_scheme \<Rightarrow> access_grant_row \<Rightarrow> payment_grant" where
  "own_grant s ag = \<lparr>
     gr_id = ag_id ag,
     gr_grantUserId = ag_userRefId ag,
     gr_delegatedFromUserId = None,
     gr_amountCeiling = ag_amountCeiling ag,
     gr_amountCeilingCurrency = ag_amountCeilingCurrency ag,
     gr_branchIds = branch_scope s (ag_id ag),
     gr_treasuryUnitIds = unit_scope s (ag_id ag),
     gr_cashboxIds = cashbox_scope s (ag_id ag),
     gr_bankAccountIds = account_scope s (ag_id ag),
     gr_documentTypes = document_scope s (ag_id ag),
     gr_methodCategories = method_scope s (ag_id ag),
     gr_currencies = currency_scope s (ag_id ag)\<rparr>"

definition delegated_grant ::
  "'z access_db_scheme \<Rightarrow> access_grant_row \<Rightarrow> delegation_row \<Rightarrow> payment_grant" where
  "delegated_grant s ag d = \<lparr>
     gr_id = ag_id ag,
     gr_grantUserId = ag_userRefId ag,
     gr_delegatedFromUserId = Some (ag_userRefId ag),
     gr_amountCeiling = (case ag_amountCeiling ag of
         None \<Rightarrow> dg_amountCeiling d
       | Some g \<Rightarrow> (case dg_amountCeiling d of None \<Rightarrow> Some g | Some c \<Rightarrow> Some (least_numeric g c))),
     gr_amountCeilingCurrency = coalesce (dg_amountCeilingCurrency d) (ag_amountCeilingCurrency ag),
     gr_branchIds = or_scope (dg_branchId d) (branch_scope s (ag_id ag)),
     gr_treasuryUnitIds = or_scope (dg_treasuryUnitId d) (unit_scope s (ag_id ag)),
     gr_cashboxIds = cashbox_scope s (ag_id ag),
     gr_bankAccountIds = account_scope s (ag_id ag),
     gr_documentTypes = or_scope (dg_documentType d) (document_scope s (ag_id ag)),
     gr_methodCategories = or_scope (dg_methodCategory d) (method_scope s (ag_id ag)),
     gr_currencies = or_scope (dg_currency d) (currency_scope s (ag_id ag))\<rparr>"

definition usable_delegations ::
  "env \<Rightarrow> 'z access_db_scheme \<Rightarrow> access_grant_row \<Rightarrow> uuid \<Rightarrow> delegation_row list" where
  "usable_delegations env s ag actorUserId = order_by dg_id (filter (\<lambda>d.
     dg_organizationId d = ag_organizationId ag \<and> dg_accessGrantId d = ag_id ag
     \<and> delegation_is_current env s (dg_id d) (ag_id ag) actorUserId) (t_delegations s))"

definition grant_rows :: "env \<Rightarrow> 'z access_db_scheme \<Rightarrow> uuid \<Rightarrow> access_grant_row \<Rightarrow> payment_grant list" where
  "grant_rows env s actorUserId ag =
     (if ag_userRefId ag = actorUserId then [own_grant s ag] else [])
     @ map (delegated_grant s ag) (usable_delegations env s ag actorUserId)"

definition grant_usable ::
  "env \<Rightarrow> 'z access_db_scheme \<Rightarrow> uuid \<Rightarrow> str \<Rightarrow> uuid option \<Rightarrow> access_grant_row \<Rightarrow> bool" where
  "grant_usable env s organizationId permission roleId ag \<longleftrightarrow>
     role_active s (ag_roleId ag) \<and> role_permits s (ag_roleId ag) permission
     \<and> ag_organizationId ag = organizationId
     \<and> (case roleId of None \<Rightarrow> True | Some r \<Rightarrow> ag_roleId ag = r)
     \<and> grant_current env ag"

definition paymentGrants ::
  "env \<Rightarrow> 'z access_db_scheme \<Rightarrow> uuid \<Rightarrow> uuid \<Rightarrow> str \<Rightarrow> uuid option \<Rightarrow> payment_grant list" where
  "paymentGrants env s organizationId actorUserId permission roleId =
     concat (map (grant_rows env s actorUserId)
       (order_by ag_id (filter (grant_usable env s organizationId permission roleId)
         (t_accessGrants s))))"

definition hasOrganizationPermission ::
  "env \<Rightarrow> 'z access_db_scheme \<Rightarrow> uuid \<Rightarrow> uuid \<Rightarrow> str \<Rightarrow> bool" where
  "hasOrganizationPermission env s organizationId actorUserId permission \<longleftrightarrow>
     (\<exists>ag \<in> set (t_accessGrants s). role_active s (ag_roleId ag)
        \<and> role_permits s (ag_roleId ag) permission
        \<and> ag_organizationId ag = organizationId \<and> ag_userRefId ag = actorUserId
        \<and> grant_current env ag)"

section \<open>Step-up proofs\<close>

record step_up_input =
  su_proofDigest :: str
  su_physicalSessionId :: uuid
  su_method :: str
  su_path :: str
  su_bodyDigest :: str
  su_idempotencyKey :: str

definition proof_matches :: "env \<Rightarrow> 'z access_db_scheme \<Rightarrow> step_up_input \<Rightarrow> auth_step_up_proof_row \<Rightarrow> bool" where
  "proof_matches env s input p \<longleftrightarrow>
     sp_tokenDigest p = su_proofDigest input
     \<and> env_now env < sp_expiresAt p \<and> sp_consumedAt p = None
     \<and> (\<exists>c \<in> set (t_authChallenges s). ch_id c = sp_challengeId p
          \<and> ch_sessionId c = Some (su_physicalSessionId input)
          \<and> ch_httpMethod c = Some (su_method input)
          \<and> ch_httpPath c = Some (su_path input)
          \<and> ch_requestBodyDigest c = Some (su_bodyDigest input)
          \<and> ch_idempotencyKey c = Some (su_idempotencyKey input))"

text \<open>
  \<open>UPDATE ... SET consumed_at = now() ... RETURNING p.id\<close>: the result is whether exactly one
  proof was consumed.
\<close>

definition consumeStepUpProof :: "env \<Rightarrow> step_up_input \<Rightarrow> ('z access_db_scheme, bool) tx" where
  "consumeStepUpProof env input = (\<lambda>s.
     Inr (length (filter (proof_matches env s input) (t_authStepUpProofs s)) = 1,
       t_authStepUpProofs_update (update_where (proof_matches env s input)
         (sp_consumedAt_update (\<lambda>_. Some (env_now env)))) s))"

section \<open>The service\<close>

definition covers :: "str list \<Rightarrow> str list \<Rightarrow> bool" where
  "covers scope values \<longleftrightarrow>
     scope = [] \<or> values \<noteq> [] \<and> list_all (\<lambda>value. value \<in> set scope) values"

record payment_context =
  pctx_branchId :: "uuid option"
  pctx_treasuryUnitId :: "uuid option"
  pctx_cashboxIds :: "uuid list"
  pctx_bankAccountIds :: "uuid list"
  pctx_currencies :: "str list"
  pctx_methodCategories :: "str list"
  pctx_documentType :: str
  pctx_amount :: str
  pctx_amountCurrency :: str

record payment_authority =
  au_delegatedFromUserId :: "uuid option"

datatype scope_profile = PAYMENT_PROFILE | ACCOUNTING_PROFILE

definition ceiling_allows :: "payment_grant \<Rightarrow> str \<Rightarrow> str \<Rightarrow> bool" where
  "ceiling_allows grant amount currency \<longleftrightarrow>
     (case gr_amountCeiling grant of None \<Rightarrow> True
      | Some c \<Rightarrow> gr_amountCeilingCurrency grant = Some currency \<and> decimal12 amount \<le> decimal12 c)"

definition grant_covers :: "scope_profile \<Rightarrow> payment_context \<Rightarrow> payment_grant \<Rightarrow> bool" where
  "grant_covers profile ctx grant \<longleftrightarrow>
     covers (gr_branchIds grant) (option_list (pctx_branchId ctx))
     \<and> covers (gr_treasuryUnitIds grant) (option_list (pctx_treasuryUnitId ctx))
     \<and> covers (gr_documentTypes grant) [pctx_documentType ctx]
     \<and> (profile = ACCOUNTING_PROFILE \<or> covers (gr_currencies grant) (pctx_currencies ctx))
     \<and> (profile = ACCOUNTING_PROFILE \<or> pctx_documentType ctx = ''PAYMENT_REQUEST''
        \<or> covers (gr_cashboxIds grant) (pctx_cashboxIds ctx)
          \<and> covers (gr_bankAccountIds grant) (pctx_bankAccountIds ctx)
          \<and> covers (gr_methodCategories grant) (pctx_methodCategories ctx))
     \<and> ceiling_allows grant (pctx_amount ctx) (pctx_amountCurrency ctx)"

text \<open>
  The authority among the eligible grants: the actor's own when one is eligible, else the
  single grantor of the eligible delegations; none when two grantors compete.
\<close>

definition sole_authority :: "payment_grant list \<Rightarrow> payment_authority option" where
  "sole_authority eligible =
     (if \<exists>grant \<in> set eligible. gr_delegatedFromUserId grant = None
      then Some \<lparr>au_delegatedFromUserId = None\<rparr>
      else (case dedup (concat (map (option_list \<circ> gr_delegatedFromUserId) eligible)) of
          [grantor] \<Rightarrow> Some \<lparr>au_delegatedFromUserId = Some grantor\<rparr>
        | _ \<Rightarrow> None))"

definition paymentAuthority ::
  "payment_grant list \<Rightarrow> payment_context \<Rightarrow> uuid option \<Rightarrow> scope_profile \<Rightarrow> payment_authority option" where
  "paymentAuthority grants ctx requiredAuthorityUserId profile =
     (let eligible = filter (grant_covers profile ctx) grants;
          eligible' = (case requiredAuthorityUserId of None \<Rightarrow> eligible
            | Some u \<Rightarrow> filter (\<lambda>grant. gr_grantUserId grant = u) eligible)
      in sole_authority eligible')"

definition resolvePaymentAuthority ::
  "env \<Rightarrow> 'z access_db_scheme \<Rightarrow> uuid \<Rightarrow> uuid \<Rightarrow> payment_context \<Rightarrow> str \<Rightarrow> uuid option \<Rightarrow> uuid option
     \<Rightarrow> payment_authority option" where
  "resolvePaymentAuthority env s organizationId actorUserId ctx permission roleId required =
     paymentAuthority (paymentGrants env s organizationId actorUserId permission roleId)
       ctx required PAYMENT_PROFILE"

definition canOperatePayment ::
  "env \<Rightarrow> 'z access_db_scheme \<Rightarrow> uuid \<Rightarrow> uuid \<Rightarrow> payment_context \<Rightarrow> str \<Rightarrow> bool" where
  "canOperatePayment env s organizationId actorUserId ctx permission \<longleftrightarrow>
     paymentAuthority (paymentGrants env s organizationId actorUserId permission None)
       ctx None PAYMENT_PROFILE \<noteq> None"

definition canCreatePaymentRequest ::
  "env \<Rightarrow> 'z access_db_scheme \<Rightarrow> uuid \<Rightarrow> uuid \<Rightarrow> payment_context \<Rightarrow> bool" where
  "canCreatePaymentRequest env s organizationId actorUserId ctx \<longleftrightarrow>
     paymentAuthority (paymentGrants env s organizationId actorUserId ''payment-request.create'' None)
       ctx None PAYMENT_PROFILE \<noteq> None"

definition canCreatePayment ::
  "env \<Rightarrow> 'z access_db_scheme \<Rightarrow> uuid \<Rightarrow> uuid \<Rightarrow> payment_context \<Rightarrow> bool" where
  "canCreatePayment env s organizationId actorUserId ctx \<longleftrightarrow>
     paymentAuthority (paymentGrants env s organizationId actorUserId ''payment.create'' None)
       ctx None PAYMENT_PROFILE \<noteq> None"

definition canOperateAccounting ::
  "env \<Rightarrow> 'z access_db_scheme \<Rightarrow> uuid \<Rightarrow> uuid \<Rightarrow> payment_context \<Rightarrow> str \<Rightarrow> bool" where
  "canOperateAccounting env s organizationId actorUserId ctx permission \<longleftrightarrow>
     paymentAuthority (paymentGrants env s organizationId actorUserId permission None)
       ctx None ACCOUNTING_PROFILE \<noteq> None"

text \<open>Cashboxes, transfers and settlements use the same grants with their own contexts.\<close>

record cashbox_context =
  cctx_branchIds :: "uuid list"
  cctx_treasuryUnitIds :: "uuid list"
  cctx_cashboxIds :: "uuid list"
  cctx_bankAccountIds :: "uuid list"
  cctx_currencies :: "str list"
  cctx_amount :: "str option"
  cctx_amountCurrency :: "str option"

definition canOperateCashbox ::
  "env \<Rightarrow> 'z access_db_scheme \<Rightarrow> uuid \<Rightarrow> uuid \<Rightarrow> cashbox_context \<Rightarrow> str \<Rightarrow> bool" where
  "canOperateCashbox env s organizationId actorUserId ctx permission \<longleftrightarrow>
     (\<exists>grant \<in> set (paymentGrants env s organizationId actorUserId permission None).
        covers (gr_branchIds grant) (cctx_branchIds ctx)
        \<and> covers (gr_treasuryUnitIds grant) (cctx_treasuryUnitIds ctx)
        \<and> covers (gr_cashboxIds grant) (cctx_cashboxIds ctx)
        \<and> covers (gr_bankAccountIds grant) (cctx_bankAccountIds ctx)
        \<and> covers (gr_currencies grant) (cctx_currencies ctx)
        \<and> gr_documentTypes grant = [] \<and> gr_methodCategories grant = []
        \<and> (case gr_amountCeiling grant of None \<Rightarrow> True
           | Some c \<Rightarrow> (case cctx_amount ctx of None \<Rightarrow> False
               | Some a \<Rightarrow> cctx_amountCurrency ctx = gr_amountCeilingCurrency grant
                   \<and> decimal12 a \<le> decimal12 c)))"

record transfer_context =
  tctx_branchIds :: "uuid list"
  tctx_treasuryUnitIds :: "uuid list"
  tctx_cashboxIds :: "uuid list"
  tctx_bankAccountIds :: "uuid list"
  tctx_currencies :: "str list"
  tctx_amount :: str
  tctx_amountCurrency :: str

definition resolveTransferAuthority ::
  "env \<Rightarrow> 'z access_db_scheme \<Rightarrow> uuid \<Rightarrow> uuid \<Rightarrow> transfer_context \<Rightarrow> str \<Rightarrow> uuid option \<Rightarrow> uuid option
     \<Rightarrow> payment_authority option" where
  "resolveTransferAuthority env s organizationId actorUserId ctx permission roleId required =
     (let grants = filter (\<lambda>grant.
            covers (gr_branchIds grant) (tctx_branchIds ctx)
            \<and> covers (gr_treasuryUnitIds grant) (tctx_treasuryUnitIds ctx)
            \<and> covers (gr_cashboxIds grant) (tctx_cashboxIds ctx)
            \<and> covers (gr_bankAccountIds grant) (tctx_bankAccountIds ctx)
            \<and> covers (gr_currencies grant) (tctx_currencies ctx)
            \<and> covers (gr_documentTypes grant) [''TRANSFER'']
            \<and> ceiling_allows grant (tctx_amount ctx) (tctx_amountCurrency ctx))
          (paymentGrants env s organizationId actorUserId permission roleId);
          grants' = (case required of None \<Rightarrow> grants
            | Some u \<Rightarrow> filter (\<lambda>grant. gr_grantUserId grant = u) grants)
      in sole_authority grants')"

record settlement_context =
  sctx_branchIds :: "uuid list"
  sctx_treasuryUnitIds :: "uuid list"
  sctx_bankAccountId :: uuid
  sctx_currency :: str
  sctx_amount :: str

definition resolveSettlementAuthority ::
  "env \<Rightarrow> 'z access_db_scheme \<Rightarrow> uuid \<Rightarrow> uuid \<Rightarrow> settlement_context \<Rightarrow> str \<Rightarrow> payment_authority option" where
  "resolveSettlementAuthority env s organizationId actorUserId ctx permission =
     sole_authority (filter (\<lambda>grant.
            covers (gr_branchIds grant) (sctx_branchIds ctx)
            \<and> covers (gr_treasuryUnitIds grant) (sctx_treasuryUnitIds ctx)
            \<and> covers (gr_bankAccountIds grant) [sctx_bankAccountId ctx]
            \<and> covers (gr_currencies grant) [sctx_currency ctx]
            \<and> ceiling_allows grant (sctx_amount ctx) (sctx_currency ctx))
          (paymentGrants env s organizationId actorUserId permission None))"

section \<open>Authorities are sound\<close>

text \<open>
  What it means that a user holds a permission for a payment through a grant: the grant is in
  force, its role permits the operation, every scope it lists contains the payment's values,
  and the payment's amount, as a rational number, is within the ceiling.
\<close>

definition scope_holds :: "str list \<Rightarrow> str list \<Rightarrow> bool" where
  "scope_holds scope values \<longleftrightarrow> scope = [] \<or> values \<noteq> [] \<and> set values \<subseteq> set scope"

lemma covers_iff [simp]: "covers scope values = scope_holds scope values"
  by (auto simp: covers_def scope_holds_def list_all_iff)

lemma scope_holds_or_scope:
  "scope_holds (or_scope value scope) values \<Longrightarrow> within_scope scope value \<Longrightarrow> scope_holds scope values"
  by (cases "value") (auto simp: scope_holds_def or_scope_def within_scope_def)

lemma sole_authority_Some:
  assumes "sole_authority eligible = Some a"
  obtains grant where "grant \<in> set eligible"
    and "gr_delegatedFromUserId grant = au_delegatedFromUserId a"
proof (cases "\<exists>grant \<in> set eligible. gr_delegatedFromUserId grant = None")
  case True
  then show ?thesis using assms that by (auto simp: sole_authority_def)
next
  case False
  let ?grantors = "dedup (concat (map (option_list \<circ> gr_delegatedFromUserId) eligible))"
  have "sole_authority eligible = (case ?grantors of
      [grantor] \<Rightarrow> Some \<lparr>au_delegatedFromUserId = Some grantor\<rparr> | _ \<Rightarrow> None)"
    using False by (simp only: sole_authority_def if_False)
  with assms obtain g where g: "?grantors = [g]" "a = \<lparr>au_delegatedFromUserId = Some g\<rparr>"
    by (auto split: list.splits)
  then have "g \<in> set ?grantors" by simp
  then obtain grant where "grant \<in> set eligible" "gr_delegatedFromUserId grant = Some g"
    by auto
  then show ?thesis using that g by simp
qed

lemma sole_authority_own:
  "grant \<in> set eligible \<Longrightarrow> gr_delegatedFromUserId grant = None \<Longrightarrow>
     sole_authority eligible = Some \<lparr>au_delegatedFromUserId = None\<rparr>"
  by (auto simp: sole_authority_def)

lemma paymentAuthority_Some:
  assumes "paymentAuthority grants ctx required profile = Some a"
  obtains grant where "grant \<in> set grants" and "grant_covers profile ctx grant"
    and "gr_delegatedFromUserId grant = au_delegatedFromUserId a"
    and "\<And>u. required = Some u \<Longrightarrow> gr_grantUserId grant = u"
proof -
  from assms obtain grant where "grant \<in> set (case required of
        None \<Rightarrow> filter (grant_covers profile ctx) grants
      | Some u \<Rightarrow> filter (\<lambda>grant. gr_grantUserId grant = u) (filter (grant_covers profile ctx) grants))"
    and "gr_delegatedFromUserId grant = au_delegatedFromUserId a"
    unfolding paymentAuthority_def Let_def by (auto elim: sole_authority_Some)
  then show ?thesis using that by (cases required) auto
qed

lemma paymentGrants_iff:
  "g \<in> set (paymentGrants env s org actor permission roleId) \<longleftrightarrow>
     (\<exists>ag \<in> set (t_accessGrants s). grant_usable env s org permission roleId ag
        \<and> (ag_userRefId ag = actor \<and> g = own_grant s ag
           \<or> (\<exists>d \<in> set (usable_delegations env s ag actor). g = delegated_grant s ag d)))"
  by (auto simp: paymentGrants_def grant_rows_def)

lemma usable_delegations_iff:
  "d \<in> set (usable_delegations env s ag actor) \<longleftrightarrow> d \<in> set (t_delegations s)
     \<and> dg_organizationId d = ag_organizationId ag \<and> dg_accessGrantId d = ag_id ag
     \<and> delegation_is_current env s (dg_id d) (ag_id ag) actor"
  by (auto simp: usable_delegations_def)

subsection \<open>Delegation attenuates\<close>

text \<open>
  The parts of the table constraints the argument needs: identifiers are keys, ceilings are
  numeric texts with at most eight decimals, a delegation has a ceiling exactly when it has a
  ceiling currency.
\<close>

definition numeric_column :: "str option \<Rightarrow> bool" where
  "numeric_column v \<longleftrightarrow> (case v of None \<Rightarrow> True | Some c \<Rightarrow> is_decimal c \<and> frac_digits c \<le> 8)"

definition access_tables_valid :: "'z access_db_scheme \<Rightarrow> bool" where
  "access_tables_valid s \<longleftrightarrow>
     distinct (map ag_id (t_accessGrants s)) \<and> distinct (map dg_id (t_delegations s))
     \<and> (\<forall>ag \<in> set (t_accessGrants s). numeric_column (ag_amountCeiling ag))
     \<and> (\<forall>d \<in> set (t_delegations s). numeric_column (dg_amountCeiling d)
          \<and> (dg_amountCeiling d = None \<longleftrightarrow> dg_amountCeilingCurrency d = None))"

lemma key_unique: "distinct (map k xs) \<Longrightarrow> x \<in> set xs \<Longrightarrow> y \<in> set xs \<Longrightarrow> k x = k y \<Longrightarrow> x = y"
  by (auto simp: distinct_map inj_on_def)

lemma delegation_is_currentD:
  assumes "access_tables_valid s" and "ag \<in> set (t_accessGrants s)" and "d \<in> set (t_delegations s)"
    and "delegation_is_current env s (dg_id d) (ag_id ag) actor"
  shows "delegation_current_for env s d ag actor"
proof -
  obtain d' ag' where "d' \<in> set (t_delegations s)" "ag' \<in> set (t_accessGrants s)"
      "dg_id d' = dg_id d" "ag_id ag' = ag_id ag" "delegation_current_for env s d' ag' actor"
    using assms(4) by (auto simp: delegation_is_current_def)
  moreover have "d' = d"
    using key_unique [of dg_id "t_delegations s"] calculation assms
    by (simp add: access_tables_valid_def)
  moreover have "ag' = ag"
    using key_unique [of ag_id "t_accessGrants s"] calculation assms
    by (simp add: access_tables_valid_def)
  ultimately show ?thesis by simp
qed

lemma least_numeric_le:
  assumes "compareDecimal c g \<le> 0" and "is_decimal c" "is_decimal g" "frac_digits c \<le> 12"
    "frac_digits g \<le> 12"
  shows "decimal12 (least_numeric g c) \<le> decimal12 g"
proof -
  have "dec_rat c \<le> dec_rat g"
    using assms(1-3) compareDecimal_rat [of c g] by (auto split: if_splits)
  then show ?thesis
    using assms fixed12.reading_le_iff [of c g] by (simp add: least_numeric_def)
qed

lemma delegated_ceiling:
  assumes "delegation_current_for env s d ag actor"
    and "numeric_column (ag_amountCeiling ag)" and "numeric_column (dg_amountCeiling d)"
    and "dg_amountCeiling d = None \<longleftrightarrow> dg_amountCeilingCurrency d = None"
    and "ceiling_allows (delegated_grant s ag d) amount currency"
  shows "ceiling_allows (own_grant s ag) amount currency"
proof (cases "ag_amountCeiling ag")
  case None
  then show ?thesis by (simp add: ceiling_allows_def own_grant_def)
next
  case (Some g)
  show ?thesis
  proof (cases "dg_amountCeiling d")
    case None
    then show ?thesis
      using assms Some by (simp add: ceiling_allows_def own_grant_def delegated_grant_def)
  next
    case c: (Some c)
    then obtain y where y: "dg_amountCeilingCurrency d = Some y" using assms(4) by auto
    have same: "ag_amountCeilingCurrency ag = Some y" and le: "compareDecimal c g \<le> 0"
      using assms(1) Some c y by (auto simp: delegation_current_for_def)
    have "decimal12 (least_numeric g c) \<le> decimal12 g"
      using assms(2,3) Some c le by (intro least_numeric_le) (simp_all add: numeric_column_def)
    then show ?thesis
      using assms(5) Some c y same
      by (simp add: ceiling_allows_def own_grant_def delegated_grant_def)
  qed
qed

lemma delegated_covers:
  assumes "delegation_current_for env s d ag actor"
    and "numeric_column (ag_amountCeiling ag)" and "numeric_column (dg_amountCeiling d)"
    and "dg_amountCeiling d = None \<longleftrightarrow> dg_amountCeilingCurrency d = None"
    and "grant_covers profile ctx (delegated_grant s ag d)"
  shows "grant_covers profile ctx (own_grant s ag)"
proof -
  have scopes:
    "within_scope (branch_scope s (ag_id ag)) (dg_branchId d)"
    "within_scope (unit_scope s (ag_id ag)) (dg_treasuryUnitId d)"
    "within_scope (document_scope s (ag_id ag)) (dg_documentType d)"
    "within_scope (method_scope s (ag_id ag)) (dg_methodCategory d)"
    "within_scope (currency_scope s (ag_id ag)) (dg_currency d)"
    using assms(1) unfolding delegation_current_for_def by blast+
  have "ceiling_allows (own_grant s ag) (pctx_amount ctx) (pctx_amountCurrency ctx)"
    by (rule delegated_ceiling [OF assms(1-4)]) (use assms(5) in \<open>simp add: grant_covers_def\<close>)
  then show ?thesis
    using assms(5) scopes
    by (auto simp: grant_covers_def own_grant_def delegated_grant_def intro: scope_holds_or_scope)
qed

lemma grantor_holds:
  assumes valid: "access_tables_valid s"
    and auth: "resolvePaymentAuthority env s org actor ctx permission roleId required = Some a"
    and delegated: "au_delegatedFromUserId a = Some grantor"
  shows "resolvePaymentAuthority env s org grantor ctx permission roleId required
      = Some \<lparr>au_delegatedFromUserId = None\<rparr>"
proof -
  obtain g where g: "g \<in> set (paymentGrants env s org actor permission roleId)"
    and cov: "grant_covers PAYMENT_PROFILE ctx g" and "gr_delegatedFromUserId g = Some grantor"
    and req: "\<And>u. required = Some u \<Longrightarrow> gr_grantUserId g = u"
    using auth delegated unfolding resolvePaymentAuthority_def
    by (elim paymentAuthority_Some) simp
  then obtain ag d where ag: "ag \<in> set (t_accessGrants s)"
    and usable: "grant_usable env s org permission roleId ag"
    and d: "d \<in> set (usable_delegations env s ag actor)" and row: "g = delegated_grant s ag d"
    and user: "ag_userRefId ag = grantor"
    by (auto simp: paymentGrants_iff own_grant_def delegated_grant_def)
  have cur: "delegation_current_for env s d ag actor"
    using d ag valid by (auto simp: usable_delegations_iff intro: delegation_is_currentD)
  have own: "grant_covers PAYMENT_PROFILE ctx (own_grant s ag)"
    using cov row valid ag d
    by (intro delegated_covers [OF cur]) (auto simp: access_tables_valid_def usable_delegations_iff)
  have "own_grant s ag \<in> set (paymentGrants env s org grantor permission roleId)"
    using ag usable user by (auto simp: paymentGrants_iff)
  moreover have "gr_grantUserId (own_grant s ag) = gr_grantUserId g"
    by (simp add: row own_grant_def delegated_grant_def)
  ultimately show ?thesis
    using own req unfolding resolvePaymentAuthority_def paymentAuthority_def Let_def
    by (intro sole_authority_own [of "own_grant s ag"])
       (auto simp: own_grant_def split: option.splits)
qed

section \<open>What the grants depend on\<close>

text \<open>
  The tables a permission is read from. Databases that agree on them give the same grants.
\<close>

definition access_part where
  "access_part s = ((t_roles s, t_rolePermissions s, t_userRefs s, t_identityAccounts s),
     (t_accessGrants s, t_delegations s),
     (t_accessGrantBranchScopes s, t_accessGrantTreasuryUnitScopes s, t_accessGrantCashboxScopes s,
      t_accessGrantBankAccountScopes s, t_accessGrantDocumentTypeScopes s,
      t_accessGrantMethodCategoryScopes s, t_accessGrantCurrencyScopes s))"

lemma access_part_scopes:
  assumes "access_part s' = access_part s"
  shows "branch_scope s' = branch_scope s" "unit_scope s' = unit_scope s"
    "cashbox_scope s' = cashbox_scope s" "account_scope s' = account_scope s"
    "document_scope s' = document_scope s" "method_scope s' = method_scope s"
    "currency_scope s' = currency_scope s"
  using assms
  by (simp_all add: fun_eq_iff access_part_def branch_scope_def unit_scope_def cashbox_scope_def
    account_scope_def document_scope_def method_scope_def currency_scope_def)

lemma access_part_tables:
  assumes "access_part s' = access_part s"
  shows "role_active s' = role_active s" "role_permits s' = role_permits s"
    "user_active s' = user_active s" "t_accessGrants s' = t_accessGrants s"
    "t_delegations s' = t_delegations s" "t_roles s' = t_roles s"
  using assms by (simp_all add: fun_eq_iff access_part_def role_active_def role_permits_def user_active_def)

lemma access_part_grants:
  assumes "access_part s' = access_part s"
  shows "paymentGrants env s' = paymentGrants env s"
proof -
  note eq = access_part_scopes [OF assms] access_part_tables [OF assms]
  have dig: "access_grant_scope_digest env s' = access_grant_scope_digest env s"
    by (simp add: fun_eq_iff access_grant_scope_digest_def eq)
  have cur: "delegation_current_for env s' = delegation_current_for env s"
    by (intro ext) (simp only: delegation_current_for_def dig eq)
  have use: "usable_delegations env s' = usable_delegations env s"
    by (intro ext) (simp only: usable_delegations_def delegation_is_current_def cur eq)
  have rows: "grant_rows env s' = grant_rows env s"
    by (intro ext, simp only: grant_rows_def use own_grant_def eq)
      (simp add: fun_eq_iff delegated_grant_def eq)
  have "grant_usable env s' = grant_usable env s"
    by (intro ext) (simp only: grant_usable_def eq)
  then show ?thesis by (intro ext) (simp only: paymentGrants_def rows eq)
qed

lemma access_part_permissions:
  assumes "access_part s' = access_part s"
  shows "canOperatePayment env s' = canOperatePayment env s"
    and "hasOrganizationPermission env s' = hasOrganizationPermission env s"
    and "resolvePaymentAuthority env s' = resolvePaymentAuthority env s"
  by (simp_all add: fun_eq_iff canOperatePayment_def hasOrganizationPermission_def
    resolvePaymentAuthority_def access_part_grants [OF assms] access_part_tables [OF assms])

end
