(* ===== verification/Payment_Execution.thy ===== *)
theory Payment_Execution
  imports Execution_Repository Authorization
begin

text \<open>
  \<open>payments/payment-execution.service.ts\<close>: the execution of an approved payment and the
  reversal of an executed one, each a transaction whose steps are the source's in its order:
  the idempotency lock and lookup, the authorization, the replay, the guards, the writes, the
  audit and outbox events, the stored response. Errors are the constants the source throws;
  \<open>execution_problem\<close> is its mapping to problem codes.
\<close>

section \<open>Commands\<close>

record step_up =
  st_proofId :: str
  st_method :: str
  st_path :: str
  st_bodyDigest :: str
  st_idempotencyKey :: str

record command_context =
  cx_organizationId :: uuid
  cx_actorUserId :: uuid
  cx_physicalSessionId :: uuid
  cx_paymentId :: uuid
  cx_key :: str
  cx_ifMatch :: str
  cx_requestId :: str
  cx_stepUp :: "step_up option"

text \<open>
  \<open>Number(digits)\<close>: exact below two to the 53, else rounded to 53 significant bits, ties to
  even. A text beyond the double range stays a number no version column can equal.
\<close>

fun show_binary :: "nat \<Rightarrow> bool list" where
  "show_binary n = (if n < 2 then [odd n] else show_binary (n div 2) @ [odd n])"

declare show_binary.simps [simp del]

definition round53 :: "nat \<Rightarrow> int" where
  "round53 n = (let e = length (show_binary n) - 53; q = n div 2 ^ e; r = n mod 2 ^ e;
       up = (2 * r > 2 ^ e \<or> 2 * r = 2 ^ e \<and> odd q)
     in int ((if up then q + 1 else q) * 2 ^ e))"

definition js_number :: "str \<Rightarrow> int" where
  "js_number t = (let n = digits_val t in if n < 2 ^ 53 then int n else round53 n)"

lemma js_number_code [code]:
  "js_number t = (let v = digits_int_acc 0 t in
     if v < 2 ^ 53 then v else round53 (digits_val t))"
proof -
  have "int (digits_val t) < 2 ^ 53 \<longleftrightarrow> digits_val t < 2 ^ 53"
    by (metis of_nat_less_iff of_nat_numeral of_nat_power)
  then show ?thesis by (simp only: js_number_def Let_def digits_int [symmetric])
qed

lemma js_number_small: "digits_val t < 2 ^ 53 \<Longrightarrow> js_number t = int (digits_val t)"
  by (simp add: js_number_def Let_def)

text \<open>\<open>validate\<close>: the checks before the transaction, and the expected version.\<close>

definition validation :: "str \<Rightarrow> exn" where
  "validation detail = Problem ''TRS-GEN-001'' 422 (Some detail)"

definition validate :: "command_context \<Rightarrow> int res" where
  "validate ctx =
     res_bind (res_guard (is_uuid (cx_paymentId ctx)) (validation ''resourceId is malformed.'')) (\<lambda>_.
     res_bind (res_guard (cx_requestId ctx \<noteq> [] \<and> length (cx_requestId ctx) \<le> 128)
       (validation ''X-Request-Id is required.'')) (\<lambda>_.
     res_bind (res_guard (8 \<le> length (cx_key ctx) \<and> length (cx_key ctx) \<le> 128)
       (validation ''Idempotency-Key must contain 8 through 128 characters.'')) (\<lambda>_.
     (case etag_digits (cx_ifMatch ctx) of
        None \<Rightarrow> Inl (validation ''If-Match must be one strong numeric ETag.'')
      | Some digits \<Rightarrow> Inr (js_number digits)))))"

definition execution_problems :: "(str \<times> str \<times> nat) list" where
  "execution_problems = [
     (''RESOURCE_HIDDEN'', ''TRS-GEN-004'', 404),
     (''SCOPE_DENIED'', ''TRS-GEN-003'', 403),
     (''INVALID_APPROVAL_EVIDENCE'', ''TRS-GEN-005'', 409),
     (''STATE_CONFLICT'', ''TRS-GEN-005'', 409),
     (''STALE_VERSION'', ''TRS-GEN-006'', 409),
     (''IDEMPOTENCY_CONFLICT'', ''TRS-GEN-007'', 409),
     (''CASHBOX_DATE_CLOSED'', ''TRS-GEN-009'', 409),
     (''STEP_UP_INVALID'', ''TRS-AUT-005'', 401),
     (''SOURCE_INVALID'', ''TRS-PAY-004'', 409),
     (''EFFECT_MAPPING'', ''TRS-PAY-005'', 409),
     (''ALLOCATION_INVALID'', ''TRS-PAY-006'', 409),
     (''AGGREGATE_STALE'', ''TRS-PAY-007'', 409),
     (''REVERSAL_BLOCKED'', ''TRS-PAY-009'', 409),
     (''TOTAL_MISMATCH'', ''TRS-PAY-001'', 422)]"

definition execution_problem :: "exn \<Rightarrow> exn" where
  "execution_problem e =
     (case e of
        Message m \<Rightarrow> (case map_of execution_problems m of
            Some (code, status) \<Rightarrow> Problem code status None | None \<Rightarrow> e)
      | PgError code \<Rightarrow>
          if code = ''23505'' then Problem ''TRS-GEN-005'' 409 None
          else if code = ''23503'' then Problem ''TRS-GEN-004'' 404 None
          else if code \<in> {''22003'', ''22P02'', ''23514''} then Problem ''TRS-PAY-005'' 409 None
          else e
      | _ \<Rightarrow> e)"

section \<open>Guards\<close>

definition authorizationContext :: "locked_payment \<Rightarrow> payment_context" where
  "authorizationContext payment = (let lines = map kl_line (lk_lines payment) in \<lparr>
     pctx_branchId = lk_effectiveBranchId payment,
     pctx_treasuryUnitId = Some (pd_treasuryUnitId (lk_document payment)),
     pctx_cashboxIds = dedup (concat (map (option_list \<circ> pl_cashboxId) lines)),
     pctx_bankAccountIds = dedup (concat (map (option_list \<circ> pl_bankAccountId) lines)),
     pctx_currencies = dedup (pd_baseCurrency (lk_document payment) # map pl_currency lines),
     pctx_methodCategories = dedup (map pl_methodCategory lines),
     pctx_documentType = ''PAYMENT'',
     pctx_amount = pd_totalBaseAmount (lk_document payment),
     pctx_amountCurrency = pd_baseCurrency (lk_document payment)\<rparr>)"

definition assertAuthorized ::
  "env \<Rightarrow> command_context \<Rightarrow> locked_payment \<Rightarrow> str \<Rightarrow> ('z payment_db_scheme, unit) tx" where
  "assertAuthorized env ctx payment permission =
     tx_bind (tx_read (\<lambda>s. canOperatePayment env s (cx_organizationId ctx) (cx_actorUserId ctx)
         (authorizationContext payment) permission)) (\<lambda>allowed.
       tx_guard allowed (Message ''SCOPE_DENIED''))"

definition consumeProof :: "env \<Rightarrow> command_context \<Rightarrow> ('z payment_db_scheme, unit) tx" where
  "consumeProof env ctx =
     (case cx_stepUp ctx of
        None \<Rightarrow> tx_throw (Message ''STEP_UP_INVALID'')
      | Some su \<Rightarrow> tx_bind (consumeStepUpProof env \<lparr>
            su_proofDigest = digest env (st_proofId su),
            su_physicalSessionId = cx_physicalSessionId ctx,
            su_method = st_method su,
            su_path = st_path su,
            su_bodyDigest = st_bodyDigest su,
            su_idempotencyKey = st_idempotencyKey su\<rparr>) (\<lambda>consumed.
          tx_guard consumed (Message ''STEP_UP_INVALID'')))"

definition exactTotal :: "locked_payment \<Rightarrow> ('z payment_db_scheme, unit) tx" where
  "exactTotal payment = tx_guard
     (sum_list (map (decimal8 \<circ> pl_baseAmount \<circ> kl_line) (lk_lines payment))
        = decimal8 (pd_totalBaseAmount (lk_document payment)))
     (Message ''TOTAL_MISMATCH'')"

text \<open>
  \<open>separation\<close>: the creator and every approver conflict with execution. The list kept is
  filtered to the executor, so an independent approval is one by anyone else, the creator
  included.
\<close>

definition separation_conflicts :: "command_context \<Rightarrow> locked_payment \<Rightarrow> uuid list" where
  "separation_conflicts ctx payment = filter (\<lambda>i. i = cx_actorUserId ctx)
     (pd_creatorUserId (lk_document payment) # lk_approverUserIds payment)"

definition separation ::
  "env \<Rightarrow> command_context \<Rightarrow> locked_payment \<Rightarrow> payment_execute option
     \<Rightarrow> ('z payment_db_scheme, unit) tx" where
  "separation env ctx payment body =
     (let conflicts = separation_conflicts ctx payment in
      if conflicts = [] then tx_return ()
      else (case body of
          None \<Rightarrow> tx_throw (Message ''SCOPE_DENIED'')
        | Some b \<Rightarrow> (let override = ex_separationOverride b in
            tx_bind (tx_read (\<lambda>s. hasOrganizationPermission env s (cx_organizationId ctx)
                (cx_actorUserId ctx) ''separation.override'')) (\<lambda>permitted.
            tx_then (tx_guard permitted (Message ''SCOPE_DENIED''))
            (tx_then (consumeProof env ctx)
            (tx_bind (tx_read (\<lambda>s. overrideApprovalValid s (cx_organizationId ctx) payment
                (so_independentApprovalActionId override) (so_reason override)
                (cx_actorUserId ctx) conflicts)) (\<lambda>result.
            tx_then (tx_guard (result \<noteq> INVALID_EVIDENCE) (Message ''INVALID_APPROVAL_EVIDENCE''))
              (tx_guard (result = VALID) (Message ''SCOPE_DENIED''))))))))) "

definition allocation_ok :: "'z payment_db_scheme \<Rightarrow> uuid \<Rightarrow> payment_allocation_row \<Rightarrow> bool" where
  "allocation_ok s org a =
     (let siblings = siblingAllocations s org a; known = pa_knownObligationTotal a in
      pa_state a = ''ACTIVE''
      \<and> list_all (\<lambda>b. pa_knownObligationTotal b = known) siblings
      \<and> (case known of
           Some t \<Rightarrow> sum_list (map (decimal8 \<circ> pa_allocatedAmount) siblings) \<le> decimal8 t
         | None \<Rightarrow> length (filter (\<lambda>b. pa_overrideApprovalActionId b = None) siblings) \<le> 1))"

definition allocations :: "locked_payment \<Rightarrow> ('z payment_db_scheme, unit) tx" where
  "allocations payment = tx_for (lk_allocations payment) (\<lambda>a.
     tx_bind (tx_read (\<lambda>s. allocation_ok s (pd_organizationId (lk_document payment)) a)) (\<lambda>ok.
       tx_guard ok (Message ''ALLOCATION_INVALID'')))"

text \<open>
  The amount each source pays, in the order the lines first name it. The key is the source
  type, its identifier and the currency, which the source joins with colons; none of the
  three contains one.
\<close>

type_synonym source_key = "str \<times> uuid \<times> str"

fun bump_total :: "source_key \<Rightarrow> int \<Rightarrow> (source_key \<times> int) list \<Rightarrow> (source_key \<times> int) list" where
  "bump_total k v [] = [(k, v)]"
| "bump_total k v ((j, t) # rest) = (if j = k then (j, t + v) # rest else (j, t) # bump_total k v rest)"

definition line_source :: "payment_line_row \<Rightarrow> source_key option" where
  "line_source l = (case pl_cashboxId l of
       Some c \<Rightarrow> Some (''CASHBOX'', c, pl_currency l)
     | None \<Rightarrow> (case pl_bankAccountId l of
         Some b \<Rightarrow> Some (''BANK_ACCOUNT'', b, pl_currency l) | None \<Rightarrow> None))"

fun source_totals :: "payment_line_row list \<Rightarrow> (source_key \<times> int) list \<Rightarrow> (source_key \<times> int) list res" where
  "source_totals [] totals = Inr totals"
| "source_totals (l # ls) totals = (case line_source l of
       None \<Rightarrow> Inl (Message ''EFFECT_MAPPING'')
     | Some k \<Rightarrow> source_totals ls (bump_total k (decimal8 (pl_amount l)) totals))"

definition sourceTotals :: "locked_payment \<Rightarrow> (source_key \<times> int) list res" where
  "sourceTotals payment = source_totals (map kl_line (lk_lines payment)) []"

fun check_reservations ::
  "env \<Rightarrow> (source_key \<times> int) list \<Rightarrow> payment_reservation_row list \<Rightarrow> ('z payment_db_scheme, unit) tx" where
  "check_reservations env totals [] = tx_return ()"
| "check_reservations env totals (v # vs) =
     (let k = (pv_sourceType v, pv_sourceId v, pv_currency v) in
      tx_then (tx_guard (pv_state v \<in> {''ACTIVE'', ''REVIEW_REQUIRED''}
          \<and> map_of totals k = Some (decimal8 (pv_amount v))) (Message ''SOURCE_INVALID''))
      (tx_then (if pv_state v = ''ACTIVE''
          then tx_bind (newDate env) (\<lambda>now. tx_guard (now < pv_reviewDueAt v) (Message ''SOURCE_INVALID''))
          else tx_return ())
        (check_reservations env (filter (\<lambda>t. fst t \<noteq> k) totals) vs)))"

definition reservations :: "env \<Rightarrow> locked_payment \<Rightarrow> ('z payment_db_scheme, uuid list) tx" where
  "reservations env payment =
     (if lk_reservations payment = [] then tx_return []
      else tx_bind (tx_lift (sourceTotals payment)) (\<lambda>totals.
        tx_then (check_reservations env totals (lk_reservations payment))
          (tx_return (map pv_id (lk_reservations payment)))))"

definition check_source :: "locked_payment \<Rightarrow> source_key \<times> int \<Rightarrow> ('z payment_db_scheme, unit) tx" where
  "check_source payment entry =
     (case entry of ((sourceType, sourceId, currency), amount) \<Rightarrow>
        (let d = lk_document payment in
         if sourceType = ''CASHBOX'' then
           tx_bind (tx_read (\<lambda>s. cashbox_payable s (pd_organizationId d) sourceId currency
               (pd_businessDate d) (pd_id d) (amountString amount))) (\<lambda>state.
             tx_then (tx_guard (state \<noteq> CLOSED) (Message ''CASHBOX_DATE_CLOSED''))
               (tx_guard (state = OK) (Message ''SOURCE_INVALID'')))
         else
           tx_bind (tx_read (\<lambda>s. bank_payable s (pd_organizationId d) sourceId currency
               (pd_businessDate d) (pd_id d) (amountString amount))) (\<lambda>ok.
             tx_guard ok (Message ''SOURCE_INVALID''))))"

definition checkSources :: "locked_payment \<Rightarrow> ('z payment_db_scheme, unit) tx" where
  "checkSources payment = tx_bind (tx_lift (sourceTotals payment)) (\<lambda>totals.
     tx_for totals (check_source payment))"

definition check_reversal_source :: "locked_payment \<Rightarrow> str \<Rightarrow> locked_line \<Rightarrow> ('z payment_db_scheme, unit) tx" where
  "check_reversal_source payment businessDate locked =
     (let org = pd_organizationId (lk_document payment); l = kl_line locked in
      case pl_cashboxId l of
        Some c \<Rightarrow> tx_bind (tx_read (\<lambda>s. cashbox_receivable s org c (pl_currency l) businessDate)) (\<lambda>state.
          tx_then (tx_guard (state \<noteq> CLOSED) (Message ''CASHBOX_DATE_CLOSED''))
            (tx_guard (state = OK) (Message ''REVERSAL_BLOCKED'')))
      | None \<Rightarrow> (case pl_bankAccountId l of
          None \<Rightarrow> tx_throw (Message ''REVERSAL_BLOCKED'')
        | Some b \<Rightarrow> tx_bind (tx_read (\<lambda>s. bank_receivable s org b (pl_currency l))) (\<lambda>ok.
            tx_guard ok (Message ''REVERSAL_BLOCKED''))))"

definition checkReversalSources :: "locked_payment \<Rightarrow> str \<Rightarrow> ('z payment_db_scheme, unit) tx" where
  "checkReversalSources payment businessDate =
     tx_for (lk_lines payment) (check_reversal_source payment businessDate)"

section \<open>The effects of a line\<close>

definition BANK_METHODS :: "str list" where
  "BANK_METHODS = [''BANK_TRANSFER'', ''DIRECT_DEPOSIT'', ''CARD_TRANSFER'', ''FOREIGN_REMITTANCE'']"

definition effect_type :: "str \<Rightarrow> str option" where
  "effect_type category =
     (if category = ''CASH'' then Some ''CASHBOX_MOVEMENT''
      else if category \<in> set BANK_METHODS then Some ''BANK_MOVEMENT'' else None)"

definition outgoing_effect ::
  "uuid \<Rightarrow> uuid \<Rightarrow> str \<Rightarrow> str \<Rightarrow> uuid \<Rightarrow> str \<Rightarrow> str \<Rightarrow> str \<Rightarrow> int \<Rightarrow> json" where
  "outgoing_effect paymentEffectId lineId effectKey effectType effectId amount currency businessDate
      sourceVersion = JObject [
     (''paymentEffectId'', JString paymentEffectId),
     (''paymentLineId'', JString lineId),
     (''effectKey'', JString effectKey),
     (''effectType'', JString effectType),
     (''effectId'', JString effectId),
     (''direction'', JString ''OUTGOING''),
     (''money'', JObject [(''amount'', JString amount), (''currency'', JString currency)]),
     (''businessDate'', JString businessDate),
     (''sourceVersion'', JNumber sourceVersion)]"

definition line_effect_key :: "uuid \<Rightarrow> uuid \<Rightarrow> str \<Rightarrow> str" where
  "line_effect_key paymentId lineId suffix =
     ''payment:'' @ paymentId @ '':line:'' @ lineId @ '':'' @ suffix"

definition outgoing_movement ::
  "payment_document_row \<Rightarrow> payment_line_row \<Rightarrow> uuid \<Rightarrow> str \<Rightarrow> movement_fact_command" where
  "outgoing_movement d l source effectType = \<lparr>
     mv_organizationId = pd_organizationId d,
     mv_owner = Some ''domain.payments'',
     mv_sourceType = Some ''Payment'',
     mv_sourceId = pd_id d,
     mv_sourceLineId = Some (pl_id l),
     mv_effectKey = line_effect_key (pd_id d) (pl_id l) ''outgoing'',
     mv_endpointType = (if effectType = ''CASHBOX_MOVEMENT'' then ''CASHBOX'' else ''BANK_ACCOUNT''),
     mv_endpointId = source,
     mv_amount = pl_amount l,
     mv_currency = pl_currency l,
     mv_businessDate = pd_businessDate d,
     mv_reversalOfFactId = None,
     mv_direction = Some ''DEBIT'',
     mv_state = Some ''POSTED''\<rparr>"

definition outgoing_effect_input ::
  "payment_document_row \<Rightarrow> payment_line_row \<Rightarrow> int \<Rightarrow> str \<Rightarrow> str \<Rightarrow> uuid option \<Rightarrow> uuid option
     \<Rightarrow> effect_input" where
  "outgoing_effect_input d l sourceVersion effectKey effectType movementFactId bankInstructionId = \<lparr>
     fi_organizationId = pd_organizationId d,
     fi_paymentLineId = pl_id l,
     fi_effectKey = effectKey,
     fi_effectType = effectType,
     fi_direction = ''OUTGOING'',
     fi_amount = pl_amount l,
     fi_currency = pl_currency l,
     fi_businessDate = pd_businessDate d,
     fi_sourceVersion = sourceVersion,
     fi_movementFactId = movementFactId,
     fi_bankInstructionId = bankInstructionId,
     fi_issuedChequeId = None,
     fi_reversalOfEffectId = None\<rparr>"

definition executeInstruction ::
  "env \<Rightarrow> payment_document_row \<Rightarrow> payment_line_row \<Rightarrow> int \<Rightarrow> ('z payment_db_scheme, json) tx" where
  "executeInstruction env d l sourceVersion =
     (case (pl_bankAccountId l, pl_beneficiaryAccountReference l) of
        (Some account, Some (c # cs)) \<Rightarrow>
          tx_bind (randomUUID env) (\<lambda>bankInstructionId.
          (let instructionKey = line_effect_key (pd_id d) (pl_id l) ''instruction'' in
           tx_then (createInstruction env \<lparr>
             bn_id = bankInstructionId,
             bn_organizationId = pd_organizationId d,
             bn_paymentLineId = pl_id l,
             bn_bankAccountId = account,
             bn_amount = pl_amount l,
             bn_currency = pl_currency l,
             bn_beneficiaryAccountReference = c # cs,
             bn_localReference = pd_businessNumber d @ ''-'' @ show_int (pl_lineNumber l)\<rparr>)
           (tx_bind (appendEffect env (outgoing_effect_input d l sourceVersion instructionKey
               ''BANK_INSTRUCTION'' None (Some bankInstructionId))) (\<lambda>instructionEffectId.
             tx_return (outgoing_effect instructionEffectId (pl_id l) instructionKey
               ''BANK_INSTRUCTION'' bankInstructionId (pl_amount l) (pl_currency l)
               (pd_businessDate d) sourceVersion)))))
      | _ \<Rightarrow> tx_throw (Message ''EFFECT_MAPPING''))"

definition executeLine ::
  "env \<Rightarrow> payment_document_row \<Rightarrow> int \<Rightarrow> payment_line_row \<Rightarrow> ('z payment_db_scheme, json list) tx" where
  "executeLine env d sourceVersion l =
     (case (coalesce (pl_cashboxId l) (pl_bankAccountId l), effect_type (pl_methodCategory l)) of
        (Some source, Some effectType) \<Rightarrow>
          (let command = outgoing_movement d l source effectType in
           tx_bind (appendMovement env command) (\<lambda>movementFactId.
           tx_bind (appendEffect env (outgoing_effect_input d l sourceVersion
               (mv_effectKey command) effectType (Some movementFactId) None)) (\<lambda>paymentEffectId.
           (let first = outgoing_effect paymentEffectId (pl_id l) (mv_effectKey command) effectType
                  movementFactId (pl_amount l) (pl_currency l) (pd_businessDate d) sourceVersion in
            if effectType = ''BANK_MOVEMENT''
            then tx_bind (executeInstruction env d l sourceVersion) (\<lambda>second.
              tx_return [first, second])
            else tx_return [first]))))
      | _ \<Rightarrow> tx_throw (Message ''EFFECT_MAPPING''))"

section \<open>Execution\<close>

definition execution_scope :: "str \<Rightarrow> command_context \<Rightarrow> idempotency_key" where
  "execution_scope operation ctx = \<lparr>
     ik_organizationId = cx_organizationId ctx,
     ik_scope = operation @ '':'' @ cx_actorUserId ctx @ '':'' @ cx_paymentId ctx,
     ik_key = cx_key ctx\<rparr>"

definition execute_digest :: "env \<Rightarrow> command_context \<Rightarrow> payment_execute option \<Rightarrow> str res" where
  "execute_digest env ctx body = commandDigest env ''executePayment'' (JObject [
     (''actorUserId'', JString (cx_actorUserId ctx)),
     (''paymentId'', JString (cx_paymentId ctx)),
     (''ifMatch'', JString (cx_ifMatch ctx)),
     (''body'', (case body of None \<Rightarrow> JNull | Some b \<Rightarrow> ex_body b))])"

definition executed_event :: "command_context \<Rightarrow> locked_payment \<Rightarrow> int \<Rightarrow> json list \<Rightarrow> outbox_input" where
  "executed_event ctx payment sourceVersion effs = \<lparr>
     oi_organizationId = cx_organizationId ctx,
     oi_aggregateType = Some ''Payment'',
     oi_aggregateId = cx_paymentId ctx,
     oi_aggregateVersion = sourceVersion,
     oi_eventType = ''treasury.payment.executed.v1'',
     oi_payload = JObject [
       (''sourceType'', JString ''Payment''),
       (''sourceId'', JString (cx_paymentId ctx)),
       (''sourceVersion'', JNumber sourceVersion),
       (''businessDate'', JString (pd_businessDate (lk_document payment))),
       (''effects'', JArray effs)]\<rparr>"

definition payment_audit :: "command_context \<Rightarrow> str \<Rightarrow> str option \<Rightarrow> audit_input" where
  "payment_audit ctx action reason = \<lparr>
     ai_organizationId = cx_organizationId ctx,
     ai_requestId = cx_requestId ctx,
     ai_actorUserId = cx_actorUserId ctx,
     ai_entityType = Some ''Payment'',
     ai_entityId = cx_paymentId ctx,
     ai_action = action,
     ai_reason = reason\<rparr>"

text \<open>The checks of a fresh execution; the result is the reservations to consume.\<close>

definition execution_guards ::
  "env \<Rightarrow> command_context \<Rightarrow> payment_execute option \<Rightarrow> int \<Rightarrow> locked_payment
     \<Rightarrow> ('z payment_db_scheme, uuid list) tx" where
  "execution_guards env ctx body expectedVersion payment =
     (let d = lk_document payment in
      tx_then (tx_guard (pd_version d = expectedVersion) (Message ''STALE_VERSION''))
      (tx_then (tx_guard (pd_state d = ''APPROVED'' \<and> pd_currentApprovalSnapshotId d \<noteq> None)
        (Message ''STATE_CONFLICT''))
      (tx_then (tx_guard (lk_lines payment \<noteq> []
          \<and> list_all (\<lambda>l. kl_methodState l = ''ACTIVE'') (lk_lines payment))
        (Message ''AGGREGATE_STALE''))
      (tx_then (exactTotal payment)
      (tx_then (separation env ctx payment body)
      (tx_then (allocations payment)
      (tx_bind (reservations env payment) (\<lambda>reservationIds.
      (tx_then (checkSources payment)
        (tx_return reservationIds))))))))))"

text \<open>The writes of a fresh execution, from the consumed reservations to the outbox event.\<close>

definition execution_writes ::
  "env \<Rightarrow> command_context \<Rightarrow> int \<Rightarrow> locked_payment \<Rightarrow> uuid list \<Rightarrow> ('z payment_db_scheme, unit) tx" where
  "execution_writes env ctx expectedVersion payment reservationIds =
     tx_bind (newDate env) (\<lambda>executedAt.
     (let sourceVersion = expectedVersion + 1 in
      tx_then (consumeReservations (cx_organizationId ctx) reservationIds)
      (tx_then (completeExecution (cx_organizationId ctx) (cx_paymentId ctx) (cx_actorUserId ctx)
        executedAt sourceVersion)
      (tx_bind (tx_map (executeLine env (lk_document payment) sourceVersion)
        (map kl_line (lk_lines payment))) (\<lambda>effs.
      (tx_then (appendAudit env (payment_audit ctx ''PAYMENT_EXECUTED'' None))
        (appendOutbox env (executed_event ctx payment sourceVersion (concat effs)))))))))"

definition execute_fresh ::
  "env \<Rightarrow> command_context \<Rightarrow> payment_execute option \<Rightarrow> int \<Rightarrow> locked_payment
     \<Rightarrow> ('z payment_db_scheme, payment_view) tx" where
  "execute_fresh env ctx body expectedVersion payment =
     tx_bind (execution_guards env ctx body expectedVersion payment) (\<lambda>reservationIds.
     tx_then (execution_writes env ctx expectedVersion payment reservationIds)
     (tx_bind (tx_read (\<lambda>s. paymentView s (cx_organizationId ctx) (cx_paymentId ctx))) (\<lambda>response.
       (case response of
          None \<Rightarrow> tx_throw (Message ''IDEMPOTENCY_CONFLICT'')
        | Some view \<Rightarrow> tx_then (tx_guard (vw_version view = expectedVersion + 1)
              (Message ''IDEMPOTENCY_CONFLICT'')) (tx_return view)))))"

text \<open>
  The replay of a stored response: the digests agree and there is a response, else the key
  was used for another command.
\<close>

definition replay_payment :: "response replay \<Rightarrow> str \<Rightarrow> ('s, payment_view) tx" where
  "replay_payment replay requestDigest =
     (if re_requestDigest replay \<noteq> requestDigest then tx_throw (Message ''IDEMPOTENCY_CONFLICT'')
      else (case re_response replay of
          Some (PaymentResponse view) \<Rightarrow> tx_return view
        | _ \<Rightarrow> tx_throw (Message ''IDEMPOTENCY_CONFLICT'')))"

definition execute_tx ::
  "env \<Rightarrow> command_context \<Rightarrow> payment_execute option \<Rightarrow> int \<Rightarrow> str
     \<Rightarrow> ('z payment_db_scheme, payment_view) tx" where
  "execute_tx env ctx body expectedVersion requestDigest =
     (let k = execution_scope ''executePayment'' ctx in
      tx_then (acquireIdempotencyLock k)
      (tx_bind (tx_read (findIdempotency k)) (\<lambda>replay.
      (tx_bind (tx_read (\<lambda>s. lockPayment s (cx_organizationId ctx) (cx_paymentId ctx))) (\<lambda>locked.
      (case locked of
         None \<Rightarrow> tx_throw (Message ''RESOURCE_HIDDEN'')
       | Some payment \<Rightarrow>
           tx_then (assertAuthorized env ctx payment ''payment.execute'')
           (case replay of
              Some r \<Rightarrow> replay_payment r requestDigest
            | None \<Rightarrow>
                tx_then (insertIdempotency env k requestDigest)
                (tx_bind (execute_fresh env ctx body expectedVersion payment) (\<lambda>response.
                tx_then (saveIdempotency k (PaymentResponse response) 200)
                  (tx_return response))))))))))"

text \<open>\<open>execute\<close>: validation and the digest come before the transaction and its error mapping.\<close>

definition execute ::
  "env \<Rightarrow> command_context \<Rightarrow> payment_execute option \<Rightarrow> 'z payment_db_scheme
     \<Rightarrow> payment_view res \<times> 'z payment_db_scheme" where
  "execute env ctx body s =
     (case validate ctx of Inl e \<Rightarrow> (Inl e, s)
      | Inr expectedVersion \<Rightarrow>
          (case execute_digest env ctx body of Inl e \<Rightarrow> (Inl e, s)
           | Inr requestDigest \<Rightarrow> rethrow execution_problem
               (transaction (committed (execute_tx env ctx body expectedVersion requestDigest)) s)))"

section \<open>Reversal\<close>

fun json_put :: "str \<Rightarrow> json \<Rightarrow> (str \<times> json) list \<Rightarrow> (str \<times> json) list" where
  "json_put k v [] = [(k, v)]"
| "json_put k v ((j, w) # es) = (if j = k then (k, v) # es else (j, w) # json_put k v es)"

definition reverse_digest :: "env \<Rightarrow> command_context \<Rightarrow> payment_reverse \<Rightarrow> str \<Rightarrow> str res" where
  "reverse_digest env ctx body reason = commandDigest env ''reversePayment'' (JObject [
     (''actorUserId'', JString (cx_actorUserId ctx)),
     (''paymentId'', JString (cx_paymentId ctx)),
     (''ifMatch'', JString (cx_ifMatch ctx)),
     (''body'', JObject (json_put ''reason'' (JString reason) (rv_body body)))])"

definition REVERSAL_BLOCKED_ACCOUNTING_STATES :: "str list" where
  "REVERSAL_BLOCKED_ACCOUNTING_STATES =
     [''QUEUED'', ''SENDING'', ''SENDING_UNKNOWN'', ''ACCEPTED'']"

definition reversible :: "payment_document_row \<Rightarrow> bool" where
  "reversible d \<longleftrightarrow> pd_reversedPaymentId d = None
     \<and> pd_state d \<in> {''EXECUTED'', ''ACCOUNTING_READY'', ''ACCOUNTING_POSTED''}
     \<and> pd_accountingState d \<notin> set REVERSAL_BLOCKED_ACCOUNTING_STATES"

definition reversal_conflicts :: "locked_payment \<Rightarrow> uuid list" where
  "reversal_conflicts payment = pd_creatorUserId (lk_document payment)
     # option_list (pd_executedByUserId (lk_document payment)) @ lk_approverUserIds payment"

text \<open>The checks of a fresh reversal; the result is the movements to reverse.\<close>

definition reversal_guards ::
  "env \<Rightarrow> command_context \<Rightarrow> payment_reverse \<Rightarrow> int \<Rightarrow> locked_payment
     \<Rightarrow> ('z payment_db_scheme, execution_effect_row list) tx" where
  "reversal_guards env ctx body expectedVersion original =
     (let d = lk_document original in
      tx_then (tx_guard (pd_version d = expectedVersion) (Message ''STALE_VERSION''))
      (tx_then (tx_guard (reversible d) (Message ''REVERSAL_BLOCKED''))
      (tx_then (tx_guard (cx_actorUserId ctx \<notin> set (reversal_conflicts original))
        (Message ''SCOPE_DENIED''))
      (tx_then (consumeProof env ctx)
      (tx_bind (tx_read (\<lambda>s. effects s (cx_organizationId ctx) (cx_paymentId ctx))) (\<lambda>originalEffects.
      (tx_then (tx_guard (\<not> (\<exists>e \<in> set originalEffects.
          pf_instructionState e \<in> {Some ''CONFIRMED'', Some ''RETURNED''}))
        (Message ''REVERSAL_BLOCKED''))
      (let movements = filter (\<lambda>e. pe_movementFactId e \<noteq> None) (map pf_effect originalEffects) in
      tx_then (tx_guard (length movements = length (lk_lines original)) (Message ''REVERSAL_BLOCKED''))
      (tx_then (checkReversalSources original (rv_businessDate body))
        (tx_return movements))))))))))"

definition reversal_movement ::
  "command_context \<Rightarrow> str \<Rightarrow> uuid \<Rightarrow> uuid \<Rightarrow> execution_effect_row \<Rightarrow> uuid \<Rightarrow> payment_line_row
     \<Rightarrow> movement_fact_command" where
  "reversal_movement ctx businessDate reversalPaymentId reversalLineId e factId line = \<lparr>
     mv_organizationId = cx_organizationId ctx,
     mv_owner = Some ''domain.payments'',
     mv_sourceType = Some ''Payment'',
     mv_sourceId = reversalPaymentId,
     mv_sourceLineId = Some reversalLineId,
     mv_effectKey = line_effect_key reversalPaymentId reversalLineId ''reversal'',
     mv_endpointType = (if pe_effectType e = ''CASHBOX_MOVEMENT'' then ''CASHBOX'' else ''BANK_ACCOUNT''),
     mv_endpointId = text_or_empty (coalesce (pl_cashboxId line) (pl_bankAccountId line)),
     mv_amount = pe_amount e,
     mv_currency = pe_currency e,
     mv_businessDate = businessDate,
     mv_reversalOfFactId = Some factId,
     mv_direction = Some ''CREDIT'',
     mv_state = Some ''POSTED''\<rparr>"

definition reversal_effect_input ::
  "command_context \<Rightarrow> str \<Rightarrow> uuid \<Rightarrow> str \<Rightarrow> execution_effect_row \<Rightarrow> uuid \<Rightarrow> effect_input" where
  "reversal_effect_input ctx businessDate reversalLineId effectKey e movementFactId = \<lparr>
     fi_organizationId = cx_organizationId ctx,
     fi_paymentLineId = reversalLineId,
     fi_effectKey = effectKey,
     fi_effectType = pe_effectType e,
     fi_direction = ''REVERSAL'',
     fi_amount = pe_amount e,
     fi_currency = pe_currency e,
     fi_businessDate = businessDate,
     fi_sourceVersion = 1,
     fi_movementFactId = Some movementFactId,
     fi_bankInstructionId = None,
     fi_issuedChequeId = None,
     fi_reversalOfEffectId = Some (pe_id e)\<rparr>"

definition reversal_effect_json ::
  "uuid \<Rightarrow> uuid \<Rightarrow> str \<Rightarrow> execution_effect_row \<Rightarrow> uuid \<Rightarrow> str \<Rightarrow> json" where
  "reversal_effect_json paymentEffectId reversalLineId effectKey e movementFactId businessDate = JObject [
     (''paymentEffectId'', JString paymentEffectId),
     (''paymentLineId'', JString reversalLineId),
     (''effectKey'', JString effectKey),
     (''effectType'', JString (pe_effectType e)),
     (''effectId'', JString movementFactId),
     (''direction'', JString ''REVERSAL''),
     (''money'', JObject [(''amount'', JString (pe_amount e)), (''currency'', JString (pe_currency e))]),
     (''businessDate'', JString businessDate),
     (''sourceVersion'', JNumber 1),
     (''reversalOfEffectId'', JString (pe_id e))]"

text \<open>
  One movement of the original reversed. The lookup of the reversal line and the movement
  identifier are the guards of the source; the line itself always exists there.
\<close>

definition reverseEffect ::
  "env \<Rightarrow> command_context \<Rightarrow> str \<Rightarrow> locked_payment \<Rightarrow> uuid \<Rightarrow> (uuid \<times> uuid) list
     \<Rightarrow> execution_effect_row \<Rightarrow> ('z payment_db_scheme, json) tx" where
  "reverseEffect env ctx businessDate original reversalPaymentId lineIds e =
     (case (map_of lineIds (pe_paymentLineId e), pe_movementFactId e) of
        (Some reversalLineId, Some factId) \<Rightarrow>
          (case find (\<lambda>l. pl_id l = pe_paymentLineId e) (map kl_line (lk_lines original)) of
             None \<Rightarrow> tx_throw (JsFault ''Cannot read properties of undefined'')
           | Some line \<Rightarrow>
               (let command = reversal_movement ctx businessDate reversalPaymentId reversalLineId e
                      factId line in
                tx_bind (appendMovement env command) (\<lambda>movementFactId.
                tx_bind (appendEffect env (reversal_effect_input ctx businessDate reversalLineId
                    (mv_effectKey command) e movementFactId)) (\<lambda>paymentEffectId.
                tx_return (reversal_effect_json paymentEffectId reversalLineId (mv_effectKey command)
                    e movementFactId businessDate)))))
      | _ \<Rightarrow> tx_throw (Message ''REVERSAL_BLOCKED''))"

definition reversed_event ::
  "command_context \<Rightarrow> str \<Rightarrow> int \<Rightarrow> uuid \<Rightarrow> json list \<Rightarrow> outbox_input" where
  "reversed_event ctx businessDate sourceVersion reversalPaymentId effs = \<lparr>
     oi_organizationId = cx_organizationId ctx,
     oi_aggregateType = Some ''Payment'',
     oi_aggregateId = cx_paymentId ctx,
     oi_aggregateVersion = sourceVersion,
     oi_eventType = ''treasury.payment.reversed.v1'',
     oi_payload = JObject [
       (''sourceType'', JString ''Payment''),
       (''sourceId'', JString (cx_paymentId ctx)),
       (''sourceVersion'', JNumber sourceVersion),
       (''businessDate'', JString businessDate),
       (''reversalPaymentId'', JString reversalPaymentId),
       (''reversalPaymentVersion'', JNumber 1),
       (''effects'', JArray effs)]\<rparr>"

definition reversal_writes ::
  "env \<Rightarrow> command_context \<Rightarrow> payment_reverse \<Rightarrow> str \<Rightarrow> int \<Rightarrow> locked_payment
     \<Rightarrow> execution_effect_row list \<Rightarrow> ('z payment_db_scheme, uuid) tx" where
  "reversal_writes env ctx body reason expectedVersion original movements =
     tx_bind (newDate env) (\<lambda>moment.
     tx_bind (nextPaymentNumber (cx_organizationId ctx) (rv_businessDate body)) (\<lambda>businessNumber.
     tx_bind (createReversal env \<lparr>
       ri_original = original,
       ri_actorUserId = cx_actorUserId ctx,
       ri_businessDate = rv_businessDate body,
       ri_businessNumber = businessNumber,
       ri_reason = reason,
       ri_executedAt = moment\<rparr>) (\<lambda>reversal.
     tx_then (completeReversal (cx_organizationId ctx) (cx_paymentId ctx) (fst reversal)
       (expectedVersion + 1) moment)
     (tx_bind (tx_map (reverseEffect env ctx (rv_businessDate body) original (fst reversal)
       (snd reversal)) movements) (\<lambda>effs.
     (tx_then (appendAudit env (payment_audit ctx ''PAYMENT_REVERSED'' (Some reason)))
     (tx_then (appendOutbox env (reversed_event ctx (rv_businessDate body) (expectedVersion + 1)
       (fst reversal) effs))
       (tx_return (fst reversal)))))))))"

definition read_view :: "uuid \<Rightarrow> uuid \<Rightarrow> ('z payment_db_scheme, payment_view) tx" where
  "read_view org paymentId = tx_bind (tx_read (\<lambda>s. paymentView s org paymentId)) (\<lambda>view.
     case view of None \<Rightarrow> tx_throw (Message ''IDEMPOTENCY_CONFLICT'') | Some v \<Rightarrow> tx_return v)"

definition reverse_fresh ::
  "env \<Rightarrow> command_context \<Rightarrow> payment_reverse \<Rightarrow> str \<Rightarrow> int \<Rightarrow> locked_payment
     \<Rightarrow> ('z payment_db_scheme, payment_reversal_result) tx" where
  "reverse_fresh env ctx body reason expectedVersion original =
     tx_bind (reversal_guards env ctx body expectedVersion original) (\<lambda>movements.
     tx_bind (reversal_writes env ctx body reason expectedVersion original movements) (\<lambda>reversalId.
     tx_bind (read_view (cx_organizationId ctx) (cx_paymentId ctx)) (\<lambda>originalView.
     tx_bind (read_view (cx_organizationId ctx) reversalId) (\<lambda>reversalView.
       tx_return \<lparr>rr_original = originalView, rr_reversal = reversalView\<rparr>))))"

definition replay_reversal ::
  "command_context \<Rightarrow> response replay \<Rightarrow> str \<Rightarrow> ('z payment_db_scheme, payment_reversal_result) tx" where
  "replay_reversal ctx replay requestDigest =
     tx_bind (replay_payment replay requestDigest) (\<lambda>view.
       (case vw_reversedPaymentId view of
          None \<Rightarrow> tx_throw (Message ''IDEMPOTENCY_CONFLICT'')
        | Some reversalId \<Rightarrow> tx_bind (read_view (cx_organizationId ctx) reversalId) (\<lambda>reversal.
            tx_return \<lparr>rr_original = view, rr_reversal = reversal\<rparr>)))"

definition reverse_tx ::
  "env \<Rightarrow> command_context \<Rightarrow> payment_reverse \<Rightarrow> str \<Rightarrow> int \<Rightarrow> str
     \<Rightarrow> ('z payment_db_scheme, payment_reversal_result) tx" where
  "reverse_tx env ctx body reason expectedVersion requestDigest =
     (let k = execution_scope ''reversePayment'' ctx in
      tx_then (acquireIdempotencyLock k)
      (tx_bind (tx_read (findIdempotency k)) (\<lambda>replay.
      (tx_bind (tx_read (\<lambda>s. lockPayment s (cx_organizationId ctx) (cx_paymentId ctx))) (\<lambda>locked.
      (case locked of
         None \<Rightarrow> tx_throw (Message ''RESOURCE_HIDDEN'')
       | Some original \<Rightarrow>
           tx_then (assertAuthorized env ctx original ''payment.reverse'')
           (case replay of
              Some r \<Rightarrow> replay_reversal ctx r requestDigest
            | None \<Rightarrow>
                tx_then (insertIdempotency env k requestDigest)
                (tx_bind (reverse_fresh env ctx body reason expectedVersion original) (\<lambda>result.
                tx_then (saveIdempotency k (PaymentResponse (rr_original result)) 201)
                  (tx_return result))))))))))"

definition reverse ::
  "env \<Rightarrow> command_context \<Rightarrow> payment_reverse \<Rightarrow> 'z payment_db_scheme
     \<Rightarrow> payment_reversal_result res \<times> 'z payment_db_scheme" where
  "reverse env ctx body s =
     (case validate ctx of Inl e \<Rightarrow> (Inl e, s)
      | Inr expectedVersion \<Rightarrow>
          (let reason = trim (rv_reason body) in
           if reason = [] then (Inl (validation ''reason is required.''), s)
           else (case reverse_digest env ctx body reason of Inl e \<Rightarrow> (Inl e, s)
             | Inr requestDigest \<Rightarrow> rethrow execution_problem
                 (transaction (committed (reverse_tx env ctx body reason expectedVersion requestDigest)) s))))"

end
