(* ===== verification/Execution_Facts.thy ===== *)
theory Execution_Facts
  imports Payment_Execution
begin

text \<open>
  The library behind the properties of execution and reversal: what the checks leave
  unchanged, what a successful run has checked, and what its writes append.
\<close>

section \<open>What the checks leave unchanged\<close>

text \<open>
  \<open>core\<close> forgets the parts of the database the checks touch: the streams and locks of the
  world, the step-up proofs, the idempotency records. Every reader the handlers use sees only
  the rest.
\<close>

definition core :: "'z payment_db_scheme \<Rightarrow> 'z payment_db_scheme" where
  "core s = s\<lparr>uuids_drawn := 0, clock_reads := 0, advisory_locks := [],
     t_authStepUpProofs := [], t_idempotencyRecords := []\<rparr>"

lemma core_reads [simp]:
  "t_paymentDocuments (core s) = t_paymentDocuments s"
  "t_paymentLines (core s) = t_paymentLines s"
  "t_paymentAllocations (core s) = t_paymentAllocations s"
  "t_paymentReservations (core s) = t_paymentReservations s"
  "t_paymentApprovalActions (core s) = t_paymentApprovalActions s"
  "t_paymentApprovalSnapshots (core s) = t_paymentApprovalSnapshots s"
  "t_paymentApprovalSnapshotSteps (core s) = t_paymentApprovalSnapshotSteps s"
  "t_paymentExecutionEffects (core s) = t_paymentExecutionEffects s"
  "t_bankInstructions (core s) = t_bankInstructions s"
  "t_movementFacts (core s) = t_movementFacts s"
  "t_auditEvents (core s) = t_auditEvents s"
  "t_outboxEvents (core s) = t_outboxEvents s"
  "t_cashboxes (core s) = t_cashboxes s"
  "t_cashboxCurrencyControls (core s) = t_cashboxCurrencyControls s"
  "t_cashboxDays (core s) = t_cashboxDays s"
  "t_bankAccounts (core s) = t_bankAccounts s"
  "t_treasuryUnits (core s) = t_treasuryUnits s"
  "t_methodDefinitions (core s) = t_methodDefinitions s"
  "t_organizations (core s) = t_organizations s"
  "t_branches (core s) = t_branches s"
  "t_parties (core s) = t_parties s"
  "t_currencies (core s) = t_currencies s"
  "t_exchangeRates (core s) = t_exchangeRates s"
  "t_attachments (core s) = t_attachments s"
  "t_paymentRequests (core s) = t_paymentRequests s"
  "t_paymentLineAttachmentLinks (core s) = t_paymentLineAttachmentLinks s"
  "t_roles (core s) = t_roles s"
  "t_rolePermissions (core s) = t_rolePermissions s"
  "t_userRefs (core s) = t_userRefs s"
  "t_identityAccounts (core s) = t_identityAccounts s"
  "t_accessGrants (core s) = t_accessGrants s"
  "t_delegations (core s) = t_delegations s"
  "t_accessGrantBranchScopes (core s) = t_accessGrantBranchScopes s"
  "t_accessGrantTreasuryUnitScopes (core s) = t_accessGrantTreasuryUnitScopes s"
  "t_accessGrantCashboxScopes (core s) = t_accessGrantCashboxScopes s"
  "t_accessGrantBankAccountScopes (core s) = t_accessGrantBankAccountScopes s"
  "t_accessGrantDocumentTypeScopes (core s) = t_accessGrantDocumentTypeScopes s"
  "t_accessGrantMethodCategoryScopes (core s) = t_accessGrantMethodCategoryScopes s"
  "t_accessGrantCurrencyScopes (core s) = t_accessGrantCurrencyScopes s"
  by (simp_all add: core_def)

lemma core_eq:
  assumes "core s' = core s"
  shows "t_paymentDocuments s' = t_paymentDocuments s"
    and "t_paymentLines s' = t_paymentLines s"
    and "t_paymentAllocations s' = t_paymentAllocations s"
    and "t_paymentReservations s' = t_paymentReservations s"
    and "t_paymentExecutionEffects s' = t_paymentExecutionEffects s"
    and "t_bankInstructions s' = t_bankInstructions s"
    and "t_movementFacts s' = t_movementFacts s"
    and "t_auditEvents s' = t_auditEvents s"
    and "t_outboxEvents s' = t_outboxEvents s"
  using assms by (metis core_reads)+

lemma core_reader: "(\<And>t. f (core t) = f t) \<Longrightarrow> core s' = core s \<Longrightarrow> f s' = f s"
  by metis

lemma core_lockPayment: "lockPayment (core s) org i = lockPayment s org i"
  by (simp add: lockPayment_def locked_lines_def approver_ids_def find_document_def cong: option.case_cong)

lemma core_allocation_ok: "allocation_ok (core s) org a = allocation_ok s org a"
  by (simp add: allocation_ok_def siblingAllocations_def)

lemma core_override: "overrideApprovalValid (core s) org p i r u c = overrideApprovalValid s org p i r u c"
  by (simp add: overrideApprovalValid_def cong: option.case_cong)

lemma core_position: "position_units e (core s) = position_units e s"
  by (simp add: position_units_def)

lemma core_reserved: "reserved_units e i (core s) = reserved_units e i s"
  by (simp add: reserved_units_def reserved_amounts_def)

lemma core_balance: "balance_text e (core s) = balance_text e s"
  by (simp add: balance_text_def core_position)

lemma core_cashbox_payable: "cashbox_payable (core s) org c y b i a = cashbox_payable s org c y b i a"
  by (simp add: cashbox_payable_def find_cashbox_def find_control_def day_closed_def latest_day_def
    core_reserved core_balance cong: option.case_cong if_cong)

lemma core_bank_payable: "bank_payable (core s) org c y b i a = bank_payable s org c y b i a"
  by (simp add: bank_payable_def core_reserved core_balance cong: option.case_cong if_cong)

lemma core_access: "access_part (core s) = access_part s"
  by (simp add: access_part_def)

lemma core_permission:
  "hasOrganizationPermission env (core s) org u p = hasOrganizationPermission env s org u p"
  by (simp only: access_part_permissions [OF core_access])

lemma core_canOperate:
  "canOperatePayment env (core s) org actor ctx permission = canOperatePayment env s org actor ctx permission"
  by (simp only: access_part_permissions [OF core_access])

lemma core_effects: "effects (core s) org i = effects s org i"
  by (simp add: effects_def cong: option.case_cong)

lemma core_cashbox_receivable: "cashbox_receivable (core s) org c y b = cashbox_receivable s org c y b"
  by (simp add: cashbox_receivable_def find_cashbox_def find_control_def day_closed_def latest_day_def
    cong: option.case_cong if_cong)

lemma core_bank_receivable: "bank_receivable (core s) org b y = bank_receivable s org b y"
  by (simp add: bank_receivable_def)

lemma core_labels:
  "party_label (core s) = party_label s" "branch_label (core s) = branch_label s"
  "unit_label (core s) = unit_label s" "user_label (core s) = user_label s"
  "currency_label (core s) = currency_label s" "organization_label (core s) = organization_label s"
  by (simp_all add: fun_eq_iff party_label_def branch_label_def unit_label_def user_label_def
    currency_label_def organization_label_def)

lemma core_effect_view: "effect_view (core s) = effect_view s"
  by (rule ext) (simp add: effect_view_def Let_def cong: option.case_cong)

lemma core_lineView: "lineView (core s) l b = lineView s l b"
  by (simp add: lineView_def core_labels lineEvidence_def evidence_ref_of_def core_effect_view Let_def
    cong: option.case_cong)

lemma core_paymentView: "paymentView (core s) org i = paymentView s org i"
  by (simp add: paymentView_def find_document_def core_labels document_view_def lineViews_def
    core_lineView Let_def cong: option.case_cong)

section \<open>The frames of the checks\<close>

text \<open>
  A part of the database the checks leave unchanged is one that ignores the clock and the
  step-up proofs.
\<close>

definition ignores_checks :: "('z payment_db_scheme \<Rightarrow> 'b) \<Rightarrow> bool" where
  "ignores_checks f \<longleftrightarrow> (\<forall>s n. f (s\<lparr>clock_reads := n\<rparr>) = f s)
     \<and> (\<forall>s ps. f (s\<lparr>t_authStepUpProofs := ps\<rparr>) = f s)"

lemma ignores_core [tx_frame]: "ignores_checks core"
  by (simp add: ignores_checks_def core_def)

lemma ignores_idempotency [tx_frame]: "ignores_checks t_idempotencyRecords"
  by (simp add: ignores_checks_def)

lemma keeps_newDate [tx_frame]: "ignores_checks f \<Longrightarrow> tx_keeps f (newDate env)"
  by (auto simp: tx_keeps_def newDate_Inr ignores_checks_def)

lemma keeps_consumeStepUpProof [tx_frame]: "ignores_checks f \<Longrightarrow> tx_keeps f (consumeStepUpProof env input)"
proof (rule tx_keepsI)
  fix s s' :: "'a payment_db_scheme" and a
  assume "ignores_checks f" and "consumeStepUpProof env input s = Inr (a, s')"
  then have "s' = s\<lparr>t_authStepUpProofs := t_authStepUpProofs s'\<rparr>"
    by (auto simp: consumeStepUpProof_def)
  then show "f s' = f s" using \<open>ignores_checks f\<close> unfolding ignores_checks_def by metis
qed

lemma keeps_acquire [tx_frame]: "tx_keeps core (acquireIdempotencyLock k)"
  by (auto simp: tx_keeps_def acquireIdempotencyLock_Inr core_def)

lemma keeps_insertIdempotency [tx_frame]: "tx_keeps core (insertIdempotency env k d)"
  by (auto simp: tx_keeps_def insertIdempotency_Inr Let_def core_def)

lemma keeps_saveIdempotency [tx_frame]: "tx_keeps core (saveIdempotency k r st)"
  by (auto simp: tx_keeps_def saveIdempotency_Inr core_def)

lemma keeps_assertAuthorized [tx_frame]: "tx_keeps f (assertAuthorized env ctx payment permission)"
  unfolding assertAuthorized_def Let_def by (intro tx_frame)

lemma keeps_consumeProof [tx_frame]: "ignores_checks f \<Longrightarrow> tx_keeps f (consumeProof env ctx)"
  unfolding consumeProof_def Let_def by ((intro tx_frame | assumption)+)

lemma keeps_exactTotal [tx_frame]: "tx_keeps f (exactTotal payment)"
  unfolding exactTotal_def Let_def by (intro tx_frame)

lemma keeps_separation [tx_frame]: "ignores_checks f \<Longrightarrow> tx_keeps f (separation env ctx payment body)"
  unfolding separation_def Let_def by ((intro tx_frame | assumption)+)

lemma keeps_allocations [tx_frame]: "tx_keeps f (allocations payment)"
  unfolding allocations_def Let_def by (intro tx_frame)

lemma keeps_check_reservations [tx_frame]:
  "ignores_checks f \<Longrightarrow> tx_keeps f (check_reservations env totals vs)"
  by (induction env totals vs rule: check_reservations.induct)
     (simp_all only: check_reservations.simps Let_def, (intro tx_frame | blast)+)

lemma keeps_reservations [tx_frame]: "ignores_checks f \<Longrightarrow> tx_keeps f (reservations env payment)"
  unfolding reservations_def Let_def by ((intro tx_frame | assumption)+)

lemma keeps_check_source [tx_frame]: "tx_keeps f (check_source payment entry)"
  unfolding check_source_def Let_def by (intro tx_frame)

lemma keeps_checkSources [tx_frame]: "tx_keeps f (checkSources payment)"
  unfolding checkSources_def Let_def by (intro tx_frame)

lemma keeps_check_reversal_source [tx_frame]: "tx_keeps f (check_reversal_source payment b l)"
  unfolding check_reversal_source_def Let_def by (intro tx_frame)

lemma keeps_checkReversalSources [tx_frame]: "tx_keeps f (checkReversalSources payment b)"
  unfolding checkReversalSources_def Let_def by (intro tx_frame)

lemma keeps_execution_guards [tx_frame]: "ignores_checks f \<Longrightarrow> tx_keeps f (execution_guards env ctx body v payment)"
  unfolding execution_guards_def Let_def by ((intro tx_frame | assumption)+)

lemma keeps_reversal_guards [tx_frame]: "ignores_checks f \<Longrightarrow> tx_keeps f (reversal_guards env ctx body v original)"
  unfolding reversal_guards_def Let_def by ((intro tx_frame | assumption)+)

section \<open>What a run has checked\<close>

lemma execution_guards_Inr:
  assumes "execution_guards env ctx body v payment s = Inr (ids, s')"
  shows "pd_version (lk_document payment) = v"
    and "pd_state (lk_document payment) = ''APPROVED''"
    and "pd_currentApprovalSnapshotId (lk_document payment) \<noteq> None"
    and "lk_lines payment \<noteq> []"
    and "\<forall>l \<in> set (lk_lines payment). kl_methodState l = ''ACTIVE''"
    and "sum_list (map (decimal8 \<circ> pl_baseAmount \<circ> kl_line) (lk_lines payment))
      = decimal8 (pd_totalBaseAmount (lk_document payment))"
    and "\<exists>t t'. core t = core s \<and> separation env ctx payment body t = Inr ((), t')"
    and "\<exists>t t'. core t = core s \<and> allocations payment t = Inr ((), t')"
    and "\<exists>t t'. core t = core s \<and> reservations env payment t = Inr (ids, t')"
    and "\<exists>t t'. core t = core s \<and> checkSources payment t = Inr ((), t')"
proof -
  obtain s1 s2 s3 where pure:
      "pd_version (lk_document payment) = v" "pd_state (lk_document payment) = ''APPROVED''"
      "pd_currentApprovalSnapshotId (lk_document payment) \<noteq> None" "lk_lines payment \<noteq> []"
      "list_all (\<lambda>l. kl_methodState l = ''ACTIVE'') (lk_lines payment)"
      "exactTotal payment s = Inr ((), s)"
    and 1: "separation env ctx payment body s = Inr ((), s1)"
    and 2: "allocations payment s1 = Inr ((), s2)"
    and 3: "reservations env payment s2 = Inr (ids, s3)"
    and 4: "checkSources payment s3 = Inr ((), s')"
    using assms unfolding execution_guards_def Let_def
    by (auto simp: tx_then_Inr tx_bind_Inr tx_guard_Inr tx_return_Inr exactTotal_def)
  have f: "core s1 = core s" "core s2 = core s" "core s3 = core s"
    using tx_keepsD [OF keeps_separation [OF ignores_core] 1]
      tx_keepsD [OF keeps_allocations 2, of core] tx_keepsD [OF keeps_reservations [OF ignores_core] 3] by simp_all
  show "pd_version (lk_document payment) = v" "pd_state (lk_document payment) = ''APPROVED''"
    "pd_currentApprovalSnapshotId (lk_document payment) \<noteq> None" "lk_lines payment \<noteq> []"
    by (rule pure)+
  show "\<forall>l \<in> set (lk_lines payment). kl_methodState l = ''ACTIVE''"
    using pure by (simp add: list_all_iff)
  show "sum_list (map (decimal8 \<circ> pl_baseAmount \<circ> kl_line) (lk_lines payment))
      = decimal8 (pd_totalBaseAmount (lk_document payment))"
    using pure by (simp add: exactTotal_def tx_guard_Inr)
  show "\<exists>t t'. core t = core s \<and> separation env ctx payment body t = Inr ((), t')"
    "\<exists>t t'. core t = core s \<and> allocations payment t = Inr ((), t')"
    "\<exists>t t'. core t = core s \<and> reservations env payment t = Inr (ids, t')"
    "\<exists>t t'. core t = core s \<and> checkSources payment t = Inr ((), t')"
    using f 1 2 3 4 by blast+
qed

text \<open>
  The separation check passes when the actor is neither creator nor approver, or on an
  override: the permission is held and an independent approval supports it.
\<close>

definition separation_holds ::
  "env \<Rightarrow> 'z payment_db_scheme \<Rightarrow> command_context \<Rightarrow> locked_payment \<Rightarrow> payment_execute option \<Rightarrow> bool" where
  "separation_holds env s ctx payment body \<longleftrightarrow>
     cx_actorUserId ctx \<notin> insert (pd_creatorUserId (lk_document payment))
       (set (lk_approverUserIds payment))
     \<or> (\<exists>b. body = Some b
        \<and> hasOrganizationPermission env s (cx_organizationId ctx) (cx_actorUserId ctx)
            ''separation.override''
        \<and> cx_stepUp ctx \<noteq> None
        \<and> (\<exists>a \<in> set (t_paymentApprovalActions s).
             pc_organizationId a = cx_organizationId ctx
             \<and> pc_id a = so_independentApprovalActionId (ex_separationOverride b)
             \<and> pc_action a = ''APPROVED'' \<and> pc_actorUserId a \<noteq> cx_actorUserId ctx
             \<and> Some (pc_approvalSnapshotId a) = pd_currentApprovalSnapshotId (lk_document payment)
             \<and> map_option trim (pc_reason a) = Some (trim (so_reason (ex_separationOverride b)))))"

lemma override_VALID:
  assumes "overrideApprovalValid s org payment i r u c = VALID"
  shows "\<exists>a \<in> set (t_paymentApprovalActions s). pc_organizationId a = org \<and> pc_id a = i
    \<and> pc_action a = ''APPROVED'' \<and> pc_actorUserId a \<noteq> u
    \<and> Some (pc_approvalSnapshotId a) = pd_currentApprovalSnapshotId (lk_document payment)
    \<and> map_option trim (pc_reason a) = Some (trim r)"
proof -
  obtain a where "find (\<lambda>a. pc_organizationId a = org \<and> pc_id a = i) (t_paymentApprovalActions s)
      = Some a"
    using assms by (auto simp: overrideApprovalValid_def split: option.splits)
  then show ?thesis
    using assms find_SomeD
    by (fastforce simp: overrideApprovalValid_def split: option.splits if_splits)
qed

lemma separation_Inr:
  assumes "separation env ctx payment body s = Inr (u, s')"
  shows "separation_holds env s ctx payment body"
proof (cases "separation_conflicts ctx payment = []")
  case True
  then have "\<forall>i \<in> insert (pd_creatorUserId (lk_document payment)) (set (lk_approverUserIds payment)).
      i \<noteq> cx_actorUserId ctx"
    unfolding separation_conflicts_def filter_empty_conv by simp
  then show ?thesis by (auto simp: separation_holds_def)
next
  case False
  then obtain b where b: "body = Some b"
    using assms by (cases body) (simp_all add: separation_def)
  let ?o = "ex_separationOverride b"
  obtain s1 where perm: "hasOrganizationPermission env s (cx_organizationId ctx) (cx_actorUserId ctx)
        ''separation.override''"
    and used: "consumeProof env ctx s = Inr ((), s1)"
    and valid: "overrideApprovalValid s1 (cx_organizationId ctx) payment
      (so_independentApprovalActionId ?o) (so_reason ?o) (cx_actorUserId ctx)
      (separation_conflicts ctx payment) = VALID"
    using assms False b
    by (auto simp: separation_def Let_def tx_then_Inr tx_bind_Inr tx_guard_Inr tx_read_Inr)
  have "core s1 = core s" by (rule tx_keepsD [OF keeps_consumeProof [OF ignores_core] used])
  then have "overrideApprovalValid s (cx_organizationId ctx) payment
      (so_independentApprovalActionId ?o) (so_reason ?o) (cx_actorUserId ctx)
      (separation_conflicts ctx payment) = VALID"
    using valid by (metis core_override)
  moreover have "cx_stepUp ctx \<noteq> None"
    using used by (auto simp: consumeProof_def split: option.splits)
  ultimately show ?thesis
    using perm b override_VALID unfolding separation_holds_def by blast
qed

lemma allocations_Inr:
  assumes "allocations payment s = Inr (u, s')" and "a \<in> set (lk_allocations payment)"
  shows "allocation_ok s (pd_organizationId (lk_document payment)) a"
proof -
  let ?step = "\<lambda>a. tx_bind (tx_read (\<lambda>s. allocation_ok s (pd_organizationId (lk_document payment)) a))
    (\<lambda>ok. tx_guard ok (Message ''ALLOCATION_INVALID''))"
  have "\<exists>t v t'. ?step a t = Inr (v, t') \<and> id t = id s"
    using assms unfolding allocations_def
    by (intro tx_for_Inr_each [where k = ?step]) (auto intro: tx_frame)
  then show ?thesis by (auto simp: tx_inv)
qed

section \<open>The amount each source pays\<close>

definition source_sum :: "source_key \<Rightarrow> payment_line_row list \<Rightarrow> int" where
  "source_sum k ls = sum_list (map (decimal8 \<circ> pl_amount) (filter (\<lambda>l. line_source l = Some k) ls))"

definition amount_of :: "(source_key \<times> int) list \<Rightarrow> source_key \<Rightarrow> int" where
  "amount_of totals k = (case map_of totals k of None \<Rightarrow> 0 | Some v \<Rightarrow> v)"

lemma source_sum_Nil [simp]: "source_sum k [] = 0"
  by (simp add: source_sum_def)

lemma source_sum_Cons [simp]:
  "source_sum k (l # ls) = (if line_source l = Some k then decimal8 (pl_amount l) else 0) + source_sum k ls"
  by (simp add: source_sum_def)

lemma map_of_bump: "map_of (bump_total k v totals) = (map_of totals)(k \<mapsto> amount_of totals k + v)"
  by (induction k v totals rule: bump_total.induct) (auto simp: amount_of_def)

lemma source_totals_Inr:
  assumes "source_totals ls totals = Inr r"
  shows "amount_of r k = amount_of totals k + source_sum k ls"
    and "map_of r k = None \<longleftrightarrow> map_of totals k = None \<and> (\<forall>l \<in> set ls. line_source l \<noteq> Some k)"
  using assms
proof (induction ls totals rule: source_totals.induct)
  case (1 totals)
  { case 1 then show ?case by simp }
  { case 2 then show ?case by simp }
next
  case (2 l ls totals)
  { case 1
    then obtain j where j: "line_source l = Some j" by (auto split: option.splits)
    have "amount_of r k = amount_of (bump_total j (decimal8 (pl_amount l)) totals) k + source_sum k ls"
      using 1 j 2(1) [OF j] by simp
    then show ?case using j by (simp add: amount_of_def map_of_bump) }
  { case 2
    then obtain j where j: "line_source l = Some j" by (auto split: option.splits)
    have "map_of r k = None \<longleftrightarrow> map_of (bump_total j (decimal8 (pl_amount l)) totals) k = None
        \<and> (\<forall>l \<in> set ls. line_source l \<noteq> Some k)"
      using 2 j "2.IH"(2) [OF j] by simp
    then show ?case using j by (auto simp: map_of_bump) }
qed

lemma sourceTotals_line:
  assumes "sourceTotals payment = Inr totals" and "l \<in> set (map kl_line (lk_lines payment))"
    and "line_source l = Some k"
  shows "(k, source_sum k (map kl_line (lk_lines payment))) \<in> set totals"
proof -
  let ?ls = "map kl_line (lk_lines payment)"
  have r: "source_totals ?ls [] = Inr totals" using assms(1) by (simp add: sourceTotals_def)
  then have "map_of totals k \<noteq> None" using source_totals_Inr(2) [OF r, of k] assms(2,3) by auto
  then obtain t where t: "map_of totals k = Some t" by auto
  then have "t = source_sum k ?ls"
    using source_totals_Inr(1) [OF r, of k] by (simp add: amount_of_def)
  then show ?thesis using t map_of_SomeD by fastforce
qed

definition source_pays :: "'z payment_db_scheme \<Rightarrow> locked_payment \<Rightarrow> source_key \<Rightarrow> int \<Rightarrow> bool" where
  "source_pays s payment k amount =
     (case k of (sourceType, sourceId, currency) \<Rightarrow> (let d = lk_document payment in
        if sourceType = ''CASHBOX'' then cashbox_payable s (pd_organizationId d) sourceId currency
          (pd_businessDate d) (pd_id d) (amountString amount) = OK
        else bank_payable s (pd_organizationId d) sourceId currency
          (pd_businessDate d) (pd_id d) (amountString amount)))"

lemma core_source_pays: "source_pays (core s) payment k amount = source_pays s payment k amount"
  by (cases k) (simp add: source_pays_def core_cashbox_payable core_bank_payable)

lemma check_source_Inr:
  "check_source payment (k, amount) s = Inr (u, s') \<Longrightarrow> source_pays s payment k amount"
  by (cases k) (auto simp: check_source_def source_pays_def Let_def tx_inv split: if_splits)

lemma checkSources_Inr:
  assumes "checkSources payment s = Inr (u, s')" and "l \<in> set (map kl_line (lk_lines payment))"
    and "line_source l = Some k"
  shows "source_pays s payment k (source_sum k (map kl_line (lk_lines payment)))"
proof -
  obtain totals where totals: "sourceTotals payment = Inr totals"
    and each: "tx_for totals (check_source payment) s = Inr (u, s')"
    using assms(1) by (auto simp: checkSources_def tx_inv)
  have "\<exists>t v t'. check_source payment (k, source_sum k (map kl_line (lk_lines payment))) t = Inr (v, t')
      \<and> id t = id s"
    by (rule tx_for_Inr_each [OF each keeps_check_source sourceTotals_line [OF totals assms(2,3)]])
  then show ?thesis by (auto dest: check_source_Inr)
qed

lemma checkSources_lines:
  assumes "checkSources payment s = Inr (u, s')" and "l \<in> set (map kl_line (lk_lines payment))"
  shows "line_source l \<noteq> None"
proof -
  have "source_totals ls totals = Inr r \<Longrightarrow> l \<in> set ls \<Longrightarrow> line_source l \<noteq> None" for ls totals r
    by (induction ls totals rule: source_totals.induct) (auto split: option.splits)
  then show ?thesis using assms by (auto simp: checkSources_def sourceTotals_def tx_inv)
qed

section \<open>What the writes append\<close>

lemma appendEffect_Inr [tx_inv]:
  "appendEffect env input s = Inr (i, s') \<longleftrightarrow>
     (\<exists>amount. i = env_uuids env (uuids_drawn s) \<and> pg_numeric 8 (fi_amount input) = Inr amount
        \<and> execution_effect_check (effect_row env i amount input)
        \<and> (\<forall>r \<in> set (t_paymentExecutionEffects s).
             \<not> execution_effect_clash (effect_row env i amount input) r)
        \<and> execution_effect_refs (s\<lparr>uuids_drawn := uuids_drawn s + 1\<rparr>) (effect_row env i amount input)
        \<and> s' = s\<lparr>uuids_drawn := uuids_drawn s + 1, t_paymentExecutionEffects :=
              t_paymentExecutionEffects s @ [effect_row env i amount input]\<rparr>)"
  unfolding appendEffect_def by (auto simp: tx_inv)

lemma createInstruction_Inr [tx_inv]:
  "createInstruction env input s = Inr (u, s') \<longleftrightarrow>
     (\<exists>amount. pg_numeric 8 (bn_amount input) = Inr amount
        \<and> bank_instruction_check (instruction_row env amount input)
        \<and> (\<forall>r \<in> set (t_bankInstructions s). \<not> bank_instruction_clash (instruction_row env amount input) r)
        \<and> bank_instruction_refs s (instruction_row env amount input)
        \<and> s' = s\<lparr>t_bankInstructions := t_bankInstructions s @ [instruction_row env amount input]\<rparr>)"
  unfolding createInstruction_def by (auto simp: tx_inv)

text \<open>The movement that pays a line.\<close>

definition paid_by :: "payment_document_row \<Rightarrow> payment_line_row \<Rightarrow> movement_fact_row \<Rightarrow> bool" where
  "paid_by d l m \<longleftrightarrow>
     mf_organizationId m = pd_organizationId d \<and> mf_owner m = ''domain.payments''
     \<and> mf_sourceType m = ''Payment'' \<and> mf_sourceId m = pd_id d \<and> mf_sourceLineId m = Some (pl_id l)
     \<and> mf_endpointType m = (if pl_methodCategory l = ''CASH'' then ''CASHBOX'' else ''BANK_ACCOUNT'')
     \<and> Some (mf_endpointId m) = coalesce (pl_cashboxId l) (pl_bankAccountId l)
     \<and> Inr (mf_amount m) = pg_numeric 8 (pl_amount l) \<and> mf_currency m = pl_currency l
     \<and> mf_direction m = ''DEBIT'' \<and> mf_state m = ''POSTED''
     \<and> mf_businessDate m = pd_businessDate d \<and> mf_reversalOfFactId m = None"

definition effect_of :: "payment_document_row \<Rightarrow> int \<Rightarrow> payment_line_row \<Rightarrow> execution_effect_row \<Rightarrow> bool" where
  "effect_of d v l e \<longleftrightarrow> pe_organizationId e = pd_organizationId d \<and> pe_paymentLineId e = pl_id l
     \<and> pe_direction e = ''OUTGOING'' \<and> pe_sourceVersion e = v
     \<and> Inr (pe_amount e) = pg_numeric 8 (pl_amount l) \<and> pe_currency e = pl_currency l"

definition line_command :: "payment_document_row \<Rightarrow> payment_line_row \<Rightarrow> movement_fact_command" where
  "line_command d l = outgoing_movement d l
     (text_or_empty (coalesce (pl_cashboxId l) (pl_bankAccountId l)))
     (if pl_methodCategory l = ''CASH'' then ''CASHBOX_MOVEMENT'' else ''BANK_MOVEMENT'')"

lemma effect_type_Some:
  "effect_type c = Some t \<Longrightarrow> t = (if c = ''CASH'' then ''CASHBOX_MOVEMENT'' else ''BANK_MOVEMENT'')"
  by (simp add: effect_type_def split: if_splits)

lemma executeInstruction_writes:
  assumes "executeInstruction env d l v s = Inr (j, s')"
  shows "\<exists>b e. s' = s\<lparr>uuids_drawn := uuids_drawn s + 2,
      t_bankInstructions := t_bankInstructions s @ [b],
      t_paymentExecutionEffects := t_paymentExecutionEffects s @ [e]\<rparr>
    \<and> effect_of d v l e \<and> pe_effectType e = ''BANK_INSTRUCTION'' \<and> bi_paymentLineId b = pl_id l
    \<and> bi_state b = ''PENDING_CONFIRMATION'' \<and> pe_movementFactId e = None"
proof -
  obtain account c cs where acc: "pl_bankAccountId l = Some account"
    "pl_beneficiaryAccountReference l = Some (c # cs)"
    using assms by (auto simp: executeInstruction_def split: option.splits list.splits)
  let ?efx = "\<lambda>i. outgoing_effect_input d l v (line_effect_key (pd_id d) (pl_id l) ''instruction'')
      ''BANK_INSTRUCTION'' None (Some i)"
  obtain i s1 input s2 k where r: "randomUUID env s = Inr (i, s1)"
    and c: "createInstruction env input s1 = Inr ((), s2)"
    and e: "appendEffect env (?efx i) s2 = Inr (k, s')"
    and inp: "bn_paymentLineId input = pl_id l"
    using assms unfolding executeInstruction_def Let_def acc
    by (simp add: tx_bind_Inr tx_then_Inr del: bank_instruction_input.simps)
       (metis bank_instruction_input.select_convs(3))
  obtain amount where c': "s2 = s1\<lparr>t_bankInstructions :=
      t_bankInstructions s1 @ [instruction_row env amount input]\<rparr>"
    using c by (auto simp: createInstruction_Inr)
  obtain amount' where e': "pg_numeric 8 (pl_amount l) = Inr amount'"
    "s' = s2\<lparr>uuids_drawn := uuids_drawn s2 + 1, t_paymentExecutionEffects :=
      t_paymentExecutionEffects s2 @ [effect_row env k amount' (?efx i)]\<rparr>"
    using e by (auto simp: appendEffect_Inr outgoing_effect_input_def)
  show ?thesis
    using r c' e'
    by (intro exI [of _ "instruction_row env amount input"] exI [of _ "effect_row env k amount' (?efx i)"])
       (simp add: randomUUID_Inr inp instruction_row_def effect_row_def effect_of_def
         outgoing_effect_input_def)
qed

lemma executeLine_writes:
  assumes "executeLine env d v l s = Inr (js, s')"
  shows "\<exists>m e s1 r u bs. appendMovement env (line_command d l) s = Inr (mf_id m, s1)
    \<and> s1 = s\<lparr>uuids_drawn := uuids_drawn s + 1, t_movementFacts := t_movementFacts s @ [m]\<rparr>
    \<and> s' = s1\<lparr>uuids_drawn := u, t_bankInstructions := bs,
        t_paymentExecutionEffects := t_paymentExecutionEffects s @ e # r\<rparr>
    \<and> paid_by d l m \<and> (\<forall>x \<in> set (e # r). effect_of d v l x)
    \<and> pe_movementFactId e = Some (mf_id m)
    \<and> pe_effectType e = (if pl_methodCategory l = ''CASH'' then ''CASHBOX_MOVEMENT'' else ''BANK_MOVEMENT'')
    \<and> (\<forall>x \<in> set r. pe_effectType x = ''BANK_INSTRUCTION'' \<and> pe_movementFactId x = None)"
proof -
  obtain source effectType where src: "coalesce (pl_cashboxId l) (pl_bankAccountId l) = Some source"
    and et: "effect_type (pl_methodCategory l) = Some effectType"
    using assms by (auto simp: executeLine_def split: option.splits)
  have cmd: "outgoing_movement d l source effectType = line_command d l"
    using effect_type_Some [OF et] by (simp add: line_command_def src text_or_empty_def)
  obtain i s1 k s2 where mv: "appendMovement env (line_command d l) s = Inr (i, s1)"
    and ef: "appendEffect env (outgoing_effect_input d l v (mv_effectKey (line_command d l)) effectType
      (Some i) None) s1 = Inr (k, s2)"
    and rest: "s' = s2 \<or> (\<exists>j. executeInstruction env d l v s2 = Inr (j, s'))"
    using assms by (auto simp: executeLine_def src et cmd Let_def tx_inv split: if_splits)
  obtain amount where amount: "pg_numeric 8 (pl_amount l) = Inr amount"
    and s1: "s1 = s\<lparr>uuids_drawn := uuids_drawn s + 1,
      t_movementFacts := t_movementFacts s @ [movement_row env i amount (line_command d l)]\<rparr>"
    using mv by (auto simp: appendMovement_Inr line_command_def outgoing_movement_def)
  let ?m = "movement_row env i amount (line_command d l)"
  have m: "mf_id ?m = i" "paid_by d l ?m"
    using amount src effect_type_Some [OF et]
    by (simp_all add: paid_by_def movement_row_def line_command_def outgoing_movement_def
        text_or_empty_def)
  obtain e where s2: "s2 = s1\<lparr>uuids_drawn := uuids_drawn s1 + 1,
      t_paymentExecutionEffects := t_paymentExecutionEffects s1 @ [e]\<rparr>"
    and e: "effect_of d v l e" "pe_movementFactId e = Some i"
      "pe_effectType e = (if pl_methodCategory l = ''CASH'' then ''CASHBOX_MOVEMENT'' else ''BANK_MOVEMENT'')"
    using ef effect_type_Some [OF et] by (auto simp: appendEffect_Inr effect_of_def effect_row_def outgoing_effect_input_def)
  from rest show ?thesis
  proof
    assume "s' = s2"
    then show ?thesis
      using mv m s1 s2 e by (intro exI [of _ ?m] exI [of _ e] exI [of _ s1] exI [of _ "[]"]
        exI [of _ "uuids_drawn s'"] exI [of _ "t_bankInstructions s'"]) simp
  next
    assume "\<exists>j. executeInstruction env d l v s2 = Inr (j, s')"
    then obtain b x where "s' = s2\<lparr>uuids_drawn := uuids_drawn s2 + 2,
        t_bankInstructions := t_bankInstructions s2 @ [b],
        t_paymentExecutionEffects := t_paymentExecutionEffects s2 @ [x]\<rparr>"
      and "effect_of d v l x" "pe_effectType x = ''BANK_INSTRUCTION''" "pe_movementFactId x = None"
      using executeInstruction_writes by blast
    then show ?thesis
      using mv m s1 s2 e by (intro exI [of _ ?m] exI [of _ e] exI [of _ s1] exI [of _ "[x]"]
        exI [of _ "uuids_drawn s'"] exI [of _ "t_bankInstructions s'"]) simp
  qed
qed

text \<open>The tables an execution reads but no step of it writes.\<close>

definition setting where
  "setting s = (access_part s, t_treasuryUnits s, t_methodDefinitions s,
     t_paymentApprovalSnapshots s, t_paymentApprovalSnapshotSteps s, t_paymentApprovalActions s)"

lemma executeLine_frame:
  assumes "executeLine env d v l s = Inr (js, s')"
  shows "t_paymentDocuments s' = t_paymentDocuments s \<and> t_paymentLines s' = t_paymentLines s
    \<and> t_paymentReservations s' = t_paymentReservations s
    \<and> t_paymentAllocations s' = t_paymentAllocations s \<and> t_auditEvents s' = t_auditEvents s
    \<and> t_outboxEvents s' = t_outboxEvents s \<and> t_idempotencyRecords s' = t_idempotencyRecords s
    \<and> setting s' = setting s"
proof -
  obtain m e s1 r u bs where "s1 = s\<lparr>uuids_drawn := uuids_drawn s + 1,
        t_movementFacts := t_movementFacts s @ [m]\<rparr>"
    and "s' = s1\<lparr>uuids_drawn := u, t_bankInstructions := bs,
        t_paymentExecutionEffects := t_paymentExecutionEffects s @ e # r\<rparr>"
    using executeLine_writes [OF assms] by blast
  then have s': "s' = s\<lparr>uuids_drawn := uuids_drawn s + 1, t_movementFacts := t_movementFacts s @ [m],
      uuids_drawn := u, t_bankInstructions := bs,
      t_paymentExecutionEffects := t_paymentExecutionEffects s @ e # r\<rparr>" by simp
  show ?thesis by (simp add: s' setting_def access_part_def)
qed

lemma executeLine_keeps:
  "tx_keeps t_paymentDocuments (executeLine env d v l)" "tx_keeps t_paymentLines (executeLine env d v l)"
  "tx_keeps t_paymentReservations (executeLine env d v l)" "tx_keeps t_auditEvents (executeLine env d v l)"
  "tx_keeps t_outboxEvents (executeLine env d v l)" "tx_keeps t_paymentAllocations (executeLine env d v l)"
  "tx_keeps t_idempotencyRecords (executeLine env d v l)" "tx_keeps setting (executeLine env d v l)"
  by (auto intro!: tx_keepsI dest: executeLine_frame)

lemma executeLines_movements:
  assumes "tx_map (executeLine env d v) ls s = Inr (js, s')"
  shows "\<exists>ms. t_movementFacts s' = t_movementFacts s @ ms \<and> list_all2 (paid_by d) ls ms"
proof -
  have "\<exists>rs. t_movementFacts s' = t_movementFacts s @ rs \<and> (\<exists>m. rs = [m] \<and> paid_by d l m)"
    if line: "executeLine env d v l s = Inr (j, s')" for l and s :: "'a payment_db_scheme" and j s'
  proof -
    obtain m e s1 r u bs where "s1 = s\<lparr>uuids_drawn := uuids_drawn s + 1,
        t_movementFacts := t_movementFacts s @ [m]\<rparr>" "paid_by d l m"
      and "s' = s1\<lparr>uuids_drawn := u, t_bankInstructions := bs,
        t_paymentExecutionEffects := t_paymentExecutionEffects s @ e # r\<rparr>"
      using executeLine_writes [OF line] by blast
    then have "t_movementFacts s' = t_movementFacts s @ [m]" by simp
    then show ?thesis using \<open>paid_by d l m\<close> by blast
  qed
  then obtain rss where rss: "t_movementFacts s' = t_movementFacts s @ concat rss"
    and all: "list_all2 (\<lambda>l rs. \<exists>m. rs = [m] \<and> paid_by d l m) ls rss"
    using tx_map_appends [OF assms, of t_movementFacts "\<lambda>l rs. \<exists>m. rs = [m] \<and> paid_by d l m"] by blast
  from all have "list_all2 (paid_by d) ls (concat rss)"
    by (induction rule: list_all2_induct) auto
  then show ?thesis using rss by blast
qed

text \<open>
  The effects of a line: the first is the effect of its movement, of the type its method
  makes; the others carry no movement.
\<close>

definition line_effects :: "payment_document_row \<Rightarrow> int \<Rightarrow> payment_line_row \<Rightarrow> execution_effect_row list \<Rightarrow> bool" where
  "line_effects d v l es \<longleftrightarrow> (\<exists>e r. es = e # r \<and> (\<forall>x \<in> set es. effect_of d v l x)
     \<and> pe_movementFactId e \<noteq> None
     \<and> pe_effectType e = (if pl_methodCategory l = ''CASH'' then ''CASHBOX_MOVEMENT'' else ''BANK_MOVEMENT'')
     \<and> (\<forall>x \<in> set r. pe_effectType x = ''BANK_INSTRUCTION'' \<and> pe_movementFactId x = None))"

lemma executeLines_effects:
  assumes "tx_map (executeLine env d v) ls s = Inr (js, s')"
  shows "\<exists>ess. t_paymentExecutionEffects s' = t_paymentExecutionEffects s @ concat ess
    \<and> list_all2 (line_effects d v) ls ess"
proof (rule tx_map_appends [OF assms])
  fix l j and s s' :: "'a payment_db_scheme"
  assume line: "executeLine env d v l s = Inr (j, s')"
  obtain m :: movement_fact_row and e s1 r u bs where s': "s' = s1\<lparr>uuids_drawn := u, t_bankInstructions := bs,
        t_paymentExecutionEffects := t_paymentExecutionEffects s @ e # r\<rparr>"
    and all: "\<forall>x \<in> set (e # r). effect_of d v l x" "pe_movementFactId e = Some (mf_id m)"
      "pe_effectType e = (if pl_methodCategory l = ''CASH'' then ''CASHBOX_MOVEMENT'' else ''BANK_MOVEMENT'')"
      "\<forall>x \<in> set r. pe_effectType x = ''BANK_INSTRUCTION'' \<and> pe_movementFactId x = None"
    by (use executeLine_writes [OF line] in \<open>elim exE conjE\<close>) (rule that, assumption+)
  have "t_paymentExecutionEffects s' = t_paymentExecutionEffects s @ e # r" by (simp add: s')
  moreover have "line_effects d v l (e # r)" using all by (auto simp: line_effects_def)
  ultimately show "\<exists>rs. t_paymentExecutionEffects s' = t_paymentExecutionEffects s @ rs \<and> line_effects d v l rs"
    by blast
qed

lemma executeLine_position:
  assumes "executeLine env d v l s = Inr (js, s')"
  shows "position_units e s' = position_units e s
    + (if command_endpoint (line_command d l) = e then command_signed (line_command d l) else 0)"
proof -
  obtain m :: movement_fact_row and x s1 r u bs where mv: "appendMovement env (line_command d l) s = Inr (mf_id m, s1)"
    and s': "s' = s1\<lparr>uuids_drawn := u, t_bankInstructions := bs,
        t_paymentExecutionEffects := t_paymentExecutionEffects s @ x # r\<rparr>"
    using executeLine_writes [OF assms] by blast
  have "position_units e s' = position_units e s1"
    unfolding position_units_def by (simp add: s')
  then show ?thesis using ledger.post_position [OF mv, of e] by simp
qed

text \<open>The amount a payment takes from an endpoint, in units of the last decimal.\<close>

definition line_endpoint :: "payment_document_row \<Rightarrow> payment_line_row \<Rightarrow> endpoint" where
  "line_endpoint d l = \<lparr>ep_organizationId = pd_organizationId d,
     ep_type = (if pl_methodCategory l = ''CASH'' then ''CASHBOX'' else ''BANK_ACCOUNT''),
     ep_id = text_or_empty (coalesce (pl_cashboxId l) (pl_bankAccountId l)),
     ep_currency = pl_currency l\<rparr>"

definition paid_from :: "payment_document_row \<Rightarrow> endpoint \<Rightarrow> payment_line_row list \<Rightarrow> int" where
  "paid_from d e ls =
     sum_list (map (numeric_units \<circ> pl_amount) (filter (\<lambda>l. line_endpoint d l = e) ls))"

lemma line_command_simps [simp]:
  "command_endpoint (line_command d l) = line_endpoint d l"
  "command_signed (line_command d l) = - numeric_units (pl_amount l)"
  by (simp_all add: line_command_def outgoing_movement_def command_endpoint_def line_endpoint_def
    command_signed_def command_direction_def)

lemma paid_from_net: "ledger.net e (map (line_command d) ls) = - paid_from d e ls"
  by (induction ls) (simp_all add: paid_from_def)

lemma executeLines_position:
  assumes "tx_map (executeLine env d v) ls s = Inr (js, s')"
  shows "position_units e s' = position_units e s - paid_from d e ls"
proof -
  have "position_units e s' = position_units e s + ledger.net e (map (line_command d) ls)"
    by (rule ledger.posts_position [OF assms executeLine_position])
  then show ?thesis by (simp add: paid_from_net)
qed

section \<open>A whole execution\<close>

text \<open>
  The writes of an execution, table by table: the document and its lines are marked, every
  line has its movement and its effects, one audit event and one outbox event are added.
\<close>

definition executed_tables ::
  "command_context \<Rightarrow> int \<Rightarrow> locked_payment \<Rightarrow> uuid list
     \<Rightarrow> 'z payment_db_scheme \<Rightarrow> 'z payment_db_scheme \<Rightarrow> bool" where
  "executed_tables ctx v payment ids s s' \<longleftrightarrow>
     (let d = lk_document payment; ls = map kl_line (lk_lines payment);
          org = cx_organizationId ctx; i = cx_paymentId ctx in
      (\<exists>moment.
         t_paymentDocuments s' = update_where (is_document org i)
           (executed_document (cx_actorUserId ctx) moment (v + 1)) (t_paymentDocuments s)
         \<and> t_paymentLines s' = update_where (is_line_of org i)
           (executed_line (cx_actorUserId ctx) moment) (t_paymentLines s))
      \<and> (\<exists>ms. t_movementFacts s' = t_movementFacts s @ ms \<and> list_all2 (paid_by d) ls ms)
      \<and> (\<exists>ess. t_paymentExecutionEffects s' = t_paymentExecutionEffects s @ concat ess
           \<and> list_all2 (line_effects d (v + 1)) ls ess)
      \<and> (ids = [] \<and> t_paymentReservations s' = t_paymentReservations s
         \<or> t_paymentReservations s' = update_where
             (\<lambda>r. pv_organizationId r = org \<and> pv_id r \<in> set ids)
             (\<lambda>r. r\<lparr>pv_state := ''CONSUMED'', pv_version := pv_version r + 1\<rparr>)
             (t_paymentReservations s))
      \<and> (\<exists>a. t_auditEvents s' = t_auditEvents s @ [a] \<and> ae_action a = ''PAYMENT_EXECUTED''
           \<and> ae_actorUserId a = Some (cx_actorUserId ctx) \<and> ae_entityId a = i
           \<and> ae_requestId a = cx_requestId ctx)
      \<and> (\<exists>x. t_outboxEvents s' = t_outboxEvents s @ [x]
           \<and> oe_eventType x = ''treasury.payment.executed.v1'' \<and> oe_aggregateId x = i
           \<and> oe_aggregateVersion x = v + 1)
      \<and> (\<forall>e. position_units e s' = position_units e s - paid_from d e ls))"

lemma consumeReservations_Inr:
  "consumeReservations org ids s = Inr (u, s') \<Longrightarrow>
     (ids = [] \<and> s' = s \<or> s' = s\<lparr>t_paymentReservations := update_where
        (\<lambda>r. pv_organizationId r = org \<and> pv_id r \<in> set ids)
        (\<lambda>r. r\<lparr>pv_state := ''CONSUMED'', pv_version := pv_version r + 1\<rparr>) (t_paymentReservations s)\<rparr>)"
  by (auto simp: consumeReservations_def tx_inv split: if_splits)

lemma completeExecution_Inr:
  "completeExecution org i u m v s = Inr (a, s') \<Longrightarrow>
     s' = s\<lparr>t_paymentDocuments := update_where (is_document org i) (executed_document u m v)
           (t_paymentDocuments s),
         t_paymentLines := update_where (is_line_of org i) (executed_line u m) (t_paymentLines s)\<rparr>"
  by (auto simp: completeExecution_def tx_inv)

lemma execution_writes_Inr:
  assumes "execution_writes env ctx v payment ids s = Inr (u, s')"
  shows "executed_tables ctx v payment ids s s'"
proof -
  let ?d = "lk_document payment" and ?ls = "map kl_line (lk_lines payment)"
  obtain m s0 s1 s2 js s3 s4 where 0: "newDate env s = Inr (m, s0)"
    and 1: "consumeReservations (cx_organizationId ctx) ids s0 = Inr ((), s1)"
    and 2: "completeExecution (cx_organizationId ctx) (cx_paymentId ctx) (cx_actorUserId ctx) m (v + 1) s1
      = Inr ((), s2)"
    and 3: "tx_map (executeLine env ?d (v + 1)) ?ls s2 = Inr (js, s3)"
    and 4: "appendAudit env (payment_audit ctx ''PAYMENT_EXECUTED'' None) s3 = Inr ((), s4)"
    and 5: "appendOutbox env (executed_event ctx payment (v + 1) (concat js)) s4 = Inr ((), s')"
    using assms by (auto simp: execution_writes_def Let_def tx_bind_Inr tx_then_Inr)
  have c0: "s0 = s\<lparr>clock_reads := clock_reads s + 1\<rparr>" using 0 by (simp add: newDate_Inr)
  have c1: "t_movementFacts s1 = t_movementFacts s" "t_auditEvents s1 = t_auditEvents s"
    "t_outboxEvents s1 = t_outboxEvents s" "t_paymentDocuments s1 = t_paymentDocuments s"
    "t_paymentLines s1 = t_paymentLines s"
    "t_paymentExecutionEffects s1 = t_paymentExecutionEffects s"
    "ids = [] \<and> t_paymentReservations s1 = t_paymentReservations s
      \<or> t_paymentReservations s1 = update_where
        (\<lambda>r. pv_organizationId r = cx_organizationId ctx \<and> pv_id r \<in> set ids)
        (\<lambda>r. r\<lparr>pv_state := ''CONSUMED'', pv_version := pv_version r + 1\<rparr>) (t_paymentReservations s)"
    using consumeReservations_Inr [OF 1] c0 by auto
  note c2 = completeExecution_Inr [OF 2]
  note k = keeps_map [OF executeLine_keeps(1)] keeps_map [OF executeLine_keeps(2)]
    keeps_map [OF executeLine_keeps(3)] keeps_map [OF executeLine_keeps(4)]
    keeps_map [OF executeLine_keeps(5)]
  have c3: "t_paymentDocuments s3 = t_paymentDocuments s2" "t_paymentLines s3 = t_paymentLines s2"
    "t_paymentReservations s3 = t_paymentReservations s2" "t_auditEvents s3 = t_auditEvents s2"
    "t_outboxEvents s3 = t_outboxEvents s2"
    using k [THEN tx_keepsD, OF 3] by simp_all
  obtain a where c4: "s4 = s3\<lparr>uuids_drawn := uuids_drawn s3 + 1, t_auditEvents := t_auditEvents s3 @ [a]\<rparr>"
    and a: "ae_action a = ''PAYMENT_EXECUTED''" "ae_actorUserId a = Some (cx_actorUserId ctx)"
      "ae_entityId a = cx_paymentId ctx" "ae_requestId a = cx_requestId ctx"
    using 4 by (auto simp: appendAudit_Inr Let_def audit_row_def payment_audit_def)
  obtain x where c5: "s' = s4\<lparr>uuids_drawn := uuids_drawn s4 + 1, t_outboxEvents := t_outboxEvents s4 @ [x]\<rparr>"
    and x: "oe_eventType x = ''treasury.payment.executed.v1''" "oe_aggregateId x = cx_paymentId ctx"
      "oe_aggregateVersion x = v + 1"
    using 5 by (auto simp: appendOutbox_Inr Let_def outbox_row_def executed_event_def)
  have pos: "position_units e s' = position_units e s - paid_from ?d e ?ls" for e
    using executeLines_position [OF 3, of e] c1 c2 c4 c5 by (simp add: position_units_def)
  have tables: "\<exists>ms. t_movementFacts s' = t_movementFacts s @ ms \<and> list_all2 (paid_by ?d) ?ls ms"
    "\<exists>ess. t_paymentExecutionEffects s' = t_paymentExecutionEffects s @ concat ess
      \<and> list_all2 (line_effects ?d (v + 1)) ?ls ess"
    using executeLines_movements [OF 3] executeLines_effects [OF 3] c1 c2 c4 c5 by simp_all
  show ?thesis
    unfolding executed_tables_def Let_def
    using pos tables a x c1 c3 by (simp add: c2 c4 c5) blast
qed

text \<open>
  A successful execution that is not a replay: the payment was locked, the actor authorized,
  the checks passed and the writes applied on a database with the same tables, and the
  response stored under the key.
\<close>

abbreviation execution_key :: "command_context \<Rightarrow> idempotency_key" where
  "execution_key ctx \<equiv> execution_scope ''executePayment'' ctx"

lemma ignores_setting [tx_frame]: "ignores_checks setting"
  by (simp add: ignores_checks_def setting_def access_part_def)

lemma keeps_execution_writes [tx_frame]:
  "tx_keeps t_idempotencyRecords (execution_writes env ctx v payment ids)"
  "tx_keeps setting (execution_writes env ctx v payment ids)"
proof -
  note simps = setting_def access_part_def
  have "tx_keeps t_idempotencyRecords (consumeReservations org ids)" for org
    by (auto intro!: tx_keepsI dest: consumeReservations_Inr)
  moreover have "tx_keeps t_idempotencyRecords (completeExecution org i u m v)" for org i u m v
    by (auto intro!: tx_keepsI dest: completeExecution_Inr)
  moreover have "tx_keeps t_idempotencyRecords (appendAudit env a)" for a
    by (auto simp: tx_keeps_def appendAudit_Inr Let_def)
  moreover have "tx_keeps t_idempotencyRecords (appendOutbox env x)" for x
    by (auto simp: tx_keeps_def appendOutbox_Inr Let_def)
  ultimately show "tx_keeps t_idempotencyRecords (execution_writes env ctx v payment ids)"
    unfolding execution_writes_def Let_def
    by (intro tx_frame executeLine_keeps) (rule ignores_idempotency | blast)+
  have "tx_keeps setting (consumeReservations org ids)" for org
    by (auto simp: simps intro!: tx_keepsI dest: consumeReservations_Inr)
  moreover have "tx_keeps setting (completeExecution org i u m v)" for org i u m v
    by (auto simp: simps intro!: tx_keepsI dest: completeExecution_Inr)
  moreover have "tx_keeps setting (appendAudit env a)" for a
    by (auto simp: simps tx_keeps_def appendAudit_Inr Let_def)
  moreover have "tx_keeps setting (appendOutbox env x)" for x
    by (auto simp: simps tx_keeps_def appendOutbox_Inr Let_def)
  ultimately show "tx_keeps setting (execution_writes env ctx v payment ids)"
    unfolding execution_writes_def Let_def
    by (intro tx_frame executeLine_keeps) (rule ignores_setting | blast)+
qed

lemma core_setting: "setting (core s) = setting s"
  by (simp add: setting_def core_access)

lemma keeps_execute_fresh [tx_frame]:
  "tx_keeps t_idempotencyRecords (execute_fresh env ctx body v payment)"
  unfolding execute_fresh_def by (intro tx_frame)

lemma execute_fresh_Inr:
  assumes "execute_fresh env ctx body v payment s = Inr (view, s')"
  obtains ids s1 where "execution_guards env ctx body v payment s = Inr (ids, s1)"
    and "core s1 = core s" and "execution_writes env ctx v payment ids s1 = Inr ((), s')"
    and "paymentView s' (cx_organizationId ctx) (cx_paymentId ctx) = Some view"
    and "vw_version view = v + 1"
proof -
  obtain ids s1 where g: "execution_guards env ctx body v payment s = Inr (ids, s1)"
    and "execution_writes env ctx v payment ids s1 = Inr ((), s')"
    and "paymentView s' (cx_organizationId ctx) (cx_paymentId ctx) = Some view"
    and "vw_version view = v + 1"
    using assms unfolding execute_fresh_def
    by (auto simp: tx_bind_Inr tx_then_Inr tx_read_Inr tx_guard_Inr tx_return_Inr split: option.splits)
  then show ?thesis using that tx_keepsD [OF keeps_execution_guards [OF ignores_core] g] by blast
qed

text \<open>
  The shape both commands share: lock the key, look it up, lock the payment, authorize, then
  replay the stored response or enter the key, do the work and store its response.
\<close>

definition keyed_tx ::
  "env \<Rightarrow> command_context \<Rightarrow> str \<Rightarrow> str \<Rightarrow> int \<Rightarrow> ('r \<Rightarrow> response)
     \<Rightarrow> (response replay \<Rightarrow> ('z payment_db_scheme, 'r) tx)
     \<Rightarrow> (locked_payment \<Rightarrow> ('z payment_db_scheme, 'r) tx) \<Rightarrow> str \<Rightarrow> ('z payment_db_scheme, 'r) tx" where
  "keyed_tx env ctx operation permission status stored replayed fresh d =
     (let k = execution_scope operation ctx in
      tx_then (acquireIdempotencyLock k)
      (tx_bind (tx_read (findIdempotency k)) (\<lambda>replay.
      (tx_bind (tx_read (\<lambda>s. lockPayment s (cx_organizationId ctx) (cx_paymentId ctx))) (\<lambda>locked.
      (case locked of
         None \<Rightarrow> tx_throw (Message ''RESOURCE_HIDDEN'')
       | Some payment \<Rightarrow>
           tx_then (assertAuthorized env ctx payment permission)
           (case replay of
              Some r \<Rightarrow> replayed r
            | None \<Rightarrow>
                tx_then (insertIdempotency env k d)
                (tx_bind (fresh payment) (\<lambda>response.
                tx_then (saveIdempotency k (stored response) status)
                  (tx_return response))))))))))"

lemma execute_tx_keyed:
  "execute_tx env ctx body v d = keyed_tx env ctx ''executePayment'' ''payment.execute'' 200
     PaymentResponse (\<lambda>r. replay_payment r d) (execute_fresh env ctx body v) d"
  by (simp add: execute_tx_def keyed_tx_def)

lemma reverse_tx_keyed:
  "reverse_tx env ctx body reason v d = keyed_tx env ctx ''reversePayment'' ''payment.reverse'' 201
     (PaymentResponse \<circ> rr_original) (\<lambda>r. replay_reversal ctx r d) (reverse_fresh env ctx body reason v) d"
  by (simp add: reverse_tx_def keyed_tx_def comp_def)

lemma keyed_tx_fresh:
  fixes s s' :: "'z payment_db_scheme"
  assumes "keyed_tx env ctx op perm st stored replayed fresh d s = Inr (r, s')"
    and "findIdempotency (execution_scope op ctx) s = None"
    and work: "\<And>p. tx_keeps t_idempotencyRecords (fresh p)"
  obtains payment s1 s2 where
    "lockPayment s (cx_organizationId ctx) (cx_paymentId ctx) = Some payment"
    and "canOperatePayment env s (cx_organizationId ctx) (cx_actorUserId ctx)
      (authorizationContext payment) perm"
    and "core s1 = core s" and "t_authStepUpProofs s1 = t_authStepUpProofs s"
    and "t_authChallenges s1 = t_authChallenges s"
    and "fresh payment s1 = Inr (r, s2)" and "core s' = core s2"
    and "findIdempotency (execution_scope op ctx) s'
      = Some \<lparr>re_requestDigest = d, re_response = Some (stored r)\<rparr>"
proof -
  let ?k = "execution_scope op ctx"
  obtain s0 where lock: "acquireIdempotencyLock ?k s = Inr ((), s0)"
    and s0: "core s0 = core s" "t_idempotencyRecords s0 = t_idempotencyRecords s"
      "t_authStepUpProofs s0 = t_authStepUpProofs s" "t_authChallenges s0 = t_authChallenges s"
    using assms(1) by (auto simp: keyed_tx_def Let_def tx_then_Inr acquireIdempotencyLock_Inr core_def)
  have none: "findIdempotency ?k s0 = None"
    using assms(2) s0(2) by (simp add: findIdempotency_def)
  obtain payment where pay: "lockPayment s0 (cx_organizationId ctx) (cx_paymentId ctx) = Some payment"
    using assms(1) lock by (auto simp: keyed_tx_def Let_def tx_inv split: option.splits)
  have "tx_then (assertAuthorized env ctx payment perm) (tx_then (insertIdempotency env ?k d)
       (tx_bind (fresh payment) (\<lambda>response. tx_then (saveIdempotency ?k (stored response) st)
           (tx_return response)))) s0 = Inr (r, s')"
    using assms(1) lock by (simp add: keyed_tx_def Let_def tx_then_run tx_bind_run none pay)
  then obtain t where "assertAuthorized env ctx payment perm s0 = Inr ((), t)"
    and run1: "tx_then (insertIdempotency env ?k d)
       (tx_bind (fresh payment) (\<lambda>response. tx_then (saveIdempotency ?k (stored response) st)
           (tx_return response))) t = Inr (r, s')"
    by (auto simp: tx_then_Inr)
  then have t: "t = s0" and auth: "canOperatePayment env s0 (cx_organizationId ctx) (cx_actorUserId ctx)
      (authorizationContext payment) perm"
    by (simp_all add: assertAuthorized_def tx_bind_Inr tx_read_Inr tx_guard_Inr)
  obtain s1 s2 where ins: "insertIdempotency env ?k d s0 = Inr ((), s1)"
    and fr: "fresh payment s1 = Inr (r, s2)"
    and sav: "saveIdempotency ?k (stored r) st s2 = Inr ((), s')"
    using run1 unfolding t by (auto simp: tx_bind_Inr tx_then_Inr tx_return_Inr)
  have rest: "idem.handler env st ?k d (tx_bind (fresh payment) (\<lambda>r. tx_return (stored r))) s0
       = Inr (stored r, s')"
    using ins fr sav by (simp add: idem.handler_def tx_then_def tx_bind_def)
  have c: "core s1 = core s" "core s' = core s2" "t_authStepUpProofs s1 = t_authStepUpProofs s"
    "t_authChallenges s1 = t_authChallenges s"
    using s0 tx_keepsD [OF keeps_insertIdempotency ins] tx_keepsD [OF keeps_saveIdempotency sav] ins
    by (simp_all add: insertIdempotency_Inr Let_def)
  have "findIdempotency ?k s' = Some \<lparr>re_requestDigest = d, re_response = Some (stored r)\<rparr>"
  proof (rule idem.handler_records [OF rest])
    fix t1 t2 :: "'z payment_db_scheme" and q
    assume "tx_bind (fresh payment) (\<lambda>r. tx_return (stored r)) t1 = Inr (q, t2)"
    then have "t_idempotencyRecords t2 = t_idempotencyRecords t1"
      using tx_keepsD [OF work] by (auto simp: tx_inv)
    then show "findIdempotency ?k t2 = findIdempotency ?k t1" by (simp add: findIdempotency_def)
  qed
  then show ?thesis
    using that [of payment s1 s2] pay auth fr c
      core_reader [of "\<lambda>s. lockPayment s (cx_organizationId ctx) (cx_paymentId ctx)",
        OF core_lockPayment s0(1)]
      core_reader [of "\<lambda>s. canOperatePayment env s (cx_organizationId ctx) (cx_actorUserId ctx)
        (authorizationContext payment) perm", OF core_canOperate s0(1)]
    by simp
qed

text \<open>
  With a stored record the run is the authorization and then the answer to the replay; it
  changes nothing but the record of the advisory lock.
\<close>

definition lock_recorded :: "idempotency_key \<Rightarrow> 'z payment_db_scheme \<Rightarrow> 'z payment_db_scheme" where
  "lock_recorded k s = s\<lparr>advisory_locks := advisory_locks s
     @ [(ik_organizationId k, ik_scope k @ '':'' @ ik_key k)]\<rparr>"

lemma commit_guards_locks: "commit_guards s (lock_recorded k s)"
  by (simp add: commit_guards_def lock_recorded_def)

lemma lock_recorded_reads:
  "core (lock_recorded k s) = core s" "findIdempotency j (lock_recorded k s) = findIdempotency j s"
  by (simp_all add: lock_recorded_def core_def findIdempotency_def)

lemma keyed_tx_replay:
  assumes "findIdempotency (execution_scope op ctx) s = Some r"
    and "lockPayment s (cx_organizationId ctx) (cx_paymentId ctx) = Some payment"
    and "canOperatePayment env s (cx_organizationId ctx) (cx_actorUserId ctx)
      (authorizationContext payment) perm"
  shows "keyed_tx env ctx op perm st stored replayed fresh d s
    = replayed r (lock_recorded (execution_scope op ctx) s)"
proof -
  let ?s = "lock_recorded (execution_scope op ctx) s"
  have lock: "acquireIdempotencyLock (execution_scope op ctx) s = Inr ((), ?s)"
    by (simp add: acquireIdempotencyLock_Inr lock_recorded_def execution_scope_def)
  have "lockPayment ?s (cx_organizationId ctx) (cx_paymentId ctx) = Some payment"
    using assms(2) by (metis core_lockPayment lock_recorded_reads(1))
  moreover have "canOperatePayment env ?s (cx_organizationId ctx) (cx_actorUserId ctx)
      (authorizationContext payment) perm"
    using assms(3) by (metis core_canOperate lock_recorded_reads(1))
  moreover have "findIdempotency (execution_scope op ctx) ?s = Some r"
    using assms(1) by (simp add: lock_recorded_reads)
  ultimately show ?thesis
    by (simp add: keyed_tx_def Let_def tx_then_def tx_bind_def lock assertAuthorized_def)
qed

lemma execute_tx_fresh:
  assumes "execute_tx env ctx body v d s = Inr (view, s')"
    and "findIdempotency (execution_key ctx) s = None"
  obtains payment s1 s2 where
    "lockPayment s (cx_organizationId ctx) (cx_paymentId ctx) = Some payment"
    and "canOperatePayment env s (cx_organizationId ctx) (cx_actorUserId ctx)
      (authorizationContext payment) ''payment.execute''"
    and "core s1 = core s" and "execute_fresh env ctx body v payment s1 = Inr (view, s2)"
    and "core s' = core s2"
    and "findIdempotency (execution_key ctx) s'
      = Some \<lparr>re_requestDigest = d, re_response = Some (PaymentResponse view)\<rparr>"
  using keyed_tx_fresh [OF assms(1) [unfolded execute_tx_keyed] assms(2) keeps_execute_fresh] that
  by metis

lemma execute_Inr:
  assumes "execute env ctx body s = (Inr view, s')"
  obtains v d where "validate ctx = Inr v" and "execute_digest env ctx body = Inr d"
    and "execute_tx env ctx body v d s = Inr (view, s')" and "commit_guards s s'"
  using assms
  by (auto simp: execute_def rethrow_Inr transaction_Inr committed_Inr split: sum.splits)

text \<open>What a successful execution has checked, as one condition on the database before it.\<close>

definition execution_checked ::
  "env \<Rightarrow> 'z payment_db_scheme \<Rightarrow> command_context \<Rightarrow> payment_execute option \<Rightarrow> locked_payment \<Rightarrow> int \<Rightarrow> bool" where
  "execution_checked env s ctx body payment v \<longleftrightarrow>
     (let d = lk_document payment; ls = map kl_line (lk_lines payment) in
      lockPayment s (cx_organizationId ctx) (cx_paymentId ctx) = Some payment
      \<and> canOperatePayment env s (cx_organizationId ctx) (cx_actorUserId ctx)
          (authorizationContext payment) ''payment.execute''
      \<and> pd_version d = v \<and> pd_state d = ''APPROVED'' \<and> pd_currentApprovalSnapshotId d \<noteq> None
      \<and> ls \<noteq> [] \<and> (\<forall>l \<in> set (lk_lines payment). kl_methodState l = ''ACTIVE'')
      \<and> sum_list (map (decimal8 \<circ> pl_baseAmount) ls) = decimal8 (pd_totalBaseAmount d)
      \<and> separation_holds env s ctx payment body
      \<and> (\<forall>a \<in> set (lk_allocations payment). allocation_ok s (pd_organizationId d) a)
      \<and> (\<forall>l \<in> set ls. \<exists>k. line_source l = Some k \<and> source_pays s payment k (source_sum k ls)))"

lemma core_separation_holds:
  "separation_holds env (core s) ctx payment body = separation_holds env s ctx payment body"
  by (simp add: separation_holds_def core_permission)

lemma guards_checked:
  assumes "execution_guards env ctx body v payment s = Inr (ids, s')" and "core s = core s0"
    and "lockPayment s0 (cx_organizationId ctx) (cx_paymentId ctx) = Some payment"
    and "canOperatePayment env s0 (cx_organizationId ctx) (cx_actorUserId ctx)
      (authorizationContext payment) ''payment.execute''"
  shows "execution_checked env s0 ctx body payment v"
proof -
  note g = execution_guards_Inr [OF assms(1)]
  obtain t1 t1' where 1: "core t1 = core s0" "separation env ctx payment body t1 = Inr ((), t1')"
    using g(7) assms(2) by auto
  obtain t2 t2' where 2: "core t2 = core s0" "allocations payment t2 = Inr ((), t2')"
    using g(8) assms(2) by auto
  obtain t3 t3' where 3: "core t3 = core s0" "checkSources payment t3 = Inr ((), t3')"
    using g(10) assms(2) by auto
  have "separation_holds env s0 ctx payment body"
    using separation_Inr [OF 1(2)] 1(1) core_separation_holds by metis
  moreover have "allocation_ok s0 (pd_organizationId (lk_document payment)) a"
    if "a \<in> set (lk_allocations payment)" for a
    using allocations_Inr [OF 2(2) that] 2(1) core_allocation_ok by metis
  moreover have "\<exists>k. line_source l = Some k
      \<and> source_pays s0 payment k (source_sum k (map kl_line (lk_lines payment)))"
    if l: "l \<in> set (map kl_line (lk_lines payment))" for l
  proof -
    obtain k where "line_source l = Some k" using checkSources_lines [OF 3(2) l] by auto
    then show ?thesis using checkSources_Inr [OF 3(2) l] 3(1) core_source_pays by metis
  qed
  ultimately show ?thesis
    using g(1-6) assms(3,4) by (auto simp: execution_checked_def Let_def comp_assoc)
qed

lemma executed_tables_core:
  assumes "executed_tables ctx v payment ids t t'" and "core t = core s" and "core s' = core t'"
  shows "executed_tables ctx v payment ids s s'"
proof -
  have "position_units e t = position_units e s" "position_units e s' = position_units e t'" for e
    using assms(2,3) core_position by metis+
  then show ?thesis
    using assms(1) unfolding executed_tables_def Let_def
    by (simp add: core_eq [OF assms(2)] core_eq [OF assms(3)])
qed

lemma reservations_ids:
  "reservations env payment s = Inr (ids, s') \<Longrightarrow> ids = map pv_id (lk_reservations payment)"
  by (auto simp: reservations_def tx_inv split: if_splits)

lemma execute_done:
  assumes "execute env ctx body s = (Inr view, s')"
    and "findIdempotency (execution_key ctx) s = None"
  obtains payment v d where "validate ctx = Inr v" and "execute_digest env ctx body = Inr d"
    and "execution_checked env s ctx body payment v"
    and "executed_tables ctx v payment (map pv_id (lk_reservations payment)) s s'"
    and "paymentView s' (cx_organizationId ctx) (cx_paymentId ctx) = Some view"
    and "vw_version view = v + 1" and "commit_guards s s'"
    and "findIdempotency (execution_key ctx) s'
      = Some \<lparr>re_requestDigest = d, re_response = Some (PaymentResponse view)\<rparr>"
    and "setting s' = setting s"
proof -
  obtain v d where v: "validate ctx = Inr v" and d: "execute_digest env ctx body = Inr d"
    and tx: "execute_tx env ctx body v d s = Inr (view, s')" and commit: "commit_guards s s'"
    using execute_Inr [OF assms(1)] .
  obtain payment s1 s2 where lock: "lockPayment s (cx_organizationId ctx) (cx_paymentId ctx) = Some payment"
    and auth: "canOperatePayment env s (cx_organizationId ctx) (cx_actorUserId ctx)
      (authorizationContext payment) ''payment.execute''"
    and c: "core s1 = core s" "core s' = core s2"
    and fresh: "execute_fresh env ctx body v payment s1 = Inr (view, s2)"
    and found: "findIdempotency (execution_key ctx) s'
      = Some \<lparr>re_requestDigest = d, re_response = Some (PaymentResponse view)\<rparr>"
    using execute_tx_fresh [OF tx assms(2)] by blast
  obtain ids s3 where g: "execution_guards env ctx body v payment s1 = Inr (ids, s3)"
    and c3: "core s3 = core s1" and w: "execution_writes env ctx v payment ids s3 = Inr ((), s2)"
    and view: "paymentView s2 (cx_organizationId ctx) (cx_paymentId ctx) = Some view"
    and ver: "vw_version view = v + 1"
    using execute_fresh_Inr [OF fresh] by blast
  have "ids = map pv_id (lk_reservations payment)"
    using execution_guards_Inr(9) [OF g] reservations_ids by blast
  then have "executed_tables ctx v payment (map pv_id (lk_reservations payment)) s s'"
    using executed_tables_core [OF execution_writes_Inr [OF w]] c c3 by simp
  moreover have "paymentView s' (cx_organizationId ctx) (cx_paymentId ctx) = Some view"
    using view c(2) core_paymentView by metis
  moreover have "setting s' = setting s"
  proof -
    have "setting s2 = setting s3" by (rule tx_keepsD [OF keeps_execution_writes(2) w])
    then show ?thesis using c c3 core_setting by metis
  qed
  ultimately show ?thesis
    using that v d guards_checked [OF g c(1) lock auth] ver commit found by blast
qed

section \<open>The payment after its execution\<close>

lemma insort_key_map:
  assumes "\<And>x. k (f x) = k x"
  shows "insort_key k (f x) (map f xs) = map f (insort_key k x xs)"
  by (induction xs) (simp_all add: assms)

lemma order_by_map:
  assumes "\<And>x. k (f x) = k x"
  shows "order_by k (map f xs) = map f (order_by k xs)"
  unfolding order_by_def sort_key_def
  by (induction xs) (simp_all add: insort_key_map [of k f, OF assms])

lemma locked_lines_after:
  assumes "t_paymentLines s' = update_where (is_line_of org i) f (t_paymentLines s)"
    and "t_methodDefinitions s' = t_methodDefinitions s"
    and "\<And>l. pl_lineNumber (f l) = pl_lineNumber l" and "\<And>l. pl_methodId (f l) = pl_methodId l"
    and "\<And>l. is_line_of org i l \<Longrightarrow> is_line_of org i (f l)"
  shows "locked_lines s' org i = map (\<lambda>k. \<lparr>kl_line = f (kl_line k), kl_methodState = kl_methodState k\<rparr>)
    (locked_lines s org i)"
proof -
  have "filter (is_line_of org i) (t_paymentLines s') = map f (filter (is_line_of org i) (t_paymentLines s))"
    using assms(5) by (simp add: assms(1) filter_update_where_same)
  moreover have "is_line_of org i = (\<lambda>line. pl_organizationId line = org \<and> pl_paymentDocumentId line = i)"
    by (simp add: fun_eq_iff is_line_of_def)
  ultimately have "order_by pl_lineNumber (filter
       (\<lambda>line. pl_organizationId line = org \<and> pl_paymentDocumentId line = i) (t_paymentLines s'))
    = map f (order_by pl_lineNumber (filter
       (\<lambda>line. pl_organizationId line = org \<and> pl_paymentDocumentId line = i) (t_paymentLines s)))"
    by (simp add: order_by_map [of pl_lineNumber f, OF assms(3)])
  then show ?thesis
    unfolding locked_lines_def assms(2)
    by (simp only: map_concat map_map comp_def assms(4))
       (intro arg_cong [where f = concat] map_cong, auto split: option.splits)
qed

lemma find_document_after:
  assumes "t_paymentDocuments s' = update_where (is_document org i) f (t_paymentDocuments s)"
    and "\<And>d. is_document org i d \<Longrightarrow> is_document org i (f d)"
  shows "find_document s' org i = map_option f (find_document s org i)"
proof -
  have p: "(\<lambda>pd. pd_organizationId pd = org \<and> pd_id pd = i) = is_document org i"
    by (simp add: fun_eq_iff is_document_def)
  show ?thesis unfolding find_document_def p assms(1) by (rule find_update_where_same) (rule assms(2))
qed

lemma executed_fields [simp]:
  "pl_lineNumber (executed_line u m l) = pl_lineNumber l" "pl_methodId (executed_line u m l) = pl_methodId l"
  "pl_cashboxId (executed_line u m l) = pl_cashboxId l"
  "pl_bankAccountId (executed_line u m l) = pl_bankAccountId l"
  "pl_currency (executed_line u m l) = pl_currency l"
  "pl_methodCategory (executed_line u m l) = pl_methodCategory l"
  "is_line_of org i (executed_line u m l) = is_line_of org i l"
  "is_document org i (executed_document u m v d) = is_document org i d"
  "pd_state (executed_document u m v d) = ''EXECUTED''"
  "pd_version (executed_document u m v d) = v"
  "pd_executedByUserId (executed_document u m v d) = Some u"
  by (simp_all add: executed_line_def executed_document_def is_line_of_def is_document_def)

lemma locked_after:
  assumes lock: "lockPayment s (cx_organizationId ctx) (cx_paymentId ctx) = Some payment"
    and tables: "executed_tables ctx v payment ids s s'" and set: "setting s' = setting s"
  obtains payment' m where "lockPayment s' (cx_organizationId ctx) (cx_paymentId ctx) = Some payment'"
    and "lk_document payment' = executed_document (cx_actorUserId ctx) m (v + 1) (lk_document payment)"
    and "authorizationContext payment' = authorizationContext payment"
    and "map kl_line (lk_lines payment') = map (executed_line (cx_actorUserId ctx) m \<circ> kl_line) (lk_lines payment)"
proof -
  obtain m where docs: "t_paymentDocuments s' = update_where
        (is_document (cx_organizationId ctx) (cx_paymentId ctx))
        (executed_document (cx_actorUserId ctx) m (v + 1)) (t_paymentDocuments s)"
    and lines: "t_paymentLines s' = update_where (is_line_of (cx_organizationId ctx) (cx_paymentId ctx))
        (executed_line (cx_actorUserId ctx) m) (t_paymentLines s)"
    using tables by (auto simp: executed_tables_def Let_def)
  obtain d where d: "find_document s (cx_organizationId ctx) (cx_paymentId ctx) = Some d"
    using lock by (auto simp: lockPayment_def)
  have d': "find_document s' (cx_organizationId ctx) (cx_paymentId ctx)
      = Some (executed_document (cx_actorUserId ctx) m (v + 1) d)"
    by (simp add: find_document_after [OF docs] d)
  have set': "t_treasuryUnits s' = t_treasuryUnits s" "t_methodDefinitions s' = t_methodDefinitions s"
    using set by (simp_all add: setting_def)
  note ll = locked_lines_after [OF lines set'(2)]
  obtain payment' where lock': "lockPayment s' (cx_organizationId ctx) (cx_paymentId ctx) = Some payment'"
    and doc': "lk_document payment' = executed_document (cx_actorUserId ctx) m (v + 1) d"
    and lines': "lk_lines payment' = map (\<lambda>k. \<lparr>kl_line = executed_line (cx_actorUserId ctx) m (kl_line k),
        kl_methodState = kl_methodState k\<rparr>) (lk_lines payment)"
    and branch': "lk_effectiveBranchId payment' = lk_effectiveBranchId payment"
    using lock by (auto simp: lockPayment_def d d' ll set' executed_document_def)
  have doc: "lk_document payment = d" using lock by (auto simp: lockPayment_def d)
  have "authorizationContext payment' = authorizationContext payment"
    by (simp add: authorizationContext_def Let_def doc' lines' branch' doc comp_def)
       (simp add: executed_document_def)
  then show ?thesis using that lock' doc' doc lines' by (auto simp: comp_def)
qed

end
