(* ===== verification/Execution_Funds.thy ===== *)
theory Execution_Funds
  imports Execution_Facts
begin

text \<open>
  The funds argument: the amount a payment takes from an endpoint is the amount the source
  checks weighed against the position, the floor and the reservations of other payments.
\<close>

section \<open>Lines with one source\<close>

text \<open>
  A line is paid from the source its method names: a cashbox for cash, a bank account for the
  bank methods. Its amount is a stored positive amount.
\<close>

definition single_source :: "payment_line_row \<Rightarrow> bool" where
  "single_source l \<longleftrightarrow>
     (if pl_methodCategory l = ''CASH'' then pl_cashboxId l \<noteq> None \<and> pl_bankAccountId l = None
      else pl_cashboxId l = None \<and> pl_bankAccountId l \<noteq> None)"

definition stored_amount :: "payment_line_row \<Rightarrow> bool" where
  "stored_amount l \<longleftrightarrow> numeric8 (pl_amount l) \<and> 0 < units8 (pl_amount l)"

definition source_endpoint :: "uuid \<Rightarrow> source_key \<Rightarrow> endpoint" where
  "source_endpoint org k = \<lparr>ep_organizationId = org, ep_type = fst k, ep_id = fst (snd k),
     ep_currency = snd (snd k)\<rparr>"

lemma stored_amount_units: "stored_amount l \<Longrightarrow> numeric_units (pl_amount l) = decimal8 (pl_amount l)"
  by (simp add: stored_amount_def numeric8_decimal8)

lemma stored_amount_pos: "stored_amount l \<Longrightarrow> 0 < decimal8 (pl_amount l)"
  by (simp add: stored_amount_def numeric8_decimal8)

lemma line_endpoint_source:
  assumes "single_source l"
  shows "line_endpoint d l = source_endpoint (pd_organizationId d) k \<longleftrightarrow> line_source l = Some k"
  using assms
  by (cases k) (auto simp: single_source_def line_endpoint_def source_endpoint_def line_source_def
    text_or_empty_def split: option.splits if_splits)

lemma paid_from_source_sum:
  assumes "\<forall>l \<in> set ls. single_source l \<and> stored_amount l"
  shows "paid_from d (source_endpoint (pd_organizationId d) k) ls = source_sum k ls"
  using assms
proof (induction ls)
  case (Cons l ls)
  then show ?case
    by (simp add: paid_from_def line_endpoint_source stored_amount_units)
qed (simp add: paid_from_def)

lemma source_sum_nonneg:
  "\<forall>l \<in> set ls. stored_amount l \<Longrightarrow> 0 \<le> source_sum k ls"
  by (induction ls) (auto dest: stored_amount_pos)

section \<open>The source checks are inequalities\<close>

lemma bank_payable_funds:
  assumes "bank_payable s org b y date i (amountString v)" and "0 \<le> v"
    and "0 \<le> position_units (account_endpoint org b y) s"
  shows "v + reserved_units (account_endpoint org b y) i s \<le> position_units (account_endpoint org b y) s"
  using assms
  by (auto simp: bank_payable_def Let_def decimal8_amountString decimal8_balance
    split: option.splits if_splits)

lemma cashbox_payable_funds:
  assumes "cashbox_payable s org c y date i (amountString v) = OK" and "0 \<le> v"
    and "0 \<le> position_units (cashbox_endpoint org c y) s"
    and "find_control s org c y = Some control" and "position_floor control = Some fl"
  shows "decimal8 fl + v + reserved_units (cashbox_endpoint org c y) i s
    \<le> position_units (cashbox_endpoint org c y) s"
  using assms
  by (auto simp: cashbox_payable_def Let_def decimal8_amountString decimal8_balance
    split: option.splits if_splits)

text \<open>
  The bound an endpoint must keep after a payment: a bank account covers the amounts reserved
  for other payments, a cashbox its floor beside them, when it has one.
\<close>

definition keeps_funds :: "'z payment_db_scheme \<Rightarrow> uuid \<Rightarrow> source_key \<Rightarrow> uuid \<Rightarrow> int \<Rightarrow> bool" where
  "keeps_funds s org k paymentId position \<longleftrightarrow>
     (let reserved = reserved_units (source_endpoint org k) paymentId s in
      if fst k = ''CASHBOX'' then
        (case find_control s org (fst (snd k)) (snd (snd k)) of None \<Rightarrow> False
         | Some control \<Rightarrow> (case position_floor control of None \<Rightarrow> True
             | Some fl \<Rightarrow> decimal8 fl + reserved \<le> position))
      else reserved \<le> position)"

lemma source_pays_funds:
  assumes "source_pays s payment k v" and "0 \<le> v"
    and "0 \<le> position_units (source_endpoint (pd_organizationId (lk_document payment)) k) s"
    and "fst k \<in> {''CASHBOX'', ''BANK_ACCOUNT''}"
  shows "keeps_funds s (pd_organizationId (lk_document payment)) k (pd_id (lk_document payment))
    (position_units (source_endpoint (pd_organizationId (lk_document payment)) k) s - v)"
proof -
  obtain t i y where k: "k = (t, i, y)" by (cases k)
  let ?org = "pd_organizationId (lk_document payment)"
  show ?thesis
  proof (cases "t = ''CASHBOX''")
    case True
    have ep: "source_endpoint ?org (''CASHBOX'', i, y) = cashbox_endpoint ?org i y"
      by (simp add: source_endpoint_def cashbox_endpoint_def k True)
    have ok: "cashbox_payable s ?org i y (pd_businessDate (lk_document payment))
        (pd_id (lk_document payment)) (amountString v) = OK"
      using assms(1) by (simp add: source_pays_def k True Let_def)
    then obtain control where control: "find_control s ?org i y = Some control"
      by (auto simp: cashbox_payable_def split: option.splits)
    then show ?thesis
      using cashbox_payable_funds [OF ok assms(2) _ control] assms(3)
      by (auto simp: keeps_funds_def ep Let_def k True split: option.splits)
  next
    case False
    have ep: "source_endpoint ?org (t, i, y) = account_endpoint ?org i y"
      using assms(4) False by (simp add: source_endpoint_def account_endpoint_def k)
    have ok: "bank_payable s ?org i y (pd_businessDate (lk_document payment))
        (pd_id (lk_document payment)) (amountString v)"
      using assms(1) False by (simp add: source_pays_def k Let_def)
    show ?thesis
      using bank_payable_funds [OF ok assms(2)] assms(3) False by (simp add: keeps_funds_def ep Let_def k)
  qed
qed

lemma execution_funds:
  assumes "execution_checked env s ctx body payment v"
    and "executed_tables ctx v payment ids s s'"
    and lines: "\<forall>l \<in> set (map kl_line (lk_lines payment)). single_source l \<and> stored_amount l"
    and l: "l \<in> set (map kl_line (lk_lines payment))" and k: "line_source l = Some k"
    and pos: "0 \<le> position_units (source_endpoint (pd_organizationId (lk_document payment)) k) s"
  shows "keeps_funds s (pd_organizationId (lk_document payment)) k (pd_id (lk_document payment))
    (position_units (source_endpoint (pd_organizationId (lk_document payment)) k) s')"
proof -
  let ?d = "lk_document payment" and ?ls = "map kl_line (lk_lines payment)"
  have "source_pays s payment k (source_sum k ?ls)"
    using assms(1) l k by (auto simp: execution_checked_def Let_def)
  moreover have "0 \<le> source_sum k ?ls" using lines by (intro source_sum_nonneg) auto
  moreover have "fst k \<in> {''CASHBOX'', ''BANK_ACCOUNT''}"
    using k by (auto simp: line_source_def split: option.splits)
  ultimately have "keeps_funds s (pd_organizationId ?d) k (pd_id ?d)
      (position_units (source_endpoint (pd_organizationId ?d) k) s - source_sum k ?ls)"
    using pos by (intro source_pays_funds)
  moreover have "position_units (source_endpoint (pd_organizationId ?d) k) s'
      = position_units (source_endpoint (pd_organizationId ?d) k) s - source_sum k ?ls"
    using assms(2) paid_from_source_sum [OF lines] by (simp add: executed_tables_def Let_def)
  ultimately show ?thesis by simp
qed

end
