(* ===== verification/Reversal_Facts.thy ===== *)
theory Reversal_Facts
  imports Execution_Facts
begin

text \<open>
  The library behind the properties of reversal: what its checks establish, what a run has
  written table by table, and how it moves the positions of the sources back.
\<close>

section \<open>The checks\<close>

text \<open>The source of a line can take its money back on a business date.\<close>

definition line_receives :: "'z payment_db_scheme \<Rightarrow> uuid \<Rightarrow> str \<Rightarrow> payment_line_row \<Rightarrow> bool" where
  "line_receives s org businessDate l =
     (case pl_cashboxId l of
        Some c \<Rightarrow> cashbox_receivable s org c (pl_currency l) businessDate = OK
      | None \<Rightarrow> (case pl_bankAccountId l of
          Some b \<Rightarrow> bank_receivable s org b (pl_currency l) | None \<Rightarrow> False))"

lemma core_line_receives: "line_receives (core s) org b l = line_receives s org b l"
  by (simp add: line_receives_def core_cashbox_receivable core_bank_receivable cong: option.case_cong)

text \<open>The movements a reversal undoes: the effects of the payment that have one.\<close>

definition payment_movements :: "'z payment_db_scheme \<Rightarrow> uuid \<Rightarrow> uuid \<Rightarrow> execution_effect_row list" where
  "payment_movements s org i =
     filter (\<lambda>e. pe_movementFactId e \<noteq> None) (map pf_effect (effects s org i))"

lemma core_payment_movements: "payment_movements (core s) org i = payment_movements s org i"
  by (simp add: payment_movements_def core_effects)

text \<open>The proof of a second factor: fresh, unused and bound to this very request.\<close>

definition proof_presented :: "env \<Rightarrow> 'z access_db_scheme \<Rightarrow> command_context \<Rightarrow> bool" where
  "proof_presented env s ctx \<longleftrightarrow> (\<exists>su p. cx_stepUp ctx = Some su \<and> p \<in> set (t_authStepUpProofs s)
     \<and> sp_tokenDigest p = digest env (st_proofId su) \<and> env_now env < sp_expiresAt p
     \<and> sp_consumedAt p = None
     \<and> (\<exists>c \<in> set (t_authChallenges s). ch_id c = sp_challengeId p
          \<and> ch_sessionId c = Some (cx_physicalSessionId ctx)
          \<and> ch_httpMethod c = Some (st_method su) \<and> ch_httpPath c = Some (st_path su)
          \<and> ch_requestBodyDigest c = Some (st_bodyDigest su)
          \<and> ch_idempotencyKey c = Some (st_idempotencyKey su)))"

lemma consumeProof_Inr:
  assumes "consumeProof env ctx s = Inr (u, s')"
  shows "proof_presented env s ctx"
proof -
  obtain su where su: "cx_stepUp ctx = Some su"
    using assms by (auto simp: consumeProof_def split: option.splits)
  let ?input = "\<lparr>su_proofDigest = digest env (st_proofId su),
      su_physicalSessionId = cx_physicalSessionId ctx, su_method = st_method su, su_path = st_path su,
      su_bodyDigest = st_bodyDigest su, su_idempotencyKey = st_idempotencyKey su\<rparr>"
  have "length (filter (proof_matches env s ?input) (t_authStepUpProofs s)) = 1"
    using assms by (auto simp: consumeProof_def su consumeStepUpProof_def tx_inv)
  then obtain p where "p \<in> set (t_authStepUpProofs s)" "proof_matches env s ?input p"
    by (metis filter_False length_0_conv zero_neq_one)
  then show ?thesis by (auto simp: proof_presented_def su proof_matches_def)
qed

definition reversal_checked ::
  "env \<Rightarrow> 'z payment_db_scheme \<Rightarrow> command_context \<Rightarrow> payment_reverse \<Rightarrow> locked_payment \<Rightarrow> int \<Rightarrow> bool" where
  "reversal_checked env s ctx body payment v \<longleftrightarrow>
     (let d = lk_document payment; org = cx_organizationId ctx; i = cx_paymentId ctx in
      lockPayment s org i = Some payment
      \<and> canOperatePayment env s org (cx_actorUserId ctx) (authorizationContext payment) ''payment.reverse''
      \<and> pd_version d = v \<and> reversible d
      \<and> cx_actorUserId ctx \<notin> set (reversal_conflicts payment)
      \<and> proof_presented env s ctx
      \<and> (\<forall>e \<in> set (effects s org i). pf_instructionState e \<notin> {Some ''CONFIRMED'', Some ''RETURNED''})
      \<and> length (payment_movements s org i) = length (lk_lines payment)
      \<and> (\<forall>l \<in> set (map kl_line (lk_lines payment)).
           line_receives s (pd_organizationId d) (rv_businessDate body) l))"

lemma check_reversal_source_Inr:
  "check_reversal_source payment b l s = Inr (u, s') \<Longrightarrow>
     line_receives s (pd_organizationId (lk_document payment)) b (kl_line l)"
  by (auto simp: check_reversal_source_def line_receives_def Let_def tx_inv split: option.splits)

lemma checkReversalSources_Inr:
  assumes "checkReversalSources payment b s = Inr (u, s')" and "l \<in> set (map kl_line (lk_lines payment))"
  shows "line_receives s (pd_organizationId (lk_document payment)) b l"
proof -
  obtain k where k: "k \<in> set (lk_lines payment)" "l = kl_line k" using assms(2) by auto
  have "\<exists>t v t'. check_reversal_source payment b k t = Inr (v, t') \<and> id t = id s"
    by (rule tx_for_Inr_each [OF _ keeps_check_reversal_source k(1)])
       (use assms(1) in \<open>simp add: checkReversalSources_def\<close>)
  then show ?thesis using k by (auto dest: check_reversal_source_Inr)
qed

text \<open>
  The step-up proof is checked on the database as the guards find it: its challenge and the
  proofs are outside the part that ignores the checks, hence stated on the same state.
\<close>

lemma reversal_guards_Inr:
  assumes "reversal_guards env ctx body v original s = Inr (ms, s')"
  shows "pd_version (lk_document original) = v"
    and "reversible (lk_document original)"
    and "cx_actorUserId ctx \<notin> set (reversal_conflicts original)"
    and "proof_presented env s ctx"
    and "\<forall>e \<in> set (effects s (cx_organizationId ctx) (cx_paymentId ctx)).
      pf_instructionState e \<notin> {Some ''CONFIRMED'', Some ''RETURNED''}"
    and "ms = payment_movements s (cx_organizationId ctx) (cx_paymentId ctx)"
    and "length ms = length (lk_lines original)"
    and "\<forall>l \<in> set (map kl_line (lk_lines original)).
      line_receives s (pd_organizationId (lk_document original)) (rv_businessDate body) l"
proof -
  obtain s1 where pure: "pd_version (lk_document original) = v" "reversible (lk_document original)"
      "cx_actorUserId ctx \<notin> set (reversal_conflicts original)"
    and 1: "consumeProof env ctx s = Inr ((), s1)"
    and 2: "\<not> (\<exists>e \<in> set (effects s1 (cx_organizationId ctx) (cx_paymentId ctx)).
      pf_instructionState e \<in> {Some ''CONFIRMED'', Some ''RETURNED''})"
    and ms: "ms = filter (\<lambda>e. pe_movementFactId e \<noteq> None)
      (map pf_effect (effects s1 (cx_organizationId ctx) (cx_paymentId ctx)))"
      "length ms = length (lk_lines original)"
    and 3: "checkReversalSources original (rv_businessDate body) s1 = Inr ((), s')"
    using assms unfolding reversal_guards_def Let_def
    by (auto simp: tx_then_Inr tx_bind_Inr tx_guard_Inr tx_return_Inr tx_read_Inr)
  have c: "core s1 = core s" by (rule tx_keepsD [OF keeps_consumeProof [OF ignores_core] 1])
  have eff: "effects s1 org i = effects s org i" for org i using c core_effects by metis
  show "pd_version (lk_document original) = v" "reversible (lk_document original)"
    "cx_actorUserId ctx \<notin> set (reversal_conflicts original)" by (rule pure)+
  show "proof_presented env s ctx" by (rule consumeProof_Inr [OF 1])
  show "\<forall>e \<in> set (effects s (cx_organizationId ctx) (cx_paymentId ctx)).
      pf_instructionState e \<notin> {Some ''CONFIRMED'', Some ''RETURNED''}"
    using 2 eff by simp
  show "ms = payment_movements s (cx_organizationId ctx) (cx_paymentId ctx)"
    using ms(1) by (simp add: payment_movements_def eff)
  show "length ms = length (lk_lines original)" by (rule ms(2))
  show "\<forall>l \<in> set (map kl_line (lk_lines original)).
      line_receives s (pd_organizationId (lk_document original)) (rv_businessDate body) l"
    using checkReversalSources_Inr [OF 3] c core_line_receives by metis
qed


section \<open>The writes\<close>

text \<open>The movement that takes an effect of the original back.\<close>

definition returned_by :: "uuid \<Rightarrow> str \<Rightarrow> uuid \<Rightarrow> payment_line_row list \<Rightarrow> execution_effect_row
    \<Rightarrow> movement_fact_row \<Rightarrow> bool" where
  "returned_by org businessDate reversalId ls e m \<longleftrightarrow>
     mf_organizationId m = org \<and> mf_owner m = ''domain.payments'' \<and> mf_sourceType m = ''Payment''
     \<and> mf_sourceId m = reversalId
     \<and> mf_endpointType m = (if pe_effectType e = ''CASHBOX_MOVEMENT'' then ''CASHBOX'' else ''BANK_ACCOUNT'')
     \<and> (\<exists>l \<in> set ls. pl_id l = pe_paymentLineId e
          \<and> mf_endpointId m = text_or_empty (coalesce (pl_cashboxId l) (pl_bankAccountId l)))
     \<and> Inr (mf_amount m) = pg_numeric 8 (pe_amount e) \<and> mf_currency m = pe_currency e
     \<and> mf_direction m = ''CREDIT'' \<and> mf_state m = ''POSTED'' \<and> mf_businessDate m = businessDate
     \<and> mf_reversalOfFactId m = pe_movementFactId e"

definition reverses_effect :: "uuid \<Rightarrow> execution_effect_row \<Rightarrow> execution_effect_row \<Rightarrow> bool" where
  "reverses_effect org e x \<longleftrightarrow> pe_organizationId x = org \<and> pe_direction x = ''REVERSAL''
     \<and> pe_reversalOfEffectId x = Some (pe_id e) \<and> pe_effectType x = pe_effectType e
     \<and> Inr (pe_amount x) = pg_numeric 8 (pe_amount e) \<and> pe_currency x = pe_currency e"

text \<open>The endpoint an effect concerns, by the line it was posted for.\<close>

definition effect_endpoint :: "uuid \<Rightarrow> payment_line_row list \<Rightarrow> execution_effect_row \<Rightarrow> endpoint" where
  "effect_endpoint org ls e = \<lparr>ep_organizationId = org,
     ep_type = (if pe_effectType e = ''CASHBOX_MOVEMENT'' then ''CASHBOX'' else ''BANK_ACCOUNT''),
     ep_id = (case find (\<lambda>l. pl_id l = pe_paymentLineId e) ls of
        None \<Rightarrow> [] | Some l \<Rightarrow> text_or_empty (coalesce (pl_cashboxId l) (pl_bankAccountId l))),
     ep_currency = pe_currency e\<rparr>"

definition returned_to :: "uuid \<Rightarrow> payment_line_row list \<Rightarrow> endpoint \<Rightarrow> execution_effect_row list \<Rightarrow> int" where
  "returned_to org ls p es =
     sum_list (map (\<lambda>e. if effect_endpoint org ls e = p then numeric_units (pe_amount e) else 0) es)"

lemma reverseEffect_writes:
  assumes "reverseEffect env ctx b original rid lineIds e s = Inr (j, s')"
  shows "\<exists>m x u. s' = s\<lparr>uuids_drawn := u, t_movementFacts := t_movementFacts s @ [m],
      t_paymentExecutionEffects := t_paymentExecutionEffects s @ [x]\<rparr>
    \<and> returned_by (cx_organizationId ctx) b rid (map kl_line (lk_lines original)) e m
    \<and> movement_endpoint m = effect_endpoint (cx_organizationId ctx) (map kl_line (lk_lines original)) e
    \<and> reverses_effect (cx_organizationId ctx) e x \<and> pe_movementFactId x = Some (mf_id m)"
proof -
  obtain rl f line where rl: "map_of lineIds (pe_paymentLineId e) = Some rl"
    and f: "pe_movementFactId e = Some f"
    and line: "find (\<lambda>l. pl_id l = pe_paymentLineId e) (map kl_line (lk_lines original)) = Some line"
    using assms by (auto simp: reverseEffect_def split: option.splits)
  let ?cmd = "reversal_movement ctx b rid rl e f line"
  obtain i s1 k where mv: "appendMovement env ?cmd s = Inr (i, s1)"
    and ef: "appendEffect env (reversal_effect_input ctx b rl (mv_effectKey ?cmd) e i) s1 = Inr (k, s')"
    using assms by (auto simp: reverseEffect_def rl f line Let_def tx_inv)
  obtain a where a: "pg_numeric 8 (pe_amount e) = Inr a"
    and s1: "s1 = s\<lparr>uuids_drawn := uuids_drawn s + 1,
      t_movementFacts := t_movementFacts s @ [movement_row env i a ?cmd]\<rparr>"
    using mv by (auto simp: appendMovement_Inr reversal_movement_def)
  let ?m = "movement_row env i a ?cmd"
  let ?x = "effect_row env k a (reversal_effect_input ctx b rl (mv_effectKey ?cmd) e i)"
  have s': "s' = s1\<lparr>uuids_drawn := uuids_drawn s1 + 1,
      t_paymentExecutionEffects := t_paymentExecutionEffects s1 @ [?x]\<rparr>"
    using ef a by (auto simp: appendEffect_Inr reversal_effect_input_def)
  have "line \<in> set (map kl_line (lk_lines original))" "pl_id line = pe_paymentLineId e"
    using find_SomeD [OF line] by simp_all
  then have "returned_by (cx_organizationId ctx) b rid (map kl_line (lk_lines original)) e ?m"
    using a f by (auto simp: returned_by_def movement_row_def reversal_movement_def)
  moreover have "movement_endpoint ?m = effect_endpoint (cx_organizationId ctx) (map kl_line (lk_lines original)) e"
    by (simp add: command_endpoint_def reversal_movement_def effect_endpoint_def line)
  moreover have "reverses_effect (cx_organizationId ctx) e ?x" "pe_movementFactId ?x = Some (mf_id ?m)"
    using a by (simp_all add: reverses_effect_def effect_row_def reversal_effect_input_def movement_row_def)
  ultimately show ?thesis
    by (intro exI [of _ ?m] exI [of _ ?x] exI [of _ "uuids_drawn s + 2"]) (simp add: s1 s')
qed

lemma reverseEffect_frame:
  assumes "reverseEffect env ctx b original rid lineIds e s = Inr (j, s')"
  shows "t_paymentDocuments s' = t_paymentDocuments s \<and> t_paymentLines s' = t_paymentLines s
    \<and> t_paymentReservations s' = t_paymentReservations s
    \<and> t_paymentAllocations s' = t_paymentAllocations s \<and> t_auditEvents s' = t_auditEvents s
    \<and> t_outboxEvents s' = t_outboxEvents s \<and> t_idempotencyRecords s' = t_idempotencyRecords s
    \<and> t_bankInstructions s' = t_bankInstructions s \<and> setting s' = setting s"
proof -
  obtain m x u where "s' = s\<lparr>uuids_drawn := u, t_movementFacts := t_movementFacts s @ [m],
      t_paymentExecutionEffects := t_paymentExecutionEffects s @ [x]\<rparr>"
    using reverseEffect_writes [OF assms] by blast
  then show ?thesis by (simp add: setting_def access_part_def)
qed

lemma reverseEffect_keeps [tx_frame]:
  "tx_keeps t_paymentDocuments (reverseEffect env ctx b original rid ids e)"
  "tx_keeps t_paymentLines (reverseEffect env ctx b original rid ids e)"
  "tx_keeps t_paymentReservations (reverseEffect env ctx b original rid ids e)"
  "tx_keeps t_paymentAllocations (reverseEffect env ctx b original rid ids e)"
  "tx_keeps t_auditEvents (reverseEffect env ctx b original rid ids e)"
  "tx_keeps t_outboxEvents (reverseEffect env ctx b original rid ids e)"
  "tx_keeps t_idempotencyRecords (reverseEffect env ctx b original rid ids e)"
  "tx_keeps t_bankInstructions (reverseEffect env ctx b original rid ids e)"
  "tx_keeps setting (reverseEffect env ctx b original rid ids e)"
  by (auto intro!: tx_keepsI dest: reverseEffect_frame)


lemma reverseEffects_movements:
  assumes "tx_map (reverseEffect env ctx b original rid lineIds) es s = Inr (js, s')"
  shows "\<exists>ms. t_movementFacts s' = t_movementFacts s @ ms
    \<and> list_all2 (returned_by (cx_organizationId ctx) b rid (map kl_line (lk_lines original))) es ms"
proof -
  let ?R = "returned_by (cx_organizationId ctx) b rid (map kl_line (lk_lines original))"
  have "\<exists>rs. t_movementFacts s' = t_movementFacts s @ rs \<and> (\<exists>m. rs = [m] \<and> ?R e m)"
    if step: "reverseEffect env ctx b original rid lineIds e s = Inr (j, s')"
    for e j and s s' :: "'a payment_db_scheme"
    using reverseEffect_writes [OF step] by auto
  then obtain rss where rss: "t_movementFacts s' = t_movementFacts s @ concat rss"
    and all: "list_all2 (\<lambda>e rs. \<exists>m. rs = [m] \<and> ?R e m) es rss"
    using tx_map_appends [OF assms, of t_movementFacts "\<lambda>e rs. \<exists>m. rs = [m] \<and> ?R e m"] by blast
  from all have "list_all2 ?R es (concat rss)"
    by (induction rule: list_all2_induct) auto
  then show ?thesis using rss by blast
qed

lemma reverseEffects_effects:
  assumes "tx_map (reverseEffect env ctx b original rid lineIds) es s = Inr (js, s')"
  shows "\<exists>xs. t_paymentExecutionEffects s' = t_paymentExecutionEffects s @ xs
    \<and> list_all2 (reverses_effect (cx_organizationId ctx)) es xs"
proof -
  let ?R = "reverses_effect (cx_organizationId ctx)"
  have "\<exists>rs. t_paymentExecutionEffects s' = t_paymentExecutionEffects s @ rs \<and> (\<exists>x. rs = [x] \<and> ?R e x)"
    if step: "reverseEffect env ctx b original rid lineIds e s = Inr (j, s')"
    for e j and s s' :: "'a payment_db_scheme"
    using reverseEffect_writes [OF step] by auto
  then obtain rss where rss: "t_paymentExecutionEffects s' = t_paymentExecutionEffects s @ concat rss"
    and all: "list_all2 (\<lambda>e rs. \<exists>x. rs = [x] \<and> ?R e x) es rss"
    using tx_map_appends [OF assms, of t_paymentExecutionEffects "\<lambda>e rs. \<exists>x. rs = [x] \<and> ?R e x"] by blast
  from all have "list_all2 ?R es (concat rss)"
    by (induction rule: list_all2_induct) auto
  then show ?thesis using rss by blast
qed

lemma tx_map_total:
  assumes "tx_map h xs s = Inr (ys, s')"
    and "\<And>x s y s'. x \<in> set xs \<Longrightarrow> h x s = Inr (y, s') \<Longrightarrow> (g s' :: int) = g s + \<delta> x"
  shows "g s' = g s + sum_list (map \<delta> xs)"
  using assms
proof (induction xs arbitrary: s ys)
  case Nil
  then show ?case by (simp add: tx_return_Inr)
next
  case (Cons x xs)
  obtain y s1 zs where x: "h x s = Inr (y, s1)" and xs: "tx_map h xs s1 = Inr (zs, s')"
    using Cons.prems(1) by (auto simp: tx_bind_Inr)
  show ?case using Cons.IH [OF xs] Cons.prems(2) [OF _ x] Cons.prems(2) by simp
qed

lemma reverseEffects_position:
  assumes "tx_map (reverseEffect env ctx b original rid lineIds) es s = Inr (js, s')"
  shows "position_units p s' = position_units p s
    + returned_to (cx_organizationId ctx) (map kl_line (lk_lines original)) p es"
  unfolding returned_to_def
proof (rule tx_map_total [OF assms])
  fix e j and s s' :: "'a payment_db_scheme"
  assume "reverseEffect env ctx b original rid lineIds e s = Inr (j, s')"
  then obtain m x u where s': "s' = s\<lparr>uuids_drawn := u, t_movementFacts := t_movementFacts s @ [m],
      t_paymentExecutionEffects := t_paymentExecutionEffects s @ [x]\<rparr>"
    and m: "returned_by (cx_organizationId ctx) b rid (map kl_line (lk_lines original)) e m"
      "movement_endpoint m = effect_endpoint (cx_organizationId ctx) (map kl_line (lk_lines original)) e"
    using reverseEffect_writes by blast
  have "Inr (mf_amount m) = pg_numeric 8 (pe_amount e)" "mf_direction m = ''CREDIT''"
    using m(1) by (simp_all add: returned_by_def)
  then have "signed_units m = numeric_units (pe_amount e)"
    by (simp add: signed_units_def numeric_units_def split: sum.splits)
       (metis sum.inject(2) sum.simps(4) Inr_inject)
  then show "position_units p s' = position_units p s
      + (if effect_endpoint (cx_organizationId ctx) (map kl_line (lk_lines original)) e = p
         then numeric_units (pe_amount e) else 0)"
    by (simp add: position_units_def s' m(2))
qed


section \<open>A whole reversal\<close>

definition reversed_document :: "uuid \<Rightarrow> int \<Rightarrow> instant \<Rightarrow> payment_document_row \<Rightarrow> payment_document_row" where
  "reversed_document rid v moment d = d\<lparr>pd_reversedPaymentId := Some rid, pd_state := ''REVERSED'',
     pd_executionState := ''REVERSED'', pd_version := v, pd_updatedAt := moment\<rparr>"

definition reversed_line :: "instant \<Rightarrow> payment_line_row \<Rightarrow> payment_line_row" where
  "reversed_line moment l = l\<lparr>pl_state := ''REVERSED'', pl_version := pl_version l + 1,
     pl_updatedAt := moment\<rparr>"

text \<open>
  The writes of a reversal, table by table: the original is marked, its mirror is added as an
  executed payment of its own, every movement is taken back by a credit, the active
  allocations end, one audit and one outbox event are added.
\<close>

definition reversed_tables ::
  "command_context \<Rightarrow> payment_reverse \<Rightarrow> int \<Rightarrow> locked_payment \<Rightarrow> execution_effect_row list \<Rightarrow> uuid
     \<Rightarrow> 'z payment_db_scheme \<Rightarrow> 'z payment_db_scheme \<Rightarrow> bool" where
  "reversed_tables ctx body v payment es rid s s' \<longleftrightarrow>
     (let d = lk_document payment; ls = map kl_line (lk_lines payment);
          org = cx_organizationId ctx; i = cx_paymentId ctx in
      (\<exists>input new. ri_original input = payment \<and> ri_actorUserId input = cx_actorUserId ctx
         \<and> ri_businessDate input = rv_businessDate body \<and> ri_reason input = trim (rv_reason body)
         \<and> payment_document_check (reversal_document rid input)
         \<and> (\<forall>x \<in> set (t_paymentDocuments s). \<not> payment_document_clash (reversal_document rid input) x)
         \<and> t_paymentDocuments s' = update_where (is_document org i)
             (reversed_document rid (v + 1) (ri_executedAt input)) (t_paymentDocuments s)
             @ [reversal_document rid input]
         \<and> t_paymentLines s' = update_where (is_line_of org i) (reversed_line (ri_executedAt input))
             (t_paymentLines s) @ new
         \<and> list_all2 (\<lambda>l x. \<exists>lid. x = reversal_line lid rid input l) ls new)
      \<and> t_paymentAllocations s' = update_where
          (\<lambda>a. pa_organizationId a = org \<and> pa_paymentDocumentId a = i \<and> pa_state a = ''ACTIVE'')
          (\<lambda>a. a\<lparr>pa_state := ''REVERSED'', pa_version := pa_version a + 1\<rparr>) (t_paymentAllocations s)
      \<and> (\<exists>ms. t_movementFacts s' = t_movementFacts s @ ms
           \<and> list_all2 (returned_by org (rv_businessDate body) rid ls) es ms)
      \<and> (\<exists>xs. t_paymentExecutionEffects s' = t_paymentExecutionEffects s @ xs
           \<and> list_all2 (reverses_effect org) es xs)
      \<and> (\<exists>a. t_auditEvents s' = t_auditEvents s @ [a] \<and> ae_action a = ''PAYMENT_REVERSED''
           \<and> ae_actorUserId a = Some (cx_actorUserId ctx) \<and> ae_entityId a = i
           \<and> ae_reason a = Some (trim (rv_reason body)))
      \<and> (\<exists>x. t_outboxEvents s' = t_outboxEvents s @ [x]
           \<and> oe_eventType x = ''treasury.payment.reversed.v1'' \<and> oe_aggregateId x = i
           \<and> oe_aggregateVersion x = v + 1)
      \<and> (\<forall>p. position_units p s' = position_units p s + returned_to org ls p es))"

lemma insert_lines_Inr:
  assumes "tx_for pairs (\<lambda>p. tx_insert payment_line_check payment_line_clash payment_line_refs
      t_paymentLines t_paymentLines_update (f p)) s = Inr (u, s')"
  shows "s' = s\<lparr>t_paymentLines := t_paymentLines s @ map f pairs\<rparr>"
  using assms
proof (induction pairs arbitrary: s)
  case Nil
  then show ?case by (simp add: tx_return_Inr)
next
  case (Cons p ps)
  have eq: "t_paymentLines_update (\<lambda>rows. rows @ [f p]) s
      = s\<lparr>t_paymentLines := t_paymentLines s @ [f p]\<rparr>" by simp
  have "tx_for ps (\<lambda>p. tx_insert payment_line_check payment_line_clash payment_line_refs
      t_paymentLines t_paymentLines_update (f p)) (s\<lparr>t_paymentLines := t_paymentLines s @ [f p]\<rparr>) = Inr (u, s')"
    using Cons.prems by (auto simp: tx_then_Inr tx_insert_Inr eq)
  from Cons.IH [OF this] show ?case by simp
qed

lemma line_ids_Inr:
  assumes "tx_map (\<lambda>l. tx_bind (randomUUID env) (\<lambda>lid. tx_return (kl_line l, lid))) ks s = Inr (ps, s')"
  shows "map fst ps = map kl_line ks \<and> (\<exists>n. s' = s\<lparr>uuids_drawn := n\<rparr>)"
  using assms
proof (induction ks arbitrary: s ps)
  case Nil
  then show ?case by (auto simp: tx_return_Inr intro: exI [of _ "uuids_drawn s"])
next
  case (Cons k ks)
  then obtain ps' where ps: "ps = (kl_line k, env_uuids env (uuids_drawn s)) # ps'"
    and rest: "tx_map (\<lambda>l. tx_bind (randomUUID env) (\<lambda>lid. tx_return (kl_line l, lid))) ks
      (s\<lparr>uuids_drawn := uuids_drawn s + 1\<rparr>) = Inr (ps', s')"
    by (auto simp: tx_bind_Inr tx_return_Inr randomUUID_Inr simp del: tx_return_run)
  show ?case using Cons.IH [OF rest] ps by auto
qed

lemma reversal_document_id: "pd_id (reversal_document i input) = i"
  by (simp add: reversal_document_def Let_def)

lemma createReversal_Inr:
  assumes "createReversal env input s = Inr (r, s')"
  shows "\<exists>new n. s' = s\<lparr>uuids_drawn := n,
      t_paymentDocuments := t_paymentDocuments s @ [reversal_document (fst r) input],
      t_paymentLines := t_paymentLines s @ new\<rparr>
    \<and> list_all2 (\<lambda>l x. \<exists>lid. x = reversal_line lid (fst r) input l)
        (map kl_line (lk_lines (ri_original input))) new
    \<and> payment_document_check (reversal_document (fst r) input)
    \<and> (\<forall>x \<in> set (t_paymentDocuments s). \<not> payment_document_clash (reversal_document (fst r) input) x)"
proof -
  obtain i s1 s2 ps s3 where 1: "randomUUID env s = Inr (i, s1)"
    and 2: "tx_insert payment_document_check payment_document_clash payment_document_refs
      t_paymentDocuments t_paymentDocuments_update (reversal_document i input) s1 = Inr ((), s2)"
    and 3: "tx_map (\<lambda>l. tx_bind (randomUUID env) (\<lambda>lid. tx_return (kl_line l, lid)))
      (lk_lines (ri_original input)) s2 = Inr (ps, s3)"
    and 4: "tx_for ps (\<lambda>p. tx_insert payment_line_check payment_line_clash payment_line_refs
      t_paymentLines t_paymentLines_update (reversal_line (snd p) i input (fst p))) s3 = Inr ((), s')"
    and r: "fst r = i"
    using assms unfolding createReversal_def by (auto simp: tx_bind_Inr tx_then_Inr tx_return_Inr tx_guard_Inr)
  obtain n where s3: "s3 = s2\<lparr>uuids_drawn := n\<rparr>" and ps: "map fst ps = map kl_line (lk_lines (ri_original input))"
    using line_ids_Inr [OF 3] by blast
  have s1: "s1 = s\<lparr>uuids_drawn := uuids_drawn s + 1\<rparr>" using 1 by (simp add: randomUUID_Inr)
  have s2: "s2 = s1\<lparr>t_paymentDocuments := t_paymentDocuments s1 @ [reversal_document i input]\<rparr>"
    and fresh: "payment_document_check (reversal_document i input)"
      "\<forall>x \<in> set (t_paymentDocuments s). \<not> payment_document_clash (reversal_document i input) x"
    using 2 by (auto simp: tx_insert_Inr s1)
  let ?new = "map (\<lambda>p. reversal_line (snd p) i input (fst p)) ps"
  have "list_all2 (\<lambda>l x. \<exists>lid. x = reversal_line lid i input l) (map fst ps) ?new"
    by (auto simp: list_all2_conv_all_nth)
  then show ?thesis
    using insert_lines_Inr [OF 4] fresh unfolding ps r
    by (intro exI [of _ ?new] exI [of _ n]) (simp add: s3 s2 s1)
qed


lemma unclashed_reversal:
  "\<forall>x \<in> rows. \<not> payment_document_clash (reversal_document rid input) x \<Longrightarrow> \<forall>x \<in> rows. pd_id x \<noteq> rid"
  using reversal_document_id [of rid input] by (auto simp: payment_document_clash_def)

lemma nextPaymentNumber_frame:
  "nextPaymentNumber org b s = Inr (n, s') \<Longrightarrow>
     \<exists>cs. s' = s\<lparr>t_paymentNumberCounters := cs\<rparr>"
  by (rule exI [of _ "t_paymentNumberCounters s'"]) (auto simp: nextPaymentNumber_def Let_def)

lemma completeReversal_Inr:
  "completeReversal org i rid v m s = Inr (u, s') \<Longrightarrow>
     s' = s\<lparr>t_paymentDocuments := update_where (is_document org i) (reversed_document rid v m)
           (t_paymentDocuments s),
         t_paymentLines := update_where (is_line_of org i) (reversed_line m) (t_paymentLines s),
         t_paymentAllocations := update_where
          (\<lambda>a. pa_organizationId a = org \<and> pa_paymentDocumentId a = i \<and> pa_state a = ''ACTIVE'')
          (\<lambda>a. a\<lparr>pa_state := ''REVERSED'', pa_version := pa_version a + 1\<rparr>) (t_paymentAllocations s)\<rparr>"
  unfolding reversed_document_def [abs_def] reversed_line_def [abs_def]
  by (auto simp: completeReversal_def tx_inv)

lemma update_where_append: "update_where p f (xs @ ys) = update_where p f xs @ update_where p f ys"
  by (simp add: update_where_def)

lemma update_where_none: "\<forall>x \<in> set xs. \<not> p x \<Longrightarrow> update_where p f xs = xs"
  by (induction xs) simp_all

lemma reversal_writes_Inr:
  assumes "reversal_writes env ctx body (trim (rv_reason body)) v original es s = Inr (rid, s')"
    and "\<exists>d \<in> set (t_paymentDocuments s). pd_id d = cx_paymentId ctx"
  shows "reversed_tables ctx body v original es rid s s'"
proof -
  let ?org = "cx_organizationId ctx" and ?i = "cx_paymentId ctx" and ?ls = "map kl_line (lk_lines original)"
  define input where "input = (\<lambda>n m. \<lparr>ri_original = original, ri_actorUserId = cx_actorUserId ctx,
    ri_businessDate = rv_businessDate body, ri_businessNumber = n, ri_reason = trim (rv_reason body),
    ri_executedAt = m\<rparr>)"
  obtain m s0 n s1 rev s2 s3 js s4 s5 where 0: "newDate env s = Inr (m, s0)"
    and 1: "nextPaymentNumber ?org (rv_businessDate body) s0 = Inr (n, s1)"
    and 2: "createReversal env (input n m) s1 = Inr (rev, s2)"
    and 3: "completeReversal ?org ?i (fst rev) (v + 1) m s2 = Inr ((), s3)"
    and 4: "tx_map (reverseEffect env ctx (rv_businessDate body) original (fst rev) (snd rev)) es s3 = Inr (js, s4)"
    and 5: "appendAudit env (payment_audit ctx ''PAYMENT_REVERSED'' (Some (trim (rv_reason body)))) s4 = Inr ((), s5)"
    and 6: "appendOutbox env (reversed_event ctx (rv_businessDate body) (v + 1) (fst rev) js) s5 = Inr ((), s')"
    and rid: "rid = fst rev"
    using assms(1) unfolding reversal_writes_def input_def
    by (auto simp: tx_bind_Inr tx_then_Inr tx_return_Inr)
  have c0: "s0 = s\<lparr>clock_reads := clock_reads s + 1\<rparr>" using 0 by (simp add: newDate_Inr)
  obtain cs where c1: "s1 = s0\<lparr>t_paymentNumberCounters := cs\<rparr>"
    using nextPaymentNumber_frame [OF 1] by blast
  obtain new k where c2: "s2 = s1\<lparr>uuids_drawn := k,
      t_paymentDocuments := t_paymentDocuments s1 @ [reversal_document rid (input n m)],
      t_paymentLines := t_paymentLines s1 @ new\<rparr>"
    and new: "list_all2 (\<lambda>l x. \<exists>lid. x = reversal_line lid rid (input n m) l) ?ls new"
    and checked: "payment_document_check (reversal_document rid (input n m))"
    and unclashed: "\<forall>x \<in> set (t_paymentDocuments s1).
      \<not> payment_document_clash (reversal_document rid (input n m)) x"
    using createReversal_Inr [OF 2] unfolding rid by (auto simp: input_def)
  note fresh = unclashed_reversal [OF unclashed]
  note c3 = completeReversal_Inr [OF 3, folded rid]
  have docs1: "t_paymentDocuments s1 = t_paymentDocuments s" "t_paymentLines s1 = t_paymentLines s"
    "t_paymentAllocations s1 = t_paymentAllocations s" "t_movementFacts s1 = t_movementFacts s"
    "t_paymentExecutionEffects s1 = t_paymentExecutionEffects s" "t_auditEvents s1 = t_auditEvents s"
    "t_outboxEvents s1 = t_outboxEvents s"
    using c0 by (simp_all add: c1)
  have ne: "rid \<noteq> ?i" using fresh assms(2) docs1(1) by auto
  have doc: "\<not> is_document ?org ?i (reversal_document rid (input n m))"
    using ne by (simp add: is_document_def reversal_document_id)
  have "\<forall>x \<in> set new. \<not> is_line_of ?org ?i x"
    using new ne by (force simp: list_all2_conv_all_nth in_set_conv_nth is_line_of_def reversal_line_def)
  note lines = update_where_none [OF this]
  note k = keeps_map [OF reverseEffect_keeps(1)] keeps_map [OF reverseEffect_keeps(2)]
    keeps_map [OF reverseEffect_keeps(4)] keeps_map [OF reverseEffect_keeps(5)]
    keeps_map [OF reverseEffect_keeps(6)]
  have c4: "t_paymentDocuments s4 = t_paymentDocuments s3" "t_paymentLines s4 = t_paymentLines s3"
    "t_paymentAllocations s4 = t_paymentAllocations s3" "t_auditEvents s4 = t_auditEvents s3"
    "t_outboxEvents s4 = t_outboxEvents s3"
    using k [THEN tx_keepsD, OF 4] by simp_all
  obtain a where c5: "s5 = s4\<lparr>uuids_drawn := uuids_drawn s4 + 1, t_auditEvents := t_auditEvents s4 @ [a]\<rparr>"
    and a: "ae_action a = ''PAYMENT_REVERSED''" "ae_actorUserId a = Some (cx_actorUserId ctx)"
      "ae_entityId a = ?i" "ae_reason a = Some (trim (rv_reason body))"
    using 5 by (auto simp: appendAudit_Inr Let_def audit_row_def payment_audit_def)
  obtain x where c6: "s' = s5\<lparr>uuids_drawn := uuids_drawn s5 + 1, t_outboxEvents := t_outboxEvents s5 @ [x]\<rparr>"
    and x: "oe_eventType x = ''treasury.payment.reversed.v1''" "oe_aggregateId x = ?i"
      "oe_aggregateVersion x = v + 1"
    using 6 by (auto simp: appendOutbox_Inr Let_def outbox_row_def reversed_event_def)
  have pos: "position_units p s' = position_units p s + returned_to ?org ?ls p es" for p
    using reverseEffects_position [OF 4, of p] by (simp add: c6 c5 c3 c2 position_units_def docs1)
  have tables: "\<exists>ms. t_movementFacts s' = t_movementFacts s @ ms
      \<and> list_all2 (returned_by ?org (rv_businessDate body) rid ?ls) es ms"
    "\<exists>xs. t_paymentExecutionEffects s' = t_paymentExecutionEffects s @ xs
      \<and> list_all2 (reverses_effect ?org) es xs"
    using reverseEffects_movements [OF 4, folded rid] reverseEffects_effects [OF 4]
    by (simp_all add: c6 c5 c3 c2 docs1)
  have docs: "t_paymentDocuments s' = update_where (is_document ?org ?i) (reversed_document rid (v + 1) m)
      (t_paymentDocuments s) @ [reversal_document rid (input n m)]"
    "t_paymentLines s' = update_where (is_line_of ?org ?i) (reversed_line m) (t_paymentLines s) @ new"
    "t_paymentAllocations s' = update_where
      (\<lambda>a. pa_organizationId a = ?org \<and> pa_paymentDocumentId a = ?i \<and> pa_state a = ''ACTIVE'')
      (\<lambda>a. a\<lparr>pa_state := ''REVERSED'', pa_version := pa_version a + 1\<rparr>) (t_paymentAllocations s)"
    "t_auditEvents s' = t_auditEvents s @ [a]" "t_outboxEvents s' = t_outboxEvents s @ [x]"
    using doc by (simp_all add: c6 c5 c4 c3 c2 docs1 update_where_append lines)
  have inp: "ri_original (input n m) = original" "ri_actorUserId (input n m) = cx_actorUserId ctx"
    "ri_businessDate (input n m) = rv_businessDate body" "ri_reason (input n m) = trim (rv_reason body)"
    "ri_executedAt (input n m) = m"
    by (simp_all add: input_def)
  have f: "\<forall>x \<in> set (t_paymentDocuments s). \<not> payment_document_clash (reversal_document rid (input n m)) x"
    using unclashed docs1(1) by simp
  have head: "\<exists>input new. ri_original input = original \<and> ri_actorUserId input = cx_actorUserId ctx
     \<and> ri_businessDate input = rv_businessDate body \<and> ri_reason input = trim (rv_reason body)
     \<and> payment_document_check (reversal_document rid input)
     \<and> (\<forall>x \<in> set (t_paymentDocuments s). \<not> payment_document_clash (reversal_document rid input) x)
     \<and> t_paymentDocuments s' = update_where (is_document ?org ?i)
         (reversed_document rid (v + 1) (ri_executedAt input)) (t_paymentDocuments s)
         @ [reversal_document rid input]
     \<and> t_paymentLines s' = update_where (is_line_of ?org ?i) (reversed_line (ri_executedAt input))
         (t_paymentLines s) @ new
     \<and> list_all2 (\<lambda>l x. \<exists>lid. x = reversal_line lid rid input l) ?ls new"
    by (rule exI [of _ "input n m"], rule exI [of _ new]) (intro conjI, simp_all only: inp docs(1,2) new, rule checked, rule f)
  have tail: "\<exists>a. t_auditEvents s' = t_auditEvents s @ [a] \<and> ae_action a = ''PAYMENT_REVERSED''
      \<and> ae_actorUserId a = Some (cx_actorUserId ctx) \<and> ae_entityId a = ?i
      \<and> ae_reason a = Some (trim (rv_reason body))"
    "\<exists>x. t_outboxEvents s' = t_outboxEvents s @ [x]
      \<and> oe_eventType x = ''treasury.payment.reversed.v1'' \<and> oe_aggregateId x = ?i
      \<and> oe_aggregateVersion x = v + 1"
    using docs(4,5) a x by blast+
  show ?thesis
    unfolding reversed_tables_def Let_def
    by (intro conjI allI) (rule head docs(3) tables tail pos)+
qed


lemma appends_keep:
  "tx_keeps t_idempotencyRecords (appendAudit env a)" "tx_keeps t_idempotencyRecords (appendOutbox env x)"
  "tx_keeps setting (appendAudit env a)" "tx_keeps setting (appendOutbox env x)"
  by (auto simp: tx_keeps_def appendAudit_Inr appendOutbox_Inr Let_def setting_def access_part_def)

lemma createReversal_keeps:
  "tx_keeps t_idempotencyRecords (createReversal env input)" "tx_keeps setting (createReversal env input)"
  by (auto intro!: tx_keepsI dest!: createReversal_Inr simp: setting_def access_part_def)

lemma completeReversal_keeps:
  "tx_keeps t_idempotencyRecords (completeReversal org i rid v m)" "tx_keeps setting (completeReversal org i rid v m)"
proof -
  have "t_idempotencyRecords s' = t_idempotencyRecords s \<and> setting s' = setting s"
    if "completeReversal org i rid v m s = Inr (u, s')" for s s' :: "'z payment_db_scheme" and u
    using completeReversal_Inr [OF that] by (auto simp: completeReversal_def setting_def access_part_def)
  then show "tx_keeps t_idempotencyRecords (completeReversal org i rid v m)"
    "tx_keeps setting (completeReversal org i rid v m)"
    by (auto simp: tx_keeps_def)
qed

lemma nextPaymentNumber_keeps:
  "tx_keeps t_idempotencyRecords (nextPaymentNumber org b)" "tx_keeps setting (nextPaymentNumber org b)"
  by (auto intro!: tx_keepsI dest!: nextPaymentNumber_frame simp: setting_def access_part_def)

lemmas reversal_keeps = createReversal_keeps completeReversal_keeps nextPaymentNumber_keeps appends_keep

lemma keeps_reversal_writes [tx_frame]:
  "tx_keeps t_idempotencyRecords (reversal_writes env ctx body reason v original es)"
  "tx_keeps setting (reversal_writes env ctx body reason v original es)"
  unfolding reversal_writes_def
  by (intro tx_frame reversal_keeps)+

lemma keeps_read_view [tx_frame]: "tx_keeps f (read_view org i)"
  unfolding read_view_def by (intro tx_frame)

lemma keeps_reverse_fresh [tx_frame]:
  "tx_keeps t_idempotencyRecords (reverse_fresh env ctx body reason v original)"
  unfolding reverse_fresh_def by (intro tx_frame)

lemma read_view_Inr: "read_view org i s = Inr (view, s') \<longleftrightarrow> paymentView s org i = Some view \<and> s' = s"
  by (auto simp: read_view_def tx_inv split: option.splits)

abbreviation reversal_key :: "command_context \<Rightarrow> idempotency_key" where
  "reversal_key ctx \<equiv> execution_scope ''reversePayment'' ctx"

lemma reverse_fresh_Inr:
  assumes "reverse_fresh env ctx body reason v original s = Inr (r, s')"
  obtains es s1 rid where "reversal_guards env ctx body v original s = Inr (es, s1)"
    and "core s1 = core s" and "reversal_writes env ctx body reason v original es s1 = Inr (rid, s')"
    and "paymentView s' (cx_organizationId ctx) (cx_paymentId ctx) = Some (rr_original r)"
    and "paymentView s' (cx_organizationId ctx) rid = Some (rr_reversal r)"
proof -
  obtain es s1 rid where g: "reversal_guards env ctx body v original s = Inr (es, s1)"
    and "reversal_writes env ctx body reason v original es s1 = Inr (rid, s')"
    and "paymentView s' (cx_organizationId ctx) (cx_paymentId ctx) = Some (rr_original r)"
    and "paymentView s' (cx_organizationId ctx) rid = Some (rr_reversal r)"
    using assms unfolding reverse_fresh_def
    by (auto simp: tx_bind_Inr tx_return_Inr read_view_Inr)
  then show ?thesis using that tx_keepsD [OF keeps_reversal_guards [OF ignores_core] g] by blast
qed

lemma reverse_Inr:
  assumes "reverse env ctx body s = (Inr r, s')"
  obtains v d where "validate ctx = Inr v" and "trim (rv_reason body) \<noteq> []"
    and "reverse_digest env ctx body (trim (rv_reason body)) = Inr d"
    and "reverse_tx env ctx body (trim (rv_reason body)) v d s = Inr (r, s')" and "commit_guards s s'"
  using assms
  by (auto simp: reverse_def Let_def rethrow_Inr transaction_Inr committed_Inr
    split: sum.splits if_splits)

lemma reversed_tables_core:
  assumes "reversed_tables ctx body v payment es rid t t'" and "core t = core s" and "core s' = core t'"
  shows "reversed_tables ctx body v payment es rid s s'"
proof -
  have "position_units p t = position_units p s" "position_units p s' = position_units p t'" for p
    using assms(2,3) core_position by metis+
  then show ?thesis
    using assms(1) unfolding reversed_tables_def Let_def
    by (simp add: core_eq [OF assms(2)] core_eq [OF assms(3)])
qed

lemma reverse_done:
  assumes "reverse env ctx body s = (Inr r, s')"
    and "findIdempotency (reversal_key ctx) s = None"
  obtains payment v d rid where "validate ctx = Inr v" and "trim (rv_reason body) \<noteq> []"
    and "reverse_digest env ctx body (trim (rv_reason body)) = Inr d"
    and "reversal_checked env s ctx body payment v"
    and "reversed_tables ctx body v payment
      (payment_movements s (cx_organizationId ctx) (cx_paymentId ctx)) rid s s'"
    and "paymentView s' (cx_organizationId ctx) (cx_paymentId ctx) = Some (rr_original r)"
    and "paymentView s' (cx_organizationId ctx) rid = Some (rr_reversal r)"
    and "commit_guards s s'"
    and "findIdempotency (reversal_key ctx) s'
      = Some \<lparr>re_requestDigest = d, re_response = Some (PaymentResponse (rr_original r))\<rparr>"
    and "setting s' = setting s"
proof -
  let ?org = "cx_organizationId ctx" and ?i = "cx_paymentId ctx"
  obtain v d where v: "validate ctx = Inr v" and reason: "trim (rv_reason body) \<noteq> []"
    and d: "reverse_digest env ctx body (trim (rv_reason body)) = Inr d"
    and tx: "reverse_tx env ctx body (trim (rv_reason body)) v d s = Inr (r, s')"
    and commit: "commit_guards s s'"
    using reverse_Inr [OF assms(1)] .
  obtain payment s1 s2 where lock: "lockPayment s ?org ?i = Some payment"
    and auth: "canOperatePayment env s ?org (cx_actorUserId ctx) (authorizationContext payment) ''payment.reverse''"
    and c: "core s1 = core s" "core s' = core s2"
    and proofs: "t_authStepUpProofs s1 = t_authStepUpProofs s" "t_authChallenges s1 = t_authChallenges s"
    and fresh: "reverse_fresh env ctx body (trim (rv_reason body)) v payment s1 = Inr (r, s2)"
    and found: "findIdempotency (reversal_key ctx) s'
      = Some \<lparr>re_requestDigest = d, re_response = Some (PaymentResponse (rr_original r))\<rparr>"
    using keyed_tx_fresh [OF tx [unfolded reverse_tx_keyed] assms(2) keeps_reverse_fresh]
    unfolding comp_apply by blast
  obtain es s3 rid where g: "reversal_guards env ctx body v payment s1 = Inr (es, s3)"
    and c3: "core s3 = core s1"
    and w: "reversal_writes env ctx body (trim (rv_reason body)) v payment es s3 = Inr (rid, s2)"
    and views: "paymentView s2 ?org ?i = Some (rr_original r)" "paymentView s2 ?org rid = Some (rr_reversal r)"
    using reverse_fresh_Inr [OF fresh] by blast
  note gi = reversal_guards_Inr [OF g]
  have es: "es = payment_movements s ?org ?i" using gi(6) c(1) core_payment_movements by metis
  have eff: "effects s1 ?org ?i = effects s ?org ?i" using c(1) core_effects by metis
  have rec: "line_receives s1 o' b l = line_receives s o' b l" for o' b l
    using c(1) core_line_receives by metis
  have pp: "proof_presented env s1 ctx = proof_presented env s ctx"
    by (simp add: proof_presented_def proofs)
  have "reversal_checked env s ctx body payment v"
    using gi lock auth by (simp add: reversal_checked_def Let_def es eff rec pp)
  moreover have "\<exists>d \<in> set (t_paymentDocuments s3). pd_id d = ?i"
  proof -
    obtain x where "find_document s ?org ?i = Some x" using lock by (auto simp: lockPayment_def)
    then have "x \<in> set (t_paymentDocuments s)" "pd_id x = ?i"
      unfolding find_document_def by (auto dest: find_SomeD)
    then show ?thesis using core_eq(1) [OF c3] core_eq(1) [OF c(1)] by auto
  qed
  then have "reversed_tables ctx body v payment (payment_movements s ?org ?i) rid s s'"
    using reversed_tables_core [OF reversal_writes_Inr [OF w]] c c3 es by simp
  moreover have "paymentView s' ?org ?i = Some (rr_original r)" "paymentView s' ?org rid = Some (rr_reversal r)"
    using views c(2) core_paymentView by metis+
  moreover have "setting s' = setting s"
    using tx_keepsD [OF keeps_reversal_writes(2) w] c c3 core_setting by metis
  ultimately show ?thesis using that v reason d commit found by blast
qed

end
