(* ===== verification/Sample.thy ===== *)
theory Sample
  imports Reversal_Facts
begin

text \<open>
  A small concrete treasury for the witnesses of the properties: one organization with a
  cashbox and a bank account, three users whose role carries the payment permissions, and an
  approved payment of two lines. The hash functions are injective stand-ins, which is all
  the theorems rely on.
\<close>

section \<open>The environment\<close>

definition text_order :: "str \<Rightarrow> str \<Rightarrow> int" where
  "text_order a b = (if a = b then 0 else if a < b then -1 else 1)"

definition sample_env :: env where
  "sample_env = \<lparr>he_sha256 = id, he_hmac = (@), he_localeCompare = text_order,
     he_commandKey = replicate 32 (CHR ''k''), env_uuids = (\<lambda>n. ''id-'' @ show_nat n),
     env_clock = (\<lambda>_. 1767350000000), env_now = 1767350000000\<rparr>"

section \<open>The tables\<close>

definition org_row :: organization_row where
  "org_row = \<lparr>og_id = ''org'', og_singletonKey = True, og_code = ''O'', og_legalName = ''Org'',
     og_timezone = ''UTC'', og_baseCurrency = ''IRR'', og_state = ''ACTIVE'', og_version = 0,
     og_createdAt = 0\<rparr>"

definition irr :: currency_row where
  "irr = \<lparr>cu_organizationId = ''org'', cu_code = ''IRR'', cu_name = ''Rial'', cu_englishName = None,
     cu_symbol = None, cu_decimalPlaces = 0, cu_baseCurrency = True, cu_state = ''ACTIVE'',
     cu_version = 0, cu_createdAt = 0\<rparr>"

definition branch :: branch_row where
  "branch = \<lparr>br_id = ''br'', br_organizationId = ''org'', br_code = ''B'', br_name = ''Branch'',
     br_state = ''ACTIVE'', br_version = 0, br_createdAt = 0\<rparr>"

definition unit :: treasury_unit_row where
  "unit = \<lparr>tu_id = ''tu'', tu_organizationId = ''org'', tu_branchId = Some ''br'', tu_code = ''T'',
     tu_name = ''Unit'', tu_defaultCurrency = ''IRR'', tu_state = ''ACTIVE'', tu_version = 0,
     tu_createdAt = 0\<rparr>"

definition user_maker :: user_ref_row where
  "user_maker = \<lparr>us_id = ''maker'', us_organizationId = ''org'', us_subjectKey = ''maker'',
     us_displayName = ''maker'', us_state = ''ACTIVE'', us_version = 0, us_createdAt = 0\<rparr>"

definition account_maker :: identity_account_row where
  "account_maker = \<lparr>ia_id = ''ia_maker'', ia_userRefId = ''maker'', ia_normalizedLogin = ''maker'',
     ia_passwordHash = [], ia_passwordProfileVersion = 0, ia_totpCiphertext = None,
     ia_totpIv = None, ia_totpAuthTag = None, ia_totpKeyVersion = None,
     ia_totpLastCounter = None, ia_recoveryCodeHash = None, ia_recoveryVersion = 0,
     ia_state = ''ACTIVE'', ia_privileged = False, ia_authorizationEpoch = 0, ia_version = 0,
     ia_createdAt = 0\<rparr>"

definition user_boss :: user_ref_row where
  "user_boss = \<lparr>us_id = ''boss'', us_organizationId = ''org'', us_subjectKey = ''boss'',
     us_displayName = ''boss'', us_state = ''ACTIVE'', us_version = 0, us_createdAt = 0\<rparr>"

definition account_boss :: identity_account_row where
  "account_boss = \<lparr>ia_id = ''ia_boss'', ia_userRefId = ''boss'', ia_normalizedLogin = ''boss'',
     ia_passwordHash = [], ia_passwordProfileVersion = 0, ia_totpCiphertext = None,
     ia_totpIv = None, ia_totpAuthTag = None, ia_totpKeyVersion = None,
     ia_totpLastCounter = None, ia_recoveryCodeHash = None, ia_recoveryVersion = 0,
     ia_state = ''ACTIVE'', ia_privileged = False, ia_authorizationEpoch = 0, ia_version = 0,
     ia_createdAt = 0\<rparr>"

definition user_payer :: user_ref_row where
  "user_payer = \<lparr>us_id = ''payer'', us_organizationId = ''org'', us_subjectKey = ''payer'',
     us_displayName = ''payer'', us_state = ''ACTIVE'', us_version = 0, us_createdAt = 0\<rparr>"

definition account_payer :: identity_account_row where
  "account_payer = \<lparr>ia_id = ''ia_payer'', ia_userRefId = ''payer'', ia_normalizedLogin = ''payer'',
     ia_passwordHash = [], ia_passwordProfileVersion = 0, ia_totpCiphertext = None,
     ia_totpIv = None, ia_totpAuthTag = None, ia_totpKeyVersion = None,
     ia_totpLastCounter = None, ia_recoveryCodeHash = None, ia_recoveryVersion = 0,
     ia_state = ''ACTIVE'', ia_privileged = False, ia_authorizationEpoch = 0, ia_version = 0,
     ia_createdAt = 0\<rparr>"

definition user_auditor :: user_ref_row where
  "user_auditor = \<lparr>us_id = ''auditor'', us_organizationId = ''org'', us_subjectKey = ''auditor'',
     us_displayName = ''auditor'', us_state = ''ACTIVE'', us_version = 0, us_createdAt = 0\<rparr>"

definition account_auditor :: identity_account_row where
  "account_auditor = \<lparr>ia_id = ''ia_auditor'', ia_userRefId = ''auditor'', ia_normalizedLogin = ''auditor'',
     ia_passwordHash = [], ia_passwordProfileVersion = 0, ia_totpCiphertext = None,
     ia_totpIv = None, ia_totpAuthTag = None, ia_totpKeyVersion = None,
     ia_totpLastCounter = None, ia_recoveryCodeHash = None, ia_recoveryVersion = 0,
     ia_state = ''ACTIVE'', ia_privileged = False, ia_authorizationEpoch = 0, ia_version = 0,
     ia_createdAt = 0\<rparr>"

definition role :: role_row where
  "role = \<lparr>ro_id = ''ro'', ro_organizationId = ''org'', ro_code = ''R'', ro_name = ''Role'',
     ro_state = ''ACTIVE'', ro_version = 0, ro_createdAt = 0, ro_updatedAt = 0\<rparr>"

definition perm_execute :: role_permission_row where
  "perm_execute = \<lparr>rp_roleId = ''ro'', rp_permission = ''payment.execute''\<rparr>"

definition perm_reverse :: role_permission_row where
  "perm_reverse = \<lparr>rp_roleId = ''ro'', rp_permission = ''payment.reverse''\<rparr>"

definition perm_approve :: role_permission_row where
  "perm_approve = \<lparr>rp_roleId = ''ro'', rp_permission = ''payment.approve''\<rparr>"

definition perm_submit :: role_permission_row where
  "perm_submit = \<lparr>rp_roleId = ''ro'', rp_permission = ''payment.submit''\<rparr>"

definition perm_create :: role_permission_row where
  "perm_create = \<lparr>rp_roleId = ''ro'', rp_permission = ''payment.create''\<rparr>"

definition perm_separation_override :: role_permission_row where
  "perm_separation_override = \<lparr>rp_roleId = ''ro'', rp_permission = ''separation.override''\<rparr>"

definition grant_maker :: access_grant_row where
  "grant_maker = \<lparr>ag_id = ''gr_maker'', ag_organizationId = ''org'', ag_userRefId = ''maker'',
     ag_roleId = ''ro'', ag_scopeType = ''ORGANIZATION'', ag_scopeId = ''org'',
     ag_organizationWide = True, ag_amountCeiling = Some ''1000.00000000'',
     ag_amountCeilingCurrency = Some ''IRR'', ag_validFrom = 0, ag_validTo = None,
     ag_reason = None, ag_state = ''ACTIVE'', ag_version = 0, ag_createdAt = 0, ag_updatedAt = 0\<rparr>"

definition grant_boss :: access_grant_row where
  "grant_boss = \<lparr>ag_id = ''gr_boss'', ag_organizationId = ''org'', ag_userRefId = ''boss'', ag_roleId = ''ro'',
     ag_scopeType = ''ORGANIZATION'', ag_scopeId = ''org'', ag_organizationWide = True,
     ag_amountCeiling = Some ''1000.00000000'', ag_amountCeilingCurrency = Some ''IRR'',
     ag_validFrom = 0, ag_validTo = None, ag_reason = None, ag_state = ''ACTIVE'',
     ag_version = 0, ag_createdAt = 0, ag_updatedAt = 0\<rparr>"

definition grant_payer :: access_grant_row where
  "grant_payer = \<lparr>ag_id = ''gr_payer'', ag_organizationId = ''org'', ag_userRefId = ''payer'',
     ag_roleId = ''ro'', ag_scopeType = ''ORGANIZATION'', ag_scopeId = ''org'',
     ag_organizationWide = True, ag_amountCeiling = Some ''1000.00000000'',
     ag_amountCeilingCurrency = Some ''IRR'', ag_validFrom = 0, ag_validTo = None,
     ag_reason = None, ag_state = ''ACTIVE'', ag_version = 0, ag_createdAt = 0, ag_updatedAt = 0\<rparr>"

definition grant_auditor :: access_grant_row where
  "grant_auditor = \<lparr>ag_id = ''gr_auditor'', ag_organizationId = ''org'', ag_userRefId = ''auditor'',
     ag_roleId = ''ro'', ag_scopeType = ''ORGANIZATION'', ag_scopeId = ''org'',
     ag_organizationWide = True, ag_amountCeiling = Some ''1000.00000000'',
     ag_amountCeilingCurrency = Some ''IRR'', ag_validFrom = 0, ag_validTo = None,
     ag_reason = None, ag_state = ''ACTIVE'', ag_version = 0, ag_createdAt = 0, ag_updatedAt = 0\<rparr>"

definition party :: party_row where
  "party = \<lparr>py_id = ''pa'', py_organizationId = ''org'', py_code = ''P'', py_displayName = ''Party'',
     py_legalName = None, py_nationalId = None, py_registrationId = None, py_phone = None,
     py_email = None, py_notes = None, py_state = ''ACTIVE'', py_mergedIntoPartyId = None,
     py_version = 0, py_createdAt = 0, py_updatedAt = 0\<rparr>"

definition cash_method :: method_definition_row where
  "cash_method = \<lparr>md_id = ''mc'', md_organizationId = ''org'', md_code = ''C'', md_name = ''Cash'',
     md_direction = ''OUT'', md_behaviorCategory = ''CASH'', md_createsFundsInTransit = False,
     md_requiresApproval = False, md_state = ''ACTIVE'', md_version = 0, md_createdAt = 0\<rparr>"

definition bank_method :: method_definition_row where
  "bank_method = \<lparr>md_id = ''mb'', md_organizationId = ''org'', md_code = ''B'', md_name = ''Bank'',
     md_direction = ''OUT'', md_behaviorCategory = ''BANK_TRANSFER'',
     md_createsFundsInTransit = False, md_requiresApproval = False, md_state = ''ACTIVE'',
     md_version = 0, md_createdAt = 0\<rparr>"

definition cashbox :: cashbox_row where
  "cashbox = \<lparr>cb_id = ''cb'', cb_organizationId = ''org'', cb_branchId = None, cb_treasuryUnitId = ''tu'',
     cb_code = ''C'', cb_name = ''Box'', cb_cashboxType = [], cb_mainCurrency = ''IRR'',
     cb_canReceive = True, cb_canPay = True, cb_canTransfer = False, cb_requiresApproval = False,
     cb_accountingDimensions = None, cb_activeFrom = 0, cb_activeTo = None,
     cb_state = ''ACTIVE'', cb_version = 0, cb_createdAt = 0, cb_updatedAt = 0\<rparr>"

definition control :: cashbox_currency_control_row where
  "control = \<lparr>cc_cashboxId = ''cb'', cc_organizationId = ''org'', cc_currency = ''IRR'',
     cc_transactionCeiling = None, cc_minimumPosition = None, cc_maximumHolding = None,
     cc_allowNegative = False\<rparr>"

definition account :: bank_account_row where
  "account = \<lparr>ba_id = ''ba'', ba_organizationId = ''org'', ba_bankId = ''bk'', ba_bankBranchId = None,
     ba_organizationBranchId = None, ba_treasuryUnitId = None, ba_accountType = [],
     ba_accountNumber = ''1'', ba_iban = None, ba_maskedCardNumber = None, ba_currency = ''IRR'',
     ba_legalOwnerName = ''Org'', ba_openingDate = ''2020-01-01'', ba_closingDate = None,
     ba_chequeEnabled = False, ba_canReceive = True, ba_canPay = True, ba_canTransfer = False,
     ba_withdrawalCeiling = None, ba_withdrawalCeilingCurrency = None,
     ba_accountingDimensions = None, ba_state = ''ACTIVE'', ba_version = 0, ba_createdAt = 0,
     ba_updatedAt = 0\<rparr>"

definition challenge :: auth_challenge_row where
  "challenge = \<lparr>ch_id = ''ch'', ch_identityAccountId = ''ia_auditor'', ch_sessionId = Some ''as'',
     ch_tokenDigest = ''t'', ch_kind = ''STEP_UP'', ch_httpMethod = Some ''POST'',
     ch_httpPath = Some ''/p'', ch_requestBodyDigest = Some ''bd'',
     ch_idempotencyKey = Some ''key-0002'', ch_deviceLabel = None, ch_attempts = 0,
     ch_expiresAt = 0, ch_consumedAt = None, ch_createdAt = 0\<rparr>"

definition step_up_proof :: auth_step_up_proof_row where
  "step_up_proof = \<lparr>sp_id = ''sp'', sp_challengeId = ''ch'', sp_tokenDigest = ''pf'', sp_expiresAt = 5000000000000,
     sp_consumedAt = None\<rparr>"

definition cash_in :: movement_fact_row where
  "cash_in = \<lparr>mf_id = ''cash_in'', mf_organizationId = ''org'', mf_owner = ''domain.receipts'',
     mf_sourceType = ''RECEIPT'', mf_sourceId = ''r'', mf_sourceLineId = None,
     mf_effectKey = ''cash_in'', mf_endpointType = ''CASHBOX'', mf_endpointId = ''cb'',
     mf_direction = ''CREDIT'', mf_amount = ''150.00000000'', mf_currency = ''IRR'',
     mf_businessDate = ''2026-01-01'', mf_executedAt = 0, mf_reversalOfFactId = None,
     mf_state = ''POSTED''\<rparr>"

definition bank_in :: movement_fact_row where
  "bank_in = \<lparr>mf_id = ''bank_in'', mf_organizationId = ''org'', mf_owner = ''domain.receipts'',
     mf_sourceType = ''RECEIPT'', mf_sourceId = ''r'', mf_sourceLineId = None,
     mf_effectKey = ''bank_in'', mf_endpointType = ''BANK_ACCOUNT'', mf_endpointId = ''ba'',
     mf_direction = ''CREDIT'', mf_amount = ''200.00000000'', mf_currency = ''IRR'',
     mf_businessDate = ''2026-01-01'', mf_executedAt = 0, mf_reversalOfFactId = None,
     mf_state = ''POSTED''\<rparr>"

definition document :: payment_document_row where
  "document = \<lparr>pd_id = ''11111111-1111-4111-8111-111111111111'', pd_organizationId = ''org'',
     pd_businessNumber = ''20260102-PAY-000001'', pd_businessDate = ''2026-01-02'',
     pd_beneficiaryPartyId = ''pa'', pd_paymentRequestId = None, pd_branchId = None,
     pd_treasuryUnitId = ''tu'', pd_baseCurrency = ''IRR'',
     pd_totalBaseAmount = ''300.00000000'', pd_dueDate = None, pd_purpose = ''goods'',
     pd_creatorUserId = ''maker'', pd_currentApprovalSnapshotId = Some ''sn'',
     pd_reversedPaymentId = None, pd_executedAt = None, pd_executedByUserId = None,
     pd_state = ''APPROVED'', pd_workflowState = ''APPROVED'',
     pd_executionState = ''NOT_EXECUTED'', pd_accountingState = ''NOT_READY'', pd_version = 3,
     pd_createdAt = 0, pd_updatedAt = 0\<rparr>"

definition snapshot :: approval_snapshot_row where
  "snapshot = \<lparr>ps_id = ''sn'', ps_organizationId = ''org'',
     ps_paymentDocumentId = ''11111111-1111-4111-8111-111111111111'', ps_documentVersion = 2,
     ps_amountBasis = ''300.00000000'', ps_baseCurrency = ''IRR'', ps_evaluatedAt = 0\<rparr>"

definition action :: approval_action_row where
  "action = \<lparr>pc_id = ''ac'', pc_organizationId = ''org'', pc_approvalSnapshotId = ''sn'',
     pc_approvalSnapshotStepId = None, pc_stepOrder = None, pc_actorUserId = ''boss'',
     pc_delegatedFromUserId = None, pc_action = ''APPROVED'', pc_reason = Some ''ok'',
     pc_actedAt = 0\<rparr>"

definition line_cash :: payment_line_row where
  "line_cash = \<lparr>pl_id = ''line_cash'', pl_organizationId = ''org'',
     pl_paymentDocumentId = ''11111111-1111-4111-8111-111111111111'', pl_lineNumber = 1,
     pl_methodId = ''mc'', pl_methodName = ''mc'', pl_methodCategory = ''CASH'',
     pl_methodRequiredReferences = [], pl_requiresApproval = False, pl_amount = ''100.00000000'',
     pl_currency = ''IRR'', pl_baseCurrency = ''IRR'', pl_exchangeRate = ''1.000000000000'',
     pl_rateType = ''IDENTITY'', pl_rateSource = ''IDENTITY'', pl_rateRecordId = None,
     pl_rateAt = 0, pl_baseAmount = ''100.00000000'', pl_roundingDifference = ''0.00000000'',
     pl_cashboxId = Some ''cb'', pl_bankAccountId = None, pl_beneficiaryPartyId = ''pa'',
     pl_beneficiaryAccountReference = None, pl_trackingNumber = None, pl_dueDate = None,
     pl_description = None, pl_accountingDimensions = None, pl_executedAt = None,
     pl_executedByUserId = None, pl_state = ''DRAFT'', pl_version = 0, pl_createdAt = 0,
     pl_updatedAt = 0\<rparr>"

definition line_bank :: payment_line_row where
  "line_bank = \<lparr>pl_id = ''line_bank'', pl_organizationId = ''org'',
     pl_paymentDocumentId = ''11111111-1111-4111-8111-111111111111'', pl_lineNumber = 2,
     pl_methodId = ''mb'', pl_methodName = ''mb'', pl_methodCategory = ''BANK_TRANSFER'',
     pl_methodRequiredReferences = [], pl_requiresApproval = False, pl_amount = ''200.00000000'',
     pl_currency = ''IRR'', pl_baseCurrency = ''IRR'', pl_exchangeRate = ''1.000000000000'',
     pl_rateType = ''IDENTITY'', pl_rateSource = ''IDENTITY'', pl_rateRecordId = None,
     pl_rateAt = 0, pl_baseAmount = ''200.00000000'', pl_roundingDifference = ''0.00000000'',
     pl_cashboxId = None, pl_bankAccountId = Some ''ba'', pl_beneficiaryPartyId = ''pa'',
     pl_beneficiaryAccountReference = Some ''IR00'', pl_trackingNumber = None, pl_dueDate = None,
     pl_description = None, pl_accountingDimensions = None, pl_executedAt = None,
     pl_executedByUserId = None, pl_state = ''DRAFT'', pl_version = 0, pl_createdAt = 0,
     pl_updatedAt = 0\<rparr>"

definition sample_db :: payment_db where
  "sample_db = \<lparr>
     uuids_drawn = 0,
     clock_reads = 0,
     advisory_locks = [],
     t_currencies = [irr],
     t_organizations = [org_row],
     t_branches = [branch],
     t_treasuryUnits = [unit],
     t_userRefs = [user_maker, user_boss, user_payer, user_auditor],
     t_roles = [role],
     t_parties = [party],
     t_methodDefinitions = [cash_method, bank_method],
     t_methodMappings = [],
     t_methodRequiredReferences = [],
     t_methodAllowedCurrencies = [],
     t_methodAmountLimits = [],
     t_cashboxes = [cashbox],
     t_cashboxCurrencyControls = [control],
     t_cashboxDays = [],
     t_bankAccounts = [account],
     t_exchangeRates = [],
     t_attachments = [],
     t_approvalPolicies = [],
     t_approvalSteps = [],
     t_identityAccounts = [account_maker, account_boss, account_payer, account_auditor],
     t_rolePermissions = [perm_execute, perm_reverse, perm_approve, perm_submit, perm_create, perm_separation_override],
     t_accessGrants = [grant_maker, grant_boss, grant_payer, grant_auditor],
     t_delegations = [],
     t_accessGrantBranchScopes = [],
     t_accessGrantTreasuryUnitScopes = [],
     t_accessGrantCashboxScopes = [],
     t_accessGrantBankAccountScopes = [],
     t_accessGrantDocumentTypeScopes = [],
     t_accessGrantMethodCategoryScopes = [],
     t_accessGrantCurrencyScopes = [],
     t_authChallenges = [challenge],
     t_authStepUpProofs = [step_up_proof],
     t_idempotencyRecords = [],
     t_movementFacts = [cash_in, bank_in],
     t_auditEvents = [],
     t_outboxEvents = [],
     t_paymentRequestNumberCounters = [],
     t_paymentNumberCounters = [],
     t_paymentRequests = [],
     t_paymentDocuments = [document],
     t_paymentApprovalSnapshots = [snapshot],
     t_paymentApprovalSnapshotContexts = [],
     t_paymentApprovalSnapshotSteps = [],
     t_paymentApprovalActions = [action],
     t_paymentApprovalAggregations = [],
     t_paymentApprovalAggregationParticipants = [],
     t_paymentLines = [line_cash, line_bank],
     t_paymentAllocations = [],
     t_paymentReservations = [],
     t_bankInstructions = [],
     t_paymentExecutionEffects = [],
     t_paymentRequestAttachmentLinks = [],
     t_paymentLineAttachmentLinks = []\<rparr>"

section \<open>Commands\<close>

definition sample_ctx :: command_context where
  "sample_ctx = \<lparr>cx_organizationId = ''org'', cx_actorUserId = ''payer'',
     cx_physicalSessionId = ''ps'', cx_paymentId = pd_id document, cx_key = ''key-0001'',
     cx_ifMatch = CHR 0x22 # ''3'' @ [CHR 0x22], cx_requestId = ''req-1'', cx_stepUp = None\<rparr>"

definition other_key_ctx :: command_context where
  "other_key_ctx = sample_ctx\<lparr>cx_key := ''key-0009''\<rparr>"

definition override_body :: payment_execute where
  "override_body = \<lparr>ex_separationOverride = \<lparr>so_reason = ''ok'', so_independentApprovalActionId = ''ac''\<rparr>,
     ex_body = JObject [(''separationOverride'', JNull)]\<rparr>"

definition sample_payment :: locked_payment where
  "sample_payment = \<lparr>lk_document = document,
     lk_lines = [\<lparr>kl_line = line_cash, kl_methodState = ''ACTIVE''\<rparr>,
       \<lparr>kl_line = line_bank, kl_methodState = ''ACTIVE''\<rparr>],
     lk_approverUserIds = [''boss''], lk_allocations = [], lk_reservations = [],
     lk_effectiveBranchId = Some ''br''\<rparr>"

definition reverse_ctx :: command_context where
  "reverse_ctx = \<lparr>cx_organizationId = ''org'', cx_actorUserId = ''auditor'',
     cx_physicalSessionId = ''as'', cx_paymentId = pd_id document, cx_key = ''key-0002'',
     cx_ifMatch = CHR 0x22 # ''4'' @ [CHR 0x22], cx_requestId = ''req-2'',
     cx_stepUp = Some \<lparr>st_proofId = ''pf'', st_method = ''POST'', st_path = ''/p'',
       st_bodyDigest = ''bd'', st_idempotencyKey = ''key-0002''\<rparr>\<rparr>"

definition reverse_other_ctx :: command_context where
  "reverse_other_ctx = reverse_ctx\<lparr>cx_key := ''key-0010''\<rparr>"

definition reverse_body :: payment_reverse where
  "reverse_body = \<lparr>rv_reason = ''wrong payee'', rv_businessDate = ''2026-01-03'', rv_body = []\<rparr>"

section \<open>The payment executed and reversed\<close>

definition executed_db :: payment_db where
  "executed_db = snd (execute sample_env sample_ctx None sample_db)"

definition reversed_db :: payment_db where
  "reversed_db = snd (reverse sample_env reverse_ctx reverse_body executed_db)"

text \<open>The run, evaluated once: both commands succeed, and the other keys are unused before them.\<close>

lemma runD:
  "(case r of (Inl e, t) \<Rightarrow> False | (Inr a, t) \<Rightarrow> P t) \<Longrightarrow> (\<exists>a. r = (Inr a, snd r)) \<and> P (snd r)"
  by (cases r) (auto split: sum.splits)

lemma sample_run:
  "case execute sample_env sample_ctx None sample_db of (Inl e, t) \<Rightarrow> False | (Inr a, t) \<Rightarrow>
     findIdempotency (execution_scope ''executePayment'' other_key_ctx) t = None
     \<and> findIdempotency (execution_scope ''reversePayment'' reverse_ctx) t = None
     \<and> (case reverse sample_env reverse_ctx reverse_body t of (Inl e, u) \<Rightarrow> False | (Inr r, u) \<Rightarrow>
           findIdempotency (execution_scope ''reversePayment'' reverse_other_ctx) u = None)"
  by code_simp

lemmas sample_runD = runD [OF sample_run, folded executed_db_def]

lemma sample_executed: "\<exists>view. execute sample_env sample_ctx None sample_db = (Inr view, executed_db)"
  by (rule sample_runD [THEN conjunct1])

lemma executed_keys:
  "findIdempotency (execution_key other_key_ctx) executed_db = None"
  "findIdempotency (reversal_key reverse_ctx) executed_db = None"
  by (rule sample_runD [THEN conjunct2, THEN conjunct1],
      rule sample_runD [THEN conjunct2, THEN conjunct2, THEN conjunct1])

lemma sample_reversed: "\<exists>r. reverse sample_env reverse_ctx reverse_body executed_db = (Inr r, reversed_db)"
  by (rule runD [OF sample_runD [THEN conjunct2, THEN conjunct2, THEN conjunct2],
      folded reversed_db_def, THEN conjunct1])

lemma reversed_other_key: "findIdempotency (reversal_key reverse_other_ctx) reversed_db = None"
  by (rule runD [OF sample_runD [THEN conjunct2, THEN conjunct2, THEN conjunct2],
      folded reversed_db_def, THEN conjunct2])

lemma sample_fresh: "findIdempotency (execution_key sample_ctx) sample_db = None"
  by code_simp

lemma sample_locked:
  "lockPayment sample_db (cx_organizationId sample_ctx) (cx_paymentId sample_ctx) = Some sample_payment"
  by code_simp

lemma sample_valid: "validate sample_ctx = Inr 3" "validate other_key_ctx = Inr 3"
  by code_simp+

end
