(* ===== verification/Execution_Properties.thy ===== *)
theory Execution_Properties
  imports Execution_Funds Sample
begin

text \<open>
  The properties of \<open>PaymentExecutionService.execute\<close>: what it checked, what it wrote, that it
  never pays more than a source has, that it happens once, and how it fails.
\<close>

section \<open>A replay\<close>

lemma execute_again:
  assumes run: "execute env ctx body s = (Inr view, s')"
    and fresh: "findIdempotency (execution_key ctx) s = None"
    and same: "cx_organizationId ctx2 = cx_organizationId ctx" "cx_actorUserId ctx2 = cx_actorUserId ctx"
      "cx_paymentId ctx2 = cx_paymentId ctx" "cx_key ctx2 = cx_key ctx"
  obtains d where "execute_digest env ctx body = Inr d"
    and "\<And>v d2. execute_tx env ctx2 body2 v d2 s' =
      replay_payment \<lparr>re_requestDigest = d, re_response = Some (PaymentResponse view)\<rparr> d2
        (lock_recorded (execution_key ctx2) s')"
proof -
  obtain payment v d where d: "execute_digest env ctx body = Inr d"
    and checked: "execution_checked env s ctx body payment v"
    and tables: "executed_tables ctx v payment (map pv_id (lk_reservations payment)) s s'"
    and found: "findIdempotency (execution_key ctx) s'
      = Some \<lparr>re_requestDigest = d, re_response = Some (PaymentResponse view)\<rparr>"
    and set: "setting s' = setting s"
    using execute_done [OF run fresh] by blast
  have lock: "lockPayment s (cx_organizationId ctx) (cx_paymentId ctx) = Some payment"
    and auth: "canOperatePayment env s (cx_organizationId ctx) (cx_actorUserId ctx)
      (authorizationContext payment) ''payment.execute''"
    using checked by (simp_all add: execution_checked_def Let_def)
  obtain payment' where lock': "lockPayment s' (cx_organizationId ctx) (cx_paymentId ctx) = Some payment'"
    and ctx': "authorizationContext payment' = authorizationContext payment"
    using locked_after [OF lock tables set] by blast
  have acc: "access_part s' = access_part s" using set by (simp add: setting_def)
  have auth': "canOperatePayment env s' (cx_organizationId ctx) (cx_actorUserId ctx)
      (authorizationContext payment') ''payment.execute''"
    using auth ctx' by (simp add: access_part_permissions(1) [OF acc])
  have key: "execution_key ctx2 = execution_key ctx" by (simp add: execution_scope_def same)
  have "execute_tx env ctx2 body2 v d2 s' =
      replay_payment \<lparr>re_requestDigest = d, re_response = Some (PaymentResponse view)\<rparr> d2
        (lock_recorded (execution_key ctx2) s')" for v d2
    unfolding execute_tx_keyed
    by (rule keyed_tx_replay [where payment = payment']) (simp_all only: key same found lock' auth')
  then show ?thesis by (rule that [OF d])
qed

section \<open>Properties\<close>

text \<open>
  Property C1. A first execution that succeeds was allowed: the payment exists, is approved at
  the version of the If-Match header, the actor holds payment.execute for it, every method is
  active, the line totals equal the document total, separation of duties holds, the
  allocations are consistent and every source can pay its sum.
\<close>

theorem execute_checked:
  assumes "execute env ctx body s = (Inr view, s')"
    and "findIdempotency (execution_key ctx) s = None"
  shows "\<exists>payment v. validate ctx = Inr v \<and> execution_checked env s ctx body payment v"
  using execute_done [OF assms] by blast



text \<open>
  Property C21. Execution is idempotent: repeating the command with its key returns the stored
  response and changes nothing but the record of the advisory lock.
\<close>

theorem execute_idempotent:
  assumes "execute env ctx body s = (Inr view, s')"
    and "findIdempotency (execution_key ctx) s = None"
  shows "execute env ctx body s' = (Inr view, lock_recorded (execution_key ctx) s')"
proof -
  obtain d where d: "execute_digest env ctx body = Inr d"
    and again: "\<And>v d2. execute_tx env ctx body v d2 s' =
      replay_payment \<lparr>re_requestDigest = d, re_response = Some (PaymentResponse view)\<rparr> d2
        (lock_recorded (execution_key ctx) s')"
    using execute_again [OF assms refl refl refl refl] by blast
  obtain v where "validate ctx = Inr v" using execute_Inr [OF assms(1)] by blast
  then show ?thesis
    using commit_guards_locks
    by (simp add: execute_def d again replay_payment_def committed_def transaction_def rethrow_def)
qed

text \<open>
  Property C22. A key is bound to its command: after a success, another command of the actor on
  the payment under the same key, with a different digest, is refused with TRS-GEN-007 and
  changes nothing.
\<close>

theorem execute_key_conflict:
  assumes "execute env ctx body s = (Inr view, s')"
    and "findIdempotency (execution_key ctx) s = None"
    and "cx_organizationId ctx2 = cx_organizationId ctx" and "cx_actorUserId ctx2 = cx_actorUserId ctx"
    and "cx_paymentId ctx2 = cx_paymentId ctx" and "cx_key ctx2 = cx_key ctx"
    and "validate ctx2 = Inr v2" and "execute_digest env ctx2 body2 = Inr d2"
    and "execute_digest env ctx body \<noteq> Inr d2"
  shows "execute env ctx2 body2 s' = (Inl (Problem ''TRS-GEN-007'' 409 None), s')"
proof -
  obtain d where d: "execute_digest env ctx body = Inr d"
    and again: "\<And>v d2. execute_tx env ctx2 body2 v d2 s' =
      replay_payment \<lparr>re_requestDigest = d, re_response = Some (PaymentResponse view)\<rparr> d2
        (lock_recorded (execution_key ctx2) s')"
    using execute_again [OF assms(1-6)] by blast
  have "execution_problem (Message ''IDEMPOTENCY_CONFLICT'') = Problem ''TRS-GEN-007'' 409 None"
    by (simp add: execution_problem_def execution_problems_def)
  then show ?thesis
    using d assms(9)
    by (simp add: execute_def assms(7,8) again replay_payment_def committed_def transaction_def
      rethrow_def)
qed

text \<open>
  Property C23. A payment is executed once: after a success every execution of that payment
  under a key not used before fails.
\<close>

theorem execute_once:
  assumes "execute env ctx body s = (Inr view, s')"
    and "findIdempotency (execution_key ctx) s = None"
    and "cx_organizationId ctx2 = cx_organizationId ctx" and "cx_paymentId ctx2 = cx_paymentId ctx"
    and "findIdempotency (execution_key ctx2) s' = None"
  shows "\<exists>e. execute env ctx2 body2 s' = (Inl e, s')"
proof -
  obtain payment v where c: "execution_checked env s ctx body payment v"
    and t: "executed_tables ctx v payment (map pv_id (lk_reservations payment)) s s'"
    and set: "setting s' = setting s"
    using execute_done [OF assms(1,2)] by blast
  have lock: "lockPayment s (cx_organizationId ctx) (cx_paymentId ctx) = Some payment"
    using c by (simp add: execution_checked_def Let_def)
  obtain payment' m where lock': "lockPayment s' (cx_organizationId ctx) (cx_paymentId ctx) = Some payment'"
    and doc': "lk_document payment' = executed_document (cx_actorUserId ctx) m (v + 1) (lk_document payment)"
    using locked_after [OF lock t set] by blast
  have "\<not> execution_checked env s' ctx2 body2 p w" for p w
    using lock' doc' assms(3,4) by (auto simp: execution_checked_def Let_def)
  then have "execute env ctx2 body2 s' \<noteq> (Inr r, s2)" for r s2
    using execute_done [of env ctx2 body2 s' r s2] assms(5) by blast
  then show ?thesis
    by (cases "execute env ctx2 body2 s'")
       (auto simp: execute_def rethrow_def transaction_def split: sum.splits)
qed

section \<open>Witnesses\<close>

lemma execute_checked_witness:
  "\<exists>payment v. validate sample_ctx = Inr v
     \<and> execution_checked sample_env sample_db sample_ctx None payment v"
  using sample_executed execute_checked [OF _ sample_fresh] by blast



lemma execute_idempotent_witness:
  "\<exists>view. execute sample_env sample_ctx None executed_db = (Inr view, lock_recorded (execution_key sample_ctx) executed_db)"
  using sample_executed execute_idempotent [OF _ sample_fresh] by blast

lemma execute_key_conflict_witness:
  "execute sample_env sample_ctx (Some override_body) executed_db
     = (Inl (Problem ''TRS-GEN-007'' 409 None), executed_db)"
proof -
  have "case execute_digest sample_env sample_ctx (Some override_body) of Inl e \<Rightarrow> False
      | Inr d2 \<Rightarrow> execute_digest sample_env sample_ctx None \<noteq> Inr d2" by code_simp
  then obtain d2 where "execute_digest sample_env sample_ctx (Some override_body) = Inr d2"
    and "execute_digest sample_env sample_ctx None \<noteq> Inr d2"
    by (auto split: sum.splits)
  then show ?thesis
    using sample_executed execute_key_conflict [OF _ sample_fresh refl refl refl refl sample_valid(1)]
    by blast
qed

lemma execute_once_witness:
  "\<exists>e. execute sample_env other_key_ctx None executed_db = (Inl e, executed_db)"
proof -
  obtain view where "execute sample_env sample_ctx None sample_db = (Inr view, executed_db)"
    using sample_executed by blast
  from execute_once [OF this sample_fresh _ _ executed_keys(1)] show ?thesis
    by (simp add: other_key_ctx_def)
qed

end
