(* ===== verification/Reversal_Funds.thy ===== *)
theory Reversal_Funds
  imports Execution_Funds Reversal_Facts
begin

text \<open>
  The money of a reversal: what it puts back on each position is what the execution of the
  payment took. The argument counts: a reversal demands as many movements as the payment has
  lines, and the execution has posted one movement for each.
\<close>

section \<open>Sums over the effects of a payment\<close>

lemma numeric8_pg_numeric: "pg_numeric 8 t = Inr a \<Longrightarrow> numeric8 a"
  by (auto simp: pg_numeric_def Let_def split: if_splits intro!: numeric8_formatScaled)

lemma numeric_units_stored: "Inr a = pg_numeric 8 t \<Longrightarrow> numeric_units a = numeric_units t"
  using numeric8_pg_numeric [of t a] by (simp add: numeric_units_def)

lemma sum_filter_disjoint:
  fixes g :: "'a \<Rightarrow> int"
  assumes "\<And>x. \<not> (P x \<and> Q x)"
  shows "sum_list (map g (filter (\<lambda>x. P x \<or> Q x) xs))
    = sum_list (map g (filter P xs)) + sum_list (map g (filter Q xs))"
  using assms by (induction xs) auto

lemma sum_by_key:
  fixes g :: "'a \<Rightarrow> int"
  assumes "distinct ks"
  shows "sum_list (map g (concat (map (\<lambda>k. filter (\<lambda>x. P x \<and> key x = k) xs) ks)))
    = sum_list (map g (filter (\<lambda>x. P x \<and> key x \<in> set ks) xs))"
  using assms
proof (induction ks)
  case (Cons k ks)
  have "filter (\<lambda>x. P x \<and> key x \<in> set (k # ks)) xs
      = filter (\<lambda>x. (P x \<and> key x = k) \<or> (P x \<and> key x \<in> set ks)) xs"
    by (rule filter_cong) auto
  then show ?case
    using Cons sum_filter_disjoint [of "\<lambda>x. P x \<and> key x = k" "\<lambda>x. P x \<and> key x \<in> set ks" g xs]
    by simp
qed simp

lemma sum_order_by: "sum_list (map (g :: 'a \<Rightarrow> int) (filter P (order_by k xs))) = sum_list (map g (filter P xs))"
proof -
  have "mset (filter P (order_by k xs)) = mset (filter P xs)" by (simp add: order_by_def)
  then have "mset (map g (filter P (order_by k xs))) = mset (map g (filter P xs))" by (metis mset_map)
  then show ?thesis by (metis sum_mset_sum_list)
qed

text \<open>The rows of the effect table that are movements of a payment.\<close>

definition is_movement_of :: "'z payment_db_scheme \<Rightarrow> uuid \<Rightarrow> uuid \<Rightarrow> execution_effect_row \<Rightarrow> bool" where
  "is_movement_of s org i e \<longleftrightarrow> (pe_organizationId e = org \<and> pe_movementFactId e \<noteq> None)
     \<and> pe_paymentLineId e \<in> pl_id ` {l \<in> set (t_paymentLines s). is_line_of org i l}"

lemma sum_payment_movements:
  fixes g :: "execution_effect_row \<Rightarrow> int"
  assumes "distinct (map pl_id (t_paymentLines s))"
  shows "sum_list (map g (payment_movements s org i))
    = sum_list (map g (filter (is_movement_of s org i) (t_paymentExecutionEffects s)))"
proof -
  let ?L = "order_by pl_lineNumber (filter (is_line_of org i) (t_paymentLines s))"
  let ?M = "\<lambda>e. pe_organizationId e = org \<and> pe_movementFactId e \<noteq> None"
  have "distinct (map pl_id (filter (is_line_of org i) (t_paymentLines s)))"
    using assms by (rule distinct_map_filter)
  then have d: "distinct (map pl_id ?L)"
    by (metis order_by_def distinct_map distinct_sort set_sort)
  have ids: "set (map pl_id ?L) = pl_id ` {l \<in> set (t_paymentLines s). is_line_of org i l}"
    by simp
  have pm: "payment_movements s org i = concat (map (\<lambda>l. filter (\<lambda>e. pe_movementFactId e \<noteq> None)
      (order_by pe_createdAt (filter (\<lambda>e. pe_organizationId e = org \<and> pe_paymentLineId e = pl_id l)
        (t_paymentExecutionEffects s)))) ?L)"
    by (simp add: payment_movements_def effects_def map_concat filter_concat comp_def)
  have sums: "sum_list (map g (concat (map (\<lambda>l. filter (\<lambda>e. pe_movementFactId e \<noteq> None)
      (order_by pe_createdAt (filter (\<lambda>e. pe_organizationId e = org \<and> pe_paymentLineId e = pl_id l)
        (t_paymentExecutionEffects s)))) ls)))
    = sum_list (map g (concat (map (\<lambda>k. filter (\<lambda>e. ?M e \<and> pe_paymentLineId e = k)
        (t_paymentExecutionEffects s)) (map pl_id ls))))" for ls
  proof (induction ls)
    case (Cons l ls)
    have "filter (\<lambda>e. pe_movementFactId e \<noteq> None) (filter
        (\<lambda>e. pe_organizationId e = org \<and> pe_paymentLineId e = pl_id l) (t_paymentExecutionEffects s))
      = filter (\<lambda>e. ?M e \<and> pe_paymentLineId e = pl_id l) (t_paymentExecutionEffects s)"
      by (simp add: filter_filter) (rule filter_cong, auto)
    then show ?case using Cons by (simp add: sum_order_by)
  qed simp
  show ?thesis
    unfolding pm sums sum_by_key [of "map pl_id ?L" g ?M pe_paymentLineId, OF d] ids
      is_movement_of_def [abs_def] ..
qed


section \<open>The movements of an execution\<close>

lemma locked_lines_filter:
  "map kl_line (locked_lines s org i) = filter
     (\<lambda>l. find (\<lambda>m. md_organizationId m = org \<and> md_id m = pl_methodId l) (t_methodDefinitions s) \<noteq> None)
     (order_by pl_lineNumber (filter (is_line_of org i) (t_paymentLines s)))"
proof -
  have p: "(\<lambda>l. pl_organizationId l = org \<and> pl_paymentDocumentId l = i) = is_line_of org i"
    by (simp add: fun_eq_iff is_line_of_def)
  have "map kl_line (concat (map (\<lambda>l. case f l of None \<Rightarrow> []
      | Some m \<Rightarrow> [\<lparr>kl_line = l, kl_methodState = md_state m\<rparr>]) xs)) = filter (\<lambda>l. f l \<noteq> None) xs" for f xs
    by (induction xs) (auto split: option.splits)
  then show ?thesis unfolding locked_lines_def p by simp
qed

lemma lockPayment_Some:
  assumes "lockPayment s org i = Some payment"
  shows "pd_organizationId (lk_document payment) = org" and "lk_lines payment = locked_lines s org i"
  using assms by (auto simp: lockPayment_def find_document_def dest!: find_SomeD)

lemma locked_line_ids:
  assumes "lockPayment s org i = Some payment" and "distinct (map pl_id (t_paymentLines s))"
  shows "distinct (map pl_id (map kl_line (lk_lines payment)))"
    and "l \<in> set (map kl_line (lk_lines payment)) \<Longrightarrow> l \<in> set (t_paymentLines s) \<and> is_line_of org i l"
proof -
  have "distinct (map pl_id (filter (is_line_of org i) (t_paymentLines s)))"
    using assms(2) by (rule distinct_map_filter)
  then have "distinct (map pl_id (order_by pl_lineNumber (filter (is_line_of org i) (t_paymentLines s))))"
    by (metis order_by_def distinct_map distinct_sort set_sort)
  then show "distinct (map pl_id (map kl_line (lk_lines payment)))"
    unfolding lockPayment_Some(2) [OF assms(1)] locked_lines_filter by (rule distinct_map_filter)
  show "l \<in> set (t_paymentLines s) \<and> is_line_of org i l" if "l \<in> set (map kl_line (lk_lines payment))"
    using that unfolding lockPayment_Some(2) [OF assms(1)] locked_lines_filter by auto
qed

lemma find_by_id:
  assumes "distinct (map pl_id ls)" and "l \<in> set ls" and "\<And>x. pl_id (f x) = pl_id x"
  shows "find (\<lambda>x. pl_id x = pl_id l) (map f ls) = Some (f l)"
  using assms(1,2) by (induction ls) (auto simp: assms(3))

lemma is_movement_of_after:
  assumes "t_paymentLines s' = update_where (is_line_of org i) (executed_line u m) (t_paymentLines s)"
  shows "is_movement_of s' org i = is_movement_of s org i"
proof -
  have "pl_id ` {l \<in> set (update_where q f xs). q l} = pl_id ` {l \<in> set xs. q l}"
    if "\<And>x. pl_id (f x) = pl_id x" "\<And>x. q (f x) = q x" for q f and xs :: "payment_line_row list"
  proof -
    have "{l \<in> set (update_where q f xs). q l} = f ` {l \<in> set xs. q l}"
      by (auto simp: set_update_where that(2))
    then show ?thesis by (simp add: image_image that(1))
  qed
  from this [of "executed_line u m" "is_line_of org i" "t_paymentLines s"]
  have "pl_id ` {l \<in> set (t_paymentLines s'). is_line_of org i l} = pl_id ` {l \<in> set (t_paymentLines s). is_line_of org i l}"
    by (simp add: assms executed_line_def is_line_of_def)
  then show ?thesis by (simp add: fun_eq_iff is_movement_of_def)
qed

lemma line_effects_movement:
  assumes "line_effects d v l es" and "pd_organizationId d = org"
    and "l \<in> set (t_paymentLines s)" and "is_line_of org i l"
  shows "filter (is_movement_of s org i) es = [hd es]"
proof -
  obtain e r where es: "es = e # r" "\<forall>x \<in> set es. effect_of d v l x" "pe_movementFactId e \<noteq> None"
    and r: "\<forall>x \<in> set r. pe_movementFactId x = None"
    using assms(1) by (auto simp: line_effects_def)
  have "filter (is_movement_of s org i) r = []"
    using r by (auto simp: filter_empty_conv is_movement_of_def)
  moreover have "is_movement_of s org i e"
    using es assms(2-4) by (auto simp: is_movement_of_def effect_of_def)
  ultimately show ?thesis by (simp add: es(1))
qed

text \<open>The first effect of a line concerns the endpoint the line was paid from.\<close>

lemma line_effects_returned:
  assumes "line_effects d v l es" and "pd_organizationId d = org"
    and "distinct (map pl_id ls)" and "l \<in> set ls"
  shows "effect_endpoint org (map (executed_line u m) ls) (hd es) = line_endpoint d l"
    and "numeric_units (pe_amount (hd es)) = numeric_units (pl_amount l)"
proof -
  obtain e r where es: "es = e # r" and e: "effect_of d v l e"
    and t: "pe_effectType e = (if pl_methodCategory l = ''CASH'' then ''CASHBOX_MOVEMENT'' else ''BANK_MOVEMENT'')"
    using assms(1) by (auto simp: line_effects_def)
  have "find (\<lambda>x. pl_id x = pl_id l) (map (executed_line u m) ls) = Some (executed_line u m l)"
    by (rule find_by_id [OF assms(3,4)]) (simp add: executed_line_def)
  then show "effect_endpoint org (map (executed_line u m) ls) (hd es) = line_endpoint d l"
    using e t assms(2) by (auto simp: es effect_endpoint_def line_endpoint_def effect_of_def)
  show "numeric_units (pe_amount (hd es)) = numeric_units (pl_amount l)"
    using e by (auto simp: es effect_of_def dest: numeric_units_stored)
qed


lemma executed_returned:
  fixes s s' :: "'z payment_db_scheme"
  assumes lock: "lockPayment s (cx_organizationId ctx) (cx_paymentId ctx) = Some payment"
    and tables: "executed_tables ctx v payment ids s s'"
    and ids: "distinct (map pl_id (t_paymentLines s))"
    and count: "length (payment_movements s' (cx_organizationId ctx) (cx_paymentId ctx))
      = length (lk_lines payment)"
  shows "returned_to (cx_organizationId ctx) (map (executed_line u m) (map kl_line (lk_lines payment))) p
      (payment_movements s' (cx_organizationId ctx) (cx_paymentId ctx))
    = paid_from (lk_document payment) p (map kl_line (lk_lines payment))"
proof -
  let ?org = "cx_organizationId ctx" and ?i = "cx_paymentId ctx" and ?d = "lk_document payment"
  let ?ls = "map kl_line (lk_lines payment)" and ?M = "is_movement_of s (cx_organizationId ctx) (cx_paymentId ctx)"
  let ?g = "\<lambda>e. if effect_endpoint ?org (map (executed_line u m) ?ls) e = p then numeric_units (pe_amount e) else 0"
  obtain w where lines': "t_paymentLines s' = update_where (is_line_of ?org ?i) (executed_line (cx_actorUserId ctx) w) (t_paymentLines s)"
    using tables by (auto simp: executed_tables_def Let_def)
  obtain ess where new: "t_paymentExecutionEffects s' = t_paymentExecutionEffects s @ concat ess"
    and all: "list_all2 (line_effects ?d (v + 1)) ?ls ess"
    using tables by (auto simp: executed_tables_def Let_def)
  have org: "pd_organizationId ?d = ?org" by (rule lockPayment_Some(1) [OF lock])
  note dls = locked_line_ids(1) [OF lock ids]
  have ids': "distinct (map pl_id (t_paymentLines s'))"
    using ids map_update_where_id [of pl_id "executed_line (cx_actorUserId ctx) w"]
    by (simp add: lines' executed_line_def)
  have heads: "filter ?M (concat ess) = map hd ess \<and> sum_list (map ?g (map hd ess))
      = sum_list (map (\<lambda>l. if line_endpoint ?d l = p then numeric_units (pl_amount l) else 0) ls)"
    if "list_all2 (line_effects ?d (v + 1)) ls ess" "set ls \<subseteq> set ?ls" for ls ess
    using that
  proof (induction rule: list_all2_induct)
    case (Cons l ls es ess)
    have l: "l \<in> set (map kl_line (lk_lines payment))" using Cons.prems by simp
    note mem = locked_line_ids(2) [OF lock ids l]
    show ?case
      using Cons.IH Cons.prems line_effects_movement [OF Cons.hyps(1) org, of s ?i] mem
        line_effects_returned [OF Cons.hyps(1) org dls l]
      by simp
  qed simp
  let ?N = "payment_movements s' ?org ?i"
  have sum: "sum_list (map g ?N) = sum_list (map g (filter ?M (t_paymentExecutionEffects s)))
      + sum_list (map g (map hd ess))" for g :: "execution_effect_row \<Rightarrow> int"
    using sum_payment_movements [OF ids', of g ?org ?i] heads [OF all]
    by (simp add: is_movement_of_after [OF lines'] new)
  have "int (length ?N) = int (length (filter ?M (t_paymentExecutionEffects s))) + int (length ess)"
    using sum [of "\<lambda>_. 1"] by (simp add: sum_list_triv comp_def)
  moreover have "length ess = length ?ls" using list_all2_lengthD [OF all] by simp
  ultimately have "filter ?M (t_paymentExecutionEffects s) = []" using count by simp
  then have "sum_list (map ?g ?N) = sum_list (map ?g (map hd ess))" using sum [of ?g] by simp
  also have "\<dots> = sum_list (map (\<lambda>l. if line_endpoint ?d l = p then numeric_units (pl_amount l) else 0) ?ls)"
    using heads [OF all] by simp
  also have "\<dots> = paid_from ?d p ?ls"
    unfolding paid_from_def sum_list_map_filter' comp_def by simp
  finally show ?thesis by (simp add: returned_to_def)
qed

end
