(* ===== verification/Reversal_Properties.thy ===== *)
theory Reversal_Properties
  imports Reversal_Funds Sample
begin

text \<open>
  The properties of \<open>PaymentExecutionService.reverse\<close>: who may reverse what, what a reversal
  writes, that it restores the positions the execution changed, and that a payment is reversed
  once.
\<close>

section \<open>The original after its reversal\<close>

lemma reversed_fields [simp]:
  "pl_lineNumber (reversed_line m l) = pl_lineNumber l" "pl_methodId (reversed_line m l) = pl_methodId l"
  "pl_cashboxId (reversed_line m l) = pl_cashboxId l"
  "pl_bankAccountId (reversed_line m l) = pl_bankAccountId l"
  "pl_currency (reversed_line m l) = pl_currency l"
  "pl_methodCategory (reversed_line m l) = pl_methodCategory l"
  "is_line_of org i (reversed_line m l) = is_line_of org i l"
  "is_document org i (reversed_document rid v m d) = is_document org i d"
  "pd_state (reversed_document rid v m d) = ''REVERSED''"
  "pd_version (reversed_document rid v m d) = v"
  "pd_reversedPaymentId (reversed_document rid v m d) = Some rid"
  by (simp_all add: reversed_line_def reversed_document_def is_line_of_def is_document_def)

lemma reversed_after:
  assumes lock: "lockPayment s (cx_organizationId ctx) (cx_paymentId ctx) = Some payment"
    and tables: "reversed_tables ctx body v payment es rid s s'" and set: "setting s' = setting s"
  obtains payment' m where "lockPayment s' (cx_organizationId ctx) (cx_paymentId ctx) = Some payment'"
    and "lk_document payment' = reversed_document rid (v + 1) m (lk_document payment)"
    and "authorizationContext payment' = authorizationContext payment"
proof -
  let ?org = "cx_organizationId ctx" and ?i = "cx_paymentId ctx"
  obtain input new where docs: "t_paymentDocuments s' = update_where (is_document ?org ?i)
        (reversed_document rid (v + 1) (ri_executedAt input)) (t_paymentDocuments s)
        @ [reversal_document rid input]"
    and lines: "t_paymentLines s' = update_where (is_line_of ?org ?i) (reversed_line (ri_executedAt input))
        (t_paymentLines s) @ new"
    and new: "list_all2 (\<lambda>l x. \<exists>lid. x = reversal_line lid rid input l) (map kl_line (lk_lines payment)) new"
    and unclashed: "\<forall>x \<in> set (t_paymentDocuments s). \<not> payment_document_clash (reversal_document rid input) x"
    using tables by (auto simp: reversed_tables_def Let_def)
  note fresh = unclashed_reversal [OF unclashed]
  define m where "m = ri_executedAt input"
  define t where "t = s\<lparr>t_paymentDocuments := update_where (is_document ?org ?i) (reversed_document rid (v + 1) m)
      (t_paymentDocuments s),
    t_paymentLines := update_where (is_line_of ?org ?i) (reversed_line m) (t_paymentLines s)\<rparr>"
  obtain d where d: "find_document s ?org ?i = Some d"
    using lock by (auto simp: lockPayment_def)
  then have "d \<in> set (t_paymentDocuments s)" "pd_id d = ?i"
    unfolding find_document_def by (auto dest: find_SomeD)
  then have ne: "rid \<noteq> ?i" using fresh by auto
  have d': "find_document s' ?org ?i = Some (reversed_document rid (v + 1) m d)"
  proof -
    have "find_document t ?org ?i = Some (reversed_document rid (v + 1) m d)"
      using find_document_after [of t ?org ?i "reversed_document rid (v + 1) m" s] d by (simp add: t_def)
    then show ?thesis by (simp add: find_document_def docs m_def t_def find_append_Some)
  qed
  have "\<forall>x \<in> set new. \<not> is_line_of ?org ?i x"
    using new ne by (force simp: list_all2_conv_all_nth in_set_conv_nth is_line_of_def reversal_line_def)
  then have "filter (is_line_of ?org ?i) (t_paymentLines s') = filter (is_line_of ?org ?i) (t_paymentLines t)"
    by (simp add: lines t_def m_def filter_empty_conv)
  moreover have set': "t_treasuryUnits s' = t_treasuryUnits s" "t_methodDefinitions s' = t_methodDefinitions s"
    using set by (simp_all add: setting_def)
  moreover have p: "(\<lambda>l. pl_organizationId l = ?org \<and> pl_paymentDocumentId l = ?i) = is_line_of ?org ?i"
    by (simp add: fun_eq_iff is_line_of_def)
  ultimately have "locked_lines s' ?org ?i = locked_lines t ?org ?i"
    unfolding locked_lines_def p by (simp add: t_def)
  also have "\<dots> = map (\<lambda>k. \<lparr>kl_line = reversed_line m (kl_line k), kl_methodState = kl_methodState k\<rparr>)
      (locked_lines s ?org ?i)"
    by (rule locked_lines_after) (simp_all add: t_def)
  finally have ll: "locked_lines s' ?org ?i = map (\<lambda>k. \<lparr>kl_line = reversed_line m (kl_line k),
      kl_methodState = kl_methodState k\<rparr>) (locked_lines s ?org ?i)" .
  obtain payment' where lock': "lockPayment s' ?org ?i = Some payment'"
    and doc': "lk_document payment' = reversed_document rid (v + 1) m d"
    and lines': "lk_lines payment' = map (\<lambda>k. \<lparr>kl_line = reversed_line m (kl_line k),
        kl_methodState = kl_methodState k\<rparr>) (lk_lines payment)"
    and branch': "lk_effectiveBranchId payment' = lk_effectiveBranchId payment"
    using lock by (auto simp: lockPayment_def d d' ll set' reversed_document_def)
  have doc: "lk_document payment = d" using lock by (auto simp: lockPayment_def d)
  have "authorizationContext payment' = authorizationContext payment"
    by (simp add: authorizationContext_def Let_def doc' lines' branch' doc comp_def)
       (simp add: reversed_document_def)
  then show ?thesis using that lock' doc' doc by auto
qed


lemma view_fields:
  assumes "paymentView s org i = Some view"
  shows "\<exists>d. find_document s org i = Some d \<and> vw_version view = pd_version d
    \<and> vw_state view = pd_state d \<and> vw_reversedPaymentId view = pd_reversedPaymentId d"
  using assms by (auto simp: paymentView_def document_view_def Let_def bind_eq_Some_conv)

lemma lockPayment_find: "lockPayment s org i = Some payment \<Longrightarrow> find_document s org i = Some (lk_document payment)"
  by (auto simp: lockPayment_def)

section \<open>Properties\<close>

text \<open>
  Property C24. A first reversal that succeeds was allowed: the payment is executed, not reversed
  already and not held by accounting, at the version of the If-Match header; the actor holds
  payment.reverse for it and neither created, executed nor approved it; a fresh second-factor
  proof for this very request was presented; no bank instruction of the payment is settled; it
  has one movement per line; every source can take its money back on the reversal date.
\<close>

theorem reverse_checked:
  assumes "reverse env ctx body s = (Inr r, s')"
    and "findIdempotency (reversal_key ctx) s = None"
  shows "\<exists>payment v. validate ctx = Inr v \<and> trim (rv_reason body) \<noteq> []
    \<and> reversal_checked env s ctx body payment v"
  using reverse_done [OF assms] by blast

text \<open>
  Property C25. Its writes are complete: the original and its lines become REVERSED and point to
  a new payment, executed, by the actor, of the same lines; every movement is taken back by
  one posted credit that names it; the active allocations end; one audit event with the reason
  and one outbox event are added; every position rises by exactly what its movements took; the
  two payments are returned.
\<close>

theorem reverse_records:
  assumes "reverse env ctx body s = (Inr r, s')"
    and "findIdempotency (reversal_key ctx) s = None"
  shows "\<exists>payment v rid. validate ctx = Inr v
    \<and> lockPayment s (cx_organizationId ctx) (cx_paymentId ctx) = Some payment
    \<and> reversed_tables ctx body v payment
        (payment_movements s (cx_organizationId ctx) (cx_paymentId ctx)) rid s s'
    \<and> paymentView s' (cx_organizationId ctx) (cx_paymentId ctx) = Some (rr_original r)
    \<and> paymentView s' (cx_organizationId ctx) rid = Some (rr_reversal r)"
proof -
  obtain payment v rid where v: "validate ctx = Inr v" and c: "reversal_checked env s ctx body payment v"
    and rest: "reversed_tables ctx body v payment
        (payment_movements s (cx_organizationId ctx) (cx_paymentId ctx)) rid s s'"
    "paymentView s' (cx_organizationId ctx) (cx_paymentId ctx) = Some (rr_original r)"
    "paymentView s' (cx_organizationId ctx) rid = Some (rr_reversal r)"
    using reverse_done [OF assms] by blast
  have "lockPayment s (cx_organizationId ctx) (cx_paymentId ctx) = Some payment"
    using c by (simp add: reversal_checked_def Let_def)
  then show ?thesis using v rest by blast
qed

text \<open>
  Property C26. Reversal undoes execution: when a payment is executed and then reversed, every
  position of every cashbox and bank account is again what it was before the execution, for
  all currencies and whatever the lines are.
\<close>

theorem reverse_restores:
  assumes "execute env ctx body s = (Inr view, s1)"
    and "findIdempotency (execution_key ctx) s = None"
    and "distinct (map pl_id (t_paymentLines s))"
    and "reverse env2 ctx2 body2 s1 = (Inr r, s2)"
    and "findIdempotency (reversal_key ctx2) s1 = None"
    and "cx_organizationId ctx2 = cx_organizationId ctx" and "cx_paymentId ctx2 = cx_paymentId ctx"
  shows "position_units p s2 = position_units p s"
proof -
  let ?org = "cx_organizationId ctx" and ?i = "cx_paymentId ctx"
  obtain payment v where c: "execution_checked env s ctx body payment v"
    and t: "executed_tables ctx v payment (map pv_id (lk_reservations payment)) s s1"
    and set: "setting s1 = setting s"
    using execute_done [OF assms(1,2)] by blast
  have lock: "lockPayment s ?org ?i = Some payment" using c by (simp add: execution_checked_def Let_def)
  obtain payment1 m where lock1: "lockPayment s1 ?org ?i = Some payment1"
    and lines1: "map kl_line (lk_lines payment1)
      = map (executed_line (cx_actorUserId ctx) m \<circ> kl_line) (lk_lines payment)"
    using locked_after [OF lock t set] by blast
  obtain payment2 v2 rid where c2: "reversal_checked env2 s1 ctx2 body2 payment2 v2"
    and t2: "reversed_tables ctx2 body2 v2 payment2 (payment_movements s1 ?org ?i) rid s1 s2"
    using reverse_done [OF assms(4,5)] unfolding assms(6,7) by blast
  have p2: "payment2 = payment1" and "length (payment_movements s1 ?org ?i) = length (lk_lines payment2)"
    using c2 lock1 by (simp_all add: reversal_checked_def Let_def assms(6,7))
  moreover have "length (lk_lines payment1) = length (lk_lines payment)"
    using lines1 by (metis length_map)
  ultimately have count: "length (payment_movements s1 ?org ?i) = length (lk_lines payment)" by simp
  have "position_units p s2 = position_units p s1
      + returned_to ?org (map kl_line (lk_lines payment1)) p (payment_movements s1 ?org ?i)"
    using t2 by (simp add: reversed_tables_def Let_def p2 assms(6))
  also have "returned_to ?org (map kl_line (lk_lines payment1)) p (payment_movements s1 ?org ?i)
      = paid_from (lk_document payment) p (map kl_line (lk_lines payment))"
    using executed_returned [OF lock t assms(3) count] by (simp add: lines1)
  finally show ?thesis using t by (simp add: executed_tables_def Let_def)
qed

text \<open>
  Property C27. Reversal is idempotent: repeating the command with its key returns the same two
  payments and changes nothing but the record of the advisory lock.
\<close>

theorem reverse_idempotent:
  assumes "reverse env ctx body s = (Inr r, s')"
    and "findIdempotency (reversal_key ctx) s = None"
  shows "reverse env ctx body s' = (Inr r, lock_recorded (reversal_key ctx) s')"
proof -
  let ?org = "cx_organizationId ctx" and ?i = "cx_paymentId ctx" and ?l = "lock_recorded (reversal_key ctx) s'"
  obtain payment v d rid where v: "validate ctx = Inr v" and reason: "trim (rv_reason body) \<noteq> []"
    and d: "reverse_digest env ctx body (trim (rv_reason body)) = Inr d"
    and c: "reversal_checked env s ctx body payment v"
    and tables: "reversed_tables ctx body v payment (payment_movements s ?org ?i) rid s s'"
    and views: "paymentView s' ?org ?i = Some (rr_original r)" "paymentView s' ?org rid = Some (rr_reversal r)"
    and found: "findIdempotency (reversal_key ctx) s'
      = Some \<lparr>re_requestDigest = d, re_response = Some (PaymentResponse (rr_original r))\<rparr>"
    and set: "setting s' = setting s"
    by (rule reverse_done [OF assms]) (rule that, assumption+)
  have lock: "lockPayment s ?org ?i = Some payment"
    and auth: "canOperatePayment env s ?org (cx_actorUserId ctx) (authorizationContext payment) ''payment.reverse''"
    using c by (simp_all add: reversal_checked_def Let_def)
  obtain payment' m where lock': "lockPayment s' ?org ?i = Some payment'"
    and doc': "lk_document payment' = reversed_document rid (v + 1) m (lk_document payment)"
    and ctx': "authorizationContext payment' = authorizationContext payment"
    using reversed_after [OF lock tables set] by blast
  have acc: "access_part s' = access_part s" using set by (simp add: setting_def)
  have auth': "canOperatePayment env s' ?org (cx_actorUserId ctx) (authorizationContext payment') ''payment.reverse''"
    using auth ctx' by (simp add: access_part_permissions(1) [OF acc])
  have rid: "vw_reversedPaymentId (rr_original r) = Some rid"
    using view_fields [OF views(1)] lockPayment_find [OF lock'] doc' by auto
  have view': "paymentView ?l ?org rid = Some (rr_reversal r)"
    using views(2) core_paymentView lock_recorded_reads(1) by metis
  have "reverse_tx env ctx body (trim (rv_reason body)) v d s'
      = replay_reversal ctx \<lparr>re_requestDigest = d, re_response = Some (PaymentResponse (rr_original r))\<rparr> d ?l"
    unfolding reverse_tx_keyed by (rule keyed_tx_replay [OF found lock' auth'])
  also have "\<dots> = Inr (r, ?l)"
    by (simp add: replay_reversal_def replay_payment_def tx_bind_def rid read_view_def view')
  finally show ?thesis
    using commit_guards_locks
    by (simp add: reverse_def Let_def v reason d committed_def transaction_def rethrow_def)
qed

text \<open>
  Property C28. A payment is reversed once: after a success every reversal of that payment under
  a key not used before fails and changes nothing.
\<close>

theorem reverse_once:
  assumes "reverse env ctx body s = (Inr r, s')"
    and "findIdempotency (reversal_key ctx) s = None"
    and "cx_organizationId ctx2 = cx_organizationId ctx" and "cx_paymentId ctx2 = cx_paymentId ctx"
    and "findIdempotency (reversal_key ctx2) s' = None"
  shows "\<exists>e. reverse env ctx2 body2 s' = (Inl e, s')"
proof -
  obtain payment v rid where c: "reversal_checked env s ctx body payment v"
    and t: "reversed_tables ctx body v payment
      (payment_movements s (cx_organizationId ctx) (cx_paymentId ctx)) rid s s'"
    and set: "setting s' = setting s"
    using reverse_done [OF assms(1,2)] by blast
  have lock: "lockPayment s (cx_organizationId ctx) (cx_paymentId ctx) = Some payment"
    using c by (simp add: reversal_checked_def Let_def)
  obtain payment' m where lock': "lockPayment s' (cx_organizationId ctx) (cx_paymentId ctx) = Some payment'"
    and doc': "lk_document payment' = reversed_document rid (v + 1) m (lk_document payment)"
    using reversed_after [OF lock t set] by blast
  have "\<not> reversal_checked env s' ctx2 body2 p w" for p w
    using lock' doc' assms(3,4) by (auto simp: reversal_checked_def Let_def reversible_def)
  then have "reverse env ctx2 body2 s' \<noteq> (Inr q, s2)" for q s2
    using reverse_done [of env ctx2 body2 s' q s2] assms(5) by blast
  then show ?thesis
    by (cases "reverse env ctx2 body2 s'")
       (auto simp: reverse_def Let_def rethrow_def transaction_def split: sum.splits if_splits)
qed


section \<open>Witnesses\<close>

lemma reverse_checked_witness:
  "\<exists>payment v. validate reverse_ctx = Inr v \<and> trim (rv_reason reverse_body) \<noteq> []
     \<and> reversal_checked sample_env executed_db reverse_ctx reverse_body payment v"
  using sample_reversed reverse_checked [OF _ executed_keys(2)] by blast

lemma reverse_records_witness:
  "\<exists>(r :: payment_reversal_result) payment v rid. validate reverse_ctx = Inr v
    \<and> lockPayment executed_db (cx_organizationId reverse_ctx) (cx_paymentId reverse_ctx) = Some payment
    \<and> reversed_tables reverse_ctx reverse_body v payment
        (payment_movements executed_db (cx_organizationId reverse_ctx) (cx_paymentId reverse_ctx)) rid
        executed_db reversed_db
    \<and> paymentView reversed_db (cx_organizationId reverse_ctx) (cx_paymentId reverse_ctx) = Some (rr_original r)
    \<and> paymentView reversed_db (cx_organizationId reverse_ctx) rid = Some (rr_reversal r)"
proof -
  obtain r where "reverse sample_env reverse_ctx reverse_body executed_db = (Inr r, reversed_db)"
    using sample_reversed by blast
  from reverse_records [OF this executed_keys(2)] show ?thesis by (rule exI)
qed

lemma reverse_restores_witness: "\<forall>p. position_units p reversed_db = position_units p sample_db"
proof
  fix p
  obtain view where e: "execute sample_env sample_ctx None sample_db = (Inr view, executed_db)"
    using sample_executed by blast
  obtain r where r: "reverse sample_env reverse_ctx reverse_body executed_db = (Inr r, reversed_db)"
    using sample_reversed by blast
  have ids: "distinct (map pl_id (t_paymentLines sample_db))" by code_simp
  have same: "cx_organizationId reverse_ctx = cx_organizationId sample_ctx"
    "cx_paymentId reverse_ctx = cx_paymentId sample_ctx" by (simp_all add: reverse_ctx_def sample_ctx_def)
  show "position_units p reversed_db = position_units p sample_db"
    by (rule reverse_restores [OF e sample_fresh ids r executed_keys(2) same])
qed

lemma reverse_idempotent_witness:
  "\<exists>r. reverse sample_env reverse_ctx reverse_body reversed_db
     = (Inr r, lock_recorded (reversal_key reverse_ctx) reversed_db)"
  using sample_reversed reverse_idempotent [OF _ executed_keys(2)] by blast

lemma reverse_once_witness:
  "\<exists>e. reverse sample_env reverse_other_ctx reverse_body reversed_db = (Inl e, reversed_db)"
proof -
  obtain r where r: "reverse sample_env reverse_ctx reverse_body executed_db = (Inr r, reversed_db)"
    using sample_reversed by blast
  from reverse_once [OF this executed_keys(2) _ _ reversed_other_key] show ?thesis
    by (simp add: reverse_other_ctx_def)
qed

end
