(* ===== verification/Payment_Policy.thy ===== *)
theory Payment_Policy
  imports Schema
begin

text \<open>
  The policy algebra of \<open>payments/payment-approval.service.ts\<close>: which approval policy governs a
  payment (\<open>dominates\<close>, \<open>uniqueMaximal\<close>), the aggregation the policies ask for, and how the step
  lists of several policies become one list of obligations (\<open>composeSteps\<close>), a topological sort.
  The data are the interfaces of \<open>payments/payment-approval.repository.ts\<close>.
\<close>

section \<open>Data\<close>

record approval_policy_step =
  ay_stepId :: uuid
  ay_stepOrder :: int
  ay_roleId :: "uuid option"
  ay_roleName :: "str option"
  ay_roleState :: "str option"
  ay_approverUserId :: "uuid option"
  ay_approverName :: "str option"
  ay_approverState :: "str option"
  ay_approvalsRequired :: int
  ay_separationRules :: "str list"

record approval_policy =
  po_id :: uuid
  po_code :: str
  po_name :: str
  po_branchId :: "uuid option"
  po_treasuryUnitId :: "uuid option"
  po_currency :: "str option"
  po_methodCategory :: "str option"
  po_amountMinimum :: "str option"
  po_amountMaximum :: "str option"
  po_aggregationWindowKind :: "str option"
  po_aggregationKeys :: "str list"
  po_version :: int
  po_steps :: "approval_policy_step list"

record approval_context =
  ax_order :: int
  ax_firstLineNumber :: int
  ax_currency :: str
  ax_methodCategory :: str
  ax_policy :: approval_policy

record composed_step =
  co_id :: uuid
  co_order :: int
  co_roleId :: "uuid option"
  co_roleName :: "str option"
  co_approverUserId :: "uuid option"
  co_approverName :: "str option"
  co_approvalsRequired :: int
  co_separationRules :: "str list"
  co_sourceContextOrders :: "int list"
  co_obligationKey :: str

definition policy_unavailable :: exn where
  "policy_unavailable = Message ''APPROVAL_POLICY_UNAVAILABLE''"

text \<open>\<open>array.sort(compare)\<close>: stable, by insertion from the right.\<close>

fun insert_by :: "('a \<Rightarrow> 'a \<Rightarrow> int) \<Rightarrow> 'a \<Rightarrow> 'a list \<Rightarrow> 'a list" where
  "insert_by cmp x [] = [x]"
| "insert_by cmp x (y # ys) = (if cmp x y \<le> 0 then x # y # ys else y # insert_by cmp x ys)"

definition sort_by :: "('a \<Rightarrow> 'a \<Rightarrow> int) \<Rightarrow> 'a list \<Rightarrow> 'a list" where
  "sort_by cmp xs = foldr (insert_by cmp) xs []"

section \<open>The governing policy\<close>

text \<open>A narrower constraint: whether it is allowed, and whether it is strictly narrower.\<close>

definition optionalNarrower :: "str option \<Rightarrow> str option \<Rightarrow> bool \<times> bool" where
  "optionalNarrower left right =
     (case right of None \<Rightarrow> (True, left \<noteq> None) | Some r \<Rightarrow> (left = Some r, False))"

definition lowerNarrower :: "str option \<Rightarrow> str option \<Rightarrow> bool \<times> bool" where
  "lowerNarrower left right =
     (case right of None \<Rightarrow> (True, left \<noteq> None)
      | Some r \<Rightarrow> (case left of None \<Rightarrow> (False, False)
          | Some l \<Rightarrow> (approvalCompareDecimal l r \<ge> 0, approvalCompareDecimal l r > 0)))"

definition upperNarrower :: "str option \<Rightarrow> str option \<Rightarrow> bool \<times> bool" where
  "upperNarrower left right =
     (case right of None \<Rightarrow> (True, left \<noteq> None)
      | Some r \<Rightarrow> (case left of None \<Rightarrow> (False, False)
          | Some l \<Rightarrow> (approvalCompareDecimal l r \<le> 0, approvalCompareDecimal l r < 0)))"

text \<open>The loop over the four optional constraints, which returns at the first one not allowed.\<close>

fun narrower_keys :: "(str option \<times> str option) list \<Rightarrow> bool \<Rightarrow> bool option" where
  "narrower_keys [] strict = Some strict"
| "narrower_keys ((l, r) # rest) strict =
     (if fst (optionalNarrower l r) then narrower_keys rest (strict \<or> snd (optionalNarrower l r))
      else None)"

definition dominates :: "approval_policy \<Rightarrow> approval_policy \<Rightarrow> bool" where
  "dominates left right =
     (case narrower_keys [(po_branchId left, po_branchId right),
          (po_treasuryUnitId left, po_treasuryUnitId right),
          (po_currency left, po_currency right),
          (po_methodCategory left, po_methodCategory right)] False of
        None \<Rightarrow> False
      | Some strict \<Rightarrow>
          (let minimum = lowerNarrower (po_amountMinimum left) (po_amountMinimum right);
               maximum = upperNarrower (po_amountMaximum left) (po_amountMaximum right)
           in fst minimum \<and> fst maximum \<and> (strict \<or> snd minimum \<or> snd maximum)))"

definition uniqueMaximal :: "approval_policy list \<Rightarrow> approval_policy option" where
  "uniqueMaximal candidates =
     (case filter (\<lambda>candidate. \<not> list_ex (\<lambda>other. po_id other \<noteq> po_id candidate
          \<and> dominates other candidate) candidates) candidates of
        [p] \<Rightarrow> Some p | _ \<Rightarrow> None)"

section \<open>Aggregation\<close>

type_synonym aggregation_config = "str \<times> str list"

definition policy_config :: "approval_policy \<Rightarrow> aggregation_config option res" where
  "policy_config policy =
     (let keys = sort (dedup (po_aggregationKeys policy)) in
      case po_aggregationWindowKind policy of
        Some (c # cs) \<Rightarrow> if keys = [] then Inl policy_unavailable else Inr (Some (c # cs, keys))
      | _ \<Rightarrow> if keys = [] then Inr None else Inl policy_unavailable)"

definition configSignature :: "aggregation_config option \<Rightarrow> str" where
  "configSignature config = (case config of None \<Rightarrow> []
     | Some (windowKind, keys) \<Rightarrow> windowKind @ '':'' @ join_with '','' keys)"

definition aggregationConfig :: "approval_context list \<Rightarrow> aggregation_config option res" where
  "aggregationConfig contexts =
     res_bind (res_map (policy_config \<circ> ax_policy) contexts) (\<lambda>configs.
       if length (dedup (map configSignature configs)) \<noteq> 1 then Inl policy_unavailable
       else Inr (hd configs))"

definition contextSignature :: "approval_context list \<Rightarrow> str" where
  "contextSignature contexts = join_with ''|'' (map (\<lambda>c. ax_currency c @ '':'' @ ax_methodCategory c
     @ '':'' @ po_id (ax_policy c) @ '':'' @ show_int (po_version (ax_policy c))) contexts)"

section \<open>The obligations of several policies\<close>

type_synonym priority = "int \<times> str \<times> int \<times> int \<times> str"

record obligation =
  ob_key :: str
  ob_roleId :: "uuid option"
  ob_roleName :: "str option"
  ob_approverUserId :: "uuid option"
  ob_approverName :: "str option"
  ob_approvalsRequired :: int
  ob_separationRules :: "str list"
  ob_sourceContextOrders :: "int list"
  ob_priority :: priority

text \<open>The three maps of the source, in insertion order.\<close>

record step_graph =
  sg_nodes :: "obligation list"
  sg_edges :: "(str \<times> str list) list"
  sg_indegree :: "(str \<times> int) list"

definition comparePriority :: "(str \<Rightarrow> str \<Rightarrow> int) \<Rightarrow> priority \<Rightarrow> priority \<Rightarrow> int" where
  "comparePriority cmp left right =
     (case (left, right) of ((a, b, c, d, e), (a', b', c', d', e')) \<Rightarrow>
        if a - a' \<noteq> 0 then a - a'
        else if cmp b b' \<noteq> 0 then cmp b b'
        else if c - c' \<noteq> 0 then c - c'
        else if d - d' \<noteq> 0 then d - d'
        else cmp e e')"

definition step_rules :: "approval_policy_step \<Rightarrow> str list" where
  "step_rules step = sort (dedup (ay_separationRules step))"

definition step_key :: "approval_policy_step \<Rightarrow> str" where
  "step_key step =
     (case ay_roleId step of
        Some (c # cs) \<Rightarrow> ''role:'' @ c # cs
      | _ \<Rightarrow> ''user:'' @ (case ay_approverUserId step of None \<Rightarrow> ''null'' | Some u \<Rightarrow> u))
     @ ''|'' @ show_int (ay_approvalsRequired step) @ ''|'' @ join_with '','' (step_rules step)"

definition targets :: "(str \<times> str list) list \<Rightarrow> str \<Rightarrow> str list" where
  "targets edges k = (case map_of edges k of None \<Rightarrow> [] | Some ts \<Rightarrow> ts)"

definition enter_node :: "approval_context \<Rightarrow> approval_policy_step \<Rightarrow> step_graph \<Rightarrow> step_graph" where
  "enter_node context step g =
     (let key = step_key step in
      if list_ex (\<lambda>n. ob_key n = key) (sg_nodes g)
      then g\<lparr>sg_nodes := update_where (\<lambda>n. ob_key n = key)
        (ob_sourceContextOrders_update (\<lambda>os. if ax_order context \<in> set os then os else os @ [ax_order context]))
        (sg_nodes g)\<rparr>
      else g\<lparr>
        sg_nodes := sg_nodes g @ [\<lparr>
          ob_key = key,
          ob_roleId = ay_roleId step,
          ob_roleName = ay_roleName step,
          ob_approverUserId = ay_approverUserId step,
          ob_approverName = ay_approverName step,
          ob_approvalsRequired = ay_approvalsRequired step,
          ob_separationRules = step_rules step,
          ob_sourceContextOrders = [ax_order context],
          ob_priority = (ax_order context, po_id (ax_policy context), po_version (ax_policy context),
            ay_stepOrder step, key)\<rparr>],
        sg_edges := sg_edges g @ [(key, [])],
        sg_indegree := sg_indegree g @ [(key, 0)]\<rparr>)"

definition enter_edge :: "str option \<Rightarrow> str \<Rightarrow> step_graph \<Rightarrow> step_graph" where
  "enter_edge previous key g =
     (case previous of None \<Rightarrow> g
      | Some p \<Rightarrow> if p \<noteq> key \<and> key \<notin> set (targets (sg_edges g) p)
          then g\<lparr>sg_edges := update_where (\<lambda>e. fst e = p) (apsnd (\<lambda>ts. ts @ [key])) (sg_edges g),
            sg_indegree := update_where (\<lambda>e. fst e = key) (apsnd (\<lambda>d. d + 1)) (sg_indegree g)\<rparr>
          else g)"

fun enter_steps :: "approval_context \<Rightarrow> approval_policy_step list \<Rightarrow> str option \<Rightarrow> step_graph \<Rightarrow> step_graph" where
  "enter_steps context [] previous g = g"
| "enter_steps context (step # steps) previous g =
     enter_steps context steps (Some (step_key step))
       (enter_edge previous (step_key step) (enter_node context step g))"

fun step_graph_of :: "approval_context list \<Rightarrow> step_graph \<Rightarrow> step_graph" where
  "step_graph_of [] g = g"
| "step_graph_of (context # contexts) g =
     step_graph_of contexts (enter_steps context (po_steps (ax_policy context)) None g)"

definition obligations :: "approval_context list \<Rightarrow> step_graph" where
  "obligations contexts = step_graph_of contexts \<lparr>sg_nodes = [], sg_edges = [], sg_indegree = []\<rparr>"


text \<open>
  One node taken: its targets lose an incoming edge, and those that have none left become
  ready.
\<close>

fun release :: "obligation list \<Rightarrow> str list \<Rightarrow> (str \<times> int) list \<times> obligation list
    \<Rightarrow> (str \<times> int) list \<times> obligation list" where
  "release nodes [] (indegree, ready) = (indegree, ready)"
| "release nodes (t # ts) (indegree, ready) =
     (let indegree' = update_where (\<lambda>e. fst e = t) (apsnd (\<lambda>d. d - 1)) indegree in
      release nodes ts (indegree',
        if map_of indegree' t = Some 0
        then ready @ option_list (find (\<lambda>n. ob_key n = t) nodes) else ready))"

definition pending :: "(str \<times> int) list \<Rightarrow> nat" where
  "pending indegree = sum_list (map (\<lambda>e. nat (snd e)) indegree)"

lemma pending_decrement:
  "pending (update_where (\<lambda>e. fst e = t) (apsnd (\<lambda>d. d - 1)) indegree)
     + (if map_of (update_where (\<lambda>e. fst e = t) (apsnd (\<lambda>d. d - 1)) indegree) t = Some 0 then 1 else 0)
   \<le> pending indegree"
proof (induction indegree)
  case Nil
  then show ?case by (simp add: pending_def)
next
  case (Cons e es)
  have mono: "pending (update_where (\<lambda>e. fst e = t) (apsnd (\<lambda>d. d - 1)) es) \<le> pending es"
    using Cons by (simp split: if_splits)
  show ?case
    using Cons mono by (cases e) (auto simp: pending_def)
qed

lemma release_pending:
  "release nodes ts (indegree, ready) = (indegree', ready')
     \<Longrightarrow> length ready' + pending indegree' \<le> length ready + pending indegree"
proof (induction nodes ts "(indegree, ready)" arbitrary: indegree ready rule: release.induct)
  case (2 nodes t ts indegree ready)
  define i where "i = update_where (\<lambda>e. fst e = t) (apsnd (\<lambda>d. d - 1)) indegree"
  have "length (option_list (find (\<lambda>n. ob_key n = t) nodes)) \<le> 1"
    by (cases "find (\<lambda>n. ob_key n = t) nodes") simp_all
  then show ?case
    using 2 pending_decrement [of t indegree] unfolding i_def [symmetric] release.simps Let_def
    by (fastforce split: if_splits)
qed simp

lemma length_insert_by: "length (insert_by cmp x ys) = Suc (length ys)"
  by (induction ys) simp_all

lemma length_sort_by [simp]: "length (sort_by cmp xs) = length xs"
  by (induction xs) (simp_all add: sort_by_def length_insert_by)

text \<open>The loop: the ready nodes are sorted, the first one is taken.\<close>

function order_nodes :: "(str \<Rightarrow> str \<Rightarrow> int) \<Rightarrow> obligation list \<Rightarrow> (str \<times> str list) list
    \<Rightarrow> (str \<times> int) list \<Rightarrow> obligation list \<Rightarrow> obligation list \<Rightarrow> obligation list" where
  "order_nodes cmp nodes edges indegree ready ordered =
     (case sort_by (\<lambda>l r. comparePriority cmp (ob_priority l) (ob_priority r)) ready of
        [] \<Rightarrow> ordered
      | node # rest \<Rightarrow>
          (case release nodes (targets edges (ob_key node)) (indegree, rest) of
             (indegree', ready') \<Rightarrow> order_nodes cmp nodes edges indegree' ready' (ordered @ [node])))"
  by pat_completeness auto

termination
proof (relation "measure (\<lambda>(cmp, nodes, edges, indegree, ready, ordered). length ready + pending indegree)")
  fix cmp nodes edges indegree ready ordered node rest indegree' ready'
  assume s: "sort_by (\<lambda>l r. comparePriority cmp (ob_priority l) (ob_priority r)) ready = node # rest"
    and p: "(indegree', ready') = release nodes (targets edges (ob_key node)) (indegree, rest)"
  have "length ready = Suc (length rest)" using s by (metis length_sort_by length_Cons)
  moreover have "length ready' + pending indegree' \<le> length rest + pending indegree"
    by (rule release_pending) (use p in simp)
  ultimately show "((cmp, nodes, edges, indegree', ready', ordered @ [node]),
      cmp, nodes, edges, indegree, ready, ordered)
    \<in> measure (\<lambda>(cmp, nodes, edges, indegree, ready, ordered). length ready + pending indegree)"
    by simp
qed simp

declare order_nodes.simps [simp del]

definition ordered_obligations :: "(str \<Rightarrow> str \<Rightarrow> int) \<Rightarrow> approval_context list \<Rightarrow> obligation list" where
  "ordered_obligations cmp contexts =
     (let g = obligations contexts in
      order_nodes cmp (sg_nodes g) (sg_edges g) (sg_indegree g)
        (filter (\<lambda>n. map_of (sg_indegree g) (ob_key n) = Some 0) (sg_nodes g)) [])"

definition composed_step_of :: "env \<Rightarrow> int \<times> obligation \<Rightarrow> ('z world_scheme, composed_step) tx" where
  "composed_step_of env entry =
     (case entry of (order, node) \<Rightarrow> tx_bind (randomUUID env) (\<lambda>i. tx_return \<lparr>
        co_id = i,
        co_order = order,
        co_roleId = ob_roleId node,
        co_roleName = ob_roleName node,
        co_approverUserId = ob_approverUserId node,
        co_approverName = ob_approverName node,
        co_approvalsRequired = ob_approvalsRequired node,
        co_separationRules = ob_separationRules node,
        co_sourceContextOrders = sort (ob_sourceContextOrders node),
        co_obligationKey = ob_key node\<rparr>))"

definition composeSteps :: "env \<Rightarrow> approval_context list \<Rightarrow> ('z world_scheme, composed_step list) tx" where
  "composeSteps env contexts =
     (let ordered = ordered_obligations (he_localeCompare env) contexts in
      if length ordered \<noteq> length (sg_nodes (obligations contexts)) then tx_throw policy_unavailable
      else tx_map (composed_step_of env) (zip [1..int (length ordered)] ordered))"

end
