(* ===== verification/Step_Order.thy ===== *)
theory Step_Order
  imports Payment_Policy
begin

text \<open>
  The library behind \<open>composeSteps\<close>: what the graph built from the policies is, and that the
  loop over the ready nodes computes a topological order of it.
\<close>

section \<open>The graph\<close>

definition step_keys :: "approval_context \<Rightarrow> str list" where
  "step_keys context = map step_key (po_steps (ax_policy context))"

text \<open>What must come before what: consecutive different steps of one policy.\<close>

definition precedes :: "approval_context list \<Rightarrow> (str \<times> str) set" where
  "precedes contexts = {(a, b). a \<noteq> b \<and> (\<exists>c \<in> set contexts. (a, b) \<in> set (zip (step_keys c) (tl (step_keys c))))}"

definition node_keys :: "step_graph \<Rightarrow> str list" where
  "node_keys g = map ob_key (sg_nodes g)"

definition sources :: "(str \<times> str list) list \<Rightarrow> str \<Rightarrow> str set" where
  "sources edges k = {p. k \<in> set (targets edges p)}"

definition well_formed :: "step_graph \<Rightarrow> bool" where
  "well_formed g \<longleftrightarrow> distinct (node_keys g) \<and> map fst (sg_edges g) = node_keys g
     \<and> map fst (sg_indegree g) = node_keys g
     \<and> (\<forall>k. distinct (targets (sg_edges g) k) \<and> k \<notin> set (targets (sg_edges g) k)
          \<and> set (targets (sg_edges g) k) \<subseteq> set (node_keys g))
     \<and> (\<forall>k \<in> set (node_keys g).
          map_of (sg_indegree g) k = Some (int (card (sources (sg_edges g) k))))"

lemma targets_key: "k \<in> set (targets edges p) \<Longrightarrow> p \<in> fst ` set edges"
  by (cases "map_of edges p") (auto simp: targets_def dest: map_of_SomeD intro: rev_image_eqI)

lemma finite_sources: "finite (sources edges k)"
proof (rule finite_subset)
  show "sources edges k \<subseteq> fst ` set edges" using targets_key by (auto simp: sources_def)
qed simp

lemma map_of_update_where:
  "map_of (update_where (\<lambda>e. fst e = p) (apsnd f) es) k
    = (if k = p then map_option f (map_of es k) else map_of es k)"
  by (induction es) auto

lemma fst_update_where [simp]: "map fst (update_where (\<lambda>e. fst e = p) (apsnd f) es) = map fst es"
  by (induction es) auto

lemma targets_update_where:
  "targets (update_where (\<lambda>e. fst e = p) (apsnd f) es) k
    = (if k = p \<and> map_of es k \<noteq> None then f (targets es k) else targets es k)"
  by (auto simp: targets_def map_of_update_where split: option.splits)

lemma targets_append: "targets (es @ [(k, [])]) p = targets es p"
  by (cases "map_of es p") (auto simp: targets_def map_add_def)

lemma update_node_keys [simp]:
  "map ob_key (update_where q (ob_sourceContextOrders_update f) ns) = map ob_key ns"
  by (rule map_update_where_id) simp

lemma well_formed_empty: "well_formed \<lparr>sg_nodes = [], sg_edges = [], sg_indegree = []\<rparr>"
  by (simp add: well_formed_def node_keys_def targets_def)

lemma enter_node_keys:
  "set (node_keys (enter_node c step g)) = insert (step_key step) (set (node_keys g))"
  "targets (sg_edges (enter_node c step g)) = targets (sg_edges g)"
proof -
  show "targets (sg_edges (enter_node c step g)) = targets (sg_edges g)"
    by (simp add: enter_node_def Let_def fun_eq_iff targets_append)
  show "set (node_keys (enter_node c step g)) = insert (step_key step) (set (node_keys g))"
  proof (cases "list_ex (\<lambda>n. ob_key n = step_key step) (sg_nodes g)")
    case True
    then have "step_key step \<in> set (node_keys g)" by (force simp: node_keys_def list_ex_iff)
    moreover have "node_keys (enter_node c step g) = node_keys g"
      using True by (simp add: enter_node_def Let_def node_keys_def)
    ultimately show ?thesis by auto
  qed (simp add: enter_node_def Let_def node_keys_def)
qed

lemma enter_node_well_formed:
  assumes "well_formed g"
  shows "well_formed (enter_node c step g)"
proof (cases "list_ex (\<lambda>n. ob_key n = step_key step) (sg_nodes g)")
  case True
  then have "node_keys (enter_node c step g) = node_keys g"
    "sg_edges (enter_node c step g) = sg_edges g" "sg_indegree (enter_node c step g) = sg_indegree g"
    by (simp_all add: enter_node_def Let_def node_keys_def)
  then show ?thesis using assms unfolding well_formed_def by metis
next
  case False
  let ?k = "step_key step"
  have k: "?k \<notin> set (node_keys g)" using False by (auto simp: node_keys_def list_ex_iff)
  have e: "sg_indegree (enter_node c step g) = sg_indegree g @ [(?k, 0)]"
    "map fst (sg_edges (enter_node c step g)) = map fst (sg_edges g) @ [?k]"
    "node_keys (enter_node c step g) = node_keys g @ [?k]"
    using False by (simp_all add: enter_node_def Let_def node_keys_def)
  have t: "targets (sg_edges (enter_node c step g)) = targets (sg_edges g)" by (rule enter_node_keys)
  have src: "sources (sg_edges (enter_node c step g)) = sources (sg_edges g)"
    by (simp add: sources_def fun_eq_iff t)
  have wf: "distinct (node_keys g)" "map fst (sg_edges g) = node_keys g" "map fst (sg_indegree g) = node_keys g"
    "\<And>k. distinct (targets (sg_edges g) k) \<and> k \<notin> set (targets (sg_edges g) k)
      \<and> set (targets (sg_edges g) k) \<subseteq> set (node_keys g)"
    and ind: "\<And>k. k \<in> set (node_keys g) \<Longrightarrow> map_of (sg_indegree g) k = Some (int (card (sources (sg_edges g) k)))"
    using assms unfolding well_formed_def by blast+
  have none: "map_of (sg_indegree g) ?k = None"
    using k wf(3) by (metis map_of_eq_None_iff set_map)
  have "sources (sg_edges g) ?k = {}" using wf(4) k by (auto simp: sources_def)
  then have "map_of (sg_indegree g @ [(?k, 0)]) j = Some (int (card (sources (sg_edges g) j)))"
    if "j \<in> set (node_keys g @ [?k])" for j
    using that ind [of j] none by (cases "j = ?k") (simp_all add: map_add_def)
  then show ?thesis
    unfolding well_formed_def e t src using wf(1-3) wf(4) k by (auto simp del: map_of_append)
qed

lemma card_sources_insert:
  assumes "k \<notin> set (targets edges p)" and "map_of edges p \<noteq> None"
  shows "sources (update_where (\<lambda>e. fst e = p) (apsnd (\<lambda>ts. ts @ [k])) edges) j
    = (if j = k then insert p (sources edges k) else sources edges j)"
  using assms by (auto simp: sources_def targets_update_where split: if_splits)

lemma enter_edge_well_formed:
  assumes "well_formed g" and "k \<in> set (node_keys g)"
    and "\<And>p. previous = Some p \<Longrightarrow> p \<in> set (node_keys g)"
  shows "well_formed (enter_edge previous k g)"
proof (cases "\<exists>p. previous = Some p \<and> p \<noteq> k \<and> k \<notin> set (targets (sg_edges g) p)")
  case True
  then obtain p where p: "previous = Some p" "p \<noteq> k" "k \<notin> set (targets (sg_edges g) p)" by blast
  have fst: "fst ` set (sg_edges g) = set (node_keys g)"
    using assms(1) by (metis well_formed_def set_map)
  then have mp: "map_of (sg_edges g) p \<noteq> None"
    using assms(3) [OF p(1)] by (simp add: map_of_eq_None_iff)
  have np: "p \<notin> sources (sg_edges g) k" using p(3) by (simp add: sources_def)
  have t: "targets (sg_edges (enter_edge previous k g)) j
      = (if j = p then targets (sg_edges g) p @ [k] else targets (sg_edges g) j)" for j
    using p mp by (simp add: enter_edge_def targets_update_where)
  have src: "sources (sg_edges (enter_edge previous k g)) j
      = (if j = k then insert p (sources (sg_edges g) k) else sources (sg_edges g) j)" for j
    using p card_sources_insert [OF p(3) mp] by (simp add: enter_edge_def)
  have ind: "map_of (sg_indegree (enter_edge previous k g)) j
      = (if j = k then map_option (\<lambda>d. d + 1) (map_of (sg_indegree g) j) else map_of (sg_indegree g) j)" for j
    using p by (simp add: enter_edge_def map_of_update_where)
  have keys: "node_keys (enter_edge previous k g) = node_keys g"
    "map fst (sg_edges (enter_edge previous k g)) = map fst (sg_edges g)"
    "map fst (sg_indegree (enter_edge previous k g)) = map fst (sg_indegree g)"
    using p by (simp_all add: enter_edge_def node_keys_def)
  have "map_of (sg_indegree (enter_edge previous k g)) j
      = Some (int (card (sources (sg_edges (enter_edge previous k g)) j)))" if "j \<in> set (node_keys g)" for j
  proof -
    have "map_of (sg_indegree g) j = Some (int (card (sources (sg_edges g) j)))"
      using assms(1) that unfolding well_formed_def by blast
    then show ?thesis using np finite_sources [of "sg_edges g" k] by (simp only: ind src) simp
  qed
  then show ?thesis
    using assms p(2,3) unfolding well_formed_def keys t by auto
next
  case False
  then have "enter_edge previous k g = g" by (auto simp: enter_edge_def split: option.splits)
  then show ?thesis using assms(1) by simp
qed

lemma enter_edge_targets:
  assumes "well_formed g" and "\<And>p. previous = Some p \<Longrightarrow> p \<in> set (node_keys g)"
  shows "b \<in> set (targets (sg_edges (enter_edge previous k g)) a)
    \<longleftrightarrow> b \<in> set (targets (sg_edges g) a) \<or> previous = Some a \<and> a \<noteq> k \<and> b = k"
proof -
  have fst: "fst ` set (sg_edges g) = set (node_keys g)"
    using assms(1) by (metis well_formed_def set_map)
  then have "map_of (sg_edges g) p \<noteq> None" if "previous = Some p" for p
    using assms(2) [OF that] by (simp add: map_of_eq_None_iff)
  then show ?thesis
    by (auto simp: enter_edge_def targets_update_where split: option.splits if_splits)
qed

lemma enter_edge_keys [simp]: "node_keys (enter_edge previous k g) = node_keys g"
  by (auto simp: enter_edge_def node_keys_def split: option.splits)

text \<open>The edges of a chain of keys with the key before it.\<close>

definition chain_edges :: "str option \<Rightarrow> str list \<Rightarrow> (str \<times> str) set" where
  "chain_edges previous ks = {(a, b). a \<noteq> b \<and> (a, b) \<in> set (zip (option_list previous @ ks)
     (tl (option_list previous @ ks)))}"

lemma chain_edges_Nil [simp]: "chain_edges previous [] = {}"
  by (cases previous) (auto simp: chain_edges_def)

lemma chain_edges_Cons:
  "chain_edges previous (k # ks) = {(a, b). previous = Some a \<and> b = k \<and> a \<noteq> k} \<union> chain_edges (Some k) ks"
  by (cases previous) (auto simp: chain_edges_def)

lemma enter_steps_graph:
  assumes "well_formed g" and "\<And>p. previous = Some p \<Longrightarrow> p \<in> set (node_keys g)"
  shows "well_formed (enter_steps c steps previous g)
    \<and> set (node_keys (enter_steps c steps previous g)) = set (node_keys g) \<union> set (map step_key steps)
    \<and> (\<forall>a b. b \<in> set (targets (sg_edges (enter_steps c steps previous g)) a)
         \<longleftrightarrow> b \<in> set (targets (sg_edges g) a) \<or> (a, b) \<in> chain_edges previous (map step_key steps))"
  using assms
proof (induction steps arbitrary: previous g)
  case (Cons step steps)
  let ?k = "step_key step"
  let ?n = "enter_node c step g"
  let ?e = "enter_edge previous ?k ?n"
  have n: "well_formed ?n" "?k \<in> set (node_keys ?n)" "\<And>p. previous = Some p \<Longrightarrow> p \<in> set (node_keys ?n)"
    using Cons.prems enter_node_well_formed by (auto simp: enter_node_keys)
  have e: "well_formed ?e" by (rule enter_edge_well_formed [OF n])
  have p: "\<And>p. Some ?k = Some p \<Longrightarrow> p \<in> set (node_keys ?e)" using n(2) by simp
  show ?case
    using Cons.IH [OF e p] enter_edge_targets [OF n(1,3), where k = ?k]
    by (auto simp: enter_node_keys chain_edges_Cons)
qed simp

lemma precedes_Cons:
  "(a, b) \<in> precedes (c # contexts) \<longleftrightarrow> (a, b) \<in> chain_edges None (step_keys c) \<or> (a, b) \<in> precedes contexts"
  by (auto simp: precedes_def chain_edges_def)

lemma step_graph_of:
  assumes "well_formed g"
  shows "well_formed (step_graph_of contexts g)
    \<and> set (node_keys (step_graph_of contexts g)) = set (node_keys g) \<union> (\<Union>c \<in> set contexts. set (step_keys c))
    \<and> (\<forall>a b. b \<in> set (targets (sg_edges (step_graph_of contexts g)) a)
         \<longleftrightarrow> b \<in> set (targets (sg_edges g) a) \<or> (a, b) \<in> precedes contexts)"
  using assms
proof (induction contexts arbitrary: g)
  case (Cons c contexts)
  have n: "\<And>p. None = Some p \<Longrightarrow> p \<in> set (node_keys g)" by simp
  note e = enter_steps_graph [OF Cons.prems n, where c = c and steps = "po_steps (ax_policy c)", folded step_keys_def]
  show ?case
    using Cons.IH [OF e [THEN conjunct1]] e [THEN conjunct2]
    by (simp only: step_graph_of.simps precedes_Cons list.set UN_insert) blast
qed (simp add: precedes_def)

lemma obligations_graph:
  shows "well_formed (obligations contexts)"
    and "set (node_keys (obligations contexts)) = (\<Union>c \<in> set contexts. set (step_keys c))"
    and "b \<in> set (targets (sg_edges (obligations contexts)) a) \<longleftrightarrow> (a, b) \<in> precedes contexts"
  unfolding obligations_def using step_graph_of [OF well_formed_empty]
  by (simp_all add: node_keys_def targets_def)


section \<open>The loop\<close>

lemma mset_sort_by [simp]: "mset (sort_by cmp xs) = mset xs"
proof -
  have "mset (insert_by cmp x ys) = add_mset x (mset ys)" for x ys by (induction ys) auto
  then show ?thesis by (induction xs) (simp_all add: sort_by_def)
qed

lemma release_spec:
  assumes "release nodes ts (indegree, ready) = (indegree', ready')" and "distinct ts"
  shows "\<exists>new. ready' = ready @ new \<and> distinct (map ob_key new)
    \<and> (\<forall>k. map_of indegree' k
         = (if k \<in> set ts then map_option (\<lambda>d. d - 1) (map_of indegree k) else map_of indegree k))
    \<and> set new = {n. ob_key n \<in> set ts \<and> map_of indegree' (ob_key n) = Some 0
         \<and> find (\<lambda>m. ob_key m = ob_key n) nodes = Some n}"
  using assms
proof (induction ts arbitrary: indegree ready)
  case (Cons t ts)
  define i where "i = update_where (\<lambda>e. fst e = t) (apsnd (\<lambda>d. d - 1)) indegree"
  define r where "r = (if map_of i t = Some 0 then ready @ option_list (find (\<lambda>n. ob_key n = t) nodes) else ready)"
  have rel: "release nodes ts (i, r) = (indegree', ready')"
    using Cons.prems(1) by (simp add: i_def r_def Let_def)
  obtain new where new: "ready' = r @ new" "distinct (map ob_key new)"
    and ind: "\<And>k. map_of indegree' k = (if k \<in> set ts then map_option (\<lambda>d. d - 1) (map_of i k) else map_of i k)"
    and set: "set new = {n. ob_key n \<in> set ts \<and> map_of indegree' (ob_key n) = Some 0
         \<and> find (\<lambda>m. ob_key m = ob_key n) nodes = Some n}"
    using Cons.IH [OF rel] Cons.prems(2) by auto
  have i: "map_of i k = (if k = t then map_option (\<lambda>d. d - 1) (map_of indegree k) else map_of indegree k)" for k
    by (simp add: i_def map_of_update_where)
  let ?first = "if map_of i t = Some 0 then option_list (find (\<lambda>n. ob_key n = t) nodes) else []"
  have t: "t \<notin> set ts" using Cons.prems(2) by simp
  have key: "n \<in> set ?first \<Longrightarrow> ob_key n = t" for n
    by (auto dest: find_SomeD split: if_splits)
  have first: "set ?first = {n. ob_key n = t \<and> map_of indegree' (ob_key n) = Some 0
         \<and> find (\<lambda>m. ob_key m = ob_key n) nodes = Some n}"
    using ind [of t] t by (auto dest: find_SomeD)
  have "ready' = ready @ ?first @ new" by (simp add: new(1) r_def)
  moreover have "distinct (map ob_key (?first @ new))"
  proof -
    have "distinct (map ob_key ?first)"
      by (cases "find (\<lambda>n. ob_key n = t) nodes") simp_all
    moreover have "ob_key ` set ?first \<subseteq> {t}" using key by blast
    moreover have "ob_key ` set new \<subseteq> set ts" unfolding set by blast
    ultimately show ?thesis
      using new(2) t by (simp only: map_append distinct_append set_map) blast
  qed
  moreover have "map_of indegree' k = (if k \<in> set (t # ts) then map_option (\<lambda>d. d - 1) (map_of indegree k)
      else map_of indegree k)" for k
    using ind [of k] i [of k] t by (cases "k = t") simp_all
  moreover have "set (?first @ new) = {n. ob_key n \<in> set (t # ts) \<and> map_of indegree' (ob_key n) = Some 0
         \<and> find (\<lambda>m. ob_key m = ob_key n) nodes = Some n}"
    unfolding set_append first set by auto
  ultimately show ?case by blast
qed simp

definition ordering_inv ::
  "obligation list \<Rightarrow> (str \<times> str list) list \<Rightarrow> (str \<times> int) list \<Rightarrow> obligation list \<Rightarrow> obligation list \<Rightarrow> bool" where
  "ordering_inv nodes edges indegree ready ordered \<longleftrightarrow>
     distinct (map ob_key (ordered @ ready)) \<and> set (ordered @ ready) \<subseteq> set nodes
     \<and> (\<forall>k \<in> ob_key ` set nodes.
          map_of indegree k = Some (int (card (sources edges k - ob_key ` set ordered))))
     \<and> (\<forall>n \<in> set nodes. n \<in> set (ordered @ ready) \<longleftrightarrow> sources edges (ob_key n) \<subseteq> ob_key ` set ordered)
     \<and> sorted_wrt (\<lambda>a b. ob_key a \<notin> set (targets edges (ob_key b))) ordered"

lemma find_key:
  assumes "distinct (map ob_key nodes)" and "n \<in> set nodes"
  shows "find (\<lambda>m. ob_key m = ob_key n) nodes = Some n"
  using assms by (induction nodes) auto

lemma ordering_step:
  assumes nodes: "distinct (map ob_key nodes)"
    and edges: "\<And>k. distinct (targets edges k) \<and> k \<notin> set (targets edges k) \<and> set (targets edges k) \<subseteq> ob_key ` set nodes"
    and inv: "ordering_inv nodes edges indegree ready ordered"
    and ready: "mset ready = mset (node # rest)"
    and rel: "release nodes (targets edges (ob_key node)) (indegree, rest) = (indegree', ready')"
  shows "ordering_inv nodes edges indegree' ready' (ordered @ [node])"
proof -
  let ?k = "ob_key node" and ?O = "ob_key ` set ordered"
  have in_ready: "set ready = insert node (set rest)" using ready by (metis list.set(2) set_mset_mset)
  have dist: "distinct (map ob_key (ordered @ node # rest))"
  proof -
    have "mset (map ob_key (ordered @ ready)) = mset (map ob_key (ordered @ node # rest))"
      using ready by (metis map_append mset_append mset_map)
    then show ?thesis using inv unfolding ordering_inv_def by (metis mset_eq_imp_distinct_iff)
  qed
  have sub: "set (ordered @ node # rest) \<subseteq> set nodes"
    and ind: "\<And>k. k \<in> ob_key ` set nodes \<Longrightarrow> map_of indegree k = Some (int (card (sources edges k - ?O)))"
    and mem: "\<And>n. n \<in> set nodes \<Longrightarrow> n \<in> set (ordered @ node # rest) \<longleftrightarrow> sources edges (ob_key n) \<subseteq> ?O"
    and sorted: "sorted_wrt (\<lambda>a b. ob_key a \<notin> set (targets edges (ob_key b))) ordered"
    using inv in_ready unfolding ordering_inv_def by auto
  have k: "?k \<notin> ?O" using dist by auto
  obtain new where new: "ready' = rest @ new" "distinct (map ob_key new)"
    and ind': "\<And>k. map_of indegree' k = (if k \<in> set (targets edges ?k)
         then map_option (\<lambda>d. d - 1) (map_of indegree k) else map_of indegree k)"
    and set_new: "set new = {n. ob_key n \<in> set (targets edges ?k) \<and> map_of indegree' (ob_key n) = Some 0
         \<and> find (\<lambda>m. ob_key m = ob_key n) nodes = Some n}"
    using release_spec [OF rel] edges by blast
  have deg: "map_of indegree' j = Some (int (card (sources edges j - ob_key ` set (ordered @ [node]))))"
    if "j \<in> ob_key ` set nodes" for j
  proof (cases "j \<in> set (targets edges ?k)")
    case True
    then have "?k \<in> sources edges j - ?O" using k by (simp add: sources_def)
    then have "int (card (sources edges j - ?O)) - 1 = int (card (sources edges j - ?O - {?k}))"
      using card_Suc_Diff1 [of "sources edges j - ?O" ?k] finite_sources [of edges j] by simp
    moreover have "sources edges j - ?O - {?k} = sources edges j - ob_key ` set (ordered @ [node])" by auto
    ultimately show ?thesis using True ind [OF that] ind' [of j] by simp
  next
    case False
    then have "sources edges j - ob_key ` set (ordered @ [node]) = sources edges j - ?O"
      by (auto simp: sources_def)
    then show ?thesis using False ind [OF that] ind' [of j] by simp
  qed
  have zero: "map_of indegree' (ob_key n) = Some 0 \<longleftrightarrow> sources edges (ob_key n) \<subseteq> insert ?k ?O"
    if "n \<in> set nodes" for n
    using deg [of "ob_key n"] that finite_sources [of edges "ob_key n"] by auto
  have new_iff: "n \<in> set new \<longleftrightarrow> ?k \<in> sources edges (ob_key n) \<and> sources edges (ob_key n) \<subseteq> insert ?k ?O"
    if "n \<in> set nodes" for n
    using that zero [OF that] find_key [OF nodes that] by (auto simp: set_new sources_def)
  have new_sub: "set new \<subseteq> set nodes" by (auto simp: set_new dest: find_SomeD)
  have disj: "ob_key ` set new \<inter> ob_key ` set (ordered @ node # rest) = {}"
  proof -
    have "n \<notin> set (ordered @ node # rest)" if "n \<in> set new" for n
      using that new_iff [of n] mem [of n] new_sub k by auto
    moreover have "inj_on ob_key (set nodes)" using nodes by (simp add: distinct_map)
    ultimately show ?thesis using sub new_sub by (fastforce dest: inj_onD)
  qed
  have "distinct (map ob_key ((ordered @ [node]) @ ready'))"
    using dist new disj by auto
  moreover have "set ((ordered @ [node]) @ ready') \<subseteq> set nodes" using sub new_sub new(1) by auto
  moreover have "n \<in> set ((ordered @ [node]) @ ready') \<longleftrightarrow> sources edges (ob_key n) \<subseteq> ob_key ` set (ordered @ [node])"
    if "n \<in> set nodes" for n
    using new_iff [OF that] mem [OF that] by (auto simp: new(1))
  moreover have "sorted_wrt (\<lambda>a b. ob_key a \<notin> set (targets edges (ob_key b))) (ordered @ [node])"
  proof -
    have "ob_key a \<notin> set (targets edges ?k)" if a: "a \<in> set ordered" for a
    proof
      assume "ob_key a \<in> set (targets edges ?k)"
      then have "?k \<in> sources edges (ob_key a)" by (simp add: sources_def)
      moreover have "sources edges (ob_key a) \<subseteq> ?O" using mem [of a] a sub by auto
      ultimately show False using k by blast
    qed
    then show ?thesis using sorted by (simp add: sorted_wrt_append)
  qed
  ultimately show ?thesis using deg unfolding ordering_inv_def by blast
qed


lemma order_nodes_inv:
  assumes nodes: "distinct (map ob_key nodes)"
    and edges: "\<And>k. distinct (targets edges k) \<and> k \<notin> set (targets edges k) \<and> set (targets edges k) \<subseteq> ob_key ` set nodes"
    and inv: "ordering_inv nodes edges indegree ready ordered"
  shows "\<exists>i. ordering_inv nodes edges i [] (order_nodes cmp nodes edges indegree ready ordered)"
  using assms
proof (induction cmp nodes edges indegree ready ordered rule: order_nodes.induct)
  case (1 cmp nodes edges indegree ready ordered)
  let ?cmp = "\<lambda>l r. comparePriority cmp (ob_priority l) (ob_priority r)"
  show ?case
  proof (cases "sort_by ?cmp ready")
    case Nil
    then have "ready = []" by (metis length_0_conv length_sort_by)
    then show ?thesis using 1(4) Nil by (auto simp: order_nodes.simps)
  next
    case (Cons node rest)
    obtain i r where rel: "release nodes (targets edges (ob_key node)) (indegree, rest) = (i, r)"
      by (cases "release nodes (targets edges (ob_key node)) (indegree, rest)")
    have "mset ready = mset (node # rest)" using mset_sort_by [of ?cmp ready] Cons by simp
    then have "ordering_inv nodes edges i r (ordered @ [node])"
      using ordering_step [OF 1(2,3,4) _ rel] by simp
    from 1(1) [OF Cons rel [symmetric] 1(2,3) this] show ?thesis
      by (subst order_nodes.simps) (simp add: Cons rel)
  qed
qed

text \<open>The order the loop computes, whole or cut short by a cycle.\<close>

lemma ordered_obligations_inv:
  fixes contexts :: "approval_context list" and cmp :: "str \<Rightarrow> str \<Rightarrow> int"
  defines "g \<equiv> obligations contexts" and "xs \<equiv> ordered_obligations cmp contexts"
  shows "distinct (map ob_key xs)" and "set xs \<subseteq> set (sg_nodes g)"
    and "\<And>n. n \<in> set (sg_nodes g) \<Longrightarrow> n \<in> set xs \<longleftrightarrow> (\<forall>a. (a, ob_key n) \<in> precedes contexts \<longrightarrow> a \<in> ob_key ` set xs)"
    and "i < j \<Longrightarrow> j < length xs \<Longrightarrow> (ob_key (xs ! j), ob_key (xs ! i)) \<notin> precedes contexts"
proof -
  note wf = obligations_graph(1) [of contexts, folded g_def]
  note prec = obligations_graph(3) [of _ contexts, folded g_def]
  have nodes: "distinct (map ob_key (sg_nodes g))"
    and edges: "\<And>k. distinct (targets (sg_edges g) k) \<and> k \<notin> set (targets (sg_edges g) k)
      \<and> set (targets (sg_edges g) k) \<subseteq> ob_key ` set (sg_nodes g)"
    and ind: "\<And>k. k \<in> ob_key ` set (sg_nodes g) \<Longrightarrow>
      map_of (sg_indegree g) k = Some (int (card (sources (sg_edges g) k)))"
    using wf unfolding well_formed_def node_keys_def set_map by blast+
  let ?ready = "filter (\<lambda>n. map_of (sg_indegree g) (ob_key n) = Some 0) (sg_nodes g)"
  have "ordering_inv (sg_nodes g) (sg_edges g) (sg_indegree g) ?ready []"
    using nodes ind finite_sources by (auto simp: ordering_inv_def distinct_map_filter)
  then obtain d where inv: "ordering_inv (sg_nodes g) (sg_edges g) d [] xs"
    using order_nodes_inv [OF nodes edges] unfolding xs_def ordered_obligations_def Let_def g_def by metis
  show "distinct (map ob_key xs)" "set xs \<subseteq> set (sg_nodes g)"
    using inv by (simp_all add: ordering_inv_def)
  show "n \<in> set xs \<longleftrightarrow> (\<forall>a. (a, ob_key n) \<in> precedes contexts \<longrightarrow> a \<in> ob_key ` set xs)"
    if "n \<in> set (sg_nodes g)" for n
    using inv that prec unfolding ordering_inv_def sources_def by auto
  show "(ob_key (xs ! j), ob_key (xs ! i)) \<notin> precedes contexts" if "i < j" "j < length xs"
    using inv that prec unfolding ordering_inv_def by (auto simp: sorted_wrt_iff_nth_less)
qed

lemma precedes_keys:
  assumes "(a, b) \<in> precedes contexts"
  shows "a \<in> set (node_keys (obligations contexts))" and "b \<in> set (node_keys (obligations contexts))"
proof -
  obtain c where c: "c \<in> set contexts" and e: "(a, b) \<in> set (zip (step_keys c) (tl (step_keys c)))"
    using assms by (auto simp: precedes_def)
  have "set (tl (step_keys c)) \<subseteq> set (step_keys c)" by (cases "step_keys c") auto
  then show "a \<in> set (node_keys (obligations contexts))" "b \<in> set (node_keys (obligations contexts))"
    unfolding obligations_graph(2) using c set_zip_leftD [OF e] set_zip_rightD [OF e] by blast+
qed

lemma finite_precedes: "finite (precedes contexts)"
proof (rule finite_subset)
  show "precedes contexts \<subseteq> set (node_keys (obligations contexts)) \<times> set (node_keys (obligations contexts))"
    using precedes_keys by auto
qed simp

lemma ordered_complete:
  assumes "length (ordered_obligations cmp contexts) = length (sg_nodes (obligations contexts))"
  shows "set (ordered_obligations cmp contexts) = set (sg_nodes (obligations contexts))"
proof -
  note inv = ordered_obligations_inv [where cmp = cmp and contexts = contexts]
  have nodes: "distinct (sg_nodes (obligations contexts))"
    using obligations_graph(1) [of contexts] unfolding well_formed_def node_keys_def
    by (metis distinct_map)
  have "card (set (ordered_obligations cmp contexts)) = card (set (sg_nodes (obligations contexts)))"
    using assms inv(1) nodes by (metis distinct_card distinct_map)
  then show ?thesis using inv(2) by (metis card_subset_eq finite_set)
qed

lemma ordered_before:
  assumes "length (ordered_obligations cmp contexts) = length (sg_nodes (obligations contexts))"
    and "(a, b) \<in> (precedes contexts)\<^sup>+"
  shows "\<exists>i j. i < j \<and> j < length (ordered_obligations cmp contexts)
    \<and> ob_key (ordered_obligations cmp contexts ! i) = a \<and> ob_key (ordered_obligations cmp contexts ! j) = b"
  using assms(2)
proof (induction rule: trancl_induct)
  let ?xs = "ordered_obligations cmp contexts"
  note inv = ordered_obligations_inv [where cmp = cmp and contexts = contexts]
  have edge: "\<exists>i j. i < j \<and> j < length ?xs \<and> ob_key (?xs ! i) = a \<and> ob_key (?xs ! j) = b"
    if e: "(a, b) \<in> precedes contexts" for a b
  proof -
    have "a \<in> ob_key ` set ?xs" "b \<in> ob_key ` set ?xs"
      using precedes_keys [OF e] ordered_complete [OF assms(1)] by (auto simp: node_keys_def)
    then obtain i j where ij: "i < length ?xs" "ob_key (?xs ! i) = a" "j < length ?xs" "ob_key (?xs ! j) = b"
      by (auto simp: in_set_conv_nth)
    have "i \<noteq> j" using ij e by (auto simp: precedes_def)
    moreover have "\<not> j < i" using inv(4) [of j i] ij e by auto
    ultimately show ?thesis using ij by (metis linorder_neqE_nat)
  qed
  { case (base y) then show ?case by (rule edge) }
  { case (step y z)
    obtain i j where 1: "i < j" "j < length ?xs" "ob_key (?xs ! i) = a" "ob_key (?xs ! j) = y"
      using step.IH by blast
    obtain k l where 2: "k < l" "l < length ?xs" "ob_key (?xs ! k) = y" "ob_key (?xs ! l) = z"
      using edge [OF step.hyps(2)] by blast
    have "j = k"
      using 1 2 inv(1) nth_eq_iff_index_eq [of "map ob_key ?xs" j k] by simp
    then show ?case using 1 2 by (metis order.strict_trans) }
qed

lemma ordered_iff_acyclic:
  "length (ordered_obligations cmp contexts) = length (sg_nodes (obligations contexts)) \<longleftrightarrow> acyclic (precedes contexts)"
proof
  let ?xs = "ordered_obligations cmp contexts"
  note inv = ordered_obligations_inv [where cmp = cmp and contexts = contexts]
  assume len: "length ?xs = length (sg_nodes (obligations contexts))"
  show "acyclic (precedes contexts)"
  proof (rule acyclicI, rule allI, rule notI)
    fix x assume "(x, x) \<in> (precedes contexts)\<^sup>+"
    then obtain i j where "i < j" "j < length ?xs" "ob_key (?xs ! i) = x" "ob_key (?xs ! j) = x"
      using ordered_before [OF len] by blast
    then show False using inv(1) nth_eq_iff_index_eq [of "map ob_key ?xs" i j] by simp
  qed
next
  let ?xs = "ordered_obligations cmp contexts"
  note inv = ordered_obligations_inv [where cmp = cmp and contexts = contexts]
  assume "acyclic (precedes contexts)"
  then have wf: "wf (precedes contexts)" by (rule finite_acyclic_wf [OF finite_precedes])
  have "k \<in> ob_key ` set ?xs" if "k \<in> set (node_keys (obligations contexts))" for k
    using wf that
  proof (induction k rule: wf_induct_rule)
    case (less k)
    then obtain n where n: "n \<in> set (sg_nodes (obligations contexts))" "ob_key n = k"
      by (auto simp: node_keys_def)
    have "a \<in> ob_key ` set ?xs" if "(a, k) \<in> precedes contexts" for a
      using less.IH [OF that] precedes_keys [OF that] by blast
    then show ?case using inv(3) [OF n(1)] n by blast
  qed
  then have "ob_key ` set ?xs = ob_key ` set (sg_nodes (obligations contexts))"
    using inv(2) by (auto simp: node_keys_def)
  moreover have "distinct (map ob_key (sg_nodes (obligations contexts)))"
    using obligations_graph(1) [of contexts] unfolding well_formed_def node_keys_def by blast
  ultimately show "length ?xs = length (sg_nodes (obligations contexts))"
    using inv(1) by (metis distinct_card length_map set_map)
qed


section \<open>The nodes\<close>

text \<open>
  A node stands for a step of one of the policies, and records the orders of the contexts
  whose policy has it: \<open>R\<close> relates the keys entered so far to those orders.
\<close>

definition node_of :: "approval_policy_step set \<Rightarrow> obligation \<Rightarrow> bool" where
  "node_of S n \<longleftrightarrow> (\<exists>st \<in> S. ob_key n = step_key st \<and> ob_roleId n = ay_roleId st
     \<and> ob_approverUserId n = ay_approverUserId st \<and> ob_approvalsRequired n = ay_approvalsRequired st
     \<and> ob_separationRules n = step_rules st)"

definition nodes_ok :: "approval_policy_step set \<Rightarrow> (str \<times> int) set \<Rightarrow> step_graph \<Rightarrow> bool" where
  "nodes_ok S R g \<longleftrightarrow> fst ` R \<subseteq> ob_key ` set (sg_nodes g)
     \<and> (\<forall>n \<in> set (sg_nodes g). node_of S n \<and> distinct (ob_sourceContextOrders n)
          \<and> set (ob_sourceContextOrders n) = {v. (ob_key n, v) \<in> R})"

lemma node_of_mono: "node_of S n \<Longrightarrow> S \<subseteq> T \<Longrightarrow> node_of T n"
  by (auto simp: node_of_def)

lemma enter_edge_nodes [simp]: "sg_nodes (enter_edge previous k g) = sg_nodes g"
  by (auto simp: enter_edge_def split: option.splits)

lemma nodes_ok_cong: "sg_nodes g = sg_nodes h \<Longrightarrow> nodes_ok S R g = nodes_ok S R h"
  by (simp add: nodes_ok_def)

lemma enter_node_ok:
  assumes "nodes_ok S R g"
  shows "nodes_ok (insert st S) (insert (step_key st, ax_order c) R) (enter_node c st g)"
proof (cases "list_ex (\<lambda>n. ob_key n = step_key st) (sg_nodes g)")
  case True
  let ?f = "ob_sourceContextOrders_update (\<lambda>os. if ax_order c \<in> set os then os else os @ [ax_order c])"
  have nodes: "sg_nodes (enter_node c st g) = update_where (\<lambda>n. ob_key n = step_key st) ?f (sg_nodes g)"
    using True by (simp add: enter_node_def Let_def)
  have "ob_key ` set (update_where (\<lambda>n. ob_key n = step_key st) ?f (sg_nodes g)) = ob_key ` set (sg_nodes g)"
    by (metis update_node_keys set_map)
  moreover have "step_key st \<in> ob_key ` set (sg_nodes g)" using True by (force simp: list_ex_iff)
  moreover have "node_of (insert st S) m \<and> distinct (ob_sourceContextOrders m)
      \<and> set (ob_sourceContextOrders m) = {v. (ob_key m, v) \<in> insert (step_key st, ax_order c) R}"
    if "m \<in> set (update_where (\<lambda>n. ob_key n = step_key st) ?f (sg_nodes g))" for m
  proof -
    obtain n where n: "n \<in> set (sg_nodes g)" and m: "m = (if ob_key n = step_key st then ?f n else n)"
      using \<open>m \<in> _\<close> by (auto simp: update_where_def)
    have ok: "node_of S n" "distinct (ob_sourceContextOrders n)"
      "set (ob_sourceContextOrders n) = {v. (ob_key n, v) \<in> R}"
      using assms n unfolding nodes_ok_def by blast+
    have "node_of (insert st S) m" using ok(1) by (auto simp: m node_of_def)
    moreover have "distinct (ob_sourceContextOrders m)" using ok(2) by (simp add: m)
    moreover have "set (ob_sourceContextOrders m) = {v. (ob_key m, v) \<in> insert (step_key st, ax_order c) R}"
      using ok(3) by (cases "ob_key n = step_key st"; cases "ax_order c \<in> set (ob_sourceContextOrders n)")
        (auto simp: m)
    ultimately show ?thesis by blast
  qed
  ultimately show ?thesis using assms unfolding nodes_ok_def nodes by auto
next
  case False
  then have k: "step_key st \<notin> ob_key ` set (sg_nodes g)" by (auto simp: list_ex_iff)
  obtain m where nodes: "sg_nodes (enter_node c st g) = sg_nodes g @ [m]"
    and m: "ob_key m = step_key st" "ob_sourceContextOrders m = [ax_order c]" "node_of {st} m"
    using False by (simp add: enter_node_def Let_def node_of_def)
  have "(step_key st, v) \<notin> R" for v using k assms by (force simp: nodes_ok_def)
  moreover have "node_of (insert st S) n" if "node_of S n" for n
    using node_of_mono [OF that] by blast
  moreover have "ob_key n \<noteq> step_key st" if "n \<in> set (sg_nodes g)" for n using k that by (metis imageI)
  moreover have "node_of (insert st S) m" by (rule node_of_mono [OF m(3)]) simp
  ultimately show ?thesis
    using assms m(1,2) unfolding nodes_ok_def nodes by auto
qed

lemma enter_steps_ok:
  "nodes_ok S R g \<Longrightarrow> nodes_ok (S \<union> set steps) (R \<union> (\<lambda>st. (step_key st, ax_order c)) ` set steps)
     (enter_steps c steps previous g)"
proof (induction steps arbitrary: previous g S R)
  case (Cons st steps)
  have "nodes_ok (insert st S) (insert (step_key st, ax_order c) R)
      (enter_edge previous (step_key st) (enter_node c st g))"
    using enter_node_ok [OF Cons.prems, of st c] by (simp add: nodes_ok_def)
  from Cons.IH [OF this, of "Some (step_key st)"] show ?case by (simp add: Un_assoc insert_commute)
qed simp

lemma step_graph_of_ok:
  "nodes_ok S R g \<Longrightarrow> nodes_ok (S \<union> (\<Union>c \<in> set contexts. set (po_steps (ax_policy c))))
     (R \<union> {(k, ax_order c) |k c. c \<in> set contexts \<and> k \<in> set (step_keys c)}) (step_graph_of contexts g)"
proof (induction contexts arbitrary: g S R)
  case (Cons c contexts)
  from Cons.IH [OF enter_steps_ok [OF Cons.prems, of "po_steps (ax_policy c)" c None]]
  have "nodes_ok ((S \<union> set (po_steps (ax_policy c))) \<union> (\<Union>c \<in> set contexts. set (po_steps (ax_policy c))))
     ((R \<union> (\<lambda>st. (step_key st, ax_order c)) ` set (po_steps (ax_policy c)))
        \<union> {(k, ax_order c) |k c. c \<in> set contexts \<and> k \<in> set (step_keys c)})
     (step_graph_of (c # contexts) g)" by simp
  moreover have "(R \<union> (\<lambda>st. (step_key st, ax_order c)) ` set (po_steps (ax_policy c)))
        \<union> {(k, ax_order c) |k c. c \<in> set contexts \<and> k \<in> set (step_keys c)}
    = R \<union> {(k, ax_order d) |k d. d \<in> set (c # contexts) \<and> k \<in> set (step_keys d)}"
    by (auto simp: step_keys_def)
  ultimately show ?case by (simp add: Un_assoc)
qed simp

lemma obligation_nodes:
  assumes "n \<in> set (sg_nodes (obligations contexts))"
  shows "node_of (\<Union>c \<in> set contexts. set (po_steps (ax_policy c))) n"
    and "distinct (ob_sourceContextOrders n)"
    and "set (ob_sourceContextOrders n) = {ax_order c |c. c \<in> set contexts \<and> ob_key n \<in> set (step_keys c)}"
proof -
  have "nodes_ok {} {} \<lparr>sg_nodes = [], sg_edges = [], sg_indegree = []\<rparr>" by (simp add: nodes_ok_def)
  from step_graph_of_ok [OF this, of contexts]
  have "nodes_ok (\<Union>c \<in> set contexts. set (po_steps (ax_policy c)))
      {(k, ax_order c) |k c. c \<in> set contexts \<and> k \<in> set (step_keys c)} (obligations contexts)"
    by (simp add: obligations_def)
  then show "node_of (\<Union>c \<in> set contexts. set (po_steps (ax_policy c))) n"
    "distinct (ob_sourceContextOrders n)"
    "set (ob_sourceContextOrders n) = {ax_order c |c. c \<in> set contexts \<and> ob_key n \<in> set (step_keys c)}"
    using assms unfolding nodes_ok_def by auto
qed

section \<open>The composed steps\<close>

lemma tx_map_steps:
  "tx_map (composed_step_of env) es s = Inr (steps, s') \<Longrightarrow>
     list_all2 (\<lambda>e c. co_order c = fst e \<and> co_obligationKey c = ob_key (snd e)
       \<and> co_roleId c = ob_roleId (snd e) \<and> co_approverUserId c = ob_approverUserId (snd e)
       \<and> co_approvalsRequired c = ob_approvalsRequired (snd e)
       \<and> co_separationRules c = ob_separationRules (snd e)
       \<and> co_sourceContextOrders c = sort (ob_sourceContextOrders (snd e))) es steps"
proof (induction es arbitrary: s steps)
  case (Cons e es)
  obtain order node where e: "e = (order, node)" by (cases e)
  from Cons.prems obtain c s1 cs where c: "composed_step_of env e s = Inr (c, s1)"
    and cs: "tx_map (composed_step_of env) es s1 = Inr (cs, s')" and steps: "steps = c # cs"
    by (auto simp: tx_bind_Inr tx_return_Inr)
  have "co_order c = order \<and> co_obligationKey c = ob_key node \<and> co_roleId c = ob_roleId node
      \<and> co_approverUserId c = ob_approverUserId node \<and> co_approvalsRequired c = ob_approvalsRequired node
      \<and> co_separationRules c = ob_separationRules node
      \<and> co_sourceContextOrders c = sort (ob_sourceContextOrders node)"
    using c by (auto simp: composed_step_of_def e tx_bind_Inr tx_return_Inr)
  then show ?case using Cons.IH [OF cs] by (simp add: steps e)
qed (simp add: tx_return_Inr)

lemma tx_map_steps_total: "\<exists>steps s'. tx_map (composed_step_of env) es s = Inr (steps, s')"
proof (induction es arbitrary: s)
  case (Cons e es)
  obtain c s1 where "composed_step_of env e s = Inr (c, s1)"
    by (cases e) (auto simp: composed_step_of_def tx_bind_def randomUUID_def)
  then show ?case using Cons [of s1] by (auto simp: tx_bind_def)
qed simp

end
