(* ===== verification/Policy_Scope.thy ===== *)
theory Policy_Scope
  imports Step_Order
begin

text \<open>
  The payments a policy governs, as a set of situations. Dominance of policies is strict
  inclusion of these sets, and the policy chosen among candidates is the least one.
\<close>

section \<open>The scope of a policy\<close>

text \<open>
  What a policy looks at in a payment, and the payments it governs. The query of
  \<open>PaymentApprovalRepository.policies\<close> selects the active policies whose scope contains the
  payment.
\<close>

record situation =
  si_branch :: "uuid option"
  si_unit :: uuid
  si_currency :: str
  si_category :: str
  si_amount :: rat

definition allows :: "'a option \<Rightarrow> 'a \<Rightarrow> bool" where
  "allows limit v \<longleftrightarrow> limit = None \<or> limit = Some v"

definition in_bounds :: "str option \<Rightarrow> str option \<Rightarrow> rat \<Rightarrow> bool" where
  "in_bounds minimum maximum v \<longleftrightarrow> (case minimum of None \<Rightarrow> True | Some m \<Rightarrow> dec_rat m \<le> v)
     \<and> (case maximum of None \<Rightarrow> True | Some m \<Rightarrow> v \<le> dec_rat m)"

definition policy_scope :: "approval_policy \<Rightarrow> situation set" where
  "policy_scope p = {x. (po_branchId p = None \<or> po_branchId p = si_branch x)
     \<and> allows (po_treasuryUnitId p) (si_unit x) \<and> allows (po_currency p) (si_currency x)
     \<and> allows (po_methodCategory p) (si_category x)
     \<and> in_bounds (po_amountMinimum p) (po_amountMaximum p) (si_amount x)}"

text \<open>The bounds of a policy are decimal texts and do not exclude each other.\<close>

definition policy_bounds :: "approval_policy \<Rightarrow> bool" where
  "policy_bounds p \<longleftrightarrow> (case po_amountMinimum p of None \<Rightarrow> True | Some m \<Rightarrow> is_decimal m)
     \<and> (case po_amountMaximum p of None \<Rightarrow> True | Some m \<Rightarrow> is_decimal m)
     \<and> (case (po_amountMinimum p, po_amountMaximum p) of
          (Some m, Some n) \<Rightarrow> dec_rat m \<le> dec_rat n | _ \<Rightarrow> True)"

lemma another_text: "\<exists>y :: str. y \<noteq> x"
  by (metis list.distinct(1))

lemma optionalNarrower_allows:
  "fst (optionalNarrower l r) \<longleftrightarrow> (\<forall>v :: str. allows l v \<longrightarrow> allows r v)"
proof (cases r)
  case (Some x)
  obtain y :: str where "y \<noteq> x" using another_text by blast
  then show ?thesis by (cases l) (auto simp: optionalNarrower_def allows_def Some)
qed (simp add: optionalNarrower_def allows_def)

lemma optionalNarrower_strict: "snd (optionalNarrower l r) \<longleftrightarrow> r = None \<and> l \<noteq> None"
  by (auto simp: optionalNarrower_def split: option.splits)

lemma optionalNarrower_branch:
  "fst (optionalNarrower l r) \<longleftrightarrow> (\<forall>v. (l = None \<or> l = v) \<longrightarrow> (r = None \<or> r = v))"
  by (auto simp: optionalNarrower_def split: option.splits)

lemma bound_unbounded: "\<exists>v :: rat. v < a" "\<exists>v :: rat. a < v"
  by (auto intro: exI [of _ "a - 1"] exI [of _ "a + 1"])

lemma narrower_bounds:
  assumes "policy_bounds p" and "policy_bounds q"
  shows "fst (lowerNarrower (po_amountMinimum p) (po_amountMinimum q))
      \<and> fst (upperNarrower (po_amountMaximum p) (po_amountMaximum q))
    \<longleftrightarrow> (\<forall>v. in_bounds (po_amountMinimum p) (po_amountMaximum p) v \<longrightarrow>
         in_bounds (po_amountMinimum q) (po_amountMaximum q) v)"
    (is "?n \<longleftrightarrow> ?s")
proof
  show "?n \<Longrightarrow> ?s"
    using assms
    by (auto simp: lowerNarrower_def upperNarrower_def policy_bounds_def in_bounds_def
        approvalCompareDecimal_rat split: option.splits if_splits)
next
  assume s: ?s
  have low: "fst (lowerNarrower (po_amountMinimum p) (po_amountMinimum q))"
  proof (cases "po_amountMinimum q")
    case (Some m)
    show ?thesis
    proof (cases "po_amountMinimum p")
      case None
      obtain v where "v < dec_rat m" "\<forall>n. po_amountMaximum p = Some n \<longrightarrow> v \<le> dec_rat n"
        by (cases "po_amountMaximum p")
          (use bound_unbounded in \<open>auto intro: that [of "min (dec_rat m - 1) (dec_rat (the (po_amountMaximum p)))"]\<close>)
      then show ?thesis using s None Some by (force simp: in_bounds_def split: option.splits)
    next
      case (Some n)
      have "in_bounds (po_amountMinimum p) (po_amountMaximum p) (dec_rat n)"
        using assms(1) Some by (auto simp: in_bounds_def policy_bounds_def split: option.splits)
      then show ?thesis
        using s Some \<open>po_amountMinimum q = Some m\<close> assms
        by (auto simp: lowerNarrower_def in_bounds_def policy_bounds_def approvalCompareDecimal_rat)
    qed
  qed (simp add: lowerNarrower_def)
  have up: "fst (upperNarrower (po_amountMaximum p) (po_amountMaximum q))"
  proof (cases "po_amountMaximum q")
    case (Some m)
    show ?thesis
    proof (cases "po_amountMaximum p")
      case None
      obtain v where "dec_rat m < v" "\<forall>n. po_amountMinimum p = Some n \<longrightarrow> dec_rat n \<le> v"
        by (cases "po_amountMinimum p")
          (use bound_unbounded in \<open>auto intro: that [of "max (dec_rat m + 1) (dec_rat (the (po_amountMinimum p)))"]\<close>)
      then show ?thesis using s None Some by (force simp: in_bounds_def split: option.splits)
    next
      case (Some n)
      have "in_bounds (po_amountMinimum p) (po_amountMaximum p) (dec_rat n)"
        using assms(1) Some by (auto simp: in_bounds_def policy_bounds_def split: option.splits)
      then show ?thesis
        using s Some \<open>po_amountMaximum q = Some m\<close> assms
        by (auto simp: upperNarrower_def in_bounds_def policy_bounds_def approvalCompareDecimal_rat)
    qed
  qed (simp add: upperNarrower_def)
  show ?n using low up by blast
qed


definition policy_narrower :: "approval_policy \<Rightarrow> approval_policy \<Rightarrow> bool" where
  "policy_narrower p q \<longleftrightarrow> fst (optionalNarrower (po_branchId p) (po_branchId q))
     \<and> fst (optionalNarrower (po_treasuryUnitId p) (po_treasuryUnitId q))
     \<and> fst (optionalNarrower (po_currency p) (po_currency q))
     \<and> fst (optionalNarrower (po_methodCategory p) (po_methodCategory q))
     \<and> fst (lowerNarrower (po_amountMinimum p) (po_amountMinimum q))
     \<and> fst (upperNarrower (po_amountMaximum p) (po_amountMaximum q))"

lemma optional_strict:
  "fst (optionalNarrower l r) \<Longrightarrow> snd (optionalNarrower l r) \<longleftrightarrow> \<not> fst (optionalNarrower r l)"
  by (auto simp: optionalNarrower_def split: option.splits)

lemma amount_strict:
  assumes "policy_bounds p" and "policy_bounds q"
  shows "fst (lowerNarrower (po_amountMinimum p) (po_amountMinimum q)) \<Longrightarrow>
      snd (lowerNarrower (po_amountMinimum p) (po_amountMinimum q))
        \<longleftrightarrow> \<not> fst (lowerNarrower (po_amountMinimum q) (po_amountMinimum p))"
    and "fst (upperNarrower (po_amountMaximum p) (po_amountMaximum q)) \<Longrightarrow>
      snd (upperNarrower (po_amountMaximum p) (po_amountMaximum q))
        \<longleftrightarrow> \<not> fst (upperNarrower (po_amountMaximum q) (po_amountMaximum p))"
proof -
  have d: "is_decimal m" if "po_amountMinimum p = Some m \<or> po_amountMinimum q = Some m
      \<or> po_amountMaximum p = Some m \<or> po_amountMaximum q = Some m" for m
    using assms that by (auto simp: policy_bounds_def split: option.splits)
  show "snd (lowerNarrower (po_amountMinimum p) (po_amountMinimum q))
        \<longleftrightarrow> \<not> fst (lowerNarrower (po_amountMinimum q) (po_amountMinimum p))"
    if "fst (lowerNarrower (po_amountMinimum p) (po_amountMinimum q))"
    using that by (cases "po_amountMinimum p"; cases "po_amountMinimum q")
      (auto simp: lowerNarrower_def approvalCompareDecimal_rat d)
  show "snd (upperNarrower (po_amountMaximum p) (po_amountMaximum q))
        \<longleftrightarrow> \<not> fst (upperNarrower (po_amountMaximum q) (po_amountMaximum p))"
    if "fst (upperNarrower (po_amountMaximum p) (po_amountMaximum q))"
    using that by (cases "po_amountMaximum p"; cases "po_amountMaximum q")
      (auto simp: upperNarrower_def approvalCompareDecimal_rat d)
qed

lemma dominates_narrower:
  assumes "policy_bounds p" and "policy_bounds q"
  shows "dominates p q \<longleftrightarrow> policy_narrower p q \<and> \<not> policy_narrower q p"
proof -
  have "dominates p q \<longleftrightarrow> policy_narrower p q
      \<and> (snd (optionalNarrower (po_branchId p) (po_branchId q))
        \<or> snd (optionalNarrower (po_treasuryUnitId p) (po_treasuryUnitId q))
        \<or> snd (optionalNarrower (po_currency p) (po_currency q))
        \<or> snd (optionalNarrower (po_methodCategory p) (po_methodCategory q))
        \<or> snd (lowerNarrower (po_amountMinimum p) (po_amountMinimum q))
        \<or> snd (upperNarrower (po_amountMaximum p) (po_amountMaximum q)))"
    by (auto simp: dominates_def policy_narrower_def Let_def)
  then show ?thesis
    using optional_strict amount_strict [OF assms] unfolding policy_narrower_def by blast
qed

lemma narrower_scope:
  assumes "policy_bounds p" and "policy_bounds q"
  shows "policy_narrower p q \<longleftrightarrow> policy_scope p \<subseteq> policy_scope q"
proof
  assume n: "policy_narrower p q"
  have amount: "in_bounds (po_amountMinimum q) (po_amountMaximum q) v"
    if "in_bounds (po_amountMinimum p) (po_amountMaximum p) v" for v
    using n narrower_bounds [OF assms] that by (auto simp: policy_narrower_def)
  have branch: "\<forall>v. (po_branchId p = None \<or> po_branchId p = v) \<longrightarrow> (po_branchId q = None \<or> po_branchId q = v)"
    using n optionalNarrower_branch unfolding policy_narrower_def by blast
  have keys: "allows (po_treasuryUnitId p) v \<Longrightarrow> allows (po_treasuryUnitId q) v"
    "allows (po_currency p) v \<Longrightarrow> allows (po_currency q) v"
    "allows (po_methodCategory p) v \<Longrightarrow> allows (po_methodCategory q) v" for v
    using n optionalNarrower_allows unfolding policy_narrower_def by blast+
  show "policy_scope p \<subseteq> policy_scope q"
  proof
    fix x assume "x \<in> policy_scope p"
    then show "x \<in> policy_scope q"
      using branch keys amount unfolding policy_scope_def mem_Collect_eq by blast
  qed
next
  assume sub: "policy_scope p \<subseteq> policy_scope q"
  define base where "base = \<lparr>si_branch = po_branchId p,
    si_unit = (case po_treasuryUnitId p of None \<Rightarrow> [] | Some x \<Rightarrow> x),
    si_currency = (case po_currency p of None \<Rightarrow> [] | Some x \<Rightarrow> x),
    si_category = (case po_methodCategory p of None \<Rightarrow> [] | Some x \<Rightarrow> x),
    si_amount = (case po_amountMinimum p of Some m \<Rightarrow> dec_rat m
      | None \<Rightarrow> (case po_amountMaximum p of Some m \<Rightarrow> dec_rat m | None \<Rightarrow> 0))\<rparr>"
  have base: "base \<in> policy_scope p"
    using assms(1)
    by (auto simp: base_def policy_scope_def allows_def in_bounds_def policy_bounds_def split: option.splits)
  have "fst (optionalNarrower (po_branchId p) (po_branchId q))"
    unfolding optionalNarrower_branch
  proof (intro allI impI)
    fix v assume "po_branchId p = None \<or> po_branchId p = v"
    then have "base\<lparr>si_branch := v\<rparr> \<in> policy_scope p" using base by (simp add: policy_scope_def)
    then show "po_branchId q = None \<or> po_branchId q = v" using subsetD [OF sub] by (fastforce simp: policy_scope_def)
  qed
  moreover have "allows (po_treasuryUnitId q) v" if "allows (po_treasuryUnitId p) v" for v
  proof -
    have "base\<lparr>si_unit := v\<rparr> \<in> policy_scope p" using base that by (simp add: policy_scope_def)
    then show ?thesis using subsetD [OF sub] by (fastforce simp: policy_scope_def)
  qed
  moreover have "allows (po_currency q) v" if "allows (po_currency p) v" for v
  proof -
    have "base\<lparr>si_currency := v\<rparr> \<in> policy_scope p" using base that by (simp add: policy_scope_def)
    then show ?thesis using subsetD [OF sub] by (fastforce simp: policy_scope_def)
  qed
  moreover have "allows (po_methodCategory q) v" if "allows (po_methodCategory p) v" for v
  proof -
    have "base\<lparr>si_category := v\<rparr> \<in> policy_scope p" using base that by (simp add: policy_scope_def)
    then show ?thesis using subsetD [OF sub] by (fastforce simp: policy_scope_def)
  qed
  moreover have "in_bounds (po_amountMinimum q) (po_amountMaximum q) v"
    if "in_bounds (po_amountMinimum p) (po_amountMaximum p) v" for v
  proof -
    have "base\<lparr>si_amount := v\<rparr> \<in> policy_scope p" using base that by (simp add: policy_scope_def)
    then show ?thesis using subsetD [OF sub] by (fastforce simp: policy_scope_def)
  qed
  ultimately show "policy_narrower p q"
    using narrower_bounds [OF assms] unfolding policy_narrower_def optionalNarrower_allows by blast
qed

lemma dominates_subset:
  "policy_bounds p \<Longrightarrow> policy_bounds q \<Longrightarrow> dominates p q \<longleftrightarrow> policy_scope p \<subset> policy_scope q"
  using dominates_narrower narrower_scope by (metis psubset_eq subset_antisym)

lemma singleton_list: "distinct xs \<Longrightarrow> xs = [x] \<longleftrightarrow> set xs = {x}"
proof (cases xs)
  case (Cons y ys)
  assume "distinct xs"
  then show ?thesis by (cases ys) (auto simp: Cons)
qed simp

lemma least_minimal:
  assumes "p \<in> C" and least: "\<And>q. q \<in> C \<Longrightarrow> q \<noteq> p \<Longrightarrow> (f p :: 'b set) \<subset> f q"
  shows "c \<in> C \<and> (\<forall>d \<in> C. \<not> f d \<subset> f c) \<longleftrightarrow> c = p"
proof
  assume c: "c \<in> C \<and> (\<forall>d \<in> C. \<not> f d \<subset> f c)"
  then have "\<not> f p \<subset> f c" using assms(1) by blast
  then show "c = p" using least c by blast
next
  assume c: "c = p"
  have "\<not> f d \<subset> f p" if "d \<in> C" for d
    using least [OF that] by (cases "d = p") auto
  then show "c \<in> C \<and> (\<forall>d \<in> C. \<not> f d \<subset> f c)" using c assms(1) by blast
qed

lemma uniqueMaximal_Some:
  assumes "\<forall>p \<in> set candidates. policy_bounds p" and "distinct (map po_id candidates)"
  shows "uniqueMaximal candidates = Some p \<longleftrightarrow>
    p \<in> set candidates \<and> (\<forall>q \<in> set candidates. q \<noteq> p \<longrightarrow> policy_scope p \<subset> policy_scope q)"
proof -
  let ?max = "filter (\<lambda>c. \<not> list_ex (\<lambda>d. po_id d \<noteq> po_id c \<and> dominates d c) candidates) candidates"
  have inj: "po_id a = po_id b \<longleftrightarrow> a = b" if "a \<in> set candidates" "b \<in> set candidates" for a b
    using assms(2) that by (auto simp: distinct_map dest: inj_onD)
  have dom: "dominates a b \<longleftrightarrow> policy_scope a \<subset> policy_scope b" if "a \<in> set candidates" "b \<in> set candidates" for a b
    using assms(1) that dominates_subset by blast
  have max: "c \<in> set ?max \<longleftrightarrow> c \<in> set candidates \<and> (\<forall>d \<in> set candidates. \<not> policy_scope d \<subset> policy_scope c)" for c
    using inj dom by (auto simp: list_ex_iff)
  have dist: "distinct ?max" using assms(2) by (simp add: distinct_map)
  have one: "uniqueMaximal candidates = Some p \<longleftrightarrow> set ?max = {p}"
  proof -
    have "uniqueMaximal candidates = Some p \<longleftrightarrow> ?max = [p]"
      by (auto simp: uniqueMaximal_def split: list.splits)
    also have "\<dots> \<longleftrightarrow> set ?max = {p}"
      by (rule singleton_list [OF dist])
    finally show ?thesis .
  qed
  show ?thesis
  proof
    assume "uniqueMaximal candidates = Some p"
    then have s: "set ?max = {p}" by (simp only: one)
    then have p: "p \<in> set candidates" using max by blast
    have "policy_scope p \<subset> policy_scope q" if q: "q \<in> set candidates" "q \<noteq> p" for q
    proof -
      have "policy_scope q \<in> policy_scope ` set candidates" using q(1) by (rule imageI)
      from finite_has_minimal2 [OF finite_imageI [OF finite_set] this]
      obtain m where m: "m \<in> policy_scope ` set candidates" "m \<subseteq> policy_scope q"
        and least: "\<forall>b \<in> policy_scope ` set candidates. b \<subseteq> m \<longrightarrow> m = b" by blast
      obtain r where r: "r \<in> set candidates" "m = policy_scope r" using m(1) by blast
      have "r \<in> set ?max" unfolding max using r least by blast
      then have "r = p" using s by blast
      then have sub: "policy_scope p \<subseteq> policy_scope q" using m(2) r(2) by simp
      have "q \<notin> set ?max" using s q(2) by blast
      then obtain d where "d \<in> set candidates" "policy_scope d \<subset> policy_scope q" using max q(1) by blast
      then have "policy_scope p \<noteq> policy_scope q" using least r(2) \<open>r = p\<close> by blast
      then show ?thesis using sub by blast
    qed
    then show "p \<in> set candidates \<and> (\<forall>q \<in> set candidates. q \<noteq> p \<longrightarrow> policy_scope p \<subset> policy_scope q)"
      using p by blast
  next
    assume p: "p \<in> set candidates \<and> (\<forall>q \<in> set candidates. q \<noteq> p \<longrightarrow> policy_scope p \<subset> policy_scope q)"
    have "c \<in> set ?max \<longleftrightarrow> c = p" for c
      using max least_minimal [of p "set candidates" policy_scope c] p by simp
    then have "set ?max = {p}" by blast
    then show "uniqueMaximal candidates = Some p" by (simp only: one)
  qed
qed

end
