(* ===== verification/Policy_Properties.thy ===== *)
theory Policy_Properties
  imports Policy_Scope Sample
begin

text \<open>
  The properties of the policy algebra: which payments a policy governs, that the policy chosen
  is the most specific one, and that the composed steps are a faithful order of the steps of
  the policies.
\<close>

section \<open>Properties\<close>

text \<open>
  Property C29. Dominance is specificity: one policy dominates another exactly when the payments
  it governs are strictly fewer, by branch, treasury unit, currency, method and amount. So it
  is a strict partial order, whatever the policies are.
\<close>

theorem dominates_scope:
  assumes "policy_bounds p" and "policy_bounds q"
  shows "dominates p q \<longleftrightarrow> policy_scope p \<subset> policy_scope q"
  by (rule dominates_subset [OF assms])

text \<open>
  Property C30. The governing policy is the most specific applicable one: a candidate is chosen
  exactly when its scope lies strictly inside the scope of every other candidate; otherwise no
  policy is chosen, and the submission fails.
\<close>

theorem uniqueMaximal_least:
  assumes "\<forall>p \<in> set candidates. policy_bounds p" and "distinct (map po_id candidates)"
  shows "uniqueMaximal candidates = Some p \<longleftrightarrow>
    p \<in> set candidates \<and> (\<forall>q \<in> set candidates. q \<noteq> p \<longrightarrow> policy_scope p \<subset> policy_scope q)"
  by (rule uniqueMaximal_Some [OF assms])

text \<open>
  Property C31. The steps of several policies compose exactly when the policies do not order them
  in a circle: the composition succeeds if and only if the relation of what must come before
  what has no cycle. The loop over the ready steps terminates in every case.
\<close>

theorem composeSteps_acyclic:
  "(\<exists>steps s'. composeSteps env contexts s = Inr (steps, s')) \<longleftrightarrow> acyclic (precedes contexts)"
  unfolding composeSteps_def Let_def ordered_iff_acyclic [of "he_localeCompare env", symmetric]
  using tx_map_steps_total by (auto simp: tx_throw_def)

text \<open>
  Property C32. The composed steps are a faithful merge of the policies' steps: every step of every
  policy appears exactly once (equal steps are merged), is numbered from 1 in the order given,
  carries the role, approver, number of approvals and separation rules of its policy step and
  the sorted orders of the contexts that ask for it, and comes after all steps any policy puts
  before it.
\<close>

theorem composeSteps_order:
  assumes "composeSteps env contexts s = Inr (steps, s')"
  shows "distinct (map co_obligationKey steps)
    \<and> set (map co_obligationKey steps) = (\<Union>c \<in> set contexts. step_key ` set (po_steps (ax_policy c)))
    \<and> map co_order steps = [1..int (length steps)]
    \<and> (\<forall>a b. (a, b) \<in> (precedes contexts)\<^sup>+ \<longrightarrow>
         (\<exists>i j. i < j \<and> j < length steps \<and> co_obligationKey (steps ! i) = a \<and> co_obligationKey (steps ! j) = b))
    \<and> (\<forall>c \<in> set steps. (\<exists>x \<in> set contexts. \<exists>st \<in> set (po_steps (ax_policy x)).
         co_obligationKey c = step_key st \<and> co_roleId c = ay_roleId st
         \<and> co_approverUserId c = ay_approverUserId st \<and> co_approvalsRequired c = ay_approvalsRequired st
         \<and> co_separationRules c = sort (dedup (ay_separationRules st)))
       \<and> sorted (co_sourceContextOrders c) \<and> distinct (co_sourceContextOrders c)
       \<and> set (co_sourceContextOrders c)
         = {ax_order x |x. x \<in> set contexts \<and> co_obligationKey c \<in> step_key ` set (po_steps (ax_policy x))})"
proof -
  let ?xs = "ordered_obligations (he_localeCompare env) contexts"
  note inv = ordered_obligations_inv [where cmp = "he_localeCompare env" and contexts = contexts]
  from assms have len: "length ?xs = length (sg_nodes (obligations contexts))"
    and map: "tx_map (composed_step_of env) (zip [1..int (length ?xs)] ?xs) s = Inr (steps, s')"
    by (auto simp: composeSteps_def Let_def tx_throw_def split: if_splits)
  note all = tx_map_steps [OF map]
  have n: "length steps = length ?xs" using list_all2_lengthD [OF all] by simp
  have nth: "co_order (steps ! i) = int i + 1" "co_obligationKey (steps ! i) = ob_key (?xs ! i)"
    "co_roleId (steps ! i) = ob_roleId (?xs ! i)"
    "co_approverUserId (steps ! i) = ob_approverUserId (?xs ! i)"
    "co_approvalsRequired (steps ! i) = ob_approvalsRequired (?xs ! i)"
    "co_separationRules (steps ! i) = ob_separationRules (?xs ! i)"
    "co_sourceContextOrders (steps ! i) = sort (ob_sourceContextOrders (?xs ! i))"
    if "i < length ?xs" for i
    using list_all2_nthD [OF all, of i] that by simp_all
  have keys: "map co_obligationKey steps = map ob_key ?xs"
    by (rule nth_equalityI) (simp_all add: n nth)
  have orders: "map co_order steps = [1..int (length steps)]"
    by (rule nth_equalityI) (simp_all add: n nth)
  have sets: "set (map ob_key ?xs) = (\<Union>c \<in> set contexts. step_key ` set (po_steps (ax_policy c)))"
    using ordered_complete [OF len] obligations_graph(2) [of contexts]
    by (simp add: node_keys_def step_keys_def)
  have before: "\<exists>i j. i < j \<and> j < length steps \<and> co_obligationKey (steps ! i) = a \<and> co_obligationKey (steps ! j) = b"
    if ab: "(a, b) \<in> (precedes contexts)\<^sup>+" for a b
  proof -
    obtain i j where "i < j" "j < length ?xs" "ob_key (?xs ! i) = a" "ob_key (?xs ! j) = b"
      using ordered_before [OF len ab] by blast
    then show ?thesis by (intro exI [of _ i] exI [of _ j]) (simp add: n nth)
  qed
  have each: "(\<exists>x \<in> set contexts. \<exists>st \<in> set (po_steps (ax_policy x)).
         co_obligationKey c = step_key st \<and> co_roleId c = ay_roleId st
         \<and> co_approverUserId c = ay_approverUserId st \<and> co_approvalsRequired c = ay_approvalsRequired st
         \<and> co_separationRules c = sort (dedup (ay_separationRules st)))
       \<and> sorted (co_sourceContextOrders c) \<and> distinct (co_sourceContextOrders c)
       \<and> set (co_sourceContextOrders c)
         = {ax_order x |x. x \<in> set contexts \<and> co_obligationKey c \<in> step_key ` set (po_steps (ax_policy x))}"
    if c: "c \<in> set steps" for c
  proof -
    obtain i where i: "i < length ?xs" "c = steps ! i" using c n by (auto simp: in_set_conv_nth)
    then have "?xs ! i \<in> set (sg_nodes (obligations contexts))" using inv(2) nth_mem by blast
    note node = obligation_nodes [OF this]
    have "sorted (co_sourceContextOrders c) \<and> distinct (co_sourceContextOrders c)
       \<and> set (co_sourceContextOrders c)
         = {ax_order x |x. x \<in> set contexts \<and> co_obligationKey c \<in> step_key ` set (po_steps (ax_policy x))}"
      using i nth node(2,3) by (simp add: step_keys_def)
    moreover have "\<exists>x \<in> set contexts. \<exists>st \<in> set (po_steps (ax_policy x)).
         co_obligationKey c = step_key st \<and> co_roleId c = ay_roleId st
         \<and> co_approverUserId c = ay_approverUserId st \<and> co_approvalsRequired c = ay_approvalsRequired st
         \<and> co_separationRules c = sort (dedup (ay_separationRules st))"
      using i nth node(1) by (auto simp: node_of_def step_rules_def)
    ultimately show ?thesis by blast
  qed
  show ?thesis using inv(1) sets orders before each unfolding keys by blast
qed

section \<open>A merge of two policies\<close>

text \<open>
  Two policies for the two lines of a payment: the cashier's head and then the treasurer, and
  the treasurer and then a named director.
\<close>

definition role_step :: "int \<Rightarrow> str \<Rightarrow> approval_policy_step" where
  "role_step order r = \<lparr>ay_stepId = r, ay_stepOrder = order, ay_roleId = Some r, ay_roleName = None,
     ay_roleState = Some ''ACTIVE'', ay_approverUserId = None, ay_approverName = None, ay_approverState = None,
     ay_approvalsRequired = 1, ay_separationRules = [''APPROVER_NOT_CREATOR'']\<rparr>"

definition user_step :: "int \<Rightarrow> str \<Rightarrow> approval_policy_step" where
  "user_step order u = (role_step order u)\<lparr>ay_roleId := None, ay_approverUserId := Some u\<rparr>"

definition sample_policy :: "str \<Rightarrow> str option \<Rightarrow> str option \<Rightarrow> approval_policy_step list \<Rightarrow> approval_policy" where
  "sample_policy i minimum maximum steps = \<lparr>po_id = i, po_code = i, po_name = i, po_branchId = None,
     po_treasuryUnitId = None, po_currency = Some ''IRR'', po_methodCategory = None,
     po_amountMinimum = minimum, po_amountMaximum = maximum, po_aggregationWindowKind = None,
     po_aggregationKeys = [], po_version = 1, po_steps = steps\<rparr>"

definition sample_contexts :: "approval_context list" where
  "sample_contexts =
     [\<lparr>ax_order = 1, ax_firstLineNumber = 1, ax_currency = ''IRR'', ax_methodCategory = ''CASH'',
        ax_policy = sample_policy ''p1'' None None [role_step 1 ''head'', role_step 2 ''treasurer'']\<rparr>,
      \<lparr>ax_order = 2, ax_firstLineNumber = 2, ax_currency = ''IRR'', ax_methodCategory = ''BANK'',
        ax_policy = sample_policy ''p2'' None None [role_step 1 ''treasurer'', user_step 2 ''director'']\<rparr>]"

lemma sample_steps:
  "case composeSteps sample_env sample_contexts sample_db of
     Inl e \<Rightarrow> False
   | Inr (steps, t) \<Rightarrow> map co_obligationKey steps = [''role:head|1|APPROVER_NOT_CREATOR'',
         ''role:treasurer|1|APPROVER_NOT_CREATOR'', ''user:director|1|APPROVER_NOT_CREATOR'']
       \<and> map co_sourceContextOrders steps = [[1], [1, 2], [2]]"
  by code_simp

lemma composeSteps_order_witness:
  "\<exists>steps s'. composeSteps sample_env sample_contexts sample_db = Inr (steps, s')
     \<and> map co_sourceContextOrders steps = [[1], [1, 2], [2]]
     \<and> map co_order steps = [1..int (length steps)]"
proof -
  obtain steps s' where c: "composeSteps sample_env sample_contexts sample_db = Inr (steps, s')"
    and o: "map co_sourceContextOrders steps = [[1], [1, 2], [2]]"
    using sample_steps by (auto split: sum.splits prod.splits)
  have "map co_order steps = [1..int (length steps)]" using composeSteps_order [OF c] by blast
  with c o show ?thesis by (intro exI conjI)
qed

lemma dominates_scope_witness:
  "dominates (sample_policy ''p1'' (Some ''500'') None []) (sample_policy ''p2'' (Some ''100.5'') None [])
   \<and> policy_scope (sample_policy ''p1'' (Some ''500'') None [])
     \<subset> policy_scope (sample_policy ''p2'' (Some ''100.5'') None [])"
proof -
  have "policy_bounds (sample_policy ''p1'' (Some ''500'') None [])"
    "policy_bounds (sample_policy ''p2'' (Some ''100.5'') None [])"
    "dominates (sample_policy ''p1'' (Some ''500'') None []) (sample_policy ''p2'' (Some ''100.5'') None [])"
    by code_simp+
  then show ?thesis using dominates_scope by blast
qed

lemma uniqueMaximal_least_witness:
  "\<exists>p. uniqueMaximal [sample_policy ''p1'' (Some ''500'') None [], sample_policy ''p2'' (Some ''100.5'') None []] = Some p
   \<and> policy_scope p \<subset> policy_scope (sample_policy ''p2'' (Some ''100.5'') None [])"
proof -
  let ?c = "[sample_policy ''p1'' (Some ''500'') None [], sample_policy ''p2'' (Some ''100.5'') None []]"
  have u: "uniqueMaximal ?c = Some (sample_policy ''p1'' (Some ''500'') None [])" by code_simp
  have b: "\<forall>p \<in> set ?c. policy_bounds p" by code_simp
  have d: "distinct (map po_id ?c)" by code_simp
  have "sample_policy ''p2'' (Some ''100.5'') None [] \<noteq> sample_policy ''p1'' (Some ''500'') None []"
    by (simp add: sample_policy_def)
  then show ?thesis using u uniqueMaximal_least [OF b d] by auto
qed

end
