(* ===== verification/Money_Properties.thy ===== *)
theory Money_Properties
  imports Source_Effects Sample
begin

text \<open>
  The properties of the decimal arithmetic on which every amount of the backend rests: what
  the readings, comparisons and conversions mean as rational numbers, that printing and
  reading are inverse, and where the unsigned reading of a balance goes wrong.
\<close>

section \<open>Readings and comparisons\<close>

text \<open>
  The fixed-point reading of an amount is exact: on a decimal text with at most
  eight decimals it is the rational value times ten to the eighth, and it orders amounts as
  their values.
\<close>

lemma decimal8_exact:
  assumes "is_decimal a" "frac_digits a \<le> 8" "is_decimal b" "frac_digits b \<le> 8"
  shows "of_int (decimal8 a) = dec_rat a * 10 ^ 8 \<and> (decimal8 a \<le> decimal8 b \<longleftrightarrow> dec_rat a \<le> dec_rat b)"
  using fixed8.reading_rat [OF assms(1,2)] fixed8.reading_le_iff [OF assms] by simp

lemma decimal8_exact_witness:
  "of_int (decimal8 ''12.5'') = dec_rat ''12.5'' * 10 ^ 8
     \<and> (decimal8 ''12.5'' \<le> decimal8 ''13'' \<longleftrightarrow> dec_rat ''12.5'' \<le> dec_rat ''13'')"
proof -
  have "is_decimal ''12.5''" "frac_digits ''12.5'' \<le> 8" "is_decimal ''13''" "frac_digits ''13'' \<le> 8"
    by code_simp+
  from decimal8_exact [OF this] show ?thesis .
qed

text \<open>
  The two comparison routines of the payment services, written differently, are
  the same function on decimal texts, and compare the rational values.
\<close>

lemma comparisons_agree:
  assumes "is_decimal a" "is_decimal b"
  shows "compareDecimal a b = approvalCompareDecimal a b
    \<and> (compareDecimal a b \<le> 0 \<longleftrightarrow> dec_rat a \<le> dec_rat b)"
  using compareDecimal_rat [OF assms] approvalCompareDecimal_rat [OF assms] by auto

lemma comparisons_agree_witness:
  "compareDecimal ''1.50'' ''1.5'' = approvalCompareDecimal ''1.50'' ''1.5''
     \<and> (compareDecimal ''1.50'' ''1.5'' \<le> 0 \<longleftrightarrow> dec_rat ''1.50'' \<le> dec_rat ''1.5'')"
proof -
  have "is_decimal ''1.50''" "is_decimal ''1.5''" by code_simp+
  from comparisons_agree [OF this] show ?thesis .
qed

section \<open>Printing and reading\<close>

text \<open>
  Property C39. Amounts survive the round trip through text: a scaled integer printed with its
  decimals is read back exactly, negative ones included.
\<close>

theorem scaled_round_trip: "scaled (formatScaled v n) n = Inr v"
  by (rule scaled_formatScaled)

text \<open>
  The sum a payment asks of a source is printed as a decimal text with at most
  eight decimals whose reading is the sum itself.
\<close>

lemma amountString_round_trip:
  assumes "0 \<le> v"
  shows "decimal8 (amountString v) = v \<and> is_decimal (amountString v) \<and> frac_digits (amountString v) \<le> 8"
  using decimal8_amountString [OF assms] decimal_amountString [OF assms] by simp

lemma amountString_round_trip_witness:
  "decimal8 (amountString 1234500000) = 1234500000 \<and> is_decimal (amountString 1234500000)
     \<and> frac_digits (amountString 1234500000) \<le> 8"
  by (rule amountString_round_trip) simp

section \<open>Conversion to the base currency\<close>

text \<open>
  Property C40. Conversion rounds to the nearest unit of the base currency: the target amount
  differs from the exact product of amount and rate by at most half a unit.
\<close>

theorem conversion_rounds:
  assumes "is_decimal amount" "is_decimal rate"
  shows "\<bar>of_int (targetValue amount rate t) - dec_rat amount * dec_rat rate * 10 ^ t\<bar> \<le> 1 / 2
    \<and> 0 \<le> targetValue amount rate t"
  using targetValue_half [OF assms] by simp

lemma conversion_rounds_witness:
  "\<bar>of_int (targetValue ''10.5'' ''41.333'' 0) - dec_rat ''10.5'' * dec_rat ''41.333'' * 10 ^ 0\<bar> \<le> 1 / 2
     \<and> 0 \<le> targetValue ''10.5'' ''41.333'' 0"
proof -
  have "is_decimal ''10.5''" "is_decimal ''41.333''" by code_simp+
  from conversion_rounds [OF this] show ?thesis .
qed

text \<open>
  Nothing is lost in a conversion: the target amount plus the recorded rounding
  difference is the exact product to within half a unit of the eighth decimal.
\<close>

lemma conversion_residue:
  assumes "is_decimal amount" "is_decimal rate" "t \<le> 8"
  shows "\<bar>of_int (targetValue amount rate t) * 10 ^ (8 - t) + of_int (targetDifference amount rate t)
      - dec_rat amount * dec_rat rate * 10 ^ 8\<bar> \<le> (1 / 2 :: rat)"
  by (rule targetDifference_half [OF assms])

lemma conversion_residue_witness:
  "\<bar>of_int (targetValue ''10.5'' ''41.333'' 0) * 10 ^ (8 - 0)
      + of_int (targetDifference ''10.5'' ''41.333'' 0)
      - dec_rat ''10.5'' * dec_rat ''41.333'' * 10 ^ 8\<bar> \<le> (1 / 2 :: rat)"
proof -
  have "is_decimal ''10.5''" "is_decimal ''41.333''" "(0 :: nat) \<le> 8" by code_simp+
  from conversion_residue [OF this] show ?thesis .
qed

section \<open>Negative balances\<close>

lemma decimal8_negative:
  assumes "w \<noteq> []" "all_digits w" "all_digits f" "length f = 8"
  shows "decimal8 (''-'' @ w @ CHR ''.'' # f)
    = - int (digits_val w) * 100000000 + int (digits_val f)"
proof -
  have nodot: "CHR ''.'' \<notin> set (CHR ''-'' # w)" "CHR ''.'' \<notin> set f"
    using assms by (simp_all add: all_digits_no_dot)
  have split: "split_on (CHR ''.'') ((CHR ''-'' # w) @ CHR ''.'' # f) = [CHR ''-'' # w, f]"
    using split_on_first [OF nodot(1), of f] split_on_none [OF nodot(2)] by simp
  show ?thesis
    using split assms
    by (simp add: decimal8_def Let_def bigint_neg bigint_digits pad_end_def)
qed

text \<open>
  The reading used for balances, floors and reservations misreads every negative
  amount with a fraction: the sign reaches the whole part only, so minus x.y is read as
  minus x plus 0.y. A balance of -4.90 counts as -3.10.
\<close>

lemma decimal8_misreads_negative:
  assumes "v < 0"
  shows "decimal8 (formatScaled v 8) = v + 2 * (- v mod 100000000)"
proof -
  obtain w f where f: "w \<noteq> []" "all_digits w" "all_digits f" "length f = 8"
    "digits_val (w @ f) = nat \<bar>v\<bar>"
    "formatScaled v 8 = (if v < 0 then ''-'' else '''') @ (if f = [] then w else w @ CHR ''.'' # f)"
    by (rule formatScaled_shape)
  have fne: "f \<noteq> []" using f(4) by auto
  have val: "int (digits_val w) * 100000000 + int (digits_val f) = - v"
  proof -
    have "int (digits_val (w @ f)) = - v" using f(5) assms by simp
    then show ?thesis by (simp add: digits_val_append f(4))
  qed
  have lt: "int (digits_val f) < 100000000"
    using digits_val_less [OF f(3)] f(4) by simp
  have m: "- v mod 100000000 = int (digits_val f)"
    using lt by (simp flip: val)
  have "decimal8 (formatScaled v 8) = - int (digits_val w) * 100000000 + int (digits_val f)"
    using decimal8_negative [OF f(1-4)] f(6) assms fne by simp
  then show ?thesis using val m by linarith
qed

lemma decimal8_misreads_negative_witness:
  "decimal8 (formatScaled (-490000000) 8) = -490000000 + 2 * (490000000 mod 100000000)"
  using decimal8_misreads_negative [of "-490000000"] by simp

definition overdrawn_db :: payment_db where
  "overdrawn_db = sample_db\<lparr>
     t_movementFacts := [cash_in\<lparr>mf_amount := ''4.90000000'', mf_direction := ''DEBIT''\<rparr>],
     t_cashboxCurrencyControls := [control\<lparr>cc_minimumPosition := Some ''-5.00000000'',
       cc_allowNegative := True\<rparr>]\<rparr>"

text \<open>
  The misreading defeats the floor of a cashbox that may go negative: with floor
  -5.00 and position -4.90 a payment of 1.50 is accepted, which leaves the position at -6.40.
\<close>

lemma cashbox_floor_breached:
  "cashbox_payable overdrawn_db ''org'' ''cb'' ''IRR'' ''2026-01-02'' (pd_id document) ''1.50000000'' = OK
   \<and> position_units (cashbox_endpoint ''org'' ''cb'' ''IRR'') overdrawn_db - units8 ''1.50000000''
     = units8 ''-6.40000000''
   \<and> map_option position_floor (find_control overdrawn_db ''org'' ''cb'' ''IRR'')
     = Some (Some ''-5.00000000'')"
  by code_simp

end
