(* ===== verification/Problem.thy ===== *)
theory Problem
  imports Json_Digest
begin

text \<open>
  The problem document every failed request is answered with (\<open>common/problem.ts\<close>): the
  table of codes and titles, the retryable codes, the translation of a validation failure on
  an authentication route, and \<open>ProblemFilter.catch\<close>, from the exception to the status,
  headers and body of the response.
\<close>

section \<open>Codes\<close>

definition titles :: "(str \<times> str) list" where
  "titles = [
    (''TRS-GEN-001'', ''Validation failed''),
    (''TRS-GEN-002'', ''Authentication required''),
    (''TRS-GEN-003'', ''Permission denied''),
    (''TRS-GEN-004'', ''Resource not found''),
    (''TRS-GEN-005'', ''State conflict''),
    (''TRS-GEN-006'', ''Stale version''),
    (''TRS-GEN-007'', ''Idempotency key conflict''),
    (''TRS-GEN-009'', ''Business date closed''),
    (''TRS-AUT-001'', ''Authentication failed''),
    (''TRS-AUT-002'', ''TOTP required or invalid''),
    (''TRS-AUT-003'', ''Session invalid''),
    (''TRS-AUT-005'', ''Authentication challenge invalid''),
    (''TRS-AUT-006'', ''Recovery proof failed''),
    (''TRS-AUT-007'', ''Password rejected''),
    (''TRS-AUT-008'', ''Authentication throttled''),
    (''TRS-AUT-009'', ''CSRF verification failed''),
    (''TRS-AUT-010'', ''Fresh step-up required''),
    (''TRS-AUT-012'', ''Access-control identity conflict''),
    (''TRS-AUT-013'', ''Approval policy conflict''),
    (''TRS-AUT-014'', ''Delegation conflict''),
    (''TRS-MST-001'', ''Inactive reference''),
    (''TRS-MST-002'', ''Duplicate master identity''),
    (''TRS-MST-003'', ''Exchange rate missing or ambiguous''),
    (''TRS-MST-004'', ''Method configuration invalid''),
    (''TRS-MST-005'', ''Base currency locked''),
    (''TRS-MST-006'', ''Numbering rule unavailable''),
    (''TRS-BNK-001'', ''Bank account unavailable''),
    (''TRS-CHQ-001'', ''Cheque leaf unavailable''),
    (''TRS-CHQ-002'', ''Cheque-book range overlap''),
    (''TRS-CHQ-003'', ''Illegal cheque transition''),
    (''TRS-CHQ-005'', ''Possible duplicate received cheque''),
    (''TRS-CSH-002'', ''Cashbox custody conflict''),
    (''TRS-CSH-003'', ''Cashbox approval required''),
    (''TRS-CSH-004'', ''Cashbox day already closed''),
    (''TRS-CSH-005'', ''Petty cash ceiling exceeded''),
    (''TRS-RCP-001'', ''Receipt total mismatch''),
    (''TRS-RCP-002'', ''Receipt line incomplete''),
    (''TRS-RCP-003'', ''Receipt allocation exceeds line''),
    (''TRS-RCP-004'', ''Receipt effect mapping unavailable''),
    (''TRS-RCP-005'', ''Receipt approval policy unavailable''),
    (''TRS-RCP-006'', ''Receipt reversal blocked''),
    (''TRS-PAY-001'', ''Payment total mismatch''),
    (''TRS-PAY-002'', ''Payment evidence incomplete''),
    (''TRS-PAY-003'', ''Payment approval incomplete''),
    (''TRS-PAY-004'', ''Payment source unavailable''),
    (''TRS-PAY-005'', ''Payment not executable''),
    (''TRS-PAY-006'', ''External obligation allocation conflict''),
    (''TRS-PAY-007'', ''Approval aggregate stale''),
    (''TRS-PAY-008'', ''Payment approval policy unresolved''),
    (''TRS-PAY-009'', ''Payment reversal blocked''),
    (''TRS-TRF-001'', ''Transfer endpoints invalid''),
    (''TRS-TRF-002'', ''Transfer source unavailable''),
    (''TRS-TRF-003'', ''Transfer receipt discrepancy''),
    (''TRS-TRF-004'', ''Transfer already acknowledged''),
    (''TRS-TRF-005'', ''Transfer custody separation violated''),
    (''TRS-TRF-006'', ''Transfer approval policy unresolved''),
    (''TRS-COL-001'', ''Collection allocation conflict''),
    (''TRS-COL-002'', ''Settlement arithmetic mismatch''),
    (''TRS-COL-003'', ''Settlement discrepancy unresolved''),
    (''TRS-COL-004'', ''Settlement confirmation unknown''),
    (''TRS-COL-005'', ''Settlement reversal conflict''),
    (''TRS-COL-006'', ''Settlement evidence invalid''),
    (''TRS-BNK-005'', ''Bank instruction outcome conflict''),
    (''TRS-ACT-001'', ''Accounting mapping required''),
    (''TRS-ACT-002'', ''Accounting export duplicate''),
    (''TRS-ACT-004'', ''Accounting outcome unknown''),
    (''TRS-ACT-005'', ''Accounting posting lock active''),
    (''TRS-ACT-006'', ''Accounting export period unavailable''),
    (''TRS-RPT-001'', ''Unsupported report request''),
    (''TRS-RPT-002'', ''Projection stale'')]"

definition retryable :: "str list" where
  "retryable = [''TRS-GEN-006'',
    ''TRS-AUT-008'',
    ''TRS-AUT-010'',
    ''TRS-CSH-002'',
    ''TRS-PAY-006'',
    ''TRS-PAY-007'',
    ''TRS-COL-001'',
    ''TRS-COL-004'',
    ''TRS-ACT-004'',
    ''TRS-RPT-002'']"

definition problem_code :: "str \<Rightarrow> bool" where
  "problem_code code \<longleftrightarrow> code \<in> fst ` set titles"

section \<open>The exception filter\<close>

text \<open>
  An \<open>HttpException\<close>: either the \<open>TreasuryProblem\<close> of the services, with its extensions, or
  one raised by the framework, whose response is a text or an object with messages. The
  \<open>retryAfter\<close> extension is kept apart from the others.
\<close>

datatype http_exception =
    TreasuryProblem (tp_code: str) (tp_status: nat) (tp_detail: "str option")
      (tp_retryAfter: "int option") (tp_extensions: "(str \<times> json) list")
  | FrameworkText nat str
  | FrameworkObject nat "str list"

record http_request =
  hr_method :: str
  hr_path :: str
  hr_requestId :: "str option"

record problem_body =
  pb_type :: str
  pb_title :: "str option"
  pb_status :: nat
  pb_code :: str
  pb_detail :: "str option"
  pb_requestId :: str
  pb_retryable :: bool
  pb_extensions :: "(str \<times> json) list"

record problem_response =
  pr_status :: nat
  pr_noStore :: bool
  pr_retryAfter :: "int option"
  pr_body :: problem_body

definition authValidationProblem :: "http_request \<Rightarrow> http_exception \<Rightarrow> (str \<times> nat) option" where
  "authValidationProblem request exception =
     (let messages = (case exception of FrameworkObject _ ms \<Rightarrow> ms | _ \<Rightarrow> []);
          mentions = (\<lambda>word. \<exists>message \<in> set messages. contains word message)
      in if hr_method request \<noteq> ''POST'' then None
         else if hr_path request = ''/v1/auth/totp-enrollments'' then
           Some (if mentions ''newPassword'' then (''TRS-AUT-007'', 422) else (''TRS-AUT-001'', 401))
         else if hr_path request = ''/v1/auth/totp-enrollment-completions'' then
           Some (if mentions ''enrollmentId'' then (''TRS-AUT-005'', 401) else (''TRS-AUT-002'', 401))
         else if hr_path request = ''/v1/auth/totp-verifications'' then
           Some (if mentions ''challengeId'' then (''TRS-AUT-005'', 401) else (''TRS-AUT-002'', 401))
         else if hr_path request = ''/v1/auth/password-recoveries'' then
           Some (if mentions ''newPassword'' then (''TRS-AUT-007'', 422) else (''TRS-AUT-006'', 401))
         else None)"

text \<open>\<open>exception.getStatus()\<close>.\<close>

fun getStatus :: "http_exception \<Rightarrow> nat" where
  "getStatus (TreasuryProblem code status detail retryAfter extensions) = status"
| "getStatus (FrameworkText status body) = status"
| "getStatus (FrameworkObject status messages) = status"

definition problem_parts ::
  "http_request \<Rightarrow> http_exception \<Rightarrow> str \<times> nat \<times> str option \<times> int option \<times> (str \<times> json) list" where
  "problem_parts request exception =
     (case exception of
        TreasuryProblem code status detail retryAfter extensions \<Rightarrow>
          (code, status, detail, retryAfter, extensions)
      | _ \<Rightarrow>
          (let exceptionStatus = getStatus exception;
               validation = (if exceptionStatus = 400
                 then authValidationProblem request exception else None);
               status = (case validation of Some v \<Rightarrow> snd v
                 | None \<Rightarrow> if exceptionStatus = 400 then 422 else exceptionStatus);
               code = (case validation of Some v \<Rightarrow> fst v
                 | None \<Rightarrow>
                     if status = 422 then ''TRS-GEN-001''
                     else if status = 401 then ''TRS-GEN-002''
                     else if status = 403 then ''TRS-GEN-003''
                     else if status = 404 then ''TRS-GEN-004''
                     else ''TRS-GEN-005'')
           in (code, status,
               (case exception of FrameworkText _ body \<Rightarrow> Some body | _ \<Rightarrow> None), None, [])))"

definition catch_exception :: "uuid \<Rightarrow> http_request \<Rightarrow> http_exception \<Rightarrow> problem_response" where
  "catch_exception fresh request exception =
     (case problem_parts request exception of
        (code, status, detail, retryAfter, publicExtensions) \<Rightarrow>
          \<lparr>pr_status = status,
           pr_noStore = (starts_with ''TRS-AUT-'' code
             \<or> starts_with ''/v1/auth/'' (hr_path request)),
           pr_retryAfter = (if code = ''TRS-AUT-008''
             then map_option (max 1) retryAfter else None),
           pr_body = \<lparr>
             pb_type = ''urn:treasury:problem:'' @ code,
             pb_title = map_of titles code,
             pb_status = status,
             pb_code = code,
             pb_detail = (if present_text detail then detail else None),
             pb_requestId = requestId fresh (hr_requestId request),
             pb_retryable = (code \<in> set retryable),
             pb_extensions = publicExtensions\<rparr>\<rparr>)"

end
