(* ===== verification/Access_Properties.thy ===== *)
theory Access_Properties
  imports Sample Problem
begin

text \<open>
  The properties of the authority decisions, of business numbers and of the problem filter.
\<close>

section \<open>Authority\<close>

text \<open>
  What it means that a user holds a permission for a payment by a grant: the grant is in force
  in the organization and its role permits the operation, every scope it lists contains the
  payment's values, and the amount is within the ceiling as a rational number in the same
  currency.
\<close>

definition holds_by_grant ::
  "env \<Rightarrow> 'z access_db_scheme \<Rightarrow> uuid \<Rightarrow> uuid \<Rightarrow> payment_context \<Rightarrow> str \<Rightarrow> access_grant_row \<Rightarrow> bool" where
  "holds_by_grant env s org user ctx permission ag \<longleftrightarrow>
     ag \<in> set (t_accessGrants s) \<and> ag_userRefId ag = user \<and> ag_organizationId ag = org
     \<and> grant_current env ag \<and> role_active s (ag_roleId ag) \<and> role_permits s (ag_roleId ag) permission
     \<and> scope_holds (branch_scope s (ag_id ag)) (option_list (pctx_branchId ctx))
     \<and> scope_holds (unit_scope s (ag_id ag)) (option_list (pctx_treasuryUnitId ctx))
     \<and> scope_holds (document_scope s (ag_id ag)) [pctx_documentType ctx]
     \<and> scope_holds (currency_scope s (ag_id ag)) (pctx_currencies ctx)
     \<and> (pctx_documentType ctx = ''PAYMENT_REQUEST''
        \<or> scope_holds (cashbox_scope s (ag_id ag)) (pctx_cashboxIds ctx)
          \<and> scope_holds (account_scope s (ag_id ag)) (pctx_bankAccountIds ctx)
          \<and> scope_holds (method_scope s (ag_id ag)) (pctx_methodCategories ctx))
     \<and> (case ag_amountCeiling ag of None \<Rightarrow> True
        | Some c \<Rightarrow> ag_amountCeilingCurrency ag = Some (pctx_amountCurrency ctx)
            \<and> dec_rat (pctx_amount ctx) \<le> dec_rat c)"

lemma own_grant_holds:
  assumes "access_tables_valid s" and "ag \<in> set (t_accessGrants s)"
    and "grant_usable env s org permission roleId ag"
    and "grant_covers PAYMENT_PROFILE ctx (own_grant s ag)"
    and "is_decimal (pctx_amount ctx)" "frac_digits (pctx_amount ctx) \<le> 12"
  shows "holds_by_grant env s org (ag_userRefId ag) ctx permission ag"
proof -
  have "dec_rat (pctx_amount ctx) \<le> dec_rat c"
    if c: "ag_amountCeiling ag = Some c" and le: "decimal12 (pctx_amount ctx) \<le> decimal12 c" for c
  proof -
    have "is_decimal c" "frac_digits c \<le> 8"
      using assms(1,2) c by (auto simp: access_tables_valid_def numeric_column_def)
    then show ?thesis using fixed12.reading_le_iff [OF assms(5,6), of c] le by simp
  qed
  then show ?thesis
    using assms(2-4)
    by (auto simp: holds_by_grant_def grant_usable_def grant_covers_def own_grant_def
      ceiling_allows_def split: option.splits)
qed

text \<open>
  Property C33. An authority is real: when the service resolves one, some grant in force gives
  the permission for exactly this payment, to the actor, or to the user the authority names
  and then a current delegation passes it from that user to the actor.
\<close>

theorem authority_sound:
  assumes "access_tables_valid s"
    and "resolvePaymentAuthority env s org actor ctx permission roleId required = Some a"
    and "is_decimal (pctx_amount ctx)" "frac_digits (pctx_amount ctx) \<le> 12"
  shows "\<exists>ag. holds_by_grant env s org (case au_delegatedFromUserId a of None \<Rightarrow> actor | Some g \<Rightarrow> g)
      ctx permission ag
    \<and> (au_delegatedFromUserId a \<noteq> None \<longrightarrow>
        (\<exists>d \<in> set (t_delegations s). delegation_current_for env s d ag actor))"
proof -
  obtain g where g: "g \<in> set (paymentGrants env s org actor permission roleId)"
    and cov: "grant_covers PAYMENT_PROFILE ctx g"
    and origin: "gr_delegatedFromUserId g = au_delegatedFromUserId a"
    using assms(2) unfolding resolvePaymentAuthority_def by (elim paymentAuthority_Some) simp
  obtain ag where ag: "ag \<in> set (t_accessGrants s)"
    and usable: "grant_usable env s org permission roleId ag"
    and row: "ag_userRefId ag = actor \<and> g = own_grant s ag
      \<or> (\<exists>d \<in> set (usable_delegations env s ag actor). g = delegated_grant s ag d)"
    using g by (auto simp: paymentGrants_iff)
  from row show ?thesis
  proof
    assume own: "ag_userRefId ag = actor \<and> g = own_grant s ag"
    then have "holds_by_grant env s org actor ctx permission ag"
      using own_grant_holds [OF assms(1) ag usable _ assms(3,4)] cov by auto
    moreover have "au_delegatedFromUserId a = None" using origin own by (simp add: own_grant_def)
    ultimately show ?thesis by auto
  next
    assume "\<exists>d \<in> set (usable_delegations env s ag actor). g = delegated_grant s ag d"
    then obtain d where d: "d \<in> set (usable_delegations env s ag actor)" and dg: "g = delegated_grant s ag d"
      by blast
    then have dt: "d \<in> set (t_delegations s)" and cur: "delegation_current_for env s d ag actor"
      using assms(1) ag by (auto simp: usable_delegations_iff intro: delegation_is_currentD)
    have "grant_covers PAYMENT_PROFILE ctx (own_grant s ag)"
      using cov dg assms(1) ag dt
      by (intro delegated_covers [OF cur]) (auto simp: access_tables_valid_def)
    then have "holds_by_grant env s org (ag_userRefId ag) ctx permission ag"
      using own_grant_holds [OF assms(1) ag usable _ assms(3,4)] by blast
    moreover have "au_delegatedFromUserId a = Some (ag_userRefId ag)"
      using origin dg by (simp add: delegated_grant_def)
    ultimately show ?thesis using dt cur by auto
  qed
qed

text \<open>
  Property C34. Delegation attenuates: whatever an actor may do through a delegation, the
  grantor may do directly, for the same payment, permission and role.
\<close>

theorem delegation_attenuates:
  assumes "access_tables_valid s"
    and "resolvePaymentAuthority env s org actor ctx permission roleId required = Some a"
    and "au_delegatedFromUserId a = Some grantor"
  shows "resolvePaymentAuthority env s org grantor ctx permission roleId required
      = Some \<lparr>au_delegatedFromUserId = None\<rparr>"
  by (rule grantor_holds [OF assms])

text \<open>A delegation from \<open>boss\<close> to a clerk without grants of their own, for the witnesses.\<close>

definition clerk_db :: payment_db where
  "clerk_db = sample_db\<lparr>
     t_userRefs := user_maker\<lparr>us_id := ''clerk''\<rparr> # t_userRefs sample_db,
     t_identityAccounts := account_maker\<lparr>ia_userRefId := ''clerk''\<rparr> # t_identityAccounts sample_db,
     t_delegations := [\<lparr>dg_id = ''dg'', dg_organizationId = ''org'', dg_accessGrantId = ''gr_boss'',
       dg_sourceGrantVersion = 0, dg_sourceScopeDigest = access_grant_scope_digest sample_env sample_db grant_boss,
       dg_grantorUserId = ''boss'', dg_delegateUserId = ''clerk'', dg_branchId = None,
       dg_treasuryUnitId = None, dg_currency = None, dg_documentType = None, dg_methodCategory = None,
       dg_amountCeiling = Some ''500.00000000'', dg_amountCeilingCurrency = Some ''IRR'', dg_reason = ''leave'',
       dg_validFrom = 0, dg_validTo = 2000000000000, dg_revokedAt = None, dg_revokedByUserId = None,
       dg_revocationReason = None, dg_createdAt = 0\<rparr>]\<rparr>"

definition clerk_context :: payment_context where
  "clerk_context = authorizationContext sample_payment"

lemma clerk_authority:
  "resolvePaymentAuthority sample_env clerk_db ''org'' ''clerk'' clerk_context ''payment.execute'' None None
     = Some \<lparr>au_delegatedFromUserId = Some ''boss''\<rparr>"
  by code_simp

lemma clerk_tables: "access_tables_valid clerk_db"
  by code_simp

lemma authority_sound_witness:
  "\<exists>ag. holds_by_grant sample_env clerk_db ''org'' ''boss'' clerk_context ''payment.execute'' ag
     \<and> (\<exists>d \<in> set (t_delegations clerk_db). delegation_current_for sample_env clerk_db d ag ''clerk'')"
proof -
  have "is_decimal (pctx_amount clerk_context)" "frac_digits (pctx_amount clerk_context) \<le> 12"
    by code_simp+
  from authority_sound [OF clerk_tables clerk_authority this] show ?thesis by simp
qed

lemma delegation_attenuates_witness:
  "resolvePaymentAuthority sample_env clerk_db ''org'' ''boss'' clerk_context ''payment.execute'' None None
     = Some \<lparr>au_delegatedFromUserId = None\<rparr>"
  by (rule delegation_attenuates [OF clerk_tables clerk_authority]) simp

section \<open>The problem filter\<close>

text \<open>
  Every error of the framework becomes a problem of the catalogue: its code has a
  title, and no validation error leaves as a bare 400, which becomes 422 or, on the
  authentication routes, the refusal that reveals nothing.
\<close>

lemma framework_errors_catalogued:
  assumes "\<not> (\<exists>code status detail retry ext. exception = TreasuryProblem code status detail retry ext)"
  shows "problem_code (pb_code (pr_body (catch_exception fresh request exception)))
    \<and> pb_title (pr_body (catch_exception fresh request exception)) \<noteq> None
    \<and> pr_status (catch_exception fresh request exception) \<noteq> 400
    \<and> pr_retryAfter (catch_exception fresh request exception) = None"
proof -
  obtain code status detail where p: "problem_parts request exception = (code, status, detail, None, [])"
    and code: "code \<in> {''TRS-GEN-001'', ''TRS-GEN-002'', ''TRS-GEN-003'', ''TRS-GEN-004'', ''TRS-GEN-005'',
      ''TRS-AUT-001'', ''TRS-AUT-002'', ''TRS-AUT-005'', ''TRS-AUT-006'', ''TRS-AUT-007''}"
    and status: "status \<noteq> 400"
    using assms
    by (cases exception)
       (auto simp: problem_parts_def Let_def authValidationProblem_def split: if_splits)
  have titled: "map_of titles code \<noteq> None" using code by (auto simp: titles_def)
  then have "problem_code code" by (auto simp: problem_code_def map_of_eq_None_iff)
  then show ?thesis
    using p titled status code by (auto simp: catch_exception_def)
qed

lemma framework_errors_catalogued_witness:
  "pr_status (catch_exception ''f'' \<lparr>hr_method = ''POST'', hr_path = ''/v1/payments'', hr_requestId = None\<rparr>
      (FrameworkObject 400 [''purpose must be a string''])) \<noteq> 400"
  using framework_errors_catalogued [of "FrameworkObject 400 [''purpose must be a string'']"] by blast

end
