(* ===== verification/Numbering_Properties.thy ===== *)
theory Numbering_Properties
  imports Payment_Repository Sample
begin

text \<open>
  Business numbers: the counter of an organization and business date hands out consecutive
  values, and the number built from them never repeats, across dates included.
\<close>

section \<open>The text of a number\<close>

definition payment_number :: "str \<Rightarrow> int \<Rightarrow> str" where
  "payment_number businessDate n = filter (\<lambda>c. c \<noteq> CHR ''-'') businessDate @ ''-PAY-''
     @ pad_start 6 (CHR ''0'') (show_int n)"

lemma is_date_shape:
  assumes "is_date d"
  obtains y m t where "d = y @ CHR ''-'' # m @ CHR ''-'' # t" "all_digits y" "all_digits m" "all_digits t"
    "length y = 4" "length m = 2" "length t = 2"
proof -
  have d: "length d = 10" "d ! 4 = CHR ''-''" "d ! 7 = CHR ''-''" "all_digits (take 4 d)"
    "all_digits (take 2 (drop 5 d))" "all_digits (drop 8 d)"
    using assms by (simp_all add: is_date_def)
  have "d = take 4 d @ d ! 4 # drop 5 d" using id_take_nth_drop [of 4 d] d(1) by simp
  moreover have "drop 5 d = take 2 (drop 5 d) @ d ! 7 # drop 8 d"
    using id_take_nth_drop [of 2 "drop 5 d"] d(1) by simp
  ultimately show ?thesis using that [of "take 4 d" "take 2 (drop 5 d)" "drop 8 d"] d by auto
qed

lemma digits_keep: "all_digits s \<Longrightarrow> filter (\<lambda>c. c \<noteq> CHR ''-'') s = s"
  by (induction s) (auto simp: all_digits_def)

lemma stripped_date:
  assumes "is_date d"
  shows "length (filter (\<lambda>c. c \<noteq> CHR ''-'') d) = 8"
    and "d = (let s = filter (\<lambda>c. c \<noteq> CHR ''-'') d in
      take 4 s @ CHR ''-'' # take 2 (drop 4 s) @ CHR ''-'' # drop 6 s)"
proof -
  obtain y m t where d: "d = y @ CHR ''-'' # m @ CHR ''-'' # t" "all_digits y" "all_digits m" "all_digits t"
    "length y = 4" "length m = 2" "length t = 2"
    using is_date_shape [OF assms] .
  have s: "filter (\<lambda>c. c \<noteq> CHR ''-'') d = y @ m @ t" using d by (simp add: digits_keep)
  show "length (filter (\<lambda>c. c \<noteq> CHR ''-'') d) = 8" using s d by simp
  show "d = (let s = filter (\<lambda>c. c \<noteq> CHR ''-'') d in
      take 4 s @ CHR ''-'' # take 2 (drop 4 s) @ CHR ''-'' # drop 6 s)"
    unfolding s Let_def using d by simp
qed

lemma payment_number_inject:
  assumes "is_date d" "is_date e" "0 \<le> m" "0 \<le> n"
  shows "payment_number d m = payment_number e n \<longleftrightarrow> d = e \<and> m = n"
proof
  assume eq: "payment_number d m = payment_number e n"
  then have strip: "filter (\<lambda>c. c \<noteq> CHR ''-'') d = filter (\<lambda>c. c \<noteq> CHR ''-'') e"
    and pad: "pad_start 6 (CHR ''0'') (show_int m) = pad_start 6 (CHR ''0'') (show_int n)"
    using stripped_date(1) [OF assms(1)] stripped_date(1) [OF assms(2)]
    by (simp_all add: payment_number_def append_eq_append_conv)
  have "d = e" using stripped_date(2) [OF assms(1)] stripped_date(2) [OF assms(2)] strip by metis
  moreover have "int (digits_val (show_int m)) = int (digits_val (show_int n))"
    using pad by (metis digits_val_pad_start)
  then have "m = n" using assms(3,4) by (simp add: show_int_nonneg)
  ultimately show "d = e \<and> m = n" ..
qed simp

section \<open>The counters\<close>

definition next_value :: "uuid \<Rightarrow> str \<Rightarrow> 'z payment_db_scheme \<Rightarrow> int" where
  "next_value org d s = counter_value
     (\<lambda>r. pn_organizationId r = org \<and> pn_businessDate r = d) pn_nextValue (t_paymentNumberCounters s)"

lemma nextPaymentNumber_Inr:
  assumes "nextPaymentNumber org d s = Inr (n, s')"
  shows "n = payment_number d (next_value org d s)"
    and "next_value org' d' s' = next_value org' d' s + (if org' = org \<and> d' = d then 1 else 0)"
proof -
  let ?p = "\<lambda>r. pn_organizationId r = org \<and> pn_businessDate r = d"
  let ?q = "\<lambda>r. pn_organizationId r = org' \<and> pn_businessDate r = d'"
  let ?rows = "t_paymentNumberCounters s"
  let ?fresh = "\<lparr>pn_organizationId = org, pn_businessDate = d, pn_nextValue = 2\<rparr>"
  show "n = payment_number d (next_value org d s)"
    using assms by (simp add: nextPaymentNumber_def Let_def payment_number_def next_value_def)
  have s': "t_paymentNumberCounters s' = counter_bump ?p pn_nextValue_update ?fresh ?rows"
    using assms by (auto simp: nextPaymentNumber_def Let_def)
  show "next_value org' d' s' = next_value org' d' s + (if org' = org \<and> d' = d then 1 else 0)"
  proof (cases "org' = org \<and> d' = d")
    case True
    then have "?q = ?p" by simp
    moreover have "find ?p (update_where ?p (pn_nextValue_update (\<lambda>n. n + 1)) ?rows)
        = map_option (pn_nextValue_update (\<lambda>n. n + 1)) (find ?p ?rows)"
      by (rule find_update_where_same) simp
    moreover have "(\<exists>r \<in> set ?rows. ?p r) \<longleftrightarrow> find ?p ?rows \<noteq> None"
      by (auto simp: find_None_iff)
    ultimately show ?thesis
      using True by (cases "find ?p ?rows")
        (simp_all add: next_value_def counter_value_def s' counter_bump_def find_append_None)
  next
    case False
    have "find ?q (update_where ?p (pn_nextValue_update (\<lambda>n. n + 1)) ?rows) = find ?q ?rows"
      by (rule find_update_where_other) (use False in auto)
    moreover have "find ?q (?rows @ [?fresh]) = find ?q ?rows"
      using False by (cases "find ?q ?rows") (auto simp: find_append_None find_append_Some)
    ultimately have "find ?q (t_paymentNumberCounters s') = find ?q ?rows"
      by (simp add: s' counter_bump_def)
    then show ?thesis
      unfolding next_value_def counter_value_def if_not_P [OF False] by simp
  qed
qed

definition draw_number :: "uuid \<times> str \<Rightarrow> ('z payment_db_scheme, uuid \<times> str) tx" where
  "draw_number k = tx_bind (nextPaymentNumber (fst k) (snd k)) (\<lambda>n. tx_return (fst k, n))"

abbreviation draw_numbers :: "(uuid \<times> str) list \<Rightarrow> ('z payment_db_scheme, (uuid \<times> str) list) tx" where
  "draw_numbers \<equiv> tx_map draw_number"

lemma draw_numbers_Cons:
  "draw_numbers (k # ks) s = Inr (ns, s') \<longleftrightarrow> (\<exists>n s1 ms. nextPaymentNumber (fst k) (snd k) s = Inr (n, s1)
     \<and> draw_numbers ks s1 = Inr (ms, s') \<and> ns = (fst k, n) # ms)"
  by (auto simp: draw_number_def tx_bind_Inr tx_return_Inr)

lemma draw_numbers_range:
  assumes "draw_numbers ks s = Inr (ns, s')" and "p \<in> set ns"
  shows "\<exists>k \<in> set ks. \<exists>v \<ge> next_value (fst k) (snd k) s. p = (fst k, payment_number (snd k) v)"
  using assms
proof (induction ks arbitrary: s ns)
  case Nil
  then show ?case by (simp add: tx_return_Inr)
next
  case (Cons k ks)
  obtain n s1 ms where n: "nextPaymentNumber (fst k) (snd k) s = Inr (n, s1)"
    and ms: "draw_numbers ks s1 = Inr (ms, s')" and ns: "ns = (fst k, n) # ms"
    using Cons.prems(1) unfolding draw_numbers_Cons by blast
  show ?case
  proof (cases "p = (fst k, n)")
    case True
    then show ?thesis using nextPaymentNumber_Inr(1) [OF n] by auto
  next
    case False
    then obtain j v where j: "j \<in> set ks" "next_value (fst j) (snd j) s1 \<le> v"
      and p: "p = (fst j, payment_number (snd j) v)"
      using Cons.IH [OF ms] Cons.prems(2) ns by auto
    have "next_value (fst j) (snd j) s \<le> v"
      using nextPaymentNumber_Inr(2) [OF n, of "fst j" "snd j"] j(2) by (auto split: if_splits)
    then show ?thesis using j(1) p by auto
  qed
qed

text \<open>
  Property C37. Business numbers are unique: in any sequence of draws, over any organizations
  and dates, no organization is given the same payment number twice, so the unique index on
  organization and number is never hit by a number just drawn.
\<close>

theorem payment_numbers_distinct:
  assumes "draw_numbers ks s = Inr (ns, s')"
    and "\<forall>k \<in> set ks. is_date (snd k)"
    and "\<forall>r \<in> set (t_paymentNumberCounters s). 0 < pn_nextValue r"
  shows "distinct ns"
proof -
  have pos: "0 \<le> next_value org d s" for org d
    using assms(3) by (auto simp: next_value_def counter_value_def split: option.splits dest!: find_SomeD)
  show ?thesis
    using assms(1,2) pos
  proof (induction ks arbitrary: s ns)
    case Nil
    then show ?case by (simp add: tx_return_Inr)
  next
    case (Cons k ks)
    obtain n s1 ms where n: "nextPaymentNumber (fst k) (snd k) s = Inr (n, s1)"
      and ms: "draw_numbers ks s1 = Inr (ms, s')" and ns: "ns = (fst k, n) # ms"
      using Cons.prems(1) unfolding draw_numbers_Cons by blast
    note step = nextPaymentNumber_Inr(2) [OF n]
    have pos1: "0 \<le> next_value org d s1" for org d using Cons.prems(3) [of org d] step [of org d] by simp
    have "(fst k, n) \<notin> set ms"
    proof
      assume "(fst k, n) \<in> set ms"
      then obtain j v where j: "j \<in> set ks" "next_value (fst j) (snd j) s1 \<le> v" "fst j = fst k"
        and eq: "n = payment_number (snd j) v"
        using draw_numbers_range [OF ms] by force
      then have "snd k = snd j" "next_value (fst k) (snd k) s = v"
        using nextPaymentNumber_Inr(1) [OF n] Cons.prems(2,3) pos1 [of "fst j" "snd j"]
          payment_number_inject [of "snd k" "snd j" "next_value (fst k) (snd k) s" v] by auto
      then show False using step [of "fst k" "snd k"] j(2,3) by simp
    qed
    then show ?case using Cons.IH [OF ms _ pos1] Cons.prems(2) ns by simp
  qed
qed

lemma payment_numbers_distinct_witness:
  "\<exists>ns s'. draw_numbers [(''org'', ''2026-01-02''), (''org'', ''2026-01-02''), (''org'', ''2026-01-03'')] sample_db
     = Inr (ns, s') \<and> distinct ns"
proof -
  let ?ks = "[(''org'', ''2026-01-02''), (''org'', ''2026-01-02''), (''org'', ''2026-01-03'')]"
  obtain ns s' where run: "draw_numbers ?ks sample_db = Inr (ns, s')"
    by (simp add: draw_number_def tx_bind_def nextPaymentNumber_def Let_def)
  have "\<forall>k \<in> set ?ks. is_date (snd k)" by code_simp
  moreover have "\<forall>r \<in> set (t_paymentNumberCounters sample_db). 0 < pn_nextValue r" by code_simp
  ultimately show ?thesis using payment_numbers_distinct [OF run] run by blast
qed

end
