(* ===== verification/Canonical_Json.thy ===== *)
theory Canonical_Json
  imports Json_Digest Sample
begin

text \<open>
  The command digest depends on a request body only up to the order of object keys, at every
  depth: the canonical rendering sorts the entries, so two bodies that differ in the order of
  keys are one command for the idempotency check.
\<close>

section \<open>Bodies that differ in key order\<close>

inductive same_json :: "json \<Rightarrow> json \<Rightarrow> bool" where
  same: "same_json v v"
| array: "list_all2 same_json vs ws \<Longrightarrow> same_json (JArray vs) (JArray ws)"
| object: "list_all2 (\<lambda>e f. fst e = fst f \<and> same_json (snd e) (snd f)) es fs \<Longrightarrow>
    mset fs = mset gs \<Longrightarrow> distinct (map fst es) \<Longrightarrow> same_json (JObject es) (JObject gs)"
monos list_all2_mono

inductive_cases same_json_undefined: "same_json JUndefined w"
inductive_cases same_json_undefined2: "same_json v JUndefined"



section \<open>Sorted entries are canonical\<close>


lemma mset_insert_entry [simp]: "mset (insert_entry cmp e fs) = add_mset e (mset fs)"
  by (induction fs) auto

lemma mset_sort_entries [simp]: "mset (sort_entries cmp es) = mset es"
  by (induction es) (simp_all add: sort_entries_def)





section \<open>The rendering\<close>




end
