(* ===== verification/Payment_Facts.thy ===== *)
theory Payment_Facts
  imports Payment_Repository
begin

text \<open>
  The reads behind a payment draft in \<open>payments/payment.repository.ts\<close>: the facts a request and
  a payment are checked against, gathered by \<open>requestFacts\<close> and \<open>paymentFacts\<close>, and the inserts of a
  request and of a payment with its lines and evidence links. An identifier that is present in
  a body is not empty, by the body's validation.
\<close>

section \<open>Facts\<close>

record payment_reference =
  fr_id :: uuid
  fr_label :: str
  fr_state :: str

record currency_fact =
  fc_code :: str
  fc_label :: str
  fc_decimalPlaces :: nat
  fc_baseCurrency :: bool
  fc_state :: str

record method_fact =
  fm_id :: uuid
  fm_label :: str
  fm_direction :: str
  fm_category :: str
  fm_requiredReferences :: "str list"
  fm_allowedCurrencies :: "str list"
  fm_amountLimits :: "(str \<times> str) list"
  fm_requiresApproval :: bool
  fm_mappingCount :: nat
  fm_state :: str

record cashbox_fact =
  fx_id :: uuid
  fx_label :: str
  fx_state :: str
  fx_treasuryUnitId :: uuid
  fx_canPay :: bool
  fx_currencies :: "str list"

record account_fact =
  fb_id :: uuid
  fb_label :: str
  fb_state :: str
  fb_treasuryUnitId :: "uuid option"
  fb_currency :: str
  fb_canPay :: bool

record rate_fact =
  ft_id :: uuid
  ft_sourceCurrency :: str
  ft_targetCurrency :: str
  ft_rate :: str
  ft_rateType :: str
  ft_validAt :: instant

record unit_fact =
  fu_id :: uuid
  fu_label :: str
  fu_state :: str
  fu_branchId :: "uuid option"

record attachment_fact =
  fa_id :: uuid
  fa_label :: str
  fa_state :: str
  fa_contentDigest :: str

record request_facts =
  fq_organization :: "(uuid \<times> str) option"
  fq_requester :: "payment_reference option"
  fq_beneficiary :: "payment_reference option"
  fq_branch :: "payment_reference option"
  fq_treasuryUnit :: "unit_fact option"
  fq_currency :: "currency_fact option"
  fq_attachments :: "attachment_fact list"

record create_facts =
  fp_organization :: "(uuid \<times> str \<times> str) option"
  fp_beneficiary :: "payment_reference option"
  fp_branch :: "payment_reference option"
  fp_treasuryUnit :: "unit_fact option"
  fp_creator :: "payment_reference option"
  fp_parties :: "payment_reference list"
  fp_currencies :: "currency_fact list"
  fp_methods :: "method_fact list"
  fp_cashboxes :: "cashbox_fact list"
  fp_bankAccounts :: "account_fact list"
  fp_attachments :: "attachment_fact list"
  fp_rates :: "rate_fact list"

record line_rate =
  lr_sourceCurrency :: str
  lr_targetCurrency :: str
  lr_rate :: str
  lr_rateType :: str
  lr_rateSource :: str
  lr_ratedAt :: instant
  lr_rateRecordId :: "uuid option"
  lr_roundingDifference :: str

record derived_line =
  dl_id :: uuid
  dl_input :: payment_line_input
  dl_method :: method_fact
  dl_baseAmount :: str
  dl_rate :: line_rate

section \<open>Reading the facts\<close>

definition party_reference :: "party_row \<Rightarrow> payment_reference" where
  "party_reference r = \<lparr>fr_id = py_id r, fr_label = py_displayName r, fr_state = py_state r\<rparr>"

definition user_fact :: "'z reference_db_scheme \<Rightarrow> uuid \<Rightarrow> uuid \<Rightarrow> payment_reference option" where
  "user_fact s org i = map_option
     (\<lambda>r. \<lparr>fr_id = us_id r, fr_label = us_displayName r, fr_state = us_state r\<rparr>)
     (find (\<lambda>r. us_organizationId r = org \<and> us_id r = i) (t_userRefs s))"

definition branch_fact :: "'z reference_db_scheme \<Rightarrow> uuid \<Rightarrow> uuid option \<Rightarrow> payment_reference option" where
  "branch_fact s org branchId = Option.bind branchId (\<lambda>i. map_option
     (\<lambda>r. \<lparr>fr_id = br_id r, fr_label = br_name r, fr_state = br_state r\<rparr>)
     (find (\<lambda>r. br_organizationId r = org \<and> br_id r = i) (t_branches s)))"

definition unit_fact_of :: "'z reference_db_scheme \<Rightarrow> uuid \<Rightarrow> uuid option \<Rightarrow> unit_fact option" where
  "unit_fact_of s org treasuryUnitId = Option.bind treasuryUnitId (\<lambda>i. map_option
     (\<lambda>r. \<lparr>fu_id = tu_id r, fu_label = tu_name r, fu_state = tu_state r, fu_branchId = tu_branchId r\<rparr>)
     (find (\<lambda>r. tu_organizationId r = org \<and> tu_id r = i) (t_treasuryUnits s)))"

definition currency_fact_of :: "currency_row \<Rightarrow> currency_fact" where
  "currency_fact_of r = \<lparr>fc_code = cu_code r, fc_label = cu_name r,
     fc_decimalPlaces = nat (cu_decimalPlaces r), fc_baseCurrency = cu_baseCurrency r,
     fc_state = cu_state r\<rparr>"

definition evidenceFacts :: "'z reference_db_scheme \<Rightarrow> uuid \<Rightarrow> attachment_ref list \<Rightarrow> attachment_fact list" where
  "evidenceFacts s org inputs = map
     (\<lambda>r. \<lparr>fa_id = at_id r, fa_label = at_fileName r, fa_state = at_state r,
        fa_contentDigest = at_contentDigest r\<rparr>)
     (filter (\<lambda>r. at_organizationId r = org \<and> at_id r \<in> ar_id ` set inputs) (t_attachments s))"

definition listed :: "'a list option \<Rightarrow> 'a list" where
  "listed v = (case v of None \<Rightarrow> [] | Some xs \<Rightarrow> xs)"

definition requestFacts ::
  "'z reference_db_scheme \<Rightarrow> uuid \<Rightarrow> uuid \<Rightarrow> payment_request_create \<Rightarrow> request_facts" where
  "requestFacts s org actorUserId dto = \<lparr>
     fq_organization = map_option (\<lambda>r. (og_id r, og_legalName r))
       (find (\<lambda>r. og_id r = org) (t_organizations s)),
     fq_requester = user_fact s org actorUserId,
     fq_beneficiary = map_option party_reference
       (find (\<lambda>r. py_organizationId r = org \<and> py_id r = qc_beneficiaryPartyId dto) (t_parties s)),
     fq_branch = branch_fact s org (qc_branchId dto),
     fq_treasuryUnit = unit_fact_of s org (qc_treasuryUnitId dto),
     fq_currency = map_option currency_fact_of
       (find (\<lambda>r. cu_organizationId r = org \<and> cu_code r = mo_currency (qc_requestedMoney dto))
         (t_currencies s)),
     fq_attachments = evidenceFacts s org (listed (qc_attachments dto))\<rparr>"

definition line_currencies :: "payment_create \<Rightarrow> str list" where
  "line_currencies dto = dedup (cr_baseCurrency dto # map (mo_currency \<circ> li_money) (cr_lines dto))"

definition line_parties :: "payment_create \<Rightarrow> uuid list" where
  "line_parties dto = dedup (cr_beneficiaryPartyId dto # map li_beneficiaryPartyId (cr_lines dto))"

definition line_methods :: "payment_create \<Rightarrow> uuid list" where
  "line_methods dto = dedup (map li_methodId (cr_lines dto))"

definition method_fact_of :: "'z reference_db_scheme \<Rightarrow> method_definition_row \<Rightarrow> method_fact" where
  "method_fact_of s r = \<lparr>
     fm_id = md_id r,
     fm_label = md_name r,
     fm_direction = md_direction r,
     fm_category = md_behaviorCategory r,
     fm_requiredReferences = map mr_reference
       (filter (\<lambda>x. mr_methodId x = md_id r) (t_methodRequiredReferences s)),
     fm_allowedCurrencies = map mc_currencyCode
       (filter (\<lambda>x. mc_methodId x = md_id r) (t_methodAllowedCurrencies s)),
     fm_amountLimits = map (\<lambda>x. (ml_currencyCode x, ml_amount x))
       (filter (\<lambda>x. ml_methodId x = md_id r) (t_methodAmountLimits s)),
     fm_requiresApproval = md_requiresApproval r,
     fm_mappingCount = length (filter (\<lambda>x. mm_methodId x = md_id r) (t_methodMappings s)),
     fm_state = md_state r\<rparr>"

definition cashbox_fact_of :: "'z reference_db_scheme \<Rightarrow> cashbox_row \<Rightarrow> cashbox_fact" where
  "cashbox_fact_of s r = \<lparr>
     fx_id = cb_id r,
     fx_label = cb_name r,
     fx_state = cb_state r,
     fx_treasuryUnitId = cb_treasuryUnitId r,
     fx_canPay = cb_canPay r,
     fx_currencies = map cc_currency
       (filter (\<lambda>x. cc_cashboxId x = cb_id r) (t_cashboxCurrencyControls s))\<rparr>"

definition account_fact_of :: "bank_account_row \<Rightarrow> account_fact" where
  "account_fact_of r = \<lparr>
     fb_id = ba_id r,
     fb_label = ba_accountNumber r,
     fb_state = ba_state r,
     fb_treasuryUnitId = ba_treasuryUnitId r,
     fb_currency = ba_currency r,
     fb_canPay = ba_canPay r\<rparr>"

definition rate_fact_of :: "exchange_rate_row \<Rightarrow> rate_fact" where
  "rate_fact_of r = \<lparr>
     ft_id = er_id r,
     ft_sourceCurrency = er_sourceCurrency r,
     ft_targetCurrency = er_targetCurrency r,
     ft_rate = er_rate r,
     ft_rateType = er_rateType r,
     ft_validAt = er_validAt r\<rparr>"

text \<open>
  The approved rates to the base currency that are valid by the end of the business date,
  newest first, then by identifier.
\<close>

definition rate_facts :: "'z reference_db_scheme \<Rightarrow> payment_create \<Rightarrow> rate_fact list" where
  "rate_facts s dto =
     (let foreign = filter (\<lambda>c. c \<noteq> cr_baseCurrency dto) (line_currencies dto) in
      if foreign = [] then []
      else map rate_fact_of (order_by (\<lambda>r. - er_validAt r) (order_by er_id (filter
        (\<lambda>r. er_sourceCurrency r \<in> set foreign \<and> er_targetCurrency r = cr_baseCurrency dto
           \<and> er_state r = ''APPROVED'' \<and> er_validAt r \<le> utc_end_of_day (cr_businessDate dto))
        (t_exchangeRates s)))))"

definition paymentFacts ::
  "'z reference_db_scheme \<Rightarrow> uuid \<Rightarrow> uuid \<Rightarrow> payment_create \<Rightarrow> create_facts" where
  "paymentFacts s org actorUserId dto =
     (let parties = map party_reference (filter (\<lambda>r. py_organizationId r = org
            \<and> py_id r \<in> set (line_parties dto)) (t_parties s))
      in \<lparr>
     fp_organization = map_option (\<lambda>r. (og_id r, og_legalName r, og_baseCurrency r))
       (find (\<lambda>r. og_id r = org) (t_organizations s)),
     fp_beneficiary = find (\<lambda>r. fr_id r = cr_beneficiaryPartyId dto) parties,
     fp_branch = branch_fact s org (cr_branchId dto),
     fp_treasuryUnit = unit_fact_of s org (Some (cr_treasuryUnitId dto)),
     fp_creator = user_fact s org actorUserId,
     fp_parties = parties,
     fp_currencies = map currency_fact_of (filter (\<lambda>r. cu_organizationId r = org
       \<and> cu_code r \<in> set (line_currencies dto)) (t_currencies s)),
     fp_methods = map (method_fact_of s) (filter (\<lambda>r. md_organizationId r = org
       \<and> md_id r \<in> set (line_methods dto)) (t_methodDefinitions s)),
     fp_cashboxes = map (cashbox_fact_of s) (filter (\<lambda>r. cb_organizationId r = org
       \<and> Some (cb_id r) \<in> li_cashboxId ` set (cr_lines dto)) (t_cashboxes s)),
     fp_bankAccounts = map account_fact_of (filter (\<lambda>r. ba_organizationId r = org
       \<and> Some (ba_id r) \<in> li_bankAccountId ` set (cr_lines dto)) (t_bankAccounts s)),
     fp_attachments = evidenceFacts s org (concat (map (listed \<circ> li_attachments) (cr_lines dto))),
     fp_rates = rate_facts s dto\<rparr>)"

section \<open>Inserting a request\<close>

definition request_row ::
  "env \<Rightarrow> uuid \<Rightarrow> uuid \<Rightarrow> str \<Rightarrow> uuid \<Rightarrow> str \<Rightarrow> payment_request_create \<Rightarrow> payment_request_row" where
  "request_row env i org businessNumber actorUserId amount dto = \<lparr>
     pq_id = i,
     pq_organizationId = org,
     pq_businessNumber = businessNumber,
     pq_requesterUserId = actorUserId,
     pq_beneficiaryPartyId = qc_beneficiaryPartyId dto,
     pq_requestedAmount = amount,
     pq_currency = mo_currency (qc_requestedMoney dto),
     pq_branchId = qc_branchId dto,
     pq_treasuryUnitId = qc_treasuryUnitId dto,
     pq_dueDate = qc_dueDate dto,
     pq_purpose = qc_purpose dto,
     pq_contractRef = qc_contractRef dto,
     pq_invoiceRef = qc_invoiceRef dto,
     pq_accountingDimensions = qc_accountingDimensions dto,
     pq_approvalProgress = \<lparr>apg_state = ''NOT_STARTED'', apg_completedSteps = 0, apg_requiredSteps = 0\<rparr>,
     pq_state = ''DRAFT'',
     pq_version = 0,
     pq_createdAt = env_now env,
     pq_updatedAt = env_now env\<rparr>"

definition request_link :: "env \<Rightarrow> uuid \<Rightarrow> uuid \<Rightarrow> attachment_ref \<Rightarrow> request_attachment_row" where
  "request_link env org i a = \<lparr>
     rl_organizationId = org,
     rl_paymentRequestId = i,
     rl_attachmentId = ar_id a,
     rl_contentDigest = ar_contentDigest a,
     rl_purpose = text_or_empty (ar_purpose a),
     rl_linkedAt = env_now env\<rparr>"

text \<open>
  \<open>rows[0]!\<close> of the view just inserted. The references of the row guarantee it; a missing row is
  modelled as a fault of the runtime.
\<close>

definition read_request_view :: "uuid \<Rightarrow> uuid \<Rightarrow> ('z payment_db_scheme, payment_request_view) tx" where
  "read_request_view org i =
     tx_bind (tx_read (\<lambda>s. requestView s org i)) (\<lambda>view. case view of
       None \<Rightarrow> tx_throw (JsFault ''Cannot read properties of undefined'')
     | Some v \<Rightarrow> tx_return v)"

definition insertRequest ::
  "env \<Rightarrow> uuid \<Rightarrow> uuid \<Rightarrow> str \<Rightarrow> uuid \<Rightarrow> payment_request_create
     \<Rightarrow> ('z payment_db_scheme, payment_request_view) tx" where
  "insertRequest env i org businessNumber actorUserId dto =
     tx_bind (tx_lift (pg_numeric 8 (mo_amount (qc_requestedMoney dto)))) (\<lambda>amount.
     tx_then (tx_insert payment_request_check payment_request_clash payment_request_refs
       t_paymentRequests t_paymentRequests_update
       (request_row env i org businessNumber actorUserId amount dto))
     (tx_then (tx_for (listed (qc_attachments dto)) (\<lambda>a.
       tx_insert (\<lambda>_. True) request_attachment_clash request_attachment_refs
         t_paymentRequestAttachmentLinks t_paymentRequestAttachmentLinks_update
         (request_link env org i a)))
     (read_request_view org i)))"

section \<open>Inserting a payment\<close>

definition document_row ::
  "env \<Rightarrow> uuid \<Rightarrow> uuid \<Rightarrow> str \<Rightarrow> uuid \<Rightarrow> str \<Rightarrow> payment_create \<Rightarrow> payment_document_row" where
  "document_row env i org businessNumber actorUserId totalBaseAmount dto = \<lparr>
     pd_id = i,
     pd_organizationId = org,
     pd_businessNumber = businessNumber,
     pd_businessDate = cr_businessDate dto,
     pd_beneficiaryPartyId = cr_beneficiaryPartyId dto,
     pd_paymentRequestId = None,
     pd_branchId = cr_branchId dto,
     pd_treasuryUnitId = cr_treasuryUnitId dto,
     pd_baseCurrency = cr_baseCurrency dto,
     pd_totalBaseAmount = totalBaseAmount,
     pd_dueDate = cr_dueDate dto,
     pd_purpose = cr_purpose dto,
     pd_creatorUserId = actorUserId,
     pd_currentApprovalSnapshotId = None,
     pd_reversedPaymentId = None,
     pd_executedAt = None,
     pd_executedByUserId = None,
     pd_state = ''DRAFT'',
     pd_workflowState = ''DRAFT'',
     pd_executionState = ''NOT_EXECUTED'',
     pd_accountingState = ''NOT_READY'',
     pd_version = 0,
     pd_createdAt = env_now env,
     pd_updatedAt = env_now env\<rparr>"

text \<open>The amounts of a line as their columns hold them.\<close>

definition line_amounts :: "derived_line \<Rightarrow> (str \<times> str \<times> str \<times> str) res" where
  "line_amounts l =
     res_bind (pg_numeric 8 (mo_amount (li_money (dl_input l)))) (\<lambda>amount.
     res_bind (pg_numeric 18 (lr_rate (dl_rate l))) (\<lambda>rate.
     res_bind (pg_numeric 8 (dl_baseAmount l)) (\<lambda>base.
     res_bind (pg_numeric 8 (lr_roundingDifference (dl_rate l))) (\<lambda>difference.
       Inr (amount, rate, base, difference)))))"

definition line_row ::
  "env \<Rightarrow> uuid \<Rightarrow> uuid \<Rightarrow> str \<Rightarrow> derived_line \<Rightarrow> str \<times> str \<times> str \<times> str \<Rightarrow> payment_line_row" where
  "line_row env paymentId org baseCurrency l amounts =
     (case amounts of (amount, rate, base, difference) \<Rightarrow>
      let input = dl_input l; method = dl_method l in \<lparr>
     pl_id = dl_id l,
     pl_organizationId = org,
     pl_paymentDocumentId = paymentId,
     pl_lineNumber = li_lineNumber input,
     pl_methodId = li_methodId input,
     pl_methodName = fm_label method,
     pl_methodCategory = fm_category method,
     pl_methodRequiredReferences = fm_requiredReferences method,
     pl_requiresApproval = fm_requiresApproval method,
     pl_amount = amount,
     pl_currency = mo_currency (li_money input),
     pl_baseCurrency = baseCurrency,
     pl_exchangeRate = rate,
     pl_rateType = lr_rateType (dl_rate l),
     pl_rateSource = lr_rateSource (dl_rate l),
     pl_rateRecordId = lr_rateRecordId (dl_rate l),
     pl_rateAt = lr_ratedAt (dl_rate l),
     pl_baseAmount = base,
     pl_roundingDifference = difference,
     pl_cashboxId = li_cashboxId input,
     pl_bankAccountId = li_bankAccountId input,
     pl_beneficiaryPartyId = li_beneficiaryPartyId input,
     pl_beneficiaryAccountReference = li_beneficiaryAccountReference input,
     pl_trackingNumber = li_trackingNumber input,
     pl_dueDate = li_dueDate input,
     pl_description = li_description input,
     pl_accountingDimensions = li_accountingDimensions input,
     pl_executedAt = None,
     pl_executedByUserId = None,
     pl_state = ''DRAFT'',
     pl_version = 0,
     pl_createdAt = env_now env,
     pl_updatedAt = env_now env\<rparr>)"

definition line_links :: "env \<Rightarrow> uuid \<Rightarrow> derived_line \<Rightarrow> line_attachment_row list" where
  "line_links env org l = map (\<lambda>a. \<lparr>
     ll_organizationId = org,
     ll_paymentLineId = dl_id l,
     ll_attachmentId = ar_id a,
     ll_contentDigest = ar_contentDigest a,
     ll_purpose = text_or_empty (ar_purpose a),
     ll_linkedAt = env_now env\<rparr>) (listed (li_attachments (dl_input l)))"

definition insert_line ::
  "env \<Rightarrow> uuid \<Rightarrow> uuid \<Rightarrow> str \<Rightarrow> derived_line \<Rightarrow> ('z payment_db_scheme, unit) tx" where
  "insert_line env paymentId org baseCurrency l =
     tx_bind (tx_lift (line_amounts l)) (\<lambda>amounts.
       tx_insert payment_line_check payment_line_clash payment_line_refs
         t_paymentLines t_paymentLines_update (line_row env paymentId org baseCurrency l amounts))"

definition insertPayment ::
  "env \<Rightarrow> uuid \<Rightarrow> uuid \<Rightarrow> str \<Rightarrow> uuid \<Rightarrow> payment_create \<Rightarrow> str \<Rightarrow> derived_line list
     \<Rightarrow> ('z payment_db_scheme, payment_view) tx" where
  "insertPayment env i org businessNumber actorUserId dto totalBaseAmount lines =
     tx_bind (tx_lift (pg_numeric 8 totalBaseAmount)) (\<lambda>total.
     tx_then (tx_insert payment_document_check payment_document_clash payment_document_refs
       t_paymentDocuments t_paymentDocuments_update
       (document_row env i org businessNumber actorUserId total dto))
     (tx_then (tx_guard (lines \<noteq> []) (JsFault ''values() must be called with at least one value''))
     (tx_then (tx_for lines (insert_line env i org (cr_baseCurrency dto)))
     (tx_then (tx_for (concat (map (line_links env org) lines)) (\<lambda>r.
       tx_insert (\<lambda>_. True) line_attachment_clash line_attachment_refs
         t_paymentLineAttachmentLinks t_paymentLineAttachmentLinks_update r))
     (tx_bind (tx_read (\<lambda>s. paymentView s org i)) (\<lambda>view. case view of
        None \<Rightarrow> tx_throw (JsFault ''Cannot read properties of undefined'')
      | Some v \<Rightarrow> tx_return v))))))"

end
