(* ===== verification/Approval_Repository.thy ===== *)
theory Approval_Repository
  imports Payment_Policy Payment_Facts Execution_Repository
begin

text \<open>
  \<open>payments/payment-approval.repository.ts\<close>: the payment read for approval, the policies that
  govern it with their steps, the participants of an aggregation, the evidence written by a
  submission (a snapshot with its contexts, steps and aggregation) and by an approval action,
  and the snapshot as it is shown. \<open>FOR UPDATE\<close> and \<open>FOR SHARE\<close> locks are not modelled.
\<close>

section \<open>The payment\<close>

record approval_payment =
  yp_id :: uuid
  yp_businessNumber :: str
  yp_businessDate :: str
  yp_beneficiaryPartyId :: uuid
  yp_state :: str
  yp_version :: int
  yp_branchId :: "uuid option"
  yp_treasuryUnitId :: uuid
  yp_baseCurrency :: str
  yp_totalBaseAmount :: str
  yp_creatorUserId :: uuid
  yp_requesterUserId :: "uuid option"
  yp_currentApprovalSnapshotId :: "uuid option"

record approval_line =
  yl_lineNumber :: int
  yl_currency :: str
  yl_methodCategory :: str
  yl_requiresApproval :: bool
  yl_methodState :: str

definition request_requester :: "'z payment_db_scheme \<Rightarrow> uuid \<Rightarrow> uuid option \<Rightarrow> uuid option" where
  "request_requester s org paymentRequestId = Option.bind paymentRequestId (\<lambda>i. map_option pq_requesterUserId
     (find (\<lambda>r. pq_organizationId r = org \<and> pq_id r = i) (t_paymentRequests s)))"

definition lockApprovalPayment :: "'z payment_db_scheme \<Rightarrow> uuid \<Rightarrow> uuid \<Rightarrow> approval_payment option" where
  "lockApprovalPayment s org paymentId =
     Option.bind (find_document s org paymentId) (\<lambda>pd.
     map_option (\<lambda>tu. \<lparr>
       yp_id = pd_id pd,
       yp_businessNumber = pd_businessNumber pd,
       yp_businessDate = pd_businessDate pd,
       yp_beneficiaryPartyId = pd_beneficiaryPartyId pd,
       yp_state = pd_state pd,
       yp_version = pd_version pd,
       yp_branchId = coalesce (pd_branchId pd) (tu_branchId tu),
       yp_treasuryUnitId = pd_treasuryUnitId pd,
       yp_baseCurrency = pd_baseCurrency pd,
       yp_totalBaseAmount = pd_totalBaseAmount pd,
       yp_creatorUserId = pd_creatorUserId pd,
       yp_requesterUserId = request_requester s org (pd_paymentRequestId pd),
       yp_currentApprovalSnapshotId = pd_currentApprovalSnapshotId pd\<rparr>)
     (find (\<lambda>u. tu_organizationId u = org \<and> tu_id u = pd_treasuryUnitId pd) (t_treasuryUnits s)))"

definition treasuryUnitBranch :: "'z payment_db_scheme \<Rightarrow> uuid \<Rightarrow> uuid \<Rightarrow> uuid option" where
  "treasuryUnitBranch s org treasuryUnitId = Option.bind
     (find (\<lambda>u. tu_organizationId u = org \<and> tu_id u = treasuryUnitId) (t_treasuryUnits s)) tu_branchId"

definition paymentRequester :: "'z payment_db_scheme \<Rightarrow> uuid \<Rightarrow> uuid \<Rightarrow> uuid option" where
  "paymentRequester s org paymentId = Option.bind (find_document s org paymentId)
     (\<lambda>pd. request_requester s org (pd_paymentRequestId pd))"

definition approval_lines :: "'z payment_db_scheme \<Rightarrow> uuid \<Rightarrow> uuid \<Rightarrow> approval_line list" where
  "approval_lines s org paymentId = concat (map
     (\<lambda>l. map (\<lambda>m. \<lparr>
        yl_lineNumber = pl_lineNumber l,
        yl_currency = pl_currency l,
        yl_methodCategory = pl_methodCategory l,
        yl_requiresApproval = pl_requiresApproval l,
        yl_methodState = md_state m\<rparr>)
      (option_list (find (\<lambda>m. md_organizationId m = org \<and> md_id m = pl_methodId l) (t_methodDefinitions s))))
     (order_by pl_lineNumber (filter
       (\<lambda>l. pl_organizationId l = org \<and> pl_paymentDocumentId l = paymentId) (t_paymentLines s))))"

section \<open>Policies\<close>

definition policy_applies ::
  "uuid \<Rightarrow> approval_payment \<Rightarrow> str \<Rightarrow> str \<Rightarrow> str \<Rightarrow> approval_policy_row \<Rightarrow> bool" where
  "policy_applies org payment currency methodCategory amountBasis r \<longleftrightarrow>
     ap_organizationId r = org
     \<and> ap_documentType r = ''PAYMENT'' \<and> ap_state r = ''ACTIVE''
     \<and> (ap_branchId r = None \<or> ap_branchId r = yp_branchId payment)
     \<and> (ap_treasuryUnitId r = None \<or> ap_treasuryUnitId r = Some (yp_treasuryUnitId payment))
     \<and> (ap_currency r = None \<or> ap_currency r = Some currency)
     \<and> (ap_methodCategory r = None \<or> ap_methodCategory r = Some methodCategory)
     \<and> (case ap_minimumBaseAmount r of None \<Rightarrow> True | Some m \<Rightarrow> compareDecimal m amountBasis \<le> 0)
     \<and> (case ap_maximumBaseAmount r of None \<Rightarrow> True | Some m \<Rightarrow> 0 \<le> compareDecimal m amountBasis)"

definition policy_step_of :: "'z payment_db_scheme \<Rightarrow> uuid \<Rightarrow> approval_step_row \<Rightarrow> approval_policy_step" where
  "policy_step_of s org r =
     (let role = Option.bind (as_requiredRoleId r)
            (\<lambda>i. find (\<lambda>x. ro_organizationId x = org \<and> ro_id x = i) (t_roles s));
          approver = Option.bind (as_namedApproverId r)
            (\<lambda>i. find (\<lambda>x. us_organizationId x = org \<and> us_id x = i) (t_userRefs s))
      in \<lparr>
     ay_stepId = as_id r,
     ay_stepOrder = as_stepOrder r,
     ay_roleId = as_requiredRoleId r,
     ay_roleName = map_option ro_name role,
     ay_roleState = map_option ro_state role,
     ay_approverUserId = as_namedApproverId r,
     ay_approverName = map_option us_displayName approver,
     ay_approverState = map_option us_state approver,
     ay_approvalsRequired = as_approvalsRequired r,
     ay_separationRules = as_separationRules r\<rparr>)"

definition policy_of :: "'z payment_db_scheme \<Rightarrow> uuid \<Rightarrow> approval_policy_row \<Rightarrow> approval_policy" where
  "policy_of s org r = \<lparr>
     po_id = ap_id r,
     po_code = ap_code r,
     po_name = ap_name r,
     po_branchId = ap_branchId r,
     po_treasuryUnitId = ap_treasuryUnitId r,
     po_currency = ap_currency r,
     po_methodCategory = ap_methodCategory r,
     po_amountMinimum = ap_minimumBaseAmount r,
     po_amountMaximum = ap_maximumBaseAmount r,
     po_aggregationWindowKind = ap_aggregationWindowKind r,
     po_aggregationKeys = listed (ap_aggregationKeys r),
     po_version = ap_policyVersion r,
     po_steps = map (policy_step_of s org) (order_by as_stepOrder (filter
       (\<lambda>t. as_organizationId t = org \<and> as_approvalPolicyId t = ap_id r) (t_approvalSteps s)))\<rparr>"

definition policies ::
  "'z payment_db_scheme \<Rightarrow> uuid \<Rightarrow> approval_payment \<Rightarrow> str \<Rightarrow> str \<Rightarrow> str \<Rightarrow> approval_policy list" where
  "policies s org payment currency methodCategory amountBasis = map (policy_of s org)
     (order_by ap_id (filter (policy_applies org payment currency methodCategory amountBasis)
       (t_approvalPolicies s)))"

section \<open>Aggregation\<close>

record aggregation_participant =
  np_paymentId :: uuid
  np_paymentNumber :: str
  np_paymentVersion :: int
  np_baseAmount :: str
  np_baseCurrency :: str

record evidence_participant = aggregation_participant +
  np_versionBasis :: str

record aggregation_evidence =
  ne_businessDate :: str
  ne_keys :: "str list"
  ne_beneficiaryPartyId :: "uuid option"
  ne_externalObligationKey :: "str option"
  ne_participants :: "evidence_participant list"

definition lockAggregation :: "uuid \<Rightarrow> str \<Rightarrow> str list \<Rightarrow> uuid \<Rightarrow> ('z payment_db_scheme, unit) tx" where
  "lockAggregation org businessDate keys beneficiaryPartyId = pg_advisory_xact_lock org
     (''PAYMENT_AGG:'' @ businessDate @ '':'' @ join_with '','' (sort keys) @ '':'' @ beneficiaryPartyId)"

definition LIVE_STATES :: "str list" where
  "LIVE_STATES = [''SUBMITTED'', ''APPROVAL_PENDING'', ''APPROVED'', ''SCHEDULED'', ''EXECUTED'',
     ''ACCOUNTING_READY'', ''ACCOUNTING_POSTED'']"

definition matchingParticipants ::
  "'z payment_db_scheme \<Rightarrow> uuid \<Rightarrow> str \<Rightarrow> uuid \<Rightarrow> uuid \<Rightarrow> aggregation_participant list" where
  "matchingParticipants s org businessDate beneficiaryPartyId excludedPaymentId = map
     (\<lambda>d. \<lparr>
        np_paymentId = pd_id d,
        np_paymentNumber = pd_businessNumber d,
        np_paymentVersion = pd_version d,
        np_baseAmount = pd_totalBaseAmount d,
        np_baseCurrency = pd_baseCurrency d\<rparr>)
     (order_by pd_id (filter (\<lambda>d. pd_organizationId d = org
        \<and> pd_businessDate d = businessDate \<and> pd_beneficiaryPartyId d = beneficiaryPartyId
        \<and> pd_id d \<noteq> excludedPaymentId \<and> pd_state d \<in> set LIVE_STATES) (t_paymentDocuments s)))"

section \<open>The evidence of a submission\<close>

text \<open>Constraints of the aggregation tables that only the migration states.\<close>

definition aggregation_check :: "approval_aggregation_row \<Rightarrow> bool" where
  "aggregation_check r \<longleftrightarrow> gg_aggregationKeys r \<noteq> []
     \<and> set (gg_aggregationKeys r) \<subseteq> {''BENEFICIARY'', ''EXTERNAL_OBLIGATION''}
     \<and> (''BENEFICIARY'' \<in> set (gg_aggregationKeys r) \<longrightarrow> gg_beneficiaryPartyId r \<noteq> None)
     \<and> (''EXTERNAL_OBLIGATION'' \<in> set (gg_aggregationKeys r) \<longrightarrow> gg_externalObligationKey r \<noteq> None)"

definition snapshot_ref :: "'z payment_db_scheme \<Rightarrow> uuid \<Rightarrow> uuid \<Rightarrow> bool" where
  "snapshot_ref s org snapshotId \<longleftrightarrow>
     ref_ok ps_organizationId ps_id (t_paymentApprovalSnapshots s) org (Some snapshotId)"

definition aggregation_refs :: "'z payment_db_scheme \<Rightarrow> approval_aggregation_row \<Rightarrow> bool" where
  "aggregation_refs s r \<longleftrightarrow> snapshot_ref s (gg_organizationId r) (gg_approvalSnapshotId r)
     \<and> ref_ok py_organizationId py_id (t_parties s) (gg_organizationId r) (gg_beneficiaryPartyId r)"

definition snapshot_context_refs :: "'z payment_db_scheme \<Rightarrow> snapshot_context_row \<Rightarrow> bool" where
  "snapshot_context_refs s r \<longleftrightarrow> snapshot_ref s (px_organizationId r) (px_approvalSnapshotId r)
     \<and> ref_ok ap_organizationId ap_id (t_approvalPolicies s) (px_organizationId r) (Some (px_policyId r))"

definition snapshot_step_refs :: "'z payment_db_scheme \<Rightarrow> snapshot_step_row \<Rightarrow> bool" where
  "snapshot_step_refs s r \<longleftrightarrow> snapshot_ref s (pt_organizationId r) (pt_approvalSnapshotId r)"

definition participant_clash :: "aggregation_participant_row \<Rightarrow> aggregation_participant_row \<Rightarrow> bool" where
  "participant_clash r r' \<longleftrightarrow> aggregation_participant_clash r r'
     \<or> pp_organizationId r = pp_organizationId r' \<and> pp_approvalSnapshotId r = pp_approvalSnapshotId r'
       \<and> pp_versionBasis r = ''SUBMITTED_CONTENT'' \<and> pp_versionBasis r' = ''SUBMITTED_CONTENT''"

definition participant_refs :: "'z payment_db_scheme \<Rightarrow> aggregation_participant_row \<Rightarrow> bool" where
  "participant_refs s r \<longleftrightarrow> aggregation_participant_refs s r
     \<and> ref_ok gg_organizationId gg_approvalSnapshotId (t_paymentApprovalAggregations s)
         (pp_organizationId r) (Some (pp_approvalSnapshotId r))"

definition snapshot_row ::
  "uuid \<Rightarrow> approval_payment \<Rightarrow> uuid \<Rightarrow> int \<Rightarrow> str \<Rightarrow> instant \<Rightarrow> approval_snapshot_row" where
  "snapshot_row org payment snapshotId documentVersion amountBasis evaluatedAt = \<lparr>
     ps_id = snapshotId,
     ps_organizationId = org,
     ps_paymentDocumentId = yp_id payment,
     ps_documentVersion = documentVersion,
     ps_amountBasis = amountBasis,
     ps_baseCurrency = yp_baseCurrency payment,
     ps_evaluatedAt = evaluatedAt\<rparr>"

definition context_row :: "uuid \<Rightarrow> uuid \<Rightarrow> approval_context \<Rightarrow> snapshot_context_row" where
  "context_row org snapshotId c = \<lparr>
     px_organizationId = org,
     px_approvalSnapshotId = snapshotId,
     px_contextOrder = ax_order c,
     px_firstLineNumber = ax_firstLineNumber c,
     px_currency = ax_currency c,
     px_methodCategory = ax_methodCategory c,
     px_policyId = po_id (ax_policy c),
     px_policyCode = po_code (ax_policy c),
     px_policyName = po_name (ax_policy c),
     px_policyVersion = po_version (ax_policy c)\<rparr>"

definition step_row :: "uuid \<Rightarrow> uuid \<Rightarrow> composed_step \<Rightarrow> snapshot_step_row" where
  "step_row org snapshotId c = \<lparr>
     pt_id = co_id c,
     pt_organizationId = org,
     pt_approvalSnapshotId = snapshotId,
     pt_stepOrder = co_order c,
     pt_roleId = co_roleId c,
     pt_roleName = co_roleName c,
     pt_approverUserId = co_approverUserId c,
     pt_approverName = co_approverName c,
     pt_approvalsRequired = co_approvalsRequired c,
     pt_separationRules = co_separationRules c,
     pt_sourceContextOrders = co_sourceContextOrders c,
     pt_obligationKey = co_obligationKey c\<rparr>"

definition aggregation_row :: "uuid \<Rightarrow> uuid \<Rightarrow> aggregation_evidence \<Rightarrow> approval_aggregation_row" where
  "aggregation_row org snapshotId a = \<lparr>
     gg_organizationId = org,
     gg_approvalSnapshotId = snapshotId,
     gg_businessDate = ne_businessDate a,
     gg_aggregationKeys = ne_keys a,
     gg_beneficiaryPartyId = ne_beneficiaryPartyId a,
     gg_externalObligationKey = ne_externalObligationKey a\<rparr>"

definition participant_row ::
  "uuid \<Rightarrow> uuid \<Rightarrow> evidence_participant \<Rightarrow> str \<Rightarrow> aggregation_participant_row" where
  "participant_row org snapshotId p baseAmount = \<lparr>
     pp_organizationId = org,
     pp_approvalSnapshotId = snapshotId,
     pp_paymentDocumentId = np_paymentId p,
     pp_paymentNumber = np_paymentNumber p,
     pp_versionBasis = np_versionBasis p,
     pp_paymentVersion = np_paymentVersion p,
     pp_baseAmount = baseAmount,
     pp_baseCurrency = np_baseCurrency p\<rparr>"

definition insert_participant ::
  "uuid \<Rightarrow> uuid \<Rightarrow> evidence_participant \<Rightarrow> ('z payment_db_scheme, unit) tx" where
  "insert_participant org snapshotId p =
     tx_bind (tx_lift (pg_numeric 8 (np_baseAmount p))) (\<lambda>baseAmount.
       tx_insert aggregation_participant_check participant_clash participant_refs
         t_paymentApprovalAggregationParticipants t_paymentApprovalAggregationParticipants_update
         (participant_row org snapshotId p baseAmount))"

definition insert_aggregation ::
  "uuid \<Rightarrow> uuid \<Rightarrow> aggregation_evidence \<Rightarrow> ('z payment_db_scheme, unit) tx" where
  "insert_aggregation org snapshotId a =
     tx_then (tx_insert aggregation_check aggregation_clash aggregation_refs
       t_paymentApprovalAggregations t_paymentApprovalAggregations_update
       (aggregation_row org snapshotId a))
     (tx_then (tx_guard (ne_participants a \<noteq> [])
       (JsFault ''values() must be called with at least one value''))
     (tx_for (ne_participants a) (insert_participant org snapshotId)))"

definition insertSnapshot ::
  "uuid \<Rightarrow> approval_payment \<Rightarrow> uuid \<Rightarrow> int \<Rightarrow> str \<Rightarrow> instant \<Rightarrow> approval_context list
     \<Rightarrow> composed_step list \<Rightarrow> aggregation_evidence option \<Rightarrow> ('z payment_db_scheme, unit) tx" where
  "insertSnapshot org payment snapshotId documentVersion amountBasis evaluatedAt contexts steps aggregation =
     tx_bind (tx_lift (pg_numeric 8 amountBasis)) (\<lambda>basis.
     tx_then (tx_insert approval_snapshot_check approval_snapshot_clash approval_snapshot_refs
       t_paymentApprovalSnapshots t_paymentApprovalSnapshots_update
       (snapshot_row org payment snapshotId documentVersion basis evaluatedAt))
     (tx_then (tx_for contexts (\<lambda>c. tx_insert snapshot_context_check snapshot_context_clash
       snapshot_context_refs t_paymentApprovalSnapshotContexts t_paymentApprovalSnapshotContexts_update
       (context_row org snapshotId c)))
     (tx_then (tx_for steps (\<lambda>c. tx_insert snapshot_step_check snapshot_step_clash
       snapshot_step_refs t_paymentApprovalSnapshotSteps t_paymentApprovalSnapshotSteps_update
       (step_row org snapshotId c)))
     (case aggregation of None \<Rightarrow> tx_return ()
      | Some a \<Rightarrow> insert_aggregation org snapshotId a))))"

definition completeSubmission ::
  "env \<Rightarrow> uuid \<Rightarrow> uuid \<Rightarrow> uuid \<Rightarrow> str \<Rightarrow> ('z payment_db_scheme, unit) tx" where
  "completeSubmission env org paymentId snapshotId state =
     tx_bind (newDate env) (\<lambda>now.
       tx_update payment_document_check t_paymentDocuments t_paymentDocuments_update
         (is_document org paymentId)
         (\<lambda>d. d\<lparr>pd_state := state, pd_workflowState := state,
            pd_currentApprovalSnapshotId := Some snapshotId, pd_version := pd_version d + 1,
            pd_updatedAt := now\<rparr>))"

section \<open>Approval actions\<close>

record current_step = composed_step +
  co_approvalsRecorded :: nat

definition approved_actors :: "approval_action_row list \<Rightarrow> uuid \<Rightarrow> uuid list" where
  "approved_actors actions stepId = dedup (map pc_actorUserId
     (filter (\<lambda>a. pc_approvalSnapshotStepId a = Some stepId \<and> pc_action a = ''APPROVED'') actions))"

definition snapshot_actions :: "'z payment_db_scheme \<Rightarrow> uuid \<Rightarrow> uuid \<Rightarrow> approval_action_row list" where
  "snapshot_actions s org snapshotId = filter (\<lambda>a. pc_organizationId a = org
     \<and> pc_approvalSnapshotId a = snapshotId) (t_paymentApprovalActions s)"

definition snapshot_steps :: "'z payment_db_scheme \<Rightarrow> uuid \<Rightarrow> uuid \<Rightarrow> snapshot_step_row list" where
  "snapshot_steps s org snapshotId = order_by pt_stepOrder (filter (\<lambda>t. pt_organizationId t = org
     \<and> pt_approvalSnapshotId t = snapshotId) (t_paymentApprovalSnapshotSteps s))"

definition currentSteps :: "'z payment_db_scheme \<Rightarrow> uuid \<Rightarrow> uuid \<Rightarrow> current_step list" where
  "currentSteps s org snapshotId = map (\<lambda>t. \<lparr>
       co_id = pt_id t,
       co_order = pt_stepOrder t,
       co_roleId = pt_roleId t,
       co_roleName = pt_roleName t,
       co_approverUserId = pt_approverUserId t,
       co_approverName = pt_approverName t,
       co_approvalsRequired = pt_approvalsRequired t,
       co_separationRules = pt_separationRules t,
       co_sourceContextOrders = pt_sourceContextOrders t,
       co_obligationKey = pt_obligationKey t,
       co_approvalsRecorded = length (approved_actors (snapshot_actions s org snapshotId) (pt_id t))\<rparr>)
     (snapshot_steps s org snapshotId)"

definition action_row ::
  "env \<Rightarrow> uuid \<Rightarrow> uuid \<Rightarrow> uuid \<Rightarrow> current_step option \<Rightarrow> uuid \<Rightarrow> uuid option \<Rightarrow> str \<Rightarrow> str option
     \<Rightarrow> approval_action_row" where
  "action_row env i org snapshotId step actorUserId delegatedFromUserId action reason = \<lparr>
     pc_id = i,
     pc_organizationId = org,
     pc_approvalSnapshotId = snapshotId,
     pc_approvalSnapshotStepId = map_option co_id step,
     pc_stepOrder = map_option co_order step,
     pc_actorUserId = actorUserId,
     pc_delegatedFromUserId = delegatedFromUserId,
     pc_action = action,
     pc_reason = reason,
     pc_actedAt = env_now env\<rparr>"

definition insertAction ::
  "env \<Rightarrow> uuid \<Rightarrow> uuid \<Rightarrow> current_step option \<Rightarrow> uuid \<Rightarrow> uuid option \<Rightarrow> str \<Rightarrow> str option
     \<Rightarrow> ('z payment_db_scheme, unit) tx" where
  "insertAction env org snapshotId step actorUserId delegatedFromUserId action reason =
     tx_bind (randomUUID env) (\<lambda>i.
       tx_insert approval_action_check approval_action_clash approval_action_refs
         t_paymentApprovalActions t_paymentApprovalActions_update
         (action_row env i org snapshotId step actorUserId delegatedFromUserId action reason))"

definition completeAction ::
  "env \<Rightarrow> uuid \<Rightarrow> uuid \<Rightarrow> str \<Rightarrow> ('z payment_db_scheme, unit) tx" where
  "completeAction env org paymentId state =
     tx_bind (newDate env) (\<lambda>now.
       tx_update payment_document_check t_paymentDocuments t_paymentDocuments_update
         (is_document org paymentId)
         (\<lambda>d. d\<lparr>pd_state := state, pd_workflowState := state,
            pd_currentApprovalSnapshotId :=
              (if state = ''DRAFT'' then None else pd_currentApprovalSnapshotId d),
            pd_version := pd_version d + 1, pd_updatedAt := now\<rparr>))"

definition aggregation :: "'z payment_db_scheme \<Rightarrow> uuid \<Rightarrow> uuid \<Rightarrow> aggregation_evidence option" where
  "aggregation s org snapshotId = map_option (\<lambda>row. \<lparr>
       ne_businessDate = gg_businessDate row,
       ne_keys = gg_aggregationKeys row,
       ne_beneficiaryPartyId = gg_beneficiaryPartyId row,
       ne_externalObligationKey = gg_externalObligationKey row,
       ne_participants = map (\<lambda>p. \<lparr>
         np_paymentId = pp_paymentDocumentId p,
         np_paymentNumber = pp_paymentNumber p,
         np_paymentVersion = pp_paymentVersion p,
         np_baseAmount = pp_baseAmount p,
         np_baseCurrency = pp_baseCurrency p,
         np_versionBasis = pp_versionBasis p\<rparr>)
         (order_by pp_paymentDocumentId (filter (\<lambda>p. pp_organizationId p = org
           \<and> pp_approvalSnapshotId p = snapshotId) (t_paymentApprovalAggregationParticipants s)))\<rparr>)
     (find (\<lambda>g. gg_organizationId g = org \<and> gg_approvalSnapshotId g = snapshotId)
       (t_paymentApprovalAggregations s))"

end
