(* ===== verification/Approval_Views.thy ===== *)
theory Approval_Views
  imports Approval_Repository
begin

text \<open>
  The approval snapshot as a payment view shows it (\<open>snapshotViewsForPayments\<close> of
  \<open>payments/payment-approval.repository.ts\<close>): the policy contexts, the steps with their progress,
  the actions in time order and the aggregation. A label read by a non-null assertion is
  guaranteed by a foreign key.
\<close>

definition action_view :: "'z payment_db_scheme \<Rightarrow> uuid \<Rightarrow> approval_action_row \<Rightarrow> approval_action_view" where
  "action_view s org a = \<lparr>
     av_id = pc_id a,
     av_approvalSnapshotId = pc_approvalSnapshotId a,
     av_approvalSnapshotStepId = pc_approvalSnapshotStepId a,
     av_stepOrder = pc_stepOrder a,
     av_actorUserId = pc_actorUserId a,
     av_actor = \<lparr>sr_id = pc_actorUserId a, sr_label = text_or_empty (user_label s org (pc_actorUserId a))\<rparr>,
     av_delegatedFromUserId = pc_delegatedFromUserId a,
     av_delegatedFrom = optional_ref (pc_delegatedFromUserId a) (user_label s org),
     av_action = pc_action a,
     av_reason = pc_reason a,
     av_actedAt = pc_actedAt a\<rparr>"

text \<open>
  The state of a step from its own actions; the first step that is still open is the current
  one, the later ones wait.
\<close>

definition step_state :: "approval_action_row list \<Rightarrow> snapshot_step_row \<Rightarrow> str" where
  "step_state actions t =
     (let own = filter (\<lambda>a. pc_approvalSnapshotStepId a = Some (pt_id t)) actions in
      if \<exists>a \<in> set own. pc_action a = ''RETURNED'' then ''RETURNED''
      else if \<exists>a \<in> set own. pc_action a = ''REJECTED'' then ''REJECTED''
      else if pt_approvalsRequired t \<le> int (length (approved_actors actions (pt_id t))) then ''APPROVED''
      else ''OPEN'')"

definition step_view :: "approval_action_row list \<Rightarrow> snapshot_step_row \<Rightarrow> str \<Rightarrow> snapshot_step_view" where
  "step_view actions t state = \<lparr>
     tv_order = pt_stepOrder t,
     tv_roleId = pt_roleId t,
     tv_role = map_option (\<lambda>i. \<lparr>sr_id = i, sr_label = text_or_empty (pt_roleName t)\<rparr>) (pt_roleId t),
     tv_approverUserId = pt_approverUserId t,
     tv_approver = map_option (\<lambda>i. \<lparr>sr_id = i, sr_label = text_or_empty (pt_approverName t)\<rparr>)
       (pt_approverUserId t),
     tv_approvalsRequired = pt_approvalsRequired t,
     tv_approvalsRecorded = length (approved_actors actions (pt_id t)),
     tv_separationRules = pt_separationRules t,
     tv_sourceContextOrders = pt_sourceContextOrders t,
     tv_state = state\<rparr>"

fun step_views :: "approval_action_row list \<Rightarrow> bool \<Rightarrow> snapshot_step_row list \<Rightarrow> snapshot_step_view list" where
  "step_views actions currentAssigned [] = []"
| "step_views actions currentAssigned (t # ts) =
     (if step_state actions t = ''OPEN''
      then step_view actions t (if currentAssigned then ''WAITING'' else ''CURRENT'') # step_views actions True ts
      else step_view actions t (step_state actions t) # step_views actions currentAssigned ts)"

definition policy_context_views :: "'z payment_db_scheme \<Rightarrow> uuid \<Rightarrow> uuid \<Rightarrow> policy_context_view list" where
  "policy_context_views s org snapshotId = map (\<lambda>c. \<lparr>
       xv_order = px_contextOrder c,
       xv_firstLineNumber = px_firstLineNumber c,
       xv_currency = px_currency c,
       xv_methodCategory = px_methodCategory c,
       xv_policyId = px_policyId c,
       xv_policy = \<lparr>sr_id = px_policyId c, sr_label = px_policyName c\<rparr>,
       xv_policyVersion = px_policyVersion c\<rparr>)
     (order_by px_contextOrder (filter (\<lambda>c. px_organizationId c = org
       \<and> px_approvalSnapshotId c = snapshotId) (t_paymentApprovalSnapshotContexts s)))"

definition aggregation_view_of :: "aggregation_evidence \<Rightarrow> aggregation_view" where
  "aggregation_view_of a = \<lparr>
     gv_businessDate = ne_businessDate a,
     gv_keys = ne_keys a,
     gv_participants = map (\<lambda>p. \<lparr>
       wv_paymentId = np_paymentId p,
       wv_payment = \<lparr>sr_id = np_paymentId p, sr_label = np_paymentNumber p\<rparr>,
       wv_versionBasis = np_versionBasis p,
       wv_paymentVersion = np_paymentVersion p,
       wv_baseAmount = \<lparr>mo_amount = np_baseAmount p, mo_currency = np_baseCurrency p\<rparr>\<rparr>)
       (ne_participants a)\<rparr>"

definition snapshot_state :: "approval_action_row list \<Rightarrow> snapshot_step_view list \<Rightarrow> str" where
  "snapshot_state actions steps =
     (if \<exists>a \<in> set actions. pc_action a = ''RETURNED'' then ''RETURNED''
      else if \<exists>a \<in> set actions. pc_action a = ''REJECTED'' then ''REJECTED''
      else if list_all (\<lambda>t. tv_state t = ''APPROVED'') steps then ''APPROVED'' else ''PENDING'')"

definition snapshot_view :: "'z payment_db_scheme \<Rightarrow> uuid \<Rightarrow> approval_snapshot_row \<Rightarrow> approval_snapshot_view" where
  "snapshot_view s org n =
     (let actions = order_by pc_actedAt (order_by pc_id (snapshot_actions s org (ps_id n)));
          steps = step_views actions False (snapshot_steps s org (ps_id n))
      in \<lparr>
     sv_id = ps_id n,
     sv_documentVersion = ps_documentVersion n,
     sv_amountBasis = \<lparr>mo_amount = ps_amountBasis n, mo_currency = ps_baseCurrency n\<rparr>,
     sv_evaluatedAt = ps_evaluatedAt n,
     sv_policyContexts = policy_context_views s org (ps_id n),
     sv_steps = steps,
     sv_actions = map (action_view s org) actions,
     sv_paymentAggregation = map_option aggregation_view_of (aggregation s org (ps_id n)),
     sv_state = snapshot_state actions steps\<rparr>)"

definition snapshotViewsForPayments ::
  "'z payment_db_scheme \<Rightarrow> uuid \<Rightarrow> uuid list \<Rightarrow> (uuid \<times> approval_snapshot_view) list" where
  "snapshotViewsForPayments s org paymentIds = concat (map
     (\<lambda>d. case pd_currentApprovalSnapshotId d of None \<Rightarrow> []
        | Some i \<Rightarrow> (case find (\<lambda>n. ps_organizationId n = org \<and> ps_id n = i)
              (t_paymentApprovalSnapshots s) of
            None \<Rightarrow> []
          | Some n \<Rightarrow> [(pd_id d, snapshot_view s org n)]))
     (filter (\<lambda>d. pd_organizationId d = org \<and> pd_id d \<in> set paymentIds) (t_paymentDocuments s)))"

end
