(* ===== verification/Payment_Drafts.thy ===== *)
theory Payment_Drafts
  imports Payment_Facts Payment_Execution
begin

text \<open>
  \<open>payments/payment.service.ts\<close>: payment requests and payment drafts. \<open>createRequest\<close> and
  \<open>create\<close> check a body against the reference data, derive the base amount of every line, and
  write the draft under an idempotency key; \<open>revalidateSubmission\<close> repeats the derivation when
  a draft is submitted. Checks are validation results in the source's order.
\<close>

section \<open>Helpers\<close>

text \<open>A sequence of checks: the first that fails decides.\<close>

fun res_checks :: "(bool \<times> str) list \<Rightarrow> unit res" where
  "res_checks [] = Inr ()"
| "res_checks ((ok, message) # rest) = (if ok then res_checks rest else Inl (Message message))"

text \<open>\<open>new Map(rows.map((row) => [key(row), row])).get(k)\<close>: the last row of a key stays.\<close>

definition map_get :: "('r \<Rightarrow> str) \<Rightarrow> 'r list \<Rightarrow> str \<Rightarrow> 'r option" where
  "map_get key rows k = find (\<lambda>r. key r = k) (rev rows)"

fun containsNull :: "json \<Rightarrow> bool" where
  "containsNull JNull \<longleftrightarrow> True"
| "containsNull (JArray vs) \<longleftrightarrow> (\<exists>v \<in> set vs. containsNull v)"
| "containsNull (JObject es) \<longleftrightarrow> (\<exists>e \<in> set es. containsNull (snd e))"
| "containsNull _ \<longleftrightarrow> False"

definition draft_problems :: "(str \<times> str \<times> nat) list" where
  "draft_problems = [
     (''IDEMPOTENCY_CONFLICT'', ''TRS-GEN-007'', 409),
     (''SCOPE_DENIED'', ''TRS-GEN-003'', 403),
     (''RESOURCE_HIDDEN'', ''TRS-GEN-003'', 403),
     (''INACTIVE_REFERENCE'', ''TRS-MST-001'', 409),
     (''METHOD_INVALID'', ''TRS-MST-004'', 422),
     (''RATE_INVALID'', ''TRS-MST-003'', 422),
     (''PAYMENT_INCOMPLETE'', ''TRS-PAY-002'', 422),
     (''VALIDATION'', ''TRS-GEN-001'', 422)]"

definition draft_problem :: "exn \<Rightarrow> exn" where
  "draft_problem e =
     (case e of
        Message m \<Rightarrow> (case map_of draft_problems m of
            Some (code, status) \<Rightarrow> Problem code status None | None \<Rightarrow> e)
      | PgError code \<Rightarrow>
          if code = ''23503'' then Problem ''TRS-GEN-003'' 403 None
          else if code = ''23505'' then Problem ''TRS-GEN-005'' 409 None
          else if code \<in> {''22003'', ''22P02'', ''23514''} then Problem ''TRS-GEN-001'' 422 None
          else e
      | _ \<Rightarrow> e)"

definition check_key :: "str \<Rightarrow> unit res" where
  "check_key rawKey = res_guard (8 \<le> length rawKey \<and> length rawKey \<le> 128)
     (validation ''Idempotency-Key must contain 8 through 128 characters.'')"

definition requiredRequestId :: "str \<Rightarrow> unit res" where
  "requiredRequestId v = res_guard (v \<noteq> [] \<and> length v \<le> 128)
     (validation ''X-Request-Id must contain 1 through 128 characters.'')"

section \<open>Checks of a body\<close>

definition validateRequest :: "payment_request_create \<Rightarrow> unit res" where
  "validateRequest dto =
     res_bind (res_guard (\<not> containsNull (qc_body dto))
       (validation ''Optional Payment Request fields must be omitted, not null.'')) (\<lambda>_.
     res_guard (trim (qc_purpose dto) \<noteq> [])
       (validation ''Payment Request purpose must contain visible characters.''))"

definition validatePayment :: "payment_create \<Rightarrow> unit res" where
  "validatePayment dto =
     res_bind (res_guard (\<not> containsNull (cr_body dto))
       (validation ''Optional Payment fields must be omitted, not null.'')) (\<lambda>_.
     res_bind (res_guard (trim (cr_purpose dto) \<noteq> [])
       (validation ''Payment purpose must contain visible characters.'')) (\<lambda>_.
     res_guard (distinct (map li_lineNumber (cr_lines dto)))
       (validation ''Payment line numbers must be unique.'')))"

definition evidence_key :: "uuid \<Rightarrow> str \<Rightarrow> str" where
  "evidence_key i contentDigest = i @ '':'' @ contentDigest"

fun validateEvidence :: "attachment_ref list \<Rightarrow> attachment_fact list \<Rightarrow> unit res" where
  "validateEvidence [] facts = Inr ()"
| "validateEvidence (input # inputs) facts =
     (case map_get (\<lambda>f. evidence_key (fa_id f) (fa_contentDigest f)) facts
          (evidence_key (ar_id input) (ar_contentDigest input)) of
        None \<Rightarrow> Inl (Message ''PAYMENT_INCOMPLETE'')
      | Some evidence \<Rightarrow> if fa_state evidence \<noteq> ''ACTIVE'' then Inl (Message ''INACTIVE_REFERENCE'')
          else validateEvidence inputs facts)"

definition active_or_absent :: "str option \<Rightarrow> bool" where
  "active_or_absent state \<longleftrightarrow> (case state of None \<Rightarrow> True | Some t \<Rightarrow> t = ''ACTIVE'')"

section \<open>Payment requests\<close>

definition validateRequestFacts ::
  "payment_request_create \<Rightarrow> request_facts \<Rightarrow> payment_context res" where
  "validateRequestFacts dto facts =
     (case (fq_organization facts, fq_requester facts, fq_beneficiary facts, fq_currency facts) of
        (Some _, Some requester, Some beneficiary, Some currency) \<Rightarrow>
          res_bind (res_checks [
            (fr_state requester = ''ACTIVE'' \<and> fr_state beneficiary = ''ACTIVE''
               \<and> fc_state currency = ''ACTIVE'', ''INACTIVE_REFERENCE''),
            (decimalPlaces (mo_amount (qc_requestedMoney dto)) \<le> fc_decimalPlaces currency, ''VALIDATION''),
            (qc_branchId dto = None \<or> fq_branch facts \<noteq> None, ''RESOURCE_HIDDEN''),
            (active_or_absent (map_option fr_state (fq_branch facts)), ''INACTIVE_REFERENCE''),
            (qc_treasuryUnitId dto = None \<or> fq_treasuryUnit facts \<noteq> None, ''RESOURCE_HIDDEN''),
            (active_or_absent (map_option fu_state (fq_treasuryUnit facts)), ''INACTIVE_REFERENCE''),
            (qc_branchId dto = None \<or> (case fq_treasuryUnit facts of None \<Rightarrow> True
               | Some u \<Rightarrow> fu_branchId u = qc_branchId dto), ''VALIDATION'')]) (\<lambda>_.
          res_bind (validateEvidence (listed (qc_attachments dto)) (fq_attachments facts)) (\<lambda>_.
          Inr \<lparr>
            pctx_branchId = coalesce (qc_branchId dto) (Option.bind (fq_treasuryUnit facts) fu_branchId),
            pctx_treasuryUnitId = qc_treasuryUnitId dto,
            pctx_cashboxIds = [],
            pctx_bankAccountIds = [],
            pctx_currencies = [mo_currency (qc_requestedMoney dto)],
            pctx_methodCategories = [],
            pctx_documentType = ''PAYMENT_REQUEST'',
            pctx_amount = mo_amount (qc_requestedMoney dto),
            pctx_amountCurrency = mo_currency (qc_requestedMoney dto)\<rparr>))
      | _ \<Rightarrow> Inl (Message ''RESOURCE_HIDDEN''))"

definition attachment_ref_of :: "evidence_ref \<Rightarrow> attachment_ref" where
  "attachment_ref_of e = \<lparr>ar_id = ev_id e, ar_contentDigest = ev_contentDigest e, ar_purpose = ev_purpose e\<rparr>"

definition requestDto :: "payment_request_view \<Rightarrow> payment_request_create" where
  "requestDto view = \<lparr>
     qc_beneficiaryPartyId = qv_beneficiaryPartyId view,
     qc_requestedMoney = qv_requestedMoney view,
     qc_branchId = qv_branchId view,
     qc_treasuryUnitId = qv_treasuryUnitId view,
     qc_dueDate = qv_dueDate view,
     qc_purpose = qv_purpose view,
     qc_contractRef = qv_contractRef view,
     qc_invoiceRef = qv_invoiceRef view,
     qc_accountingDimensions = qv_accountingDimensions view,
     qc_attachments = map_option (map attachment_ref_of) (qv_attachments view),
     qc_body = JUndefined\<rparr>"

definition assertRequestAuthorized ::
  "env \<Rightarrow> uuid \<Rightarrow> uuid \<Rightarrow> payment_context \<Rightarrow> ('z payment_db_scheme, unit) tx" where
  "assertRequestAuthorized env org actorUserId ctx =
     tx_bind (tx_read (\<lambda>s. canCreatePaymentRequest env s org actorUserId ctx)) (\<lambda>allowed.
       tx_guard allowed (Message ''SCOPE_DENIED''))"

definition request_checks ::
  "env \<Rightarrow> uuid \<Rightarrow> uuid \<Rightarrow> payment_request_create \<Rightarrow> ('z payment_db_scheme, unit) tx" where
  "request_checks env org actorUserId dto =
     tx_bind (tx_read (\<lambda>s. requestFacts s org actorUserId dto)) (\<lambda>facts.
     tx_bind (tx_lift (validateRequestFacts dto facts)) (\<lambda>ctx.
       assertRequestAuthorized env org actorUserId ctx))"

definition draft_scope :: "str \<Rightarrow> uuid \<Rightarrow> uuid \<Rightarrow> str \<Rightarrow> idempotency_key" where
  "draft_scope operation org actorUserId key = \<lparr>
     ik_organizationId = org, ik_scope = operation @ '':'' @ actorUserId, ik_key = key\<rparr>"

definition createRequest_tx ::
  "env \<Rightarrow> uuid \<Rightarrow> uuid \<Rightarrow> payment_request_create \<Rightarrow> str \<Rightarrow> str
     \<Rightarrow> ('z payment_db_scheme, payment_request_view) tx" where
  "createRequest_tx env org actorUserId dto key requestDigest =
     (let k = draft_scope ''createPaymentRequest'' org actorUserId key in
      tx_then (acquireIdempotencyLock k)
      (tx_bind (tx_read (findIdempotency k)) (\<lambda>replay.
      (case replay of
         Some r \<Rightarrow>
           (case (re_requestDigest r = requestDigest, re_response r) of
              (True, Some (RequestResponse view)) \<Rightarrow>
                tx_then (request_checks env org actorUserId (requestDto view)) (tx_return view)
            | _ \<Rightarrow> tx_throw (Message ''IDEMPOTENCY_CONFLICT''))
       | None \<Rightarrow>
           tx_then (insertIdempotency env k requestDigest)
           (tx_then (request_checks env org actorUserId dto)
           (tx_bind (randomUUID env) (\<lambda>i.
           (tx_bind (nextRequestNumber org) (\<lambda>businessNumber.
           (tx_bind (insertRequest env i org businessNumber actorUserId dto) (\<lambda>response.
           (tx_then (saveIdempotency k (RequestResponse response) 201)
             (tx_return response)))))))))))))"

definition createRequest ::
  "env \<Rightarrow> uuid \<Rightarrow> uuid \<Rightarrow> payment_request_create \<Rightarrow> str \<Rightarrow> str \<Rightarrow> 'z payment_db_scheme
     \<Rightarrow> payment_request_view res \<times> 'z payment_db_scheme" where
  "createRequest env org actorUserId dto rawKey rid s =
     (case res_bind (validateRequest dto) (\<lambda>_. res_bind (requiredRequestId rid) (\<lambda>_.
          res_bind (check_key rawKey) (\<lambda>_. commandDigest env ''createPaymentRequest''
            (JObject [(''actorUserId'', JString actorUserId), (''body'', qc_body dto)])))) of
        Inl e \<Rightarrow> (Inl e, s)
      | Inr requestDigest \<Rightarrow> rethrow draft_problem
          (transaction (committed (createRequest_tx env org actorUserId dto rawKey requestDigest)) s))"

section \<open>The method of a line\<close>

definition reference_present :: "payment_line_input \<Rightarrow> str \<Rightarrow> bool" where
  "reference_present line reference \<longleftrightarrow>
     reference = ''CASHBOX'' \<and> li_cashboxId line \<noteq> None
     \<or> reference = ''BANK_ACCOUNT'' \<and> li_bankAccountId line \<noteq> None
     \<or> reference = ''TRACKING_NUMBER'' \<and> (case li_trackingNumber line of None \<Rightarrow> False | Some t \<Rightarrow> trim t \<noteq> [])
     \<or> reference = ''DUE_DATE'' \<and> li_dueDate line \<noteq> None
     \<or> reference = ''PARTY'' \<and> li_beneficiaryPartyId line \<noteq> []
     \<or> reference = ''EVIDENCE'' \<and> listed (li_attachments line) \<noteq> []"

definition source_count :: "payment_line_input \<Rightarrow> nat" where
  "source_count line = length (option_list (li_cashboxId line) @ option_list (li_bankAccountId line))"

definition method_matches_source :: "payment_line_input \<Rightarrow> method_fact \<Rightarrow> bool" where
  "method_matches_source line method \<longleftrightarrow>
     (let cashRequired = fm_category method = ''CASH'';
          bankRequired = fm_category method \<in> set BANK_METHODS
      in \<not> (cashRequired \<and> (source_count line \<noteq> 1 \<or> li_cashboxId line = None)
            \<or> bankRequired \<and> (source_count line \<noteq> 1 \<or> li_bankAccountId line = None)
            \<or> \<not> cashRequired \<and> \<not> bankRequired \<and> 0 < source_count line
            \<or> fm_category method \<in> {''POS'', ''GATEWAY''}
            \<or> fm_category method = ''OTHER_CONTROLLED''
                \<and> (fm_mappingCount method \<noteq> 5 \<or> \<not> fm_requiresApproval method)))"

definition check_cashbox :: "payment_create \<Rightarrow> payment_line_input \<Rightarrow> create_facts \<Rightarrow> unit res" where
  "check_cashbox dto line facts =
     (case li_cashboxId line of None \<Rightarrow> Inr ()
      | Some i \<Rightarrow> (case find (\<lambda>c. fx_id c = i) (fp_cashboxes facts) of
          None \<Rightarrow> Inl (Message ''RESOURCE_HIDDEN'')
        | Some cashbox \<Rightarrow> res_checks [
            (fx_state cashbox = ''ACTIVE'', ''INACTIVE_REFERENCE''),
            (fx_canPay cashbox \<and> fx_treasuryUnitId cashbox = cr_treasuryUnitId dto
               \<and> mo_currency (li_money line) \<in> set (fx_currencies cashbox), ''METHOD_INVALID'')]))"

definition check_account :: "payment_create \<Rightarrow> payment_line_input \<Rightarrow> create_facts \<Rightarrow> unit res" where
  "check_account dto line facts =
     (case li_bankAccountId line of None \<Rightarrow> Inr ()
      | Some i \<Rightarrow> (case find (\<lambda>c. fb_id c = i) (fp_bankAccounts facts) of
          None \<Rightarrow> Inl (Message ''RESOURCE_HIDDEN'')
        | Some account \<Rightarrow> res_checks [
            (fb_state account = ''ACTIVE'', ''INACTIVE_REFERENCE''),
            (fb_canPay account \<and> fb_currency account = mo_currency (li_money line)
               \<and> (case fb_treasuryUnitId account of None \<Rightarrow> True
                  | Some u \<Rightarrow> u = cr_treasuryUnitId dto), ''METHOD_INVALID'')]))"

definition validateMethod ::
  "payment_create \<Rightarrow> payment_line_input \<Rightarrow> method_fact \<Rightarrow> create_facts \<Rightarrow> unit res" where
  "validateMethod dto line method facts =
     (let currency = mo_currency (li_money line) in
      res_bind (res_checks [
        (fm_state method = ''ACTIVE'', ''INACTIVE_REFERENCE''),
        (fm_direction method \<in> {''PAYMENT'', ''BOTH''}, ''METHOD_INVALID''),
        (currency \<in> set (fm_allowedCurrencies method), ''METHOD_INVALID''),
        ((case map_of (fm_amountLimits method) currency of None \<Rightarrow> True
           | Some limit \<Rightarrow> compareDecimal (mo_amount (li_money line)) limit \<le> 0), ''METHOD_INVALID''),
        (fm_category method \<noteq> ''CHEQUE'', ''PAYMENT_INCOMPLETE''),
        (method_matches_source line method, ''METHOD_INVALID''),
        (list_all (reference_present line) (fm_requiredReferences method), ''PAYMENT_INCOMPLETE'')]) (\<lambda>_.
      res_bind (check_cashbox dto line facts) (\<lambda>_.
        check_account dto line facts)))"

section \<open>Deriving the base amounts\<close>

definition latest_rates :: "rate_fact list \<Rightarrow> rate_fact list" where
  "latest_rates rates =
     (case rates of [] \<Rightarrow> []
      | r # rs \<Rightarrow> (let latestAt = fold (\<lambda>x latest. max latest (ft_validAt x)) rs (ft_validAt r)
          in filter (\<lambda>x. ft_validAt x = latestAt) rates))"

definition tableRate :: "str \<Rightarrow> str \<Rightarrow> str \<Rightarrow> nat \<Rightarrow> create_facts \<Rightarrow> line_rate res" where
  "tableRate sourceCurrency targetCurrency amount targetScale facts =
     (case latest_rates (filter (\<lambda>r. ft_sourceCurrency r = sourceCurrency
          \<and> ft_targetCurrency r = targetCurrency) (fp_rates facts)) of
        [row] \<Rightarrow> Inr \<lparr>
          lr_sourceCurrency = sourceCurrency,
          lr_targetCurrency = targetCurrency,
          lr_rate = ft_rate row,
          lr_rateType = ft_rateType row,
          lr_rateSource = ''TABLE'',
          lr_ratedAt = ft_validAt row,
          lr_rateRecordId = Some (ft_id row),
          lr_roundingDifference = dt_roundingDifference (deriveTarget amount (ft_rate row) targetScale)\<rparr>
      | _ \<Rightarrow> Inl (Message ''RATE_INVALID''))"

definition identity_rate :: "str \<Rightarrow> instant \<Rightarrow> line_rate" where
  "identity_rate baseCurrency commandAt = \<lparr>
     lr_sourceCurrency = baseCurrency,
     lr_targetCurrency = baseCurrency,
     lr_rate = ''1'',
     lr_rateType = ''IDENTITY'',
     lr_rateSource = ''IDENTITY'',
     lr_ratedAt = commandAt,
     lr_rateRecordId = None,
     lr_roundingDifference = ''0''\<rparr>"

text \<open>One line: its method, its rate, its base amount and that amount in units of the base currency.\<close>

definition line_derivation ::
  "payment_create \<Rightarrow> create_facts \<Rightarrow> nat \<Rightarrow> instant \<Rightarrow> payment_line_input
     \<Rightarrow> (method_fact \<times> line_rate \<times> str \<times> int) res" where
  "line_derivation dto facts baseScale commandAt line =
     (case (find (\<lambda>m. fm_id m = li_methodId line) (fp_methods facts),
            map_get fc_code (fp_currencies facts) (mo_currency (li_money line))) of
        (Some method, Some source) \<Rightarrow>
          res_bind (validateMethod dto line method facts) (\<lambda>_.
          res_bind (res_checks [(decimalPlaces (mo_amount (li_money line)) \<le> fc_decimalPlaces source,
            ''VALIDATION'')]) (\<lambda>_.
          res_bind (if mo_currency (li_money line) = cr_baseCurrency dto
              then Inr (identity_rate (cr_baseCurrency dto) commandAt)
              else tableRate (mo_currency (li_money line)) (cr_baseCurrency dto)
                (mo_amount (li_money line)) baseScale facts) (\<lambda>rate.
          (let baseAmount = (if lr_rateSource rate = ''IDENTITY'' then mo_amount (li_money line)
               else dt_targetAmount (deriveTarget (mo_amount (li_money line)) (lr_rate rate) baseScale))
           in res_bind (scaled baseAmount baseScale) (\<lambda>units.
             Inr (method, rate, baseAmount, units))))))
      | _ \<Rightarrow> Inl (JsFault ''Cannot read properties of undefined''))"

text \<open>The checks before the lines; the result is the scale of the base currency.\<close>

definition derive_checks :: "payment_create \<Rightarrow> create_facts \<Rightarrow> nat res" where
  "derive_checks dto facts =
     (case (fp_organization facts, fp_beneficiary facts, fp_creator facts, fp_treasuryUnit facts) of
        (Some (_, _, baseCurrency), Some beneficiary, Some creator, Some unit) \<Rightarrow>
          (let currency = map_get fc_code (fp_currencies facts) in
          res_bind (res_checks [
            (baseCurrency = cr_baseCurrency dto, ''METHOD_INVALID''),
            (fr_state beneficiary = ''ACTIVE'' \<and> fr_state creator = ''ACTIVE'' \<and> fu_state unit = ''ACTIVE'',
              ''INACTIVE_REFERENCE''),
            (cr_branchId dto = None \<or> fp_branch facts \<noteq> None, ''RESOURCE_HIDDEN''),
            (active_or_absent (map_option fr_state (fp_branch facts)), ''INACTIVE_REFERENCE''),
            (cr_branchId dto = None \<or> fu_branchId unit = cr_branchId dto, ''VALIDATION''),
            (list_all (\<lambda>c. currency c \<noteq> None) (line_currencies dto), ''RESOURCE_HIDDEN''),
            (list_all (\<lambda>c. map_option fc_state (currency c) = Some ''ACTIVE'') (line_currencies dto),
              ''INACTIVE_REFERENCE''),
            (map_option fc_baseCurrency (currency (cr_baseCurrency dto)) = Some True, ''METHOD_INVALID''),
            (length (fp_parties facts) = length (line_parties dto), ''RESOURCE_HIDDEN''),
            (list_all (\<lambda>p. fr_state p = ''ACTIVE'') (fp_parties facts), ''INACTIVE_REFERENCE''),
            (length (fp_methods facts) = length (line_methods dto), ''RESOURCE_HIDDEN'')]) (\<lambda>_.
          res_bind (validateEvidence (concat (map (listed \<circ> li_attachments) (cr_lines dto)))
            (fp_attachments facts)) (\<lambda>_.
          (case currency (cr_baseCurrency dto) of
             None \<Rightarrow> Inl (JsFault ''Cannot read properties of undefined'')
           | Some base \<Rightarrow> Inr (fc_decimalPlaces base)))))
      | _ \<Rightarrow> Inl (Message ''RESOURCE_HIDDEN''))"

definition derive ::
  "env \<Rightarrow> payment_create \<Rightarrow> create_facts \<Rightarrow> instant
     \<Rightarrow> ('z payment_db_scheme, derived_line list \<times> str) tx" where
  "derive env dto facts commandAt =
     tx_bind (tx_lift (derive_checks dto facts)) (\<lambda>baseScale.
     tx_bind (tx_map (\<lambda>line.
         tx_bind (tx_lift (line_derivation dto facts baseScale commandAt line)) (\<lambda>d.
         tx_bind (randomUUID env) (\<lambda>i.
         (case d of (method, rate, baseAmount, units) \<Rightarrow> tx_return
           (\<lparr>dl_id = i, dl_input = line, dl_method = method, dl_baseAmount = baseAmount,
             dl_rate = rate\<rparr>, units))))) (cr_lines dto)) (\<lambda>lines.
       tx_return (map fst lines, formatScaled (sum_list (map snd lines)) baseScale)))"

section \<open>Payment drafts\<close>

definition source_ids :: "('l \<Rightarrow> uuid option) \<Rightarrow> 'l list \<Rightarrow> uuid list" where
  "source_ids f lines = dedup (concat (map (option_list \<circ> f) lines))"

definition paymentContext ::
  "payment_create \<Rightarrow> create_facts \<Rightarrow> derived_line list \<times> str \<Rightarrow> payment_context" where
  "paymentContext dto facts derived = \<lparr>
     pctx_branchId = coalesce (cr_branchId dto) (Option.bind (fp_treasuryUnit facts) fu_branchId),
     pctx_treasuryUnitId = Some (cr_treasuryUnitId dto),
     pctx_cashboxIds = source_ids li_cashboxId (cr_lines dto),
     pctx_bankAccountIds = source_ids li_bankAccountId (cr_lines dto),
     pctx_currencies = line_currencies dto,
     pctx_methodCategories = dedup (map (fm_category \<circ> dl_method) (fst derived)),
     pctx_documentType = ''PAYMENT'',
     pctx_amount = snd derived,
     pctx_amountCurrency = cr_baseCurrency dto\<rparr>"

definition view_context :: "payment_view \<Rightarrow> uuid option \<Rightarrow> payment_context" where
  "view_context view branchId = \<lparr>
     pctx_branchId = branchId,
     pctx_treasuryUnitId = Some (vw_treasuryUnitId view),
     pctx_cashboxIds = source_ids lv_cashboxId (vw_lines view),
     pctx_bankAccountIds = source_ids lv_bankAccountId (vw_lines view),
     pctx_currencies = dedup (vw_baseCurrency view # map (mo_currency \<circ> lv_money) (vw_lines view)),
     pctx_methodCategories = dedup (map lv_methodBehaviorCategory (vw_lines view)),
     pctx_documentType = ''PAYMENT'',
     pctx_amount = mo_amount (vw_totalBaseAmount view),
     pctx_amountCurrency = vw_baseCurrency view\<rparr>"

definition replayPaymentContext :: "payment_view \<Rightarrow> create_facts \<Rightarrow> payment_context" where
  "replayPaymentContext view facts =
     view_context view (coalesce (vw_branchId view) (Option.bind (fp_treasuryUnit facts) fu_branchId))"

definition paymentDto :: "payment_view \<Rightarrow> payment_create" where
  "paymentDto view = \<lparr>
     cr_businessDate = vw_businessDate view,
     cr_beneficiaryPartyId = vw_beneficiaryPartyId view,
     cr_branchId = vw_branchId view,
     cr_treasuryUnitId = vw_treasuryUnitId view,
     cr_baseCurrency = vw_baseCurrency view,
     cr_purpose = vw_purpose view,
     cr_dueDate = vw_dueDate view,
     cr_lines = map (\<lambda>line. \<lparr>
       li_lineNumber = lv_lineNumber line,
       li_methodId = lv_methodId line,
       li_money = lv_money line,
       li_cashboxId = lv_cashboxId line,
       li_bankAccountId = lv_bankAccountId line,
       li_beneficiaryPartyId = lv_beneficiaryPartyId line,
       li_beneficiaryAccountReference = lv_beneficiaryAccountReference line,
       li_trackingNumber = lv_trackingNumber line,
       li_dueDate = lv_dueDate line,
       li_description = lv_description line,
       li_accountingDimensions = lv_accountingDimensions line,
       li_attachments = map_option (map attachment_ref_of) (lv_attachments line)\<rparr>) (vw_lines view),
     cr_body = JUndefined\<rparr>"

definition assertPaymentAuthorized ::
  "env \<Rightarrow> uuid \<Rightarrow> uuid \<Rightarrow> payment_context \<Rightarrow> ('z payment_db_scheme, unit) tx" where
  "assertPaymentAuthorized env org actorUserId ctx =
     tx_bind (tx_read (\<lambda>s. canCreatePayment env s org actorUserId ctx)) (\<lambda>allowed.
       tx_guard allowed (Message ''SCOPE_DENIED''))"

text \<open>The facts of a body and what is derived from them.\<close>

definition derive_now ::
  "env \<Rightarrow> uuid \<Rightarrow> uuid \<Rightarrow> payment_create
     \<Rightarrow> ('z payment_db_scheme, create_facts \<times> derived_line list \<times> str) tx" where
  "derive_now env org actorUserId dto =
     tx_bind (tx_read (\<lambda>s. paymentFacts s org actorUserId dto)) (\<lambda>facts.
     tx_bind (newDate env) (\<lambda>now.
     tx_bind (derive env dto facts now) (\<lambda>derived. tx_return (facts, derived))))"

definition create_tx ::
  "env \<Rightarrow> uuid \<Rightarrow> uuid \<Rightarrow> payment_create \<Rightarrow> str \<Rightarrow> str \<Rightarrow> ('z payment_db_scheme, payment_view) tx" where
  "create_tx env org actorUserId dto key requestDigest =
     (let k = draft_scope ''createPayment'' org actorUserId key in
      tx_then (acquireIdempotencyLock k)
      (tx_bind (tx_read (findIdempotency k)) (\<lambda>replay.
      (case replay of
         Some r \<Rightarrow>
           tx_bind (replay_payment r requestDigest) (\<lambda>view.
           tx_bind (derive_now env org actorUserId (paymentDto view)) (\<lambda>d.
           tx_then (assertPaymentAuthorized env org actorUserId (replayPaymentContext view (fst d)))
             (tx_return view)))
       | None \<Rightarrow>
           tx_then (insertIdempotency env k requestDigest)
           (tx_bind (derive_now env org actorUserId dto) (\<lambda>d.
           (tx_then (assertPaymentAuthorized env org actorUserId (paymentContext dto (fst d) (snd d)))
           (tx_bind (randomUUID env) (\<lambda>i.
           (tx_bind (nextPaymentNumber org (cr_businessDate dto)) (\<lambda>businessNumber.
           (tx_bind (insertPayment env i org businessNumber actorUserId dto (snd (snd d)) (fst (snd d)))
             (\<lambda>response.
           (tx_then (saveIdempotency k (PaymentResponse response) 201)
             (tx_return response)))))))))))))))"

definition create ::
  "env \<Rightarrow> uuid \<Rightarrow> uuid \<Rightarrow> payment_create \<Rightarrow> str \<Rightarrow> str \<Rightarrow> 'z payment_db_scheme
     \<Rightarrow> payment_view res \<times> 'z payment_db_scheme" where
  "create env org actorUserId dto rawKey rid s =
     (case res_bind (validatePayment dto) (\<lambda>_. res_bind (requiredRequestId rid) (\<lambda>_.
          res_bind (check_key rawKey) (\<lambda>_. commandDigest env ''createPayment''
            (JObject [(''actorUserId'', JString actorUserId), (''body'', cr_body dto)])))) of
        Inl e \<Rightarrow> (Inl e, s)
      | Inr requestDigest \<Rightarrow> rethrow draft_problem
          (transaction (committed (create_tx env org actorUserId dto rawKey requestDigest)) s))"

section \<open>Revalidation at submission\<close>

text \<open>A line whose stored rate is still the one its amount was derived with.\<close>

definition identity_unchanged :: "payment_view \<Rightarrow> payment_line_view \<Rightarrow> bool" where
  "identity_unchanged view line \<longleftrightarrow> (let rate = lv_rateSnapshot line in
     rs_sourceCurrency rate = vw_baseCurrency view
     \<and> rs_targetCurrency rate = vw_baseCurrency view
     \<and> compareDecimal (rs_rate rate) ''1'' = 0
     \<and> rs_rateRecordId rate = None
     \<and> compareDecimal (rs_roundingDifference rate) ''0'' = 0
     \<and> compareDecimal (mo_amount (lv_money line)) (mo_amount (lv_baseAmount line)) = 0)"

definition table_unchanged :: "create_facts \<Rightarrow> nat \<Rightarrow> payment_line_view \<Rightarrow> bool" where
  "table_unchanged facts baseScale line \<longleftrightarrow>
     (let rate = lv_rateSnapshot line;
          derived = deriveTarget (mo_amount (lv_money line)) (rs_rate rate) baseScale
      in case latest_rates (filter (\<lambda>r. ft_sourceCurrency r = rs_sourceCurrency rate
             \<and> ft_targetCurrency r = rs_targetCurrency rate
             \<and> ft_validAt r \<le> rs_ratedAt rate) (fp_rates facts)) of
           [stored] \<Rightarrow> Some (ft_id stored) = rs_rateRecordId rate
             \<and> ft_rate stored = rs_rate rate
             \<and> ft_rateType stored = rs_rateType rate
             \<and> ft_validAt stored = rs_ratedAt rate
             \<and> compareDecimal (dt_targetAmount derived) (mo_amount (lv_baseAmount line)) = 0
             \<and> compareDecimal (dt_roundingDifference derived) (rs_roundingDifference rate) = 0
         | _ \<Rightarrow> False)"

definition line_rate_unchanged :: "payment_view \<Rightarrow> create_facts \<Rightarrow> nat \<Rightarrow> payment_line_view \<Rightarrow> bool" where
  "line_rate_unchanged view facts baseScale line \<longleftrightarrow>
     compareDecimal (rs_targetAmount (lv_rateSnapshot line)) (mo_amount (lv_baseAmount line)) = 0
     \<and> (if rs_rateSource (lv_rateSnapshot line) = ''IDENTITY'' then identity_unchanged view line
        else table_unchanged facts baseScale line)"

definition revalidateSubmission ::
  "env \<Rightarrow> uuid \<Rightarrow> payment_view \<Rightarrow> ('z payment_db_scheme, unit) tx" where
  "revalidateSubmission env org view =
     tx_bind (derive_now env org (vw_creatorUserId view) (paymentDto view)) (\<lambda>d.
     (case find (\<lambda>c. fc_code c = vw_baseCurrency view) (fp_currencies (fst d)) of
        None \<Rightarrow> tx_throw (Message ''RESOURCE_HIDDEN'')
      | Some base \<Rightarrow>
          tx_bind (tx_lift (res_map (\<lambda>line. scaled (mo_amount (lv_baseAmount line)) (fc_decimalPlaces base))
            (vw_lines view))) (\<lambda>units.
          tx_then (tx_guard (compareDecimal (formatScaled (sum_list units) (fc_decimalPlaces base))
              (mo_amount (vw_totalBaseAmount view)) = 0) (Message ''TOTAL_MISMATCH''))
            (tx_guard (list_all (line_rate_unchanged view (fst d) (fc_decimalPlaces base)) (vw_lines view))
              (Message ''RATE_INVALID'')))))"

end
