(* ===== verification/Payment_Approval.thy ===== *)
theory Payment_Approval
  imports Approval_Views Payment_Drafts
begin

text \<open>
  \<open>payments/payment-approval.service.ts\<close>: the submission of a draft, which freezes the policies
  that govern it as an approval snapshot, and the approval actions on the snapshot's steps.
  Each is a transaction whose steps are the source's in its order.
\<close>

section \<open>Validation and errors\<close>

definition approval_problems :: "(str \<times> str \<times> nat) list" where
  "approval_problems = [
     (''IDEMPOTENCY_CONFLICT'', ''TRS-GEN-007'', 409),
     (''SCOPE_DENIED'', ''TRS-GEN-003'', 403),
     (''RESOURCE_HIDDEN'', ''TRS-GEN-004'', 404),
     (''INACTIVE_REFERENCE'', ''TRS-MST-001'', 409),
     (''METHOD_INVALID'', ''TRS-MST-004'', 422),
     (''RATE_INVALID'', ''TRS-MST-003'', 422),
     (''TOTAL_MISMATCH'', ''TRS-PAY-001'', 422),
     (''PAYMENT_INCOMPLETE'', ''TRS-PAY-002'', 422),
     (''AGGREGATE_STALE'', ''TRS-PAY-007'', 409),
     (''APPROVAL_POLICY_UNAVAILABLE'', ''TRS-PAY-008'', 409),
     (''STATE_CONFLICT'', ''TRS-GEN-005'', 409),
     (''STALE_VERSION'', ''TRS-GEN-006'', 409),
     (''VALIDATION'', ''TRS-GEN-001'', 422)]"

definition approval_problem :: "exn \<Rightarrow> exn" where
  "approval_problem e =
     (case e of
        Message m \<Rightarrow> (case map_of approval_problems m of
            Some (code, status) \<Rightarrow> Problem code status None | None \<Rightarrow> e)
      | PgError code \<Rightarrow>
          if code = ''23505'' then Problem ''TRS-GEN-005'' 409 None
          else if code = ''23503'' then Problem ''TRS-GEN-004'' 404 None
          else if code \<in> {''22003'', ''22P02'', ''23514''} then Problem ''TRS-GEN-001'' 422 None
          else e
      | _ \<Rightarrow> e)"

definition ifMatch :: "str \<Rightarrow> int res" where
  "ifMatch value =
     (case etag_digits value of
        Some digits \<Rightarrow> if js_number digits \<le> max_safe_integer then Inr (js_number digits)
          else Inl (validation ''If-Match must be one strong numeric version tag.'')
      | None \<Rightarrow> Inl (validation ''If-Match must be one strong numeric version tag.''))"

definition check_action :: "payment_approval_action_dto \<Rightarrow> unit res" where
  "check_action dto =
     (let visible = (case aa_reason dto of None \<Rightarrow> False | Some r \<Rightarrow> trim r \<noteq> []) in
      res_bind (res_guard (aa_action dto \<notin> {REJECT, RETURN} \<or> visible)
        (validation ''REJECT and RETURN require a non-empty reason.'')) (\<lambda>_.
      res_guard (aa_reason dto = None \<or> visible)
        (validation ''Approval reasons must be non-empty when supplied.'')))"

definition approval_scope :: "str \<Rightarrow> uuid \<Rightarrow> uuid \<Rightarrow> uuid \<Rightarrow> str \<Rightarrow> idempotency_key" where
  "approval_scope operation org actorUserId paymentId key = \<lparr>
     ik_organizationId = org,
     ik_scope = operation @ '':'' @ actorUserId @ '':'' @ paymentId,
     ik_key = key\<rparr>"

section \<open>Views and authority\<close>

definition baseView :: "uuid \<Rightarrow> uuid \<Rightarrow> ('z payment_db_scheme, payment_view) tx" where
  "baseView org paymentId = tx_bind (tx_read (\<lambda>s. paymentView s org paymentId)) (\<lambda>view.
     case view of None \<Rightarrow> tx_throw (Message ''RESOURCE_HIDDEN'') | Some v \<Rightarrow> tx_return v)"

definition approval_view :: "uuid \<Rightarrow> uuid \<Rightarrow> ('z payment_db_scheme, payment_view) tx" where
  "approval_view org paymentId = tx_bind (baseView org paymentId) (\<lambda>view.
     tx_bind (tx_read (\<lambda>s. map_of (snapshotViewsForPayments s org [paymentId]) paymentId)) (\<lambda>snapshot.
       tx_return (case snapshot of None \<Rightarrow> view | Some n \<Rightarrow> view\<lparr>vw_approvalSnapshot := Some n\<rparr>)))"

text \<open>The branch of a view without one is that of its treasury unit, unless the caller gives it.\<close>

definition effective_branch ::
  "'z payment_db_scheme \<Rightarrow> uuid \<Rightarrow> payment_view \<Rightarrow> uuid option option \<Rightarrow> uuid option" where
  "effective_branch s org view effectiveBranchId =
     (case effectiveBranchId of Some b \<Rightarrow> b
      | None \<Rightarrow> coalesce (vw_branchId view) (treasuryUnitBranch s org (vw_treasuryUnitId view)))"

definition assertApprovalAuthorized ::
  "env \<Rightarrow> uuid \<Rightarrow> uuid \<Rightarrow> payment_view \<Rightarrow> str \<Rightarrow> uuid option \<Rightarrow> uuid option option \<Rightarrow> uuid option
     \<Rightarrow> ('z payment_db_scheme, payment_authority) tx" where
  "assertApprovalAuthorized env org actorUserId view permission roleId effectiveBranchId required =
     tx_bind (tx_read (\<lambda>s. resolvePaymentAuthority env s org actorUserId
         (view_context view (effective_branch s org view effectiveBranchId)) permission roleId required))
       (\<lambda>authority. case authority of None \<Rightarrow> tx_throw (Message ''SCOPE_DENIED'')
          | Some a \<Rightarrow> tx_return a)"

section \<open>The contexts of a payment\<close>

text \<open>The first line of each pair of currency and method category, in line order.\<close>

fun first_lines :: "str list \<Rightarrow> approval_line list \<Rightarrow> approval_line list" where
  "first_lines seen [] = []"
| "first_lines seen (l # ls) =
     (let key = yl_currency l @ '':'' @ yl_methodCategory l in
      if key \<in> set seen then first_lines seen ls else l # first_lines (key # seen) ls)"

definition policy_usable :: "approval_policy \<Rightarrow> bool" where
  "policy_usable policy \<longleftrightarrow> list_all (\<lambda>t. (ay_roleId t = None \<or> ay_roleState t = Some ''ACTIVE'')
     \<and> (ay_approverUserId t = None \<or> ay_approverState t = Some ''ACTIVE'')) (po_steps policy)"

definition resolve_context ::
  "'z payment_db_scheme \<Rightarrow> uuid \<Rightarrow> approval_payment \<Rightarrow> str \<Rightarrow> int \<times> approval_line \<Rightarrow> approval_context res" where
  "resolve_context s org payment amountBasis entry =
     (case entry of (order, line) \<Rightarrow>
        (case uniqueMaximal (policies s org payment (yl_currency line) (yl_methodCategory line) amountBasis) of
           None \<Rightarrow> Inl policy_unavailable
         | Some policy \<Rightarrow> if policy_usable policy
             then Inr \<lparr>ax_order = order, ax_firstLineNumber = yl_lineNumber line,
               ax_currency = yl_currency line, ax_methodCategory = yl_methodCategory line,
               ax_policy = policy\<rparr>
             else Inl policy_unavailable))"

definition resolveContexts ::
  "'z payment_db_scheme \<Rightarrow> uuid \<Rightarrow> approval_payment \<Rightarrow> approval_line list \<Rightarrow> str
     \<Rightarrow> approval_context list res" where
  "resolveContexts s org payment lines amountBasis =
     (let grouped = order_by yl_lineNumber (first_lines [] lines)
      in res_map (resolve_context s org payment amountBasis) (zip [1..int (length grouped)] grouped))"

section \<open>Submission\<close>

definition own_participant :: "approval_payment \<Rightarrow> int \<Rightarrow> evidence_participant" where
  "own_participant payment documentVersion = \<lparr>
     np_paymentId = yp_id payment,
     np_paymentNumber = yp_businessNumber payment,
     np_paymentVersion = documentVersion,
     np_baseAmount = yp_totalBaseAmount payment,
     np_baseCurrency = yp_baseCurrency payment,
     np_versionBasis = ''SUBMITTED_CONTENT''\<rparr>"

definition live_participant :: "aggregation_participant \<Rightarrow> evidence_participant" where
  "live_participant p = \<lparr>
     np_paymentId = np_paymentId p,
     np_paymentNumber = np_paymentNumber p,
     np_paymentVersion = np_paymentVersion p,
     np_baseAmount = np_baseAmount p,
     np_baseCurrency = np_baseCurrency p,
     np_versionBasis = ''LIVE_AGGREGATE''\<rparr>"

text \<open>
  What a submission approves: the contexts, the amount they are judged by and, where the
  policies aggregate, the payments added up.
\<close>

definition aggregate_basis ::
  "env \<Rightarrow> uuid \<Rightarrow> approval_payment \<Rightarrow> approval_line list \<Rightarrow> approval_context list
     \<Rightarrow> aggregation_config
     \<Rightarrow> ('z payment_db_scheme, approval_context list \<times> str \<times> aggregation_evidence option) tx" where
  "aggregate_basis env org payment lines provisional config =
     tx_then (tx_guard (fst config = ''BUSINESS_DATE'' \<and> ''EXTERNAL_OBLIGATION'' \<notin> set (snd config)
         \<and> ''BENEFICIARY'' \<in> set (snd config)) policy_unavailable)
     (tx_then (lockAggregation org (yp_businessDate payment) (snd config) (yp_beneficiaryPartyId payment))
     (tx_bind (tx_read (\<lambda>s. matchingParticipants s org (yp_businessDate payment)
         (yp_beneficiaryPartyId payment) (yp_id payment))) (\<lambda>others.
     (let participants = sort_by (\<lambda>l r. he_localeCompare env (np_paymentId l) (np_paymentId r))
            (own_participant payment (yp_version payment + 1) # map live_participant others);
          amountBasis = sumAmounts (map np_baseAmount participants)
      in tx_bind (tx_read (\<lambda>s. resolveContexts s org payment lines amountBasis)) (\<lambda>resolved.
         tx_bind (tx_lift resolved) (\<lambda>contexts.
         tx_then (tx_guard (contextSignature contexts = contextSignature provisional) policy_unavailable)
         (tx_bind (tx_lift (aggregationConfig contexts)) (\<lambda>again.
         tx_then (tx_guard (configSignature again = configSignature (Some config)) policy_unavailable)
           (tx_return (contexts, amountBasis, Some \<lparr>
             ne_businessDate = yp_businessDate payment,
             ne_keys = snd config,
             ne_beneficiaryPartyId = Some (yp_beneficiaryPartyId payment),
             ne_externalObligationKey = None,
             ne_participants = participants\<rparr>))))))))))"

definition approval_basis ::
  "env \<Rightarrow> uuid \<Rightarrow> approval_payment \<Rightarrow> approval_line list
     \<Rightarrow> ('z payment_db_scheme, approval_context list \<times> str \<times> aggregation_evidence option) tx" where
  "approval_basis env org payment lines =
     tx_bind (tx_read (\<lambda>s. resolveContexts s org payment lines (yp_totalBaseAmount payment))) (\<lambda>resolved.
     tx_bind (tx_lift resolved) (\<lambda>provisional.
     tx_bind (tx_lift (aggregationConfig provisional)) (\<lambda>config.
       (case config of
          None \<Rightarrow> tx_return (provisional, yp_totalBaseAmount payment, None)
        | Some c \<Rightarrow> aggregate_basis env org payment lines provisional c))))"

text \<open>The guards of a fresh submission; the result is the payment and its lines.\<close>

definition submission_guards ::
  "env \<Rightarrow> uuid \<Rightarrow> uuid \<Rightarrow> uuid \<Rightarrow> int
     \<Rightarrow> ('z payment_db_scheme, approval_payment \<times> approval_line list) tx" where
  "submission_guards env org actorUserId paymentId expectedVersion =
     tx_bind (tx_read (\<lambda>s. lockApprovalPayment s org paymentId)) (\<lambda>locked.
     (case locked of None \<Rightarrow> tx_throw (Message ''RESOURCE_HIDDEN'')
      | Some payment \<Rightarrow>
          tx_then (tx_guard (yp_state payment = ''DRAFT'') (Message ''STATE_CONFLICT''))
          (tx_then (tx_guard (yp_version payment = expectedVersion) (Message ''STALE_VERSION''))
          (tx_bind (baseView org paymentId) (\<lambda>view.
          (tx_then (assertApprovalAuthorized env org actorUserId view ''payment.submit'' None
              (Some (yp_branchId payment)) None)
          (tx_then (revalidateSubmission env org view)
          (tx_bind (tx_read (\<lambda>s. approval_lines s org paymentId)) (\<lambda>lines.
          (tx_then (tx_guard (lines \<noteq> []) (Message ''PAYMENT_INCOMPLETE''))
          (tx_then (tx_guard (list_all (\<lambda>l. yl_methodState l = ''ACTIVE'') lines)
              (Message ''INACTIVE_REFERENCE''))
            (tx_return (payment, lines)))))))))))))"

definition submission_writes ::
  "env \<Rightarrow> uuid \<Rightarrow> approval_payment \<Rightarrow> approval_context list \<times> str \<times> aggregation_evidence option
     \<Rightarrow> ('z payment_db_scheme, unit) tx" where
  "submission_writes env org payment basis =
     (case basis of (contexts, amountBasis, evidence) \<Rightarrow>
        tx_bind (composeSteps env contexts) (\<lambda>steps.
        tx_then (tx_guard (yp_requesterUserId payment \<noteq> None
            \<or> (\<forall>t \<in> set steps. ''REQUESTER_NOT_APPROVER'' \<notin> set (co_separationRules t)))
          policy_unavailable)
        (tx_bind (randomUUID env) (\<lambda>snapshotId.
        (tx_bind (newDate env) (\<lambda>evaluatedAt.
        (tx_then (insertSnapshot org payment snapshotId (yp_version payment + 1) amountBasis evaluatedAt
            contexts steps evidence)
          (completeSubmission env org (yp_id payment) snapshotId
            (if steps = [] then ''APPROVED'' else ''APPROVAL_PENDING'')))))))))"

definition submit_fresh ::
  "env \<Rightarrow> uuid \<Rightarrow> uuid \<Rightarrow> uuid \<Rightarrow> int \<Rightarrow> ('z payment_db_scheme, payment_view) tx" where
  "submit_fresh env org actorUserId paymentId expectedVersion =
     tx_bind (submission_guards env org actorUserId paymentId expectedVersion) (\<lambda>p.
     tx_bind (approval_basis env org (fst p) (snd p)) (\<lambda>basis.
     tx_then (submission_writes env org (fst p) basis)
       (approval_view org paymentId)))"

definition submit_tx ::
  "env \<Rightarrow> uuid \<Rightarrow> uuid \<Rightarrow> uuid \<Rightarrow> str \<Rightarrow> int \<Rightarrow> str \<Rightarrow> ('z payment_db_scheme, payment_view) tx" where
  "submit_tx env org actorUserId paymentId key expectedVersion requestDigest =
     (let k = approval_scope ''submitPayment'' org actorUserId paymentId key in
      tx_then (acquireIdempotencyLock k)
      (tx_bind (tx_read (findIdempotency k)) (\<lambda>replay.
      (case replay of
         Some r \<Rightarrow>
           tx_bind (replay_payment r requestDigest) (\<lambda>view.
           tx_then (assertApprovalAuthorized env org actorUserId view ''payment.submit'' None None None)
             (tx_return view))
       | None \<Rightarrow>
           tx_then (insertIdempotency env k requestDigest)
           (tx_bind (submit_fresh env org actorUserId paymentId expectedVersion) (\<lambda>response.
           tx_then (saveIdempotency k (PaymentResponse response) 200)
             (tx_return response)))))))"

definition submit ::
  "env \<Rightarrow> uuid \<Rightarrow> uuid \<Rightarrow> uuid \<Rightarrow> str \<Rightarrow> str \<Rightarrow> str \<Rightarrow> 'z payment_db_scheme
     \<Rightarrow> payment_view res \<times> 'z payment_db_scheme" where
  "submit env org actorUserId paymentId rawKey rawIfMatch rid s =
     (case res_bind (res_guard (is_uuid paymentId) (validation ''resourceId is malformed.'')) (\<lambda>_.
          res_bind (requiredRequestId rid) (\<lambda>_.
          res_bind (check_key rawKey) (\<lambda>_.
          res_bind (ifMatch rawIfMatch) (\<lambda>expectedVersion.
          res_bind (commandDigest env ''submitPayment'' (JObject [
            (''actorUserId'', JString actorUserId), (''paymentId'', JString paymentId),
            (''ifMatch'', JString rawIfMatch)])) (\<lambda>requestDigest.
          Inr (expectedVersion, requestDigest)))))) of
        Inl e \<Rightarrow> (Inl e, s)
      | Inr (expectedVersion, requestDigest) \<Rightarrow> rethrow approval_problem (transaction (committed
          (submit_tx env org actorUserId paymentId rawKey expectedVersion requestDigest)) s))"

section \<open>Approval actions\<close>

text \<open>
  An aggregation is fresh when the payments it counted, at the versions it counted, are still
  the payments of the day to the beneficiary.
\<close>

definition version_texts :: "(uuid \<times> int) list \<Rightarrow> str list" where
  "version_texts ps = sort (map (\<lambda>p. fst p @ '':'' @ show_int (snd p)) ps)"

definition aggregation_fresh :: "'z payment_db_scheme \<Rightarrow> uuid \<Rightarrow> approval_payment \<Rightarrow> aggregation_evidence \<Rightarrow> bool" where
  "aggregation_fresh s org payment a \<longleftrightarrow>
     (case find (\<lambda>p. np_paymentId p = yp_id payment) (ne_participants a) of
        None \<Rightarrow> False
      | Some p \<Rightarrow> np_versionBasis p = ''SUBMITTED_CONTENT'')
     \<and> version_texts (map (\<lambda>p. (np_paymentId p, np_paymentVersion p))
          (filter (\<lambda>p. np_versionBasis p = ''LIVE_AGGREGATE'') (ne_participants a)))
       = version_texts (map (\<lambda>p. (np_paymentId p, np_paymentVersion p))
          (matchingParticipants s org (ne_businessDate a) (yp_beneficiaryPartyId payment) (yp_id payment)))"

definition assertAggregationFresh ::
  "uuid \<Rightarrow> approval_payment \<Rightarrow> uuid \<Rightarrow> ('z payment_db_scheme, unit) tx" where
  "assertAggregationFresh org payment snapshotId =
     tx_bind (tx_read (\<lambda>s. aggregation s org snapshotId)) (\<lambda>found.
     (case found of None \<Rightarrow> tx_return ()
      | Some a \<Rightarrow>
          tx_then (tx_guard (ne_businessDate a = yp_businessDate payment
              \<and> ne_beneficiaryPartyId a = Some (yp_beneficiaryPartyId payment)
              \<and> ''EXTERNAL_OBLIGATION'' \<notin> set (ne_keys a)) (Message ''AGGREGATE_STALE''))
          (tx_then (lockAggregation org (ne_businessDate a) (ne_keys a) (yp_beneficiaryPartyId payment))
          (tx_bind (tx_read (\<lambda>s. aggregation_fresh s org payment a)) (\<lambda>fresh.
            tx_guard fresh (Message ''AGGREGATE_STALE''))))))"

definition acting_subjects :: "uuid \<Rightarrow> payment_authority \<Rightarrow> uuid list" where
  "acting_subjects actorUserId authority = actorUserId # option_list (au_delegatedFromUserId authority)"

definition step_eligible ::
  "uuid \<Rightarrow> uuid option \<Rightarrow> (uuid option \<times> str list) option \<Rightarrow> uuid \<Rightarrow> payment_authority \<Rightarrow> bool" where
  "step_eligible creatorUserId requesterUserId step actorUserId authority \<longleftrightarrow>
     (case step of None \<Rightarrow> True
      | Some (approverUserId, separationRules) \<Rightarrow>
          (let subjects = set (acting_subjects actorUserId authority) in
           (case approverUserId of None \<Rightarrow> True | Some u \<Rightarrow> u \<in> subjects)
           \<and> (''CREATOR_NOT_APPROVER'' \<in> set separationRules \<longrightarrow> creatorUserId \<notin> subjects)
           \<and> (''REQUESTER_NOT_APPROVER'' \<in> set separationRules \<longrightarrow>
                (case requesterUserId of None \<Rightarrow> False | Some u \<Rightarrow> u \<notin> subjects))))"

definition assertStepEligibility ::
  "uuid \<Rightarrow> uuid option \<Rightarrow> (uuid option \<times> str list) option \<Rightarrow> uuid \<Rightarrow> payment_authority
     \<Rightarrow> ('z payment_db_scheme, unit) tx" where
  "assertStepEligibility creatorUserId requesterUserId step actorUserId authority =
     tx_guard (step_eligible creatorUserId requesterUserId step actorUserId authority)
       (Message ''SCOPE_DENIED'')"

fun action_name :: "payment_approval_action \<Rightarrow> str" where
  "action_name APPROVE = ''APPROVED''"
| "action_name REJECT = ''REJECTED''"
| "action_name RETURN = ''RETURNED''"

definition action_permission :: "payment_approval_action \<Rightarrow> str" where
  "action_permission command = (if command = APPROVE then ''payment.approve'' else ''payment.reject'')"

definition replayAction ::
  "payment_view \<Rightarrow> uuid \<Rightarrow> payment_approval_action \<Rightarrow> approval_action_view option" where
  "replayAction view actorUserId command = find
     (\<lambda>a. av_actorUserId a = actorUserId \<and> av_action a = action_name command)
     (rev (case vw_approvalSnapshot view of None \<Rightarrow> [] | Some n \<Rightarrow> sv_actions n))"

definition replay_step :: "payment_view \<Rightarrow> approval_action_view \<Rightarrow> snapshot_step_view option" where
  "replay_step view a = Option.bind (av_stepOrder a) (\<lambda>order.
     Option.bind (vw_approvalSnapshot view) (\<lambda>n. find (\<lambda>t. tv_order t = order) (sv_steps n)))"

definition replay_action ::
  "env \<Rightarrow> uuid \<Rightarrow> uuid \<Rightarrow> uuid \<Rightarrow> payment_approval_action_dto \<Rightarrow> payment_view
     \<Rightarrow> ('z payment_db_scheme, payment_view) tx" where
  "replay_action env org actorUserId paymentId dto view =
     (case replayAction view actorUserId (aa_action dto) of
        None \<Rightarrow> tx_throw (Message ''IDEMPOTENCY_CONFLICT'')
      | Some a \<Rightarrow>
          (let step = replay_step view a in
           tx_bind (assertApprovalAuthorized env org actorUserId view (action_permission (aa_action dto))
             (Option.bind step tv_roleId) None (Option.bind step tv_approverUserId)) (\<lambda>authority.
           tx_bind (tx_read (\<lambda>s. paymentRequester s org paymentId)) (\<lambda>requesterUserId.
           tx_then (assertStepEligibility (vw_creatorUserId view) requesterUserId
             (map_option (\<lambda>t. (tv_approverUserId t, tv_separationRules t)) step) actorUserId authority)
           (tx_then (tx_guard (av_delegatedFromUserId a = au_delegatedFromUserId authority)
               (Message ''SCOPE_DENIED''))
             (tx_return view))))))"

text \<open>The step an action falls on: the first that misses approvals; a return may take the last.\<close>

definition open_step :: "current_step list \<Rightarrow> current_step option" where
  "open_step steps = find (\<lambda>t. int (co_approvalsRecorded t) < co_approvalsRequired t) steps"

definition target_step :: "payment_approval_action \<Rightarrow> current_step list \<Rightarrow> current_step option" where
  "target_step command steps =
     (case open_step steps of Some t \<Rightarrow> Some t
      | None \<Rightarrow> if command = RETURN \<and> steps \<noteq> [] then Some (last steps) else None)"

text \<open>The state of the payment after an action.\<close>

definition next_state :: "payment_approval_action \<Rightarrow> current_step list \<Rightarrow> str" where
  "next_state command steps =
     (case command of
        REJECT \<Rightarrow> ''REJECTED''
      | RETURN \<Rightarrow> ''DRAFT''
      | APPROVE \<Rightarrow> (case open_step steps of
            None \<Rightarrow> ''APPROVAL_PENDING''
          | Some current \<Rightarrow>
              if co_approvalsRequired current \<le> int (co_approvalsRecorded current) + 1
                 \<and> \<not> (\<exists>t \<in> set steps. co_order current < co_order t)
              then ''APPROVED'' else ''APPROVAL_PENDING''))"

text \<open>The guards of a fresh action; the result is the payment, its snapshot, the steps and the authority.\<close>

definition action_guards ::
  "env \<Rightarrow> uuid \<Rightarrow> uuid \<Rightarrow> uuid \<Rightarrow> payment_approval_action_dto \<Rightarrow> int
     \<Rightarrow> ('z payment_db_scheme, uuid \<times> current_step list \<times> payment_authority) tx" where
  "action_guards env org actorUserId paymentId dto expectedVersion =
     tx_bind (tx_read (\<lambda>s. lockApprovalPayment s org paymentId)) (\<lambda>locked.
     (case locked of None \<Rightarrow> tx_throw (Message ''RESOURCE_HIDDEN'')
      | Some payment \<Rightarrow>
          tx_then (tx_guard (yp_version payment = expectedVersion) (Message ''STALE_VERSION''))
          (tx_then (tx_guard (if aa_action dto = RETURN
               then yp_state payment \<in> {''APPROVAL_PENDING'', ''APPROVED''}
               else yp_state payment = ''APPROVAL_PENDING'') (Message ''STATE_CONFLICT''))
          (case yp_currentApprovalSnapshotId payment of
             None \<Rightarrow> tx_throw (Message ''STATE_CONFLICT'')
           | Some snapshotId \<Rightarrow>
               tx_then (assertAggregationFresh org payment snapshotId)
               (tx_bind (tx_read (\<lambda>s. currentSteps s org snapshotId)) (\<lambda>steps.
               (let step = target_step (aa_action dto) steps in
                tx_then (tx_guard (steps = [] \<or> step \<noteq> None) (Message ''STATE_CONFLICT''))
                (tx_then (tx_guard (aa_action dto = RETURN \<or> open_step steps \<noteq> None)
                  (Message ''STATE_CONFLICT''))
                (tx_bind (baseView org paymentId) (\<lambda>view.
                (tx_bind (assertApprovalAuthorized env org actorUserId view
                    (action_permission (aa_action dto)) (Option.bind step co_roleId)
                    (Some (yp_branchId payment)) (Option.bind step co_approverUserId)) (\<lambda>authority.
                (tx_then (assertStepEligibility (yp_creatorUserId payment) (yp_requesterUserId payment)
                    (map_option (\<lambda>t. (co_approverUserId t, co_separationRules t)) step)
                    actorUserId authority)
                  (tx_return (snapshotId, steps, authority)))))))))))))))"

definition act_fresh ::
  "env \<Rightarrow> uuid \<Rightarrow> uuid \<Rightarrow> uuid \<Rightarrow> payment_approval_action_dto \<Rightarrow> int
     \<Rightarrow> ('z payment_db_scheme, payment_view) tx" where
  "act_fresh env org actorUserId paymentId dto expectedVersion =
     tx_bind (action_guards env org actorUserId paymentId dto expectedVersion) (\<lambda>g.
     (case g of (snapshotId, steps, authority) \<Rightarrow>
        tx_then (insertAction env org snapshotId (target_step (aa_action dto) steps) actorUserId
          (au_delegatedFromUserId authority) (action_name (aa_action dto))
          (map_option trim (aa_reason dto)))
        (tx_then (completeAction env org paymentId (next_state (aa_action dto) steps))
          (approval_view org paymentId))))"

definition act_tx ::
  "env \<Rightarrow> uuid \<Rightarrow> uuid \<Rightarrow> uuid \<Rightarrow> payment_approval_action_dto \<Rightarrow> str \<Rightarrow> int \<Rightarrow> str
     \<Rightarrow> ('z payment_db_scheme, payment_view) tx" where
  "act_tx env org actorUserId paymentId dto key expectedVersion requestDigest =
     (let k = approval_scope ''actOnPaymentApproval'' org actorUserId paymentId key in
      tx_then (acquireIdempotencyLock k)
      (tx_bind (tx_read (findIdempotency k)) (\<lambda>replay.
      (case replay of
         Some r \<Rightarrow>
           tx_bind (replay_payment r requestDigest) (replay_action env org actorUserId paymentId dto)
       | None \<Rightarrow>
           tx_then (insertIdempotency env k requestDigest)
           (tx_bind (act_fresh env org actorUserId paymentId dto expectedVersion) (\<lambda>response.
           tx_then (saveIdempotency k (PaymentResponse response) 200)
             (tx_return response)))))))"

definition act ::
  "env \<Rightarrow> uuid \<Rightarrow> uuid \<Rightarrow> uuid \<Rightarrow> payment_approval_action_dto \<Rightarrow> str \<Rightarrow> str \<Rightarrow> str
     \<Rightarrow> 'z payment_db_scheme \<Rightarrow> payment_view res \<times> 'z payment_db_scheme" where
  "act env org actorUserId paymentId dto rawKey rawIfMatch rid s =
     (case res_bind (res_guard (is_uuid paymentId) (validation ''resourceId is malformed.'')) (\<lambda>_.
          res_bind (requiredRequestId rid) (\<lambda>_.
          res_bind (check_action dto) (\<lambda>_.
          res_bind (check_key rawKey) (\<lambda>_.
          res_bind (ifMatch rawIfMatch) (\<lambda>expectedVersion.
          res_bind (commandDigest env ''actOnPaymentApproval'' (JObject [
            (''actorUserId'', JString actorUserId), (''paymentId'', JString paymentId),
            (''ifMatch'', JString rawIfMatch), (''body'', aa_body dto)])) (\<lambda>requestDigest.
          Inr (expectedVersion, requestDigest))))))) of
        Inl e \<Rightarrow> (Inl e, s)
      | Inr (expectedVersion, requestDigest) \<Rightarrow> rethrow approval_problem (transaction (committed
          (act_tx env org actorUserId paymentId dto rawKey expectedVersion requestDigest)) s))"

end
