(* ===== verification/Keyed_Commands.thy ===== *)
theory Keyed_Commands
  imports Payment_Approval Execution_Facts
begin

text \<open>
  The common shape of the commands of the drafts and the approval services: under the advisory
  lock of its key a command is answered from the stored record, or does its work between the
  insertion of the record and its completion. The lemmas say what a first run leaves behind,
  with everything but the bookkeeping (\<open>core\<close>) untouched around the work.
\<close>

section \<open>The shape\<close>

definition once_tx ::
  "env \<Rightarrow> idempotency_key \<Rightarrow> str \<Rightarrow> int \<Rightarrow> ('r \<Rightarrow> response)
     \<Rightarrow> (response replay \<Rightarrow> ('z payment_db_scheme, 'r) tx)
     \<Rightarrow> ('z payment_db_scheme, 'r) tx \<Rightarrow> ('z payment_db_scheme, 'r) tx" where
  "once_tx env k d status stored replayed fresh =
     tx_then (acquireIdempotencyLock k)
     (tx_bind (tx_read (findIdempotency k)) (\<lambda>replay.
     (case replay of
        Some r \<Rightarrow> replayed r
      | None \<Rightarrow> tx_then (insertIdempotency env k d)
          (tx_bind fresh (\<lambda>response.
          tx_then (saveIdempotency k (stored response) status)
            (tx_return response))))))"

lemma tx_bind_assoc: "tx_bind (tx_bind m f) g = tx_bind m (\<lambda>a. tx_bind (f a) g)"
  by (rule ext) (simp add: tx_bind_def split: sum.split)

lemma tx_then_assoc: "tx_bind (tx_then m k) g = tx_then m (tx_bind k g)"
  by (simp add: tx_then_def tx_bind_assoc)

lemma once_tx_fresh:
  fixes s s' :: "'z payment_db_scheme"
  assumes run: "once_tx env k d st stored replayed fresh s = Inr (r, s')"
    and none: "findIdempotency k s = None"
    and work: "tx_keeps t_idempotencyRecords fresh"
  obtains s1 s2 where "core s1 = core s" and "fresh s1 = Inr (r, s2)" and "core s' = core s2"
    and "findIdempotency k s' = Some \<lparr>re_requestDigest = d, re_response = Some (stored r)\<rparr>"
proof -
  obtain s0 where lock: "acquireIdempotencyLock k s = Inr ((), s0)"
    and s0: "core s0 = core s" "t_idempotencyRecords s0 = t_idempotencyRecords s"
    using run by (auto simp: once_tx_def tx_then_Inr acquireIdempotencyLock_Inr core_def)
  have "findIdempotency k s0 = None" using none s0(2) by (simp add: findIdempotency_def)
  then have "tx_then (insertIdempotency env k d) (tx_bind fresh (\<lambda>response.
      tx_then (saveIdempotency k (stored response) st) (tx_return response))) s0 = Inr (r, s')"
    using run lock by (simp add: once_tx_def tx_then_run tx_bind_run)
  then obtain s1 s2 where ins: "insertIdempotency env k d s0 = Inr ((), s1)"
    and fr: "fresh s1 = Inr (r, s2)" and sav: "saveIdempotency k (stored r) st s2 = Inr ((), s')"
    by (auto simp: tx_bind_Inr tx_then_Inr tx_return_Inr)
  have rest: "idem.handler env st k d (tx_bind fresh (\<lambda>r. tx_return (stored r))) s0 = Inr (stored r, s')"
    using ins fr sav by (simp add: idem.handler_def tx_then_def tx_bind_def)
  have "findIdempotency k s' = Some \<lparr>re_requestDigest = d, re_response = Some (stored r)\<rparr>"
  proof (rule idem.handler_records [OF rest])
    fix t1 t2 :: "'z payment_db_scheme" and q
    assume "tx_bind fresh (\<lambda>r. tx_return (stored r)) t1 = Inr (q, t2)"
    then have "t_idempotencyRecords t2 = t_idempotencyRecords t1"
      using tx_keepsD [OF work] by (auto simp: tx_inv)
    then show "findIdempotency k t2 = findIdempotency k t1" by (simp add: findIdempotency_def)
  qed
  moreover have "core s1 = core s" "core s' = core s2"
    using s0(1) tx_keepsD [OF keeps_insertIdempotency ins] tx_keepsD [OF keeps_saveIdempotency sav]
    by simp_all
  ultimately show ?thesis using that fr by blast
qed

lemma once_tx_replay:
  assumes "findIdempotency k s = Some r"
  shows "once_tx env k d st stored replayed fresh s = replayed r (lock_recorded k s)"
proof -
  have "acquireIdempotencyLock k s = Inr ((), lock_recorded k s)"
    by (simp add: acquireIdempotencyLock_Inr lock_recorded_def)
  then show ?thesis
    using assms by (simp add: once_tx_def tx_then_run tx_bind_run lock_recorded_reads)
qed

text \<open>Whatever holds of the work of a command, and of its answer to a replay, holds of the command.\<close>

lemma once_tx_cases:
  fixes s s' :: "'z payment_db_scheme"
  assumes "once_tx env k d st stored replayed fresh s = Inr (r, s')"
    and "tx_keeps t_idempotencyRecords fresh"
    and "\<And>p. tx_keeps core (replayed p)"
  obtains "core s' = core s"
  | s1 s2 where "findIdempotency k s = None" and "core s1 = core s" and "fresh s1 = Inr (r, s2)"
      and "core s' = core s2"
proof (cases "findIdempotency k s")
  case None
  then show ?thesis using once_tx_fresh [OF assms(1) None assms(2)] that(2) by metis
next
  case (Some p)
  then have "replayed p (lock_recorded k s) = Inr (r, s')"
    using assms(1) by (simp add: once_tx_replay)
  then have "core s' = core s"
    using tx_keepsD [OF assms(3)] lock_recorded_reads(1) by metis
  then show ?thesis by (rule that(1))
qed

section \<open>The commands have it\<close>

lemma submit_tx_once:
  "submit_tx env org u i key v d = once_tx env (approval_scope ''submitPayment'' org u i key) d 200
     PaymentResponse
     (\<lambda>r. tx_bind (replay_payment r d) (\<lambda>view.
        tx_then (assertApprovalAuthorized env org u view ''payment.submit'' None None None) (tx_return view)))
     (submit_fresh env org u i v)"
  by (simp add: submit_tx_def once_tx_def Let_def)

lemma act_tx_once:
  "act_tx env org u i dto key v d = once_tx env (approval_scope ''actOnPaymentApproval'' org u i key) d 200
     PaymentResponse (\<lambda>r. tx_bind (replay_payment r d) (replay_action env org u i dto))
     (act_fresh env org u i dto v)"
  by (simp add: act_tx_def once_tx_def Let_def)

definition create_fresh ::
  "env \<Rightarrow> uuid \<Rightarrow> uuid \<Rightarrow> payment_create \<Rightarrow> ('z payment_db_scheme, payment_view) tx" where
  "create_fresh env org actorUserId dto =
     tx_bind (derive_now env org actorUserId dto) (\<lambda>d.
     tx_then (assertPaymentAuthorized env org actorUserId (paymentContext dto (fst d) (snd d)))
     (tx_bind (randomUUID env) (\<lambda>i.
     (tx_bind (nextPaymentNumber org (cr_businessDate dto)) (\<lambda>businessNumber.
       insertPayment env i org businessNumber actorUserId dto (snd (snd d)) (fst (snd d)))))))"

lemma create_tx_once:
  "create_tx env org u dto key d = once_tx env (draft_scope ''createPayment'' org u key) d 201
     PaymentResponse
     (\<lambda>r. tx_bind (replay_payment r d) (\<lambda>view.
        tx_bind (derive_now env org u (paymentDto view)) (\<lambda>e.
        tx_then (assertPaymentAuthorized env org u (replayPaymentContext view (fst e))) (tx_return view))))
     (create_fresh env org u dto)"
  unfolding create_tx_def once_tx_def Let_def create_fresh_def tx_bind_assoc tx_then_assoc ..

definition request_fresh ::
  "env \<Rightarrow> uuid \<Rightarrow> uuid \<Rightarrow> payment_request_create \<Rightarrow> ('z payment_db_scheme, payment_request_view) tx" where
  "request_fresh env org actorUserId dto =
     tx_then (request_checks env org actorUserId dto)
     (tx_bind (randomUUID env) (\<lambda>i.
     (tx_bind (nextRequestNumber org) (\<lambda>businessNumber.
       insertRequest env i org businessNumber actorUserId dto))))"

definition replay_request ::
  "env \<Rightarrow> uuid \<Rightarrow> uuid \<Rightarrow> str \<Rightarrow> response replay \<Rightarrow> ('z payment_db_scheme, payment_request_view) tx" where
  "replay_request env org actorUserId requestDigest r =
     (case (re_requestDigest r = requestDigest, re_response r) of
        (True, Some (RequestResponse view)) \<Rightarrow>
          tx_then (request_checks env org actorUserId (requestDto view)) (tx_return view)
      | _ \<Rightarrow> tx_throw (Message ''IDEMPOTENCY_CONFLICT''))"

lemma createRequest_tx_once:
  "createRequest_tx env org u dto key d = once_tx env (draft_scope ''createPaymentRequest'' org u key) d 201
     RequestResponse (replay_request env org u d) (request_fresh env org u dto)"
  unfolding createRequest_tx_def once_tx_def Let_def request_fresh_def replay_request_def
    tx_bind_assoc tx_then_assoc ..

end
