(* ===== verification/Approval_Facts.thy ===== *)
theory Approval_Facts
  imports Keyed_Commands
begin

text \<open>
  The library behind the properties of submission and approval: what the readers of the
  approval services see, what their checks leave unchanged, and what a successful run has
  checked and written.
\<close>

section \<open>What the readers see\<close>

lemma core_approval_reads [simp]:
  "t_paymentApprovalSnapshotContexts (core s) = t_paymentApprovalSnapshotContexts s"
  "t_paymentApprovalAggregations (core s) = t_paymentApprovalAggregations s"
  "t_paymentApprovalAggregationParticipants (core s) = t_paymentApprovalAggregationParticipants s"
  "t_approvalPolicies (core s) = t_approvalPolicies s"
  "t_approvalSteps (core s) = t_approvalSteps s"
  by (simp_all add: core_def)

lemma core_request_requester: "request_requester (core s) = request_requester s"
  by (simp add: fun_eq_iff request_requester_def)

lemma core_lockApprovalPayment: "lockApprovalPayment (core s) org i = lockApprovalPayment s org i"
  by (simp add: lockApprovalPayment_def find_document_def core_request_requester)

lemma core_approval_lines: "approval_lines (core s) org i = approval_lines s org i"
  by (simp add: approval_lines_def)

lemma core_policies: "policies (core s) = policies s"
  by (simp add: fun_eq_iff policies_def policy_of_def policy_step_of_def Let_def)

lemma core_resolveContexts: "resolveContexts (core s) org payment lines basis = resolveContexts s org payment lines basis"
proof -
  have "resolve_context (core s) org payment basis = resolve_context s org payment basis"
    by (simp add: fun_eq_iff resolve_context_def core_policies)
  then show ?thesis by (simp add: resolveContexts_def Let_def)
qed

lemma core_matchingParticipants: "matchingParticipants (core s) = matchingParticipants s"
  by (simp add: fun_eq_iff matchingParticipants_def)

lemma core_aggregation: "aggregation (core s) org n = aggregation s org n"
  by (simp add: aggregation_def)

lemma core_aggregation_fresh: "aggregation_fresh (core s) org payment a = aggregation_fresh s org payment a"
  by (simp add: aggregation_fresh_def core_matchingParticipants)

lemma core_currentSteps: "currentSteps (core s) org n = currentSteps s org n"
  by (simp add: currentSteps_def snapshot_steps_def snapshot_actions_def)

lemma core_authority:
  "resolvePaymentAuthority env (core s) = resolvePaymentAuthority env s"
  by (simp only: access_part_permissions [OF core_access])

lemma core_snapshot_view: "snapshot_view (core s) org n = snapshot_view s org n"
  by (simp add: snapshot_view_def snapshot_actions_def snapshot_steps_def core_aggregation
    policy_context_views_def action_view_def core_labels Let_def)

lemma core_snapshotViews: "snapshotViewsForPayments (core s) = snapshotViewsForPayments s"
  by (simp add: fun_eq_iff snapshotViewsForPayments_def core_snapshot_view cong: option.case_cong)

section \<open>Frames\<close>

lemma ignores_checksD:
  "ignores_checks f \<Longrightarrow> f (s\<lparr>clock_reads := n\<rparr>) = f s"
  by (simp add: ignores_checks_def)

lemma keeps_core_lock [tx_frame]: "tx_keeps core (pg_advisory_xact_lock a b)"
  by (simp add: pg_advisory_xact_lock_def tx_keeps_def tx_inv core_def)

lemma keeps_idempotency_lock [tx_frame]: "tx_keeps t_idempotencyRecords (pg_advisory_xact_lock a b)"
  by (simp add: pg_advisory_xact_lock_def tx_keeps_def tx_inv)

lemma keeps_core_uuid [tx_frame]: "tx_keeps core (randomUUID env)"
  by (auto simp: tx_keeps_def randomUUID_Inr core_def)

lemma keeps_idempotency_uuid [tx_frame]: "tx_keeps t_idempotencyRecords (randomUUID env)"
  by (auto simp: tx_keeps_def randomUUID_Inr)

lemma keeps_replay_payment [tx_frame]: "tx_keeps f (replay_payment r d)"
  unfolding replay_payment_def by (cases "re_response r") (auto split: response.split intro: tx_frame)

lemma keeps_baseView [tx_frame]: "tx_keeps f (baseView org i)"
  unfolding baseView_def by (intro tx_frame)

lemma keeps_approval_view [tx_frame]: "tx_keeps f (approval_view org i)"
  unfolding approval_view_def by (intro tx_frame)

lemma keeps_assertApprovalAuthorized [tx_frame]:
  "tx_keeps f (assertApprovalAuthorized env org u view permission r b q)"
  unfolding assertApprovalAuthorized_def by (intro tx_frame)

lemma keeps_assertStepEligibility [tx_frame]: "tx_keeps f (assertStepEligibility c q step u a)"
  unfolding assertStepEligibility_def by (intro tx_frame)

lemma keeps_assertAggregationFresh [tx_frame]:
  "(\<And>a b. tx_keeps f (pg_advisory_xact_lock a b)) \<Longrightarrow> tx_keeps f (assertAggregationFresh org payment n)"
  unfolding assertAggregationFresh_def lockAggregation_def by ((intro tx_frame | assumption)+)

lemma keeps_action_guards:
  "(\<And>a b. tx_keeps f (pg_advisory_xact_lock a b)) \<Longrightarrow> tx_keeps f (action_guards env org u i dto v)"
  unfolding action_guards_def Let_def by ((intro tx_frame | assumption)+)

lemma keeps_replay_action [tx_frame]: "tx_keeps f (replay_action env org u i dto view)"
  unfolding replay_action_def Let_def by (intro tx_frame)

section \<open>Approval actions\<close>

text \<open>What a successful action has checked, as one condition on the database before it.\<close>

definition action_checked ::
  "env \<Rightarrow> 'z payment_db_scheme \<Rightarrow> uuid \<Rightarrow> uuid \<Rightarrow> uuid \<Rightarrow> payment_approval_action_dto \<Rightarrow> int
     \<Rightarrow> approval_payment \<Rightarrow> uuid \<Rightarrow> current_step list \<Rightarrow> payment_authority \<Rightarrow> bool" where
  "action_checked env s org actorUserId paymentId dto v payment snapshotId steps authority \<longleftrightarrow>
     (let step = target_step (aa_action dto) steps in
      lockApprovalPayment s org paymentId = Some payment
      \<and> yp_version payment = v
      \<and> (if aa_action dto = RETURN then yp_state payment \<in> {''APPROVAL_PENDING'', ''APPROVED''}
         else yp_state payment = ''APPROVAL_PENDING'')
      \<and> yp_currentApprovalSnapshotId payment = Some snapshotId
      \<and> (\<forall>a. aggregation s org snapshotId = Some a \<longrightarrow>
            ne_businessDate a = yp_businessDate payment
            \<and> ne_beneficiaryPartyId a = Some (yp_beneficiaryPartyId payment)
            \<and> aggregation_fresh s org payment a)
      \<and> currentSteps s org snapshotId = steps
      \<and> (steps = [] \<or> step \<noteq> None)
      \<and> (aa_action dto = RETURN \<or> open_step steps \<noteq> None)
      \<and> (\<exists>view. paymentView s org paymentId = Some view
            \<and> resolvePaymentAuthority env s org actorUserId (view_context view (yp_branchId payment))
                (action_permission (aa_action dto)) (Option.bind step co_roleId)
                (Option.bind step co_approverUserId) = Some authority)
      \<and> step_eligible (yp_creatorUserId payment) (yp_requesterUserId payment)
           (map_option (\<lambda>t. (co_approverUserId t, co_separationRules t)) step) actorUserId authority)"

lemma assertAggregationFresh_Inr:
  assumes "assertAggregationFresh org payment n s = Inr (u, s')"
    and "aggregation s org n = Some a"
  shows "ne_businessDate a = yp_businessDate payment
    \<and> ne_beneficiaryPartyId a = Some (yp_beneficiaryPartyId payment)
    \<and> aggregation_fresh s org payment a"
proof -
  obtain t where lock: "lockAggregation org (ne_businessDate a) (ne_keys a) (yp_beneficiaryPartyId payment) s
      = Inr ((), t)"
    and "ne_businessDate a = yp_businessDate payment"
      "ne_beneficiaryPartyId a = Some (yp_beneficiaryPartyId payment)"
    and "aggregation_fresh t org payment a"
    using assms by (auto simp: assertAggregationFresh_def tx_inv)
  moreover have "core t = core s"
    using lock tx_keepsD [OF keeps_core_lock] by (metis lockAggregation_def)
  ultimately show ?thesis by (metis core_aggregation_fresh)
qed

lemma assertApprovalAuthorized_Inr:
  "assertApprovalAuthorized env org u view permission r b q s = Inr (a, s') \<Longrightarrow>
     s' = s \<and> resolvePaymentAuthority env s org u (view_context view (effective_branch s org view b))
       permission r q = Some a"
  by (auto simp: assertApprovalAuthorized_def tx_inv split: option.splits)

lemma baseView_Inr: "baseView org i s = Inr (v, s') \<Longrightarrow> s' = s \<and> paymentView s org i = Some v"
  by (auto simp: baseView_def tx_inv split: option.splits)

lemma action_guards_Inr:
  fixes s s' :: "'z payment_db_scheme"
  assumes "action_guards env org u i dto v s = Inr ((n, steps, a), s')"
  shows "\<exists>payment. action_checked env s org u i dto v payment n steps a"
    and "core s' = core s"
proof -
  show c: "core s' = core s" by (rule tx_keepsD [OF keeps_action_guards [OF keeps_core_lock] assms])
  obtain payment where pay: "lockApprovalPayment s org i = Some payment"
    using assms by (auto simp: action_guards_def tx_inv split: option.splits)
  obtain t where pure: "yp_version payment = v"
      "if aa_action dto = RETURN then yp_state payment \<in> {''APPROVAL_PENDING'', ''APPROVED''}
         else yp_state payment = ''APPROVAL_PENDING''"
      "yp_currentApprovalSnapshotId payment = Some n"
    and agg: "assertAggregationFresh org payment n s = Inr ((), t)"
    and rest: "tx_bind (tx_read (\<lambda>s. currentSteps s org n)) (\<lambda>steps.
               (let step = target_step (aa_action dto) steps in
                tx_then (tx_guard (steps = [] \<or> step \<noteq> None) (Message ''STATE_CONFLICT''))
                (tx_then (tx_guard (aa_action dto = RETURN \<or> open_step steps \<noteq> None)
                  (Message ''STATE_CONFLICT''))
                (tx_bind (baseView org i) (\<lambda>view.
                (tx_bind (assertApprovalAuthorized env org u view
                    (action_permission (aa_action dto)) (Option.bind step co_roleId)
                    (Some (yp_branchId payment)) (Option.bind step co_approverUserId)) (\<lambda>authority.
                (tx_then (assertStepEligibility (yp_creatorUserId payment) (yp_requesterUserId payment)
                    (map_option (\<lambda>t. (co_approverUserId t, co_separationRules t)) step)
                    u authority)
                  (tx_return (n, steps, authority)))))))))) t = Inr ((n, steps, a), s')"
    using assms pay
    by (auto simp: action_guards_def tx_then_Inr tx_bind_Inr tx_read_Inr tx_guard_Inr tx_throw_Inr
        Let_def split: option.splits)
  have ct: "core t = core s" by (rule tx_keepsD [OF keeps_assertAggregationFresh [OF keeps_core_lock] agg])
  have r: "currentSteps t org n = currentSteps s org n" "paymentView t org i = paymentView s org i"
      "resolvePaymentAuthority env t = resolvePaymentAuthority env s"
    using ct core_currentSteps core_paymentView core_authority by metis+
  have steps: "currentSteps s org n = steps" "steps = [] \<or> target_step (aa_action dto) steps \<noteq> None"
      "aa_action dto = RETURN \<or> open_step steps \<noteq> None"
      "step_eligible (yp_creatorUserId payment) (yp_requesterUserId payment)
         (map_option (\<lambda>t. (co_approverUserId t, co_separationRules t))
           (target_step (aa_action dto) steps)) u a"
    using rest r(1) by (auto simp: tx_inv Let_def assertStepEligibility_def)
  have "\<exists>view. paymentView t org i = Some view
      \<and> resolvePaymentAuthority env t org u (view_context view (yp_branchId payment))
          (action_permission (aa_action dto)) (Option.bind (target_step (aa_action dto) steps) co_roleId)
          (Option.bind (target_step (aa_action dto) steps) co_approverUserId) = Some a"
    using rest r(1) steps(1)
    by (auto simp: tx_inv Let_def effective_branch_def assertStepEligibility_def
        dest!: baseView_Inr assertApprovalAuthorized_Inr)
  then show "\<exists>payment. action_checked env s org u i dto v payment n steps a"
    unfolding action_checked_def Let_def using pay pure steps r assertAggregationFresh_Inr [OF agg] by auto
qed


text \<open>What it writes: one action on the step and the document's next state; nothing else.\<close>

definition acted_document :: "str \<Rightarrow> instant \<Rightarrow> payment_document_row \<Rightarrow> payment_document_row" where
  "acted_document state moment d = d\<lparr>pd_state := state, pd_workflowState := state,
     pd_currentApprovalSnapshotId := (if state = ''DRAFT'' then None else pd_currentApprovalSnapshotId d),
     pd_version := pd_version d + 1, pd_updatedAt := moment\<rparr>"

definition acted ::
  "uuid \<Rightarrow> uuid \<Rightarrow> approval_action_row \<Rightarrow> str \<Rightarrow> 'z payment_db_scheme \<Rightarrow> 'z payment_db_scheme \<Rightarrow> bool" where
  "acted org paymentId row state s s' \<longleftrightarrow>
     approval_action_check row \<and> (\<forall>a \<in> set (t_paymentApprovalActions s). \<not> approval_action_clash row a)
     \<and> approval_action_refs s row
     \<and> (\<forall>d \<in> set (t_paymentDocuments s'). is_document org paymentId d \<longrightarrow> payment_document_check d)
     \<and> (\<exists>moment. core s' = core (s\<lparr>
          t_paymentApprovalActions := t_paymentApprovalActions s @ [row],
          t_paymentDocuments := update_where (is_document org paymentId) (acted_document state moment)
            (t_paymentDocuments s)\<rparr>))"

definition command_action ::
  "uuid \<Rightarrow> uuid \<Rightarrow> uuid \<Rightarrow> payment_approval_action_dto \<Rightarrow> current_step list \<Rightarrow> payment_authority
     \<Rightarrow> approval_action_row \<Rightarrow> bool" where
  "command_action org snapshotId actorUserId dto steps authority row \<longleftrightarrow>
     (let step = target_step (aa_action dto) steps in
      pc_organizationId row = org \<and> pc_approvalSnapshotId row = snapshotId
      \<and> pc_approvalSnapshotStepId row = map_option co_id step
      \<and> pc_stepOrder row = map_option co_order step
      \<and> pc_actorUserId row = actorUserId
      \<and> pc_delegatedFromUserId row = au_delegatedFromUserId authority
      \<and> pc_action row = action_name (aa_action dto)
      \<and> pc_reason row = map_option trim (aa_reason dto))"

lemma core_actions_refs: "approval_action_refs (core s) r = approval_action_refs s r"
  by (simp add: approval_action_refs_def Let_def cong: option.case_cong)

lemma is_document_acted [simp]:
  "is_document org i (acted_document state m d) = is_document org i d"
  by (simp add: is_document_def acted_document_def)

lemma act_writes_Inr:
  fixes s s' :: "'z payment_db_scheme"
  assumes "tx_then (insertAction env org n step u del action reason)
      (tx_then (completeAction env org i state) (approval_view org i)) s = Inr (view, s')"
  shows "\<exists>k. acted org i (action_row env k org n step u del action reason) state s s'"
    and "approval_view org i s' = Inr (view, s')"
proof -
  obtain s1 s2 where ins: "insertAction env org n step u del action reason s = Inr ((), s1)"
    and com: "completeAction env org i state s1 = Inr ((), s2)"
    and view: "approval_view org i s2 = Inr (view, s')"
    using assms by (auto simp: tx_then_Inr)
  have "s' = s2" by (rule tx_keepsD [OF keeps_approval_view [of id] view, simplified])
  then show "approval_view org i s' = Inr (view, s')" using view by simp
  let ?row = "action_row env (env_uuids env (uuids_drawn s)) org n step u del action reason"
  let ?t = "s\<lparr>uuids_drawn := uuids_drawn s + 1\<rparr>"
  have row: "approval_action_check ?row" "\<forall>a \<in> set (t_paymentApprovalActions s). \<not> approval_action_clash ?row a"
      "approval_action_refs ?t ?row"
    and s1: "s1 = t_paymentApprovalActions_update (\<lambda>rows. rows @ [?row]) ?t"
    using ins by (auto simp: insertAction_def tx_inv)
  have "core ?t = core s" by (simp add: core_def)
  then have refs: "approval_action_refs s ?row" using row(3) by (metis core_actions_refs)
  let ?m = "env_clock env (clock_reads s1)"
  have docs: "\<forall>d \<in> set (t_paymentDocuments s). is_document org i d \<longrightarrow> payment_document_check (acted_document state ?m d)"
    and s2: "s2 = t_paymentDocuments_update (update_where (is_document org i) (acted_document state ?m))
      (s1\<lparr>clock_reads := clock_reads s1 + 1\<rparr>)"
    using com s1 by (auto simp: completeAction_def tx_inv acted_document_def [abs_def])
  have "core s' = core (s\<lparr>t_paymentApprovalActions := t_paymentApprovalActions s @ [?row],
      t_paymentDocuments := update_where (is_document org i) (acted_document state ?m) (t_paymentDocuments s)\<rparr>)"
    unfolding \<open>s' = s2\<close> s2 s1 by (simp add: core_def)
  moreover have "\<forall>d \<in> set (t_paymentDocuments s'). is_document org i d \<longrightarrow> payment_document_check d"
    unfolding \<open>s' = s2\<close> s2 using docs by (auto simp: set_update_where s1)
  ultimately show "\<exists>k. acted org i (action_row env k org n step u del action reason) state s s'"
    unfolding acted_def using row refs by blast
qed

lemma act_fresh_Inr:
  fixes s s' :: "'z payment_db_scheme"
  assumes "act_fresh env org u i dto v s = Inr (view, s')"
  obtains payment n steps a row where "action_checked env s org u i dto v payment n steps a"
    and "command_action org n u dto steps a row"
    and "acted org i row (next_state (aa_action dto) steps) s s'"
    and "approval_view org i s' = Inr (view, s')"
proof -
  obtain n steps a t where g: "action_guards env org u i dto v s = Inr ((n, steps, a), t)"
    and w: "tx_then (insertAction env org n (target_step (aa_action dto) steps) u
          (au_delegatedFromUserId a) (action_name (aa_action dto)) (map_option trim (aa_reason dto)))
        (tx_then (completeAction env org i (next_state (aa_action dto) steps)) (approval_view org i)) t
        = Inr (view, s')"
    using assms by (auto simp: act_fresh_def tx_bind_Inr split: prod.splits)
  obtain payment where chk: "action_checked env s org u i dto v payment n steps a"
    using action_guards_Inr(1) [OF g] by blast
  have ct: "core t = core s" by (rule action_guards_Inr(2) [OF g])
  obtain k where acted: "acted org i (action_row env k org n (target_step (aa_action dto) steps) u
      (au_delegatedFromUserId a) (action_name (aa_action dto)) (map_option trim (aa_reason dto)))
      (next_state (aa_action dto) steps) t s'" (is "acted org i ?row ?st t s'")
    using act_writes_Inr(1) [OF w] by blast
  have same: "t_paymentApprovalActions t = t_paymentApprovalActions s"
      "t_paymentDocuments t = t_paymentDocuments s"
    using ct core_reads by metis+
  have upd: "core (t\<lparr>t_paymentApprovalActions := A, t_paymentDocuments := B\<rparr>)
      = core (s\<lparr>t_paymentApprovalActions := A, t_paymentDocuments := B\<rparr>)" for A B
  proof -
    have "core (r\<lparr>t_paymentApprovalActions := A, t_paymentDocuments := B\<rparr>)
        = (core r)\<lparr>t_paymentApprovalActions := A, t_paymentDocuments := B\<rparr>" for r :: "'z payment_db_scheme"
      by (simp add: core_def)
    then show ?thesis using ct by simp
  qed
  have "acted org i ?row ?st s s'"
    using acted ct core_actions_refs [of t ?row] core_actions_refs [of s ?row]
    unfolding acted_def same upd by simp
  moreover have "command_action org n u dto steps a ?row"
    by (simp add: command_action_def action_row_def Let_def)
  ultimately show ?thesis using that chk act_writes_Inr(2) [OF w] by blast
qed


lemma approval_view_core:
  assumes "core s' = core s" and "approval_view org i s = Inr (view, t)"
  shows "approval_view org i s' = Inr (view, s')"
proof -
  have "paymentView s' org i = paymentView s org i"
    "snapshotViewsForPayments s' = snapshotViewsForPayments s"
    using assms(1) core_paymentView core_snapshotViews by metis+
  then show ?thesis
    using assms(2) by (auto simp: approval_view_def baseView_def tx_inv split: option.splits)
qed

lemma acted_core:
  fixes s s' :: "'z payment_db_scheme"
  assumes "acted org i row state s1 s2" and "core s1 = core s" and "core s' = core s2"
  shows "acted org i row state s s'"
proof -
  have same: "t_paymentApprovalActions s1 = t_paymentApprovalActions s"
      "t_paymentDocuments s1 = t_paymentDocuments s" "t_paymentDocuments s' = t_paymentDocuments s2"
    using assms(2,3) core_reads by metis+
  have "core (r\<lparr>t_paymentApprovalActions := A, t_paymentDocuments := B\<rparr>)
      = (core r)\<lparr>t_paymentApprovalActions := A, t_paymentDocuments := B\<rparr>" for r :: "'z payment_db_scheme" and A B
    by (simp add: core_def)
  then have upd: "core (s1\<lparr>t_paymentApprovalActions := A, t_paymentDocuments := B\<rparr>)
      = core (s\<lparr>t_paymentApprovalActions := A, t_paymentDocuments := B\<rparr>)" for A B
    using assms(2) by simp
  show ?thesis
    using assms(1,3) core_actions_refs [of s1 row] core_actions_refs [of s row]
    unfolding acted_def same upd by (simp add: assms(2))
qed

lemma action_checked_core:
  assumes "core s1 = core s"
  shows "action_checked env s1 org u i dto v payment n steps a = action_checked env s org u i dto v payment n steps a"
proof -
  have "lockApprovalPayment s1 org i = lockApprovalPayment s org i"
    "aggregation s1 org n = aggregation s org n" "currentSteps s1 org n = currentSteps s org n"
    "paymentView s1 org i = paymentView s org i"
    "resolvePaymentAuthority env s1 = resolvePaymentAuthority env s"
    using assms core_lockApprovalPayment core_aggregation core_currentSteps core_paymentView core_authority
    by metis+
  moreover have "aggregation_fresh s1 org payment g = aggregation_fresh s org payment g" for g
    using assms core_aggregation_fresh by metis
  ultimately show ?thesis by (simp add: action_checked_def Let_def)
qed

lemma keeps_act_fresh [tx_frame]: "tx_keeps t_idempotencyRecords (act_fresh env org u i dto v)"
proof -
  have ins: "tx_keeps t_idempotencyRecords (insertAction env org n step u del action reason)" for n step u del action reason
    by (auto simp: insertAction_def tx_keeps_def tx_inv)
  have com: "tx_keeps t_idempotencyRecords (completeAction env org i state)" for state
    by (auto simp: completeAction_def tx_keeps_def tx_inv)
  show ?thesis
    unfolding act_fresh_def
    by (intro tx_frame keeps_action_guards ins com)
qed

abbreviation act_key :: "uuid \<Rightarrow> uuid \<Rightarrow> uuid \<Rightarrow> str \<Rightarrow> idempotency_key" where
  "act_key \<equiv> approval_scope ''actOnPaymentApproval''"

abbreviation submit_key :: "uuid \<Rightarrow> uuid \<Rightarrow> uuid \<Rightarrow> str \<Rightarrow> idempotency_key" where
  "submit_key \<equiv> approval_scope ''submitPayment''"

lemma act_Inr:
  assumes "act env org u i dto key etag rid s = (Inr view, s')"
  obtains v d where "is_uuid i" and "check_action dto = Inr ()" and "ifMatch etag = Inr v"
    and "act_tx env org u i dto key v d s = Inr (view, s')" and "commit_guards s s'"
  using assms
  by (auto simp: act_def rethrow_Inr transaction_Inr committed_Inr res_bind_Inr res_guard_def
      split: sum.splits if_splits)

text \<open>A successful first action, and a successful action in general.\<close>

lemma act_done:
  assumes "act env org u i dto key etag rid s = (Inr view, s')"
    and "findIdempotency (act_key org u i key) s = None"
  obtains v payment n steps a row where "ifMatch etag = Inr v" and "check_action dto = Inr ()"
    and "action_checked env s org u i dto v payment n steps a"
    and "command_action org n u dto steps a row"
    and "acted org i row (next_state (aa_action dto) steps) s s'"
    and "approval_view org i s' = Inr (view, s')"
proof -
  obtain v d where v: "ifMatch etag = Inr v" "check_action dto = Inr ()"
    and run: "act_tx env org u i dto key v d s = Inr (view, s')"
    using act_Inr [OF assms(1)] .
  obtain s1 s2 where c: "core s1 = core s" "core s' = core s2"
    and fr: "act_fresh env org u i dto v s1 = Inr (view, s2)"
    using once_tx_fresh [OF run [unfolded act_tx_once] assms(2) keeps_act_fresh] .
  obtain payment n steps a row where chk: "action_checked env s1 org u i dto v payment n steps a"
    and cmd: "command_action org n u dto steps a row"
    and acted: "acted org i row (next_state (aa_action dto) steps) s1 s2"
    and view: "approval_view org i s2 = Inr (view, s2)"
    using act_fresh_Inr [OF fr] .
  show ?thesis
    by (rule that [OF v action_checked_core [OF c(1), THEN iffD1, OF chk] cmd
          acted_core [OF acted c] approval_view_core [OF c(2) view]])
qed

lemma act_cases:
  assumes "act env org u i dto key etag rid s = (r, s')"
  obtains "core s' = core s"
  | v payment n steps a row where "action_checked env s org u i dto v payment n steps a"
      and "command_action org n u dto steps a row"
      and "acted org i row (next_state (aa_action dto) steps) s s'"
proof (cases r)
  case (Inl e)
  then have "s' = s"
    using assms by (auto simp: act_def rethrow_Inl transaction_Inl split: sum.splits prod.splits)
  then show ?thesis using that(1) by simp
next
  case (Inr view)
  then obtain v d where run: "act_tx env org u i dto key v d s = Inr (view, s')"
    using act_Inr [OF assms [unfolded Inr]] by metis
  show ?thesis
  proof (cases "findIdempotency (act_key org u i key) s")
    case None
    then show ?thesis using act_done [OF assms [unfolded Inr]] that(2) by metis
  next
    case (Some p)
    have "tx_bind (replay_payment p d) (replay_action env org u i dto)
        (lock_recorded (act_key org u i key) s) = Inr (view, s')"
      using run unfolding act_tx_once once_tx_replay [OF Some] .
    moreover have "tx_keeps core (tx_bind (replay_payment p d) (replay_action env org u i dto))"
      by (intro tx_frame)
    ultimately have "core s' = core (lock_recorded (act_key org u i key) s)" by (rule tx_keepsD [rotated])
    then show ?thesis by (intro that(1)) (simp add: lock_recorded_reads)
  qed
qed

end
