(* ===== verification/Tables.thy ===== *)
theory Tables
  imports Payment_Constraints
begin

text \<open>
  The interface between a statement and the table it writes: a read and an update of the
  database that fit together. It gives what a batch of inserts leaves behind and when the
  unique indexes of a table are preserved, once for every table.
\<close>

definition unclashed :: "('r \<Rightarrow> 'r \<Rightarrow> bool) \<Rightarrow> 'r list \<Rightarrow> bool" where
  "unclashed clash rows \<longleftrightarrow> sorted_wrt (\<lambda>r r'. \<not> clash r' r) rows"

lemma unclashed_Nil [simp]: "unclashed clash []"
  by (simp add: unclashed_def)

lemma unclashed_append:
  "unclashed clash (xs @ ys) \<longleftrightarrow> unclashed clash xs \<and> unclashed clash ys
     \<and> (\<forall>x \<in> set xs. \<forall>y \<in> set ys. \<not> clash y x)"
  by (simp add: unclashed_def sorted_wrt_append)

lemma unclashed_Cons:
  "unclashed clash (x # xs) \<longleftrightarrow> (\<forall>y \<in> set xs. \<not> clash y x) \<and> unclashed clash xs"
  by (simp add: unclashed_def)

lemma unclashed_map:
  assumes "unclashed clash rows" and "\<And>r r'. clash (g r') (g r) \<Longrightarrow> clash r' r"
  shows "unclashed clash (map g rows)"
  using assms unfolding unclashed_def by (induction rows) auto

text \<open>An update that leaves the indexed columns alone preserves the indexes.\<close>

lemma unclashed_update_where:
  assumes "unclashed clash rows"
    and "\<And>r r'. clash (f r) r' = clash r r'" and "\<And>r r'. clash r (f r') = clash r r'"
  shows "unclashed clash (update_where p f rows)"
  unfolding update_where_def by (rule unclashed_map [OF assms(1)]) (auto simp: assms(2,3) split: if_splits)

text \<open>In a table with a unique key, the rows of a key are one row.\<close>

lemma unclashed_key:
  assumes "unclashed clash rows" and "x \<in> set rows" and "y \<in> set rows"
    and "clash x y" and "clash y x"
  shows "x = y"
  using assms unfolding unclashed_def by (induction rows) auto

lemma unclashed_filter: "unclashed clash rows \<Longrightarrow> unclashed clash (filter p rows)"
  unfolding unclashed_def by (rule sorted_wrt_filter)

lemma unclashed_distinct:
  assumes "unclashed clash rows"
    and "\<And>r r'. r \<in> set rows \<Longrightarrow> r' \<in> set rows \<Longrightarrow> key r = key r' \<Longrightarrow> clash r' r"
  shows "distinct (map key rows)"
  using assms
proof (induction rows)
  case Nil
  then show ?case by simp
next
  case (Cons x xs)
  have "key x \<noteq> key y" if "y \<in> set xs" for y
    using Cons.prems(1) Cons.prems(2) [of x y] that by (auto simp: unclashed_Cons)
  then show ?case using Cons by (auto simp: unclashed_Cons)
qed

lemma distinct_order_by: "distinct (map f (order_by k rows)) \<longleftrightarrow> distinct (map f rows)"
proof -
  have "mset (map f (order_by k rows)) = mset (map f rows)" by (simp add: mset_map)
  then show ?thesis by (rule mset_eq_imp_distinct_iff)
qed

lemma sorted_order_by: "sorted (map k (order_by k rows))"
  by (simp add: order_by_def)

locale table =
  fixes get :: "'s \<Rightarrow> 'r list" and upd :: "('r list \<Rightarrow> 'r list) \<Rightarrow> 's \<Rightarrow> 's"
  assumes get_upd: "get (upd f s) = f (get s)"
    and upd_upd: "upd f (upd g s) = upd (f \<circ> g) s"
    and upd_id: "upd (\<lambda>rows. rows) s = s"
begin

lemma inserts:
  assumes "tx_for xs (\<lambda>x. tx_insert check clash refs get upd (row x)) s = Inr (u, s')"
  shows "s' = upd (\<lambda>rows. rows @ map row xs) s
    \<and> (\<forall>x \<in> set xs. check (row x) \<and> (\<exists>rows. refs (upd (\<lambda>rs. rs @ rows) s) (row x)))
    \<and> (\<forall>x \<in> set xs. \<forall>r \<in> set (get s). \<not> clash (row x) r)
    \<and> unclashed clash (map row xs)"
  using assms
proof (induction xs arbitrary: s)
  case Nil
  then show ?case by (simp add: tx_return_Inr upd_id)
next
  case (Cons x xs)
  let ?s = "upd (\<lambda>rows. rows @ [row x]) s"
  have x: "check (row x)" "\<forall>r \<in> set (get s). \<not> clash (row x) r" "refs s (row x)"
    and xs: "tx_for xs (\<lambda>x. tx_insert check clash refs get upd (row x)) ?s = Inr (u, s')"
    using Cons.prems by (auto simp: tx_then_Inr tx_insert_Inr)
  note IH = Cons.IH [OF xs]
  have grow: "upd (\<lambda>rs. rs @ rows) ?s = upd (\<lambda>rs. rs @ (row x # rows)) s" for rows
    by (simp add: upd_upd comp_def)
  have "upd (\<lambda>rs. rs @ []) s = s" by (simp add: upd_id)
  then have "\<exists>rows. refs (upd (\<lambda>rs. rs @ rows) s) (row x)" using x(3) by metis
  moreover have "\<forall>y \<in> set xs. check (row y) \<and> (\<exists>rows. refs (upd (\<lambda>rs. rs @ rows) s) (row y))"
    using IH unfolding grow by blast
  ultimately show ?case
    using x IH by (auto simp: get_upd unclashed_Cons grow)
qed

lemmas inserts_Inr = inserts [THEN conjunct1] inserts [THEN conjunct2, THEN conjunct1]
  inserts [THEN conjunct2, THEN conjunct2, THEN conjunct1]
  inserts [THEN conjunct2, THEN conjunct2, THEN conjunct2]

lemma keeps_unique:
  assumes "tx_for xs (\<lambda>x. tx_insert check clash refs get upd (row x)) s = Inr (u, s')"
    and "unclashed clash (get s)"
  shows "unclashed clash (get s')"
  using inserts_Inr [OF assms(1)] assms(2) by (auto simp: get_upd unclashed_append)

end

text \<open>The tables of the payment module are such tables.\<close>

interpretation documents: table t_paymentDocuments t_paymentDocuments_update
  by unfold_locales simp_all

interpretation lines: table t_paymentLines t_paymentLines_update
  by unfold_locales simp_all

interpretation line_links: table t_paymentLineAttachmentLinks t_paymentLineAttachmentLinks_update
  by unfold_locales simp_all

interpretation request_links: table t_paymentRequestAttachmentLinks t_paymentRequestAttachmentLinks_update
  by unfold_locales simp_all

interpretation snapshot_contexts: table t_paymentApprovalSnapshotContexts t_paymentApprovalSnapshotContexts_update
  by unfold_locales simp_all

interpretation snapshot_steps: table t_paymentApprovalSnapshotSteps t_paymentApprovalSnapshotSteps_update
  by unfold_locales simp_all

end
