(* ===== verification/Submission_Facts.thy ===== *)
theory Submission_Facts
  imports Approval_Facts Tables
begin

text \<open>
  What a successful submission has checked and written: the draft's version, the authority,
  the revalidated rates, the governing policies and, where they aggregate, the other live
  payments of the day; then the snapshot with its contexts, steps and aggregation.
\<close>

section \<open>Frames\<close>

lemma core_paymentFacts: "paymentFacts (core s) = paymentFacts s"
  by (simp add: fun_eq_iff paymentFacts_def rate_facts_def branch_fact_def unit_fact_of_def
    user_fact_def evidenceFacts_def method_fact_of_def cashbox_fact_of_def core_def Let_def)

lemma keeps_derive [tx_frame]:
  "(\<And>env. tx_keeps f (randomUUID env)) \<Longrightarrow> tx_keeps f (derive env dto facts now)"
  unfolding derive_def by ((intro tx_frame | assumption)+)

lemma keeps_derive_now [tx_frame]:
  "(\<And>env. tx_keeps f (randomUUID env)) \<Longrightarrow> (\<And>env. tx_keeps f (newDate env)) \<Longrightarrow>
     tx_keeps f (derive_now env org u dto)"
  unfolding derive_now_def by (intro keeps_bind keeps_read keeps_return keeps_derive)

lemma keeps_revalidateSubmission [tx_frame]:
  "(\<And>env. tx_keeps f (randomUUID env)) \<Longrightarrow> (\<And>env. tx_keeps f (newDate env)) \<Longrightarrow>
     tx_keeps f (revalidateSubmission env org view)"
  unfolding revalidateSubmission_def
  by (intro keeps_bind keeps_then keeps_option keeps_guard keeps_lift keeps_throw keeps_derive_now)

lemma keeps_submission_guards:
  "(\<And>env. tx_keeps f (randomUUID env)) \<Longrightarrow> (\<And>env. tx_keeps f (newDate env)) \<Longrightarrow>
     tx_keeps f (submission_guards env org u i v)"
  unfolding submission_guards_def
  by (intro keeps_bind keeps_then keeps_option keeps_guard keeps_read keeps_throw keeps_return
    keeps_baseView keeps_assertApprovalAuthorized keeps_revalidateSubmission)

lemma keeps_aggregate_basis:
  "(\<And>a b. tx_keeps f (pg_advisory_xact_lock a b)) \<Longrightarrow>
     tx_keeps f (aggregate_basis env org payment lines provisional config)"
  unfolding aggregate_basis_def lockAggregation_def Let_def by ((intro tx_frame | assumption)+)

lemma keeps_approval_basis:
  "(\<And>a b. tx_keeps f (pg_advisory_xact_lock a b)) \<Longrightarrow> tx_keeps f (approval_basis env org payment lines)"
  unfolding approval_basis_def
  by (intro keeps_bind keeps_option keeps_read keeps_lift keeps_return keeps_aggregate_basis)

lemma keeps_core_newDate: "tx_keeps core (newDate env)"
  by (rule keeps_newDate [OF ignores_core])

lemma keeps_idempotency_newDate: "tx_keeps t_idempotencyRecords (newDate env)"
  by (auto simp: tx_keeps_def newDate_Inr)

section \<open>The guards\<close>

definition submission_checked ::
  "env \<Rightarrow> 'z payment_db_scheme \<Rightarrow> uuid \<Rightarrow> uuid \<Rightarrow> uuid \<Rightarrow> int
     \<Rightarrow> approval_payment \<Rightarrow> approval_line list \<Rightarrow> payment_view \<Rightarrow> bool" where
  "submission_checked env s org actorUserId paymentId v payment lines view \<longleftrightarrow>
     lockApprovalPayment s org paymentId = Some payment
     \<and> yp_state payment = ''DRAFT'' \<and> yp_version payment = v
     \<and> paymentView s org paymentId = Some view
     \<and> resolvePaymentAuthority env s org actorUserId (view_context view (yp_branchId payment))
         ''payment.submit'' None None \<noteq> None
     \<and> (\<exists>t t'. core t = core s \<and> revalidateSubmission env org view t = Inr ((), t'))
     \<and> approval_lines s org paymentId = lines \<and> lines \<noteq> []
     \<and> (\<forall>l \<in> set lines. yl_methodState l = ''ACTIVE'')"

lemma submission_guards_Inr:
  fixes s s' :: "'z payment_db_scheme"
  assumes "submission_guards env org u i v s = Inr ((payment, lines), s')"
  shows "\<exists>view. submission_checked env s org u i v payment lines view"
    and "core s' = core s"
proof -
  show "core s' = core s"
    by (rule tx_keepsD [OF keeps_submission_guards [OF keeps_core_uuid keeps_core_newDate] assms])
  obtain view a t where r: "lockApprovalPayment s org i = Some payment" "yp_state payment = ''DRAFT''"
      "yp_version payment = v" "paymentView s org i = Some view"
      "resolvePaymentAuthority env s org u (view_context view (yp_branchId payment))
         ''payment.submit'' None None = Some a"
    and reval: "revalidateSubmission env org view s = Inr ((), t)"
    and lines: "approval_lines t org i = lines" "lines \<noteq> []" "list_all (\<lambda>l. yl_methodState l = ''ACTIVE'') lines"
    using assms
    by (auto simp: submission_guards_def tx_then_Inr tx_bind_Inr tx_read_Inr tx_guard_Inr tx_throw_Inr
        tx_return_Inr effective_branch_def split: option.splits
        dest!: baseView_Inr assertApprovalAuthorized_Inr)
  have "core t = core s"
    by (rule tx_keepsD [OF keeps_revalidateSubmission [OF keeps_core_uuid keeps_core_newDate] reval])
  then have "approval_lines s org i = lines" using lines(1) core_approval_lines by metis
  then have "submission_checked env s org u i v payment lines view"
    unfolding submission_checked_def using r reval lines by (auto simp: list_all_iff)
  then show "\<exists>view. submission_checked env s org u i v payment lines view" by blast
qed

text \<open>
  The basis of an approval: the contexts govern the amount judged, and the amount is the total,
  or the sum of the payment with the other live payments of the day to the beneficiary.
\<close>

definition basis_ok ::
  "env \<Rightarrow> 'z payment_db_scheme \<Rightarrow> uuid \<Rightarrow> approval_payment \<Rightarrow> approval_line list
     \<Rightarrow> approval_context list \<Rightarrow> str \<Rightarrow> aggregation_evidence option \<Rightarrow> bool" where
  "basis_ok env s org payment lines contexts amountBasis evidence \<longleftrightarrow>
     (\<exists>provisional config.
        resolveContexts s org payment lines (yp_totalBaseAmount payment) = Inr provisional
        \<and> aggregationConfig provisional = Inr config
        \<and> (case config of
             None \<Rightarrow> contexts = provisional \<and> amountBasis = yp_totalBaseAmount payment \<and> evidence = None
           | Some (windowKind, keys) \<Rightarrow>
               windowKind = ''BUSINESS_DATE'' \<and> ''BENEFICIARY'' \<in> set keys
               \<and> ''EXTERNAL_OBLIGATION'' \<notin> set keys
               \<and> resolveContexts s org payment lines amountBasis = Inr contexts
               \<and> contextSignature contexts = contextSignature provisional
               \<and> (\<exists>e. evidence = Some e
                  \<and> ne_businessDate e = yp_businessDate payment \<and> ne_keys e = keys
                  \<and> ne_beneficiaryPartyId e = Some (yp_beneficiaryPartyId payment)
                  \<and> amountBasis = sumAmounts (map np_baseAmount (ne_participants e))
                  \<and> ne_participants e = sort_by (\<lambda>l r. he_localeCompare env (np_paymentId l) (np_paymentId r))
                      (own_participant payment (yp_version payment + 1) # map live_participant
                        (matchingParticipants s org (yp_businessDate payment)
                          (yp_beneficiaryPartyId payment) (yp_id payment))))))"

lemma aggregate_basis_Inr:
  fixes s s' :: "'z payment_db_scheme"
  assumes "aggregate_basis env org payment lines provisional (w, keys) s = Inr ((cs, amount, ev), s')"
    and "resolveContexts s org payment lines (yp_totalBaseAmount payment) = Inr provisional"
    and "aggregationConfig provisional = Inr (Some (w, keys))"
  shows "basis_ok env s org payment lines cs amount ev"
proof -
  obtain t where lock: "lockAggregation org (yp_businessDate payment) keys (yp_beneficiaryPartyId payment) s
      = Inr ((), t)"
    using assms(1) by (auto simp: aggregate_basis_def tx_then_Inr tx_guard_Inr)
  have c: "core t = core s" by (rule tx_keepsD [OF keeps_core_lock lock [unfolded lockAggregation_def]])
  have r: "resolveContexts t org payment lines b = resolveContexts s org payment lines b"
    "matchingParticipants t = matchingParticipants s" for b
    using c core_resolveContexts core_matchingParticipants by metis+
  show ?thesis
    using assms lock
    by (auto simp: aggregate_basis_def tx_then_Inr tx_bind_Inr tx_guard_Inr
        tx_read_Inr tx_lift_Inr tx_return_Inr Let_def r basis_ok_def)
qed

lemma approval_basis_Inr:
  fixes s s' :: "'z payment_db_scheme"
  assumes "approval_basis env org payment lines s = Inr ((cs, amount, ev), s')"
  shows "basis_ok env s org payment lines cs amount ev" and "core s' = core s"
proof -
  show "core s' = core s"
    by (rule tx_keepsD [OF keeps_approval_basis [OF keeps_core_lock] assms])
  obtain provisional config where p: "resolveContexts s org payment lines (yp_totalBaseAmount payment) = Inr provisional"
    and c: "aggregationConfig provisional = Inr config"
    and rest: "(case config of None \<Rightarrow> tx_return (provisional, yp_totalBaseAmount payment, None)
        | Some c \<Rightarrow> aggregate_basis env org payment lines provisional c) s = Inr ((cs, amount, ev), s')"
    using assms by (auto simp: approval_basis_def tx_bind_Inr tx_read_Inr tx_lift_Inr)
  show "basis_ok env s org payment lines cs amount ev"
  proof (cases config)
    case None
    then show ?thesis using p c rest by (auto simp: basis_ok_def tx_return_Inr)
  next
    case (Some k)
    then obtain w keys where "config = Some (w, keys)" by (cases k) auto
    then show ?thesis using aggregate_basis_Inr [of env org payment lines provisional w keys s cs amount ev s'] p c rest
      by simp
  qed
qed


section \<open>The writes\<close>

definition submitted_document :: "uuid \<Rightarrow> str \<Rightarrow> instant \<Rightarrow> payment_document_row \<Rightarrow> payment_document_row" where
  "submitted_document snapshotId state moment d = d\<lparr>pd_state := state, pd_workflowState := state,
     pd_currentApprovalSnapshotId := Some snapshotId, pd_version := pd_version d + 1,
     pd_updatedAt := moment\<rparr>"

definition submitted_state :: "composed_step list \<Rightarrow> str" where
  "submitted_state steps = (if steps = [] then ''APPROVED'' else ''APPROVAL_PENDING'')"

text \<open>The rows of an aggregation: its own and one per payment added up, at its amount.\<close>

definition aggregated :: "uuid \<Rightarrow> uuid \<Rightarrow> aggregation_evidence option \<Rightarrow> approval_aggregation_row list
     \<Rightarrow> aggregation_participant_row list \<Rightarrow> bool" where
  "aggregated org n evidence gs ps \<longleftrightarrow>
     (case evidence of None \<Rightarrow> gs = [] \<and> ps = []
      | Some e \<Rightarrow> gs = [aggregation_row org n e] \<and> ne_participants e \<noteq> []
          \<and> list_all2 (\<lambda>p r. \<exists>amount. pg_numeric 8 (np_baseAmount p) = Inr amount
                \<and> r = participant_row org n p amount) (ne_participants e) ps)"

definition submitted ::
  "uuid \<Rightarrow> approval_payment \<Rightarrow> approval_context list \<Rightarrow> str \<Rightarrow> aggregation_evidence option
     \<Rightarrow> composed_step list \<Rightarrow> uuid \<Rightarrow> 'z payment_db_scheme \<Rightarrow> 'z payment_db_scheme \<Rightarrow> bool" where
  "submitted org payment contexts amountBasis evidence steps n s s' \<longleftrightarrow>
     (\<forall>x \<in> set (t_paymentApprovalSnapshots s). ps_id x \<noteq> n)
     \<and> (\<forall>t \<in> set steps. snapshot_step_check (step_row org n t)
          \<and> (\<forall>r \<in> set (t_paymentApprovalSnapshotSteps s). \<not> snapshot_step_clash (step_row org n t) r))
     \<and> unclashed snapshot_step_clash (map (step_row org n) steps)
     \<and> (\<forall>d \<in> set (t_paymentDocuments s'). is_document org (yp_id payment) d \<longrightarrow> payment_document_check d)
     \<and> (\<exists>basis evaluatedAt moment gs ps.
          pg_numeric 8 amountBasis = Inr basis
          \<and> approval_snapshot_check (snapshot_row org payment n (yp_version payment + 1) basis evaluatedAt)
          \<and> aggregated org n evidence gs ps
          \<and> core s' = core (s\<lparr>
              t_paymentApprovalSnapshots := t_paymentApprovalSnapshots s
                @ [snapshot_row org payment n (yp_version payment + 1) basis evaluatedAt],
              t_paymentApprovalSnapshotContexts := t_paymentApprovalSnapshotContexts s
                @ map (context_row org n) contexts,
              t_paymentApprovalSnapshotSteps := t_paymentApprovalSnapshotSteps s
                @ map (step_row org n) steps,
              t_paymentApprovalAggregations := t_paymentApprovalAggregations s @ gs,
              t_paymentApprovalAggregationParticipants := t_paymentApprovalAggregationParticipants s @ ps,
              t_paymentDocuments := update_where (is_document org (yp_id payment))
                (submitted_document n (submitted_state steps) moment) (t_paymentDocuments s)\<rparr>))"

lemma submitted_core:
  fixes s s' :: "'z payment_db_scheme"
  assumes "submitted org payment contexts amount evidence steps n s1 s2"
    and "core s1 = core s" and "core s' = core s2"
  shows "submitted org payment contexts amount evidence steps n s s'"
proof -
  have same: "t_paymentApprovalSnapshots s1 = t_paymentApprovalSnapshots s"
      "t_paymentApprovalSnapshotContexts s1 = t_paymentApprovalSnapshotContexts s"
      "t_paymentApprovalSnapshotSteps s1 = t_paymentApprovalSnapshotSteps s"
      "t_paymentApprovalAggregations s1 = t_paymentApprovalAggregations s"
      "t_paymentApprovalAggregationParticipants s1 = t_paymentApprovalAggregationParticipants s"
      "t_paymentDocuments s1 = t_paymentDocuments s" "t_paymentDocuments s' = t_paymentDocuments s2"
    using assms(2,3) core_reads core_approval_reads by metis+
  have "core (r\<lparr>t_paymentApprovalSnapshots := A, t_paymentApprovalSnapshotContexts := B,
      t_paymentApprovalSnapshotSteps := C, t_paymentApprovalAggregations := D,
      t_paymentApprovalAggregationParticipants := E, t_paymentDocuments := F\<rparr>)
      = (core r)\<lparr>t_paymentApprovalSnapshots := A, t_paymentApprovalSnapshotContexts := B,
      t_paymentApprovalSnapshotSteps := C, t_paymentApprovalAggregations := D,
      t_paymentApprovalAggregationParticipants := E, t_paymentDocuments := F\<rparr>"
    for r :: "'z payment_db_scheme" and A B C D E F
    by (simp add: core_def)
  then have upd: "core (s1\<lparr>t_paymentApprovalSnapshots := A, t_paymentApprovalSnapshotContexts := B,
      t_paymentApprovalSnapshotSteps := C, t_paymentApprovalAggregations := D,
      t_paymentApprovalAggregationParticipants := E, t_paymentDocuments := F\<rparr>)
      = core (s\<lparr>t_paymentApprovalSnapshots := A, t_paymentApprovalSnapshotContexts := B,
      t_paymentApprovalSnapshotSteps := C, t_paymentApprovalAggregations := D,
      t_paymentApprovalAggregationParticipants := E, t_paymentDocuments := F\<rparr>)" for A B C D E F
    using assms(2) by simp
  show ?thesis using assms(1) unfolding submitted_def same assms(3) upd .
qed

lemma insert_participant_Inr:
  assumes "insert_participant org n e s = Inr (u, s')"
  shows "\<exists>amount. pg_numeric 8 (np_baseAmount e) = Inr amount
    \<and> s' = s\<lparr>t_paymentApprovalAggregationParticipants :=
        t_paymentApprovalAggregationParticipants s @ [participant_row org n e amount]\<rparr>"
  using assms by (auto simp: insert_participant_def tx_bind_Inr tx_lift_Inr tx_insert_Inr)

lemma insert_participants_Inr:
  assumes "tx_for es (insert_participant org n) s = Inr (u, s')"
  shows "\<exists>ps. s' = s\<lparr>t_paymentApprovalAggregationParticipants :=
      t_paymentApprovalAggregationParticipants s @ ps\<rparr>
    \<and> list_all2 (\<lambda>p r. \<exists>amount. pg_numeric 8 (np_baseAmount p) = Inr amount
        \<and> r = participant_row org n p amount) es ps"
  using assms
proof (induction es arbitrary: s)
  case Nil
  then show ?case by (simp add: tx_return_Inr)
next
  case (Cons e es)
  then obtain v s1 where "insert_participant org n e s = Inr (v, s1)"
    and run: "tx_for es (insert_participant org n) s1 = Inr (u, s')" by (auto simp: tx_then_Inr)
  then obtain amount where amount: "pg_numeric 8 (np_baseAmount e) = Inr amount"
    and s1: "s1 = s\<lparr>t_paymentApprovalAggregationParticipants :=
        t_paymentApprovalAggregationParticipants s @ [participant_row org n e amount]\<rparr>"
    using insert_participant_Inr by blast
  from Cons.IH [OF run] obtain ps where "s' = s\<lparr>t_paymentApprovalAggregationParticipants :=
      t_paymentApprovalAggregationParticipants s @ participant_row org n e amount # ps\<rparr>"
    and "list_all2 (\<lambda>p r. \<exists>amount. pg_numeric 8 (np_baseAmount p) = Inr amount
        \<and> r = participant_row org n p amount) es ps" by (auto simp: s1)
  then show ?case using amount by (intro exI [of _ "participant_row org n e amount # ps"]) auto
qed

lemma insertAggregation_Inr:
  assumes "(case evidence of None \<Rightarrow> tx_return () | Some a \<Rightarrow> insert_aggregation org n a) s = Inr (u, s')"
  shows "\<exists>gs ps. aggregated org n evidence gs ps
    \<and> s' = s\<lparr>t_paymentApprovalAggregations := t_paymentApprovalAggregations s @ gs,
        t_paymentApprovalAggregationParticipants := t_paymentApprovalAggregationParticipants s @ ps\<rparr>"
proof (cases evidence)
  case None
  then show ?thesis using assms by (intro exI [of _ "[]"]) (simp add: aggregated_def tx_return_Inr)
next
  case (Some a)
  let ?s = "s\<lparr>t_paymentApprovalAggregations := t_paymentApprovalAggregations s @ [aggregation_row org n a]\<rparr>"
  have eq: "t_paymentApprovalAggregations_update (\<lambda>rows. rows @ [aggregation_row org n a]) s = ?s"
    by simp
  have ne: "ne_participants a \<noteq> []"
    and run: "tx_for (ne_participants a) (insert_participant org n) ?s = Inr (u, s')"
    unfolding eq [symmetric] using assms Some by (auto simp: insert_aggregation_def tx_then_Inr tx_insert_Inr tx_guard_Inr)
  from insert_participants_Inr [OF run] obtain ps where
    "s' = ?s\<lparr>t_paymentApprovalAggregationParticipants := t_paymentApprovalAggregationParticipants ?s @ ps\<rparr>"
    and "list_all2 (\<lambda>p r. \<exists>amount. pg_numeric 8 (np_baseAmount p) = Inr amount
        \<and> r = participant_row org n p amount) (ne_participants a) ps" by blast
  then show ?thesis using Some ne
    by (intro exI [of _ "[aggregation_row org n a]"] exI [of _ ps]) (simp add: aggregated_def)
qed


lemma insertSnapshot_Inr:
  fixes s s' :: "'z payment_db_scheme"
  assumes "insertSnapshot org payment n version amount moment contexts steps evidence s = Inr (u, s')"
  obtains basis gs ps where "pg_numeric 8 amount = Inr basis"
    and "approval_snapshot_check (snapshot_row org payment n version basis moment)"
    and "\<forall>x \<in> set (t_paymentApprovalSnapshots s). ps_id x \<noteq> n"
    and "\<forall>t \<in> set steps. snapshot_step_check (step_row org n t)
          \<and> (\<forall>r \<in> set (t_paymentApprovalSnapshotSteps s). \<not> snapshot_step_clash (step_row org n t) r)"
    and "unclashed snapshot_step_clash (map (step_row org n) steps)"
    and "aggregated org n evidence gs ps"
    and "s' = s\<lparr>
        t_paymentApprovalSnapshots := t_paymentApprovalSnapshots s @ [snapshot_row org payment n version basis moment],
        t_paymentApprovalSnapshotContexts := t_paymentApprovalSnapshotContexts s @ map (context_row org n) contexts,
        t_paymentApprovalSnapshotSteps := t_paymentApprovalSnapshotSteps s @ map (step_row org n) steps,
        t_paymentApprovalAggregations := t_paymentApprovalAggregations s @ gs,
        t_paymentApprovalAggregationParticipants := t_paymentApprovalAggregationParticipants s @ ps\<rparr>"
proof -
  obtain basis s1 s2 s3 where basis: "pg_numeric 8 amount = Inr basis"
    and 1: "tx_insert approval_snapshot_check approval_snapshot_clash approval_snapshot_refs
       t_paymentApprovalSnapshots t_paymentApprovalSnapshots_update
       (snapshot_row org payment n version basis moment) s = Inr ((), s1)"
    and 2: "tx_for contexts (\<lambda>c. tx_insert snapshot_context_check snapshot_context_clash
       snapshot_context_refs t_paymentApprovalSnapshotContexts t_paymentApprovalSnapshotContexts_update
       (context_row org n c)) s1 = Inr ((), s2)"
    and 3: "tx_for steps (\<lambda>c. tx_insert snapshot_step_check snapshot_step_clash
       snapshot_step_refs t_paymentApprovalSnapshotSteps t_paymentApprovalSnapshotSteps_update
       (step_row org n c)) s2 = Inr ((), s3)"
    and 4: "(case evidence of None \<Rightarrow> tx_return () | Some a \<Rightarrow> insert_aggregation org n a) s3 = Inr (u, s')"
    using assms by (auto simp: insertSnapshot_def tx_bind_Inr tx_lift_Inr tx_then_Inr)
  let ?row = "snapshot_row org payment n version basis moment"
  have s1: "s1 = t_paymentApprovalSnapshots_update (\<lambda>rows. rows @ [?row]) s"
    and row: "approval_snapshot_check ?row" "\<forall>x \<in> set (t_paymentApprovalSnapshots s). ps_id x \<noteq> n"
    using 1 by (auto simp: tx_insert_Inr approval_snapshot_clash_def snapshot_row_def)
  note s2 = snapshot_contexts.inserts_Inr(1) [OF 2]
  note s3 = snapshot_steps.inserts_Inr [OF 3]
  obtain gs ps where agg: "aggregated org n evidence gs ps"
    and s': "s' = s3\<lparr>t_paymentApprovalAggregations := t_paymentApprovalAggregations s3 @ gs,
        t_paymentApprovalAggregationParticipants := t_paymentApprovalAggregationParticipants s3 @ ps\<rparr>"
    using insertAggregation_Inr [OF 4] by blast
  have steps: "t_paymentApprovalSnapshotSteps s2 = t_paymentApprovalSnapshotSteps s"
    unfolding s2 s1 by simp
  show ?thesis
  proof (rule that [OF basis row])
    show "\<forall>t \<in> set steps. snapshot_step_check (step_row org n t)
          \<and> (\<forall>r \<in> set (t_paymentApprovalSnapshotSteps s). \<not> snapshot_step_clash (step_row org n t) r)"
      using s3(2,3) steps by simp
    show "unclashed snapshot_step_clash (map (step_row org n) steps)" by (rule s3(4))
    show "aggregated org n evidence gs ps" by (rule agg)
    show "s' = s\<lparr>
        t_paymentApprovalSnapshots := t_paymentApprovalSnapshots s @ [?row],
        t_paymentApprovalSnapshotContexts := t_paymentApprovalSnapshotContexts s @ map (context_row org n) contexts,
        t_paymentApprovalSnapshotSteps := t_paymentApprovalSnapshotSteps s @ map (step_row org n) steps,
        t_paymentApprovalAggregations := t_paymentApprovalAggregations s @ gs,
        t_paymentApprovalAggregationParticipants := t_paymentApprovalAggregationParticipants s @ ps\<rparr>"
      unfolding s' s3(1) s2 s1 by simp
  qed
qed

lemma keeps_composeSteps [tx_frame]:
  "(\<And>env. tx_keeps f (randomUUID env)) \<Longrightarrow> tx_keeps f (composeSteps env contexts)"
  unfolding composeSteps_def composed_step_of_def Let_def by ((intro tx_frame | assumption)+)

lemma is_document_submitted [simp]:
  "is_document org i (submitted_document n state m d) = is_document org i d"
  by (simp add: is_document_def submitted_document_def)

lemma submission_writes_Inr:
  fixes s s' :: "'z payment_db_scheme"
  assumes "submission_writes env org payment (contexts, amount, evidence) s = Inr (u, s')"
  obtains steps n where "\<exists>t t'. composeSteps env contexts (t :: 'z payment_db_scheme) = Inr (steps, t')"
    and "yp_requesterUserId payment \<noteq> None
      \<or> (\<forall>t \<in> set steps. ''REQUESTER_NOT_APPROVER'' \<notin> set (co_separationRules t))"
    and "submitted org payment contexts amount evidence steps n s s'"
proof -
  obtain steps s1 s2 s3 s4 n moment where comp: "composeSteps env contexts s = Inr (steps, s1)"
    and req: "yp_requesterUserId payment \<noteq> None
      \<or> (\<forall>t \<in> set steps. ''REQUESTER_NOT_APPROVER'' \<notin> set (co_separationRules t))"
    and 2: "randomUUID env s1 = Inr (n, s2)" and 3: "newDate env s2 = Inr (moment, s3)"
    and 4: "insertSnapshot org payment n (yp_version payment + 1) amount moment contexts steps evidence s3 = Inr ((), s4)"
    and 5: "completeSubmission env org (yp_id payment) n (submitted_state steps) s4 = Inr (u, s')"
    using assms unfolding submission_writes_def submitted_state_def prod.case tx_bind_Inr tx_then_Inr tx_guard_Inr
    by auto
  have c3: "core s3 = core s"
    using tx_keepsD [OF keeps_composeSteps [OF keeps_core_uuid] comp] tx_keepsD [OF keeps_core_uuid 2]
      tx_keepsD [OF keeps_core_newDate 3] by simp
  let ?m = "env_clock env (clock_reads s4)"
  have s': "s' = t_paymentDocuments_update (update_where (is_document org (yp_id payment))
      (submitted_document n (submitted_state steps) ?m)) (s4\<lparr>clock_reads := clock_reads s4 + 1\<rparr>)"
    and chk: "\<forall>d \<in> set (t_paymentDocuments s4). is_document org (yp_id payment) d \<longrightarrow>
      payment_document_check (submitted_document n (submitted_state steps) ?m d)"
    using 5 by (auto simp: completeSubmission_def tx_inv submitted_document_def [abs_def])
  obtain basis gs ps where b: "pg_numeric 8 amount = Inr basis"
      "approval_snapshot_check (snapshot_row org payment n (yp_version payment + 1) basis moment)"
      "\<forall>x \<in> set (t_paymentApprovalSnapshots s3). ps_id x \<noteq> n"
      "\<forall>t \<in> set steps. snapshot_step_check (step_row org n t)
          \<and> (\<forall>r \<in> set (t_paymentApprovalSnapshotSteps s3). \<not> snapshot_step_clash (step_row org n t) r)"
      "unclashed snapshot_step_clash (map (step_row org n) steps)" "aggregated org n evidence gs ps"
    and s4: "s4 = s3\<lparr>
        t_paymentApprovalSnapshots := t_paymentApprovalSnapshots s3
          @ [snapshot_row org payment n (yp_version payment + 1) basis moment],
        t_paymentApprovalSnapshotContexts := t_paymentApprovalSnapshotContexts s3 @ map (context_row org n) contexts,
        t_paymentApprovalSnapshotSteps := t_paymentApprovalSnapshotSteps s3 @ map (step_row org n) steps,
        t_paymentApprovalAggregations := t_paymentApprovalAggregations s3 @ gs,
        t_paymentApprovalAggregationParticipants := t_paymentApprovalAggregationParticipants s3 @ ps\<rparr>"
    using insertSnapshot_Inr [OF 4] .
  have "submitted org payment contexts amount evidence steps n s3 s'"
    unfolding submitted_def
  proof (intro conjI exI)
    show "\<forall>d \<in> set (t_paymentDocuments s'). is_document org (yp_id payment) d \<longrightarrow> payment_document_check d"
      unfolding s' using chk by (auto simp: set_update_where)
    show "core s' = core (s3\<lparr>
              t_paymentApprovalSnapshots := t_paymentApprovalSnapshots s3
                @ [snapshot_row org payment n (yp_version payment + 1) basis moment],
              t_paymentApprovalSnapshotContexts := t_paymentApprovalSnapshotContexts s3
                @ map (context_row org n) contexts,
              t_paymentApprovalSnapshotSteps := t_paymentApprovalSnapshotSteps s3
                @ map (step_row org n) steps,
              t_paymentApprovalAggregations := t_paymentApprovalAggregations s3 @ gs,
              t_paymentApprovalAggregationParticipants := t_paymentApprovalAggregationParticipants s3 @ ps,
              t_paymentDocuments := update_where (is_document org (yp_id payment))
                (submitted_document n (submitted_state steps) ?m) (t_paymentDocuments s3)\<rparr>)"
      unfolding s' s4 by (simp add: core_def)
  qed (use b in simp_all)
  then have "submitted org payment contexts amount evidence steps n s s'"
    by (rule submitted_core [OF _ c3 refl])
  then show ?thesis using that comp req by blast
qed


section \<open>A submission\<close>

lemma keeps_idempotency_appends:
  "(\<And>g s. t_idempotencyRecords (upd g s) = t_idempotencyRecords s) \<Longrightarrow>
     tx_keeps t_idempotencyRecords (tx_insert check clash refs get upd r)"
  by (auto simp: tx_keeps_def tx_insert_Inr)

lemma keeps_submit_fresh [tx_frame]: "tx_keeps t_idempotencyRecords (submit_fresh env org u i v)"
proof -
  have com: "tx_keeps t_idempotencyRecords (completeSubmission env org i n st)" for i n st
    by (auto simp: completeSubmission_def tx_keeps_def tx_inv)
  have snap: "tx_keeps t_idempotencyRecords (insertSnapshot org payment n v b m cs steps ev)"
    for payment n v b m cs steps ev
    unfolding insertSnapshot_def insert_aggregation_def insert_participant_def
    by (intro tx_frame keeps_idempotency_appends) simp_all
  show ?thesis
    unfolding submit_fresh_def submission_writes_def
    by (intro tx_frame keeps_submission_guards keeps_approval_basis keeps_idempotency_newDate com snap)
qed

definition submission_allowed ::
  "env \<Rightarrow> 'z payment_db_scheme \<Rightarrow> uuid \<Rightarrow> uuid \<Rightarrow> uuid \<Rightarrow> int \<Rightarrow> approval_payment
     \<Rightarrow> approval_context list \<Rightarrow> str \<Rightarrow> aggregation_evidence option \<Rightarrow> composed_step list \<Rightarrow> bool" where
  "submission_allowed env s org actorUserId paymentId v payment contexts amountBasis evidence steps \<longleftrightarrow>
     (\<exists>lines view. submission_checked env s org actorUserId paymentId v payment lines view
        \<and> basis_ok env s org payment lines contexts amountBasis evidence)
     \<and> (\<exists>t t' :: 'z payment_db_scheme. composeSteps env contexts t = Inr (steps, t'))
     \<and> (yp_requesterUserId payment \<noteq> None
        \<or> (\<forall>t \<in> set steps. ''REQUESTER_NOT_APPROVER'' \<notin> set (co_separationRules t)))"

lemma submission_checked_core:
  fixes s s1 :: "'z payment_db_scheme"
  assumes "core s1 = core s"
  shows "submission_checked env s1 org u i v payment lines view
    = submission_checked env s org u i v payment lines view"
proof -
  have "lockApprovalPayment s1 org i = lockApprovalPayment s org i"
    "paymentView s1 org i = paymentView s org i" "approval_lines s1 org i = approval_lines s org i"
    "resolvePaymentAuthority env s1 = resolvePaymentAuthority env s"
    using assms core_lockApprovalPayment core_paymentView core_approval_lines core_authority by metis+
  then show ?thesis by (simp add: submission_checked_def assms)
qed

lemma basis_ok_core:
  assumes "core s1 = core s"
  shows "basis_ok env s1 org payment lines cs amount ev = basis_ok env s org payment lines cs amount ev"
proof -
  have "resolveContexts s1 org payment lines b = resolveContexts s org payment lines b"
    "matchingParticipants s1 = matchingParticipants s" for b
    using assms core_resolveContexts core_matchingParticipants by metis+
  then show ?thesis by (simp add: basis_ok_def cong: option.case_cong)
qed

lemma submit_fresh_Inr:
  fixes s s' :: "'z payment_db_scheme"
  assumes "submit_fresh env org u i v s = Inr (view, s')"
  obtains payment contexts amount evidence steps n where
    "submission_allowed env s org u i v payment contexts amount evidence steps"
    and "submitted org payment contexts amount evidence steps n s s'"
    and "approval_view org i s' = Inr (view, s')"
proof -
  obtain payment lines contexts amount evidence s1 s2 s3 where
    g: "submission_guards env org u i v s = Inr ((payment, lines), s1)"
    and b: "approval_basis env org payment lines s1 = Inr ((contexts, amount, evidence), s2)"
    and w: "submission_writes env org payment (contexts, amount, evidence) s2 = Inr ((), s3)"
    and view: "approval_view org i s3 = Inr (view, s')"
    using assms by (auto simp: submit_fresh_def tx_bind_Inr tx_then_Inr)
  have s': "s' = s3" by (rule tx_keepsD [OF keeps_approval_view [of id] view, simplified])
  have c: "core s1 = core s" "core s2 = core s"
    using submission_guards_Inr(2) [OF g] approval_basis_Inr(2) [OF b] by simp_all
  obtain seen where "submission_checked env s org u i v payment lines seen"
    using submission_guards_Inr(1) [OF g] by blast
  moreover have "basis_ok env s org payment lines contexts amount evidence"
    using approval_basis_Inr(1) [OF b] by (simp add: basis_ok_core [OF c(1)])
  moreover obtain steps n where "\<exists>t t'. composeSteps env contexts (t :: 'z payment_db_scheme) = Inr (steps, t')"
    and "yp_requesterUserId payment \<noteq> None
      \<or> (\<forall>t \<in> set steps. ''REQUESTER_NOT_APPROVER'' \<notin> set (co_separationRules t))"
    and sub: "submitted org payment contexts amount evidence steps n s2 s3"
    using submission_writes_Inr [OF w] .
  ultimately have "submission_allowed env s org u i v payment contexts amount evidence steps"
    unfolding submission_allowed_def by blast
  moreover have "submitted org payment contexts amount evidence steps n s s'"
    by (rule submitted_core [OF sub c(2)]) (simp add: s')
  ultimately show ?thesis using that view s' by blast
qed

lemma submission_allowed_core:
  fixes s s1 :: "'z payment_db_scheme"
  assumes "core s1 = core s"
  shows "submission_allowed env s1 org u i v payment cs amount ev steps
    = submission_allowed env s org u i v payment cs amount ev steps"
  by (simp add: submission_allowed_def submission_checked_core [OF assms] basis_ok_core [OF assms])

lemma submit_Inr:
  assumes "submit env org u i key etag rid s = (Inr view, s')"
  obtains v d where "is_uuid i" and "ifMatch etag = Inr v"
    and "submit_tx env org u i key v d s = Inr (view, s')" and "commit_guards s s'"
  using assms
  by (auto simp: submit_def rethrow_Inr transaction_Inr committed_Inr res_bind_Inr res_guard_def
      split: sum.splits if_splits)

lemma submit_done:
  fixes s s' :: "'z payment_db_scheme"
  assumes "submit env org u i key etag rid s = (Inr view, s')"
    and "findIdempotency (submit_key org u i key) s = None"
  obtains v payment contexts amount evidence steps n where "ifMatch etag = Inr v"
    and "submission_allowed env s org u i v payment contexts amount evidence steps"
    and "submitted org payment contexts amount evidence steps n s s'"
    and "approval_view org i s' = Inr (view, s')"
proof -
  obtain v d where v: "ifMatch etag = Inr v" and run: "submit_tx env org u i key v d s = Inr (view, s')"
    using submit_Inr [OF assms(1)] .
  obtain s1 s2 where c: "core s1 = core s" "core s' = core s2"
    and fr: "submit_fresh env org u i v s1 = Inr (view, s2)"
    using once_tx_fresh [OF run [unfolded submit_tx_once] assms(2) keeps_submit_fresh] .
  obtain payment contexts amount evidence steps n where
    ok: "submission_allowed env s1 org u i v payment contexts amount evidence steps"
    and sub: "submitted org payment contexts amount evidence steps n s1 s2"
    and view: "approval_view org i s2 = Inr (view, s2)"
    using submit_fresh_Inr [OF fr] .
  show ?thesis
    by (rule that [OF v submission_allowed_core [OF c(1), THEN iffD1, OF ok]
          submitted_core [OF sub c] approval_view_core [OF c(2) view]])
qed

lemma submit_cases:
  fixes s s' :: "'z payment_db_scheme"
  assumes "submit env org u i key etag rid s = (r, s')"
  obtains "core s' = core s"
  | v payment contexts amount evidence steps n where
      "submission_allowed env s org u i v payment contexts amount evidence steps"
      and "submitted org payment contexts amount evidence steps n s s'"
proof (cases r)
  case (Inl e)
  then have "s' = s"
    using assms by (auto simp: submit_def rethrow_Inl transaction_Inl split: sum.splits prod.splits)
  then show ?thesis using that(1) by simp
next
  case (Inr view)
  then obtain v d where run: "submit_tx env org u i key v d s = Inr (view, s')"
    using submit_Inr [OF assms [unfolded Inr]] by metis
  show ?thesis
  proof (cases "findIdempotency (submit_key org u i key) s")
    case None
    then show ?thesis using submit_done [OF assms [unfolded Inr]] that(2) by metis
  next
    case (Some p)
    let ?work = "tx_bind (replay_payment p d) (\<lambda>view. tx_then (assertApprovalAuthorized env org u view
        ''payment.submit'' None None None) (tx_return view)) :: ('z payment_db_scheme, payment_view) tx"
    have "?work (lock_recorded (submit_key org u i key) s) = Inr (view, s')"
      using run unfolding submit_tx_once once_tx_replay [OF Some] .
    moreover have "tx_keeps core ?work" by (intro tx_frame)
    ultimately have "core s' = core (lock_recorded (submit_key org u i key) s)" by (rule tx_keepsD [rotated])
    then show ?thesis by (intro that(1)) (simp add: lock_recorded_reads)
  qed
qed

end
