(* ===== verification/Draft_Facts.thy ===== *)
theory Draft_Facts
  imports Submission_Facts
begin

text \<open>
  What a successful \<open>create\<close> and \<open>createRequest\<close> have checked and written: the derived lines and
  their total, one document in state DRAFT with its lines and evidence links, the counter of
  the day; a request touches no payment.
\<close>

section \<open>The derivation\<close>

lemma tx_map_all2:
  assumes "tx_map h xs s = Inr (ys, s')"
    and "\<And>x s y s'. x \<in> set xs \<Longrightarrow> h x s = Inr (y, s') \<Longrightarrow> P x y"
  shows "list_all2 P xs ys"
  using assms
proof (induction xs arbitrary: s ys)
  case Nil
  then show ?case by (simp add: tx_return_Inr)
next
  case (Cons x xs)
  then obtain y s1 zs where "h x s = Inr (y, s1)" "tx_map h xs s1 = Inr (zs, s')" "ys = y # zs"
    by (auto simp: tx_bind_Inr tx_return_Inr)
  then show ?case using Cons by auto
qed

text \<open>A derived line is a line of the body with its method, rate and base amount.\<close>

definition derives ::
  "payment_create \<Rightarrow> create_facts \<Rightarrow> nat \<Rightarrow> instant \<Rightarrow> payment_line_input \<Rightarrow> derived_line \<times> int \<Rightarrow> bool" where
  "derives dto facts baseScale now line d \<longleftrightarrow>
     dl_input (fst d) = line
     \<and> line_derivation dto facts baseScale now line
       = Inr (dl_method (fst d), dl_rate (fst d), dl_baseAmount (fst d), snd d)"

definition derived_ok ::
  "payment_create \<Rightarrow> create_facts \<Rightarrow> instant \<Rightarrow> derived_line list \<times> str \<Rightarrow> bool" where
  "derived_ok dto facts now derived \<longleftrightarrow>
     (\<exists>baseScale ds. derive_checks dto facts = Inr baseScale
        \<and> list_all2 (derives dto facts baseScale now) (cr_lines dto) ds
        \<and> fst derived = map fst ds
        \<and> snd derived = formatScaled (sum_list (map snd ds)) baseScale)"

lemma derive_Inr:
  fixes s s' :: "'z payment_db_scheme"
  assumes "derive env dto facts now s = Inr (derived, s')"
  shows "derived_ok dto facts now derived"
proof -
  obtain baseScale ds s1 where checks: "derive_checks dto facts = Inr baseScale"
    and map: "tx_map (\<lambda>line.
         tx_bind (tx_lift (line_derivation dto facts baseScale now line)) (\<lambda>d.
         tx_bind (randomUUID env) (\<lambda>i.
         (case d of (method, rate, baseAmount, units) \<Rightarrow> tx_return
           (\<lparr>dl_id = i, dl_input = line, dl_method = method, dl_baseAmount = baseAmount,
             dl_rate = rate\<rparr>, units))))) (cr_lines dto) s = Inr (ds, s1)"
    and r: "derived = (map fst ds, formatScaled (sum_list (map snd ds)) baseScale)"
    using assms by (auto simp: derive_def tx_bind_Inr tx_lift_Inr tx_return_Inr)
  have "list_all2 (derives dto facts baseScale now) (cr_lines dto) ds"
    by (rule tx_map_all2 [OF map])
       (auto simp: derives_def tx_bind_Inr tx_lift_Inr tx_return_Inr randomUUID_Inr split: prod.splits)
  then show ?thesis using checks r by (auto simp: derived_ok_def)
qed

lemma derive_now_Inr:
  fixes s s' :: "'z payment_db_scheme"
  assumes "derive_now env org u dto s = Inr ((facts, derived), s')"
  shows "facts = paymentFacts s org u dto" and "\<exists>now. derived_ok dto facts now derived"
    and "core s' = core s"
proof -
  show "core s' = core s"
    by (rule tx_keepsD [OF keeps_derive_now [OF keeps_core_uuid keeps_core_newDate] assms])
  show "facts = paymentFacts s org u dto" "\<exists>now. derived_ok dto facts now derived"
    using assms by (auto simp: derive_now_def tx_bind_Inr tx_read_Inr tx_return_Inr dest: derive_Inr)
qed

section \<open>The writes\<close>

definition created ::
  "env \<Rightarrow> uuid \<Rightarrow> uuid \<Rightarrow> uuid \<Rightarrow> payment_create \<Rightarrow> derived_line list \<times> str \<Rightarrow> str
     \<Rightarrow> 'z payment_db_scheme \<Rightarrow> 'z payment_db_scheme \<Rightarrow> bool" where
  "created env org actorUserId i dto derived businessNumber s s' \<longleftrightarrow>
     (\<exists>total ls links counters.
        pg_numeric 8 (snd derived) = Inr total
        \<and> (let d = document_row env i org businessNumber actorUserId total dto in
           payment_document_check d
           \<and> (\<forall>x \<in> set (t_paymentDocuments s). \<not> payment_document_clash d x)
           \<and> fst derived \<noteq> []
           \<and> list_all2 (\<lambda>l r. \<exists>amounts. line_amounts l = Inr amounts
                \<and> r = line_row env i org (cr_baseCurrency dto) l amounts) (fst derived) ls
           \<and> core s' = core (s\<lparr>
               t_paymentNumberCounters := counters,
               t_paymentDocuments := t_paymentDocuments s @ [d],
               t_paymentLines := t_paymentLines s @ ls,
               t_paymentLineAttachmentLinks := t_paymentLineAttachmentLinks s @ links\<rparr>)))"

lemma insert_line_Inr:
  "insert_line env i org c l s = Inr (u, s') \<Longrightarrow> \<exists>amounts. line_amounts l = Inr amounts
     \<and> s' = s\<lparr>t_paymentLines := t_paymentLines s @ [line_row env i org c l amounts]\<rparr>"
  by (auto simp: insert_line_def tx_bind_Inr tx_lift_Inr tx_insert_Inr)

lemma insert_derived_lines_Inr:
  assumes "tx_for ds (insert_line env i org c) s = Inr (u, s')"
  shows "\<exists>ls. s' = s\<lparr>t_paymentLines := t_paymentLines s @ ls\<rparr>
    \<and> list_all2 (\<lambda>l r. \<exists>amounts. line_amounts l = Inr amounts
        \<and> r = line_row env i org c l amounts) ds ls"
  using assms
proof (induction ds arbitrary: s)
  case Nil
  then show ?case by (simp add: tx_return_Inr)
next
  case (Cons d ds)
  then obtain v s1 where "insert_line env i org c d s = Inr (v, s1)"
    and run: "tx_for ds (insert_line env i org c) s1 = Inr (u, s')" by (auto simp: tx_then_Inr)
  then obtain amounts where amounts: "line_amounts d = Inr amounts"
    and s1: "s1 = s\<lparr>t_paymentLines := t_paymentLines s @ [line_row env i org c d amounts]\<rparr>"
    using insert_line_Inr by blast
  from Cons.IH [OF run] obtain ls where
    "s' = s\<lparr>t_paymentLines := t_paymentLines s @ line_row env i org c d amounts # ls\<rparr>"
    and "list_all2 (\<lambda>l r. \<exists>amounts. line_amounts l = Inr amounts
        \<and> r = line_row env i org c l amounts) ds ls" by (auto simp: s1)
  then show ?case using amounts
    by (intro exI [of _ "line_row env i org c d amounts # ls"]) (auto simp del: split_paired_Ex)
qed


text \<open>Only the number of the payment depends on the counter of the day.\<close>

lemma nextPaymentNumber_counters:
  "nextPaymentNumber org day s = Inr (n, s') \<Longrightarrow>
     \<exists>counters. s' = s\<lparr>t_paymentNumberCounters := counters\<rparr>"
  by (rule exI [of _ "t_paymentNumberCounters s'"]) (auto simp: nextPaymentNumber_def Let_def)

lemma keeps_core_links:
  assumes "tx_for rows (\<lambda>r. tx_insert (\<lambda>_. True) line_attachment_clash line_attachment_refs
      t_paymentLineAttachmentLinks t_paymentLineAttachmentLinks_update r) s = Inr (u, s')"
  shows "s' = s\<lparr>t_paymentLineAttachmentLinks := t_paymentLineAttachmentLinks s @ rows\<rparr>"
proof -
  have "s' = t_paymentLineAttachmentLinks_update (\<lambda>rs. rs @ map (\<lambda>r. r) rows) s"
    by (rule line_links.inserts_Inr(1) [OF assms])
  also have "\<dots> = s\<lparr>t_paymentLineAttachmentLinks := t_paymentLineAttachmentLinks s @ rows\<rparr>" by simp
  finally show ?thesis .
qed

lemma insertPayment_Inr:
  fixes s s' :: "'z payment_db_scheme"
  assumes "insertPayment env i org businessNumber u dto amount lines s = Inr (view, s')"
  obtains total ls where "pg_numeric 8 amount = Inr total"
    and "payment_document_check (document_row env i org businessNumber u total dto)"
    and "\<forall>x \<in> set (t_paymentDocuments s).
      \<not> payment_document_clash (document_row env i org businessNumber u total dto) x"
    and "lines \<noteq> []"
    and "list_all2 (\<lambda>l r. \<exists>amounts. line_amounts l = Inr amounts
        \<and> r = line_row env i org (cr_baseCurrency dto) l amounts) lines ls"
    and "s' = s\<lparr>t_paymentDocuments := t_paymentDocuments s @ [document_row env i org businessNumber u total dto],
        t_paymentLines := t_paymentLines s @ ls,
        t_paymentLineAttachmentLinks := t_paymentLineAttachmentLinks s @ concat (map (line_links env org) lines)\<rparr>"
    and "paymentView s' org i = Some view"
proof -
  obtain total s1 s2 s3 where total: "pg_numeric 8 amount = Inr total" and ne: "lines \<noteq> []"
    and 1: "tx_insert payment_document_check payment_document_clash payment_document_refs
       t_paymentDocuments t_paymentDocuments_update
       (document_row env i org businessNumber u total dto) s = Inr ((), s1)"
    and 2: "tx_for lines (insert_line env i org (cr_baseCurrency dto)) s1 = Inr ((), s2)"
    and 3: "tx_for (concat (map (line_links env org) lines)) (\<lambda>r.
       tx_insert (\<lambda>_. True) line_attachment_clash line_attachment_refs
         t_paymentLineAttachmentLinks t_paymentLineAttachmentLinks_update r) s2 = Inr ((), s3)"
    and view: "paymentView s3 org i = Some view" and s': "s' = s3"
    using assms by (auto simp: insertPayment_def tx_bind_Inr tx_lift_Inr tx_then_Inr tx_guard_Inr tx_read_Inr
        tx_return_Inr tx_throw_Inr split: option.splits)
  let ?d = "document_row env i org businessNumber u total dto"
  have d: "payment_document_check ?d" "\<forall>x \<in> set (t_paymentDocuments s). \<not> payment_document_clash ?d x"
    and s1: "s1 = t_paymentDocuments_update (\<lambda>rows. rows @ [?d]) s"
    using 1 by (auto simp: tx_insert_Inr)
  obtain ls where ls: "list_all2 (\<lambda>l r. \<exists>amounts. line_amounts l = Inr amounts
        \<and> r = line_row env i org (cr_baseCurrency dto) l amounts) lines ls"
    and s2: "s2 = s1\<lparr>t_paymentLines := t_paymentLines s1 @ ls\<rparr>"
    using insert_derived_lines_Inr [OF 2] by blast
  have "s' = s\<lparr>t_paymentDocuments := t_paymentDocuments s @ [?d],
        t_paymentLines := t_paymentLines s @ ls,
        t_paymentLineAttachmentLinks := t_paymentLineAttachmentLinks s @ concat (map (line_links env org) lines)\<rparr>"
    unfolding s' keeps_core_links [OF 3] s2 s1 by simp
  then show ?thesis using that total d ne ls view s' by blast
qed

lemma core_created:
  fixes s s1 :: "'z payment_db_scheme"
  assumes "core s1 = core s"
  shows "created env org u i dto derived num s1 t = created env org u i dto derived num s t"
proof -
  have same: "t_paymentDocuments s1 = t_paymentDocuments s" "t_paymentLines s1 = t_paymentLines s"
      "t_paymentLineAttachmentLinks s1 = t_paymentLineAttachmentLinks s"
    using assms core_reads by metis+
  have "core (r\<lparr>t_paymentNumberCounters := C, t_paymentDocuments := A, t_paymentLines := B,
      t_paymentLineAttachmentLinks := D\<rparr>) = (core r)\<lparr>t_paymentNumberCounters := C,
      t_paymentDocuments := A, t_paymentLines := B, t_paymentLineAttachmentLinks := D\<rparr>"
    for r :: "'z payment_db_scheme" and A B C D
    by (simp add: core_def)
  then have "core (s1\<lparr>t_paymentNumberCounters := C, t_paymentDocuments := A, t_paymentLines := B,
      t_paymentLineAttachmentLinks := D\<rparr>) = core (s\<lparr>t_paymentNumberCounters := C,
      t_paymentDocuments := A, t_paymentLines := B, t_paymentLineAttachmentLinks := D\<rparr>)" for A B C D
    using assms by simp
  then show ?thesis unfolding created_def same by simp
qed

definition creation_checked ::
  "env \<Rightarrow> 'z payment_db_scheme \<Rightarrow> uuid \<Rightarrow> uuid \<Rightarrow> payment_create \<Rightarrow> derived_line list \<times> str \<Rightarrow> bool" where
  "creation_checked env s org actorUserId dto derived \<longleftrightarrow>
     (let facts = paymentFacts s org actorUserId dto in
      (\<exists>now. derived_ok dto facts now derived)
      \<and> canCreatePayment env s org actorUserId (paymentContext dto facts derived))"

lemma core_canCreatePayment: "canCreatePayment env (core s) = canCreatePayment env s"
  by (simp add: fun_eq_iff canCreatePayment_def access_part_grants [OF core_access])

lemma core_creation_checked:
  "creation_checked env (core s) org u dto derived = creation_checked env s org u dto derived"
  by (simp add: creation_checked_def core_paymentFacts core_canCreatePayment)

lemma create_fresh_Inr:
  fixes s s' :: "'z payment_db_scheme"
  assumes "create_fresh env org u dto s = Inr (view, s')"
  obtains derived i num where "creation_checked env s org u dto derived"
    and "created env org u i dto derived num s s'" and "paymentView s' org i = Some view"
proof -
  obtain facts derived i num s1 s2 s3 s4 where
    1: "derive_now env org u dto s = Inr ((facts, derived), s1)"
    and 2: "assertPaymentAuthorized env org u (paymentContext dto facts derived) s1 = Inr ((), s2)"
    and 3: "randomUUID env s2 = Inr (i, s3)"
    and 4: "nextPaymentNumber org (cr_businessDate dto) s3 = Inr (num, s4)"
    and 5: "insertPayment env i org num u dto (snd derived) (fst derived) s4 = Inr (view, s')"
    using assms by (auto simp: create_fresh_def tx_bind_Inr tx_then_Inr)
  have s2: "s2 = s1" and auth: "canCreatePayment env s1 org u (paymentContext dto facts derived)"
    using 2 by (auto simp: assertPaymentAuthorized_def tx_bind_Inr tx_read_Inr tx_guard_Inr)
  have c: "core s3 = core s" and facts: "facts = paymentFacts s org u dto"
    and ok: "\<exists>now. derived_ok dto facts now derived"
    using derive_now_Inr [OF 1] tx_keepsD [OF keeps_core_uuid 3] s2 by simp_all
  have "canCreatePayment env s1 = canCreatePayment env s"
    using derive_now_Inr(3) [OF 1] core_canCreatePayment by metis
  then have chk: "creation_checked env s org u dto derived"
    using ok auth unfolding creation_checked_def Let_def facts by metis
  obtain counters where s4: "s4 = s3\<lparr>t_paymentNumberCounters := counters\<rparr>"
    using nextPaymentNumber_counters [OF 4] by blast
  obtain total ls where w: "pg_numeric 8 (snd derived) = Inr total"
      "payment_document_check (document_row env i org num u total dto)"
      "\<forall>x \<in> set (t_paymentDocuments s4). \<not> payment_document_clash (document_row env i org num u total dto) x"
      "fst derived \<noteq> []"
      "list_all2 (\<lambda>l r. \<exists>amounts. line_amounts l = Inr amounts
        \<and> r = line_row env i org (cr_baseCurrency dto) l amounts) (fst derived) ls"
    and s': "s' = s4\<lparr>t_paymentDocuments := t_paymentDocuments s4 @ [document_row env i org num u total dto],
        t_paymentLines := t_paymentLines s4 @ ls,
        t_paymentLineAttachmentLinks := t_paymentLineAttachmentLinks s4 @ concat (map (line_links env org) (fst derived))\<rparr>"
    and view: "paymentView s' org i = Some view"
    using insertPayment_Inr [OF 5] .
  have "created env org u i dto derived num s3 s'"
    unfolding created_def Let_def
    by (rule exI [of _ total], rule exI [of _ ls],
        rule exI [of _ "concat (map (line_links env org) (fst derived))"], rule exI [of _ counters])
       (use w s' s4 in simp)
  then show ?thesis using that [OF chk _ view] core_created [OF c] by blast
qed


section \<open>A draft\<close>

abbreviation create_key :: "uuid \<Rightarrow> uuid \<Rightarrow> str \<Rightarrow> idempotency_key" where
  "create_key \<equiv> draft_scope ''createPayment''"

lemma keeps_create_fresh [tx_frame]: "tx_keeps t_idempotencyRecords (create_fresh env org u dto)"
proof -
  have num: "tx_keeps t_idempotencyRecords (nextPaymentNumber org day)" for org day
    using nextPaymentNumber_counters by (fastforce intro: tx_keepsI)
  have ins: "tx_keeps t_idempotencyRecords (insertPayment env i org n u dto t ls)" for i n t ls
    by (rule tx_keepsI) (auto elim: insertPayment_Inr)
  have auth: "tx_keeps t_idempotencyRecords (assertPaymentAuthorized env org u c)" for c
    unfolding assertPaymentAuthorized_def by (intro tx_frame)
  show ?thesis
    unfolding create_fresh_def
    by (intro tx_frame num ins auth keeps_idempotency_newDate)
qed

lemma created_same: "core s' = core s2 \<Longrightarrow> created env org u i dto derived num s s2 \<Longrightarrow>
    created env org u i dto derived num s s'"
  by (simp add: created_def)

lemma create_Inr:
  assumes "create env org u dto key rid s = (Inr view, s')"
  obtains d where "validatePayment dto = Inr ()" and "create_tx env org u dto key d s = Inr (view, s')"
    and "commit_guards s s'"
  using assms
  by (auto simp: create_def rethrow_Inr transaction_Inr committed_Inr res_bind_Inr
      split: sum.splits if_splits)

lemma create_done:
  fixes s s' :: "'z payment_db_scheme"
  assumes "create env org u dto key rid s = (Inr view, s')"
    and "findIdempotency (create_key org u key) s = None"
  obtains derived i num where "validatePayment dto = Inr ()"
    and "creation_checked env s org u dto derived"
    and "created env org u i dto derived num s s'" and "paymentView s' org i = Some view"
    and "commit_guards s s'"
proof -
  obtain d where v: "validatePayment dto = Inr ()" and run: "create_tx env org u dto key d s = Inr (view, s')"
    and g: "commit_guards s s'"
    using create_Inr [OF assms(1)] .
  obtain s1 s2 where c: "core s1 = core s" "core s' = core s2"
    and fr: "create_fresh env org u dto s1 = Inr (view, s2)"
    using once_tx_fresh [OF run [unfolded create_tx_once] assms(2) keeps_create_fresh] .
  obtain derived i num where chk: "creation_checked env s1 org u dto derived"
    and made: "created env org u i dto derived num s1 s2" and view: "paymentView s2 org i = Some view"
    using create_fresh_Inr [OF fr] .
  have "creation_checked env s org u dto derived" using chk c(1) core_creation_checked by metis
  moreover have "created env org u i dto derived num s s'"
    using created_same [OF c(2) made] core_created [OF c(1)] by blast
  moreover have "paymentView s' org i = Some view" using view c(2) core_paymentView by metis
  ultimately show ?thesis using that v g by blast
qed

lemma create_cases:
  fixes s s' :: "'z payment_db_scheme"
  assumes "create env org u dto key rid s = (r, s')"
  obtains "core s' = core s"
  | derived i num where "created env org u i dto derived num s s'"
proof (cases r)
  case (Inl e)
  then have "s' = s"
    using assms by (auto simp: create_def rethrow_Inl transaction_Inl split: sum.splits)
  then show ?thesis using that(1) by simp
next
  case (Inr view)
  then obtain d where run: "create_tx env org u dto key d s = Inr (view, s')"
    using create_Inr [OF assms [unfolded Inr]] by metis
  show ?thesis
  proof (cases "findIdempotency (create_key org u key) s")
    case None
    then show ?thesis using create_done [OF assms [unfolded Inr]] that(2) by metis
  next
    case (Some p)
    let ?work = "tx_bind (replay_payment p d) (\<lambda>view.
        tx_bind (derive_now env org u (paymentDto view)) (\<lambda>e.
        tx_then (assertPaymentAuthorized env org u (replayPaymentContext view (fst e))) (tx_return view)))
      :: ('z payment_db_scheme, payment_view) tx"
    have "?work (lock_recorded (create_key org u key) s) = Inr (view, s')"
      using run unfolding create_tx_once once_tx_replay [OF Some] .
    moreover have "tx_keeps core ?work"
      unfolding assertPaymentAuthorized_def
      by (intro tx_frame keeps_core_uuid keeps_core_newDate)
    ultimately have "core s' = core (lock_recorded (create_key org u key) s)" by (rule tx_keepsD [rotated])
    then show ?thesis by (intro that(1)) (simp add: lock_recorded_reads)
  qed
qed

section \<open>A request\<close>

text \<open>A request is written with its links and the counter of requests; no payment changes.\<close>

definition requested :: "'z payment_db_scheme \<Rightarrow> 'z payment_db_scheme \<Rightarrow> bool" where
  "requested s s' \<longleftrightarrow> (\<exists>counters new links. (\<forall>r \<in> set new. payment_request_check r)
     \<and> unclashed payment_request_clash new
     \<and> (\<forall>r \<in> set new. \<forall>x \<in> set (t_paymentRequests s). \<not> payment_request_clash r x)
     \<and> core s' = core (s\<lparr>
         t_paymentRequestNumberCounters := counters,
         t_paymentRequests := t_paymentRequests s @ new,
         t_paymentRequestAttachmentLinks := t_paymentRequestAttachmentLinks s @ links\<rparr>))"

lemma requested_refl: "core s' = core s \<Longrightarrow> requested s s'"
  unfolding requested_def
  by (rule exI [of _ "t_paymentRequestNumberCounters s"], rule exI [of _ "[]"], rule exI [of _ "[]"]) simp


lemma core_request_links [simp]:
  "t_paymentRequestAttachmentLinks (core s) = t_paymentRequestAttachmentLinks s"
  "t_paymentRequestNumberCounters (core s) = t_paymentRequestNumberCounters s"
  by (simp_all add: core_def)

lemma core_requested:
  fixes s s1 :: "'z payment_db_scheme"
  assumes "core s1 = core s" and "requested s1 t"
  shows "requested s t"
proof -
  have same: "t_paymentRequests s1 = t_paymentRequests s"
      "t_paymentRequestAttachmentLinks s1 = t_paymentRequestAttachmentLinks s"
    using assms(1) core_reads core_request_links by metis+
  have "core (r\<lparr>t_paymentRequestNumberCounters := A, t_paymentRequests := B,
      t_paymentRequestAttachmentLinks := C\<rparr>) = (core r)\<lparr>t_paymentRequestNumberCounters := A,
      t_paymentRequests := B, t_paymentRequestAttachmentLinks := C\<rparr>"
    for r :: "'z payment_db_scheme" and A B C
    by (simp add: core_def)
  then have "core (s1\<lparr>t_paymentRequestNumberCounters := A, t_paymentRequests := B,
      t_paymentRequestAttachmentLinks := C\<rparr>) = core (s\<lparr>t_paymentRequestNumberCounters := A,
      t_paymentRequests := B, t_paymentRequestAttachmentLinks := C\<rparr>)" for A B C
    using assms(1) by simp
  then show ?thesis using assms(2) unfolding requested_def same by simp
qed

lemma keeps_request_checks [tx_frame]: "tx_keeps f (request_checks env org u dto)"
  unfolding request_checks_def assertRequestAuthorized_def by (intro tx_frame)

lemma insertRequest_Inr:
  fixes s s' :: "'z payment_db_scheme"
  assumes "insertRequest env i org num u dto s = Inr (view, s')"
  obtains row links where "payment_request_check row"
    and "\<forall>x \<in> set (t_paymentRequests s). \<not> payment_request_clash row x"
    and "s' = s\<lparr>t_paymentRequests := t_paymentRequests s @ [row],
      t_paymentRequestAttachmentLinks := t_paymentRequestAttachmentLinks s @ links\<rparr>"
proof -
  obtain amount s1 where
    1: "tx_insert payment_request_check payment_request_clash payment_request_refs
       t_paymentRequests t_paymentRequests_update (request_row env i org num u amount dto) s = Inr ((), s1)"
    and 2: "tx_for (listed (qc_attachments dto)) (\<lambda>a.
       tx_insert (\<lambda>_. True) request_attachment_clash request_attachment_refs
         t_paymentRequestAttachmentLinks t_paymentRequestAttachmentLinks_update
         (request_link env org i a)) s1 = Inr ((), s')"
    using assms
    by (auto simp: insertRequest_def read_request_view_def tx_bind_Inr tx_lift_Inr tx_then_Inr tx_read_Inr
        tx_return_Inr tx_throw_Inr split: option.splits)
  let ?row = "request_row env i org num u amount dto"
  have row: "payment_request_check ?row" "\<forall>x \<in> set (t_paymentRequests s). \<not> payment_request_clash ?row x"
    and s1: "s1 = t_paymentRequests_update (\<lambda>rows. rows @ [?row]) s"
    using 1 by (auto simp: tx_insert_Inr)
  have "s' = t_paymentRequestAttachmentLinks_update
      (\<lambda>rows. rows @ map (request_link env org i) (listed (qc_attachments dto))) s1"
    by (rule request_links.inserts_Inr(1) [OF 2])
  also have "\<dots> = s\<lparr>t_paymentRequests := t_paymentRequests s @ [?row],
      t_paymentRequestAttachmentLinks := t_paymentRequestAttachmentLinks s
        @ map (request_link env org i) (listed (qc_attachments dto))\<rparr>"
    unfolding s1 by simp
  finally show ?thesis using that row by blast
qed

lemma request_fresh_Inr:
  fixes s s' :: "'z payment_db_scheme"
  assumes "request_fresh env org u dto s = Inr (view, s')"
  shows "requested s s'" and "t_idempotencyRecords s' = t_idempotencyRecords s"
proof -
  obtain s1 s2 s3 i num where 1: "request_checks env org u dto s = Inr ((), s1)"
    and 2: "randomUUID env s1 = Inr (i, s2)" and 3: "nextRequestNumber org s2 = Inr (num, s3)"
    and 4: "insertRequest env i org num u dto s3 = Inr (view, s')"
    using assms by (auto simp: request_fresh_def tx_bind_Inr tx_then_Inr)
  have s1: "s1 = s" by (rule tx_keepsD [OF keeps_request_checks [of id] 1, simplified])
  have c: "core s2 = core s" using tx_keepsD [OF keeps_core_uuid 2] s1 by simp
  have s3: "s3 = s2\<lparr>t_paymentRequestNumberCounters := t_paymentRequestNumberCounters s3\<rparr>"
    using 3 by (auto simp: nextRequestNumber_def Let_def)
  obtain row links where row: "payment_request_check row"
      "\<forall>x \<in> set (t_paymentRequests s3). \<not> payment_request_clash row x"
    and s': "s' = s3\<lparr>t_paymentRequests := t_paymentRequests s3 @ [row],
      t_paymentRequestAttachmentLinks := t_paymentRequestAttachmentLinks s3 @ links\<rparr>"
    using insertRequest_Inr [OF 4] .
  have same: "t_paymentRequests s3 = t_paymentRequests s2"
      "t_paymentRequestAttachmentLinks s3 = t_paymentRequestAttachmentLinks s2"
      "t_idempotencyRecords s3 = t_idempotencyRecords s2"
    by (subst s3, simp)+
  have eq: "s' = s2\<lparr>t_paymentRequestNumberCounters := t_paymentRequestNumberCounters s3,
      t_paymentRequests := t_paymentRequests s2 @ [row],
      t_paymentRequestAttachmentLinks := t_paymentRequestAttachmentLinks s2 @ links\<rparr>"
    unfolding s' same by (subst s3) simp
  have "requested s2 s'"
    unfolding requested_def
    by (rule exI [of _ "t_paymentRequestNumberCounters s3"], rule exI [of _ "[row]"], rule exI [of _ links])
       (use row same(1) eq in \<open>simp add: unclashed_Cons\<close>)
  then show "requested s s'" by (rule core_requested [OF c])
  have "t_idempotencyRecords s2 = t_idempotencyRecords s"
    using tx_keepsD [OF keeps_idempotency_uuid 2] s1 by simp
  then show "t_idempotencyRecords s' = t_idempotencyRecords s" using same(3) by (simp add: s')
qed

lemma createRequest_cases:
  fixes s s' :: "'z payment_db_scheme"
  assumes "createRequest env org u dto key rid s = (r, s')"
  shows "requested s s'"
proof (cases r)
  case (Inl e)
  then have "s' = s"
    using assms by (auto simp: createRequest_def rethrow_Inl transaction_Inl split: sum.splits)
  then show ?thesis by (simp add: requested_refl)
next
  case (Inr view)
  then obtain d where run: "createRequest_tx env org u dto key d s = Inr (view, s')"
    using assms by (auto simp: createRequest_def rethrow_Inr transaction_Inr committed_Inr split: sum.splits)
  have fresh: "tx_keeps t_idempotencyRecords
      (request_fresh env org u dto :: ('z payment_db_scheme, payment_request_view) tx)"
    by (rule tx_keepsI) (rule request_fresh_Inr(2))
  have replay: "tx_keeps core (replay_request env org u d p)" for p
    unfolding replay_request_def
    by (auto split: response.split option.split bool.split intro: tx_frame)
  show ?thesis
  proof (rule once_tx_cases [OF run [unfolded createRequest_tx_once] fresh replay])
    assume "core s' = core s"
    then show ?thesis by (rule requested_refl)
  next
    fix s1 s2 :: "'z payment_db_scheme"
    assume c: "core s1 = core s" "request_fresh env org u dto s1 = Inr (view, s2)" "core s' = core s2"
    then have "requested s s2" using request_fresh_Inr(1) core_requested by blast
    then show ?thesis using c(3) by (simp add: requested_def)
  qed
qed

end
