(* ===== verification/Approval_Steps.thy ===== *)
theory Approval_Steps
  imports Approval_Facts Tables
begin

text \<open>
  The steps of an approval snapshot and what an action does to them: the open step is the first
  that misses approvals, an approval is recorded on it, and the payment is approved exactly
  when no step misses any.
\<close>

section \<open>Progress\<close>

definition complete :: "current_step \<Rightarrow> bool" where
  "complete t \<longleftrightarrow> co_approvalsRequired t \<le> int (co_approvalsRecorded t)"

definition missing :: "current_step list \<Rightarrow> nat" where
  "missing steps = sum_list (map (\<lambda>t. nat (co_approvalsRequired t - int (co_approvalsRecorded t))) steps)"

text \<open>No step has an approval before all the steps ahead of it are complete.\<close>

definition in_order :: "current_step list \<Rightarrow> bool" where
  "in_order steps \<longleftrightarrow> sorted_wrt (\<lambda>t t'. 0 < co_approvalsRecorded t' \<longrightarrow> complete t) steps"

definition recorded_on :: "uuid \<Rightarrow> current_step list \<Rightarrow> current_step list" where
  "recorded_on i steps = map (\<lambda>t. if co_id t = i
     then t\<lparr>co_approvalsRecorded := Suc (co_approvalsRecorded t)\<rparr> else t) steps"

lemma missing_zero: "missing steps = 0 \<longleftrightarrow> (\<forall>t \<in> set steps. complete t)"
  by (auto simp: missing_def complete_def)

lemma open_step_None: "open_step steps = None \<longleftrightarrow> (\<forall>t \<in> set steps. complete t)"
  by (auto simp: open_step_def complete_def find_None_iff)

lemma open_step_Some:
  assumes "open_step steps = Some t"
  obtains xs ys where "steps = xs @ t # ys" and "\<forall>x \<in> set xs. complete x" and "\<not> complete t"
proof -
  have "\<exists>xs ys. steps = xs @ t # ys \<and> (\<forall>x \<in> set xs. complete x) \<and> \<not> complete t"
    using assms
  proof (induction steps)
    case Nil
    then show ?case by (simp add: open_step_def)
  next
    case (Cons x steps)
    show ?case
    proof (cases "complete x")
      case True
      then have "open_step steps = Some t" using Cons.prems by (simp add: open_step_def complete_def)
      then obtain xs ys where "steps = xs @ t # ys" "\<forall>x \<in> set xs. complete x" "\<not> complete t"
        using Cons.IH by blast
      then show ?thesis using True by (intro exI [of _ "x # xs"] exI [of _ ys]) simp
    next
      case False
      then have "t = x" using Cons.prems by (simp add: open_step_def complete_def)
      then show ?thesis using False by (intro exI [of _ "[]"] exI [of _ steps]) simp
    qed
  qed
  then show ?thesis using that by blast
qed

lemma open_step_mem: "open_step steps = Some t \<Longrightarrow> t \<in> set steps \<and> \<not> complete t"
  by (auto elim: open_step_Some)

lemma target_step_mem: "target_step command steps = Some t \<Longrightarrow> t \<in> set steps"
  by (auto simp: target_step_def dest: open_step_mem split: option.splits if_splits)

lemma target_step_APPROVE: "command \<noteq> RETURN \<Longrightarrow> target_step command steps = open_step steps"
  by (simp add: target_step_def split: option.split)

lemma recorded_on_none: "i \<notin> co_id ` set steps \<Longrightarrow> recorded_on i steps = steps"
  by (induction steps) (auto simp: recorded_on_def)

lemma recorded_on_append: "recorded_on i (xs @ ys) = recorded_on i xs @ recorded_on i ys"
  by (simp add: recorded_on_def)

lemma recorded_on_split:
  assumes "distinct (map co_id (xs @ t # ys))"
  shows "recorded_on (co_id t) (xs @ t # ys)
    = xs @ t\<lparr>co_approvalsRecorded := Suc (co_approvalsRecorded t)\<rparr> # ys"
proof -
  have "recorded_on (co_id t) xs = xs" "recorded_on (co_id t) ys = ys"
    using assms by (auto intro!: recorded_on_none)
  moreover have "recorded_on (co_id t) (t # ys)
      = t\<lparr>co_approvalsRecorded := Suc (co_approvalsRecorded t)\<rparr> # recorded_on (co_id t) ys"
    by (simp add: recorded_on_def)
  ultimately show ?thesis by (simp add: recorded_on_append)
qed

text \<open>An approval of the open step lowers what is missing by one.\<close>

lemma missing_recorded:
  assumes "open_step steps = Some t" and "distinct (map co_id steps)"
  shows "missing steps = Suc (missing (recorded_on (co_id t) steps))"
proof -
  obtain xs ys where s: "steps = xs @ t # ys" and t: "\<not> complete t"
    using open_step_Some [OF assms(1)] by metis
  have "nat (co_approvalsRequired t - int (co_approvalsRecorded t))
      = Suc (nat (co_approvalsRequired t - int (Suc (co_approvalsRecorded t))))"
    using t by (simp add: complete_def)
  then show ?thesis
    using recorded_on_split [of xs t ys] assms(2) by (simp add: s missing_def)
qed

lemma in_order_later:
  assumes "in_order (xs @ t # ys)" and "\<not> complete t" and "y \<in> set ys"
  shows "co_approvalsRecorded y = 0"
  using assms by (auto simp: in_order_def sorted_wrt_append)

lemma in_order_recorded:
  assumes "in_order steps" and "open_step steps = Some t" and "distinct (map co_id steps)"
  shows "in_order (recorded_on (co_id t) steps)"
proof -
  obtain xs ys where s: "steps = xs @ t # ys" and x: "\<forall>x \<in> set xs. complete x" and t: "\<not> complete t"
    using open_step_Some [OF assms(2)] .
  have "\<forall>y \<in> set ys. co_approvalsRecorded y = 0" using in_order_later [OF _ t] assms(1) s by blast
  then show ?thesis
    using recorded_on_split [of xs t ys] assms x by (auto simp: s in_order_def sorted_wrt_append)
qed

text \<open>The state of the payment after an approval says whether any step misses one.\<close>

lemma next_state_APPROVE:
  assumes "open_step steps = Some t" and "distinct (map co_id steps)" and "in_order steps"
    and "sorted_wrt (\<lambda>t t'. co_order t < co_order t') steps"
    and "\<forall>t \<in> set steps. 0 < co_approvalsRequired t"
  shows "next_state APPROVE steps
    = (if missing (recorded_on (co_id t) steps) = 0 then ''APPROVED'' else ''APPROVAL_PENDING'')"
proof -
  obtain xs ys where s: "steps = xs @ t # ys" and x: "\<forall>x \<in> set xs. complete x" and t: "\<not> complete t"
    using open_step_Some [OF assms(1)] .
  have later: "(\<exists>u \<in> set steps. co_order t < co_order u) \<longleftrightarrow> ys \<noteq> []"
    using assms(4) by (cases ys) (auto simp: s sorted_wrt_append)
  have open_y: "\<not> complete y" if "y \<in> set ys" for y
  proof -
    have "0 < co_approvalsRequired y" using assms(5) that s by simp
    moreover have "co_approvalsRecorded y = 0" using in_order_later [of xs t ys] assms(3) t that s by simp
    ultimately show ?thesis by (simp add: complete_def)
  qed
  have "missing (recorded_on (co_id t) steps) = 0 \<longleftrightarrow>
      co_approvalsRequired t \<le> int (co_approvalsRecorded t) + 1 \<and> ys = []"
    using recorded_on_split [of xs t ys] assms(2) x open_y
    by (cases ys) (auto simp: s missing_zero complete_def)
  then show ?thesis using assms(1) later by (auto simp: next_state_def)
qed

section \<open>The steps of a snapshot in the database\<close>

lemma currentSteps_fields:
  "map co_id (currentSteps s org n) = map pt_id (snapshot_steps s org n)"
  "map co_order (currentSteps s org n) = map pt_stepOrder (snapshot_steps s org n)"
  "map co_approvalsRequired (currentSteps s org n) = map pt_approvalsRequired (snapshot_steps s org n)"
  by (simp_all add: currentSteps_def)

lemma set_snapshot_steps:
  "set (snapshot_steps s org n) = {t \<in> set (t_paymentApprovalSnapshotSteps s).
     pt_organizationId t = org \<and> pt_approvalSnapshotId t = n}"
  by (simp add: snapshot_steps_def)

lemma distinct_steps:
  assumes "unclashed snapshot_step_clash (t_paymentApprovalSnapshotSteps s)"
  shows "distinct (map co_id (currentSteps s org n))"
    and "sorted_wrt (\<lambda>t t'. co_order t < co_order t') (currentSteps s org n)"
proof -
  let ?rows = "filter (\<lambda>t. pt_organizationId t = org \<and> pt_approvalSnapshotId t = n)
    (t_paymentApprovalSnapshotSteps s)"
  have rows: "unclashed snapshot_step_clash ?rows" by (rule unclashed_filter [OF assms])
  have ids: "distinct (map pt_id ?rows)" and orders: "distinct (map pt_stepOrder ?rows)"
    by (rule unclashed_distinct [OF rows], simp add: snapshot_step_clash_def)+
  show "distinct (map co_id (currentSteps s org n))"
    unfolding currentSteps_fields snapshot_steps_def using ids by (simp add: distinct_order_by)
  have "sorted (map co_order (currentSteps s org n))"
    unfolding currentSteps_fields snapshot_steps_def by (rule sorted_order_by)
  moreover have "distinct (map co_order (currentSteps s org n))"
    unfolding currentSteps_fields snapshot_steps_def using orders by (simp add: distinct_order_by)
  ultimately have "sorted_wrt (<) (map co_order (currentSteps s org n))"
    by (simp add: strict_sorted_iff)
  then show "sorted_wrt (\<lambda>t t'. co_order t < co_order t') (currentSteps s org n)"
    by (simp add: sorted_wrt_map)
qed


lemma acted_tables:
  assumes "acted org i row state s s'"
  shows "t_paymentApprovalActions s' = t_paymentApprovalActions s @ [row]"
    and "t_paymentApprovalSnapshotSteps s' = t_paymentApprovalSnapshotSteps s"
    and "t_paymentApprovalSnapshots s' = t_paymentApprovalSnapshots s"
    and "\<exists>moment. t_paymentDocuments s' = update_where (is_document org i) (acted_document state moment)
      (t_paymentDocuments s)"
proof -
  obtain moment where c: "core s' = core (s\<lparr>t_paymentApprovalActions := t_paymentApprovalActions s @ [row],
          t_paymentDocuments := update_where (is_document org i) (acted_document state moment)
            (t_paymentDocuments s)\<rparr>)" (is "_ = core ?t")
    using assms by (auto simp: acted_def)
  have "t_paymentApprovalActions s' = t_paymentApprovalActions ?t"
    "t_paymentApprovalSnapshotSteps s' = t_paymentApprovalSnapshotSteps ?t"
    "t_paymentApprovalSnapshots s' = t_paymentApprovalSnapshots ?t"
    "t_paymentDocuments s' = t_paymentDocuments ?t"
    using c core_reads by metis+
  then show "t_paymentApprovalActions s' = t_paymentApprovalActions s @ [row]"
    "t_paymentApprovalSnapshotSteps s' = t_paymentApprovalSnapshotSteps s"
    "t_paymentApprovalSnapshots s' = t_paymentApprovalSnapshots s"
    "\<exists>moment. t_paymentDocuments s' = update_where (is_document org i) (acted_document state moment)
      (t_paymentDocuments s)"
    by auto
qed

lemma approved_actors_append:
  assumes "\<forall>a \<in> set as. \<not> approval_action_clash row a"
    and "\<forall>a \<in> set as. pc_organizationId a = pc_organizationId row
      \<and> pc_approvalSnapshotId a = pc_approvalSnapshotId row"
  shows "length (approved_actors (as @ [row]) i)
    = (if pc_approvalSnapshotStepId row = Some i \<and> pc_action row = ''APPROVED''
       then Suc (length (approved_actors as i)) else length (approved_actors as i))"
proof (cases "pc_approvalSnapshotStepId row = Some i \<and> pc_action row = ''APPROVED''")
  case True
  have "pc_actorUserId row \<notin> pc_actorUserId ` set (filter (\<lambda>a. pc_approvalSnapshotStepId a = Some i
      \<and> pc_action a = ''APPROVED'') as)"
    using assms True by (auto simp: approval_action_clash_def)
  then show ?thesis using True by (simp add: approved_actors_def length_dedup)
next
  case False
  then have "filter (\<lambda>a. pc_approvalSnapshotStepId a = Some i \<and> pc_action a = ''APPROVED'') [row] = []"
    by simp
  then show ?thesis using False by (auto simp: approved_actors_def)
qed

lemma snapshot_actions_append:
  assumes "t_paymentApprovalActions s' = t_paymentApprovalActions s @ [row]"
  shows "snapshot_actions s' org n = snapshot_actions s org n
    @ (if pc_organizationId row = org \<and> pc_approvalSnapshotId row = n then [row] else [])"
  by (simp add: snapshot_actions_def assms)

lemma currentSteps_acted:
  fixes s s' :: "'z payment_db_scheme"
  assumes "t_paymentApprovalActions s' = t_paymentApprovalActions s @ [row]"
    and "t_paymentApprovalSnapshotSteps s' = t_paymentApprovalSnapshotSteps s"
    and "\<forall>a \<in> set (t_paymentApprovalActions s). \<not> approval_action_clash row a"
  shows "currentSteps s' org n
    = (if pc_organizationId row = org \<and> pc_approvalSnapshotId row = n \<and> pc_action row = ''APPROVED''
       then (case pc_approvalSnapshotStepId row of None \<Rightarrow> currentSteps s org n
         | Some i \<Rightarrow> recorded_on i (currentSteps s org n))
       else currentSteps s org n)"
proof -
  have steps: "snapshot_steps s' org n = snapshot_steps s org n"
    by (simp add: snapshot_steps_def assms(2))
  have count: "length (approved_actors (snapshot_actions s' org n) i)
      = (if pc_organizationId row = org \<and> pc_approvalSnapshotId row = n \<and> pc_action row = ''APPROVED''
            \<and> pc_approvalSnapshotStepId row = Some i
         then Suc (length (approved_actors (snapshot_actions s org n) i))
         else length (approved_actors (snapshot_actions s org n) i))" for i
  proof (cases "pc_organizationId row = org \<and> pc_approvalSnapshotId row = n")
    case True
    have "length (approved_actors (snapshot_actions s org n @ [row]) i)
        = (if pc_approvalSnapshotStepId row = Some i \<and> pc_action row = ''APPROVED''
           then Suc (length (approved_actors (snapshot_actions s org n) i))
           else length (approved_actors (snapshot_actions s org n) i))"
      by (rule approved_actors_append) (use assms(3) True in \<open>auto simp: snapshot_actions_def\<close>)
    then show ?thesis using True by (simp add: snapshot_actions_append [OF assms(1)])
  next
    case False
    then show ?thesis by (auto simp: snapshot_actions_append [OF assms(1)])
  qed
  show ?thesis
    unfolding currentSteps_def steps count
    by (auto simp: recorded_on_def split: option.splits)
qed

lemma currentSteps_same:
  assumes "t_paymentApprovalActions s' = t_paymentApprovalActions s"
    and "t_paymentApprovalSnapshotSteps s' = t_paymentApprovalSnapshotSteps s"
  shows "currentSteps s' org n = currentSteps s org n"
  by (simp add: currentSteps_def snapshot_steps_def snapshot_actions_def assms)

end
