(* ===== verification/Lifecycle.thy ===== *)
theory Lifecycle
  imports Draft_Facts Approval_Steps Reversal_Facts
begin

text \<open>
  The payment module as one system: a step is one call of one of its services on the database,
  whatever its arguments, host and outcome. The lemmas say what each step does to the payment
  documents and the approval evidence, which is what the invariants over all sequences of
  steps rest on.
\<close>

section \<open>Steps\<close>

inductive payment_step :: "'z payment_db_scheme \<Rightarrow> 'z payment_db_scheme \<Rightarrow> bool" where
  createRequest: "createRequest env org u qdto key rid s = (r1, s') \<Longrightarrow> payment_step s s'"
| create: "create env org u cdto key rid s = (r2, s') \<Longrightarrow> payment_step s s'"
| submit: "submit env org u i key etag rid s = (r3, s') \<Longrightarrow> payment_step s s'"
| act: "act env org u i adto key etag rid s = (r4, s') \<Longrightarrow> payment_step s s'"
| execute: "execute env ctx ebody s = (r5, s') \<Longrightarrow> payment_step s s'"
| reverse: "reverse env ctx rbody s = (r6, s') \<Longrightarrow> payment_step s s'"

abbreviation reachable :: "'z payment_db_scheme \<Rightarrow> 'z payment_db_scheme \<Rightarrow> bool" where
  "reachable \<equiv> payment_step\<^sup>*\<^sup>*"

text \<open>
  What a step may do to the payments, to the approval evidence and to the ledger of movements,
  audits and outbox events.
\<close>

definition evidence where
  "evidence s = (t_paymentDocuments s, t_paymentApprovalSnapshots s,
     t_paymentApprovalSnapshotSteps s, t_paymentApprovalActions s,
     t_movementFacts s, t_auditEvents s, t_outboxEvents s)"

lemma core_evidence: "evidence (core s) = evidence s"
  by (simp add: evidence_def)

lemma evidence_requests:
  "evidence (s\<lparr>t_paymentRequestNumberCounters := a, t_paymentRequests := b,
     t_paymentRequestAttachmentLinks := c\<rparr>) = evidence s"
  by (simp add: evidence_def)

inductive call_effect :: "'z payment_db_scheme \<Rightarrow> 'z payment_db_scheme \<Rightarrow> bool" where
  nothing: "evidence s' = evidence s \<Longrightarrow> call_effect s s'"
| created: "created env org u i dto derived num s s' \<Longrightarrow> call_effect s s'"
| submitted: "submission_allowed env s org u i v payment contexts amount ev steps \<Longrightarrow>
    submitted org payment contexts amount ev steps n s s' \<Longrightarrow> call_effect s s'"
| acted: "action_checked env s org u i dto v payment n steps a \<Longrightarrow>
    command_action org n u dto steps a row \<Longrightarrow>
    acted org i row (next_state (aa_action dto) steps) s s' \<Longrightarrow> call_effect s s'"
| executed: "execution_checked env s ctx body locked v \<Longrightarrow>
    executed_tables ctx v locked ids s s' \<Longrightarrow> setting s' = setting s \<Longrightarrow> call_effect s s'"
| reversed: "reversal_checked env s ctx rbody locked v \<Longrightarrow>
    reversed_tables ctx rbody v locked es rid s s' \<Longrightarrow> setting s' = setting s \<Longrightarrow> call_effect s s'"

lemma keyed_tx_replayed:
  fixes s s' :: "'z payment_db_scheme"
  assumes run: "keyed_tx env ctx op perm st stored replayed fresh d s = Inr (r, s')"
    and some: "findIdempotency (execution_scope op ctx) s = Some p"
    and work: "tx_keeps core (replayed p)"
  shows "core s' = core s"
proof -
  let ?k = "execution_scope op ctx"
  let ?s = "lock_recorded ?k s"
  let ?rest = "tx_bind (tx_read (\<lambda>s. lockPayment s (cx_organizationId ctx) (cx_paymentId ctx))) (\<lambda>locked.
      (case locked of None \<Rightarrow> tx_throw (Message ''RESOURCE_HIDDEN'')
       | Some payment \<Rightarrow> tx_then (assertAuthorized env ctx payment perm) (replayed p)))"
  have "acquireIdempotencyLock ?k s = Inr ((), ?s)"
    by (simp add: acquireIdempotencyLock_Inr lock_recorded_def)
  then have "?rest ?s = Inr (r, s')"
    using run some by (simp add: keyed_tx_def Let_def tx_then_run tx_bind_run lock_recorded_reads)
  moreover have "tx_keeps core ?rest" by (intro tx_frame work)
  ultimately have "core s' = core ?s" by (rule tx_keepsD [rotated])
  then show ?thesis by (simp add: lock_recorded_reads)
qed

lemma core_nothing: "core s' = core s \<Longrightarrow> call_effect s s'"
  by (rule call_effect.nothing) (metis core_evidence)

lemma execute_effect:
  assumes "execute env ctx body s = (r, s')"
  shows "call_effect s s'"
proof (cases r)
  case (Inl e)
  then have "s' = s"
    using assms by (auto simp: execute_def rethrow_Inl transaction_Inl split: sum.splits)
  then show ?thesis by (simp add: call_effect.nothing)
next
  case (Inr view)
  show ?thesis
  proof (cases "findIdempotency (execution_key ctx) s")
    case None
    then show ?thesis
      using execute_done [OF assms [unfolded Inr]] call_effect.executed by metis
  next
    case (Some p)
    obtain v d where run: "execute_tx env ctx body v d s = Inr (view, s')"
      using execute_Inr [OF assms [unfolded Inr]] .
    have "core s' = core s"
      by (rule keyed_tx_replayed [OF run [unfolded execute_tx_keyed] Some]) (intro tx_frame)
    then show ?thesis by (rule core_nothing)
  qed
qed

lemma keeps_replay_reversal: "tx_keeps f (replay_reversal ctx p d)"
  unfolding replay_reversal_def read_view_def by (intro tx_frame)

lemma reverse_effect:
  assumes "reverse env ctx body s = (r, s')"
  shows "call_effect s s'"
proof (cases r)
  case (Inl e)
  then have "s' = s"
    using assms by (auto simp: reverse_def Let_def rethrow_Inl transaction_Inl split: sum.splits if_splits)
  then show ?thesis by (simp add: call_effect.nothing)
next
  case (Inr pair)
  show ?thesis
  proof (cases "findIdempotency (reversal_key ctx) s")
    case None
    then show ?thesis
      using reverse_done [OF assms [unfolded Inr]] call_effect.reversed by metis
  next
    case (Some p)
    obtain v d where run: "reverse_tx env ctx body (trim (rv_reason body)) v d s = Inr (pair, s')"
      using reverse_Inr [OF assms [unfolded Inr]] .
    have "core s' = core s"
      by (rule keyed_tx_replayed [OF run [unfolded reverse_tx_keyed] Some]) (rule keeps_replay_reversal)
    then show ?thesis by (rule core_nothing)
  qed
qed

lemma requested_nothing: "requested s s' \<Longrightarrow> evidence s' = evidence s"
  unfolding requested_def by (elim exE conjE) (metis core_evidence evidence_requests)

lemma step_effect: "payment_step s s' \<Longrightarrow> call_effect s s'"
proof (induction rule: payment_step.induct)
  case (createRequest env org u qdto key rid s r1 s')
  then show ?case using createRequest_cases requested_nothing call_effect.nothing by blast
next
  case (create env org u cdto key rid s r2 s')
  then show ?case using create_cases core_nothing call_effect.created by metis
next
  case (submit env org u i key etag rid s r3 s')
  then show ?case using submit_cases core_nothing call_effect.submitted by metis
next
  case (act env org u i adto key etag rid s r4 s')
  then show ?case using act_cases core_nothing call_effect.acted by metis
next
  case (execute env ctx ebody s r5 s')
  then show ?case by (rule execute_effect)
next
  case (reverse env ctx rbody s r6 s')
  then show ?case by (rule reverse_effect)
qed

end
