(* ===== verification/Lifecycle_Facts.thy ===== *)
theory Lifecycle_Facts
  imports Lifecycle "HOL-Library.Sublist"
begin

text \<open>
  The tables before and after a step, and the status register the payment documents refine:
  one state and version per payment, moved only along the transitions of the approval and
  execution workflow.
\<close>

section \<open>Documents\<close>

text \<open>
  The check constraint of a document, and what the services add to it: a payment in an executed
  state has been executed.
\<close>

definition document_ok :: "payment_document_row \<Rightarrow> bool" where
  "document_ok d \<longleftrightarrow> payment_document_check d
     \<and> (pd_state d \<in> {''EXECUTED'', ''ACCOUNTING_READY'', ''ACCOUNTING_POSTED''} \<longrightarrow>
         pd_executionState d = ''EXECUTED'')"

definition documents_valid :: "'z payment_db_scheme \<Rightarrow> bool" where
  "documents_valid s \<longleftrightarrow> (\<forall>d \<in> set (t_paymentDocuments s). document_ok d)
     \<and> unclashed payment_document_clash (t_paymentDocuments s)"

definition replace_row :: "'r \<Rightarrow> 'r \<Rightarrow> 'r list \<Rightarrow> 'r list" where
  "replace_row x y rows = map (\<lambda>r. if r = x then y else r) rows"

lemma set_replace_row: "x \<in> set rows \<Longrightarrow> set (replace_row x y rows) = insert y (set rows - {x})"
  by (auto simp: replace_row_def)

lemma find_document_mem:
  "find_document s org i = Some d \<Longrightarrow> d \<in> set (t_paymentDocuments s) \<and> pd_organizationId d = org \<and> pd_id d = i"
  unfolding find_document_def by (auto dest: find_SomeD)

lemma document_unique:
  assumes "documents_valid s" and "d \<in> set (t_paymentDocuments s)" and "x \<in> set (t_paymentDocuments s)"
    and "pd_id x = pd_id d"
  shows "x = d"
  using assms unclashed_key [of payment_document_clash "t_paymentDocuments s" x d]
  by (auto simp: documents_valid_def payment_document_clash_def)

lemma update_document:
  assumes "documents_valid s" and "find_document s org i = Some d"
  shows "update_where (is_document org i) f (t_paymentDocuments s) = replace_row d (f d) (t_paymentDocuments s)"
  using document_unique [OF assms(1)] find_document_mem [OF assms(2)]
  by (auto simp: update_where_def replace_row_def is_document_def)

lemma distinct_documents: "documents_valid s \<Longrightarrow> distinct (map pd_id (t_paymentDocuments s))"
  unfolding documents_valid_def
  by (elim conjE, erule unclashed_distinct) (simp add: payment_document_clash_def)

text \<open>The document an approval service locks.\<close>

lemma lockApprovalPayment_Some:
  assumes "lockApprovalPayment s org i = Some payment"
  obtains d where "find_document s org i = Some d" and "yp_id payment = i" and "yp_state payment = pd_state d"
    and "yp_version payment = pd_version d" and "yp_creatorUserId payment = pd_creatorUserId d"
    and "yp_currentApprovalSnapshotId payment = pd_currentApprovalSnapshotId d"
    and "yp_requesterUserId payment = request_requester s org (pd_paymentRequestId d)"
  using assms find_document_mem
  by (fastforce simp: lockApprovalPayment_def bind_eq_Some_conv)

lemma lockPayment_document:
  assumes "lockPayment s org i = Some payment"
  shows "find_document s org i = Some (lk_document payment)"
  using assms by (auto simp: lockPayment_def)

section \<open>The tables after a step\<close>

lemma created_tables:
  assumes "created env org u i dto derived num s s'"
  obtains d where "t_paymentDocuments s' = t_paymentDocuments s @ [d]"
    and "payment_document_check d" and "\<forall>x \<in> set (t_paymentDocuments s). \<not> payment_document_clash d x"
    and "pd_state d = ''DRAFT''" and "pd_version d = 0" and "pd_currentApprovalSnapshotId d = None"
    and "pd_paymentRequestId d = None" and "pd_reversedPaymentId d = None"
    and "t_paymentApprovalSnapshots s' = t_paymentApprovalSnapshots s"
    and "t_paymentApprovalSnapshotSteps s' = t_paymentApprovalSnapshotSteps s"
    and "t_paymentApprovalActions s' = t_paymentApprovalActions s"
proof -
  obtain total ls links counters where d: "payment_document_check (document_row env i org num u total dto)"
      "\<forall>x \<in> set (t_paymentDocuments s). \<not> payment_document_clash (document_row env i org num u total dto) x"
    and c: "core s' = core (s\<lparr>t_paymentNumberCounters := counters,
        t_paymentDocuments := t_paymentDocuments s @ [document_row env i org num u total dto],
        t_paymentLines := t_paymentLines s @ ls,
        t_paymentLineAttachmentLinks := t_paymentLineAttachmentLinks s @ links\<rparr>)" (is "_ = core ?t")
    using assms by (auto simp: created_def Let_def)
  have e: "evidence s' = evidence ?t" using c core_evidence by metis
  then show ?thesis
    by (intro that [of "document_row env i org num u total dto"] d)
       (simp_all add: evidence_def document_row_def)
qed

lemma submitted_tables:
  assumes "submitted org payment contexts amount ev steps n s s'"
  obtains moment row where "t_paymentDocuments s' = update_where (is_document org (yp_id payment))
        (submitted_document n (submitted_state steps) moment) (t_paymentDocuments s)"
    and "t_paymentApprovalSnapshots s' = t_paymentApprovalSnapshots s @ [row]"
    and "ps_id row = n" and "ps_organizationId row = org" and "ps_paymentDocumentId row = yp_id payment"
    and "t_paymentApprovalSnapshotSteps s' = t_paymentApprovalSnapshotSteps s @ map (step_row org n) steps"
    and "t_paymentApprovalActions s' = t_paymentApprovalActions s"
proof -
  obtain basis evaluated moment gs ps where c: "core s' = core (s\<lparr>
      t_paymentApprovalSnapshots := t_paymentApprovalSnapshots s
                @ [snapshot_row org payment n (yp_version payment + 1) basis evaluated],
      t_paymentApprovalSnapshotContexts := t_paymentApprovalSnapshotContexts s
                @ map (context_row org n) contexts,
      t_paymentApprovalSnapshotSteps := t_paymentApprovalSnapshotSteps s @ map (step_row org n) steps,
      t_paymentApprovalAggregations := t_paymentApprovalAggregations s @ gs,
      t_paymentApprovalAggregationParticipants := t_paymentApprovalAggregationParticipants s @ ps,
      t_paymentDocuments := update_where (is_document org (yp_id payment))
        (submitted_document n (submitted_state steps) moment) (t_paymentDocuments s)\<rparr>)" (is "_ = core ?t")
    using assms unfolding submitted_def by blast
  have e: "evidence s' = evidence ?t" using c core_evidence by metis
  then show ?thesis
    by (intro that [of moment "snapshot_row org payment n (yp_version payment + 1) basis evaluated"])
       (simp_all add: evidence_def snapshot_row_def)
qed

lemma executed_documents:
  assumes "executed_tables ctx v payment ids s s'"
  obtains moment where "t_paymentDocuments s' = update_where
      (is_document (cx_organizationId ctx) (cx_paymentId ctx))
      (executed_document (cx_actorUserId ctx) moment (v + 1)) (t_paymentDocuments s)"
  using assms by (auto simp: executed_tables_def Let_def)

lemma reversed_documents:
  assumes "reversed_tables ctx body v payment es rid s s'"
  obtains input where "ri_original input = payment"
    and "payment_document_check (reversal_document rid input)"
    and "\<forall>x \<in> set (t_paymentDocuments s). \<not> payment_document_clash (reversal_document rid input) x"
    and "t_paymentDocuments s' = update_where (is_document (cx_organizationId ctx) (cx_paymentId ctx))
        (reversed_document rid (v + 1) (ri_executedAt input)) (t_paymentDocuments s)
        @ [reversal_document rid input]"
  using assms unfolding reversed_tables_def Let_def by blast

section \<open>The ledger\<close>

text \<open>The movements, the audits and the outbox events are only added to.\<close>

definition ledger_grows :: "'z payment_db_scheme \<Rightarrow> 'z payment_db_scheme \<Rightarrow> bool" where
  "ledger_grows s s' \<longleftrightarrow> prefix (t_movementFacts s) (t_movementFacts s')
     \<and> prefix (t_auditEvents s) (t_auditEvents s') \<and> prefix (t_outboxEvents s) (t_outboxEvents s')"

lemma ledger_grows_refl: "ledger_grows s s"
  by (simp add: ledger_grows_def)

lemma ledger_grows_trans: "ledger_grows s t \<Longrightarrow> ledger_grows t u \<Longrightarrow> ledger_grows s u"
  unfolding ledger_grows_def by (blast intro: prefix_order.trans)

lemma ledger_core:
  assumes "core s' = core t" and "t_movementFacts t = t_movementFacts s"
    and "t_auditEvents t = t_auditEvents s" and "t_outboxEvents t = t_outboxEvents s"
  shows "ledger_grows s s'"
proof -
  have "evidence s' = evidence t" using assms(1) core_evidence by metis
  then show ?thesis using assms(2-4) by (simp add: evidence_def ledger_grows_def)
qed

lemma created_ledger: "created env org u i dto derived num s s' \<Longrightarrow> ledger_grows s s'"
  unfolding created_def Let_def by (elim exE conjE, rule ledger_core, assumption) simp_all

lemma submitted_ledger: "submitted org payment contexts amount ev steps n s s' \<Longrightarrow> ledger_grows s s'"
  unfolding submitted_def by (elim exE conjE, rule ledger_core, assumption) simp_all

lemma acted_ledger: "acted org i row state s s' \<Longrightarrow> ledger_grows s s'"
  unfolding acted_def by (elim exE conjE, rule ledger_core, assumption) simp_all

lemma effect_ledger: "call_effect s s' \<Longrightarrow> ledger_grows s s'"
proof (induction rule: call_effect.induct)
  case noop: (nothing s' s)
  then show ?case by (simp add: evidence_def ledger_grows_def)
next
  case (executed env s ctx body locked v ids s')
  then show ?case unfolding executed_tables_def Let_def ledger_grows_def prefix_def by blast
next
  case (reversed env s ctx rbody locked v es rid s')
  then show ?case unfolding reversed_tables_def Let_def ledger_grows_def prefix_def by blast
qed (blast intro: created_ledger submitted_ledger acted_ledger)+

section \<open>The status register\<close>

inductive status_step :: "str \<times> int \<Rightarrow> str \<times> int \<Rightarrow> bool" where
  submitted: "q \<in> {''APPROVAL_PENDING'', ''APPROVED''} \<Longrightarrow> status_step (''DRAFT'', v) (q, v + 1)"
| approval: "q \<in> {''APPROVAL_PENDING'', ''APPROVED'', ''REJECTED''} \<Longrightarrow>
    status_step (''APPROVAL_PENDING'', v) (q, v + 1)"
| returned: "q \<in> {''APPROVAL_PENDING'', ''APPROVED''} \<Longrightarrow> status_step (q, v) (''DRAFT'', v + 1)"
| executed: "status_step (''APPROVED'', v) (''EXECUTED'', v + 1)"

inductive register_step :: "(str \<times> int) list \<Rightarrow> (str \<times> int) list \<Rightarrow> bool" where
  stay: "register_step xs xs"
| draft: "register_step xs (xs @ [(''DRAFT'', 0)])"
| move: "i < length xs \<Longrightarrow> status_step (xs ! i) st \<Longrightarrow> register_step xs (xs[i := st])"
| reversal: "i < length xs \<Longrightarrow> xs ! i = (q, v) \<Longrightarrow>
    q \<in> {''EXECUTED'', ''ACCOUNTING_READY'', ''ACCOUNTING_POSTED''} \<Longrightarrow>
    register_step xs (xs[i := (''REVERSED'', v + 1)] @ [(''EXECUTED'', 1)])"

inductive_simps status_step_DRAFT: "status_step (''DRAFT'', v) st"
inductive_simps status_step_REVERSED: "status_step (''REVERSED'', v) st"
inductive_cases status_stepE: "status_step a b"
inductive_cases register_stepE: "register_step xs ys"

definition status :: "payment_document_row \<Rightarrow> str \<times> int" where
  "status d = (pd_state d, pd_version d)"

definition register :: "'z payment_db_scheme \<Rightarrow> (str \<times> int) list" where
  "register s = map status (t_paymentDocuments s)"

lemma map_replace_row:
  assumes "distinct rows" and "i < length rows"
  shows "map g (replace_row (rows ! i) y rows) = (map g rows)[i := g y]"
  using assms by (auto simp: replace_row_def list_eq_iff_nth_eq nth_list_update nth_eq_iff_index_eq)

lemma register_replaced:
  assumes "documents_valid s" and "d \<in> set (t_paymentDocuments s)"
  obtains k where "k < length (register s)" and "register s ! k = status d"
    and "map status (replace_row d d' (t_paymentDocuments s)) = (register s)[k := status d']"
proof -
  obtain k where k: "k < length (t_paymentDocuments s)" "t_paymentDocuments s ! k = d"
    using assms(2) by (auto simp: in_set_conv_nth)
  have "distinct (t_paymentDocuments s)" using distinct_documents [OF assms(1)] by (simp add: distinct_map)
  then show ?thesis
    using that [of k] k map_replace_row [of "t_paymentDocuments s" k status d'] by (simp add: register_def)
qed


lemma register_moves:
  assumes "documents_valid s" and "find_document s org i = Some d"
    and "t_paymentDocuments s' = update_where (is_document org i) f (t_paymentDocuments s)"
    and "status_step (status d) (status (f d))"
  shows "register_step (register s) (register s')"
proof -
  have mem: "d \<in> set (t_paymentDocuments s)" using find_document_mem [OF assms(2)] by simp
  have eq: "register s' = map status (replace_row d (f d) (t_paymentDocuments s))"
    by (simp add: register_def assms(3) update_document [OF assms(1,2)])
  obtain k where k: "k < length (register s)" "register s ! k = status d"
    and r: "map status (replace_row d (f d) (t_paymentDocuments s)) = (register s)[k := status (f d)]"
    using register_replaced [OF assms(1) mem] .
  then have "register_step (register s) ((register s)[k := status (f d)])"
    using assms(4) by (intro register_step.move) simp_all
  then show ?thesis by (simp only: eq r)
qed

lemma next_state_cases:
  "next_state REJECT steps = ''REJECTED''" "next_state RETURN steps = ''DRAFT''"
  "next_state APPROVE steps \<in> {''APPROVAL_PENDING'', ''APPROVED''}"
  by (simp_all add: next_state_def split: option.split)

lemma action_status:
  assumes "action_checked env s org u i dto v payment n steps a" and "find_document s org i = Some d"
  shows "status_step (status d) (status (acted_document (next_state (aa_action dto) steps) moment d))"
proof -
  obtain d' where "find_document s org i = Some d'" and st: "yp_state payment = pd_state d'"
    and "yp_version payment = pd_version d'"
    using assms(1) by (auto simp: action_checked_def Let_def elim!: lockApprovalPayment_Some)
  then have d: "yp_state payment = pd_state d" using assms(2) by simp
  show ?thesis
  proof (cases "aa_action dto")
    case APPROVE
    then have "pd_state d = ''APPROVAL_PENDING''"
      using assms(1) d by (simp add: action_checked_def Let_def)
    then show ?thesis
      using APPROVE next_state_cases(3) [of steps]
      by (auto simp: status_def acted_document_def intro: status_step.approval)
  next
    case REJECT
    then have "pd_state d = ''APPROVAL_PENDING''"
      using assms(1) d by (simp add: action_checked_def Let_def)
    then show ?thesis
      using REJECT by (auto simp: status_def acted_document_def next_state_cases intro: status_step.approval)
  next
    case RETURN
    then have "pd_state d \<in> {''APPROVAL_PENDING'', ''APPROVED''}"
      using assms(1) d by (simp add: action_checked_def Let_def)
    then show ?thesis
      using RETURN status_step.returned [of "pd_state d" "pd_version d"]
      by (simp add: status_def acted_document_def next_state_cases)
  qed
qed

lemma submission_locks:
  assumes "submission_allowed env s org u i v payment contexts amount ev steps"
  obtains d where "find_document s org i = Some d" and "yp_id payment = i" and "pd_state d = ''DRAFT''"
    and "pd_version d = v" and "yp_creatorUserId payment = pd_creatorUserId d"
    and "yp_requesterUserId payment = request_requester s org (pd_paymentRequestId d)"
proof -
  have lock: "lockApprovalPayment s org i = Some payment" and st: "yp_state payment = ''DRAFT''"
    and v: "yp_version payment = v"
    using assms unfolding submission_allowed_def submission_checked_def by blast+
  show ?thesis
    by (rule lockApprovalPayment_Some [OF lock], rule that) (simp_all add: st [symmetric] v [symmetric])
qed

lemma action_locks:
  assumes "action_checked env s org u i dto v payment n steps a"
  obtains d where "find_document s org i = Some d" and "pd_currentApprovalSnapshotId d = Some n"
    and "yp_creatorUserId payment = pd_creatorUserId d" and "yp_state payment = pd_state d"
    and "pd_version d = v"
proof -
  have lock: "lockApprovalPayment s org i = Some payment"
    and n: "yp_currentApprovalSnapshotId payment = Some n" and v: "yp_version payment = v"
    using assms unfolding action_checked_def Let_def by blast+
  show ?thesis
    by (rule lockApprovalPayment_Some [OF lock], rule that) (simp_all add: n [symmetric] v [symmetric])
qed

lemma status_reversed: "status (reversed_document rid v m d) = (''REVERSED'', v)"
  by (simp add: status_def reversed_document_def)

lemma status_reversal: "status (reversal_document rid input) = (''EXECUTED'', 1)"
  by (simp add: status_def reversal_document_def Let_def)

lemma effect_register:
  assumes "call_effect s s'" and "documents_valid s"
  shows "register_step (register s) (register s')"
  using assms
proof (induction rule: call_effect.induct)
  case (nothing s' s)
  then show ?case by (simp add: register_def evidence_def register_step.stay)
next
  case (created env org u i dto derived num s s')
  then show ?case
    using register_step.draft [of "register s"]
    by (elim created_tables) (simp add: register_def status_def)
next
  case (submitted env s org u i v payment contexts amount ev steps n s')
  obtain d where d: "find_document s org i = Some d" "yp_id payment = i" "pd_state d = ''DRAFT''"
    using submission_locks [OF submitted(1)] by metis
  obtain moment where docs: "t_paymentDocuments s' = update_where (is_document org i)
      (submitted_document n (submitted_state steps) moment) (t_paymentDocuments s)"
    using submitted_tables [OF submitted(2)] d(2) by metis
  show ?case
    by (rule register_moves [OF submitted(3) d(1) docs])
       (auto simp: status_def submitted_document_def submitted_state_def d(3) intro: status_step.submitted)
next
  case (acted env s org u i dto v payment n steps a row s')
  obtain d where d: "find_document s org i = Some d" using action_locks [OF acted(1)] by metis
  obtain moment where docs: "t_paymentDocuments s' = update_where (is_document org i)
      (acted_document (next_state (aa_action dto) steps) moment) (t_paymentDocuments s)"
    using acted_tables(4) [OF acted(3)] by blast
  show ?case by (rule register_moves [OF acted(4) d docs action_status [OF acted(1) d]])
next
  case (executed env s ctx body locked v ids s')
  let ?d = "lk_document locked"
  have lock: "lockPayment s (cx_organizationId ctx) (cx_paymentId ctx) = Some locked"
    and st: "pd_state ?d = ''APPROVED''" "pd_version ?d = v"
    using executed(1) by (simp_all add: execution_checked_def Let_def)
  note d = lockPayment_document [OF lock]
  obtain moment where docs: "t_paymentDocuments s' = update_where
      (is_document (cx_organizationId ctx) (cx_paymentId ctx))
      (executed_document (cx_actorUserId ctx) moment (v + 1)) (t_paymentDocuments s)"
    using executed_documents [OF executed(2)] .
  show ?case
    by (rule register_moves [OF executed(4) d docs])
       (simp add: status_def executed_document_def st status_step.executed)
next
  case (reversed env s ctx rbody locked v es rid s')
  let ?d = "lk_document locked"
  have lock: "lockPayment s (cx_organizationId ctx) (cx_paymentId ctx) = Some locked"
    and st: "reversible ?d" "pd_version ?d = v"
    using reversed(1) by (simp_all add: reversal_checked_def Let_def)
  note d = lockPayment_document [OF lock]
  obtain input where docs: "t_paymentDocuments s' = update_where
        (is_document (cx_organizationId ctx) (cx_paymentId ctx))
        (reversed_document rid (v + 1) (ri_executedAt input)) (t_paymentDocuments s)
        @ [reversal_document rid input]"
    using reversed_documents [OF reversed(2)] by metis
  have mem: "?d \<in> set (t_paymentDocuments s)" using find_document_mem [OF d] by simp
  obtain k where k: "k < length (register s)" "register s ! k = status ?d"
    and r: "map status (replace_row ?d (reversed_document rid (v + 1) (ri_executedAt input) ?d)
        (t_paymentDocuments s)) = (register s)[k := (''REVERSED'', v + 1)]"
    using register_replaced [OF reversed(4) mem] by (metis status_reversed)
  have "register s' = (register s)[k := (''REVERSED'', v + 1)] @ [(''EXECUTED'', 1)]"
    using r by (simp add: register_def docs update_document [OF reversed(4) d] status_reversal)
  then show ?case
    using register_step.reversal [OF k(1), of "pd_state ?d" v] k(2) st
    by (simp add: status_def reversible_def)
qed

end
