(* ===== verification/Lifecycle_Invariants.thy ===== *)
theory Lifecycle_Invariants
  imports Lifecycle_Facts
begin

text \<open>
  The invariants of the payment module under its steps: the constraints of the payment and
  approval tables with their references, the order and the independence of approvals, and that
  whatever is approved or executed has all its approvals.
\<close>

section \<open>Constraints of the documents\<close>

lemma updated_documents_valid:
  assumes "documents_valid s" and "find_document s org i = Some d" and "document_ok (f d)"
    and "\<And>d. pd_id (f d) = pd_id d" and "\<And>d. pd_organizationId (f d) = pd_organizationId d"
    and "\<And>d. pd_businessNumber (f d) = pd_businessNumber d"
    and "t_paymentDocuments s' = update_where (is_document org i) f (t_paymentDocuments s)"
  shows "documents_valid s'"
proof -
  have "unclashed payment_document_clash (update_where (is_document org i) f (t_paymentDocuments s))"
    by (rule unclashed_update_where)
       (use assms(1) in \<open>simp_all add: documents_valid_def payment_document_clash_def assms(4-6)\<close>)
  moreover have "\<forall>x \<in> set (t_paymentDocuments s'). document_ok x"
    using assms(1,3) find_document_mem [OF assms(2)]
    by (auto simp: assms(7) update_document [OF assms(1,2)] set_replace_row documents_valid_def)
  ultimately show ?thesis by (simp add: documents_valid_def assms(7))
qed

lemma appended_documents_valid:
  assumes "documents_valid s" and "document_ok d"
    and "\<forall>x \<in> set (t_paymentDocuments s). \<not> payment_document_clash d x"
    and "t_paymentDocuments s' = t_paymentDocuments s @ [d]"
  shows "documents_valid s'"
  using assms by (auto simp: documents_valid_def unclashed_append unclashed_Cons)

lemma check_workflow:
  assumes "payment_document_check d"
    and "pd_state d \<in> {''APPROVED'', ''EXECUTED'', ''ACCOUNTING_READY'', ''ACCOUNTING_POSTED''}"
  shows "pd_workflowState d = ''APPROVED''"
  using assms(2) by (elim insertE emptyE) (use assms(1) in \<open>simp_all add: payment_document_check_def\<close>)

lemma check_parts:
  assumes "payment_document_check d"
  shows "numeric_pos (pd_totalBaseAmount d)" and "0 \<le> pd_version d"
    and "pd_accountingState d \<in> {''NOT_READY'', ''MAPPING_REQUIRED'', ''READY'', ''QUEUED'',
          ''SENDING'', ''SENDING_UNKNOWN'', ''ACCEPTED'', ''FAILED'', ''RETURNED'', ''CORRECTED''}"
  using assms unfolding payment_document_check_def by blast+

lemma check_executed:
  "payment_document_check d \<Longrightarrow> pd_executionState d = ''EXECUTED'' \<Longrightarrow>
     pd_executedAt d \<noteq> None \<and> pd_executedByUserId d \<noteq> None"
  unfolding payment_document_check_def by (elim conjE) simp

text \<open>The fields a check looks at, set by an execution or a reversal, pass it.\<close>

lemma final_check:
  assumes "payment_document_check d" and "pd_workflowState d = ''APPROVED''"
    and "pd_totalBaseAmount e = pd_totalBaseAmount d" and "pd_accountingState e = pd_accountingState d"
    and "pd_workflowState e = pd_workflowState d" and "0 \<le> pd_version e"
    and "pd_executedAt e \<noteq> None" and "pd_executedByUserId e \<noteq> None"
    and "pd_state e = q" and "pd_executionState e = q" and "q \<in> {''EXECUTED'', ''REVERSED''}"
  shows "payment_document_check e"
proof -
  note p = check_parts [OF assms(1)]
  show ?thesis
    using assms(11) unfolding payment_document_check_def assms(3-5,9,10) assms(2)
    by (elim insertE emptyE) (use p assms(6-8) in \<open>simp_all add: payment_states_def\<close>)
qed

lemma executed_document_ok:
  assumes "document_ok d" and "pd_state d = ''APPROVED''"
  shows "document_ok (executed_document u m (pd_version d + 1) d)"
proof -
  have c: "payment_document_check d" using assms(1) by (simp add: document_ok_def)
  have "payment_document_check (executed_document u m (pd_version d + 1) d)"
    by (rule final_check [OF c check_workflow [OF c], where q = "''EXECUTED''"])
       (use assms(2) check_parts(2) [OF c] in \<open>simp_all add: executed_document_def\<close>)
  then show ?thesis by (simp add: document_ok_def executed_document_def)
qed

lemma reversed_document_ok:
  assumes "document_ok d" and st: "pd_state d \<in> {''EXECUTED'', ''ACCOUNTING_READY'', ''ACCOUNTING_POSTED''}"
  shows "document_ok (reversed_document rid (pd_version d + 1) m d)"
proof -
  have c: "payment_document_check d" and e: "pd_executionState d = ''EXECUTED''"
    using assms unfolding document_ok_def by blast+
  have w: "pd_workflowState d = ''APPROVED''" by (rule check_workflow [OF c]) (use st in blast)
  have "payment_document_check (reversed_document rid (pd_version d + 1) m d)"
    by (rule final_check [OF c w, where q = "''REVERSED''"])
       (use check_parts(2) [OF c] check_executed [OF c e] in \<open>simp_all add: reversed_document_def\<close>)
  then show ?thesis by (simp add: document_ok_def reversed_document_def)
qed

lemma unexecuted_document_ok:
  "payment_document_check d \<Longrightarrow> pd_state d \<in> {''DRAFT'', ''APPROVAL_PENDING'', ''APPROVED'', ''REJECTED''} \<Longrightarrow>
     document_ok d"
  by (elim insertE emptyE) (simp_all add: document_ok_def)


lemma effect_documents_valid:
  assumes "call_effect s s'" and "documents_valid s"
  shows "documents_valid s'"
  using assms
proof (induction rule: call_effect.induct)
  case (nothing s' s)
  then show ?case by (simp add: documents_valid_def evidence_def)
next
  case (created env org u i dto derived num s s')
  show ?case
  proof (rule created_tables [OF created(1)])
    fix d assume docs: "t_paymentDocuments s' = t_paymentDocuments s @ [d]"
      and d: "payment_document_check d" "\<forall>x \<in> set (t_paymentDocuments s). \<not> payment_document_clash d x"
        "pd_state d = ''DRAFT''"
    have "document_ok d" by (rule unexecuted_document_ok [OF d(1)]) (simp add: d(3))
    then show ?thesis by (rule appended_documents_valid [OF created(2) _ d(2) docs])
  qed
next
  case (submitted env s org u i v payment contexts amount ev steps n s')
  obtain d where d: "find_document s org i = Some d" "yp_id payment = i"
    using submission_locks [OF submitted(1)] by metis
  obtain moment where docs: "t_paymentDocuments s' = update_where (is_document org i)
      (submitted_document n (submitted_state steps) moment) (t_paymentDocuments s)" (is "_ = update_where _ ?f _")
    using submitted_tables [OF submitted(2)] d(2) by metis
  have "?f d \<in> set (t_paymentDocuments s')" "is_document org i (?f d)"
    using find_document_mem [OF d(1)] by (auto simp: docs update_document [OF submitted(3) d(1)] set_replace_row
        is_document_def submitted_document_def)
  then have "payment_document_check (?f d)" using submitted(2) d(2) by (auto simp: submitted_def)
  then have "document_ok (?f d)"
    by (rule unexecuted_document_ok) (simp add: submitted_document_def submitted_state_def)
  then show ?case
    by (rule updated_documents_valid [OF submitted(3) d(1) _ _ _ _ docs]) (simp_all add: submitted_document_def)
next
  case (acted env s org u i dto v payment n steps a row s')
  obtain d where d: "find_document s org i = Some d" using action_locks [OF acted(1)] by metis
  obtain moment where docs: "t_paymentDocuments s' = update_where (is_document org i)
      (acted_document (next_state (aa_action dto) steps) moment) (t_paymentDocuments s)" (is "_ = update_where _ ?f _")
    using acted_tables(4) [OF acted(3)] by blast
  have "?f d \<in> set (t_paymentDocuments s')" "is_document org i (?f d)"
    using find_document_mem [OF d] by (auto simp: docs update_document [OF acted(4) d] set_replace_row
        is_document_def acted_document_def)
  then have "payment_document_check (?f d)" using acted(3) unfolding acted_def by blast
  then have "document_ok (?f d)"
  proof (rule unexecuted_document_ok)
    show "pd_state (?f d) \<in> {''DRAFT'', ''APPROVAL_PENDING'', ''APPROVED'', ''REJECTED''}"
      using next_state_cases [of steps] by (cases "aa_action dto") (auto simp: acted_document_def)
  qed
  then show ?case
    by (rule updated_documents_valid [OF acted(4) d _ _ _ _ docs]) (simp_all add: acted_document_def)
next
  case (executed env s ctx body locked v ids s')
  let ?d = "lk_document locked"
  have lock: "lockPayment s (cx_organizationId ctx) (cx_paymentId ctx) = Some locked"
    and st: "pd_state ?d = ''APPROVED''" "pd_version ?d = v"
    using executed(1) by (simp_all add: execution_checked_def Let_def)
  note d = lockPayment_document [OF lock]
  obtain moment where docs: "t_paymentDocuments s' = update_where
      (is_document (cx_organizationId ctx) (cx_paymentId ctx))
      (executed_document (cx_actorUserId ctx) moment (v + 1)) (t_paymentDocuments s)"
    using executed_documents [OF executed(2)] .
  have "document_ok ?d" using executed(4) find_document_mem [OF d] by (simp add: documents_valid_def)
  from executed_document_ok [OF this st(1)]
  have "document_ok (executed_document (cx_actorUserId ctx) moment (v + 1) ?d)" by (simp add: st(2))
  then show ?case
    by (rule updated_documents_valid [OF executed(4) d _ _ _ _ docs]) (simp_all add: executed_document_def)
next
  case (reversed env s ctx rbody locked v es rid s')
  let ?d = "lk_document locked"
  have lock: "lockPayment s (cx_organizationId ctx) (cx_paymentId ctx) = Some locked"
    and st: "reversible ?d" "pd_version ?d = v"
    using reversed(1) by (simp_all add: reversal_checked_def Let_def)
  note d = lockPayment_document [OF lock]
  obtain input where r: "payment_document_check (reversal_document rid input)"
      "\<forall>x \<in> set (t_paymentDocuments s). \<not> payment_document_clash (reversal_document rid input) x"
    and docs: "t_paymentDocuments s' = update_where (is_document (cx_organizationId ctx) (cx_paymentId ctx))
        (reversed_document rid (v + 1) (ri_executedAt input)) (t_paymentDocuments s)
        @ [reversal_document rid input]" (is "_ = update_where ?p ?f _ @ _")
    using reversed_documents [OF reversed(2)] by metis
  let ?s = "s\<lparr>t_paymentDocuments := update_where ?p ?f (t_paymentDocuments s)\<rparr>"
  have "document_ok ?d" using reversed(4) find_document_mem [OF d] by (simp add: documents_valid_def)
  then have "document_ok (?f ?d)"
    using reversed_document_ok [of ?d rid "ri_executedAt input"] st by (simp add: reversible_def)
  moreover have eq: "t_paymentDocuments ?s = update_where ?p ?f (t_paymentDocuments s)" by simp
  ultimately have valid: "documents_valid ?s"
    by (intro updated_documents_valid [OF reversed(4) d _ _ _ _ eq]) (simp_all add: reversed_document_def)
  show ?case
  proof (rule appended_documents_valid [OF valid])
    show "document_ok (reversal_document rid input)"
      using r(1) by (simp add: document_ok_def reversal_document_def Let_def)
    show "\<forall>x \<in> set (t_paymentDocuments ?s). \<not> payment_document_clash (reversal_document rid input) x"
      using r(2) by (auto simp: set_update_where payment_document_clash_def reversed_document_def)
    show "t_paymentDocuments s' = t_paymentDocuments ?s @ [reversal_document rid input]" by (simp add: docs)
  qed
qed

section \<open>Constraints of the approval evidence\<close>

definition evidence_valid :: "'z payment_db_scheme \<Rightarrow> bool" where
  "evidence_valid s \<longleftrightarrow>
     unclashed approval_snapshot_clash (t_paymentApprovalSnapshots s)
     \<and> (\<forall>t \<in> set (t_paymentApprovalSnapshotSteps s). snapshot_step_check t
          \<and> snapshot_ref s (pt_organizationId t) (pt_approvalSnapshotId t))
     \<and> unclashed snapshot_step_clash (t_paymentApprovalSnapshotSteps s)
     \<and> (\<forall>a \<in> set (t_paymentApprovalActions s). approval_action_check a
          \<and> snapshot_ref s (pc_organizationId a) (pc_approvalSnapshotId a))
     \<and> unclashed approval_action_clash (t_paymentApprovalActions s)
     \<and> (\<forall>d \<in> set (t_paymentDocuments s). \<forall>n. pd_currentApprovalSnapshotId d = Some n \<longrightarrow>
          (\<exists>x \<in> set (t_paymentApprovalSnapshots s). ps_id x = n
             \<and> ps_organizationId x = pd_organizationId d \<and> ps_paymentDocumentId x = pd_id d))"

lemma snapshot_ref_grows:
  "t_paymentApprovalSnapshots s' = t_paymentApprovalSnapshots s @ rows \<Longrightarrow>
     snapshot_ref s org n \<Longrightarrow> snapshot_ref s' org n"
  by (auto simp: snapshot_ref_def ref_ok_def)

text \<open>A step that leaves the evidence alone keeps it valid when the documents keep their snapshots.\<close>

lemma evidence_valid_documents:
  assumes "evidence_valid s" and "t_paymentApprovalSnapshots s' = t_paymentApprovalSnapshots s"
    and "t_paymentApprovalSnapshotSteps s' = t_paymentApprovalSnapshotSteps s"
    and "t_paymentApprovalActions s' = t_paymentApprovalActions s"
    and "\<And>d n. d \<in> set (t_paymentDocuments s') \<Longrightarrow> pd_currentApprovalSnapshotId d = Some n \<Longrightarrow>
      \<exists>e \<in> set (t_paymentDocuments s). pd_currentApprovalSnapshotId e = Some n
        \<and> pd_id e = pd_id d \<and> pd_organizationId e = pd_organizationId d"
  shows "evidence_valid s'"
proof -
  have "snapshot_ref s' = snapshot_ref s" by (simp add: fun_eq_iff snapshot_ref_def assms(2))
  then show ?thesis
    using assms(1,5) unfolding evidence_valid_def assms(2-4) by metis
qed


lemma effect_evidence_valid:
  assumes "call_effect s s'" and "documents_valid s" and "evidence_valid s"
  shows "evidence_valid s'"
  using assms
proof (induction rule: call_effect.induct)
  case (nothing s' s)
  then show ?case by (simp add: evidence_valid_def evidence_def snapshot_ref_def)
next
  case (created env org u i dto derived num s s')
  show ?case
  proof (rule created_tables [OF created(1)])
    fix d
    assume d: "t_paymentDocuments s' = t_paymentDocuments s @ [d]" "pd_currentApprovalSnapshotId d = None"
      and t: "t_paymentApprovalSnapshots s' = t_paymentApprovalSnapshots s"
        "t_paymentApprovalSnapshotSteps s' = t_paymentApprovalSnapshotSteps s"
        "t_paymentApprovalActions s' = t_paymentApprovalActions s"
    show "evidence_valid s'"
      by (rule evidence_valid_documents [OF created(3) t]) (use d in auto)
  qed
next
  case (submitted env s org u i v payment contexts amount ev steps n s')
  obtain d where d: "find_document s org i = Some d" "yp_id payment = i"
    using submission_locks [OF submitted(1)] by metis
  obtain moment row where docs: "t_paymentDocuments s' = update_where (is_document org i)
        (submitted_document n (submitted_state steps) moment) (t_paymentDocuments s)"
    and snaps: "t_paymentApprovalSnapshots s' = t_paymentApprovalSnapshots s @ [row]"
    and row: "ps_id row = n" "ps_organizationId row = org" "ps_paymentDocumentId row = i"
    and rows: "t_paymentApprovalSnapshotSteps s' = t_paymentApprovalSnapshotSteps s @ map (step_row org n) steps"
    and acts: "t_paymentApprovalActions s' = t_paymentApprovalActions s"
    using submitted_tables [OF submitted(2)] d(2) by metis
  have sub: "\<forall>x \<in> set (t_paymentApprovalSnapshots s). ps_id x \<noteq> n"
      "\<forall>t \<in> set steps. snapshot_step_check (step_row org n t)
        \<and> (\<forall>r \<in> set (t_paymentApprovalSnapshotSteps s). \<not> snapshot_step_clash (step_row org n t) r)"
      "unclashed snapshot_step_clash (map (step_row org n) steps)"
    using submitted(2) unfolding submitted_def by blast+
  have new: "snapshot_ref s' org n" using row by (simp add: snapshot_ref_def ref_ok_def snaps)
  have "unclashed approval_snapshot_clash (t_paymentApprovalSnapshots s')"
    using submitted(4) sub(1) row(1)
    by (auto simp: evidence_valid_def snaps unclashed_append unclashed_Cons approval_snapshot_clash_def)
  moreover have "\<forall>t \<in> set (t_paymentApprovalSnapshotSteps s'). snapshot_step_check t
      \<and> snapshot_ref s' (pt_organizationId t) (pt_approvalSnapshotId t)"
    using submitted(4) sub(2) new snapshot_ref_grows [OF snaps]
    by (auto simp: evidence_valid_def rows step_row_def)
  moreover have "unclashed snapshot_step_clash (t_paymentApprovalSnapshotSteps s')"
    using submitted(4) sub(2,3) by (auto simp: evidence_valid_def rows unclashed_append)
  moreover have "\<forall>a \<in> set (t_paymentApprovalActions s'). approval_action_check a
      \<and> snapshot_ref s' (pc_organizationId a) (pc_approvalSnapshotId a)"
    using submitted(4) snapshot_ref_grows [OF snaps] by (auto simp: evidence_valid_def acts)
  moreover have "\<exists>x \<in> set (t_paymentApprovalSnapshots s'). ps_id x = k
      \<and> ps_organizationId x = pd_organizationId e \<and> ps_paymentDocumentId x = pd_id e"
    if e: "e \<in> set (t_paymentDocuments s')" and k: "pd_currentApprovalSnapshotId e = Some k" for e k
  proof (cases "e = submitted_document n (submitted_state steps) moment d")
    case True
    then show ?thesis
      using k row find_document_mem [OF d(1)] by (auto simp: snaps submitted_document_def)
  next
    case False
    then have "e \<in> set (t_paymentDocuments s)"
      using e find_document_mem [OF d(1)] by (auto simp: docs update_document [OF submitted(3) d(1)] set_replace_row)
    then show ?thesis using submitted(4) k by (auto simp: evidence_valid_def snaps)
  qed
  ultimately show ?case using submitted(4) by (auto simp: evidence_valid_def acts)
next
  case (acted env s org u i dto v payment n steps a row s')
  obtain d where d: "find_document s org i = Some d" "pd_currentApprovalSnapshotId d = Some n"
    using action_locks [OF acted(1)] by metis
  note t = acted_tables [OF acted(3)]
  obtain moment where docs: "t_paymentDocuments s' = update_where (is_document org i)
      (acted_document (next_state (aa_action dto) steps) moment) (t_paymentDocuments s)"
    using t(4) by blast
  have row: "approval_action_check row" "\<forall>a \<in> set (t_paymentApprovalActions s). \<not> approval_action_clash row a"
      "approval_action_refs s row"
    using acted(3) unfolding acted_def by blast+
  have ref: "snapshot_ref s (pc_organizationId row) (pc_approvalSnapshotId row)"
    using row(3) by (simp add: approval_action_refs_def Let_def snapshot_ref_def)
  have same: "snapshot_ref s' = snapshot_ref s" by (simp add: fun_eq_iff snapshot_ref_def t(3))
  have "\<exists>x \<in> set (t_paymentApprovalSnapshots s). ps_id x = k
      \<and> ps_organizationId x = pd_organizationId e \<and> ps_paymentDocumentId x = pd_id e"
    if e: "e \<in> set (t_paymentDocuments s')" and k: "pd_currentApprovalSnapshotId e = Some k" for e k
  proof -
    obtain x where "x \<in> set (t_paymentDocuments s)" "pd_id x = pd_id e" "pd_organizationId x = pd_organizationId e"
      "pd_currentApprovalSnapshotId x = Some k"
      using e k by (auto simp: docs set_update_where acted_document_def split: if_splits)
    then show ?thesis using acted(5) unfolding evidence_valid_def by metis
  qed
  then show ?case
    using acted(5) row(1,2) ref
    by (auto simp: evidence_valid_def t(1-3) same unclashed_append unclashed_Cons)
next
  case (executed env s ctx body locked v ids s')
  obtain moment where docs: "t_paymentDocuments s' = update_where
      (is_document (cx_organizationId ctx) (cx_paymentId ctx))
      (executed_document (cx_actorUserId ctx) moment (v + 1)) (t_paymentDocuments s)"
    using executed_documents [OF executed(2)] .
  show ?case
    by (rule evidence_valid_documents [OF executed(5)])
       (use executed(3) in \<open>auto simp: setting_def docs set_update_where executed_document_def\<close>)
next
  case (reversed env s ctx rbody locked v es rid s')
  obtain input where docs: "t_paymentDocuments s' = update_where (is_document (cx_organizationId ctx) (cx_paymentId ctx))
        (reversed_document rid (v + 1) (ri_executedAt input)) (t_paymentDocuments s)
        @ [reversal_document rid input]"
    using reversed_documents [OF reversed(2)] by metis
  have none: "pd_currentApprovalSnapshotId (reversal_document rid input) = None"
    by (simp add: reversal_document_def Let_def)
  show ?case
    by (rule evidence_valid_documents [OF reversed(5)])
       (use reversed(3) none in \<open>auto simp: setting_def docs set_update_where reversed_document_def\<close>)
qed

end
