(* ===== verification/Approval_Invariants.thy ===== *)
theory Approval_Invariants
  imports Lifecycle_Invariants
begin

text \<open>
  What the approval evidence says of the payments, whatever services ran: approvals come in
  step order, a payment counted as approved has every approval its snapshot asks for (a
  reversal payment apart), and nobody acted on a step that bars him.
\<close>

section \<open>The evidence around a step\<close>

lemma step_row_reads [simp]:
  "pt_organizationId (step_row org n c) = org" "pt_approvalSnapshotId (step_row org n c) = n"
  by (simp_all add: step_row_def)

lemma same_evidence:
  assumes "t_paymentApprovalActions s' = t_paymentApprovalActions s"
    and "t_paymentApprovalSnapshotSteps s' = t_paymentApprovalSnapshotSteps s"
  shows "currentSteps s' = currentSteps s" and "snapshot_steps s' = snapshot_steps s"
    and "snapshot_actions s' = snapshot_actions s"
  by (intro ext currentSteps_same assms)
     (intro ext, simp add: snapshot_steps_def snapshot_actions_def assms)+

text \<open>The steps of a snapshot after a submission: the new ones without approvals, the old as they were.\<close>

lemma submitted_evidence:
  assumes "submitted org payment contexts amount ev steps n s s'" and "evidence_valid s"
  shows "k \<noteq> n \<Longrightarrow> snapshot_steps s' o' k = snapshot_steps s o' k"
    and "snapshot_actions s' o' k = snapshot_actions s o' k"
    and "snapshot_actions s' o' n = []"
    and "set (snapshot_steps s' o' n) = (if o' = org then step_row org n ` set steps else {})"
proof -
  obtain row where snaps: "t_paymentApprovalSnapshots s' = t_paymentApprovalSnapshots s @ [row]"
    and rows: "t_paymentApprovalSnapshotSteps s' = t_paymentApprovalSnapshotSteps s @ map (step_row org n) steps"
    and acts: "t_paymentApprovalActions s' = t_paymentApprovalActions s"
    using submitted_tables [OF assms(1)] by metis
  have fresh: "\<forall>x \<in> set (t_paymentApprovalSnapshots s). ps_id x \<noteq> n"
    using assms(1) by (simp add: submitted_def)
  then have no_steps: "\<forall>t \<in> set (t_paymentApprovalSnapshotSteps s). pt_approvalSnapshotId t \<noteq> n"
    and no_acts: "\<forall>a \<in> set (t_paymentApprovalActions s). pc_approvalSnapshotId a \<noteq> n"
    using assms(2) by (fastforce simp: evidence_valid_def snapshot_ref_def ref_ok_def)+
  show "snapshot_steps s' o' k = snapshot_steps s o' k" if "k \<noteq> n"
    using that by (simp add: snapshot_steps_def rows filter_empty_conv)
  show "snapshot_actions s' o' k = snapshot_actions s o' k" by (simp add: snapshot_actions_def acts)
  show "snapshot_actions s' o' n = []" using no_acts by (simp add: snapshot_actions_def acts filter_empty_conv)
  show "set (snapshot_steps s' o' n) = (if o' = org then step_row org n ` set steps else {})"
  proof -
    have old: "{t \<in> set (t_paymentApprovalSnapshotSteps s). pt_organizationId t = o' \<and> pt_approvalSnapshotId t = n} = {}"
      using no_steps by blast
    have new: "{t \<in> step_row org n ` set steps. pt_organizationId t = o' \<and> pt_approvalSnapshotId t = n}
        = (if o' = org then step_row org n ` set steps else {})"
      by (simp add: Compr_image_eq)
    show ?thesis
      by (simp only: set_snapshot_steps rows set_append set_map Un_iff conj_disj_distribR Collect_disj_eq
          old new Un_empty_left)
  qed
qed

lemma submitted_steps:
  assumes "submitted org payment contexts amount ev steps n s s'" and "evidence_valid s"
  shows "k \<noteq> n \<Longrightarrow> currentSteps s' o' k = currentSteps s o' k"
    and "\<forall>t \<in> set (currentSteps s' o' n). co_approvalsRecorded t = 0"
    and "steps = [] \<Longrightarrow> currentSteps s' o' n = []"
proof -
  note e = submitted_evidence [OF assms]
  show "currentSteps s' o' k = currentSteps s o' k" if "k \<noteq> n"
    using e(1) [OF that] e(2) by (simp add: currentSteps_def)
  show "\<forall>t \<in> set (currentSteps s' o' n). co_approvalsRecorded t = 0"
    by (simp add: currentSteps_def e(3) approved_actors_def dedup_def)
  show "currentSteps s' o' n = []" if "steps = []"
    using e(4) [of o'] that by (simp add: currentSteps_def split: if_splits)
qed

lemma complete_recorded: "t \<in> set (recorded_on i steps) \<Longrightarrow> \<forall>x \<in> set steps. complete x \<Longrightarrow> complete t"
  by (auto simp: recorded_on_def complete_def)

text \<open>The steps of a snapshot after an action: the step approved counts one more.\<close>

lemma acted_steps:
  assumes chk: "action_checked env s org u i dto v payment n steps a"
    and cmd: "command_action org n u dto steps a row"
    and act: "acted org i row state s s'"
  shows "currentSteps s' o' k = (if aa_action dto = APPROVE \<and> o' = org \<and> k = n
      then recorded_on (co_id (the (open_step steps))) steps else currentSteps s o' k)"
proof -
  have steps: "currentSteps s org n = steps" and op: "aa_action dto = APPROVE \<Longrightarrow> open_step steps \<noteq> None"
    using chk by (auto simp: action_checked_def Let_def)
  have fields: "pc_organizationId row = org" "pc_approvalSnapshotId row = n"
      "pc_approvalSnapshotStepId row = map_option co_id (target_step (aa_action dto) steps)"
      "pc_action row = action_name (aa_action dto)"
    using cmd by (simp_all add: command_action_def Let_def)
  have name: "action_name (aa_action dto) = ''APPROVED'' \<longleftrightarrow> aa_action dto = APPROVE"
    by (cases "aa_action dto") simp_all
  have row: "\<forall>a \<in> set (t_paymentApprovalActions s). \<not> approval_action_clash row a"
    using act by (simp add: acted_def)
  show ?thesis
    unfolding currentSteps_acted [OF acted_tables(1,2) [OF act] row] fields
    using op steps by (auto simp: name target_step_APPROVE)
qed

section \<open>Order and completeness of approvals\<close>

lemma positive_steps:
  assumes "evidence_valid s"
  shows "\<forall>t \<in> set (currentSteps s org n). 0 < co_approvalsRequired t"
proof -
  have "\<forall>t \<in> set (snapshot_steps s org n). 0 < pt_approvalsRequired t"
    using assms by (auto simp: evidence_valid_def set_snapshot_steps snapshot_step_check_def)
  then show ?thesis by (auto simp: currentSteps_def)
qed

definition approvals_in_order :: "'z payment_db_scheme \<Rightarrow> bool" where
  "approvals_in_order s \<longleftrightarrow> (\<forall>org n. in_order (currentSteps s org n))"

definition counts_approved :: "str \<Rightarrow> bool" where
  "counts_approved state \<longleftrightarrow> state \<in> {''APPROVED'', ''EXECUTED'', ''ACCOUNTING_READY'', ''ACCOUNTING_POSTED'', ''REVERSED''}"

definition approvals_complete :: "'z payment_db_scheme \<Rightarrow> payment_document_row \<Rightarrow> bool" where
  "approvals_complete s d \<longleftrightarrow> (\<exists>n. pd_currentApprovalSnapshotId d = Some n
     \<and> (\<forall>t \<in> set (currentSteps s (pd_organizationId d) n). complete t))"

definition is_reversal :: "'z payment_db_scheme \<Rightarrow> payment_document_row \<Rightarrow> bool" where
  "is_reversal s d \<longleftrightarrow> (\<exists>o' \<in> set (t_paymentDocuments s). pd_reversedPaymentId o' = Some (pd_id d))"

definition approved_complete :: "'z payment_db_scheme \<Rightarrow> bool" where
  "approved_complete s \<longleftrightarrow> (\<forall>d \<in> set (t_paymentDocuments s).
     counts_approved (pd_state d) \<longrightarrow> approvals_complete s d \<or> is_reversal s d)"

lemma evidence_steps:
  assumes "evidence s' = evidence s"
  shows "currentSteps s' = currentSteps s" and "t_paymentDocuments s' = t_paymentDocuments s"
    and "snapshot_steps s' = snapshot_steps s" and "snapshot_actions s' = snapshot_actions s"
proof -
  have e: "t_paymentApprovalActions s' = t_paymentApprovalActions s"
    "t_paymentApprovalSnapshotSteps s' = t_paymentApprovalSnapshotSteps s"
    using assms by (simp_all add: evidence_def)
  show "t_paymentDocuments s' = t_paymentDocuments s" using assms by (simp add: evidence_def)
  show "currentSteps s' = currentSteps s" "snapshot_steps s' = snapshot_steps s"
    "snapshot_actions s' = snapshot_actions s"
    by (rule same_evidence [OF e])+
qed

lemma setting_steps:
  assumes "setting s' = setting s"
  shows "currentSteps s' = currentSteps s" and "snapshot_steps s' = snapshot_steps s"
    and "snapshot_actions s' = snapshot_actions s"
proof -
  have e: "t_paymentApprovalActions s' = t_paymentApprovalActions s"
    "t_paymentApprovalSnapshotSteps s' = t_paymentApprovalSnapshotSteps s"
    using assms by (simp_all add: setting_def)
  show "currentSteps s' = currentSteps s" "snapshot_steps s' = snapshot_steps s"
    "snapshot_actions s' = snapshot_actions s"
    by (rule same_evidence [OF e])+
qed

lemma in_order_fresh: "\<forall>t \<in> set steps. co_approvalsRecorded t = 0 \<Longrightarrow> in_order steps"
  unfolding in_order_def by (simp add: sorted_wrt_iff_nth_less)

lemma effect_in_order:
  assumes "call_effect s s'" and "evidence_valid s" and "approvals_in_order s"
  shows "approvals_in_order s'"
  using assms
proof (induction rule: call_effect.induct)
  case noop: (nothing s' s)
  then show ?case by (simp add: approvals_in_order_def evidence_steps [OF noop(1)])
next
  case (created env org u i dto derived num s s')
  have "currentSteps s' = currentSteps s"
    by (rule created_tables [OF created(1)]) (rule same_evidence)
  then show ?case using created(3) by (simp add: approvals_in_order_def)
next
  case (submitted env s org u i v payment contexts amount ev steps n s')
  have "in_order (currentSteps s' o' k)" for o' k
  proof (cases "k = n")
    case True
    then show ?thesis
      using submitted_steps(2) [OF submitted(2,3), of o'] by (simp add: in_order_fresh)
  next
    case False
    then show ?thesis
      using submitted(4) submitted_steps(1) [OF submitted(2,3)] by (simp add: approvals_in_order_def)
  qed
  then show ?case by (simp add: approvals_in_order_def)
next
  case (acted env s org u i dto v payment n steps a row s')
  have steps: "currentSteps s org n = steps" and op: "aa_action dto = APPROVE \<Longrightarrow> open_step steps \<noteq> None"
    using acted(1) by (auto simp: action_checked_def Let_def)
  have dist: "distinct (map co_id steps)"
    using distinct_steps(1) [of s org n] acted(4) by (simp add: evidence_valid_def steps)
  have "in_order steps" using acted(5) steps by (auto simp: approvals_in_order_def)
  then have "aa_action dto = APPROVE \<Longrightarrow> in_order (recorded_on (co_id (the (open_step steps))) steps)"
    using in_order_recorded [OF _ _ dist] op by fastforce
  then show ?case
    using acted(5) by (simp add: approvals_in_order_def acted_steps [OF acted(1-3)])
next
  case (executed env s ctx body locked v ids s')
  then show ?case by (simp add: approvals_in_order_def setting_steps [OF executed(3)])
next
  case (reversed env s ctx rbody locked v es rid s')
  then show ?case by (simp add: approvals_in_order_def setting_steps [OF reversed(3)])
qed


section \<open>Payments that count as approved\<close>

text \<open>
  The documents of a step: each is an old one, or comes from the one the step is about, or is
  new. Approvals stay complete where the document keeps its snapshot and its state counts as
  approved only if it did.
\<close>

definition steps_grow :: "'z payment_db_scheme \<Rightarrow> 'z payment_db_scheme \<Rightarrow> bool" where
  "steps_grow s s' \<longleftrightarrow> (\<forall>d \<in> set (t_paymentDocuments s). approvals_complete s d \<longrightarrow> approvals_complete s' d)"

lemma approvals_complete_kept:
  "pd_organizationId e = pd_organizationId d \<Longrightarrow>
     pd_currentApprovalSnapshotId e = pd_currentApprovalSnapshotId d \<Longrightarrow>
     approvals_complete s e = approvals_complete s d"
  by (simp add: approvals_complete_def)

lemma steps_grow_same: "currentSteps s' = currentSteps s \<Longrightarrow> steps_grow s s'"
  by (simp add: steps_grow_def approvals_complete_def)

lemma approved_complete_updated:
  assumes "approved_complete s" and "documents_valid s" and "steps_grow s s'"
    and d: "find_document s org i = Some d"
    and docs: "t_paymentDocuments s' = update_where (is_document org i) f (t_paymentDocuments s) @ new"
    and keep: "\<And>r. pd_reversedPaymentId d = Some r \<Longrightarrow> pd_reversedPaymentId (f d) = Some r"
    and ids: "pd_id (f d) = pd_id d"
    and now: "counts_approved (pd_state (f d)) \<Longrightarrow> approvals_complete s' (f d)
      \<or> is_reversal s d \<and> counts_approved (pd_state d)"
    and new: "\<And>x. x \<in> set new \<Longrightarrow> counts_approved (pd_state x) \<Longrightarrow> is_reversal s' x"
  shows "approved_complete s'"
proof -
  have old: "set (t_paymentDocuments s') = insert (f d) (set (t_paymentDocuments s) - {d}) \<union> set new"
    using find_document_mem [OF d] by (simp add: docs update_document [OF assms(2) d] set_replace_row)
  have "is_reversal s' y" if "is_reversal s x" "pd_id y = pd_id x" for x y
    using that keep unfolding is_reversal_def old by auto
  note rev = this
  show ?thesis
    unfolding approved_complete_def
  proof (intro ballI impI)
    fix e assume "e \<in> set (t_paymentDocuments s')" and c: "counts_approved (pd_state e)"
    then consider "e = f d" | "e \<in> set (t_paymentDocuments s)" | "e \<in> set new" unfolding old by blast
    then show "approvals_complete s' e \<or> is_reversal s' e"
    proof cases
      case 1
      then show ?thesis using now rev [OF _ ids] c by blast
    next
      case 2
      then show ?thesis using assms(1,3) c rev unfolding approved_complete_def steps_grow_def by blast
    next
      case 3
      then show ?thesis using new c by blast
    qed
  qed
qed

lemma acted_grow:
  assumes "action_checked env s org u i dto v payment n steps a"
    and "command_action org n u dto steps a row" and "acted org i row state s s'"
  shows "steps_grow s s'"
proof -
  have steps: "currentSteps s org n = steps" using assms(1) by (simp add: action_checked_def Let_def)
  have "\<forall>t \<in> set (currentSteps s' o' k). complete t" if "\<forall>t \<in> set (currentSteps s o' k). complete t" for o' k
  proof (cases "aa_action dto = APPROVE \<and> o' = org \<and> k = n")
    case True
    then show ?thesis
      using that steps complete_recorded by (simp add: acted_steps [OF assms])
  next
    case False
    then show ?thesis using that by (simp add: acted_steps [OF assms] del: de_Morgan_conj)
  qed
  then show ?thesis unfolding steps_grow_def approvals_complete_def by blast
qed

lemma submitted_grow:
  assumes "submitted org payment contexts amount ev steps n s s'" and "evidence_valid s"
  shows "steps_grow s s'"
proof -
  have "currentSteps s' o' k = currentSteps s o' k"
    if "d \<in> set (t_paymentDocuments s)" "pd_currentApprovalSnapshotId d = Some k" for d o' k
  proof (rule submitted_steps(1) [OF assms])
    have "\<forall>x \<in> set (t_paymentApprovalSnapshots s). ps_id x \<noteq> n" using assms(1) by (simp add: submitted_def)
    then show "k \<noteq> n" using that assms(2) unfolding evidence_valid_def by metis
  qed
  then show ?thesis unfolding steps_grow_def approvals_complete_def by fastforce
qed



lemma effect_approved_complete:
  assumes "call_effect s s'" and "documents_valid s" and "evidence_valid s"
    and "approvals_in_order s" and "approved_complete s"
  shows "approved_complete s'"
  using assms
proof (induction rule: call_effect.induct)
  case noop: (nothing s' s)
  then show ?case
    by (simp add: approved_complete_def approvals_complete_def is_reversal_def evidence_steps [OF noop(1)])
next
  case (created env org u i dto derived num s s')
  show ?case
  proof (rule created_tables [OF created(1)])
    fix d assume d: "t_paymentDocuments s' = t_paymentDocuments s @ [d]" "pd_state d = ''DRAFT''"
      and same: "t_paymentApprovalSnapshotSteps s' = t_paymentApprovalSnapshotSteps s"
        "t_paymentApprovalActions s' = t_paymentApprovalActions s"
    show ?thesis
      using created(5) d
      by (auto simp: approved_complete_def approvals_complete_def is_reversal_def counts_approved_def
          same_evidence(1) [OF same(2,1)])
  qed
next
  case (submitted env s org u i v payment contexts amount ev steps n s')
  obtain d where d: "find_document s org i = Some d" "yp_id payment = i"
    using submission_locks [OF submitted(1)] by metis
  obtain moment where docs: "t_paymentDocuments s' = update_where (is_document org i)
      (submitted_document n (submitted_state steps) moment) (t_paymentDocuments s)" (is "_ = update_where _ ?f _")
    using submitted_tables [OF submitted(2)] d(2) by metis
  have "approvals_complete s' (?f d)" if "counts_approved (pd_state (?f d))"
    using that submitted_steps(3) [OF submitted(2,4)]
    by (auto simp: approvals_complete_def submitted_document_def submitted_state_def counts_approved_def
        split: if_splits)
  then show ?case
    by (intro approved_complete_updated [OF submitted(6,3) submitted_grow [OF submitted(2,4)] d(1), where f = ?f and new = "[]"])
       (auto simp: docs submitted_document_def)
next
  case (acted env s org u i dto v payment n steps a row s')
  obtain d where d: "find_document s org i = Some d" "pd_currentApprovalSnapshotId d = Some n"
    using action_locks [OF acted(1)] by metis
  obtain moment where docs: "t_paymentDocuments s' = update_where (is_document org i)
      (acted_document (next_state (aa_action dto) steps) moment) (t_paymentDocuments s)" (is "_ = update_where _ ?f _")
    using acted_tables(4) [OF acted(3)] by blast
  have steps: "currentSteps s org n = steps" and op: "aa_action dto = APPROVE \<Longrightarrow> open_step steps \<noteq> None"
    using acted(1) by (auto simp: action_checked_def Let_def)
  have sound: "distinct (map co_id steps)" "sorted_wrt (\<lambda>t t'. co_order t < co_order t') steps" "in_order steps"
    using acted(5,6) distinct_steps [of s org n]
    unfolding evidence_valid_def approvals_in_order_def steps [symmetric] by blast+
  have pos: "\<forall>t \<in> set steps. 0 < co_approvalsRequired t"
    using positive_steps [OF acted(5), of org n] by (simp only: steps)
  have "approvals_complete s' (?f d)" if c: "counts_approved (pd_state (?f d))"
  proof -
    have a: "aa_action dto = APPROVE" and st: "next_state APPROVE steps = ''APPROVED''"
      using c next_state_cases [of steps]
      by (cases "aa_action dto"; auto simp: acted_document_def counts_approved_def)+
    obtain t where t: "open_step steps = Some t" using op [OF a] by blast
    have "\<forall>x \<in> set (recorded_on (co_id t) steps). complete x"
      using st unfolding next_state_APPROVE [OF t sound(1,3,2) pos] missing_zero [symmetric]
      by (simp split: if_splits)
    then have "\<forall>x \<in> set (currentSteps s' org n). complete x"
      by (simp add: acted_steps [OF acted(1-3)] a t)
    then show ?thesis
      using d find_document_mem [OF d(1)] st a by (simp add: approvals_complete_def acted_document_def)
  qed
  then show ?case
    by (intro approved_complete_updated [OF acted(7,4) acted_grow [OF acted(1-3)] d(1), where f = ?f and new = "[]"])
       (auto simp: docs acted_document_def)
next
  case (executed env s ctx body locked v ids s')
  let ?d = "lk_document locked"
  have lock: "lockPayment s (cx_organizationId ctx) (cx_paymentId ctx) = Some locked"
    and st: "pd_state ?d = ''APPROVED''"
    using executed(1) by (simp_all add: execution_checked_def Let_def)
  note d = lockPayment_document [OF lock]
  obtain moment where docs: "t_paymentDocuments s' = update_where
      (is_document (cx_organizationId ctx) (cx_paymentId ctx))
      (executed_document (cx_actorUserId ctx) moment (v + 1)) (t_paymentDocuments s)" (is "_ = update_where _ ?f _")
    using executed_documents [OF executed(2)] .
  have was: "approvals_complete s ?d \<or> is_reversal s ?d"
    using executed(7) find_document_mem [OF d] st by (auto simp: approved_complete_def counts_approved_def)
  have "approvals_complete s' (?f ?d) = approvals_complete s ?d"
    by (simp add: approvals_complete_def executed_document_def setting_steps [OF executed(3)])
  then show ?case
    using was st
    by (intro approved_complete_updated [OF executed(7,4) steps_grow_same [OF setting_steps(1) [OF executed(3)]] d,
          where f = ?f and new = "[]"])
       (auto simp: docs executed_document_def counts_approved_def)
next
  case (reversed env s ctx rbody locked v es rid s')
  let ?d = "lk_document locked"
  have lock: "lockPayment s (cx_organizationId ctx) (cx_paymentId ctx) = Some locked"
    and st: "reversible ?d"
    using reversed(1) by (simp_all add: reversal_checked_def Let_def)
  note d = lockPayment_document [OF lock]
  obtain input where docs: "t_paymentDocuments s' = update_where (is_document (cx_organizationId ctx) (cx_paymentId ctx))
        (reversed_document rid (v + 1) (ri_executedAt input)) (t_paymentDocuments s)
        @ [reversal_document rid input]" (is "_ = update_where _ ?f _ @ _")
    using reversed_documents [OF reversed(2)] by metis
  have was: "approvals_complete s ?d \<or> is_reversal s ?d" "counts_approved (pd_state ?d)"
    using reversed(7) find_document_mem [OF d] st
    by (auto simp: approved_complete_def counts_approved_def reversible_def)
  have "approvals_complete s' (?f ?d) = approvals_complete s ?d"
    by (simp add: approvals_complete_def reversed_document_def setting_steps [OF reversed(3)])
  moreover have "is_reversal s' (reversal_document rid input)"
    using find_document_mem [OF d]
    by (auto simp: is_reversal_def docs update_document [OF reversed(4) d] set_replace_row
        reversed_document_def reversal_document_def Let_def)
  ultimately show ?case
    using was st
    by (intro approved_complete_updated [OF reversed(7,4) steps_grow_same [OF setting_steps(1) [OF reversed(3)]] d docs])
       (auto simp: reversed_document_def reversible_def)
qed



section \<open>Independence of the approvers\<close>

text \<open>
  An action on a step was taken by the step's named approver or for him, and never by or for the
  creator of the payment where the step separates them.
\<close>

definition acts_for :: "approval_action_row \<Rightarrow> uuid set" where
  "acts_for a = insert (pc_actorUserId a) (set_option (pc_delegatedFromUserId a))"

definition independent_action :: "uuid \<Rightarrow> snapshot_step_row \<Rightarrow> approval_action_row \<Rightarrow> bool" where
  "independent_action creatorUserId t a \<longleftrightarrow>
     (\<forall>u. pt_approverUserId t = Some u \<longrightarrow> u \<in> acts_for a)
     \<and> (''CREATOR_NOT_APPROVER'' \<in> set (pt_separationRules t) \<longrightarrow> creatorUserId \<notin> acts_for a)"

definition independent_on :: "'z payment_db_scheme \<Rightarrow> payment_document_row \<Rightarrow> bool" where
  "independent_on s d \<longleftrightarrow> (\<forall>n. pd_currentApprovalSnapshotId d = Some n \<longrightarrow>
     (\<forall>t \<in> set (snapshot_steps s (pd_organizationId d) n).
      \<forall>a \<in> set (snapshot_actions s (pd_organizationId d) n).
        pc_approvalSnapshotStepId a = Some (pt_id t) \<longrightarrow> independent_action (pd_creatorUserId d) t a))"

definition independent :: "'z payment_db_scheme \<Rightarrow> bool" where
  "independent s \<longleftrightarrow> (\<forall>d \<in> set (t_paymentDocuments s). independent_on s d)"

lemma independent_on_kept:
  "pd_organizationId e = pd_organizationId d \<Longrightarrow> pd_creatorUserId e = pd_creatorUserId d \<Longrightarrow>
     pd_currentApprovalSnapshotId e = pd_currentApprovalSnapshotId d \<Longrightarrow>
     independent_on s e = independent_on s d"
  by (simp add: independent_on_def)

lemma independent_on_None: "pd_currentApprovalSnapshotId d = None \<Longrightarrow> independent_on s d"
  by (simp add: independent_on_def)

lemma independent_on_same:
  "snapshot_steps s' = snapshot_steps s \<Longrightarrow> snapshot_actions s' = snapshot_actions s \<Longrightarrow>
     independent_on s' d = independent_on s d"
  by (simp add: independent_on_def)

text \<open>The subjects a step admits are the ones its action was taken for.\<close>

lemma command_independent:
  assumes chk: "action_checked env s org u i dto v payment n steps a"
    and cmd: "command_action org n u dto steps a row" and valid: "evidence_valid s"
    and t: "t \<in> set (snapshot_steps s org n)" "pc_approvalSnapshotStepId row = Some (pt_id t)"
  shows "independent_action (yp_creatorUserId payment) t row"
proof -
  have steps: "steps = currentSteps s org n"
    and el: "step_eligible (yp_creatorUserId payment) (yp_requesterUserId payment)
         (map_option (\<lambda>t. (co_approverUserId t, co_separationRules t)) (target_step (aa_action dto) steps)) u a"
    using chk unfolding action_checked_def Let_def by blast+
  have row: "pc_actorUserId row = u" "pc_delegatedFromUserId row = au_delegatedFromUserId a"
      "pc_approvalSnapshotStepId row = map_option co_id (target_step (aa_action dto) steps)"
    using cmd by (simp_all add: command_action_def Let_def)
  obtain c where c: "target_step (aa_action dto) steps = Some c" "co_id c = pt_id t"
    using t(2) row(3) by auto
  obtain t' where t': "t' \<in> set (snapshot_steps s org n)" "co_id c = pt_id t'"
      "co_approverUserId c = pt_approverUserId t'" "co_separationRules c = pt_separationRules t'"
    using target_step_mem [OF c(1)] unfolding steps currentSteps_def by fastforce
  have "unclashed snapshot_step_clash (t_paymentApprovalSnapshotSteps s)" using valid by (simp add: evidence_valid_def)
  then have "t' = t"
    using unclashed_key [of snapshot_step_clash "t_paymentApprovalSnapshotSteps s" t' t] t(1) t'(1,2) c(2)
    by (simp add: set_snapshot_steps snapshot_step_clash_def)
  moreover have "acts_for row = set (acting_subjects u a)"
    by (cases "au_delegatedFromUserId a") (auto simp: acts_for_def acting_subjects_def row option_list_def)
  ultimately show ?thesis
    using el [unfolded c(1)] t'(3,4)
    unfolding step_eligible_def independent_action_def Let_def option.map option.case prod.case
    by (cases "pt_approverUserId t") simp_all
qed

text \<open>A snapshot belongs to one payment.\<close>

lemma evidence_owner:
  assumes "evidence_valid s" and "d \<in> set (t_paymentDocuments s)" and "pd_currentApprovalSnapshotId d = Some n"
  shows "\<exists>x \<in> set (t_paymentApprovalSnapshots s). ps_id x = n
    \<and> ps_organizationId x = pd_organizationId d \<and> ps_paymentDocumentId x = pd_id d"
  using assms by (simp add: evidence_valid_def)

lemma snapshot_owner:
  assumes "documents_valid s" and "evidence_valid s"
    and "d \<in> set (t_paymentDocuments s)" and "e \<in> set (t_paymentDocuments s)"
    and "pd_currentApprovalSnapshotId d = Some n" and "pd_currentApprovalSnapshotId e = Some n"
  shows "e = d"
proof -
  obtain x y where x: "x \<in> set (t_paymentApprovalSnapshots s)" "ps_id x = n" "ps_paymentDocumentId x = pd_id d"
    and y: "y \<in> set (t_paymentApprovalSnapshots s)" "ps_id y = n" "ps_paymentDocumentId y = pd_id e"
    using evidence_owner [OF assms(2,3,5)] evidence_owner [OF assms(2,4,6)] by blast
  have "unclashed approval_snapshot_clash (t_paymentApprovalSnapshots s)"
    using assms(2) by (simp add: evidence_valid_def)
  then have "x = y"
    using unclashed_key [of approval_snapshot_clash "t_paymentApprovalSnapshots s" x y] x(1,2) y(1,2)
    by (simp add: approval_snapshot_clash_def)
  then show ?thesis using document_unique [OF assms(1,3,4)] x(3) y(3) by simp
qed


lemma independent_updated:
  assumes "documents_valid s" and d: "find_document s org i = Some d"
    and docs: "t_paymentDocuments s' = update_where (is_document org i) f (t_paymentDocuments s) @ new"
    and now: "independent_on s' (f d)" and new: "\<And>x. x \<in> set new \<Longrightarrow> independent_on s' x"
    and others: "\<And>x. x \<in> set (t_paymentDocuments s) \<Longrightarrow> x \<noteq> d \<Longrightarrow> independent_on s' x"
  shows "independent s'"
proof -
  have "set (t_paymentDocuments s') = insert (f d) (set (t_paymentDocuments s) - {d}) \<union> set new"
    using find_document_mem [OF d] by (simp add: docs update_document [OF assms(1) d] set_replace_row)
  then show ?thesis using now new others by (auto simp: independent_def)
qed

lemma effect_independent:
  assumes "call_effect s s'" and "documents_valid s" and "evidence_valid s" and "independent s"
  shows "independent s'"
  using assms
proof (induction rule: call_effect.induct)
  case noop: (nothing s' s)
  note e = evidence_steps [OF noop(1)]
  show ?case using noop(4) by (simp add: independent_def e(2) independent_on_same [OF e(3,4)])
next
  case (created env org u i dto derived num s s')
  show ?case
  proof (rule created_tables [OF created(1)])
    fix d assume d: "t_paymentDocuments s' = t_paymentDocuments s @ [d]" "pd_currentApprovalSnapshotId d = None"
      and t: "t_paymentApprovalSnapshotSteps s' = t_paymentApprovalSnapshotSteps s"
        "t_paymentApprovalActions s' = t_paymentApprovalActions s"
    note e = same_evidence [OF t(2,1)]
    show ?thesis
      using created(4) d by (auto simp: independent_def independent_on_same [OF e(2,3)] independent_on_None)
  qed
next
  case (submitted env s org u i v payment contexts amount ev steps n s')
  obtain d where d: "find_document s org i = Some d" "yp_id payment = i"
    using submission_locks [OF submitted(1)] by metis
  obtain moment where docs: "t_paymentDocuments s' = update_where (is_document org i)
      (submitted_document n (submitted_state steps) moment) (t_paymentDocuments s)" (is "_ = update_where _ ?f _")
    using submitted_tables [OF submitted(2)] d(2) by metis
  note e = submitted_evidence [OF submitted(2,4)]
  have fresh: "\<forall>x \<in> set (t_paymentApprovalSnapshots s). ps_id x \<noteq> n" using submitted(2) by (simp add: submitted_def)
  have others: "independent_on s' x" if x: "x \<in> set (t_paymentDocuments s)" for x
    unfolding independent_on_def
  proof (intro allI impI)
    fix k assume k: "pd_currentApprovalSnapshotId x = Some k"
    have "k \<noteq> n" using evidence_owner [OF submitted(4) x k] fresh by blast
    then show "\<forall>t \<in> set (snapshot_steps s' (pd_organizationId x) k).
        \<forall>a \<in> set (snapshot_actions s' (pd_organizationId x) k).
          pc_approvalSnapshotStepId a = Some (pt_id t) \<longrightarrow> independent_action (pd_creatorUserId x) t a"
      using submitted(5) x k by (simp add: independent_def independent_on_def e(1,2))
  qed
  have "independent_on s' (?f d)"
    by (simp add: independent_on_def submitted_document_def e(3))
  then show ?case
    using others docs by (intro independent_updated [OF submitted(3) d(1), where f = ?f and new = "[]"]) auto
next
  case (acted env s org u i dto v payment n steps a row s')
  obtain d where d: "find_document s org i = Some d" "pd_currentApprovalSnapshotId d = Some n"
    "yp_creatorUserId payment = pd_creatorUserId d"
    using action_locks [OF acted(1)] by metis
  obtain moment where docs: "t_paymentDocuments s' = update_where (is_document org i)
      (acted_document (next_state (aa_action dto) steps) moment) (t_paymentDocuments s)" (is "_ = update_where _ ?f _")
    using acted_tables(4) [OF acted(3)] by blast
  have mem: "d \<in> set (t_paymentDocuments s)" "pd_organizationId d = org" using find_document_mem [OF d(1)] by simp_all
  have row: "pc_organizationId row = org" "pc_approvalSnapshotId row = n"
    using acted(2) by (simp_all add: command_action_def Let_def)
  have steps: "snapshot_steps s' = snapshot_steps s"
    by (intro ext) (simp add: snapshot_steps_def acted_tables(2) [OF acted(3)])
  note acts = snapshot_actions_append [OF acted_tables(1) [OF acted(3)]]
  have others: "independent_on s' x" if x: "x \<in> set (t_paymentDocuments s)" "x \<noteq> d" for x
    unfolding independent_on_def
  proof (intro allI impI)
    fix k assume k: "pd_currentApprovalSnapshotId x = Some k"
    have "k \<noteq> n" using snapshot_owner [OF acted(4,5) x(1) mem(1)] k d(2) x(2) by blast
    then show "\<forall>t \<in> set (snapshot_steps s' (pd_organizationId x) k).
        \<forall>a \<in> set (snapshot_actions s' (pd_organizationId x) k).
          pc_approvalSnapshotStepId a = Some (pt_id t) \<longrightarrow> independent_action (pd_creatorUserId x) t a"
      using acted(6) x(1) k by (simp add: independent_def independent_on_def steps acts row)
  qed
  have "independent_on s d" using acted(6) mem(1) by (simp add: independent_def)
  moreover have "independent_action (pd_creatorUserId d) t row"
    if "t \<in> set (snapshot_steps s org n)" "pc_approvalSnapshotStepId row = Some (pt_id t)" for t
    using command_independent [OF acted(1,2,5) that] d(3) by simp
  ultimately have "independent_on s' d"
    using d(2) mem(2) by (auto simp: independent_on_def steps acts row)
  then have "independent_on s' (?f d)"
    by (simp add: independent_on_def acted_document_def)
  then show ?case
    using others docs by (intro independent_updated [OF acted(4) d(1), where f = ?f and new = "[]"]) auto
next
  case (executed env s ctx body locked v ids s')
  have lock: "lockPayment s (cx_organizationId ctx) (cx_paymentId ctx) = Some locked"
    using executed(1) by (simp add: execution_checked_def Let_def)
  note d = lockPayment_document [OF lock]
  obtain moment where docs: "t_paymentDocuments s' = update_where
      (is_document (cx_organizationId ctx) (cx_paymentId ctx))
      (executed_document (cx_actorUserId ctx) moment (v + 1)) (t_paymentDocuments s)" (is "_ = update_where _ ?f _")
    using executed_documents [OF executed(2)] .
  have same: "independent_on s' = independent_on s"
    by (intro ext independent_on_same setting_steps [OF executed(3)])
  have "independent_on s (?f (lk_document locked)) = independent_on s (lk_document locked)"
    by (rule independent_on_kept) (simp_all add: executed_document_def)
  then show ?case
    using executed(6) docs find_document_mem [OF d]
    by (intro independent_updated [OF executed(4) d, where f = ?f and new = "[]"])
       (auto simp: same independent_def)
next
  case (reversed env s ctx rbody locked v es rid s')
  have lock: "lockPayment s (cx_organizationId ctx) (cx_paymentId ctx) = Some locked"
    using reversed(1) by (simp add: reversal_checked_def Let_def)
  note d = lockPayment_document [OF lock]
  obtain input where docs: "t_paymentDocuments s' = update_where (is_document (cx_organizationId ctx) (cx_paymentId ctx))
        (reversed_document rid (v + 1) (ri_executedAt input)) (t_paymentDocuments s)
        @ [reversal_document rid input]" (is "_ = update_where _ ?f _ @ _")
    using reversed_documents [OF reversed(2)] by metis
  have same: "independent_on s' = independent_on s"
    by (intro ext independent_on_same setting_steps [OF reversed(3)])
  have kept: "independent_on s (?f (lk_document locked)) = independent_on s (lk_document locked)"
    by (rule independent_on_kept) (simp_all add: reversed_document_def)
  have new: "independent_on s (reversal_document rid input)"
    by (rule independent_on_None) (simp add: reversal_document_def Let_def)
  show ?case
    using reversed(6) find_document_mem [OF d]
    by (intro independent_updated [OF reversed(4) d docs]) (auto simp: same kept new independent_def)
qed



section \<open>Payments and requests\<close>

text \<open>No service links a payment to the request it answers.\<close>

definition unlinked :: "'z payment_db_scheme \<Rightarrow> bool" where
  "unlinked s \<longleftrightarrow> (\<forall>d \<in> set (t_paymentDocuments s). pd_paymentRequestId d = None)"

lemma unlinked_updated:
  assumes "unlinked s" and "t_paymentDocuments s' = update_where p f (t_paymentDocuments s) @ new"
    and "\<And>d. pd_paymentRequestId (f d) = pd_paymentRequestId d"
    and "\<And>x. x \<in> set new \<Longrightarrow> pd_paymentRequestId x = None"
  shows "unlinked s'"
  using assms(1,3,4) by (auto simp: unlinked_def assms(2) set_update_where)

lemma effect_unlinked:
  assumes "call_effect s s'" and "unlinked s"
  shows "unlinked s'"
  using assms
proof (induction rule: call_effect.induct)
  case noop: (nothing s' s)
  then show ?case by (simp add: unlinked_def evidence_steps(2) [OF noop(1)])
next
  case (created env org u i dto derived num s s')
  show ?case
    by (rule created_tables [OF created(1)]) (use created(2) in \<open>auto simp: unlinked_def\<close>)
next
  case (submitted env s org u i v payment contexts amount ev steps n s')
  obtain moment where docs: "t_paymentDocuments s' = update_where (is_document org (yp_id payment))
      (submitted_document n (submitted_state steps) moment) (t_paymentDocuments s)"
    using submitted_tables [OF submitted(2)] by metis
  show ?case
    by (rule unlinked_updated [OF submitted(3) docs [THEN trans, OF append_Nil2 [symmetric]]])
       (simp_all add: submitted_document_def)
next
  case (acted env s org u i dto v payment n steps a row s')
  obtain moment where docs: "t_paymentDocuments s' = update_where (is_document org i)
      (acted_document (next_state (aa_action dto) steps) moment) (t_paymentDocuments s)"
    using acted_tables(4) [OF acted(3)] by blast
  show ?case
    by (rule unlinked_updated [OF acted(4) docs [THEN trans, OF append_Nil2 [symmetric]]])
       (simp_all add: acted_document_def)
next
  case (executed env s ctx body locked v ids s')
  obtain moment where docs: "t_paymentDocuments s' = update_where
      (is_document (cx_organizationId ctx) (cx_paymentId ctx))
      (executed_document (cx_actorUserId ctx) moment (v + 1)) (t_paymentDocuments s)"
    using executed_documents [OF executed(2)] .
  show ?case
    by (rule unlinked_updated [OF executed(4) docs [THEN trans, OF append_Nil2 [symmetric]]])
       (simp_all add: executed_document_def)
next
  case (reversed env s ctx rbody locked v es rid s')
  obtain input where docs: "t_paymentDocuments s' = update_where (is_document (cx_organizationId ctx) (cx_paymentId ctx))
        (reversed_document rid (v + 1) (ri_executedAt input)) (t_paymentDocuments s)
        @ [reversal_document rid input]"
    using reversed_documents [OF reversed(2)] by metis
  show ?case
    by (rule unlinked_updated [OF reversed(4) docs]) (auto simp: reversed_document_def reversal_document_def Let_def)
qed

lemma unlinked_requester:
  assumes "unlinked s" and "submission_allowed env s org u i v payment contexts amount ev steps"
  shows "yp_requesterUserId payment = None"
proof -
  obtain d where d: "find_document s org i = Some d"
    "yp_requesterUserId payment = request_requester s org (pd_paymentRequestId d)"
    using submission_locks [OF assms(2)] by metis
  have "pd_paymentRequestId d = None" using assms(1) find_document_mem [OF d(1)] by (simp add: unlinked_def)
  then show ?thesis by (simp add: d(2) request_requester_def)
qed

section \<open>The invariant\<close>

definition valid_payments :: "'z payment_db_scheme \<Rightarrow> bool" where
  "valid_payments s \<longleftrightarrow> documents_valid s \<and> evidence_valid s \<and> approvals_in_order s
     \<and> approved_complete s \<and> independent s"

lemma step_valid_payments:
  assumes "payment_step s s'" and "valid_payments s"
  shows "valid_payments s'"
proof -
  note e = step_effect [OF assms(1)]
  have v: "documents_valid s" "evidence_valid s" "approvals_in_order s" "approved_complete s" "independent s"
    using assms(2) by (simp_all add: valid_payments_def)
  show ?thesis
    unfolding valid_payments_def
    using effect_documents_valid [OF e v(1)] effect_evidence_valid [OF e v(1,2)] effect_in_order [OF e v(2,3)]
      effect_approved_complete [OF e v(1-4)] effect_independent [OF e v(1,2,5)] by simp
qed

lemma reachable_valid_payments:
  assumes "reachable s s'" and "valid_payments s"
  shows "valid_payments s'"
  using assms by (induction rule: rtranclp_induct) (auto intro: step_valid_payments)

lemma reachable_unlinked:
  assumes "reachable s s'" and "unlinked s"
  shows "unlinked s'"
  using assms by (induction rule: rtranclp_induct) (auto intro: effect_unlinked step_effect)

lemma empty_valid_payments:
  assumes "t_paymentDocuments s = []" and "t_paymentApprovalSnapshots s = []"
    and "t_paymentApprovalSnapshotSteps s = []" and "t_paymentApprovalActions s = []"
  shows "valid_payments s"
proof -
  have "currentSteps s org n = []" for org n
    by (simp add: currentSteps_def snapshot_steps_def assms(3) order_by_def)
  then show ?thesis
    by (simp add: valid_payments_def documents_valid_def evidence_valid_def approvals_in_order_def in_order_def
        approved_complete_def independent_def assms unclashed_def)
qed

end
