(* ===== verification/Approval_Sample.thy ===== *)
theory Approval_Sample
  imports Sample Approval_Invariants
begin

text \<open>
  The sample treasury at the desk: no payment yet, a payment drafted there, and the payment
  under a policy of two steps with its first approval. One command runs on each.
\<close>

section \<open>The desk\<close>

definition desk_env :: env where
  "desk_env = sample_env\<lparr>env_uuids := (\<lambda>n. ''1000000'' @ show_nat n @ ''-0000-4000-8000-000000000000'')\<rparr>"

definition desk_policy :: approval_policy_row where
  "desk_policy = \<lparr>ap_id = ''po'', ap_organizationId = ''org'', ap_code = ''P'', ap_name = ''Policy'',
     ap_documentType = ''PAYMENT'', ap_organizationWide = True, ap_branchId = None,
     ap_treasuryUnitId = None, ap_currency = None, ap_methodCategory = None,
     ap_minimumBaseAmount = None, ap_maximumBaseAmount = None, ap_separationRules = [],
     ap_aggregationWindowKind = None, ap_aggregationKeys = None,
     ap_aggregationOverrideSecondApproval = None, ap_state = ''ACTIVE'', ap_policyVersion = 1,
     ap_createdAt = 0, ap_updatedAt = 0\<rparr>"

definition desk_first :: approval_step_row where
  "desk_first = \<lparr>as_id = ''s1'', as_organizationId = ''org'', as_approvalPolicyId = ''po'', as_stepOrder = 1,
     as_requiredRoleId = None, as_namedApproverId = Some ''boss'', as_approvalsRequired = 1,
     as_separationRules = [''CREATOR_NOT_APPROVER'']\<rparr>"

definition desk_second :: approval_step_row where
  "desk_second = \<lparr>as_id = ''s2'', as_organizationId = ''org'', as_approvalPolicyId = ''po'', as_stepOrder = 2,
     as_requiredRoleId = Some ''ro'', as_namedApproverId = None, as_approvalsRequired = 1,
     as_separationRules = [''CREATOR_NOT_APPROVER'']\<rparr>"

definition desk_method :: method_definition_row where
  "desk_method = cash_method\<lparr>md_direction := ''PAYMENT''\<rparr>"

definition desk_currency :: method_allowed_currency_row where
  "desk_currency = \<lparr>mc_methodId = ''mc'', mc_organizationId = ''org'', mc_currencyCode = ''IRR''\<rparr>"

definition desk_db :: payment_db where
  "desk_db = sample_db\<lparr>
     t_userRefs := [user_maker, user_boss, user_auditor],
     t_identityAccounts := [account_maker, account_boss, account_auditor],
     t_rolePermissions := [perm_create, perm_submit, perm_approve],
     t_accessGrants := [grant_maker, grant_boss, grant_auditor],
     t_authChallenges := [], t_authStepUpProofs := [], t_movementFacts := [], t_bankAccounts := [],
     t_methodDefinitions := [desk_method], t_methodAllowedCurrencies := [desk_currency],
     t_approvalPolicies := [desk_policy], t_approvalSteps := [desk_first, desk_second],
     t_paymentDocuments := [], t_paymentLines := [],
     t_paymentApprovalSnapshots := [], t_paymentApprovalActions := []\<rparr>"

definition desk_line :: payment_line_input where
  "desk_line = \<lparr>li_lineNumber = 1, li_methodId = ''mc'', li_money = \<lparr>mo_amount = ''100'', mo_currency = ''IRR''\<rparr>,
     li_cashboxId = Some ''cb'', li_bankAccountId = None, li_beneficiaryPartyId = ''pa'',
     li_beneficiaryAccountReference = None, li_trackingNumber = None, li_dueDate = None,
     li_description = None, li_accountingDimensions = None, li_attachments = None\<rparr>"

definition desk_dto :: payment_create where
  "desk_dto = \<lparr>cr_businessDate = ''2026-01-02'', cr_beneficiaryPartyId = ''pa'', cr_branchId = None,
     cr_treasuryUnitId = ''tu'', cr_baseCurrency = ''IRR'', cr_purpose = ''goods'', cr_dueDate = None,
     cr_lines = [desk_line], cr_body = JObject [(''purpose'', JString ''goods'')]\<rparr>"

definition version_tag :: "str \<Rightarrow> str" where
  "version_tag v = CHR 0x22 # v @ [CHR 0x22]"

definition approve_dto :: payment_approval_action_dto where
  "approve_dto = \<lparr>aa_action = APPROVE, aa_reason = None, aa_body = JObject [(''action'', JString ''APPROVE'')]\<rparr>"

section \<open>The payment drafted and pending\<close>

definition desk_draft :: payment_document_row where
  "desk_draft = document\<lparr>pd_totalBaseAmount := ''100.00000000'', pd_currentApprovalSnapshotId := None,
     pd_state := ''DRAFT'', pd_workflowState := ''DRAFT'', pd_version := 0\<rparr>"

definition drafted_db :: payment_db where
  "drafted_db = desk_db\<lparr>t_paymentDocuments := [desk_draft], t_paymentLines := [line_cash]\<rparr>"

definition desk_step :: "uuid \<Rightarrow> int \<Rightarrow> uuid option \<Rightarrow> uuid option \<Rightarrow> snapshot_step_row" where
  "desk_step i order roleId approver = \<lparr>pt_id = i, pt_organizationId = ''org'',
     pt_approvalSnapshotId = ''sn'', pt_stepOrder = order, pt_roleId = roleId,
     pt_roleName = map_option (\<lambda>_. ''Role'') roleId, pt_approverUserId = approver,
     pt_approverName = approver, pt_approvalsRequired = 1,
     pt_separationRules = [''CREATOR_NOT_APPROVER''], pt_sourceContextOrders = [1],
     pt_obligationKey = i\<rparr>"

definition desk_action :: approval_action_row where
  "desk_action = action\<lparr>pc_approvalSnapshotStepId := Some ''t1'', pc_stepOrder := Some 1, pc_reason := None\<rparr>"

definition pending_db :: payment_db where
  "pending_db = drafted_db\<lparr>
     t_paymentDocuments := [desk_draft\<lparr>pd_currentApprovalSnapshotId := Some ''sn'',
       pd_state := ''APPROVAL_PENDING'', pd_workflowState := ''APPROVAL_PENDING'', pd_version := 2\<rparr>],
     t_paymentApprovalSnapshots := [snapshot],
     t_paymentApprovalSnapshotSteps := [desk_step ''t1'' 1 None (Some ''boss''), desk_step ''t2'' 2 (Some ''ro'') None],
     t_paymentApprovalActions := [desk_action]\<rparr>"

section \<open>The commands\<close>

definition create_run where
  "create_run = create desk_env ''org'' ''maker'' desk_dto ''key-0001'' ''req-1'' desk_db"

definition submit_run where
  "submit_run = submit desk_env ''org'' ''maker'' (pd_id desk_draft) ''key-0002'' (version_tag ''0'') ''req-2'' drafted_db"

definition act_run where
  "act_run = act desk_env ''org'' ''auditor'' (pd_id desk_draft) approve_dto ''key-0003'' (version_tag ''2'') ''req-3'' pending_db"

definition succeeds :: "'a res \<times> 's \<Rightarrow> ('s \<Rightarrow> bool) \<Rightarrow> bool" where
  "succeeds r P \<longleftrightarrow> (case r of (Inl e, t) \<Rightarrow> False | (Inr a, t) \<Rightarrow> P t)"

lemma succeedsD: "succeeds r P \<Longrightarrow> (\<exists>a. r = (Inr a, snd r)) \<and> P (snd r)"
  by (cases r) (auto simp: succeeds_def split: sum.splits)

lemma create_succeeds: "succeeds create_run (\<lambda>t. True)"
  by code_simp

lemma submit_succeeds: "succeeds submit_run (\<lambda>t. True)"
  by code_simp

lemma act_succeeds: "succeeds act_run (\<lambda>t. map pd_state (t_paymentDocuments t) = [''APPROVED'']
    \<and> map co_approvalsRecorded (currentSteps t ''org'' ''sn'') = [1, 1])"
  by code_simp

lemma runs:
  "\<exists>view. create desk_env ''org'' ''maker'' desk_dto ''key-0001'' ''req-1'' desk_db = (Inr view, snd create_run)"
  "\<exists>view. submit desk_env ''org'' ''maker'' (pd_id desk_draft) ''key-0002'' (version_tag ''0'') ''req-2'' drafted_db
     = (Inr view, snd submit_run)"
  "\<exists>view. act desk_env ''org'' ''auditor'' (pd_id desk_draft) approve_dto ''key-0003'' (version_tag ''2'') ''req-3'' pending_db
     = (Inr view, snd act_run)"
  using succeedsD [OF create_succeeds, THEN conjunct1] succeedsD [OF submit_succeeds, THEN conjunct1]
    succeedsD [OF act_succeeds, THEN conjunct1]
  by (simp_all add: create_run_def submit_run_def act_run_def)

lemma act_run_tables:
  "map pd_state (t_paymentDocuments (snd act_run)) = [''APPROVED'']"
  "map co_approvalsRecorded (currentSteps (snd act_run) ''org'' ''sn'') = [1, 1]"
  using succeedsD [OF act_succeeds] by simp_all

lemma unused_keys:
  "findIdempotency (create_key ''org'' ''maker'' ''key-0001'') desk_db = None"
  "findIdempotency (submit_key ''org'' ''maker'' (pd_id desk_draft) ''key-0002'') drafted_db = None"
  "findIdempotency (act_key ''org'' ''auditor'' (pd_id desk_draft) ''key-0003'') pending_db = None"
  by code_simp+

section \<open>The invariant holds of the pending payment\<close>

lemma pending_tables: "documents_valid pending_db"
  unfolding documents_valid_def document_ok_def unclashed_def by code_simp

lemma pending_evidence: "evidence_valid pending_db"
proof -
  have "unclashed approval_snapshot_clash (t_paymentApprovalSnapshots pending_db)"
    "\<forall>t \<in> set (t_paymentApprovalSnapshotSteps pending_db). snapshot_step_check t
       \<and> snapshot_ref pending_db (pt_organizationId t) (pt_approvalSnapshotId t)"
    "unclashed snapshot_step_clash (t_paymentApprovalSnapshotSteps pending_db)"
    "\<forall>a \<in> set (t_paymentApprovalActions pending_db). approval_action_check a
       \<and> snapshot_ref pending_db (pc_organizationId a) (pc_approvalSnapshotId a)"
    "unclashed approval_action_clash (t_paymentApprovalActions pending_db)"
    "\<forall>d \<in> set (t_paymentDocuments pending_db). \<exists>x \<in> set (t_paymentApprovalSnapshots pending_db).
       pd_currentApprovalSnapshotId d = Some (ps_id x)
       \<and> ps_organizationId x = pd_organizationId d \<and> ps_paymentDocumentId x = pd_id d"
    by code_simp+
  moreover from this(6) have "\<forall>d \<in> set (t_paymentDocuments pending_db). \<forall>n.
      pd_currentApprovalSnapshotId d = Some n \<longrightarrow> (\<exists>x \<in> set (t_paymentApprovalSnapshots pending_db).
        ps_id x = n \<and> ps_organizationId x = pd_organizationId d \<and> ps_paymentDocumentId x = pd_id d)"
    by fastforce
  ultimately show ?thesis unfolding evidence_valid_def by blast
qed

lemma pending_steps: "currentSteps pending_db org n = (if org = ''org'' \<and> n = ''sn''
    then currentSteps pending_db ''org'' ''sn'' else [])"
proof -
  have "\<forall>t \<in> set (t_paymentApprovalSnapshotSteps pending_db).
      pt_organizationId t = ''org'' \<and> pt_approvalSnapshotId t = ''sn''" by code_simp
  then have "set (snapshot_steps pending_db org n) = {}" if "\<not> (org = ''org'' \<and> n = ''sn'')"
    using that by (auto simp: set_snapshot_steps)
  then show ?thesis by (auto simp: currentSteps_def)
qed

lemma pending_valid: "valid_payments pending_db"
proof -
  have "in_order (currentSteps pending_db ''org'' ''sn'')" unfolding in_order_def by code_simp
  then have "approvals_in_order pending_db"
    unfolding approvals_in_order_def by (subst pending_steps) (simp add: in_order_fresh)
  moreover have "approved_complete pending_db"
  proof -
    have "\<forall>d \<in> set (t_paymentDocuments pending_db). \<not> counts_approved (pd_state d)" by code_simp
    then show ?thesis by (simp add: approved_complete_def)
  qed
  moreover have "independent pending_db"
  proof -
    have "\<forall>d \<in> set (t_paymentDocuments pending_db). case pd_currentApprovalSnapshotId d of None \<Rightarrow> True
        | Some n \<Rightarrow> (\<forall>t \<in> set (snapshot_steps pending_db (pd_organizationId d) n).
            \<forall>a \<in> set (snapshot_actions pending_db (pd_organizationId d) n).
              pc_approvalSnapshotStepId a = Some (pt_id t) \<longrightarrow>
                (case pt_approverUserId t of None \<Rightarrow> True | Some u \<Rightarrow> u \<in> acts_for a)
                \<and> (''CREATOR_NOT_APPROVER'' \<in> set (pt_separationRules t) \<longrightarrow> pd_creatorUserId d \<notin> acts_for a))"
      by code_simp
    then show ?thesis by (fastforce simp: independent_def independent_on_def independent_action_def split: option.splits)
  qed
  ultimately show ?thesis using pending_tables pending_evidence by (simp add: valid_payments_def)
qed


section \<open>An aggregation gone stale\<close>

text \<open>The pending payment was judged alone; another payment to the beneficiary went live since.\<close>

definition stale_db :: payment_db where
  "stale_db = pending_db\<lparr>
     t_paymentDocuments := t_paymentDocuments pending_db @ [desk_draft\<lparr>pd_id := ''other'',
       pd_businessNumber := ''20260102-PAY-000002'', pd_state := ''APPROVED'',
       pd_workflowState := ''APPROVED'', pd_version := 1\<rparr>],
     t_paymentApprovalAggregations := [\<lparr>gg_organizationId = ''org'', gg_approvalSnapshotId = ''sn'',
       gg_businessDate = ''2026-01-02'', gg_aggregationKeys = [''BENEFICIARY''],
       gg_beneficiaryPartyId = Some ''pa'', gg_externalObligationKey = None\<rparr>],
     t_paymentApprovalAggregationParticipants := [\<lparr>pp_organizationId = ''org'',
       pp_approvalSnapshotId = ''sn'', pp_paymentDocumentId = pd_id desk_draft,
       pp_paymentNumber = ''20260102-PAY-000001'', pp_versionBasis = ''SUBMITTED_CONTENT'',
       pp_paymentVersion = 1, pp_baseAmount = ''100.00000000'', pp_baseCurrency = ''IRR''\<rparr>]\<rparr>"

lemma stale_facts:
  "case lockApprovalPayment stale_db ''org'' (pd_id desk_draft) of None \<Rightarrow> False
   | Some payment \<Rightarrow> yp_currentApprovalSnapshotId payment = Some ''sn''
     \<and> (case aggregation stale_db ''org'' ''sn'' of None \<Rightarrow> False
        | Some a \<Rightarrow> \<not> aggregation_fresh stale_db ''org'' payment a)"
  "findIdempotency (act_key ''org'' ''auditor'' (pd_id desk_draft) ''key-0003'') stale_db = None"
  by code_simp+

end
