(* ===== verification/Approval_Properties.thy ===== *)
theory Approval_Properties
  imports Approval_Sample
begin

text \<open>
  The properties of \<open>PaymentDraftService.createPayment\<close>, of \<open>PaymentApprovalService.submit\<close> and of
  \<open>PaymentApprovalService.act\<close>: what a first run checked and recorded, how approvals progress, and
  what blocks them.
\<close>

section \<open>A repeated command\<close>

lemma replay_payment_stored:
  "replay_payment \<lparr>re_requestDigest = d, re_response = Some (PaymentResponse view)\<rparr> d2 s = Inr (v, s')
     \<Longrightarrow> v = view \<and> s' = s"
  by (auto simp: replay_payment_def tx_inv split: if_splits)

lemma act_stored:
  fixes s s' :: "'z payment_db_scheme"
  assumes "act env org u i dto key tag rid s = (Inr view, s')"
    and "findIdempotency (act_key org u i key) s = None"
  shows "\<exists>d. findIdempotency (act_key org u i key) s'
    = Some \<lparr>re_requestDigest = d, re_response = Some (PaymentResponse view)\<rparr>"
proof -
  obtain v d where run: "act_tx env org u i dto key v d s = Inr (view, s')" using act_Inr [OF assms(1)] by metis
  show ?thesis
    using once_tx_fresh [OF run [unfolded act_tx_once] assms(2) keeps_act_fresh] by metis
qed

lemma act_replayed:
  fixes s s' :: "'z payment_db_scheme"
  assumes "act env org u i dto key tag rid s = (r, s')"
    and found: "findIdempotency (act_key org u i key) s
      = Some \<lparr>re_requestDigest = d, re_response = Some (PaymentResponse view)\<rparr>"
  shows "core s' = core s \<and> (\<forall>v. r = Inr v \<longrightarrow> v = view)"
proof (cases r)
  case (Inl e)
  then have "s' = s"
    using assms(1) by (auto simp: act_def rethrow_Inl transaction_Inl split: sum.splits prod.splits)
  then show ?thesis using Inl by simp
next
  case (Inr v)
  then obtain w d2 where run: "act_tx env org u i dto key w d2 s = Inr (v, s')"
    using act_Inr [OF assms(1) [unfolded Inr]] by metis
  have run: "tx_bind (replay_payment \<lparr>re_requestDigest = d, re_response = Some (PaymentResponse view)\<rparr> d2)
      (replay_action env org u i dto) (lock_recorded (act_key org u i key) s) = Inr (v, s')"
    using run unfolding act_tx_once once_tx_replay [OF found] .
  then obtain v0 s0 where "replay_payment \<lparr>re_requestDigest = d, re_response = Some (PaymentResponse view)\<rparr> d2
      (lock_recorded (act_key org u i key) s) = Inr (v0, s0)"
    and rest: "replay_action env org u i dto v0 s0 = Inr (v, s')"
    by (auto simp: tx_bind_Inr)
  then have v0: "v0 = view" "s0 = lock_recorded (act_key org u i key) s"
    using replay_payment_stored by metis+
  have "v = view \<and> s' = s0"
    using rest v0(1) by (auto simp: replay_action_def Let_def tx_inv assertStepEligibility_def
        dest!: assertApprovalAuthorized_Inr split: option.splits)
  then show ?thesis using v0(2) Inr by (simp add: lock_recorded_reads)
qed

section \<open>Properties\<close>

text \<open>
  Property C9. A first creation that succeeds recorded the draft it derived: the body was
  valid, every line derived with its method, its source and its rate, the actor could create it,
  and exactly one DRAFT payment at version 0 with those lines and their summed base amount was
  added, under a new number; the answer is its view.
\<close>

theorem create_records:
  fixes s s' :: "'z payment_db_scheme"
  assumes "create env org u dto key rid s = (Inr view, s')"
    and "findIdempotency (create_key org u key) s = None"
  shows "\<exists>derived i num. validatePayment dto = Inr () \<and> creation_checked env s org u dto derived
    \<and> created env org u i dto derived num s s' \<and> paymentView s' org i = Some view"
  using create_done [OF assms] by metis

text \<open>
  Property C6. A first submission that succeeds was allowed and froze its approval: the payment
  was a draft at the version of the If-Match header, its rates still stood, the actor held
  payment.submit, every context had its governing policy, an aggregated amount counted the live
  payments of the day to the beneficiary, the policies' steps composed; and exactly the
  snapshot, its contexts, steps and aggregation were added and the payment moved to
  APPROVAL_PENDING, or to APPROVED where no step is due.
\<close>

theorem submit_records:
  fixes s s' :: "'z payment_db_scheme"
  assumes "submit env org u i key tag rid s = (Inr view, s')"
    and "findIdempotency (submit_key org u i key) s = None"
  shows "\<exists>v payment contexts amount evidence steps n. ifMatch tag = Inr v
    \<and> submission_allowed env s org u i v payment contexts amount evidence steps
    \<and> submitted org payment contexts amount evidence steps n s s'
    \<and> approval_view org i s' = Inr (view, s')"
  using submit_done [OF assms] by metis


text \<open>
  Property C8. Progress: every first approval that succeeds brings the payment one approval
  nearer, and the payment is approved exactly when none is missing any more, so as many
  approvals as are missing always complete it.
\<close>

theorem approval_progress:
  fixes s s' :: "'z payment_db_scheme"
  assumes "valid_payments s" and "aa_action dto = APPROVE"
    and "act env org u i dto key tag rid s = (Inr view, s')"
    and "findIdempotency (act_key org u i key) s = None"
  shows "\<exists>n d. missing (currentSteps s org n) = Suc (missing (currentSteps s' org n))
    \<and> find_document s' org i = Some d \<and> pd_currentApprovalSnapshotId d = Some n
    \<and> pd_state d = (if missing (currentSteps s' org n) = 0 then ''APPROVED'' else ''APPROVAL_PENDING'')"
proof -
  obtain v payment n steps a row where chk: "action_checked env s org u i dto v payment n steps a"
    and cmd: "command_action org n u dto steps a row"
    and act: "acted org i row (next_state (aa_action dto) steps) s s'"
    using act_done [OF assms(3,4)] by metis
  obtain d where d: "find_document s org i = Some d" "pd_currentApprovalSnapshotId d = Some n"
    using action_locks [OF chk] by metis
  obtain moment where docs: "t_paymentDocuments s' = update_where (is_document org i)
      (acted_document (next_state APPROVE steps) moment) (t_paymentDocuments s)" (is "_ = update_where _ ?f _")
    using acted_tables(4) [OF act] assms(2) by auto
  have valid: "documents_valid s" "evidence_valid s" "approvals_in_order s"
    using assms(1) by (simp_all add: valid_payments_def)
  have steps: "currentSteps s org n = steps" and "open_step steps \<noteq> None"
    using chk assms(2) by (auto simp: action_checked_def Let_def)
  then obtain t where t: "open_step steps = Some t" by blast
  have "unclashed snapshot_step_clash (t_paymentApprovalSnapshotSteps s)"
    using valid(2) unfolding evidence_valid_def by blast
  note dist = distinct_steps [OF this, of org n, unfolded steps]
  have order: "in_order steps" using valid(3) steps by (auto simp: approvals_in_order_def)
  have "currentSteps s' org n = recorded_on (co_id t) steps"
    using acted_steps [OF chk cmd act, of org n] t assms(2) by simp
  then have less: "missing steps = Suc (missing (currentSteps s' org n))"
    and state: "next_state APPROVE steps
      = (if missing (currentSteps s' org n) = 0 then ''APPROVED'' else ''APPROVAL_PENDING'')"
    using missing_recorded [OF t dist(1)] next_state_APPROVE [OF t dist(1) order dist(2)]
      positive_steps [OF valid(2), of org n] by (simp_all add: steps)
  have "find_document s' org i = Some (?f d)"
    using find_document_after [OF docs] d(1) by simp
  then show ?thesis
    using less d(2) state by (intro exI [of _ n] exI [of _ "?f d"]) (auto simp: steps acted_document_def)
qed

text \<open>
  Property C13. A stale aggregation blocks every action: where a payment was submitted under an
  aggregating policy and the live payments of the day to the beneficiary are no longer, at the
  same versions, the ones it counted, no first action on it succeeds, be it an approval, a
  return or a rejection, and nothing changes.
\<close>

theorem stale_aggregation_blocks:
  fixes s s' :: "'z payment_db_scheme"
  assumes "lockApprovalPayment s org i = Some payment"
    and "yp_currentApprovalSnapshotId payment = Some n"
    and "aggregation s org n = Some a" and "\<not> aggregation_fresh s org payment a"
    and "findIdempotency (act_key org u i key) s = None"
  shows "\<exists>e. act env org u i dto key tag rid s = (Inl e, s)"
proof (cases "act env org u i dto key tag rid s")
  case (Pair r s')
  show ?thesis
  proof (cases r)
    case (Inl e)
    then have "s' = s"
      using Pair by (auto simp: act_def rethrow_Inl transaction_Inl split: sum.splits prod.splits)
    then show ?thesis using Pair Inl by simp
  next
    case (Inr view)
    then obtain v payment' n' steps b row where "action_checked env s org u i dto v payment' n' steps b"
      using act_done [OF _ assms(5)] Pair by metis
    then show ?thesis using assms(1-4) by (simp add: action_checked_def Let_def)
  qed
qed

text \<open>
  Property C11. An approval counts once: repeating an action under its key, with whatever body
  and headers, adds no approval and changes nothing but the bookkeeping of locks and keys, and
  where it succeeds the answer is the first one.
\<close>

theorem act_once:
  fixes s s' s2 :: "'z payment_db_scheme"
  assumes "act env org u i dto key tag rid s = (Inr view, s')"
    and "findIdempotency (act_key org u i key) s = None"
    and "act env org u i dto2 key tag2 rid2 s' = (r, s2)"
  shows "core s2 = core s' \<and> (\<forall>v. r = Inr v \<longrightarrow> v = view)"
  using act_stored [OF assms(1,2)] act_replayed [OF assms(3)] by blast


section \<open>Witnesses\<close>

lemma create_records_witness:
  "\<exists>view derived i num. validatePayment desk_dto = Inr ()
     \<and> creation_checked desk_env desk_db ''org'' ''maker'' desk_dto derived
     \<and> created desk_env ''org'' ''maker'' i desk_dto derived num desk_db (snd create_run)
     \<and> paymentView (snd create_run) ''org'' i = Some view"
  using runs(1) create_records [OF _ unused_keys(1)] by blast

lemma submit_records_witness:
  "\<exists>view v payment contexts amount evidence steps n. ifMatch (version_tag ''0'') = Inr v
     \<and> submission_allowed desk_env drafted_db ''org'' ''maker'' (pd_id desk_draft) v payment contexts amount evidence steps
     \<and> submitted ''org'' payment contexts amount evidence steps n drafted_db (snd submit_run)
     \<and> approval_view ''org'' (pd_id desk_draft) (snd submit_run) = Inr (view, snd submit_run)"
proof -
  obtain view where "submit desk_env ''org'' ''maker'' (pd_id desk_draft) ''key-0002'' (version_tag ''0'')
      ''req-2'' drafted_db = (Inr view, snd submit_run)"
    using runs(2) by blast
  from submit_records [OF this unused_keys(2)] show ?thesis by blast
qed

lemma act_run_view:
  obtains view where "act desk_env ''org'' ''auditor'' (pd_id desk_draft) approve_dto ''key-0003'' (version_tag ''2'')
    ''req-3'' pending_db = (Inr view, snd act_run)"
  using runs(3) by blast


lemma approval_progress_witness:
  "\<exists>n d. missing (currentSteps pending_db ''org'' n) = Suc (missing (currentSteps (snd act_run) ''org'' n))
     \<and> find_document (snd act_run) ''org'' (pd_id desk_draft) = Some d
     \<and> pd_currentApprovalSnapshotId d = Some n
     \<and> pd_state d = (if missing (currentSteps (snd act_run) ''org'' n) = 0
         then ''APPROVED'' else ''APPROVAL_PENDING'')"
proof (rule act_run_view)
  fix view assume run: "act desk_env ''org'' ''auditor'' (pd_id desk_draft) approve_dto ''key-0003'' (version_tag ''2'')
    ''req-3'' pending_db = (Inr view, snd act_run)"
  have "aa_action approve_dto = APPROVE" by (simp add: approve_dto_def)
  from approval_progress [OF pending_valid this run unused_keys(3)] show ?thesis .
qed

lemma stale_aggregation_blocks_witness:
  "\<exists>e. act desk_env ''org'' ''auditor'' (pd_id desk_draft) approve_dto ''key-0003'' (version_tag ''2'') ''req-3'' stale_db
     = (Inl e, stale_db)"
proof -
  obtain payment a where "lockApprovalPayment stale_db ''org'' (pd_id desk_draft) = Some payment"
    "yp_currentApprovalSnapshotId payment = Some ''sn''" "aggregation stale_db ''org'' ''sn'' = Some a"
    "\<not> aggregation_fresh stale_db ''org'' payment a"
    using stale_facts(1) by (auto split: option.splits)
  then show ?thesis by (rule stale_aggregation_blocks) (rule stale_facts(2))
qed

lemma act_once_witness:
  "case act desk_env ''org'' ''auditor'' (pd_id desk_draft) approve_dto ''key-0003'' (version_tag ''3'') ''req-4''
     (snd act_run) of (r, s2) \<Rightarrow> core s2 = core (snd act_run)"
proof (rule act_run_view)
  fix view assume "act desk_env ''org'' ''auditor'' (pd_id desk_draft) approve_dto ''key-0003'' (version_tag ''2'')
    ''req-3'' pending_db = (Inr view, snd act_run)"
  from act_once [OF this unused_keys(3)] show ?thesis by (auto split: prod.split)
qed

end
