(* ===== verification/Lifecycle_Properties.thy ===== *)
theory Lifecycle_Properties
  imports Approval_Sample
begin

text \<open>
  The properties of the payment module over every sequence of calls of its services:
  creation of requests and payments, submission, approval actions, execution and reversal, by
  anybody, with any arguments, whether they succeed or fail.
\<close>

section \<open>Sequences of calls\<close>

lemma reachable_documents:
  assumes "reachable s s'" and "documents_valid s"
  shows "documents_valid s'"
  using assms by (induction rule: rtranclp_induct) (auto intro: effect_documents_valid step_effect)


lemma reachable_register:
  assumes "reachable s s'" and "documents_valid s"
  shows "register_step\<^sup>*\<^sup>* (register s) (register s')"
  using assms
proof (induction rule: rtranclp_induct)
  case (step t u)
  have "register_step (register t) (register u)"
    by (rule effect_register [OF step_effect [OF step(2)] reachable_documents [OF step(1,4)]])
  then show ?case using step(3,4) by (meson rtranclp.rtrancl_into_rtrancl)
qed simp

lemma reachable_ledger: "reachable s s' \<Longrightarrow> ledger_grows s s'"
  by (induction rule: rtranclp_induct)
     (auto intro: ledger_grows_refl ledger_grows_trans effect_ledger step_effect)

text \<open>
  Approvals come in the order of the steps: no step of any snapshot has an
  approval before every step ahead of it has all of its own.
\<close>

lemma approvals_ordered:
  assumes "reachable s s'" and "valid_payments s"
    and "i < j" and "j < length (currentSteps s' org n)"
    and "0 < co_approvalsRecorded (currentSteps s' org n ! j)"
  shows "complete (currentSteps s' org n ! i)"
proof -
  have "in_order (currentSteps s' org n)"
    using reachable_valid_payments [OF assms(1,2)] by (simp add: valid_payments_def approvals_in_order_def)
  then show ?thesis using assms(3-5) by (auto simp: in_order_def sorted_wrt_iff_nth_less)
qed

section \<open>Properties\<close>


text \<open>
  Property C5. Refinement: seen through the register of their states and versions, the
  payments move only along the documented workflow, one version per move: a draft is
  submitted, a pending payment is approved, returned or rejected, an approved one is returned
  or executed, and only an executed one is reversed, adding its executed counterpart.
\<close>

theorem payments_refine_register:
  assumes "reachable s s'" and "documents_valid s"
  shows "register_step\<^sup>*\<^sup>* (register s) (register s')"
  by (rule reachable_register [OF assms])

text \<open>
  Property C3. No payment counts as approved, and none is executed or reversed, unless every
  step of its approval snapshot has the approvals it requires; the only exception is the
  counterpart a reversal creates.
\<close>

theorem approved_payments_complete:
  assumes "reachable s s'" and "valid_payments s" and "d \<in> set (t_paymentDocuments s')"
    and "counts_approved (pd_state d)"
  shows "(\<exists>n. pd_currentApprovalSnapshotId d = Some n
      \<and> (\<forall>t \<in> set (currentSteps s' (pd_organizationId d) n). complete t))
    \<or> (\<exists>original \<in> set (t_paymentDocuments s'). pd_reversedPaymentId original = Some (pd_id d))"
  using reachable_valid_payments [OF assms(1,2)] assms(3,4)
  by (auto simp: valid_payments_def approved_complete_def approvals_complete_def is_reversal_def)

text \<open>
  Property C4. Independence of approvals: no recorded action on a step of a payment's current
  snapshot was taken by the payment's creator or in the creator's place where the step
  separates them, and a step with a named approver has only actions by or for that approver.
\<close>

theorem approvals_independent:
  assumes "reachable s s'" and "valid_payments s" and "d \<in> set (t_paymentDocuments s')"
    and "pd_currentApprovalSnapshotId d = Some n"
    and "t \<in> set (snapshot_steps s' (pd_organizationId d) n)"
    and "a \<in> set (snapshot_actions s' (pd_organizationId d) n)"
    and "pc_approvalSnapshotStepId a = Some (pt_id t)"
  shows "(\<forall>u. pt_approverUserId t = Some u \<longrightarrow> u \<in> acts_for a)
    \<and> (''CREATOR_NOT_APPROVER'' \<in> set (pt_separationRules t) \<longrightarrow> pd_creatorUserId d \<notin> acts_for a)"
  using reachable_valid_payments [OF assms(1,2)] assms(3-7)
  unfolding valid_payments_def independent_def independent_on_def independent_action_def by blast

text \<open>
  Property C12. The money movements, the audit trail and the outbox are append-only: no call of
  a payment service, failed or not, changes or removes an entry.
\<close>

theorem ledger_append_only:
  assumes "reachable s s'"
  shows "prefix (t_movementFacts s) (t_movementFacts s')
    \<and> prefix (t_auditEvents s) (t_auditEvents s') \<and> prefix (t_outboxEvents s) (t_outboxEvents s')"
  using reachable_ledger [OF assms] by (simp add: ledger_grows_def)

text \<open>
  Property C14. No service ever links a payment to a payment request, so a policy step with the
  rule REQUESTER_NOT_APPROVER can never be submitted: every first submission that succeeds
  composes steps without it.
\<close>

theorem requester_rule_unusable:
  assumes "reachable s s'" and "\<forall>d \<in> set (t_paymentDocuments s). pd_paymentRequestId d = None"
    and "submit env org u i key tag rid s' = (Inr view, s2)"
    and "findIdempotency (submit_key org u i key) s' = None"
  shows "\<exists>payment contexts amount evidence steps n.
    submitted org payment contexts amount evidence steps n s' s2
    \<and> yp_requesterUserId payment = None
    \<and> (\<forall>t \<in> set steps. ''REQUESTER_NOT_APPROVER'' \<notin> set (co_separationRules t))"
proof -
  obtain v payment contexts amount evidence steps n where
    allowed: "submission_allowed env s' org u i v payment contexts amount evidence steps"
    and sub: "submitted org payment contexts amount evidence steps n s' s2"
    using submit_done [OF assms(3,4)] by metis
  have "unlinked s'" using reachable_unlinked [OF assms(1)] assms(2) by (simp add: unlinked_def)
  then have "yp_requesterUserId payment = None" using allowed by (rule unlinked_requester)
  then show ?thesis using allowed sub unfolding submission_allowed_def by blast
qed

section \<open>Witnesses\<close>

lemma act_reachable: "reachable pending_db (snd act_run)"
  using runs(3) payment_step.act by (metis r_into_rtranclp)


lemma payments_refine_register_witness: "register_step\<^sup>*\<^sup>* (register pending_db) (register (snd act_run))"
  by (rule payments_refine_register [OF act_reachable pending_tables])


lemma act_run_payment:
  obtains d where "d \<in> set (t_paymentDocuments (snd act_run))" and "pd_state d = ''APPROVED''"
  using act_run_tables(1) by (auto simp: map_eq_Cons_conv)

lemma approved_payments_complete_witness:
  "\<exists>d \<in> set (t_paymentDocuments (snd act_run)). pd_state d = ''APPROVED''
     \<and> ((\<exists>n. pd_currentApprovalSnapshotId d = Some n
           \<and> (\<forall>t \<in> set (currentSteps (snd act_run) (pd_organizationId d) n). complete t))
        \<or> (\<exists>original \<in> set (t_paymentDocuments (snd act_run)). pd_reversedPaymentId original = Some (pd_id d)))"
proof -
  obtain d where d: "d \<in> set (t_paymentDocuments (snd act_run))" "pd_state d = ''APPROVED''"
    by (rule act_run_payment)
  have "counts_approved (pd_state d)" by (simp add: d(2) counts_approved_def)
  from approved_payments_complete [OF act_reachable pending_valid d(1) this] d show ?thesis by blast
qed

lemma approvals_independent_witness:
  "\<exists>t \<in> set (t_paymentApprovalSnapshotSteps pending_db). pt_approverUserId t = Some ''boss''
     \<and> ''boss'' \<in> acts_for desk_action \<and> ''maker'' \<notin> acts_for desk_action"
proof -
  have "\<exists>d \<in> set (t_paymentDocuments pending_db). pd_currentApprovalSnapshotId d = Some ''sn''
      \<and> pd_organizationId d = ''org'' \<and> pd_creatorUserId d = ''maker''
      \<and> (\<exists>t \<in> set (snapshot_steps pending_db ''org'' ''sn''). pt_id t = ''t1''
         \<and> pt_approverUserId t = Some ''boss'' \<and> ''CREATOR_NOT_APPROVER'' \<in> set (pt_separationRules t))"
    by code_simp
  then obtain d t where d: "d \<in> set (t_paymentDocuments pending_db)"
      "pd_currentApprovalSnapshotId d = Some ''sn''" "pd_organizationId d = ''org''" "pd_creatorUserId d = ''maker''"
    and t: "t \<in> set (snapshot_steps pending_db ''org'' ''sn'')" "pt_id t = ''t1''"
      "pt_approverUserId t = Some ''boss''" "''CREATOR_NOT_APPROVER'' \<in> set (pt_separationRules t)" by blast
  have a: "desk_action \<in> set (snapshot_actions pending_db ''org'' ''sn'')"
    "pc_approvalSnapshotStepId desk_action = Some ''t1''" by code_simp+
  from approvals_independent [OF rtranclp.rtrancl_refl pending_valid d(1,2) t(1) [folded d(3)]
      a(1) [folded d(3)] a(2) [folded t(2)]]
  show ?thesis using t d(4) by (auto simp: set_snapshot_steps)
qed

lemma act_run_ordered: "complete (currentSteps (snd act_run) ''org'' ''sn'' ! 0)"
proof -
  have "length (currentSteps (snd act_run) ''org'' ''sn'') = 2"
    "co_approvalsRecorded (currentSteps (snd act_run) ''org'' ''sn'' ! 1) = 1"
    using act_run_tables(2) by (auto simp: map_eq_Cons_conv)
  then show ?thesis
    by (intro approvals_ordered [OF act_reachable pending_valid, where i = 0 and j = 1]) simp_all
qed

lemma ledger_append_only_witness:
  "prefix (t_movementFacts pending_db) (t_movementFacts (snd act_run))
     \<and> prefix (t_auditEvents pending_db) (t_auditEvents (snd act_run))
     \<and> prefix (t_outboxEvents pending_db) (t_outboxEvents (snd act_run))"
  by (rule ledger_append_only [OF act_reachable])

lemma requester_rule_unusable_witness:
  "\<exists>payment contexts amount evidence steps n.
     submitted ''org'' payment contexts amount evidence steps n drafted_db (snd submit_run)
     \<and> yp_requesterUserId payment = None
     \<and> (\<forall>t \<in> set steps. ''REQUESTER_NOT_APPROVER'' \<notin> set (co_separationRules t))"
proof -
  have unlinked: "\<forall>d \<in> set (t_paymentDocuments drafted_db). pd_paymentRequestId d = None" by code_simp
  obtain view where run: "submit desk_env ''org'' ''maker'' (pd_id desk_draft) ''key-0002'' (version_tag ''0'')
      ''req-2'' drafted_db = (Inr view, snd submit_run)"
    using runs(2) by blast
  show ?thesis by (rule requester_rule_unusable [OF rtranclp.rtrancl_refl unlinked run unused_keys(2)])
qed

end
