(* ===== verification/Access_Scopes.thy ===== *)
theory Access_Scopes
  imports Authorization
begin

text \<open>
  The scopes of the access administration: the request bodies of \<open>access-control/access-admin.dto.ts\<close>,
  their preparation and the containment of grants in \<open>access-admin.service.ts\<close>, and the
  comparisons of policies and delegations at the end of \<open>access-admin.repository.ts\<close>.

  Every body keeps the entries of the request object for the command digest. A scope keeps the
  number of its own keys; a member that is \<open>null\<close> is treated like one left out.
\<close>

section \<open>Request bodies\<close>

record grant_scope_dto =
  zk_keys :: nat
  zk_branchIds :: "uuid list option"
  zk_treasuryUnitIds :: "uuid list option"
  zk_cashboxIds :: "uuid list option"
  zk_bankAccountIds :: "uuid list option"
  zk_documentTypes :: "str list option"
  zk_methodCategories :: "str list option"
  zk_currencies :: "str list option"
  zk_amountCeiling :: "grant_money option"

record role_create =
  xr_code :: str
  xr_name :: str
  xr_permissions :: "str list"
  xr_body :: json

record access_grant_create =
  xg_userId :: uuid
  xg_roleId :: uuid
  xg_organizationWide :: bool
  xg_scope :: "grant_scope_dto option"
  xg_validFrom :: "str option"
  xg_validTo :: "str option"
  xg_reason :: "str option"
  xg_body :: json

record approval_policy_scope =
  yk_keys :: nat
  yk_branchId :: "uuid option"
  yk_treasuryUnitId :: "uuid option"
  yk_currency :: "str option"
  yk_methodCategory :: "str option"
  yk_minimumBaseAmount :: "str option"
  yk_maximumBaseAmount :: "str option"

record policy_step_dto =
  yt_order :: int
  yt_roleId :: "uuid option"
  yt_approverUserId :: "uuid option"
  yt_approvalsRequired :: int

record approval_policy_create =
  yc_code :: str
  yc_documentType :: str
  yc_organizationWide :: bool
  yc_scope :: "approval_policy_scope option"
  yc_steps :: "policy_step_dto list"
  yc_separationRules :: "str list option"
  yc_paymentAggregation :: "payment_aggregation option"
  yc_body :: json

record delegation_scope_dto =
  dk_keys :: nat
  dk_branchId :: "uuid option"
  dk_treasuryUnitId :: "uuid option"
  dk_documentType :: "str option"
  dk_methodCategory :: "str option"
  dk_currency :: "str option"
  dk_amountCeiling :: "grant_money option"

record delegation_create =
  dq_accessGrantId :: uuid
  dq_delegateUserId :: uuid
  dq_scope :: delegation_scope_dto
  dq_reason :: str
  dq_validFrom :: str
  dq_validTo :: str
  dq_body :: json

section \<open>Constants\<close>

definition CANON_PERMISSIONS :: "str list" where
  "CANON_PERMISSIONS = [
     ''access-control.view'', ''access-grant.manage'', ''accounting.acknowledge'',
     ''accounting.export'', ''accounting.import'', ''approval-policy.manage'', ''auth.login'',
     ''auth.logout'', ''auth.verify-totp'', ''bank-account.manage'', ''bank-account.view'',
     ''bank-branch.manage'', ''bank-branch.view'', ''bank-instruction.record-outcome'',
     ''bank-reconciliation.confirm'', ''bank-reconciliation.match'', ''bank-reconciliation.view'',
     ''bank-statement.import'', ''bank-type.manage'', ''bank-type.view'', ''bank.manage'',
     ''bank.view'', ''cashbox.approve'', ''cashbox.close'', ''cashbox.handover'',
     ''cashbox.manage'', ''cashbox.reject'', ''cashbox.reopen'', ''cashbox.view'',
     ''cheque-book.manage'', ''cheque.transition'', ''collection.view'', ''delegation.manage'',
     ''identity-account.manage'', ''master-data.manage'', ''master-data.view'',
     ''notification-endpoint.manage'', ''notification-endpoint.view'', ''party.manage'',
     ''party.view'', ''payment-gateway.manage'', ''payment-gateway.view'',
     ''payment-request.create'', ''payment.approve'', ''payment.create'', ''payment.execute'',
     ''payment.reject'', ''payment.reverse'', ''payment.submit'', ''payment.view'',
     ''petty-cash.create'', ''petty-cash.view'', ''pos-terminal.manage'', ''pos-terminal.view'',
     ''print-template.manage'', ''print-template.view'', ''receipt.approve'', ''receipt.create'',
     ''receipt.edit-draft'', ''receipt.execute'', ''receipt.reverse'', ''receipt.submit'',
     ''receipt.view'', ''report.view'', ''role.manage'', ''separation.override'',
     ''settlement.confirm'', ''settlement.create'', ''settlement.reverse'', ''settlement.view'',
     ''transfer.approve'', ''transfer.create'', ''transfer.reject'', ''transfer.receive'',
     ''transfer.release'', ''transfer.submit'', ''transfer.view'']"

definition PRIVILEGED_PERMISSIONS :: "str list" where
  "PRIVILEGED_PERMISSIONS = [
     ''access-grant.manage'', ''approval-policy.manage'', ''cashbox.approve'', ''cashbox.reject'',
     ''cashbox.reopen'', ''cheque.transition'', ''delegation.manage'', ''identity-account.manage'',
     ''payment.execute'', ''payment.reverse'', ''receipt.reverse'', ''role.manage'',
     ''separation.override'', ''settlement.reverse'']"

definition METHOD_CATEGORIES :: "str list" where
  "METHOD_CATEGORIES = [
     ''CASH'', ''CHEQUE'', ''BANK_TRANSFER'', ''DIRECT_DEPOSIT'', ''POS'', ''GATEWAY'',
     ''CARD_TRANSFER'', ''WALLET'', ''OFFSET'', ''FOREIGN_REMITTANCE'', ''OTHER_CONTROLLED'']"

definition APPROVAL_SEPARATION_RULES :: "str list" where
  "APPROVAL_SEPARATION_RULES = [
     ''REQUESTER_NOT_APPROVER'', ''CREATOR_NOT_APPROVER'', ''CREATOR_NOT_EXECUTOR'',
     ''APPROVER_NOT_EXECUTOR'', ''SOURCE_CUSTODIAN_NOT_APPROVER'', ''CUSTODIAN_NOT_RECONCILER'',
     ''EXECUTOR_NOT_ACCOUNTING_EXPORTER'']"

definition APPROVAL_AGGREGATION_KEYS :: "str list" where
  "APPROVAL_AGGREGATION_KEYS = [''BENEFICIARY'', ''EXTERNAL_OBLIGATION'']"

section \<open>Instants\<close>

text \<open>
  \<open>new Date(text)\<close> on the date-time format of the language: a year, month or day, alone a time
  in UTC, or a day with hours, minutes and seconds, an offset or \<open>Z\<close>; without an offset the time
  is local. Other texts are left to the host (\<open>ae_otherDate\<close>); \<open>None\<close> is an invalid date. The
  local time zone and the random tokens of \<open>opaqueToken\<close> belong to the environment too.
\<close>

record access_env =
  ae_env :: env
  ae_localTime :: "instant \<Rightarrow> instant"
  ae_otherDate :: "str \<Rightarrow> instant option"
  ae_tokens :: "nat \<Rightarrow> str"

definition digits_of :: "nat \<Rightarrow> str \<Rightarrow> int option" where
  "digits_of n s = (if length s = n \<and> all_digits s then Some (int (digits_val s)) else None)"

definition day_ms :: "str \<Rightarrow> instant option" where
  "day_ms s =
     (let field = (\<lambda>n i parts. if i < length parts then digits_of n (parts ! i) else Some 1);
          parts = split_on (CHR ''-'') s
      in if 3 < length parts then None
         else (case (digits_of 4 (hd parts), field 2 1 parts, field 2 2 parts) of
             (Some y, Some m, Some d) \<Rightarrow>
               if 1 \<le> m \<and> m \<le> 12 \<and> 1 \<le> d \<and> d \<le> 31
               then Some (days_from_civil y m d * 86400000) else None
           | _ \<Rightarrow> None))"

definition second_ms :: "str \<Rightarrow> int option" where
  "second_ms s = (case split_on (CHR ''.'') s of
       [w] \<Rightarrow> map_option (\<lambda>v. v * 1000) (digits_of 2 w)
     | [w, f] \<Rightarrow> if f \<noteq> [] \<and> all_digits f
         then map_option (\<lambda>v. v * 1000 + int (digits_val (take 3 (pad_end 3 (CHR ''0'') f)))) (digits_of 2 w)
         else None
     | _ \<Rightarrow> None)"

definition clock_ms :: "str \<Rightarrow> int option" where
  "clock_ms s =
     (case split_on (CHR '':'') s of
        h # m # rest \<Rightarrow>
          (case (digits_of 2 h, digits_of 2 m,
               case rest of [] \<Rightarrow> Some 0 | [sec] \<Rightarrow> second_ms sec | _ \<Rightarrow> None) of
             (Some h', Some m', Some s') \<Rightarrow>
               if m' \<le> 59 \<and> s' < 60000 \<and> (h' \<le> 23 \<or> h' = 24 \<and> m' = 0 \<and> s' = 0)
               then Some (h' * 3600000 + m' * 60000 + s') else None
           | _ \<Rightarrow> None)
      | _ \<Rightarrow> None)"

definition offset_ms :: "str \<Rightarrow> int option" where
  "offset_ms s =
     (if length s = 6 \<and> s ! 3 = CHR '':'' \<and> s ! 0 \<in> set ''+-''
      then (case (digits_of 2 (take 2 (tl s)), digits_of 2 (drop 4 s)) of
          (Some h, Some m) \<Rightarrow> if h \<le> 23 \<and> m \<le> 59
            then Some ((if s ! 0 = CHR ''-'' then -1 else 1) * (h * 3600000 + m * 60000)) else None
        | _ \<Rightarrow> None)
      else None)"

definition date_time_ms :: "access_env \<Rightarrow> str \<Rightarrow> instant option" where
  "date_time_ms env s =
     (case split_on (CHR ''T'') s of
        [d] \<Rightarrow> day_ms d
      | [d, t] \<Rightarrow>
          (let sum = (\<lambda>a b. Option.bind a (\<lambda>x. map_option (\<lambda>y. x + y) b));
               utc = (if t \<noteq> [] \<and> last t = CHR ''Z'' then sum (day_ms d) (clock_ms (butlast t)) else None);
               n = length t - 6;
               zoned = (if 6 < length t then Option.bind (offset_ms (drop n t))
                   (\<lambda>o'. map_option (\<lambda>v. v - o') (sum (day_ms d) (clock_ms (take n t)))) else None);
               local = map_option (ae_localTime env) (sum (day_ms d) (clock_ms t))
           in (case (utc, zoned) of (Some v, _) \<Rightarrow> Some v | (None, Some v) \<Rightarrow> Some v | _ \<Rightarrow> local))
      | _ \<Rightarrow> None)"

definition js_date :: "access_env \<Rightarrow> str \<Rightarrow> instant option" where
  "js_date env s = (case date_time_ms env s of Some v \<Rightarrow> Some v | None \<Rightarrow> ae_otherDate env s)"

section \<open>Amounts\<close>

text \<open>\<open>compareDecimal\<close> of the service and \<open>decimalCompare\<close> of the repository are the same text.\<close>

definition decimalCompare :: "str \<Rightarrow> str \<Rightarrow> int" where
  "decimalCompare left right =
     (let scale = max (length (fraction_part left)) (length (fraction_part right));
          leftValue = bigint (whole_part left @ pad_end scale (CHR ''0'') (fraction_part left));
          rightValue = bigint (whole_part right @ pad_end scale (CHR ''0'') (fraction_part right))
      in if leftValue < rightValue then -1 else if leftValue > rightValue then 1 else 0)"

definition grantCompareDecimal :: "str \<Rightarrow> str \<Rightarrow> int" where
  "grantCompareDecimal = decimalCompare"

text \<open>\<open>value.replace(/0+$/u, '').replace(/\.$/u, '')\<close>.\<close>

definition strip_fraction :: "str \<Rightarrow> str" where
  "strip_fraction s =
     (let t = strip_zeros s in if t \<noteq> [] \<and> last t = CHR ''.'' then butlast t else t)"

definition normalizeDecimal :: "str \<Rightarrow> str" where
  "normalizeDecimal s = (if CHR ''.'' \<in> set s then strip_fraction s else s)"

definition cleanDecimal :: "str \<Rightarrow> str" where
  "cleanDecimal s = (if CHR ''.'' \<in> set s then strip_fraction s else s)"

text \<open>\<open>/^(0|[1-9][0-9]*)(?:\.([0-9]+))?$/\<close>, the whole part and the fraction on a match.\<close>

definition amount_match :: "str \<Rightarrow> (str \<times> str) option" where
  "amount_match s =
     (let whole = (\<lambda>w. w = ''0'' \<or> w \<noteq> [] \<and> all_digits w \<and> hd w \<noteq> CHR ''0'')
      in (case split_on (CHR ''.'') s of
          [w] \<Rightarrow> if whole w then Some (w, []) else None
        | [w, f] \<Rightarrow> if whole w \<and> f \<noteq> [] \<and> all_digits f then Some (w, f) else None
        | _ \<Rightarrow> None))"

definition representableAmount :: "str \<Rightarrow> bool" where
  "representableAmount s =
     (case amount_match s of None \<Rightarrow> False
      | Some (w, f) \<Rightarrow> length w \<le> 30 \<and> length f \<le> 8 \<and> (\<exists>c \<in> set (w @ f). c \<noteq> CHR ''0''))"

definition invalid_request :: exn where
  "invalid_request = Problem ''TRS-GEN-001'' 422 None"

definition normalizeNonNegativeDecimal :: "str \<Rightarrow> str res" where
  "normalizeNonNegativeDecimal s =
     (case amount_match s of
        Some (w, f) \<Rightarrow> if length w \<le> 30 \<and> length f \<le> 8 then Inr (normalizeDecimal s) else Inl invalid_request
      | None \<Rightarrow> Inl invalid_request)"

definition normalizePositiveDecimal :: "str \<Rightarrow> str res" where
  "normalizePositiveDecimal s =
     (if representableAmount s then Inr (normalizeDecimal s) else Inl invalid_request)"

section \<open>Grants\<close>

record grant_authorization =
  az_organizationWide :: bool
  az_scope :: canonical_scope
  az_validFrom :: instant
  az_validTo :: "instant option"

record prepared_grant =
  pz_userId :: uuid
  pz_roleId :: uuid
  pz_organizationWide :: bool
  pz_scope :: canonical_scope
  pz_validFrom :: instant
  pz_validTo :: "instant option"
  pz_reason :: "str option"

definition sorted_values :: "str list option \<Rightarrow> str list" where
  "sorted_values v = (case v of None \<Rightarrow> [] | Some xs \<Rightarrow> sort xs)"

definition supplied_ok :: "str list option \<Rightarrow> bool" where
  "supplied_ok v = (case v of None \<Rightarrow> True | Some xs \<Rightarrow> xs \<noteq> [] \<and> distinct xs)"

definition dto_field :: "('d \<Rightarrow> 'a option) \<Rightarrow> 'd option \<Rightarrow> 'a option" where
  "dto_field f scope = Option.bind scope f"

definition ceiling_ok :: "grant_scope_dto \<Rightarrow> bool" where
  "ceiling_ok d = (case zk_amountCeiling d of None \<Rightarrow> True
     | Some c \<Rightarrow> representableAmount (my_amount c) \<and> is_currency (my_currency c)
         \<and> (case zk_currencies d of None \<Rightarrow> True | Some ys \<Rightarrow> my_currency c \<in> set ys))"

definition canonicalScope :: "grant_scope_dto option \<Rightarrow> canonical_scope res" where
  "canonicalScope scope =
     (let arrays = map (\<lambda>f. dto_field f scope) [zk_branchIds, zk_treasuryUnitIds, zk_cashboxIds,
            zk_bankAccountIds, zk_documentTypes, zk_methodCategories, zk_currencies]
      in res_bind (res_guard (case scope of None \<Rightarrow> True | Some d \<Rightarrow> zk_keys d \<noteq> 0) invalid_request) (\<lambda>_.
         res_bind (res_guard (list_all supplied_ok arrays
             \<and> set (sorted_values (dto_field zk_methodCategories scope)) \<subseteq> set METHOD_CATEGORIES)
             invalid_request) (\<lambda>_.
         res_bind (res_guard (case scope of None \<Rightarrow> True | Some d \<Rightarrow> ceiling_ok d) invalid_request) (\<lambda>_.
           Inr \<lparr>
             sk_branchIds = sorted_values (dto_field zk_branchIds scope),
             sk_treasuryUnitIds = sorted_values (dto_field zk_treasuryUnitIds scope),
             sk_cashboxIds = sorted_values (dto_field zk_cashboxIds scope),
             sk_bankAccountIds = sorted_values (dto_field zk_bankAccountIds scope),
             sk_documentTypes = sorted_values (dto_field zk_documentTypes scope),
             sk_methodCategories = sorted_values (dto_field zk_methodCategories scope),
             sk_currencies = sorted_values (dto_field zk_currencies scope),
             sk_amountCeiling = map_option (\<lambda>c. \<lparr>my_amount = normalizeDecimal (my_amount c),
               my_currency = my_currency c\<rparr>) (dto_field zk_amountCeiling scope)\<rparr>))))"

definition hasScope :: "canonical_scope \<Rightarrow> bool" where
  "hasScope scope \<longleftrightarrow> sk_branchIds scope \<noteq> [] \<or> sk_treasuryUnitIds scope \<noteq> []
     \<or> sk_cashboxIds scope \<noteq> [] \<or> sk_bankAccountIds scope \<noteq> [] \<or> sk_documentTypes scope \<noteq> []
     \<or> sk_methodCategories scope \<noteq> [] \<or> sk_currencies scope \<noteq> [] \<or> sk_amountCeiling scope \<noteq> None"

text \<open>The instants of a body: the given ones, which must be dates, or \<open>now\<close> and no end.\<close>

definition grant_period ::
  "access_env \<Rightarrow> instant \<Rightarrow> access_grant_create \<Rightarrow> (instant \<times> instant option) option" where
  "grant_period env now dto =
     (case (case xg_validFrom dto of None \<Rightarrow> Some now | Some t \<Rightarrow> js_date env t) of
        None \<Rightarrow> None
      | Some validFrom \<Rightarrow> (case xg_validTo dto of
            None \<Rightarrow> Some (validFrom, None)
          | Some t \<Rightarrow> (case js_date env t of
              None \<Rightarrow> None
            | Some validTo \<Rightarrow> if validTo \<le> validFrom then None else Some (validFrom, Some validTo))))"

definition prepareGrant ::
  "access_env \<Rightarrow> instant \<Rightarrow> access_grant_create \<Rightarrow> prepared_grant res" where
  "prepareGrant env now dto =
     res_bind (res_guard (xg_organizationWide dto \<noteq> (xg_scope dto \<noteq> None)) invalid_request) (\<lambda>_.
     res_bind (canonicalScope (xg_scope dto)) (\<lambda>scope.
     res_bind (res_guard (xg_organizationWide dto \<or> hasScope scope) invalid_request) (\<lambda>_.
     (case grant_period env now dto of
        None \<Rightarrow> Inl invalid_request
      | Some (validFrom, validTo) \<Rightarrow> Inr \<lparr>
          pz_userId = xg_userId dto,
          pz_roleId = xg_roleId dto,
          pz_organizationWide = xg_organizationWide dto,
          pz_scope = scope,
          pz_validFrom = validFrom,
          pz_validTo = validTo,
          pz_reason = xg_reason dto\<rparr>))))"

definition prepared_authorization :: "prepared_grant \<Rightarrow> grant_authorization" where
  "prepared_authorization p = \<lparr>az_organizationWide = pz_organizationWide p, az_scope = pz_scope p,
     az_validFrom = pz_validFrom p, az_validTo = pz_validTo p\<rparr>"

definition containsValues :: "str list \<Rightarrow> str list \<Rightarrow> bool" where
  "containsValues source target \<longleftrightarrow> source = [] \<or> target \<noteq> [] \<and> list_all (\<lambda>v. v \<in> set source) target"

definition effectiveCurrencies :: "canonical_scope \<Rightarrow> str list" where
  "effectiveCurrencies scope = (if sk_currencies scope \<noteq> [] then sk_currencies scope
     else map my_currency (option_list (sk_amountCeiling scope)))"

definition ceiling_contains :: "grant_money option \<Rightarrow> grant_money option \<Rightarrow> bool" where
  "ceiling_contains source target = (case source of None \<Rightarrow> True
     | Some c \<Rightarrow> (case target of None \<Rightarrow> False
         | Some d \<Rightarrow> my_currency d = my_currency c \<and> grantCompareDecimal (my_amount d) (my_amount c) \<le> 0))"

definition grantContains :: "grant_authorization \<Rightarrow> grant_authorization \<Rightarrow> bool" where
  "grantContains source target =
     (if az_validFrom target < az_validFrom source then False
      else if (case az_validTo source of None \<Rightarrow> False
          | Some e \<Rightarrow> (case az_validTo target of None \<Rightarrow> True | Some t \<Rightarrow> e < t)) then False
      else if az_organizationWide source then True
      else if az_organizationWide target then False
      else (let a = az_scope source; b = az_scope target in
         containsValues (sk_branchIds a) (sk_branchIds b)
         \<and> containsValues (sk_treasuryUnitIds a) (sk_treasuryUnitIds b)
         \<and> containsValues (sk_cashboxIds a) (sk_cashboxIds b)
         \<and> containsValues (sk_bankAccountIds a) (sk_bankAccountIds b)
         \<and> containsValues (sk_documentTypes a) (sk_documentTypes b)
         \<and> containsValues (sk_methodCategories a) (sk_methodCategories b)
         \<and> containsValues (effectiveCurrencies a) (effectiveCurrencies b)
         \<and> ceiling_contains (sk_amountCeiling a) (sk_amountCeiling b)))"

text \<open>A grant as it is compared for an exact duplicate: the ceiling's currency stands for none.\<close>

definition comparableScope :: "canonical_scope \<Rightarrow> canonical_scope" where
  "comparableScope scope = scope\<lparr>sk_currencies := effectiveCurrencies scope\<rparr>"

section \<open>Policies\<close>

record prepared_policy =
  ye_code :: str
  ye_documentType :: str
  ye_organizationWide :: bool
  ye_scope :: "approval_policy_scope option"
  ye_steps :: "policy_step_dto list"
  ye_separationRules :: "str list"
  ye_paymentAggregation :: "payment_aggregation option"

definition normalized_amount :: "str option \<Rightarrow> str option res" where
  "normalized_amount v = (case v of None \<Rightarrow> Inr None
     | Some a \<Rightarrow> res_bind (normalizeNonNegativeDecimal a) (\<lambda>n. Inr (Some n)))"

definition normalized_scope :: "approval_policy_scope \<Rightarrow> approval_policy_scope res" where
  "normalized_scope scope =
     res_bind (res_guard (yk_keys scope \<noteq> 0) invalid_request) (\<lambda>_.
     res_bind (normalized_amount (yk_minimumBaseAmount scope)) (\<lambda>low.
     res_bind (normalized_amount (yk_maximumBaseAmount scope)) (\<lambda>high.
     res_bind (res_guard (case (low, high) of (Some l, Some h) \<Rightarrow> \<not> grantCompareDecimal h l < 0 | _ \<Rightarrow> True)
         invalid_request) (\<lambda>_.
       Inr (scope\<lparr>yk_minimumBaseAmount := low, yk_maximumBaseAmount := high\<rparr>)))))"

definition step_ok :: "int \<Rightarrow> policy_step_dto \<Rightarrow> bool" where
  "step_ok order t \<longleftrightarrow> yt_order t = order
     \<and> (yt_roleId t \<noteq> None) \<noteq> (yt_approverUserId t \<noteq> None) \<and> 1 \<le> yt_approvalsRequired t"

definition aggregation_ok :: "str \<Rightarrow> payment_aggregation \<Rightarrow> bool" where
  "aggregation_ok documentType a \<longleftrightarrow> documentType = ''PAYMENT'' \<and> wa_windowKind a = ''BUSINESS_DATE''
     \<and> wa_overrideRequiresSecondApproval a \<and> wa_keys a \<noteq> [] \<and> distinct (wa_keys a)
     \<and> set (wa_keys a) \<subseteq> set APPROVAL_AGGREGATION_KEYS"

definition prepareApprovalPolicy :: "approval_policy_create \<Rightarrow> prepared_policy res" where
  "prepareApprovalPolicy dto =
     res_bind (res_guard (yc_organizationWide dto \<noteq> (yc_scope dto \<noteq> None)) invalid_request) (\<lambda>_.
     res_bind (case yc_scope dto of None \<Rightarrow> Inr None
         | Some scope \<Rightarrow> res_bind (normalized_scope scope) (\<lambda>n. Inr (Some n))) (\<lambda>scope.
     (let steps = order_by yt_order (yc_steps dto);
          separationRules = sort (case yc_separationRules dto of None \<Rightarrow> [] | Some rs \<Rightarrow> rs);
          paymentAggregation = map_option (\<lambda>a. a\<lparr>wa_keys := sort (wa_keys a)\<rparr>) (yc_paymentAggregation dto)
      in res_bind (res_guard (\<forall>i < length steps. step_ok (int i + 1) (steps ! i)) invalid_request) (\<lambda>_.
         res_bind (res_guard (distinct separationRules
             \<and> set separationRules \<subseteq> set APPROVAL_SEPARATION_RULES) invalid_request) (\<lambda>_.
         res_bind (res_guard (case paymentAggregation of None \<Rightarrow> True
             | Some a \<Rightarrow> aggregation_ok (yc_documentType dto) a) invalid_request) (\<lambda>_.
           Inr \<lparr>
             ye_code = yc_code dto,
             ye_documentType = yc_documentType dto,
             ye_organizationWide = yc_organizationWide dto,
             ye_scope = scope,
             ye_steps = steps,
             ye_separationRules = separationRules,
             ye_paymentAggregation = paymentAggregation\<rparr>))))))"

definition scope_value :: "(approval_policy_scope \<Rightarrow> 'a option) \<Rightarrow> prepared_policy \<Rightarrow> 'a option" where
  "scope_value f p = Option.bind (ye_scope p) f"

definition policyAuthorization ::
  "prepared_policy \<Rightarrow> str \<Rightarrow> instant option \<Rightarrow> instant \<Rightarrow> grant_authorization" where
  "policyAuthorization p baseCurrency validTo now = \<lparr>
     az_organizationWide = False,
     az_scope = \<lparr>
       sk_branchIds = option_list (scope_value yk_branchId p),
       sk_treasuryUnitIds = option_list (scope_value yk_treasuryUnitId p),
       sk_cashboxIds = [],
       sk_bankAccountIds = [],
       sk_documentTypes = [ye_documentType p],
       sk_methodCategories = option_list (scope_value yk_methodCategory p),
       sk_currencies = option_list (scope_value yk_currency p),
       sk_amountCeiling = map_option (\<lambda>m. \<lparr>my_amount = m, my_currency = baseCurrency\<rparr>)
         (scope_value yk_maximumBaseAmount p)\<rparr>,
     az_validFrom = now,
     az_validTo = validTo\<rparr>"

definition dimension_denied :: "str list \<Rightarrow> str list \<Rightarrow> bool" where
  "dimension_denied allowed required \<longleftrightarrow>
     allowed \<noteq> [] \<and> (required = [] \<or> list_ex (\<lambda>v. v \<notin> set allowed) required)"

definition policyGrantContains :: "grant_authorization \<Rightarrow> prepared_policy \<Rightarrow> str \<Rightarrow> bool" where
  "policyGrantContains source p baseCurrency =
     (if az_organizationWide source then True
      else
        (let a = az_scope source;
             requiredCurrencies = (case scope_value yk_currency p of Some y \<Rightarrow> [y]
               | None \<Rightarrow> if scope_value yk_maximumBaseAmount p \<noteq> None then [baseCurrency] else [])
         in \<not> dimension_denied (sk_branchIds a) (option_list (scope_value yk_branchId p))
            \<and> \<not> dimension_denied (sk_treasuryUnitIds a) (option_list (scope_value yk_treasuryUnitId p))
            \<and> \<not> dimension_denied (sk_cashboxIds a) []
            \<and> \<not> dimension_denied (sk_bankAccountIds a) []
            \<and> \<not> dimension_denied (sk_documentTypes a) [ye_documentType p]
            \<and> \<not> dimension_denied (sk_methodCategories a) (option_list (scope_value yk_methodCategory p))
            \<and> \<not> dimension_denied (effectiveCurrencies a) requiredCurrencies
            \<and> (case sk_amountCeiling a of None \<Rightarrow> True
               | Some c \<Rightarrow> (case scope_value yk_maximumBaseAmount p of None \<Rightarrow> False
                   | Some m \<Rightarrow> my_currency c = baseCurrency \<and> decimalCompare m (my_amount c) \<le> 0))))"

record policy_scope_row =
  qs_organizationWide :: bool
  qs_branchId :: "uuid option"
  qs_treasuryUnitId :: "uuid option"
  qs_currency :: "str option"
  qs_methodCategory :: "str option"
  qs_minimumBaseAmount :: "str option"
  qs_maximumBaseAmount :: "str option"

definition policyScope :: "prepared_policy \<Rightarrow> policy_scope_row" where
  "policyScope p = \<lparr>
     qs_organizationWide = ye_organizationWide p,
     qs_branchId = scope_value yk_branchId p,
     qs_treasuryUnitId = scope_value yk_treasuryUnitId p,
     qs_currency = scope_value yk_currency p,
     qs_methodCategory = scope_value yk_methodCategory p,
     qs_minimumBaseAmount = scope_value yk_minimumBaseAmount p,
     qs_maximumBaseAmount = scope_value yk_maximumBaseAmount p\<rparr>"

definition keys_overlap :: "str option \<Rightarrow> str option \<Rightarrow> bool" where
  "keys_overlap l r = (case (l, r) of (Some x, Some y) \<Rightarrow> x = y | _ \<Rightarrow> True)"

definition below_minimum :: "str option \<Rightarrow> str option \<Rightarrow> bool" where
  "below_minimum high low = (case (high, low) of (Some h, Some l) \<Rightarrow> decimalCompare h l < 0 | _ \<Rightarrow> False)"

definition policyScopesOverlap :: "policy_scope_row \<Rightarrow> policy_scope_row \<Rightarrow> bool" where
  "policyScopesOverlap l r \<longleftrightarrow>
     keys_overlap (qs_branchId l) (qs_branchId r)
     \<and> keys_overlap (qs_treasuryUnitId l) (qs_treasuryUnitId r)
     \<and> keys_overlap (qs_currency l) (qs_currency r)
     \<and> keys_overlap (qs_methodCategory l) (qs_methodCategory r)
     \<and> \<not> below_minimum (qs_maximumBaseAmount l) (qs_minimumBaseAmount r)
     \<and> \<not> below_minimum (qs_maximumBaseAmount r) (qs_minimumBaseAmount l)"

text \<open>
  The loop over the keys returns at the first one the candidate does not restrict to the value
  of the source, and notes whether the candidate restricts one the source leaves open.
\<close>

fun strict_keys :: "(str option \<times> str option) list \<Rightarrow> bool \<Rightarrow> bool option" where
  "strict_keys [] strict = Some strict"
| "strict_keys ((candidate, source) # rest) strict =
     (if source \<noteq> None \<and> candidate \<noteq> source then None
      else strict_keys rest (strict \<or> source = None \<and> candidate \<noteq> None))"

text \<open>One amount: \<open>sgn\<close> tells the minimum (1) from the maximum (-1).\<close>

definition strict_amount :: "int \<Rightarrow> str option \<Rightarrow> str option \<Rightarrow> bool \<Rightarrow> bool option" where
  "strict_amount sign candidate source strict =
     (case source of
        None \<Rightarrow> Some (strict \<or> candidate \<noteq> None)
      | Some m \<Rightarrow> (case candidate of
            None \<Rightarrow> None
          | Some n \<Rightarrow> if sign * decimalCompare n m < 0 then None
              else Some (strict \<or> sign * decimalCompare n m > 0)))"

definition strictlyNarrowerPolicy :: "policy_scope_row \<Rightarrow> policy_scope_row \<Rightarrow> bool" where
  "strictlyNarrowerPolicy candidate source =
     (case Option.bind (strict_keys [(qs_branchId candidate, qs_branchId source),
            (qs_treasuryUnitId candidate, qs_treasuryUnitId source),
            (qs_currency candidate, qs_currency source),
            (qs_methodCategory candidate, qs_methodCategory source)] False) (\<lambda>strict.
          Option.bind (strict_amount 1 (qs_minimumBaseAmount candidate) (qs_minimumBaseAmount source) strict)
            (\<lambda>strict'. strict_amount (-1) (qs_maximumBaseAmount candidate) (qs_maximumBaseAmount source) strict'))
      of None \<Rightarrow> False | Some strict \<Rightarrow> strict)"

definition ambiguousPolicyOverlap :: "policy_scope_row \<Rightarrow> policy_scope_row \<Rightarrow> bool" where
  "ambiguousPolicyOverlap l r \<longleftrightarrow> policyScopesOverlap l r
     \<and> \<not> strictlyNarrowerPolicy l r \<and> \<not> strictlyNarrowerPolicy r l"

section \<open>Delegations\<close>

record prepared_delegation =
  dp_accessGrantId :: uuid
  dp_delegateUserId :: uuid
  dp_scope :: delegation_scope_dto
  dp_reason :: str
  dp_validFrom :: instant
  dp_validTo :: instant

definition normalized_ceiling :: "grant_money option \<Rightarrow> grant_money option res" where
  "normalized_ceiling v = (case v of None \<Rightarrow> Inr None
     | Some c \<Rightarrow> res_bind (normalizePositiveDecimal (my_amount c))
         (\<lambda>a. Inr (Some \<lparr>my_amount = a, my_currency = my_currency c\<rparr>)))"

definition prepareDelegation ::
  "access_env \<Rightarrow> instant \<Rightarrow> delegation_create \<Rightarrow> prepared_delegation res" where
  "prepareDelegation env now dto =
     (let scope = dq_scope dto; reason = trim (dq_reason dto) in
      (case (js_date env (dq_validFrom dto), js_date env (dq_validTo dto)) of
         (Some validFrom, Some validTo) \<Rightarrow>
           res_bind (res_guard (dk_keys scope \<noteq> 0 \<and> reason \<noteq> [] \<and> validFrom < validTo \<and> now < validTo)
             invalid_request) (\<lambda>_.
           res_bind (res_guard (case (dk_amountCeiling scope, dk_currency scope) of
               (Some c, Some y) \<Rightarrow> my_currency c = y | _ \<Rightarrow> True) invalid_request) (\<lambda>_.
           res_bind (normalized_ceiling (dk_amountCeiling scope)) (\<lambda>amountCeiling.
             Inr \<lparr>
               dp_accessGrantId = dq_accessGrantId dto,
               dp_delegateUserId = dq_delegateUserId dto,
               dp_scope = scope\<lparr>dk_amountCeiling := amountCeiling\<rparr>,
               dp_reason = reason,
               dp_validFrom = validFrom,
               dp_validTo = validTo\<rparr>)))
       | _ \<Rightarrow> Inl invalid_request))"

text \<open>
  The loop over the dimensions of a delegation returns at the first value the grant does not
  allow, and notes whether a value picks one of several.
\<close>

fun strict_dimensions :: "(str list \<times> str option) list \<Rightarrow> bool \<Rightarrow> bool option" where
  "strict_dimensions [] strict = Some strict"
| "strict_dimensions ((allowed, None) # rest) strict = strict_dimensions rest strict"
| "strict_dimensions ((allowed, Some selected) # rest) strict =
     (if allowed \<noteq> [] \<and> selected \<notin> set allowed then None
      else strict_dimensions rest (strict \<or> allowed = [] \<or> 1 < length allowed))"

definition strict_ceiling :: "grant_money option \<Rightarrow> grant_money option \<Rightarrow> bool \<Rightarrow> bool option" where
  "strict_ceiling source target strict =
     (case target of None \<Rightarrow> Some strict
      | Some d \<Rightarrow> (case source of None \<Rightarrow> Some True
          | Some c \<Rightarrow> if my_currency c \<noteq> my_currency d \<or> decimalCompare (my_amount d) (my_amount c) > 0
              then None else Some (strict \<or> decimalCompare (my_amount d) (my_amount c) < 0)))"

definition strictlyNarrows :: "canonical_scope \<Rightarrow> delegation_scope_dto \<Rightarrow> bool" where
  "strictlyNarrows source target =
     (let targetCurrency = coalesce (dk_currency target) (map_option my_currency (dk_amountCeiling target))
      in (case Option.bind (strict_dimensions [(sk_branchIds source, dk_branchId target),
              (sk_treasuryUnitIds source, dk_treasuryUnitId target),
              (sk_documentTypes source, dk_documentType target),
              (sk_methodCategories source, dk_methodCategory target),
              (effectiveCurrencies source, targetCurrency)] False)
            (strict_ceiling (sk_amountCeiling source) (dk_amountCeiling target))
          of None \<Rightarrow> False | Some strict \<Rightarrow> strict))"

end
