(* ===== verification/Access_Schema.thy ===== *)
theory Access_Schema
  imports Access_Scopes Payment_Repository
begin

text \<open>
  The tables the access administration writes beside those of the payments: the catalogue of
  permissions and the security audit. The constraints of \<open>database/schema.ts\<close> and the migrations
  on roles, grants and their scopes, approval policies and their steps, delegations, challenges
  and security audit events. \<open>auth_sessions\<close> is not modelled, so a challenge's session is not
  checked. The guard against a grant whose scope contradicts its mode is deferred to the commit.
\<close>

record security_audit_row =
  se_id :: uuid
  se_organizationId :: "uuid option"
  se_identityAccountId :: "uuid option"
  se_requestId :: str
  se_eventType :: str
  se_outcome :: str
  se_details :: json
  se_occurredAt :: instant

record admin_db = payment_db +
  t_operationPermissions :: "str list"
  t_securityAuditEvents :: "security_audit_row list"

section \<open>Roles\<close>

definition organization_known :: "'z access_db_scheme \<Rightarrow> uuid \<Rightarrow> bool" where
  "organization_known s org \<longleftrightarrow> (\<exists>g \<in> set (t_organizations s). og_id g = org)"

definition role_clash :: "role_row \<Rightarrow> role_row \<Rightarrow> bool" where
  "role_clash r r' \<longleftrightarrow> ro_id r = ro_id r'
     \<or> ro_organizationId r = ro_organizationId r' \<and> ro_code r = ro_code r'"

definition role_refs :: "'z access_db_scheme \<Rightarrow> role_row \<Rightarrow> bool" where
  "role_refs s r \<longleftrightarrow> organization_known s (ro_organizationId r)"

definition role_permission_clash :: "role_permission_row \<Rightarrow> role_permission_row \<Rightarrow> bool" where
  "role_permission_clash r r' \<longleftrightarrow> rp_roleId r = rp_roleId r' \<and> rp_permission r = rp_permission r'"

definition role_permission_refs :: "'z admin_db_scheme \<Rightarrow> role_permission_row \<Rightarrow> bool" where
  "role_permission_refs s r \<longleftrightarrow> (\<exists>x \<in> set (t_roles s). ro_id x = rp_roleId r)
     \<and> rp_permission r \<in> set (t_operationPermissions s)"

section \<open>Grants\<close>

definition access_grant_check :: "access_grant_row \<Rightarrow> bool" where
  "access_grant_check r \<longleftrightarrow>
     (case ag_amountCeiling r of None \<Rightarrow> True | Some a \<Rightarrow> numeric_pos a)
     \<and> (ag_organizationWide r \<longrightarrow> ag_amountCeiling r = None)
     \<and> (ag_amountCeiling r = None) = (ag_amountCeilingCurrency r = None)
     \<and> (case ag_validTo r of None \<Rightarrow> True | Some t \<Rightarrow> ag_validFrom r < t)
     \<and> ag_state r \<in> {''ACTIVE'', ''REVOKED'', ''EXPIRED''}"

definition access_grant_clash :: "access_grant_row \<Rightarrow> access_grant_row \<Rightarrow> bool" where
  "access_grant_clash r r' \<longleftrightarrow> ag_id r = ag_id r'"

definition access_grant_refs :: "'z access_db_scheme \<Rightarrow> access_grant_row \<Rightarrow> bool" where
  "access_grant_refs s r \<longleftrightarrow> organization_known s (ag_organizationId r) \<and> organization_known s (ag_scopeId r)
     \<and> (\<exists>u \<in> set (t_userRefs s). us_id u = ag_userRefId r)
     \<and> (\<exists>x \<in> set (t_roles s). ro_id x = ag_roleId r)
     \<and> ref_ok cu_organizationId cu_code (t_currencies s) (ag_organizationId r) (ag_amountCeilingCurrency r)"

definition grant_known :: "'z access_db_scheme \<Rightarrow> uuid \<Rightarrow> bool" where
  "grant_known s i \<longleftrightarrow> (\<exists>g \<in> set (t_accessGrants s). ag_id g = i)"

definition branch_scope_refs :: "'z access_db_scheme \<Rightarrow> grant_branch_scope_row \<Rightarrow> bool" where
  "branch_scope_refs s r \<longleftrightarrow> grant_known s (gb_accessGrantId r)
     \<and> (\<exists>b \<in> set (t_branches s). br_id b = gb_branchId r)"

definition unit_scope_refs :: "'z access_db_scheme \<Rightarrow> grant_treasury_unit_scope_row \<Rightarrow> bool" where
  "unit_scope_refs s r \<longleftrightarrow> grant_known s (gu_accessGrantId r)
     \<and> (\<exists>u \<in> set (t_treasuryUnits s). tu_id u = gu_treasuryUnitId r)"

definition currency_scope_refs :: "'z access_db_scheme \<Rightarrow> grant_currency_scope_row \<Rightarrow> bool" where
  "currency_scope_refs s r \<longleftrightarrow>
     ref_ok ag_organizationId ag_id (t_accessGrants s) (gy_organizationId r) (Some (gy_accessGrantId r))
     \<and> ref_ok cu_organizationId cu_code (t_currencies s) (gy_organizationId r) (Some (gy_currency r))"

text \<open>\<open>enforce_access_grant_scope_mode\<close>: a grant is organization-wide or restricted, never both.\<close>

definition scope_mode_ok :: "'z access_db_scheme \<Rightarrow> access_grant_row \<Rightarrow> bool" where
  "scope_mode_ok s ag \<longleftrightarrow>
     (let restricted = ag_amountCeiling ag \<noteq> None \<or> branch_scope s (ag_id ag) \<noteq> []
            \<or> unit_scope s (ag_id ag) \<noteq> [] \<or> cashbox_scope s (ag_id ag) \<noteq> []
            \<or> account_scope s (ag_id ag) \<noteq> [] \<or> document_scope s (ag_id ag) \<noteq> []
            \<or> method_scope s (ag_id ag) \<noteq> [] \<or> currency_scope s (ag_id ag) \<noteq> []
      in ag_organizationWide ag \<noteq> restricted)"

section \<open>Policies\<close>

definition approval_policy_check :: "approval_policy_row \<Rightarrow> bool" where
  "approval_policy_check r \<longleftrightarrow>
     ap_organizationWide r \<noteq> (ap_branchId r \<noteq> None \<or> ap_treasuryUnitId r \<noteq> None \<or> ap_currency r \<noteq> None
       \<or> ap_methodCategory r \<noteq> None \<or> ap_minimumBaseAmount r \<noteq> None \<or> ap_maximumBaseAmount r \<noteq> None)
     \<and> (case ap_minimumBaseAmount r of None \<Rightarrow> True | Some m \<Rightarrow> 0 \<le> fst (decimalParts m))
     \<and> (case ap_maximumBaseAmount r of None \<Rightarrow> True | Some m \<Rightarrow> 0 \<le> fst (decimalParts m))
     \<and> (case (ap_minimumBaseAmount r, ap_maximumBaseAmount r) of
          (Some l, Some h) \<Rightarrow> compareDecimal l h \<le> 0 | _ \<Rightarrow> True)
     \<and> ap_state r \<in> {''DRAFT'', ''ACTIVE'', ''RETIRED''} \<and> 0 < ap_policyVersion r
     \<and> (ap_aggregationWindowKind r = None \<and> ap_aggregationKeys r = None
          \<and> ap_aggregationOverrideSecondApproval r = None
        \<or> ap_documentType r = ''PAYMENT'' \<and> ap_aggregationWindowKind r = Some ''BUSINESS_DATE''
          \<and> (case ap_aggregationKeys r of None \<Rightarrow> False | Some ks \<Rightarrow> ks \<noteq> [])
          \<and> ap_aggregationOverrideSecondApproval r = Some True)"

definition approval_policy_clash :: "approval_policy_row \<Rightarrow> approval_policy_row \<Rightarrow> bool" where
  "approval_policy_clash r r' \<longleftrightarrow> ap_id r = ap_id r'
     \<or> ap_organizationId r = ap_organizationId r' \<and> ap_documentType r = ap_documentType r'
       \<and> ap_code r = ap_code r' \<and> ap_policyVersion r = ap_policyVersion r'"

definition approval_policy_refs :: "'z access_db_scheme \<Rightarrow> approval_policy_row \<Rightarrow> bool" where
  "approval_policy_refs s r \<longleftrightarrow> (let org = ap_organizationId r in
     organization_known s org
     \<and> ref_ok br_organizationId br_id (t_branches s) org (ap_branchId r)
     \<and> ref_ok tu_organizationId tu_id (t_treasuryUnits s) org (ap_treasuryUnitId r)
     \<and> ref_ok cu_organizationId cu_code (t_currencies s) org (ap_currency r))"

definition approval_step_check :: "approval_step_row \<Rightarrow> bool" where
  "approval_step_check r \<longleftrightarrow> 0 < as_stepOrder r \<and> 0 < as_approvalsRequired r
     \<and> (as_requiredRoleId r \<noteq> None) \<noteq> (as_namedApproverId r \<noteq> None)"

definition approval_step_clash :: "approval_step_row \<Rightarrow> approval_step_row \<Rightarrow> bool" where
  "approval_step_clash r r' \<longleftrightarrow> as_id r = as_id r'
     \<or> as_organizationId r = as_organizationId r' \<and> as_approvalPolicyId r = as_approvalPolicyId r'
       \<and> as_stepOrder r = as_stepOrder r'"

definition approval_step_refs :: "'z access_db_scheme \<Rightarrow> approval_step_row \<Rightarrow> bool" where
  "approval_step_refs s r \<longleftrightarrow> (let org = as_organizationId r in
     organization_known s org
     \<and> ref_ok ap_organizationId ap_id (t_approvalPolicies s) org (Some (as_approvalPolicyId r))
     \<and> ref_ok ro_organizationId ro_id (t_roles s) org (as_requiredRoleId r)
     \<and> ref_ok us_organizationId us_id (t_userRefs s) org (as_namedApproverId r))"

section \<open>Delegations, challenges and audit\<close>

definition delegation_check :: "delegation_row \<Rightarrow> bool" where
  "delegation_check r \<longleftrightarrow> dg_grantorUserId r \<noteq> dg_delegateUserId r
     \<and> 0 \<le> dg_sourceGrantVersion r \<and> is_content_digest (dg_sourceScopeDigest r)
     \<and> dg_validFrom r < dg_validTo r
     \<and> (dg_branchId r \<noteq> None \<or> dg_treasuryUnitId r \<noteq> None \<or> dg_currency r \<noteq> None
        \<or> dg_documentType r \<noteq> None \<or> dg_methodCategory r \<noteq> None \<or> dg_amountCeiling r \<noteq> None)
     \<and> (case dg_amountCeiling r of None \<Rightarrow> dg_amountCeilingCurrency r = None
        | Some a \<Rightarrow> numeric_pos a \<and> dg_amountCeilingCurrency r \<noteq> None)
     \<and> (case (dg_currency r, dg_amountCeilingCurrency r) of (Some x, Some y) \<Rightarrow> x = y | _ \<Rightarrow> True)
     \<and> (dg_revokedAt r = None) = (dg_revokedByUserId r = None)
     \<and> (dg_revokedAt r = None) = (dg_revocationReason r = None)"

definition delegation_clash :: "delegation_row \<Rightarrow> delegation_row \<Rightarrow> bool" where
  "delegation_clash r r' \<longleftrightarrow> dg_id r = dg_id r'"

definition delegation_refs :: "'z access_db_scheme \<Rightarrow> delegation_row \<Rightarrow> bool" where
  "delegation_refs s r \<longleftrightarrow> (let org = dg_organizationId r in
     organization_known s org
     \<and> ref_ok ag_organizationId ag_id (t_accessGrants s) org (Some (dg_accessGrantId r))
     \<and> ref_ok us_organizationId us_id (t_userRefs s) org (Some (dg_grantorUserId r))
     \<and> ref_ok us_organizationId us_id (t_userRefs s) org (Some (dg_delegateUserId r))
     \<and> ref_ok us_organizationId us_id (t_userRefs s) org (dg_revokedByUserId r)
     \<and> ref_ok br_organizationId br_id (t_branches s) org (dg_branchId r)
     \<and> ref_ok tu_organizationId tu_id (t_treasuryUnits s) org (dg_treasuryUnitId r)
     \<and> ref_ok cu_organizationId cu_code (t_currencies s) org (dg_currency r)
     \<and> ref_ok cu_organizationId cu_code (t_currencies s) org (dg_amountCeilingCurrency r))"

definition challenge_clash :: "auth_challenge_row \<Rightarrow> auth_challenge_row \<Rightarrow> bool" where
  "challenge_clash r r' \<longleftrightarrow> ch_id r = ch_id r' \<or> ch_tokenDigest r = ch_tokenDigest r'"

definition challenge_refs :: "'z access_db_scheme \<Rightarrow> auth_challenge_row \<Rightarrow> bool" where
  "challenge_refs s r \<longleftrightarrow> (\<exists>a \<in> set (t_identityAccounts s). ia_id a = ch_identityAccountId r)"

definition security_audit_clash :: "security_audit_row \<Rightarrow> security_audit_row \<Rightarrow> bool" where
  "security_audit_clash r r' \<longleftrightarrow> se_id r = se_id r'"

definition security_audit_refs :: "'z access_db_scheme \<Rightarrow> security_audit_row \<Rightarrow> bool" where
  "security_audit_refs s r \<longleftrightarrow>
     (case se_organizationId r of None \<Rightarrow> True | Some i \<Rightarrow> organization_known s i)
     \<and> (case se_identityAccountId r of None \<Rightarrow> True
        | Some i \<Rightarrow> \<exists>a \<in> set (t_identityAccounts s). ia_id a = i)"

end
