(* ===== verification/Access_Admin.thy ===== *)
theory Access_Admin
  imports Access_Schema
begin

text \<open>
  The commands of \<open>access-control/access-admin.repository.ts\<close> and \<open>access-admin.service.ts\<close>: under a
  step-up proof and an idempotency key they create a role, a grant, an approval policy or a
  delegation. The lists and the revocation of sessions are not modelled. Row locks are not
  modelled; an error class of the source is a \<open>Thrown\<close> with its name.
\<close>

section \<open>Errors\<close>

definition reference_error :: exn where
  "reference_error = Thrown ''ReferenceError'' ''RESOURCE_HIDDEN''"

definition range_error :: "str \<Rightarrow> exn" where
  "range_error message = Thrown ''RangeError'' message"

definition policy_conflict :: exn where
  "policy_conflict = Thrown ''ApprovalPolicyConflictError'' []"

definition delegation_conflict :: exn where
  "delegation_conflict = Thrown ''DelegationConflictError'' []"

definition tx_convert :: "(exn \<Rightarrow> exn) \<Rightarrow> ('s, 'a) tx \<Rightarrow> ('s, 'a) tx" where
  "tx_convert f m = (\<lambda>s. case m s of Inl e \<Rightarrow> Inl (f e) | Inr r \<Rightarrow> Inr r)"

lemma tx_convert_Inr [tx_inv]: "tx_convert f m s = Inr r \<longleftrightarrow> m s = Inr r"
  by (simp add: tx_convert_def split: sum.split)

lemma keeps_convert [tx_frame]: "tx_keeps f m \<Longrightarrow> tx_keeps f (tx_convert g m)"
  by (simp add: tx_keeps_def tx_convert_Inr)

section \<open>The protected command\<close>

record protected_command =
  pk_operationId :: str
  pk_organizationId :: uuid
  pk_actorAccountId :: uuid
  pk_physicalSessionId :: uuid
  pk_requestId :: str
  pk_proofDigest :: str
  pk_method :: str
  pk_path :: str
  pk_bodyDigest :: str
  pk_idempotencyKey :: str

definition proof_bound :: "access_env \<Rightarrow> 'z access_db_scheme \<Rightarrow> protected_command \<Rightarrow> auth_step_up_proof_row \<Rightarrow> bool" where
  "proof_bound env s command p \<longleftrightarrow>
     sp_tokenDigest p = pk_proofDigest command \<and> env_now (ae_env env) < sp_expiresAt p
     \<and> (\<exists>c \<in> set (t_authChallenges s). ch_id c = sp_challengeId p
          \<and> ch_sessionId c = Some (pk_physicalSessionId command)
          \<and> ch_httpMethod c = Some (pk_method command)
          \<and> ch_httpPath c = Some (pk_path command)
          \<and> ch_requestBodyDigest c = Some (pk_bodyDigest command)
          \<and> ch_idempotencyKey c = Some (pk_idempotencyKey command))"

definition command_key :: "protected_command \<Rightarrow> idempotency_key" where
  "command_key command = \<lparr>ik_organizationId = pk_organizationId command,
     ik_scope = pk_operationId command, ik_key = pk_idempotencyKey command\<rparr>"

definition consume_proof :: "access_env \<Rightarrow> uuid \<Rightarrow> ('z access_db_scheme, unit) tx" where
  "consume_proof env proofId = tx_write (t_authStepUpProofs_update (update_where
     (\<lambda>p. sp_id p = proofId) (sp_consumedAt_update (\<lambda>_. Some (env_now (ae_env env))))))"

definition command_status :: "str \<Rightarrow> int" where
  "command_status operationId = (if operationId \<in> {''createRole'', ''createAccessGrant'',
     ''createApprovalPolicy'', ''createDelegation''} then 201 else 200)"

definition protectedCommand ::
  "access_env \<Rightarrow> protected_command \<Rightarrow> ('z admin_db_scheme, access_response) tx
     \<Rightarrow> ('z admin_db_scheme, access_response) tx" where
  "protectedCommand env command work =
     tx_bind (tx_read (\<lambda>s. find (proof_bound env s command) (t_authStepUpProofs s))) (\<lambda>found.
     (case found of
        None \<Rightarrow> tx_throw (range_error ''STEP_UP_INVALID'')
      | Some p \<Rightarrow>
          (let k = command_key command in
           tx_then (acquireIdempotencyLock k)
           (tx_bind (tx_read (findIdempotency k)) (\<lambda>existing.
           (case existing of
              Some r \<Rightarrow>
                (case (re_requestDigest r = pk_bodyDigest command, re_response r) of
                   (True, Some (AccessResponse response)) \<Rightarrow> tx_return response
                 | _ \<Rightarrow> tx_throw (Thrown ''SyntaxError'' ''IDEMPOTENCY_CONFLICT''))
            | None \<Rightarrow>
                tx_then (tx_guard (sp_consumedAt p = None) (range_error ''STEP_UP_INVALID''))
                (tx_then (insertIdempotency (ae_env env) k (pk_bodyDigest command))
                (tx_bind work (\<lambda>response.
                tx_then (saveIdempotency k (AccessResponse response) (command_status (pk_operationId command)))
                (tx_then (consume_proof env (sp_id p))
                  (tx_return response)))))))))))"

definition security_audit ::
  "access_env \<Rightarrow> protected_command \<Rightarrow> str \<Rightarrow> (str \<times> json) list \<Rightarrow> ('z admin_db_scheme, unit) tx" where
  "security_audit env command eventType details =
     tx_bind (randomUUID (ae_env env)) (\<lambda>i.
       tx_insert (\<lambda>_. True) security_audit_clash security_audit_refs
         t_securityAuditEvents t_securityAuditEvents_update
         \<lparr>se_id = i, se_organizationId = Some (pk_organizationId command),
          se_identityAccountId = Some (pk_actorAccountId command), se_requestId = pk_requestId command,
          se_eventType = eventType, se_outcome = ''SUCCEEDED'', se_details = JObject details,
          se_occurredAt = env_now (ae_env env)\<rparr>)"

section \<open>Grants of a permission\<close>

text \<open>\<open>emptyScope\<close> and \<open>loadScopes\<close>: the ceiling of the row and its seven lists.\<close>

definition row_ceiling :: "access_grant_row \<Rightarrow> grant_money option" where
  "row_ceiling ag = (case (ag_amountCeiling ag, ag_amountCeilingCurrency ag) of
     (Some a, Some y) \<Rightarrow> Some \<lparr>my_amount = strip_fraction a, my_currency = y\<rparr> | _ \<Rightarrow> None)"

definition loaded_scope :: "'z access_db_scheme \<Rightarrow> access_grant_row \<Rightarrow> canonical_scope" where
  "loaded_scope s ag = \<lparr>
     sk_branchIds = branch_scope s (ag_id ag),
     sk_treasuryUnitIds = unit_scope s (ag_id ag),
     sk_cashboxIds = cashbox_scope s (ag_id ag),
     sk_bankAccountIds = account_scope s (ag_id ag),
     sk_documentTypes = document_scope s (ag_id ag),
     sk_methodCategories = method_scope s (ag_id ag),
     sk_currencies = currency_scope s (ag_id ag),
     sk_amountCeiling = row_ceiling ag\<rparr>"

definition row_authorization :: "'z access_db_scheme \<Rightarrow> access_grant_row \<Rightarrow> grant_authorization" where
  "row_authorization s ag = \<lparr>az_organizationWide = ag_organizationWide ag,
     az_scope = loaded_scope s ag, az_validFrom = ag_validFrom ag, az_validTo = ag_validTo ag\<rparr>"

definition organization_role_active :: "'z access_db_scheme \<Rightarrow> access_grant_row \<Rightarrow> bool" where
  "organization_role_active s ag \<longleftrightarrow> (\<exists>r \<in> set (t_roles s). ro_id r = ag_roleId ag
     \<and> ro_organizationId r = ag_organizationId ag \<and> ro_state r = ''ACTIVE'')"

definition permission_held ::
  "access_env \<Rightarrow> 'z access_db_scheme \<Rightarrow> uuid \<Rightarrow> uuid \<Rightarrow> str \<Rightarrow> access_grant_row \<Rightarrow> bool" where
  "permission_held env s org userId permission ag \<longleftrightarrow>
     ag_organizationId ag = org \<and> ag_userRefId ag = userId
     \<and> organization_role_active s ag \<and> role_permits s (ag_roleId ag) permission
     \<and> grant_current (ae_env env) ag"

definition permissionGrants ::
  "access_env \<Rightarrow> 'z access_db_scheme \<Rightarrow> uuid \<Rightarrow> uuid \<Rightarrow> str \<Rightarrow> grant_authorization list" where
  "permissionGrants env s org userId permission = map (row_authorization s)
     (order_by ag_id (filter (permission_held env s org userId permission) (t_accessGrants s)))"

section \<open>References\<close>

text \<open>\<open>validateUuidReferences\<close>: every identifier names a row of the organization, all active.\<close>

definition validate_rows :: "('r \<Rightarrow> str) \<Rightarrow> 'r list \<Rightarrow> nat \<Rightarrow> exn \<Rightarrow> ('s, unit) tx" where
  "validate_rows state found expected inactive =
     tx_then (tx_guard (length found = expected) reference_error)
       (tx_guard (list_all (\<lambda>r. state r = ''ACTIVE'') found) inactive)"

definition validateUuidReferences ::
  "('s \<Rightarrow> 'r list) \<Rightarrow> ('r \<Rightarrow> uuid) \<Rightarrow> ('r \<Rightarrow> uuid) \<Rightarrow> ('r \<Rightarrow> str) \<Rightarrow> uuid list \<Rightarrow> uuid
     \<Rightarrow> ('s, unit) tx" where
  "validateUuidReferences table org key state ids organizationId =
     (if ids = [] then tx_return ()
      else tx_bind (tx_read (\<lambda>s. filter (\<lambda>r. org r = organizationId \<and> key r \<in> set ids) (table s)))
        (\<lambda>found. validate_rows state found (length ids) (range_error ''RESOURCE_INACTIVE'')))"

definition amount_scale :: "str \<Rightarrow> int" where
  "amount_scale amount = int (length (fraction_part amount))"

text \<open>The currencies a scope names: known and active, and the ceiling within the decimals of its own.\<close>

definition validate_currencies ::
  "uuid \<Rightarrow> str list \<Rightarrow> str option \<Rightarrow> str list \<Rightarrow> ('z reference_db_scheme, unit) tx" where
  "validate_currencies org codes amountCurrency amounts =
     (if codes = [] then tx_return ()
      else tx_bind (tx_read (\<lambda>s. filter (\<lambda>r. cu_organizationId r = org \<and> cu_code r \<in> set codes) (t_currencies s)))
        (\<lambda>found.
        tx_then (validate_rows cu_state found (length codes) (range_error ''RESOURCE_INACTIVE''))
          (tx_guard (case Option.bind amountCurrency (\<lambda>y. find (\<lambda>r. cu_code r = y) found) of
               None \<Rightarrow> True
             | Some y \<Rightarrow> list_all (\<lambda>a. amount_scale a \<le> cu_decimalPlaces y) amounts)
             (range_error ''AMOUNT_SCALE_INVALID''))))"

definition validateScopeReferences :: "uuid \<Rightarrow> canonical_scope \<Rightarrow> ('z access_db_scheme, unit) tx" where
  "validateScopeReferences org scope =
     tx_then (validateUuidReferences t_branches br_organizationId br_id br_state (sk_branchIds scope) org)
     (tx_then (validateUuidReferences t_treasuryUnits tu_organizationId tu_id tu_state
        (sk_treasuryUnitIds scope) org)
     (tx_then (validateUuidReferences t_cashboxes cb_organizationId cb_id cb_state (sk_cashboxIds scope) org)
     (tx_then (validateUuidReferences t_bankAccounts ba_organizationId ba_id ba_state
        (sk_bankAccountIds scope) org)
       (validate_currencies org
          (dedup (sk_currencies scope @ map my_currency (option_list (sk_amountCeiling scope))))
          (map_option my_currency (sk_amountCeiling scope))
          (map my_amount (option_list (sk_amountCeiling scope)))))))"

definition validateDelegationReferences :: "uuid \<Rightarrow> delegation_scope_dto \<Rightarrow> ('z access_db_scheme, unit) tx" where
  "validateDelegationReferences org scope =
     tx_then (validateUuidReferences t_branches br_organizationId br_id br_state
        (option_list (dk_branchId scope)) org)
     (tx_then (validateUuidReferences t_treasuryUnits tu_organizationId tu_id tu_state
        (option_list (dk_treasuryUnitId scope)) org)
       (validate_currencies org
          (dedup (option_list (dk_currency scope) @ map my_currency (option_list (dk_amountCeiling scope))))
          (map_option my_currency (dk_amountCeiling scope))
          (map my_amount (option_list (dk_amountCeiling scope)))))"

section \<open>Roles\<close>

definition createRole_work :: "access_env \<Rightarrow> role_create \<Rightarrow> protected_command \<Rightarrow> ('z admin_db_scheme, access_response) tx" where
  "createRole_work env dto command =
     (let permissions = sort (xr_permissions dto); now = env_now (ae_env env) in
      tx_bind (randomUUID (ae_env env)) (\<lambda>i.
      tx_then (tx_insert (\<lambda>_. True) role_clash role_refs t_roles t_roles_update
        \<lparr>ro_id = i, ro_organizationId = pk_organizationId command, ro_code = xr_code dto,
         ro_name = xr_name dto, ro_state = ''ACTIVE'', ro_version = 0, ro_createdAt = now,
         ro_updatedAt = now\<rparr>)
      (tx_then (tx_for permissions (\<lambda>p. tx_insert (\<lambda>_. True) role_permission_clash role_permission_refs
         t_rolePermissions t_rolePermissions_update \<lparr>rp_roleId = i, rp_permission = p\<rparr>))
      (tx_then (security_audit env command ''ACCESS_ROLE_CREATED'' [(''roleId'', JString i)])
        (tx_return (RoleResponse \<lparr>rw_id = i, rw_code = xr_code dto, rw_name = xr_name dto,
           rw_state = ''ACTIVE'', rw_version = 0, rw_createdAt = now, rw_updatedAt = now,
           rw_permissions = permissions\<rparr>))))))"

section \<open>Grants\<close>

definition totp_enrolled :: "identity_account_row \<Rightarrow> bool" where
  "totp_enrolled a \<longleftrightarrow> ia_totpCiphertext a \<noteq> None \<and> ia_totpIv a \<noteq> None
     \<and> ia_totpAuthTag a \<noteq> None \<and> ia_totpKeyVersion a \<noteq> None"

definition numeric_value :: "str option \<Rightarrow> str option res" where
  "numeric_value v = (case v of None \<Rightarrow> Inr None | Some a \<Rightarrow> res_bind (pg_numeric 8 a) (\<lambda>n. Inr (Some n)))"

definition same_numeric :: "str option \<Rightarrow> str option \<Rightarrow> bool" where
  "same_numeric a b = (case (a, b) of (None, None) \<Rightarrow> True
     | (Some x, Some y) \<Rightarrow> compareDecimal x y = 0 | _ \<Rightarrow> False)"

text \<open>\<open>stableJson\<close> of two comparable scopes is equal exactly when the scopes are.\<close>

definition exactGrantExists :: "'z access_db_scheme \<Rightarrow> uuid \<Rightarrow> prepared_grant \<Rightarrow> bool" where
  "exactGrantExists s org dto \<longleftrightarrow> (\<exists>ag \<in> set (t_accessGrants s).
     ag_organizationId ag = org \<and> ag_userRefId ag = pz_userId dto \<and> ag_roleId ag = pz_roleId dto
     \<and> ag_state ag = ''ACTIVE'' \<and> ag_validFrom ag = pz_validFrom dto \<and> ag_validTo ag = pz_validTo dto
     \<and> ag_organizationWide ag = pz_organizationWide dto
     \<and> same_numeric (ag_amountCeiling ag) (map_option my_amount (sk_amountCeiling (pz_scope dto)))
     \<and> ag_amountCeilingCurrency ag = map_option my_currency (sk_amountCeiling (pz_scope dto))
     \<and> comparableScope (loaded_scope s ag) = comparableScope (pz_scope dto))"

text \<open>The account a grant may go to: the user's active account, fit for a privileged role.\<close>

definition grant_target ::
  "prepared_grant \<Rightarrow> uuid \<Rightarrow> ('z access_db_scheme, identity_account_row) tx" where
  "grant_target dto org =
     tx_bind (tx_read (\<lambda>s. find (\<lambda>u. us_id u = pz_userId dto \<and> us_organizationId u = org) (t_userRefs s))) (\<lambda>user.
     (case user of None \<Rightarrow> tx_throw reference_error
      | Some u \<Rightarrow>
     tx_then (tx_guard (us_state u = ''ACTIVE'') (range_error ''RESOURCE_INACTIVE''))
     (tx_bind (tx_read (\<lambda>s. find (\<lambda>a. ia_userRefId a = pz_userId dto) (t_identityAccounts s))) (\<lambda>account.
     (case account of None \<Rightarrow> tx_throw (range_error ''TARGET_ACCOUNT_INELIGIBLE'')
      | Some a \<Rightarrow>
     tx_then (tx_guard (ia_state a = ''ACTIVE'') (range_error ''TARGET_ACCOUNT_INELIGIBLE''))
     (tx_bind (tx_read (\<lambda>s. find (\<lambda>r. ro_id r = pz_roleId dto \<and> ro_organizationId r = org) (t_roles s))) (\<lambda>role'.
     (case role' of None \<Rightarrow> tx_throw reference_error
      | Some r \<Rightarrow>
     tx_then (tx_guard (ro_state r = ''ACTIVE'') (range_error ''RESOURCE_INACTIVE''))
     (tx_bind (tx_read (\<lambda>s. list_ex (\<lambda>p. rp_roleId p = pz_roleId dto
          \<and> rp_permission p \<in> set PRIVILEGED_PERMISSIONS) (t_rolePermissions s))) (\<lambda>privileged.
     tx_then (tx_guard (privileged \<longrightarrow> ia_privileged a \<and> totp_enrolled a)
         (range_error ''TARGET_ACCOUNT_INELIGIBLE''))
       (tx_return a)))))))))))"

definition grant_row ::
  "access_env \<Rightarrow> uuid \<Rightarrow> uuid \<Rightarrow> prepared_grant \<Rightarrow> str option \<Rightarrow> access_grant_row" where
  "grant_row env i org dto limit = \<lparr>
     ag_id = i,
     ag_organizationId = org,
     ag_userRefId = pz_userId dto,
     ag_roleId = pz_roleId dto,
     ag_scopeType = ''ORGANIZATION'',
     ag_scopeId = org,
     ag_organizationWide = pz_organizationWide dto,
     ag_amountCeiling = limit,
     ag_amountCeilingCurrency = map_option my_currency (sk_amountCeiling (pz_scope dto)),
     ag_validFrom = pz_validFrom dto,
     ag_validTo = pz_validTo dto,
     ag_reason = pz_reason dto,
     ag_state = ''ACTIVE'',
     ag_version = 0,
     ag_createdAt = env_now (ae_env env),
     ag_updatedAt = env_now (ae_env env)\<rparr>"

definition insertScopes :: "uuid \<Rightarrow> uuid \<Rightarrow> canonical_scope \<Rightarrow> ('z access_db_scheme, unit) tx" where
  "insertScopes org grantId scope =
     tx_then (tx_for (sk_branchIds scope) (\<lambda>v. tx_insert (\<lambda>_. True) (=) branch_scope_refs
       t_accessGrantBranchScopes t_accessGrantBranchScopes_update
       \<lparr>gb_accessGrantId = grantId, gb_branchId = v\<rparr>))
     (tx_then (tx_for (sk_treasuryUnitIds scope) (\<lambda>v. tx_insert (\<lambda>_. True) (=) unit_scope_refs
       t_accessGrantTreasuryUnitScopes t_accessGrantTreasuryUnitScopes_update
       \<lparr>gu_accessGrantId = grantId, gu_treasuryUnitId = v\<rparr>))
     (tx_then (tx_for (sk_cashboxIds scope) (\<lambda>v. tx_insert (\<lambda>_. True) (=)
       (\<lambda>s r. grant_known s (gc_accessGrantId r) \<and> (\<exists>c \<in> set (t_cashboxes s). cb_id c = gc_cashboxId r))
       t_accessGrantCashboxScopes t_accessGrantCashboxScopes_update
       \<lparr>gc_accessGrantId = grantId, gc_cashboxId = v\<rparr>))
     (tx_then (tx_for (sk_bankAccountIds scope) (\<lambda>v. tx_insert (\<lambda>_. True) (=)
       (\<lambda>s r. grant_known s (ga_accessGrantId r) \<and> (\<exists>b \<in> set (t_bankAccounts s). ba_id b = ga_bankAccountId r))
       t_accessGrantBankAccountScopes t_accessGrantBankAccountScopes_update
       \<lparr>ga_accessGrantId = grantId, ga_bankAccountId = v\<rparr>))
     (tx_then (tx_for (sk_documentTypes scope) (\<lambda>v. tx_insert (\<lambda>_. True) (=)
       (\<lambda>s r. grant_known s (gd_accessGrantId r))
       t_accessGrantDocumentTypeScopes t_accessGrantDocumentTypeScopes_update
       \<lparr>gd_accessGrantId = grantId, gd_documentType = v\<rparr>))
     (tx_then (tx_for (sk_methodCategories scope) (\<lambda>v. tx_insert (\<lambda>_. True) (=)
       (\<lambda>s r. grant_known s (gm_accessGrantId r))
       t_accessGrantMethodCategoryScopes t_accessGrantMethodCategoryScopes_update
       \<lparr>gm_accessGrantId = grantId, gm_methodCategory = v\<rparr>))
       (tx_for (sk_currencies scope) (\<lambda>v. tx_insert (\<lambda>_. True)
       (\<lambda>r r'. gy_accessGrantId r = gy_accessGrantId r' \<and> gy_currency r = gy_currency r')
       currency_scope_refs t_accessGrantCurrencyScopes t_accessGrantCurrencyScopes_update
       \<lparr>gy_accessGrantId = grantId, gy_organizationId = org, gy_currency = v\<rparr>)))))))"

definition grantView :: "access_grant_row \<Rightarrow> canonical_scope \<Rightarrow> grant_view" where
  "grantView ag scope = \<lparr>
     gw_id = ag_id ag,
     gw_userId = ag_userRefId ag,
     gw_roleId = ag_roleId ag,
     gw_organizationWide = ag_organizationWide ag,
     gw_scope = (if hasScope scope then Some scope else None),
     gw_validFrom = ag_validFrom ag,
     gw_validTo = ag_validTo ag,
     gw_reason = ag_reason ag,
     gw_state = ag_state ag,
     gw_version = ag_version ag,
     gw_createdAt = ag_createdAt ag,
     gw_updatedAt = ag_updatedAt ag\<rparr>"

definition createAccessGrant_work ::
  "access_env \<Rightarrow> prepared_grant \<Rightarrow> protected_command \<Rightarrow> ('z admin_db_scheme, access_response) tx" where
  "createAccessGrant_work env dto command =
     (let org = pk_organizationId command in
      tx_then (pg_advisory_xact_lock org (''access-grant:'' @ pz_userId dto @ '':'' @ pz_roleId dto))
      (tx_bind (grant_target dto org) (\<lambda>account.
      tx_then (validateScopeReferences org (pz_scope dto))
      (tx_bind (tx_read (\<lambda>s. exactGrantExists s org dto)) (\<lambda>duplicate.
      tx_then (tx_guard (\<not> duplicate) (Thrown ''URIError'' ''ACCESS_CONTROL_IDENTITY_CONFLICT''))
      (tx_bind (randomUUID (ae_env env)) (\<lambda>i.
      (tx_bind (tx_lift (numeric_value (map_option my_amount (sk_amountCeiling (pz_scope dto))))) (\<lambda>limit.
      (let ag = grant_row env i org dto limit in
       tx_then (tx_insert access_grant_check access_grant_clash access_grant_refs
         t_accessGrants t_accessGrants_update ag)
       (tx_then (insertScopes org i (pz_scope dto))
       (tx_then (tx_write (t_identityAccounts_update (update_where (\<lambda>a. ia_id a = ia_id account)
          (\<lambda>a. a\<lparr>ia_authorizationEpoch := ia_authorizationEpoch a + 1, ia_version := ia_version a + 1\<rparr>))))
       (tx_then (security_audit env command ''ACCESS_GRANT_CREATED''
          [(''grantId'', JString i), (''targetAccountId'', JString (ia_id account))])
       (tx_bind (tx_read (\<lambda>s. scope_mode_ok s ag)) (\<lambda>consistent.
       tx_then (tx_guard consistent (PgError ''23514''))
         (tx_return (GrantResponse (grantView ag (pz_scope dto)))))))))))))))))))"

section \<open>Approval policies\<close>

text \<open>
  The users who could approve a step of the policy everywhere it applies: \<open>access_grants\<close> that
  carry the approval permission and contain the whole scope of the policy.
\<close>

definition eligible_scope :: "'z access_db_scheme \<Rightarrow> access_grant_row \<Rightarrow> prepared_policy \<Rightarrow> str \<Rightarrow> bool" where
  "eligible_scope s ag dto baseCurrency \<longleftrightarrow>
     (let holds = (\<lambda>scope value. scope = [] \<or> (case value of None \<Rightarrow> False | Some v \<Rightarrow> v \<in> set scope))
      in ag_organizationWide ag
         \<or> \<not> ye_organizationWide dto
           \<and> holds (branch_scope s (ag_id ag)) (scope_value yk_branchId dto)
           \<and> holds (unit_scope s (ag_id ag)) (scope_value yk_treasuryUnitId dto)
           \<and> cashbox_scope s (ag_id ag) = [] \<and> account_scope s (ag_id ag) = []
           \<and> holds (document_scope s (ag_id ag)) (Some (ye_documentType dto))
           \<and> holds (method_scope s (ag_id ag)) (scope_value yk_methodCategory dto)
           \<and> holds (currency_scope s (ag_id ag)) (scope_value yk_currency dto)
           \<and> (case ag_amountCeiling ag of None \<Rightarrow> True
              | Some c \<Rightarrow> (case scope_value yk_maximumBaseAmount dto of None \<Rightarrow> False
                  | Some m \<Rightarrow> ag_amountCeilingCurrency ag = Some baseCurrency \<and> compareDecimal m c \<le> 0)))"

definition eligible_subject ::
  "access_env \<Rightarrow> 'z access_db_scheme \<Rightarrow> uuid \<Rightarrow> str \<Rightarrow> prepared_policy \<Rightarrow> str \<Rightarrow> policy_step_dto
     \<Rightarrow> access_grant_row \<Rightarrow> bool" where
  "eligible_subject env s org baseCurrency dto permission step ag \<longleftrightarrow>
     ag_organizationId ag = org \<and> organization_role_active s ag
     \<and> role_permits s (ag_roleId ag) permission
     \<and> user_active s org (ag_userRefId ag)
     \<and> (case yt_roleId step of None \<Rightarrow> True | Some r \<Rightarrow> ag_roleId ag = r)
     \<and> (case yt_approverUserId step of None \<Rightarrow> True | Some u \<Rightarrow> ag_userRefId ag = u)
     \<and> grant_current (ae_env env) ag
     \<and> eligible_scope s ag dto baseCurrency"

definition approvalSubjectEligible ::
  "access_env \<Rightarrow> 'z access_db_scheme \<Rightarrow> uuid \<Rightarrow> str \<Rightarrow> prepared_policy \<Rightarrow> str \<Rightarrow> policy_step_dto \<Rightarrow> bool" where
  "approvalSubjectEligible env s org baseCurrency dto permission step \<longleftrightarrow>
     yt_approvalsRequired step \<le> int (length (dedup (map ag_userRefId
       (filter (eligible_subject env s org baseCurrency dto permission step) (t_accessGrants s)))))"

definition approval_permission :: "str \<Rightarrow> str option" where
  "approval_permission documentType =
     (if documentType = ''PAYMENT'' then Some ''payment.approve''
      else if documentType = ''RECEIPT'' then Some ''receipt.approve''
      else if documentType = ''SETTLEMENT'' then Some ''settlement.confirm''
      else if documentType = ''TRANSFER'' then Some ''transfer.approve''
      else None)"

definition validate_subjects :: "uuid \<Rightarrow> prepared_policy \<Rightarrow> ('z access_db_scheme, unit) tx" where
  "validate_subjects org dto =
     (let roleIds = dedup (concat (map (option_list \<circ> yt_roleId) (ye_steps dto)));
          approverIds = dedup (concat (map (option_list \<circ> yt_approverUserId) (ye_steps dto)))
      in tx_then (if roleIds = [] then tx_return ()
           else tx_bind (tx_read (\<lambda>s. filter (\<lambda>r. ro_organizationId r = org \<and> ro_id r \<in> set roleIds) (t_roles s)))
             (\<lambda>found. validate_rows ro_state found (length roleIds) policy_conflict))
         (if approverIds = [] then tx_return ()
          else tx_bind (tx_read (\<lambda>s. map (\<lambda>u. (us_state u, user_active s org (us_id u)))
              (filter (\<lambda>u. us_organizationId u = org \<and> us_id u \<in> set approverIds) (t_userRefs s))))
            (\<lambda>found. tx_then (tx_guard (length found = length approverIds) reference_error)
              (tx_guard (list_all (\<lambda>f. fst f = ''ACTIVE'' \<and> snd f) found) policy_conflict))))"

definition validateApprovalPolicyReferences ::
  "access_env \<Rightarrow> uuid \<Rightarrow> prepared_policy \<Rightarrow> ('z access_db_scheme, str) tx" where
  "validateApprovalPolicyReferences env org dto =
     tx_then (validateUuidReferences t_branches br_organizationId br_id br_state
        (option_list (scope_value yk_branchId dto)) org)
     (tx_then (validateUuidReferences t_treasuryUnits tu_organizationId tu_id tu_state
        (option_list (scope_value yk_treasuryUnitId dto)) org)
     (tx_bind (tx_read (\<lambda>s. find (\<lambda>g. og_id g = org) (t_organizations s))) (\<lambda>organization.
     (case organization of None \<Rightarrow> tx_throw reference_error
      | Some g \<Rightarrow>
          (let baseCurrency = og_baseCurrency g;
               amounts = option_list (scope_value yk_minimumBaseAmount dto)
                 @ option_list (scope_value yk_maximumBaseAmount dto)
           in tx_then (validate_subjects org dto)
              (tx_then (case approval_permission (ye_documentType dto) of
                  None \<Rightarrow> tx_return ()
                | Some permission \<Rightarrow> tx_for (ye_steps dto) (\<lambda>step.
                    tx_bind (tx_read (\<lambda>s. approvalSubjectEligible env s org baseCurrency dto permission step))
                      (\<lambda>eligible. tx_guard eligible policy_conflict)))
              (tx_then (validate_currencies org
                  (dedup (option_list (scope_value yk_currency dto) @ (if amounts = [] then [] else [baseCurrency])))
                  (Some baseCurrency) amounts)
                (tx_return baseCurrency))))))))"

definition required_separation :: "str \<Rightarrow> str list" where
  "required_separation documentType =
     (if documentType = ''SETTLEMENT'' then [''CREATOR_NOT_APPROVER'']
      else if documentType \<in> {''PAYMENT'', ''RECEIPT''} then [''CREATOR_NOT_EXECUTOR'', ''APPROVER_NOT_EXECUTOR'']
      else [])"

definition policy_scope_of :: "approval_policy_row \<Rightarrow> policy_scope_row" where
  "policy_scope_of r = \<lparr>
     qs_organizationWide = ap_organizationWide r,
     qs_branchId = ap_branchId r,
     qs_treasuryUnitId = ap_treasuryUnitId r,
     qs_currency = ap_currency r,
     qs_methodCategory = ap_methodCategory r,
     qs_minimumBaseAmount = ap_minimumBaseAmount r,
     qs_maximumBaseAmount = ap_maximumBaseAmount r\<rparr>"

definition active_policies :: "'z access_db_scheme \<Rightarrow> uuid \<Rightarrow> str \<Rightarrow> approval_policy_row list" where
  "active_policies s org documentType = filter (\<lambda>r. ap_organizationId r = org
     \<and> ap_documentType r = documentType \<and> ap_state r = ''ACTIVE'') (t_approvalPolicies s)"

definition policy_row ::
  "access_env \<Rightarrow> uuid \<Rightarrow> uuid \<Rightarrow> prepared_policy \<Rightarrow> str option \<Rightarrow> str option \<Rightarrow> approval_policy_row" where
  "policy_row env i org dto low high = \<lparr>
     ap_id = i,
     ap_organizationId = org,
     ap_code = ye_code dto,
     ap_name = ye_code dto,
     ap_documentType = ye_documentType dto,
     ap_organizationWide = ye_organizationWide dto,
     ap_branchId = scope_value yk_branchId dto,
     ap_treasuryUnitId = scope_value yk_treasuryUnitId dto,
     ap_currency = scope_value yk_currency dto,
     ap_methodCategory = scope_value yk_methodCategory dto,
     ap_minimumBaseAmount = low,
     ap_maximumBaseAmount = high,
     ap_separationRules = ye_separationRules dto,
     ap_aggregationWindowKind = map_option wa_windowKind (ye_paymentAggregation dto),
     ap_aggregationKeys = map_option wa_keys (ye_paymentAggregation dto),
     ap_aggregationOverrideSecondApproval =
       map_option wa_overrideRequiresSecondApproval (ye_paymentAggregation dto),
     ap_state = ''ACTIVE'',
     ap_policyVersion = 1,
     ap_createdAt = env_now (ae_env env),
     ap_updatedAt = env_now (ae_env env)\<rparr>"

definition policy_step_row :: "uuid \<Rightarrow> uuid \<Rightarrow> uuid \<Rightarrow> prepared_policy \<Rightarrow> policy_step_dto \<Rightarrow> approval_step_row" where
  "policy_step_row i org policyId dto step = \<lparr>
     as_id = i,
     as_organizationId = org,
     as_approvalPolicyId = policyId,
     as_stepOrder = yt_order step,
     as_requiredRoleId = yt_roleId step,
     as_namedApproverId = yt_approverUserId step,
     as_approvalsRequired = yt_approvalsRequired step,
     as_separationRules = ye_separationRules dto\<rparr>"

definition labelled_row ::
  "('r \<Rightarrow> uuid) \<Rightarrow> ('r \<Rightarrow> uuid) \<Rightarrow> ('r \<Rightarrow> str) \<Rightarrow> 'r list \<Rightarrow> uuid \<Rightarrow> uuid option \<Rightarrow> labelled option" where
  "labelled_row org key label rows organizationId value = Option.bind value (\<lambda>v.
     map_option (\<lambda>r. \<lparr>lb_id = v, lb_label = label r\<rparr>)
       (find (\<lambda>r. org r = organizationId \<and> key r = v) rows))"

definition policyView :: "'z access_db_scheme \<Rightarrow> approval_policy_row \<Rightarrow> policy_view" where
  "policyView s r =
     (let org = ap_organizationId r;
          scope = \<lparr>
            ws_branch = labelled_row br_organizationId br_id br_name (t_branches s) org (ap_branchId r),
            ws_treasuryUnit = labelled_row tu_organizationId tu_id tu_name (t_treasuryUnits s) org
              (ap_treasuryUnitId r),
            ws_currency = ap_currency r,
            ws_methodCategory = ap_methodCategory r,
            ws_minimumBaseAmount = map_option cleanDecimal (ap_minimumBaseAmount r),
            ws_maximumBaseAmount = map_option cleanDecimal (ap_maximumBaseAmount r)\<rparr>;
          empty = \<lparr>ws_branch = None, ws_treasuryUnit = None, ws_currency = None,
            ws_methodCategory = None, ws_minimumBaseAmount = None, ws_maximumBaseAmount = None\<rparr>
      in \<lparr>
       pw_id = ap_id r,
       pw_code = ap_code r,
       pw_documentType = ap_documentType r,
       pw_organizationWide = ap_organizationWide r,
       pw_scope = (if scope = empty then None else Some scope),
       pw_steps = map (\<lambda>t. \<lparr>
           wt_id = as_id t,
           wt_order = as_stepOrder t,
           wt_role = labelled_row ro_organizationId ro_id ro_name (t_roles s) org (as_requiredRoleId t),
           wt_approver = labelled_row us_organizationId us_id us_displayName (t_userRefs s) org
             (as_namedApproverId t),
           wt_approvalsRequired = as_approvalsRequired t\<rparr>)
         (order_by as_stepOrder (filter (\<lambda>t. as_organizationId t = org \<and> as_approvalPolicyId t = ap_id r)
           (t_approvalSteps s))),
       pw_separationRules = ap_separationRules r,
       pw_paymentAggregation = map_option (\<lambda>k. \<lparr>wa_windowKind = k,
           wa_keys = (case ap_aggregationKeys r of None \<Rightarrow> [] | Some ks \<Rightarrow> ks),
           wa_overrideRequiresSecondApproval = (ap_aggregationOverrideSecondApproval r = Some True)\<rparr>)
         (ap_aggregationWindowKind r),
       pw_state = ap_state r,
       pw_policyVersion = ap_policyVersion r,
       pw_createdAt = ap_createdAt r,
       pw_updatedAt = ap_updatedAt r\<rparr>)"

definition createApprovalPolicy_work ::
  "access_env \<Rightarrow> prepared_policy \<Rightarrow> uuid \<Rightarrow> protected_command \<Rightarrow> ('z admin_db_scheme, access_response) tx" where
  "createApprovalPolicy_work env dto actorUserId command =
     (let org = pk_organizationId command in
      tx_then (pg_advisory_xact_lock org (''approval-policy:'' @ ye_documentType dto))
      (tx_bind (validateApprovalPolicyReferences env org dto) (\<lambda>baseCurrency.
      (tx_bind (tx_read (\<lambda>s. permissionGrants env s org actorUserId ''approval-policy.manage'')) (\<lambda>authority.
      tx_then (tx_guard (list_ex (\<lambda>grant. policyGrantContains grant dto baseCurrency) authority)
        (Thrown ''TreasuryAuthorizationError'' []))
      (tx_then (tx_guard (set (required_separation (ye_documentType dto)) \<subseteq> set (ye_separationRules dto))
        policy_conflict)
      (tx_bind (tx_read (\<lambda>s. active_policies s org (ye_documentType dto))) (\<lambda>active.
      tx_then (tx_guard (\<not> list_ex (\<lambda>r. ambiguousPolicyOverlap (policy_scope_of r) (policyScope dto)) active)
        policy_conflict)
      (tx_bind (randomUUID (ae_env env)) (\<lambda>i.
      (tx_bind (tx_lift (numeric_value (scope_value yk_minimumBaseAmount dto))) (\<lambda>low.
      (tx_bind (tx_lift (numeric_value (scope_value yk_maximumBaseAmount dto))) (\<lambda>high.
      tx_then (tx_convert (\<lambda>e. if e = PgError ''23505'' then policy_conflict else e)
        (tx_insert approval_policy_check approval_policy_clash approval_policy_refs
          t_approvalPolicies t_approvalPolicies_update (policy_row env i org dto low high)))
      (tx_then (tx_for (ye_steps dto) (\<lambda>step. tx_bind (randomUUID (ae_env env)) (\<lambda>j.
         tx_insert approval_step_check approval_step_clash approval_step_refs
           t_approvalSteps t_approvalSteps_update (policy_step_row j org i dto step))))
      (tx_then (security_audit env command ''APPROVAL_POLICY_CREATED'' [(''policyId'', JString i)])
        (tx_read (\<lambda>s. PolicyResponse (policyView s (policy_row env i org dto low high))))))))))))))))))))"

section \<open>Delegations\<close>

text \<open>The grant a user delegates: the user's own, current, with the permission to delegate.\<close>

definition delegable ::
  "access_env \<Rightarrow> 'z access_db_scheme \<Rightarrow> uuid \<Rightarrow> uuid \<Rightarrow> uuid \<Rightarrow> access_grant_row \<Rightarrow> bool" where
  "delegable env s org grantId actorUserId ag \<longleftrightarrow>
     ag_id ag = grantId \<and> permission_held env s org actorUserId ''delegation.manage'' ag
     \<and> user_active s org (ag_userRefId ag)"

definition delegation_row_of ::
  "access_env \<Rightarrow> uuid \<Rightarrow> uuid \<Rightarrow> uuid \<Rightarrow> prepared_delegation \<Rightarrow> access_grant_row \<Rightarrow> str \<Rightarrow> str option
     \<Rightarrow> delegation_row" where
  "delegation_row_of env i org actorUserId dto source scopeDigest limit = \<lparr>
     dg_id = i,
     dg_organizationId = org,
     dg_accessGrantId = dp_accessGrantId dto,
     dg_sourceGrantVersion = ag_version source,
     dg_sourceScopeDigest = scopeDigest,
     dg_grantorUserId = actorUserId,
     dg_delegateUserId = dp_delegateUserId dto,
     dg_branchId = dk_branchId (dp_scope dto),
     dg_treasuryUnitId = dk_treasuryUnitId (dp_scope dto),
     dg_currency = dk_currency (dp_scope dto),
     dg_documentType = dk_documentType (dp_scope dto),
     dg_methodCategory = dk_methodCategory (dp_scope dto),
     dg_amountCeiling = limit,
     dg_amountCeilingCurrency = map_option my_currency (dk_amountCeiling (dp_scope dto)),
     dg_reason = dp_reason dto,
     dg_validFrom = dp_validFrom dto,
     dg_validTo = dp_validTo dto,
     dg_revokedAt = None,
     dg_revokedByUserId = None,
     dg_revocationReason = None,
     dg_createdAt = env_now (ae_env env)\<rparr>"

definition delegation_state :: "instant \<Rightarrow> delegation_row \<Rightarrow> str" where
  "delegation_state now d = (if dg_revokedAt d \<noteq> None then ''REVOKED''
     else if now < dg_validFrom d then ''SCHEDULED''
     else if dg_validTo d \<le> now then ''EXPIRED'' else ''ACTIVE'')"

text \<open>\<open>delegationView\<close>: none where a row it joins is missing.\<close>

definition delegationView :: "'z access_db_scheme \<Rightarrow> instant \<Rightarrow> delegation_row \<Rightarrow> delegation_view option" where
  "delegationView s now d =
     (let org = dg_organizationId d;
          user = (\<lambda>u. labelled_row us_organizationId us_id us_displayName (t_userRefs s) org u);
          source = find (\<lambda>g. ag_id g = dg_accessGrantId d \<and> ag_organizationId g = org) (t_accessGrants s);
          role' = Option.bind source (\<lambda>g. find (\<lambda>r. ro_id r = ag_roleId g
            \<and> ro_organizationId r = ag_organizationId g) (t_roles s))
      in (case (role', user (Some (dg_grantorUserId d)), user (Some (dg_delegateUserId d))) of
          (Some r, Some grantor, Some delegate) \<Rightarrow> Some \<lparr>
            dv_id = dg_id d,
            dv_accessGrant = \<lparr>lb_id = dg_accessGrantId d, lb_label = ro_name r\<rparr>,
            dv_sourceGrantVersion = dg_sourceGrantVersion d,
            dv_grantor = grantor,
            dv_delegate = delegate,
            dv_scope = \<lparr>
              ds_branch = labelled_row br_organizationId br_id br_name (t_branches s) org (dg_branchId d),
              ds_treasuryUnit = labelled_row tu_organizationId tu_id tu_name (t_treasuryUnits s) org
                (dg_treasuryUnitId d),
              ds_documentType = dg_documentType d,
              ds_methodCategory = dg_methodCategory d,
              ds_currency = dg_currency d,
              ds_amountCeiling = (case (dg_amountCeiling d, dg_amountCeilingCurrency d) of
                (Some a, Some y) \<Rightarrow> Some \<lparr>my_amount = cleanDecimal a, my_currency = y\<rparr> | _ \<Rightarrow> None)\<rparr>,
            dv_reason = dg_reason d,
            dv_validFrom = dg_validFrom d,
            dv_validTo = dg_validTo d,
            dv_revoked = (case (dg_revokedAt d, user (dg_revokedByUserId d), dg_revocationReason d) of
              (Some t, Some u, Some why) \<Rightarrow> Some (t, u, why) | _ \<Rightarrow> None),
            dv_state = delegation_state now d,
            dv_createdAt = dg_createdAt d\<rparr>
        | _ \<Rightarrow> None))"

definition delegation_guards ::
  "access_env \<Rightarrow> prepared_delegation \<Rightarrow> uuid \<Rightarrow> uuid \<Rightarrow> ('z access_db_scheme, access_grant_row) tx" where
  "delegation_guards env dto org actorUserId =
     tx_bind (tx_read (\<lambda>s. find (delegable env s org (dp_accessGrantId dto) actorUserId) (t_accessGrants s)))
     (\<lambda>found. (case found of None \<Rightarrow> tx_throw delegation_conflict
      | Some source \<Rightarrow>
     tx_then (tx_guard (\<not> dp_validFrom dto < ag_validFrom source
         \<and> (case ag_validTo source of None \<Rightarrow> True | Some t \<Rightarrow> \<not> t < dp_validTo dto)
         \<and> \<not> dp_validTo dto \<le> env_now (ae_env env)) delegation_conflict)
     (tx_bind (tx_read (\<lambda>s. user_active s org (dp_delegateUserId dto))) (\<lambda>known.
     tx_then (tx_guard known reference_error)
     (tx_then (tx_guard (dp_delegateUserId dto \<noteq> actorUserId) delegation_conflict)
     (tx_then (validateDelegationReferences org (dp_scope dto))
     (tx_bind (tx_read (\<lambda>s. loaded_scope s source)) (\<lambda>sourceScope.
     tx_then (tx_guard (strictlyNarrows sourceScope (dp_scope dto)) delegation_conflict)
       (tx_return source)))))))))"

definition createDelegation_work ::
  "access_env \<Rightarrow> prepared_delegation \<Rightarrow> uuid \<Rightarrow> protected_command \<Rightarrow> ('z admin_db_scheme, access_response) tx" where
  "createDelegation_work env dto actorUserId command =
     (let org = pk_organizationId command in
      tx_then (pg_advisory_xact_lock org (''delegation:'' @ dp_accessGrantId dto))
      (tx_bind (delegation_guards env dto org actorUserId) (\<lambda>source.
      (tx_bind (tx_read (\<lambda>s. access_grant_scope_digest (ae_env env) s source)) (\<lambda>scopeDigest.
      (tx_bind (randomUUID (ae_env env)) (\<lambda>i.
      (tx_bind (tx_lift (numeric_value (map_option my_amount (dk_amountCeiling (dp_scope dto))))) (\<lambda>limit.
      (let d = delegation_row_of env i org actorUserId dto source scopeDigest limit in
       tx_then (tx_insert delegation_check delegation_clash delegation_refs
         t_delegations t_delegations_update d)
       (tx_then (security_audit env command ''DELEGATION_CREATED''
          [(''delegationId'', JString i), (''accessGrantId'', JString (dp_accessGrantId dto)),
           (''delegateUserId'', JString (dp_delegateUserId dto))])
       (tx_bind (newDate (ae_env env)) (\<lambda>now.
       (tx_bind (tx_read (\<lambda>s. delegationView s now d)) (\<lambda>view.
       (case view of
          None \<Rightarrow> tx_throw (JsFault ''Cannot read properties of undefined'')
        | Some v \<Rightarrow> tx_return (DelegationResponse v)))))))))))))))))"

section \<open>The service\<close>

record session_context =
  sx_accountId :: uuid
  sx_physicalSessionId :: uuid
  sx_userId :: uuid

record step_up_context =
  sc_proofId :: str
  sc_method :: str
  sc_path :: str

definition access_problem :: "exn \<Rightarrow> exn" where
  "access_problem e =
     (case e of
        Thrown name message \<Rightarrow>
          (if name = ''TreasuryAuthorizationError'' then Problem ''TRS-GEN-003'' 403 None
           else if name = ''ApprovalPolicyConflictError'' then Problem ''TRS-AUT-013'' 409 None
           else if name = ''DelegationConflictError'' then Problem ''TRS-AUT-014'' 409 None
           else if name = ''SyntaxError'' then Problem ''TRS-GEN-007'' 409 None
           else if name = ''URIError'' then Problem ''TRS-AUT-012'' 409 None
           else if name = ''ReferenceError'' then Problem ''TRS-GEN-004'' 404 None
           else if name = ''RangeError'' then
             (if message = ''STEP_UP_INVALID'' then e
              else if message = ''AMOUNT_SCALE_INVALID'' then Problem ''TRS-GEN-001'' 422 None
              else Problem ''TRS-GEN-005'' 409 None)
           else e)
      | PgError code \<Rightarrow> if code = ''23505'' then Problem ''TRS-AUT-012'' 409 None else e
      | _ \<Rightarrow> e)"

definition opaqueToken :: "access_env \<Rightarrow> ('z world_scheme, str) tx" where
  "opaqueToken env = (\<lambda>s. Inr (ae_tokens env (uuids_drawn s), s\<lparr>uuids_drawn := uuids_drawn s + 1\<rparr>))"

definition challenge_row ::
  "access_env \<Rightarrow> uuid \<Rightarrow> session_context \<Rightarrow> protected_command \<Rightarrow> str \<Rightarrow> instant \<Rightarrow> auth_challenge_row" where
  "challenge_row env i context command challengeId expiresAt = \<lparr>
     ch_id = i,
     ch_identityAccountId = sx_accountId context,
     ch_sessionId = Some (sx_physicalSessionId context),
     ch_tokenDigest = digest (ae_env env) challengeId,
     ch_kind = ''STEP_UP'',
     ch_httpMethod = Some (pk_method command),
     ch_httpPath = Some (pk_path command),
     ch_requestBodyDigest = Some (pk_bodyDigest command),
     ch_idempotencyKey = Some (pk_idempotencyKey command),
     ch_deviceLabel = None,
     ch_attempts = 0,
     ch_expiresAt = expiresAt,
     ch_consumedAt = None,
     ch_createdAt = env_now (ae_env env)\<rparr>"

text \<open>\<open>issueStepUpChallenge\<close> of \<open>auth.service.ts\<close>: a challenge of five minutes for the command.\<close>

definition issueStepUpChallenge ::
  "access_env \<Rightarrow> session_context \<Rightarrow> protected_command \<Rightarrow> ('z admin_db_scheme, unit) tx" where
  "issueStepUpChallenge env context command =
     tx_bind (opaqueToken env) (\<lambda>challengeId.
     (tx_bind (newDate (ae_env env)) (\<lambda>now.
     (tx_bind (randomUUID (ae_env env)) (\<lambda>i.
       tx_insert (\<lambda>_. True) challenge_clash challenge_refs t_authChallenges t_authChallenges_update
         (challenge_row env i context command challengeId (now + 5 * 60000)))))))"

definition idempotency_header :: "str option \<Rightarrow> str res" where
  "idempotency_header key = (case key of
     Some k \<Rightarrow> if 8 \<le> length k \<and> length k \<le> 128 then Inr k
       else Inl (Problem ''TRS-GEN-001'' 422 (Some ''Idempotency-Key must contain 8 through 128 characters.''))
   | None \<Rightarrow> Inl (Problem ''TRS-GEN-001'' 422 (Some ''Idempotency-Key must contain 8 through 128 characters.'')))"

definition expected_command ::
  "access_env \<Rightarrow> str \<Rightarrow> uuid \<Rightarrow> json \<Rightarrow> str option \<Rightarrow> str \<Rightarrow> session_context \<Rightarrow> step_up_context
     \<Rightarrow> protected_command res" where
  "expected_command env operationId org body key reqId context stepUp =
     res_bind (idempotency_header key) (\<lambda>idempotencyKey.
     res_bind (commandDigest (ae_env env) operationId body) (\<lambda>bodyDigest.
       Inr \<lparr>
         pk_operationId = operationId,
         pk_organizationId = org,
         pk_actorAccountId = sx_accountId context,
         pk_physicalSessionId = sx_physicalSessionId context,
         pk_requestId = reqId,
         pk_proofDigest = digest (ae_env env) (sc_proofId stepUp),
         pk_method = sc_method stepUp,
         pk_path = sc_path stepUp,
         pk_bodyDigest = bodyDigest,
         pk_idempotencyKey = idempotencyKey\<rparr>))"

definition protected ::
  "access_env \<Rightarrow> session_context \<Rightarrow> protected_command res
     \<Rightarrow> (protected_command \<Rightarrow> ('z admin_db_scheme, access_response) tx)
     \<Rightarrow> 'z admin_db_scheme \<Rightarrow> access_response res \<times> 'z admin_db_scheme" where
  "protected env context expected work s =
     (case expected of Inl e \<Rightarrow> (Inl e, s)
      | Inr command \<Rightarrow>
          (let r = rethrow access_problem (transaction (protectedCommand env command (work command)) s)
           in if fst r = Inl (range_error ''STEP_UP_INVALID'')
              then (case transaction (issueStepUpChallenge env context command) s of
                  (Inl e, s') \<Rightarrow> (Inl e, s')
                | (Inr _, s') \<Rightarrow> (Inl (Problem ''TRS-AUT-010'' 428 None), s'))
              else r))"

definition createRole ::
  "access_env \<Rightarrow> uuid \<Rightarrow> role_create \<Rightarrow> str option \<Rightarrow> str \<Rightarrow> session_context \<Rightarrow> step_up_context
     \<Rightarrow> 'z admin_db_scheme \<Rightarrow> access_response res \<times> 'z admin_db_scheme" where
  "createRole env org dto key reqId context stepUp s =
     (if xr_permissions dto = [] \<or> \<not> distinct (xr_permissions dto)
         \<or> \<not> set (xr_permissions dto) \<subseteq> set CANON_PERMISSIONS
      then (Inl invalid_request, s)
      else protected env context
        (expected_command env ''createRole'' org (xr_body dto) key reqId context stepUp)
        (createRole_work env dto) s)"

definition createAccessGrant ::
  "access_env \<Rightarrow> uuid \<Rightarrow> access_grant_create \<Rightarrow> str option \<Rightarrow> str \<Rightarrow> session_context \<Rightarrow> step_up_context
     \<Rightarrow> 'z admin_db_scheme \<Rightarrow> access_response res \<times> 'z admin_db_scheme" where
  "createAccessGrant env org dto key reqId context stepUp s =
     (case res_bind (idempotency_header key)
         (\<lambda>_. prepareGrant env (env_clock (ae_env env) (clock_reads s)) dto) of
        Inl e \<Rightarrow> (Inl e, s)
      | Inr prepared \<Rightarrow>
          (if list_ex (\<lambda>source. grantContains source (prepared_authorization prepared))
               (permissionGrants env s org (sx_userId context) ''access-grant.manage'')
           then protected env context
             (expected_command env ''createAccessGrant'' org (xg_body dto) key reqId context stepUp)
             (createAccessGrant_work env prepared) s
           else (Inl (Problem ''TRS-GEN-003'' 403 None), s)))"

definition organizationBaseCurrency :: "'z reference_db_scheme \<Rightarrow> uuid \<Rightarrow> str res" where
  "organizationBaseCurrency s org = (case find (\<lambda>g. og_id g = org) (t_organizations s) of
     None \<Rightarrow> Inl reference_error | Some g \<Rightarrow> Inr (og_baseCurrency g))"

definition createApprovalPolicy ::
  "access_env \<Rightarrow> uuid \<Rightarrow> approval_policy_create \<Rightarrow> str option \<Rightarrow> str \<Rightarrow> session_context \<Rightarrow> step_up_context
     \<Rightarrow> 'z admin_db_scheme \<Rightarrow> access_response res \<times> 'z admin_db_scheme" where
  "createApprovalPolicy env org dto key reqId context stepUp s =
     (case res_bind (idempotency_header key) (\<lambda>_. res_bind (prepareApprovalPolicy dto) (\<lambda>prepared.
         res_bind (organizationBaseCurrency s org) (\<lambda>baseCurrency. Inr (prepared, baseCurrency)))) of
        Inl e \<Rightarrow> (Inl e, s)
      | Inr (prepared, baseCurrency) \<Rightarrow>
          (if list_ex (\<lambda>source. grantContains source (policyAuthorization prepared baseCurrency
                 (az_validTo source) (env_clock (ae_env env) (clock_reads s))))
               (permissionGrants env s org (sx_userId context) ''approval-policy.manage'')
           then protected env context
             (expected_command env ''createApprovalPolicy'' org (yc_body dto) key reqId context stepUp)
             (\<lambda>command. createApprovalPolicy_work env prepared (sx_userId context) command) s
           else (Inl (Problem ''TRS-GEN-003'' 403 None), s)))"

definition createDelegation ::
  "access_env \<Rightarrow> uuid \<Rightarrow> delegation_create \<Rightarrow> str option \<Rightarrow> str \<Rightarrow> session_context \<Rightarrow> step_up_context
     \<Rightarrow> 'z admin_db_scheme \<Rightarrow> access_response res \<times> 'z admin_db_scheme" where
  "createDelegation env org dto key reqId context stepUp s =
     (case prepareDelegation env (env_clock (ae_env env) (clock_reads s)) dto of
        Inl e \<Rightarrow> (Inl e, s)
      | Inr prepared \<Rightarrow> protected env context
          (expected_command env ''createDelegation'' org (dq_body dto) key reqId context stepUp)
          (\<lambda>command. createDelegation_work env prepared (sx_userId context) command) s)"

end
