(* ===== verification/Policy_Registry.thy ===== *)
theory Policy_Registry
  imports Access_Admin Policy_Scope Payment_Approval Tables
begin

text \<open>
  The approval policies an organization keeps: the comparisons of \<open>access-admin.repository.ts\<close>
  agree with those of the approval service, so that a policy accepted by \<open>createApprovalPolicy\<close>
  never leaves a payment between two policies of which none is narrower.
\<close>

section \<open>Comparisons\<close>

lemma decimalCompare_approval:
  assumes "is_decimal l" and "is_decimal r"
  shows "decimalCompare l r = approvalCompareDecimal l r"
proof -
  have units: "bigint (whole_part s @ pad_end m (CHR ''0'') (fraction_part s))
      = fst (approvalDecimalParts s) * 10 ^ (m - snd (approvalDecimalParts s))"
    if dec: "is_decimal s" and len: "length (fraction_part s) \<le> m" for s m
  proof -
    obtain w f where wf: "w \<noteq> []" "all_digits w" "all_digits f" "whole_part s = w" "fraction_part s = f"
      using dec by (rule is_decimalE)
    have pad: "all_digits (pad_end m (CHR ''0'') f)" using wf by (simp add: pad_end_def)
    have n: "length (pad_end m (CHR ''0'') f) = m" using len wf by (simp add: pad_end_def)
    have "m = length f + (m - length f)" using len wf by simp
    then have "(10 :: nat) ^ m = 10 ^ length f * 10 ^ (m - length f)" by (metis power_add)
    then show ?thesis
      using wf pad n len
      by (simp add: approvalDecimalParts_def Let_def decimal_parts bigint_digits digits_val_append
          digits_val_pad_end algebra_simps)
  qed
  have len: "snd (approvalDecimalParts s) = length (fraction_part s)" for s
    by (simp add: approvalDecimalParts_def Let_def decimal_parts)
  show ?thesis
    unfolding decimalCompare_def approvalCompareDecimal_def Let_def len
    by (simp add: units assms len)
qed


lemma strict_keys_narrower: "strict_keys ks b = narrower_keys ks b"
  by (induction ks b rule: strict_keys.induct)
    (auto simp: optionalNarrower_def split: option.splits)

lemma strict_amount_lower:
  assumes "\<forall>x. l = Some x \<or> r = Some x \<longrightarrow> is_decimal x"
  shows "strict_amount 1 l r b = (if fst (lowerNarrower l r) then Some (b \<or> snd (lowerNarrower l r)) else None)"
  using assms
  by (auto simp: strict_amount_def lowerNarrower_def decimalCompare_approval split: option.splits)

lemma strict_amount_upper:
  assumes "\<forall>x. l = Some x \<or> r = Some x \<longrightarrow> is_decimal x"
  shows "strict_amount (-1) l r b = (if fst (upperNarrower l r) then Some (b \<or> snd (upperNarrower l r)) else None)"
  using assms
  by (auto simp: strict_amount_def upperNarrower_def decimalCompare_approval split: option.splits)

lemma bounds_decimal:
  assumes "policy_bounds p"
  shows "po_amountMinimum p = Some x \<Longrightarrow> is_decimal x" and "po_amountMaximum p = Some x \<Longrightarrow> is_decimal x"
  using assms by (auto simp: policy_bounds_def)

lemma narrower_policy_dominates:
  assumes "policy_bounds (policy_of s org r)" and "policy_bounds (policy_of s' org' q)"
  shows "strictlyNarrowerPolicy (policy_scope_of r) (policy_scope_of q)
    \<longleftrightarrow> dominates (policy_of s org r) (policy_of s' org' q)"
proof -
  have low: "\<forall>x. ap_minimumBaseAmount r = Some x \<or> ap_minimumBaseAmount q = Some x \<longrightarrow> is_decimal x"
    and up: "\<forall>x. ap_maximumBaseAmount r = Some x \<or> ap_maximumBaseAmount q = Some x \<longrightarrow> is_decimal x"
    using assms [THEN bounds_decimal(1)] assms [THEN bounds_decimal(2)] by (auto simp: policy_of_def)
  show ?thesis
    unfolding strictlyNarrowerPolicy_def dominates_def strict_keys_narrower strict_amount_lower [OF low]
      strict_amount_upper [OF up] policy_scope_of_def policy_of_def
    by (auto simp: Let_def strict_amount_lower [OF low] strict_amount_upper [OF up] split: option.splits)
qed

lemma decimalCompare_rat:
  "is_decimal l \<Longrightarrow> is_decimal r \<Longrightarrow>
     decimalCompare l r = (if dec_rat l < dec_rat r then - 1 else if dec_rat l > dec_rat r then 1 else 0)"
  by (simp add: decimalCompare_approval approvalCompareDecimal_rat)

section \<open>The rows of a policy table\<close>

text \<open>A row as the database keeps it: its checks, and amounts as \<open>numeric(38,8)\<close> holds them.\<close>

definition policy_row_valid :: "approval_policy_row \<Rightarrow> bool" where
  "policy_row_valid r \<longleftrightarrow> approval_policy_check r
     \<and> list_all numeric8 (option_list (ap_minimumBaseAmount r) @ option_list (ap_maximumBaseAmount r))"

lemma numeric8_decimal:
  assumes "numeric8 t" and "0 \<le> fst (decimalParts t)"
  shows "is_decimal t" and "frac_digits t = 8"
proof -
  have "0 \<le> units8 t" using assms(2) by (simp add: units8_def)
  then show "is_decimal t" "frac_digits t = 8"
    using assms(1) decimal_formatScaled(1,2) [of "units8 t" 8] by (simp_all add: numeric8_def)
qed

lemma valid_amounts:
  assumes "policy_row_valid r"
  shows "ap_minimumBaseAmount r = Some m \<Longrightarrow> is_decimal m" and "ap_maximumBaseAmount r = Some m \<Longrightarrow> is_decimal m"
    and "ap_minimumBaseAmount r = Some l \<Longrightarrow> ap_maximumBaseAmount r = Some h \<Longrightarrow> dec_rat l \<le> dec_rat h"
proof -
  have low: "is_decimal m" if "ap_minimumBaseAmount r = Some m" for m
    using assms that by (auto simp: policy_row_valid_def approval_policy_check_def intro: numeric8_decimal)
  have high: "is_decimal m" if "ap_maximumBaseAmount r = Some m" for m
    using assms that by (auto simp: policy_row_valid_def approval_policy_check_def intro: numeric8_decimal)
  show "dec_rat l \<le> dec_rat h" if "ap_minimumBaseAmount r = Some l" "ap_maximumBaseAmount r = Some h"
    using assms that compareDecimal_rat [OF low [OF that(1)] high [OF that(2)]]
    by (auto simp: policy_row_valid_def approval_policy_check_def split: if_splits)
  show "ap_minimumBaseAmount r = Some m \<Longrightarrow> is_decimal m" by (rule low)
  show "ap_maximumBaseAmount r = Some m \<Longrightarrow> is_decimal m" by (rule high)
qed

lemma valid_bounds: "policy_row_valid r \<Longrightarrow> policy_bounds (policy_of s org r)"
  by (auto simp: policy_bounds_def policy_of_def valid_amounts split: option.splits)

text \<open>
  No two active policies of one organization and document type overlap without one being
  strictly narrower than the other.
\<close>

definition rivals :: "approval_policy_row \<Rightarrow> approval_policy_row \<Rightarrow> bool" where
  "rivals r q \<longleftrightarrow> ap_organizationId r = ap_organizationId q \<and> ap_documentType r = ap_documentType q
     \<and> ap_state r = ''ACTIVE'' \<and> ap_state q = ''ACTIVE''"

definition policies_unambiguous :: "'z access_db_scheme \<Rightarrow> bool" where
  "policies_unambiguous s \<longleftrightarrow> distinct (map ap_id (t_approvalPolicies s))
     \<and> (\<forall>r \<in> set (t_approvalPolicies s). policy_row_valid r)
     \<and> (\<forall>r \<in> set (t_approvalPolicies s). \<forall>q \<in> set (t_approvalPolicies s). ap_id r \<noteq> ap_id q \<longrightarrow> rivals r q \<longrightarrow>
          \<not> ambiguousPolicyOverlap (policy_scope_of r) (policy_scope_of q))"

lemma overlap_sym: "policyScopesOverlap l r = policyScopesOverlap r l"
proof -
  have "keys_overlap a b = keys_overlap b a" for a b
    by (auto simp: keys_overlap_def split: option.splits)
  then show ?thesis by (auto simp: policyScopesOverlap_def)
qed

lemma ambiguous_sym: "ambiguousPolicyOverlap l r = ambiguousPolicyOverlap r l"
  using overlap_sym [of l r] by (auto simp: ambiguousPolicyOverlap_def)

section \<open>The governing policy\<close>

lemma keys_overlap_common: "l = None \<or> l = v \<Longrightarrow> r = None \<or> r = v \<Longrightarrow> keys_overlap l r"
  by (auto simp: keys_overlap_def split: option.splits)

lemma applies_overlap:
  assumes "policy_applies org payment c m a r" and "policy_applies org payment c m a q"
    and "policy_row_valid r" and "policy_row_valid q" and "is_decimal a"
  shows "policyScopesOverlap (policy_scope_of r) (policy_scope_of q)"
proof -
  have low: "dec_rat v \<le> dec_rat a" if "policy_applies org payment c m a p" "policy_row_valid p"
    "ap_minimumBaseAmount p = Some v" for p v
    using that valid_amounts(1) [OF that(2,3)] assms(5)
    by (auto simp: policy_applies_def compareDecimal_rat split: if_splits)
  have high: "dec_rat a \<le> dec_rat v" if "policy_applies org payment c m a p" "policy_row_valid p"
    "ap_maximumBaseAmount p = Some v" for p v
    using that valid_amounts(2) [OF that(2,3)] assms(5)
    by (auto simp: policy_applies_def compareDecimal_rat split: if_splits)
  have "\<not> below_minimum (ap_maximumBaseAmount p) (ap_minimumBaseAmount p')"
    if "policy_applies org payment c m a p" "policy_row_valid p"
      "policy_applies org payment c m a p'" "policy_row_valid p'" for p p'
  proof (cases "ap_maximumBaseAmount p"; cases "ap_minimumBaseAmount p'")
    fix h l assume hl: "ap_maximumBaseAmount p = Some h" "ap_minimumBaseAmount p' = Some l"
    have "dec_rat l \<le> dec_rat h" using high [OF that(1,2) hl(1)] low [OF that(3,4) hl(2)] by simp
    then show ?thesis
      using hl valid_amounts(2) [OF that(2) hl(1)] valid_amounts(1) [OF that(4) hl(2)]
      by (simp add: below_minimum_def decimalCompare_rat)
  qed (simp_all add: below_minimum_def)
  then have "\<not> below_minimum (ap_maximumBaseAmount r) (ap_minimumBaseAmount q)"
    "\<not> below_minimum (ap_maximumBaseAmount q) (ap_minimumBaseAmount r)"
    using assms(1-4) by blast+
  moreover have "keys_overlap (ap_branchId r) (ap_branchId q)"
    "keys_overlap (ap_treasuryUnitId r) (ap_treasuryUnitId q)"
    "keys_overlap (ap_currency r) (ap_currency q)" "keys_overlap (ap_methodCategory r) (ap_methodCategory q)"
    using assms(1,2) unfolding policy_applies_def by (blast intro: keys_overlap_common)+
  ultimately show ?thesis by (simp add: policyScopesOverlap_def policy_scope_of_def)
qed

lemma least_of_chain:
  assumes "finite C" and "C \<noteq> {}" and "\<And>p q. p \<in> C \<Longrightarrow> q \<in> C \<Longrightarrow> p \<noteq> q \<Longrightarrow> f p \<subset> f q \<or> (f q :: 'b set) \<subset> f p"
  shows "\<exists>p \<in> C. \<forall>q \<in> C. q \<noteq> p \<longrightarrow> f p \<subset> f q"
proof -
  obtain m where m: "m \<in> f ` C" "\<forall>b \<in> f ` C. b \<le> m \<longrightarrow> m = b"
    using finite_has_minimal [of "f ` C"] assms(1,2) by blast
  then obtain p where p: "p \<in> C" "m = f p" by blast
  have "f p \<subset> f q" if "q \<in> C" "q \<noteq> p" for q
    using assms(3) [OF p(1) that(1)] that(2) m(2) p(2) that(1) by blast
  then show ?thesis using p(1) by blast
qed

lemma governing_policy:
  assumes "policies_unambiguous s" and "is_decimal a" and "policies s org payment c m a \<noteq> []"
  obtains p where "uniqueMaximal (policies s org payment c m a) = Some p"
proof -
  let ?rows = "filter (policy_applies org payment c m a) (t_approvalPolicies s)"
  let ?C = "policies s org payment c m a"
  have set: "set ?C = policy_of s org ` set ?rows" by (simp add: policies_def)
  have valid: "policy_row_valid r" if "r \<in> set ?rows" for r
    using assms(1) that by (auto simp: policies_unambiguous_def)
  have bounds: "\<forall>p \<in> set ?C. policy_bounds p" using valid valid_bounds by (auto simp: set)
  have ids: "map po_id ?C = map ap_id (order_by ap_id ?rows)"
    by (simp add: policies_def policy_of_def comp_def)
  have "distinct (map ap_id ?rows)"
    using assms(1) by (auto simp: policies_unambiguous_def distinct_map intro: inj_on_subset)
  then have dist: "distinct (map po_id ?C)" unfolding ids distinct_order_by .
  have compare: "policy_scope p \<subset> policy_scope q \<or> policy_scope q \<subset> policy_scope p"
    if p: "p \<in> set ?C" and q: "q \<in> set ?C" and neq: "p \<noteq> q" for p q
  proof -
    obtain r where r: "r \<in> set ?rows" "p = policy_of s org r" using p by (auto simp: set)
    obtain r' where r': "r' \<in> set ?rows" "q = policy_of s org r'" using q by (auto simp: set)
    have "po_id p = ap_id r" "po_id q = ap_id r'" by (simp_all add: r(2) r'(2) policy_of_def)
    then have "ap_id r \<noteq> ap_id r'" using key_unique [OF dist p q] neq by auto
    moreover have "rivals r r'" using r(1) r'(1) by (auto simp: rivals_def policy_applies_def)
    ultimately have "\<not> ambiguousPolicyOverlap (policy_scope_of r) (policy_scope_of r')"
      using assms(1) r(1) r'(1) by (auto simp: policies_unambiguous_def)
    moreover have "policyScopesOverlap (policy_scope_of r) (policy_scope_of r')"
      using r(1) r'(1) valid by (auto intro: applies_overlap [OF _ _ _ _ assms(2)])
    ultimately have "dominates p q \<or> dominates q p"
      using narrower_policy_dominates [of s org r s org r'] narrower_policy_dominates [of s org r' s org r]
        r r' valid valid_bounds by (auto simp: ambiguousPolicyOverlap_def)
    then show ?thesis using bounds p q dominates_subset by blast
  qed
  have "\<exists>p \<in> set ?C. \<forall>q \<in> set ?C. q \<noteq> p \<longrightarrow> policy_scope p \<subset> policy_scope q"
    by (rule least_of_chain [OF _ _ compare]) (use assms(3) in auto)
  then obtain p where "uniqueMaximal ?C = Some p"
    using uniqueMaximal_Some [OF bounds dist] by blast
  then show ?thesis by (rule that)
qed

end
