(* ===== verification/Administration.thy ===== *)
theory Administration
  imports Policy_Registry Keyed_Commands
begin

text \<open>
  The access administration as one system: a step is one call of one of its four operations by
  anybody, with any arguments and outcome. The lemmas say what a protected command leaves behind,
  how a proof is used up and what each operation does to the policies and the grants.
\<close>

section \<open>Frames of the operations\<close>

lemma keeps_insert: "(\<And>g s. f (upd g s) = f s) \<Longrightarrow> tx_keeps f (tx_insert check clash refs get upd r)"
  by (auto simp: tx_keeps_def tx_insert_Inr)

lemma keeps_uuid: "(\<And>s n. f (s\<lparr>uuids_drawn := n\<rparr>) = f s) \<Longrightarrow> tx_keeps f (randomUUID env)"
  by (auto simp: tx_keeps_def randomUUID_def)

lemma keeps_date: "(\<And>s n. f (s\<lparr>clock_reads := n\<rparr>) = f s) \<Longrightarrow> tx_keeps f (newDate env)"
  by (auto simp: tx_keeps_def newDate_def)

lemma keeps_lock: "(\<And>s g. f (advisory_locks_update g s) = f s) \<Longrightarrow> tx_keeps f (pg_advisory_xact_lock a b)"
  by (simp add: pg_advisory_xact_lock_def keeps_write)

lemma keeps_token: "(\<And>s n. f (s\<lparr>uuids_drawn := n\<rparr>) = f s) \<Longrightarrow> tx_keeps f (opaqueToken env)"
  by (auto simp: tx_keeps_def opaqueToken_def)

lemmas keeps_statements = keeps_insert keeps_uuid keeps_date keeps_lock keeps_token

text \<open>Validations only read.\<close>

lemma keeps_rows [tx_frame]: "tx_keeps f (validate_rows state found n e)"
  unfolding validate_rows_def by (intro tx_frame)

lemma keeps_references [tx_frame]: "tx_keeps f (validateUuidReferences rows owner key state ids org)"
  unfolding validateUuidReferences_def by (intro tx_frame)

lemma keeps_currencies [tx_frame]: "tx_keeps f (validate_currencies org codes y amounts)"
  unfolding validate_currencies_def by (intro tx_frame)

lemma keeps_validations [tx_frame]:
  "tx_keeps f (validateScopeReferences org scope)"
  "tx_keeps g (validateDelegationReferences org dscope)"
  "tx_keeps f (validate_subjects org dto)"
  "tx_keeps f (grant_target gdto org)"
  unfolding validateScopeReferences_def validateDelegationReferences_def validate_subjects_def
    grant_target_def Let_def
  by (intro tx_frame)+

lemma keeps_policy_references [tx_frame]:
  "tx_keeps f (validateApprovalPolicyReferences env org dto)"
  "tx_keeps f (delegation_guards env ddto org actor)"
  unfolding validateApprovalPolicyReferences_def delegation_guards_def Let_def
  by (intro tx_frame)+

lemma keeps_audit:
  "(\<And>s n. f (s\<lparr>uuids_drawn := n\<rparr>) = f s) \<Longrightarrow> (\<And>s g. f (t_securityAuditEvents_update g s) = f s) \<Longrightarrow>
     tx_keeps f (security_audit env command event details)"
  unfolding security_audit_def by (intro tx_frame keeps_statements)

lemma keeps_scopes:
  assumes "\<And>s g. f (t_accessGrantBranchScopes_update g s) = f s"
    and "\<And>s g. f (t_accessGrantTreasuryUnitScopes_update g s) = f s"
    and "\<And>s g. f (t_accessGrantCashboxScopes_update g s) = f s"
    and "\<And>s g. f (t_accessGrantBankAccountScopes_update g s) = f s"
    and "\<And>s g. f (t_accessGrantDocumentTypeScopes_update g s) = f s"
    and "\<And>s g. f (t_accessGrantMethodCategoryScopes_update g s) = f s"
    and "\<And>s g. f (t_accessGrantCurrencyScopes_update g s) = f s"
  shows "tx_keeps f (insertScopes org i scope)"
  unfolding insertScopes_def by (intro tx_frame keeps_insert) (simp_all add: assms)

text \<open>The proofs and the idempotency records, which no operation's own work touches.\<close>

definition bookkeeping where
  "bookkeeping s = (t_authStepUpProofs s, t_idempotencyRecords s)"

lemma work_bookkeeping:
  "tx_keeps bookkeeping (createRole_work env rdto command)"
  "tx_keeps bookkeeping (createAccessGrant_work env gdto command)"
  "tx_keeps bookkeeping (createApprovalPolicy_work env pdto actor command)"
  "tx_keeps bookkeeping (createDelegation_work env ddto actor command)"
  unfolding createRole_work_def createAccessGrant_work_def createApprovalPolicy_work_def
    createDelegation_work_def Let_def
  by (intro tx_frame keeps_statements keeps_audit keeps_scopes keeps_convert keeps_write;
      simp add: bookkeeping_def)+

lemma work_policies:
  "tx_keeps t_approvalPolicies (createRole_work env rdto command)"
  "tx_keeps t_approvalPolicies (createAccessGrant_work env gdto command)"
  "tx_keeps t_approvalPolicies (createDelegation_work env ddto actor command)"
  unfolding createRole_work_def createAccessGrant_work_def createDelegation_work_def Let_def
  by (intro tx_frame keeps_statements keeps_audit keeps_scopes keeps_convert keeps_write; simp)+

section \<open>The protected command\<close>

lemma protected_run:
  assumes "protected env context expected work s = (r, s')"
  obtains (failed) e where "r = Inl e" and "s' = s"
  | (challenged) command e where "expected = Inr command" and "r = Inl e"
      and "issueStepUpChallenge env context command s = Inr ((), s')"
  | (ran) command response where "expected = Inr command" and "r = Inr response"
      and "protectedCommand env command (work command) s = Inr (response, s')"
proof (cases expected)
  case (Inl e)
  then show ?thesis using assms failed by (auto simp: protected_def)
next
  case (Inr command)
  let ?m = "protectedCommand env command (work command)"
  show ?thesis
  proof (cases "?m s")
    case m: (Inl e)
    show ?thesis
    proof (cases "issueStepUpChallenge env context command s")
      case (Inl e')
      then show ?thesis
        using assms Inr m failed by (auto simp: protected_def transaction_def rethrow_def split: if_splits)
    next
      case (Inr p)
      then show ?thesis
        using assms \<open>expected = Inr command\<close> m failed challenged
        by (cases p) (auto simp: protected_def transaction_def rethrow_def split: if_splits)
    qed
  next
    case m: (Inr p)
    then show ?thesis
      using assms Inr ran by (cases p) (auto simp: protected_def transaction_def rethrow_def)
  qed
qed

definition proof_spent :: "access_env \<Rightarrow> uuid \<Rightarrow> 'z access_db_scheme \<Rightarrow> 'z access_db_scheme" where
  "proof_spent env i s = s\<lparr>t_authStepUpProofs := update_where (\<lambda>p. sp_id p = i)
     (sp_consumedAt_update (\<lambda>_. Some (env_now (ae_env env)))) (t_authStepUpProofs s)\<rparr>"

lemma protectedCommand_run:
  fixes s s' :: "'z admin_db_scheme"
  assumes "protectedCommand env command work s = Inr (r, s')"
  obtains (replayed) "findIdempotency (command_key command) s
        = Some \<lparr>re_requestDigest = pk_bodyDigest command, re_response = Some (AccessResponse r)\<rparr>"
      and "s' = lock_recorded (command_key command) s"
  | (fresh) p s1 s2 s3 where "find (proof_bound env s command) (t_authStepUpProofs s) = Some p"
      and "sp_consumedAt p = None" and "findIdempotency (command_key command) s = None"
      and "insertIdempotency (ae_env env) (command_key command) (pk_bodyDigest command)
        (lock_recorded (command_key command) s) = Inr ((), s1)"
      and "work s1 = Inr (r, s2)"
      and "saveIdempotency (command_key command) (AccessResponse r)
        (command_status (pk_operationId command)) s2 = Inr ((), s3)"
      and "s' = proof_spent env (sp_id p) s3"
proof -
  let ?k = "command_key command"
  obtain p where p: "find (proof_bound env s command) (t_authStepUpProofs s) = Some p"
    using assms by (auto simp: protectedCommand_def tx_bind_Inr split: option.splits)
  have lock: "acquireIdempotencyLock ?k s = Inr ((), lock_recorded ?k s)"
    by (simp add: acquireIdempotencyLock_Inr lock_recorded_def)
  let ?s = "lock_recorded ?k s"
  have step: "tx_then (acquireIdempotencyLock ?k) m s = m ?s" for m :: "('z admin_db_scheme, access_response) tx"
    by (rule tx_then_run) (rule lock)
  have look: "tx_bind (tx_read f) m t = m (f t) t" for f :: "'z admin_db_scheme \<Rightarrow> 'b"
      and m :: "'b \<Rightarrow> ('z admin_db_scheme, access_response) tx" and t
    by (simp add: tx_bind_def)
  note run = assms [unfolded protectedCommand_def Let_def look p option.case step lock_recorded_reads]
  show ?thesis
  proof (cases "findIdempotency ?k s")
    case (Some d)
    then show ?thesis
      using run replayed by (cases d) (auto split: option.splits response.splits bool.splits)
  next
    case None
    then show ?thesis
      using run fresh [OF p] unfolding proof_spent_def
      by (auto simp: tx_inv(1-8) tx_then_Inr tx_bind_Inr tx_guard_Inr consume_proof_def)
  qed
qed

section \<open>Calls\<close>

inductive admin_call ::
  "access_env \<Rightarrow> session_context \<Rightarrow> step_up_context \<Rightarrow> 'z admin_db_scheme \<Rightarrow> access_response res
     \<Rightarrow> 'z admin_db_scheme \<Rightarrow> bool" where
  createRole: "createRole env org xdto key reqId context stepUp s = (r, s')
    \<Longrightarrow> admin_call env context stepUp s r s'"
| createAccessGrant: "createAccessGrant env org gdto key reqId context stepUp s = (r, s')
    \<Longrightarrow> admin_call env context stepUp s r s'"
| createApprovalPolicy: "createApprovalPolicy env org pdto key reqId context stepUp s = (r, s')
    \<Longrightarrow> admin_call env context stepUp s r s'"
| createDelegation: "createDelegation env org ddto key reqId context stepUp s = (r, s')
    \<Longrightarrow> admin_call env context stepUp s r s'"

definition admin_step :: "'z admin_db_scheme \<Rightarrow> 'z admin_db_scheme \<Rightarrow> bool" where
  "admin_step s s' \<longleftrightarrow> (\<exists>env context stepUp r. admin_call env context stepUp s r s')"

text \<open>The amounts of a prepared policy: decimals with at most eight digits after the point.\<close>

definition prepared_amounts :: "prepared_policy \<Rightarrow> bool" where
  "prepared_amounts p \<longleftrightarrow> list_all (\<lambda>a. is_decimal a \<and> frac_digits a \<le> 8)
     (option_list (scope_value yk_minimumBaseAmount p) @ option_list (scope_value yk_maximumBaseAmount p))"

text \<open>The work of a call: one of the four operations on prepared arguments.\<close>

inductive admin_work ::
  "access_env \<Rightarrow> session_context \<Rightarrow> protected_command \<Rightarrow> ('z admin_db_scheme, access_response) tx \<Rightarrow> bool" where
  role_work: "admin_work env context command (createRole_work env xdto command)"
| grant_work: "admin_work env context command (createAccessGrant_work env prepared command)"
| policy_work: "prepared_amounts prepared_p \<Longrightarrow>
    admin_work env context command (createApprovalPolicy_work env prepared_p (sx_userId context) command)"
| delegation_work:
    "admin_work env context command (createDelegation_work env prepared_d (sx_userId context) command)"

lemma amount_match_Some:
  assumes "amount_match a = Some (w, f)"
  shows "w \<noteq> []" and "all_digits w" and "all_digits f" and "a = (if f = [] then w else w @ CHR ''.'' # f)"
proof -
  obtain v vs where sp: "split_on (CHR ''.'') a = v # vs" by (meson list.exhaust split_on_nonempty)
  have digits: "all_digits w" "w \<noteq> []"
    using assms by (auto simp: amount_match_def Let_def split: list.splits if_splits)
  then show "w \<noteq> []" "all_digits w" by simp_all
  show "all_digits f" "a = (if f = [] then w else w @ CHR ''.'' # f)"
    using assms sp split_on_join [OF sp]
    by (auto simp: amount_match_def Let_def split: list.splits if_splits)
qed

lemma strip_zeros_dot:
  "strip_zeros (w @ CHR ''.'' # f) = w @ CHR ''.'' # strip_zeros f"
  by (induction f rule: rev_induct) (auto simp: strip_zeros_def)

lemma strip_fraction_dot:
  assumes "all_digits f" and "f \<noteq> []"
  shows "strip_fraction (w @ CHR ''.'' # f)
    = (if strip_zeros f = [] then w else w @ CHR ''.'' # strip_zeros f)"
proof -
  have "all_digits (strip_zeros f)" using assms(1) by (rule strip_zeros_digits)
  then have "last (strip_zeros f) \<noteq> CHR ''.''" if "strip_zeros f \<noteq> []"
    using that all_digits_no_dot [of "strip_zeros f"] last_in_set by metis
  then show ?thesis by (auto simp: strip_fraction_def Let_def strip_zeros_dot butlast_append)
qed

lemma normalized_decimal:
  assumes "amount_match a = Some (w, f)"
  shows "is_decimal a" and "is_decimal (normalizeDecimal a)" and "frac_digits (normalizeDecimal a) \<le> length f"
    and "dec_rat (normalizeDecimal a) = dec_rat a"
proof -
  note m = amount_match_Some [OF assms]
  let ?g = "strip_zeros f"
  have g: "all_digits ?g" using m(3) by (rule strip_zeros_digits)
  have le: "length ?g \<le> length f" by (rule strip_zeros_length)
  have n: "normalizeDecimal a = (if ?g = [] then w else w @ CHR ''.'' # ?g)"
  proof (cases "f = []")
    case True
    then show ?thesis using m all_digits_no_dot [of w] by (simp add: normalizeDecimal_def strip_zeros_def)
  next
    case False
    then show ?thesis using m strip_fraction_dot [OF m(3) False, of w] by (simp add: normalizeDecimal_def)
  qed
  show "is_decimal a" using decimal_make(1) [OF m(1-3)] m(4) by simp
  show "is_decimal (normalizeDecimal a)" unfolding n by (rule decimal_make(1) [OF m(1,2) g])
  have "frac_digits (normalizeDecimal a) = length ?g" unfolding n by (rule decimal_make(4) [OF m(1,2) g])
  then show "frac_digits (normalizeDecimal a) \<le> length f" using le by simp
  have "(of_nat (digits_val (w @ f)) :: rat) / 10 ^ length f = of_nat (digits_val (w @ ?g)) / 10 ^ length ?g"
    using strip_zeros_val [of f] le by (simp add: digits_val_append add_divide_distrib pow10_diff)
  then show "dec_rat (normalizeDecimal a) = dec_rat a"
    unfolding n using dec_rat_make [OF m(1,2) g] dec_rat_make [OF m(1-3)] m(4) by simp
qed

lemma normalized_amount_Some:
  assumes "normalized_amount v = Inr (Some n)"
  shows "is_decimal n \<and> frac_digits n \<le> 8"
proof -
  obtain a w f where a: "amount_match a = Some (w, f)" "length f \<le> 8" "n = normalizeDecimal a"
    using assms
    by (auto simp: normalized_amount_def normalizeNonNegativeDecimal_def res_bind_def
        split: option.splits sum.splits if_splits)
  show ?thesis using normalized_decimal(2,3) [OF a(1)] a(2,3) by auto
qed

lemma prepared_policy_amounts:
  assumes "prepareApprovalPolicy dto = Inr p"
  shows "prepared_amounts p"
proof -
  have scope: "case ye_scope p of None \<Rightarrow> True | Some n \<Rightarrow> \<exists>scope. normalized_scope scope = Inr n"
    using assms by (auto simp: prepareApprovalPolicy_def res_bind_def res_guard_def Let_def
        split: sum.splits option.splits if_splits)
  have "is_decimal a \<and> frac_digits a \<le> 8"
    if "ye_scope p = Some n" "yk_minimumBaseAmount n = Some a \<or> yk_maximumBaseAmount n = Some a" for n a
  proof -
    obtain scope where "normalized_scope scope = Inr n" using scope \<open>ye_scope p = Some n\<close> by auto
    then have "normalized_amount (yk_minimumBaseAmount scope) = Inr (yk_minimumBaseAmount n)"
      "normalized_amount (yk_maximumBaseAmount scope) = Inr (yk_maximumBaseAmount n)"
      by (auto simp: normalized_scope_def res_bind_def res_guard_def split: sum.splits if_splits)
    then show ?thesis using that(2) normalized_amount_Some by metis
  qed
  then show ?thesis
    by (cases "ye_scope p") (auto simp: prepared_amounts_def scope_value_def option_list_def split: option.splits)
qed

lemma admin_call_run:
  fixes s s' :: "'z admin_db_scheme"
  assumes "admin_call env context stepUp s r s'"
  obtains (failed) e where "r = Inl e" and "s' = s"
  | (challenged) command e where "r = Inl e" and "issueStepUpChallenge env context command s = Inr ((), s')"
  | (ran) command work response where "r = Inr response" and "admin_work env context command work"
      and "pk_proofDigest command = digest (ae_env env) (sc_proofId stepUp)"
      and "protectedCommand env command work s = Inr (response, s')"
proof -
  have expected: "pk_proofDigest command = digest (ae_env env) (sc_proofId stepUp)"
    if "expected_command env op org body key reqId context stepUp = Inr command" for op org body key reqId command
    using that by (auto simp: expected_command_def res_bind_def split: sum.splits)
  have run: thesis
    if "protected env context (expected_command env op org body key reqId context stepUp) w s = (r, s')"
      "\<And>command. admin_work env context command (w command)" for op org body key reqId w
    using that(1)
  proof (cases rule: protected_run)
    case failed
    then show ?thesis using that(1) \<open>\<And>e. r = Inl e \<Longrightarrow> s' = s \<Longrightarrow> thesis\<close> by blast
  next
    case challenged
    then show ?thesis using \<open>\<And>e command. r = Inl e \<Longrightarrow> issueStepUpChallenge env context command s = Inr ((), s') \<Longrightarrow> thesis\<close> by blast
  next
    case (ran command response)
    then show ?thesis using \<open>\<And>response command work. r = Inr response \<Longrightarrow> admin_work env context command work \<Longrightarrow>
        pk_proofDigest command = digest (ae_env env) (sc_proofId stepUp) \<Longrightarrow>
        protectedCommand env command work s = Inr (response, s') \<Longrightarrow> thesis\<close> that(2) expected by metis
  qed
  show thesis
    using assms
  proof cases
    case (createRole org xdto key reqId)
    then show ?thesis
      using run [OF _ role_work] failed by (auto simp: createRole_def split: if_splits)
  next
    case (createAccessGrant org gdto key reqId)
    then show ?thesis
      using run [OF _ grant_work] failed by (auto simp: createAccessGrant_def split: if_splits sum.splits)
  next
    case (createApprovalPolicy org pdto key reqId)
    then show ?thesis
      using run [OF _ policy_work [OF prepared_policy_amounts [of pdto]]] failed
      by (auto simp: createApprovalPolicy_def res_bind_def split: if_splits sum.splits)
  next
    case (createDelegation org ddto key reqId)
    then show ?thesis
      using run [OF _ delegation_work] failed by (auto simp: createDelegation_def split: if_splits sum.splits)
  qed
qed

lemma admin_work_bookkeeping: "admin_work env context command work \<Longrightarrow> tx_keeps bookkeeping work"
  by (induction rule: admin_work.induct) (rule work_bookkeeping)+

lemma challenge_keeps:
  assumes "issueStepUpChallenge env context command s = Inr (u, s')"
  shows "bookkeeping s' = bookkeeping s" and "t_approvalPolicies s' = t_approvalPolicies s"
proof -
  have "tx_keeps bookkeeping (issueStepUpChallenge env context command)"
    "tx_keeps t_approvalPolicies (issueStepUpChallenge env context command)"
    unfolding issueStepUpChallenge_def by (intro tx_frame keeps_statements; simp add: bookkeeping_def)+
  then show "bookkeeping s' = bookkeeping s" "t_approvalPolicies s' = t_approvalPolicies s"
    using assms by (auto dest: tx_keepsD)
qed

section \<open>Spent proofs\<close>

definition tokens :: "'z access_db_scheme \<Rightarrow> str list" where
  "tokens s = map sp_tokenDigest (t_authStepUpProofs s)"

definition spent :: "str \<Rightarrow> 'z access_db_scheme \<Rightarrow> bool" where
  "spent d s \<longleftrightarrow> (\<forall>p \<in> set (t_authStepUpProofs s). sp_tokenDigest p = d \<longrightarrow> sp_consumedAt p \<noteq> None)"

lemma spent_proof:
  "tokens (proof_spent env i s) = tokens s" "spent d s \<Longrightarrow> spent d (proof_spent env i s)"
  by (auto simp: tokens_def spent_def proof_spent_def set_update_where intro: map_update_where_id)

lemma bookkeeping_tokens:
  assumes "bookkeeping s' = bookkeeping s"
  shows "tokens s' = tokens s" and "spent d s' = spent d s" and "findIdempotency k s' = findIdempotency k s"
  using assms by (auto simp: bookkeeping_def tokens_def spent_def findIdempotency_def)

lemma lock_tokens:
  "tokens (lock_recorded k s) = tokens s" "spent d (lock_recorded k s) = spent d s"
  by (simp_all add: lock_recorded_def tokens_def spent_def)

lemma ran_tokens:
  fixes s s' :: "'z admin_db_scheme"
  assumes "protectedCommand env command work s = Inr (r, s')" and "tx_keeps bookkeeping work"
  shows "tokens s' = tokens s" and "spent d s \<Longrightarrow> spent d s'"
    and "distinct (tokens s) \<Longrightarrow> core s' \<noteq> core s \<Longrightarrow> spent (pk_proofDigest command) s'"
    and "spent (pk_proofDigest command) s \<Longrightarrow> core s' = core s
      \<and> findIdempotency (command_key command) s
        = Some \<lparr>re_requestDigest = pk_bodyDigest command, re_response = Some (AccessResponse r)\<rparr>"
proof -
  have "tokens s' = tokens s \<and> (spent d s \<longrightarrow> spent d s')
    \<and> (distinct (tokens s) \<longrightarrow> core s' \<noteq> core s \<longrightarrow> spent (pk_proofDigest command) s')
    \<and> (spent (pk_proofDigest command) s \<longrightarrow> core s' = core s
      \<and> findIdempotency (command_key command) s
        = Some \<lparr>re_requestDigest = pk_bodyDigest command, re_response = Some (AccessResponse r)\<rparr>)"
    using assms(1)
  proof (cases rule: protectedCommand_run)
    case replayed
    then show ?thesis by (simp add: lock_tokens lock_recorded_reads)
  next
    case (fresh p s1 s2 s3)
    have book: "t_authStepUpProofs s3 = t_authStepUpProofs s"
      using fresh(4,6) tx_keepsD [OF assms(2) fresh(5)]
      by (auto simp: insertIdempotency_Inr saveIdempotency_Inr Let_def bookkeeping_def lock_recorded_def)
    have p: "p \<in> set (t_authStepUpProofs s)" "sp_tokenDigest p = pk_proofDigest command"
      using find_SomeD [OF fresh(1)] by (auto simp: proof_bound_def)
    have "spent (pk_proofDigest command) s'" if "distinct (tokens s)"
    proof -
      have "q = p" if "q \<in> set (t_authStepUpProofs s)" "sp_tokenDigest q = pk_proofDigest command" for q
        using key_unique [OF \<open>distinct (tokens s)\<close> [unfolded tokens_def] that(1) p(1)] that(2) p(2) by simp
      then show ?thesis unfolding fresh(7) spent_def proof_spent_def by (auto simp: set_update_where book)
    qed
    moreover have "\<not> spent (pk_proofDigest command) s" using p fresh(2) by (auto simp: spent_def)
    moreover have "tokens s' = tokens s" and "spent d s \<Longrightarrow> spent d s'"
      using spent_proof(1) [of env "sp_id p" s3] spent_proof(2) [of d s3 env "sp_id p"] book unfolding fresh(7) by (auto simp: tokens_def spent_def)
    ultimately show ?thesis by blast
  qed
  then show "tokens s' = tokens s" and "spent d s \<Longrightarrow> spent d s'"
    and "distinct (tokens s) \<Longrightarrow> core s' \<noteq> core s \<Longrightarrow> spent (pk_proofDigest command) s'"
    and "spent (pk_proofDigest command) s \<Longrightarrow> core s' = core s
      \<and> findIdempotency (command_key command) s
        = Some \<lparr>re_requestDigest = pk_bodyDigest command, re_response = Some (AccessResponse r)\<rparr>"
    by blast+
qed


lemma call_tokens:
  assumes "admin_call env context stepUp s r s'"
  shows "tokens s' = tokens s" and "spent d s \<Longrightarrow> spent d s'"
proof -
  have "tokens s' = tokens s \<and> (spent d s \<longrightarrow> spent d s')"
    using assms
  proof (cases rule: admin_call_run)
    case challenged
    then show ?thesis using bookkeeping_tokens [OF challenge_keeps(1) [OF challenged(2)]] by simp
  next
    case ran
    then show ?thesis using ran_tokens(1,2) [OF ran(4) admin_work_bookkeeping [OF ran(2)]] by blast
  qed simp
  then show "tokens s' = tokens s" "spent d s \<Longrightarrow> spent d s'" by blast+
qed

lemma steps_tokens:
  assumes "admin_step\<^sup>*\<^sup>* s s'"
  shows "tokens s' = tokens s \<and> (spent d s \<longrightarrow> spent d s')"
  using assms
proof (induction rule: rtranclp_induct)
  case (step t u)
  then show ?case using call_tokens unfolding admin_step_def by metis
qed simp

section \<open>The policies after a call\<close>

lemma step_rows_keep:
  "tx_keeps t_approvalPolicies (tx_for steps (\<lambda>step. tx_bind (randomUUID env') (\<lambda>j.
     tx_insert approval_step_check approval_step_clash approval_step_refs
       t_approvalSteps t_approvalSteps_update (policy_step_row j org i dto step))))"
  by (intro tx_frame keeps_statements) simp_all

lemma policy_work_run:
  fixes s s' :: "'z admin_db_scheme"
  assumes "createApprovalPolicy_work env dto actor command s = Inr (r, s')"
  obtains i low high where "numeric_value (scope_value yk_minimumBaseAmount dto) = Inr low"
    and "numeric_value (scope_value yk_maximumBaseAmount dto) = Inr high"
    and "approval_policy_check (policy_row env i (pk_organizationId command) dto low high)"
    and "\<And>q. q \<in> set (t_approvalPolicies s) \<Longrightarrow> ap_id q \<noteq> i"
    and "\<And>q. q \<in> set (active_policies s (pk_organizationId command) (ye_documentType dto)) \<Longrightarrow>
      \<not> ambiguousPolicyOverlap (policy_scope_of q) (policyScope dto)"
    and "t_approvalPolicies s' = t_approvalPolicies s @ [policy_row env i (pk_organizationId command) dto low high]"
proof -
  let ?org = "pk_organizationId command"
  have a: "t_approvalPolicies t' = t_approvalPolicies t"
    if "pg_advisory_xact_lock x y t = Inr (u, t')" for x y u and t t' :: "'z admin_db_scheme"
    using that by (auto simp: pg_advisory_xact_lock_def)
  have b: "t_approvalPolicies t' = t_approvalPolicies t"
    if "validateApprovalPolicyReferences env ?org dto t = Inr (u, t')" for u and t t' :: "'z admin_db_scheme"
    using that by (rule tx_keepsD [OF keeps_policy_references(1)])
  have c: "t_approvalPolicies t' = t_approvalPolicies t"
    if "security_audit env command e d t = Inr (u, t')" for e d u and t t' :: "'z admin_db_scheme"
    using that by (rule tx_keepsD [OF keeps_audit, rotated -1]) simp_all
  have d: "t_approvalPolicies t' = t_approvalPolicies t \<and> i = env_uuids (ae_env env) (uuids_drawn t)"
    if "randomUUID (ae_env env) t = Inr (i, t')" for i and t t' :: "'z admin_db_scheme"
    using that by (auto simp: randomUUID_def)
  show thesis
    using assms
    unfolding createApprovalPolicy_work_def Let_def tx_bind_Inr tx_then_Inr tx_guard_Inr tx_lift_Inr
      tx_convert_Inr tx_insert_Inr tx_read_run
    apply (elim exE conjE)
    apply (drule a, drule b, drule c, drule d, drule tx_keepsD [OF step_rows_keep])
    apply (rule that)
    apply (auto simp: active_policies_def list_ex_iff approval_policy_clash_def policy_row_def)
    done
qed

text \<open>The column holds the value of the prepared amount, so both compare alike.\<close>

definition same_value :: "str option \<Rightarrow> str option \<Rightarrow> bool" where
  "same_value a b \<longleftrightarrow> rel_option (\<lambda>x y. is_decimal x \<and> is_decimal y \<and> dec_rat x = dec_rat y) a b"

definition decimal_or_none :: "str option \<Rightarrow> bool" where
  "decimal_or_none a \<longleftrightarrow> list_all is_decimal (option_list a)"

lemma same_value_compares:
  assumes "same_value a b" and "decimal_or_none c"
  shows "below_minimum a c = below_minimum b c" and "below_minimum c a = below_minimum c b"
    and "strict_amount sign a c = strict_amount sign b c" and "strict_amount sign c a = strict_amount sign c b"
proof -
  have "below_minimum a c = below_minimum b c \<and> below_minimum c a = below_minimum c b
    \<and> strict_amount sign a c = strict_amount sign b c \<and> strict_amount sign c a = strict_amount sign c b"
  proof (cases a)
    case None
    then have "b = None" using assms(1) by (simp add: same_value_def)
    then show ?thesis using None by simp
  next
    case (Some x)
    then obtain y where y: "b = Some y" "is_decimal x" "is_decimal y" "dec_rat x = dec_rat y"
      using assms(1) by (auto simp: same_value_def option_rel_Some1)
    show ?thesis
    proof (cases c)
      case None
      then show ?thesis using Some y by (simp add: fun_eq_iff below_minimum_def strict_amount_def)
    next
      case z: (Some z)
      then have "decimalCompare x z = decimalCompare y z" "decimalCompare z x = decimalCompare z y"
        using assms(2) y by (simp_all add: decimal_or_none_def decimalCompare_rat)
      then show ?thesis using Some y(1) z by (simp add: fun_eq_iff below_minimum_def strict_amount_def)
    qed
  qed
  then show "below_minimum a c = below_minimum b c" and "below_minimum c a = below_minimum c b"
    and "strict_amount sign a c = strict_amount sign b c" and "strict_amount sign c a = strict_amount sign c b"
    by simp_all
qed

lemma ambiguous_same:
  assumes "same_value (qs_minimumBaseAmount x) (qs_minimumBaseAmount y)"
    and "same_value (qs_maximumBaseAmount x) (qs_maximumBaseAmount y)"
    and "qs_branchId x = qs_branchId y" and "qs_treasuryUnitId x = qs_treasuryUnitId y"
    and "qs_currency x = qs_currency y" and "qs_methodCategory x = qs_methodCategory y"
    and q: "decimal_or_none (qs_minimumBaseAmount q)" "decimal_or_none (qs_maximumBaseAmount q)"
  shows "ambiguousPolicyOverlap q x = ambiguousPolicyOverlap q y"
  using assms(3-6) same_value_compares [OF assms(1) q(1)] same_value_compares [OF assms(1) q(2)]
    same_value_compares [OF assms(2) q(1)] same_value_compares [OF assms(2) q(2)]
  by (simp add: ambiguousPolicyOverlap_def policyScopesOverlap_def strictlyNarrowerPolicy_def)

lemma pg_numeric_exact:
  assumes "is_decimal a" and "frac_digits a \<le> 8" and "pg_numeric 8 a = Inr m"
  shows "numeric8 m" and "is_decimal m" and "dec_rat m = dec_rat a"
proof -
  have le: "snd (decimalParts a) \<le> 8" using decimalParts_decimal(5) [OF assms(1)] assms(2) by simp
  obtain u where u: "u = fst (decimalParts a) * 10 ^ (8 - snd (decimalParts a))" by blast
  have m: "m = formatScaled u 8" and small: "\<bar>u\<bar> < 10 ^ 38"
    using assms(3) le unfolding pg_numeric_def Let_def u by (simp_all split: if_splits)
  have pos: "0 \<le> u" unfolding u using decimalParts_decimal(3) [OF assms(1)] by simp
  have val: "of_int u = dec_rat a * (10 :: rat) ^ 8"
    unfolding u rescale [OF le] decimalParts_decimal(4) [OF assms(1)] ..
  show "numeric8 m" unfolding m by (rule numeric8_formatScaled [OF small])
  show "is_decimal m" unfolding m by (rule decimal_formatScaled(1) [OF pos])
  show "dec_rat m = dec_rat a" unfolding m decimal_formatScaled(3) [OF pos] val by simp
qed

lemma numeric_value_same:
  assumes "numeric_value v = Inr n" and "list_all (\<lambda>a. is_decimal a \<and> frac_digits a \<le> 8) (option_list v)"
  shows "same_value v n" and "list_all numeric8 (option_list n)"
proof -
  have "same_value v n \<and> list_all numeric8 (option_list n)"
  proof (cases v)
    case None
    then show ?thesis using assms(1) by (simp add: numeric_value_def same_value_def)
  next
    case (Some a)
    then obtain m where m: "pg_numeric 8 a = Inr m" "n = Some m"
      using assms(1) by (auto simp: numeric_value_def res_bind_def split: sum.splits)
    have a: "is_decimal a" "frac_digits a \<le> 8" using assms(2) Some by simp_all
    show ?thesis
      using pg_numeric_exact [OF a m(1)] a(1) by (simp add: same_value_def Some m(2))
  qed
  then show "same_value v n" "list_all numeric8 (option_list n)" by simp_all
qed

lemma valid_decimals:
  "policy_row_valid r \<Longrightarrow> decimal_or_none (ap_minimumBaseAmount r)"
  "policy_row_valid r \<Longrightarrow> decimal_or_none (ap_maximumBaseAmount r)"
  by (auto simp: decimal_or_none_def option_list_def valid_amounts split: option.splits)

lemma policy_work_unambiguous:
  fixes s s' :: "'z admin_db_scheme"
  assumes "createApprovalPolicy_work env dto actor command s = Inr (r, s')"
    and "prepared_amounts dto" and "policies_unambiguous s"
  shows "policies_unambiguous s'"
  using assms(1)
proof (cases rule: policy_work_run)
  case (1 i low high)
  let ?row = "policy_row env i (pk_organizationId command) dto low high"
  have low: "same_value (scope_value yk_minimumBaseAmount dto) low" "list_all numeric8 (option_list low)"
    using numeric_value_same [OF 1(1)] assms(2) by (simp_all add: prepared_amounts_def)
  have high: "same_value (scope_value yk_maximumBaseAmount dto) high" "list_all numeric8 (option_list high)"
    using numeric_value_same [OF 1(2)] assms(2) by (simp_all add: prepared_amounts_def)
  have valid: "policy_row_valid ?row"
    using 1(3) low(2) high(2) by (simp add: policy_row_valid_def policy_row_def)
  have alone: "\<not> ambiguousPolicyOverlap (policy_scope_of q) (policy_scope_of ?row)"
    if q: "q \<in> set (t_approvalPolicies s)" "rivals q ?row" for q
  proof -
    have "q \<in> set (active_policies s (pk_organizationId command) (ye_documentType dto))"
      using q by (simp add: active_policies_def rivals_def policy_row_def)
    then have "\<not> ambiguousPolicyOverlap (policy_scope_of q) (policyScope dto)" by (rule 1(5))
    moreover have "ambiguousPolicyOverlap (policy_scope_of q) (policyScope dto)
        = ambiguousPolicyOverlap (policy_scope_of q) (policy_scope_of ?row)"
      using q(1) assms(3) low(1) high(1) valid_decimals
      by (intro ambiguous_same) (auto simp: policyScope_def policy_scope_of_def policy_row_def policies_unambiguous_def)
    ultimately show ?thesis by simp
  qed
  have mirrored: "\<not> ambiguousPolicyOverlap (policy_scope_of ?row) (policy_scope_of q)"
    if q: "q \<in> set (t_approvalPolicies s)" "rivals ?row q" for q
    unfolding ambiguous_sym [of "policy_scope_of ?row"] by (rule alone) (use q in \<open>auto simp: rivals_def\<close>)
  have id: "ap_id ?row = i" by (simp add: policy_row_def)
  have rows: "set (t_approvalPolicies s') = insert ?row (set (t_approvalPolicies s))" by (simp add: 1(6))
  have "distinct (map ap_id (t_approvalPolicies s'))"
    using assms(3) 1(4) unfolding policies_unambiguous_def 1(6) by (auto simp: id)
  moreover have "\<forall>q \<in> set (t_approvalPolicies s'). policy_row_valid q"
    using assms(3) valid unfolding policies_unambiguous_def rows by blast
  moreover have "\<forall>q \<in> set (t_approvalPolicies s'). \<forall>q' \<in> set (t_approvalPolicies s'). ap_id q \<noteq> ap_id q' \<longrightarrow>
      rivals q q' \<longrightarrow> \<not> ambiguousPolicyOverlap (policy_scope_of q) (policy_scope_of q')"
    using assms(3) alone mirrored unfolding policies_unambiguous_def rows by blast
  ultimately show ?thesis unfolding policies_unambiguous_def by blast
qed

lemma keeps_unambiguous:
  "t_approvalPolicies s' = t_approvalPolicies s \<Longrightarrow> policies_unambiguous s \<Longrightarrow> policies_unambiguous s'"
  by (simp add: policies_unambiguous_def)

lemma call_unambiguous:
  fixes s s' :: "'z admin_db_scheme"
  assumes "admin_call env context stepUp s r s'" and "policies_unambiguous s"
  shows "policies_unambiguous s'"
  using assms(1)
proof (cases rule: admin_call_run)
  case challenged
  then show ?thesis using challenge_keeps(2) [OF challenged(2)] assms(2) keeps_unambiguous by blast
next
  case (ran command work response)
  show ?thesis
    using ran(4)
  proof (cases rule: protectedCommand_run)
    case replayed
    then show ?thesis using assms(2) by (intro keeps_unambiguous [OF _ assms(2)]) (simp add: lock_recorded_def)
  next
    case (fresh p s1 s2 s3)
    have "t_approvalPolicies s1 = t_approvalPolicies s"
      using fresh(4) by (auto simp: insertIdempotency_Inr Let_def lock_recorded_def)
    then have s1: "policies_unambiguous s1" using assms(2) by (rule keeps_unambiguous)
    have s2: "policies_unambiguous s2"
      using ran(2)
    proof cases
      case (policy_work prepared)
      then show ?thesis using fresh(5) s1 policy_work_unambiguous by metis
    qed (use fresh(5) s1 in \<open>auto intro: keeps_unambiguous [OF tx_keepsD [OF work_policies(1)]]
      keeps_unambiguous [OF tx_keepsD [OF work_policies(2)]] keeps_unambiguous [OF tx_keepsD [OF work_policies(3)]]\<close>)
    have "t_approvalPolicies s' = t_approvalPolicies s2"
      using fresh(6) unfolding fresh(7) by (auto simp: saveIdempotency_Inr proof_spent_def)
    then show ?thesis using s2 by (rule keeps_unambiguous)
  qed
qed (simp add: assms(2))

end
