(* ===== verification/Grant_Facts.thy ===== *)
theory Grant_Facts
  imports Administration
begin

text \<open>
  The library behind the property of \<open>createAccessGrant\<close>: what a new grant's rows are, and that a
  grant contained in another, by the comparison of \<open>access-admin.service.ts\<close>, never covers a
  payment the other does not cover.
\<close>

section \<open>Amounts with a fraction\<close>

lemma strip_fraction_rat:
  assumes "is_decimal a" and "frac_digits a \<noteq> 0"
  shows "is_decimal (strip_fraction a)" and "dec_rat (strip_fraction a) = dec_rat a"
proof -
  obtain w f where wf: "w \<noteq> []" "all_digits w" "all_digits f"
    and a: "a = (if f = [] then w else w @ CHR ''.'' # f)" "fraction_part a = f"
    using assms(1) by (rule is_decimalE)
  have f: "f \<noteq> []" using assms(2) a(2) by (auto simp: frac_digits_def)
  let ?g = "strip_zeros f"
  have g: "all_digits ?g" using wf(3) by (rule strip_zeros_digits)
  have n: "strip_fraction a = (if ?g = [] then w else w @ CHR ''.'' # ?g)"
    using strip_fraction_dot [OF wf(3) f] a(1) f by simp
  show "is_decimal (strip_fraction a)" unfolding n by (rule decimal_make(1) [OF wf(1,2) g])
  have "(of_nat (digits_val (w @ f)) :: rat) / 10 ^ length f = of_nat (digits_val (w @ ?g)) / 10 ^ length ?g"
    using strip_zeros_val [of f] strip_zeros_length [of f] by (simp add: digits_val_append add_divide_distrib pow10_diff)
  then show "dec_rat (strip_fraction a) = dec_rat a"
    unfolding n using dec_rat_make [OF wf(1,2) g] dec_rat_make [OF wf] a(1) by simp
qed

text \<open>A grant as the database keeps it: its checks, and a ceiling as \<open>numeric(38,8)\<close> holds it.\<close>

definition grant_row_valid :: "access_grant_row \<Rightarrow> bool" where
  "grant_row_valid r \<longleftrightarrow> access_grant_check r \<and> list_all numeric8 (option_list (ag_amountCeiling r))"

lemma valid_ceiling:
  assumes "grant_row_valid r" and "ag_amountCeiling r = Some c"
  shows "is_decimal c" and "frac_digits c = 8" and "\<exists>y. ag_amountCeilingCurrency r = Some y"
proof -
  have c: "numeric8 c" "0 \<le> fst (decimalParts c)"
    using assms by (auto simp: grant_row_valid_def access_grant_check_def numeric_pos_def)
  show "is_decimal c" "frac_digits c = 8" using numeric8_decimal [OF c] by simp_all
  show "\<exists>y. ag_amountCeilingCurrency r = Some y"
    using assms by (auto simp: grant_row_valid_def access_grant_check_def)
qed

section \<open>The rows of a new grant\<close>

interpretation branch_scopes: table t_accessGrantBranchScopes t_accessGrantBranchScopes_update
  by unfold_locales simp_all

interpretation unit_scopes: table t_accessGrantTreasuryUnitScopes t_accessGrantTreasuryUnitScopes_update
  by unfold_locales simp_all

interpretation cashbox_scopes: table t_accessGrantCashboxScopes t_accessGrantCashboxScopes_update
  by unfold_locales simp_all

interpretation account_scopes: table t_accessGrantBankAccountScopes t_accessGrantBankAccountScopes_update
  by unfold_locales simp_all

interpretation document_scopes: table t_accessGrantDocumentTypeScopes t_accessGrantDocumentTypeScopes_update
  by unfold_locales simp_all

interpretation method_scopes: table t_accessGrantMethodCategoryScopes t_accessGrantMethodCategoryScopes_update
  by unfold_locales simp_all

interpretation currency_scopes: table t_accessGrantCurrencyScopes t_accessGrantCurrencyScopes_update
  by unfold_locales simp_all

lemmas scope_inserts = branch_scopes.inserts_Inr(1) unit_scopes.inserts_Inr(1)
  cashbox_scopes.inserts_Inr(1) account_scopes.inserts_Inr(1) document_scopes.inserts_Inr(1)
  method_scopes.inserts_Inr(1) currency_scopes.inserts_Inr(1)

text \<open>No scope row names a grant that does not exist, as its foreign key demands.\<close>

definition scopes_known :: "'z access_db_scheme \<Rightarrow> bool" where
  "scopes_known s \<longleftrightarrow> (\<forall>r \<in> set (t_accessGrantBranchScopes s). grant_known s (gb_accessGrantId r))
     \<and> (\<forall>r \<in> set (t_accessGrantTreasuryUnitScopes s). grant_known s (gu_accessGrantId r))
     \<and> (\<forall>r \<in> set (t_accessGrantCashboxScopes s). grant_known s (gc_accessGrantId r))
     \<and> (\<forall>r \<in> set (t_accessGrantBankAccountScopes s). grant_known s (ga_accessGrantId r))
     \<and> (\<forall>r \<in> set (t_accessGrantDocumentTypeScopes s). grant_known s (gd_accessGrantId r))
     \<and> (\<forall>r \<in> set (t_accessGrantMethodCategoryScopes s). grant_known s (gm_accessGrantId r))
     \<and> (\<forall>r \<in> set (t_accessGrantCurrencyScopes s). grant_known s (gy_accessGrantId r))"

definition scope_tables where
  "scope_tables s = (t_accessGrantBranchScopes s, t_accessGrantTreasuryUnitScopes s,
     t_accessGrantCashboxScopes s, t_accessGrantBankAccountScopes s,
     t_accessGrantDocumentTypeScopes s, t_accessGrantMethodCategoryScopes s,
     t_accessGrantCurrencyScopes s)"

text \<open>The lists of a scope as sets, which is all that a cover looks at.\<close>

definition scope_lists :: "'z access_db_scheme \<Rightarrow> uuid \<Rightarrow> str set list" where
  "scope_lists s i = map set [branch_scope s i, unit_scope s i, cashbox_scope s i, account_scope s i,
     document_scope s i, method_scope s i, currency_scope s i]"

definition wanted_lists :: "canonical_scope \<Rightarrow> str set list" where
  "wanted_lists scope = map set [sk_branchIds scope, sk_treasuryUnitIds scope, sk_cashboxIds scope,
     sk_bankAccountIds scope, sk_documentTypes scope, sk_methodCategories scope, sk_currencies scope]"

lemma scope_lists_tables: "scope_tables s' = scope_tables s \<Longrightarrow> scope_lists s' i = scope_lists s i"
  by (simp add: scope_tables_def scope_lists_def branch_scope_def unit_scope_def cashbox_scope_def
    account_scope_def document_scope_def method_scope_def currency_scope_def)

lemma insertScopes_run:
  assumes "insertScopes org i scope s = Inr (u, s')"
    and "scopes_known s0" and "\<not> grant_known s0 i" and "scope_tables s = scope_tables s0"
  shows "scope_lists s' i = wanted_lists scope" and "t_accessGrants s' = t_accessGrants s"
proof -
  have none: "\<forall>r \<in> set (t_accessGrantBranchScopes s). gb_accessGrantId r \<noteq> i"
    "\<forall>r \<in> set (t_accessGrantTreasuryUnitScopes s). gu_accessGrantId r \<noteq> i"
    "\<forall>r \<in> set (t_accessGrantCashboxScopes s). gc_accessGrantId r \<noteq> i"
    "\<forall>r \<in> set (t_accessGrantBankAccountScopes s). ga_accessGrantId r \<noteq> i"
    "\<forall>r \<in> set (t_accessGrantDocumentTypeScopes s). gd_accessGrantId r \<noteq> i"
    "\<forall>r \<in> set (t_accessGrantMethodCategoryScopes s). gm_accessGrantId r \<noteq> i"
    "\<forall>r \<in> set (t_accessGrantCurrencyScopes s). gy_accessGrantId r \<noteq> i"
    using assms(2-4) by (auto simp: scopes_known_def scope_tables_def)
  show "t_accessGrants s' = t_accessGrants s"
    by (rule tx_keepsD [OF keeps_scopes assms(1)]) simp_all
  obtain s1 s2 s3 s4 s5 s6 where runs:
    "s1 = t_accessGrantBranchScopes_update (\<lambda>rows. rows @ map (\<lambda>v. \<lparr>gb_accessGrantId = i, gb_branchId = v\<rparr>) (sk_branchIds scope)) s"
    "s2 = t_accessGrantTreasuryUnitScopes_update (\<lambda>rows. rows @ map (\<lambda>v. \<lparr>gu_accessGrantId = i, gu_treasuryUnitId = v\<rparr>) (sk_treasuryUnitIds scope)) s1"
    "s3 = t_accessGrantCashboxScopes_update (\<lambda>rows. rows @ map (\<lambda>v. \<lparr>gc_accessGrantId = i, gc_cashboxId = v\<rparr>) (sk_cashboxIds scope)) s2"
    "s4 = t_accessGrantBankAccountScopes_update (\<lambda>rows. rows @ map (\<lambda>v. \<lparr>ga_accessGrantId = i, ga_bankAccountId = v\<rparr>) (sk_bankAccountIds scope)) s3"
    "s5 = t_accessGrantDocumentTypeScopes_update (\<lambda>rows. rows @ map (\<lambda>v. \<lparr>gd_accessGrantId = i, gd_documentType = v\<rparr>) (sk_documentTypes scope)) s4"
    "s6 = t_accessGrantMethodCategoryScopes_update (\<lambda>rows. rows @ map (\<lambda>v. \<lparr>gm_accessGrantId = i, gm_methodCategory = v\<rparr>) (sk_methodCategories scope)) s5"
    "s' = t_accessGrantCurrencyScopes_update (\<lambda>rows. rows @ map (\<lambda>v. \<lparr>gy_accessGrantId = i, gy_organizationId = org, gy_currency = v\<rparr>) (sk_currencies scope)) s6"
    using assms(1) unfolding insertScopes_def tx_then_Inr
    by (elim exE conjE) (drule scope_inserts, drule scope_inserts, drule scope_inserts, drule scope_inserts,
      drule scope_inserts, drule scope_inserts, drule scope_inserts, blast)
  show "scope_lists s' i = wanted_lists scope"
    using none unfolding runs
    by (auto simp: scope_lists_def wanted_lists_def branch_scope_def unit_scope_def cashbox_scope_def
      account_scope_def document_scope_def method_scope_def currency_scope_def image_image)
qed


section \<open>Containment\<close>

lemma covers_set: "covers xs vs \<longleftrightarrow> set xs = {} \<or> vs \<noteq> [] \<and> set vs \<subseteq> set xs"
  by (auto simp: scope_holds_def)

lemma contains_set: "containsValues xs ys \<longleftrightarrow> set xs = {} \<or> set ys \<noteq> {} \<and> set ys \<subseteq> set xs"
  by (auto simp: containsValues_def list_all_iff)

lemma contained_values:
  "containsValues xs ys \<Longrightarrow> set zs = set ys \<Longrightarrow> covers zs vs \<Longrightarrow> covers xs vs"
  by (auto simp: scope_holds_def contains_set)

text \<open>The prepared ceiling: none, or a decimal of at most eight digits after the point.\<close>

definition prepared_ceiling :: "prepared_grant \<Rightarrow> bool" where
  "prepared_ceiling p \<longleftrightarrow> list_all (\<lambda>c. is_decimal (my_amount c) \<and> frac_digits (my_amount c) \<le> 8)
     (option_list (sk_amountCeiling (pz_scope p)))"

lemma canonicalScope_Inr:
  assumes "canonicalScope scope = Inr c"
  shows "sk_amountCeiling c = map_option (\<lambda>m. \<lparr>my_amount = normalizeDecimal (my_amount m),
      my_currency = my_currency m\<rparr>) (dto_field zk_amountCeiling scope)"
    and "sk_currencies c = sorted_values (dto_field zk_currencies scope)"
    and "supplied_ok (dto_field zk_currencies scope)"
    and "case scope of None \<Rightarrow> True | Some d \<Rightarrow> ceiling_ok d"
  using assms
  by (auto simp: canonicalScope_def Let_def res_bind_def res_guard_def split: sum.splits if_splits)

lemma prepareGrant_scope: "prepareGrant env now dto = Inr p \<Longrightarrow> canonicalScope (xg_scope dto) = Inr (pz_scope p)"
  by (auto simp: prepareGrant_def res_bind_def res_guard_def split: sum.splits if_splits option.splits)

lemma prepareGrant_ceiling:
  assumes "prepareGrant env now dto = Inr p"
  shows "prepared_ceiling p"
proof (cases "dto_field zk_amountCeiling (xg_scope dto)")
  note scope = canonicalScope_Inr [OF prepareGrant_scope [OF assms]]
  case None
  then show ?thesis by (simp add: prepared_ceiling_def scope)
next
  note scope = canonicalScope_Inr [OF prepareGrant_scope [OF assms]]
  case (Some c)
  then obtain d where "xg_scope dto = Some d" "zk_amountCeiling d = Some c"
    by (auto simp: dto_field_def bind_eq_Some_conv)
  then obtain w f where m: "amount_match (my_amount c) = Some (w, f)" "length f \<le> 8"
    using scope(4) by (auto simp: ceiling_ok_def representableAmount_def split: option.splits)
  show ?thesis using normalized_decimal(2,3) [OF m(1)] m(2) Some by (simp add: prepared_ceiling_def scope)
qed

text \<open>A body names its currencies when a ceiling never comes without a list of currencies.\<close>

definition names_currencies :: "access_grant_create \<Rightarrow> bool" where
  "names_currencies dto \<longleftrightarrow>
     dto_field zk_amountCeiling (xg_scope dto) = None \<or> dto_field zk_currencies (xg_scope dto) \<noteq> None"

lemma prepareGrant_named:
  assumes "prepareGrant env now dto = Inr p" and "names_currencies dto"
  shows "sk_amountCeiling (pz_scope p) = None \<or> sk_currencies (pz_scope p) \<noteq> []"
proof -
  note scope = canonicalScope_Inr [OF prepareGrant_scope [OF assms(1)]]
  have "set (sk_currencies (pz_scope p)) \<noteq> {}" if "dto_field zk_currencies (xg_scope dto) = Some ys" for ys
    using scope(2,3) that by (simp add: supplied_ok_def sorted_values_def)
  then show ?thesis using assms(2) scope(1) by (auto simp: names_currencies_def)
qed

lemma contained_covers:
  assumes "grantContains (row_authorization s src) (prepared_authorization p)"
    and src: "grant_row_valid src" "scope_mode_ok s src"
    and lists: "scope_lists s' i = wanted_lists (pz_scope p)"
    and ceiling: "prepared_ceiling p"
      "numeric_value (map_option my_amount (sk_amountCeiling (pz_scope p))) = Inr limit"
    and named: "sk_amountCeiling (pz_scope p) = None \<or> sk_currencies (pz_scope p) \<noteq> []"
    and covered: "grant_covers profile ctx (own_grant s' (grant_row env i org p limit))"
  shows "grant_covers profile ctx (own_grant s src)"
proof (cases "ag_organizationWide src")
  case True
  then have "ag_amountCeiling src = None" "branch_scope s (ag_id src) = []" "unit_scope s (ag_id src) = []"
    "cashbox_scope s (ag_id src) = []" "account_scope s (ag_id src) = []" "document_scope s (ag_id src) = []"
    "method_scope s (ag_id src) = []" "currency_scope s (ag_id src) = []"
    using src(2) by (auto simp: scope_mode_ok_def Let_def)
  then show ?thesis by (simp add: grant_covers_def own_grant_def scope_holds_def ceiling_allows_def)
next
  case False
  let ?a = "loaded_scope s src" and ?b = "pz_scope p"
  have contains: "containsValues (sk_branchIds ?a) (sk_branchIds ?b)"
    "containsValues (sk_treasuryUnitIds ?a) (sk_treasuryUnitIds ?b)"
    "containsValues (sk_cashboxIds ?a) (sk_cashboxIds ?b)"
    "containsValues (sk_bankAccountIds ?a) (sk_bankAccountIds ?b)"
    "containsValues (sk_documentTypes ?a) (sk_documentTypes ?b)"
    "containsValues (sk_methodCategories ?a) (sk_methodCategories ?b)"
    "containsValues (effectiveCurrencies ?a) (effectiveCurrencies ?b)"
    "ceiling_contains (sk_amountCeiling ?a) (sk_amountCeiling ?b)"
    using assms(1) False
    by (auto simp: grantContains_def row_authorization_def prepared_authorization_def Let_def split: if_splits)
  have sets: "set (branch_scope s' i) = set (sk_branchIds ?b)" "set (unit_scope s' i) = set (sk_treasuryUnitIds ?b)"
    "set (cashbox_scope s' i) = set (sk_cashboxIds ?b)" "set (account_scope s' i) = set (sk_bankAccountIds ?b)"
    "set (document_scope s' i) = set (sk_documentTypes ?b)" "set (method_scope s' i) = set (sk_methodCategories ?b)"
    "set (currency_scope s' i) = set (sk_currencies ?b)"
    using lists by (simp_all add: scope_lists_def wanted_lists_def)
  have currencies: "containsValues (sk_currencies ?a) (sk_currencies ?b)"
    using contains(7) named
    by (auto simp: containsValues_def effectiveCurrencies_def split: if_splits)
  have money: "ceiling_allows (own_grant s src) m y"
    if allowed: "ceiling_allows (own_grant s' (grant_row env i org p limit)) m y" for m y
  proof (cases "ag_amountCeiling src")
    case None
    then show ?thesis by (simp add: ceiling_allows_def own_grant_def)
  next
    case (Some c)
    obtain y' where y': "ag_amountCeilingCurrency src = Some y'" using valid_ceiling(3) [OF src(1) Some] by blast
    have c: "is_decimal c" "frac_digits c = 8" using valid_ceiling [OF src(1) Some] by simp_all
    have strip: "is_decimal (strip_fraction c)" "dec_rat (strip_fraction c) = dec_rat c"
      using strip_fraction_rat [OF c(1)] c(2) by simp_all
    obtain d where d: "sk_amountCeiling ?b = Some d" "my_currency d = y'"
      "grantCompareDecimal (my_amount d) (strip_fraction c) \<le> 0"
      using contains(8) Some y' by (auto simp: loaded_scope_def row_ceiling_def ceiling_contains_def split: option.splits)
    have da: "is_decimal (my_amount d)" "frac_digits (my_amount d) \<le> 8"
      using ceiling(1) d(1) by (simp_all add: prepared_ceiling_def)
    obtain l where l: "limit = Some l" "pg_numeric 8 (my_amount d) = Inr l"
      using ceiling(2) d(1) by (auto simp: numeric_value_def res_bind_def split: sum.splits)
    note exact = pg_numeric_exact [OF da l(2)]
    have "0 \<le> fst (decimalParts l)" by (rule decimalParts_decimal(3) [OF exact(2)])
    then have frac: "frac_digits l = 8" using numeric8_decimal(2) [OF exact(1)] by blast
    have "dec_rat l \<le> dec_rat c"
      using d(3) decimalCompare_rat [OF da(1) strip(1)] exact(3) strip(2)
      by (auto simp: grantCompareDecimal_def split: if_splits)
    then have "decimal12 l \<le> decimal12 c"
      using fixed12.reading_le_iff [OF exact(2) _ c(1)] frac c(2) by simp
    then show ?thesis
      using allowed Some y' d(1,2) l(1) by (simp add: ceiling_allows_def own_grant_def grant_row_def)
  qed
  show ?thesis
    using covered money contained_values [OF contains(1) sets(1)] contained_values [OF contains(2) sets(2)]
      contained_values [OF contains(3) sets(3)] contained_values [OF contains(4) sets(4)]
      contained_values [OF contains(5) sets(5)] contained_values [OF contains(6) sets(6)]
      contained_values [OF currencies sets(7)]
    by (auto simp: grant_covers_def own_grant_def grant_row_def loaded_scope_def)
qed

section \<open>A run of the command\<close>

definition grant_tables where
  "grant_tables s = (t_accessGrants s, scope_tables s)"

lemma grant_work_run:
  fixes s s' :: "'z admin_db_scheme"
  assumes "createAccessGrant_work env dto command s = Inr (r, s')" and "scopes_known s"
  obtains i limit where "numeric_value (map_option my_amount (sk_amountCeiling (pz_scope dto))) = Inr limit"
    and "t_accessGrants s' = t_accessGrants s @ [grant_row env i (pk_organizationId command) dto limit]"
    and "\<not> grant_known s i" and "scope_lists s' i = wanted_lists (pz_scope dto)"
    and "access_grant_check (grant_row env i (pk_organizationId command) dto limit)"
    and "r = GrantResponse (grantView (grant_row env i (pk_organizationId command) dto limit) (pz_scope dto))"
proof -
  let ?org = "pk_organizationId command"
  let ?ag = "\<lambda>i limit. grant_row env i ?org dto limit"
  obtain t0 t1 t2 t3 t4 u0 u1 u2 u3 account i limit details where
    lock: "pg_advisory_xact_lock ?org (''access-grant:'' @ pz_userId dto @ '':'' @ pz_roleId dto) s = Inr (u0, t0)"
    and target: "grant_target dto ?org t0 = Inr (account, t1)"
    and refs: "validateScopeReferences ?org (pz_scope dto) t1 = Inr (u1, t2)"
    and uuid: "randomUUID (ae_env env) t2 = Inr (i, t3)"
    and limit: "numeric_value (map_option my_amount (sk_amountCeiling (pz_scope dto))) = Inr limit"
    and check: "access_grant_check (?ag i limit)"
    and fresh: "\<forall>g \<in> set (t_accessGrants t3). \<not> access_grant_clash (?ag i limit) g"
    and scopes: "insertScopes ?org i (pz_scope dto) (t_accessGrants_update (\<lambda>rows. rows @ [?ag i limit]) t3) = Inr (u2, t4)"
    and audit: "security_audit env command ''ACCESS_GRANT_CREATED'' details
      (t_identityAccounts_update (update_where (\<lambda>a. ia_id a = ia_id account)
        (\<lambda>a. a\<lparr>ia_authorizationEpoch := ia_authorizationEpoch a + 1, ia_version := ia_version a + 1\<rparr>)) t4) = Inr (u3, s')"
    and r: "r = GrantResponse (grantView (?ag i limit) (pz_scope dto))"
    using assms(1)
    unfolding createAccessGrant_work_def Let_def tx_then_Inr tx_bind_Inr tx_read_run tx_guard_Inr tx_lift_Inr
      tx_insert_Inr tx_write_run tx_return_Inr
    by (elim exE conjE) (simp; elim exE conjE; rule that; assumption)
  have "grant_tables t0 = grant_tables s"
    using lock by (auto simp: pg_advisory_xact_lock_def grant_tables_def scope_tables_def)
  moreover have "grant_tables t1 = grant_tables t0" by (rule tx_keepsD [OF keeps_validations(4) target])
  moreover have "grant_tables t2 = grant_tables t1" by (rule tx_keepsD [OF keeps_validations(1) refs])
  moreover have "grant_tables t3 = grant_tables t2"
    using uuid by (auto simp: randomUUID_def grant_tables_def scope_tables_def)
  ultimately have t3: "t_accessGrants t3 = t_accessGrants s" "scope_tables t3 = scope_tables s"
    by (simp_all add: grant_tables_def)
  have new: "\<not> grant_known s i"
    using fresh by (auto simp: t3 grant_known_def access_grant_clash_def grant_row_def)
  have "grant_tables s' = grant_tables t4"
    using tx_keepsD [OF keeps_audit audit, of grant_tables] by (simp add: grant_tables_def scope_tables_def)
  then have last: "t_accessGrants s' = t_accessGrants t4" "scope_tables s' = scope_tables t4"
    by (simp_all add: grant_tables_def)
  have "scope_tables (t_accessGrants_update (\<lambda>rows. rows @ [?ag i limit]) t3) = scope_tables s"
    using t3(2) by (simp add: scope_tables_def)
  note run = insertScopes_run [OF scopes assms(2) new this]
  have "t_accessGrants s' = t_accessGrants s @ [?ag i limit]" using run(2) by (simp add: last t3)
  moreover have "scope_lists s' i = wanted_lists (pz_scope dto)"
    using run(1) scope_lists_tables [OF last(2)] by simp
  ultimately show thesis using that limit new check r by blast
qed


text \<open>What a call that added a grant has prepared, checked and written.\<close>

lemma granted:
  fixes s s' :: "'z admin_db_scheme"
  assumes run: "createAccessGrant env org dto key reqId context stepUp s = (Inr r, s')"
    and changed: "t_accessGrants s' \<noteq> t_accessGrants s" and known: "scopes_known s"
  obtains p owner i limit where "prepareGrant env (env_clock (ae_env env) (clock_reads s)) dto = Inr p"
    and "list_ex (\<lambda>source. grantContains source (prepared_authorization p))
      (permissionGrants env s org (sx_userId context) ''access-grant.manage'')"
    and "numeric_value (map_option my_amount (sk_amountCeiling (pz_scope p))) = Inr limit"
    and "t_accessGrants s' = t_accessGrants s @ [grant_row env i owner p limit]"
    and "scope_lists s' i = wanted_lists (pz_scope p)"
proof -
  obtain p where p: "prepareGrant env (env_clock (ae_env env) (clock_reads s)) dto = Inr p"
    and source: "list_ex (\<lambda>source. grantContains source (prepared_authorization p))
      (permissionGrants env s org (sx_userId context) ''access-grant.manage'')"
    and call: "protected env context (expected_command env ''createAccessGrant'' org (xg_body dto) key reqId context stepUp)
      (createAccessGrant_work env p) s = (Inr r, s')"
    using run by (auto simp: createAccessGrant_def res_bind_def split: sum.splits if_splits)
  obtain command where "protectedCommand env command (createAccessGrant_work env p command) s = Inr (r, s')"
    using call by (cases rule: protected_run) auto
  then show thesis
  proof (cases rule: protectedCommand_run)
    case replayed
    then show ?thesis using changed by (simp add: lock_recorded_def)
  next
    case (fresh q s1 s2 s3)
    have before: "t_accessGrants s1 = t_accessGrants s" "scope_tables s1 = scope_tables s"
      using fresh(4) by (auto simp: insertIdempotency_Inr Let_def lock_recorded_def scope_tables_def)
    have after: "t_accessGrants s' = t_accessGrants s2" "scope_tables s' = scope_tables s2"
      using fresh(6) unfolding fresh(7) by (auto simp: saveIdempotency_Inr proof_spent_def scope_tables_def)
    have "scopes_known s1"
      using known before by (simp add: scopes_known_def grant_known_def scope_tables_def)
    from grant_work_run [OF fresh(5) this] obtain i limit where
      "numeric_value (map_option my_amount (sk_amountCeiling (pz_scope p))) = Inr limit"
      "t_accessGrants s2 = t_accessGrants s1 @ [grant_row env i (pk_organizationId command) p limit]"
      "scope_lists s2 i = wanted_lists (pz_scope p)" by metis
    then show ?thesis
      using that [OF p source, of limit i "pk_organizationId command"] before(1) after scope_lists_tables [OF after(2)] by simp
  qed
qed

end
