(* ===== verification/Delegation_Facts.thy ===== *)
theory Delegation_Facts
  imports Grant_Facts
begin

text \<open>
  The library behind the property of \<open>createDelegation\<close>: the comparison of
  \<open>access-admin.repository.ts\<close> that admits a delegation, against the conditions of
  \<open>delegation_is_current\<close> in migration 0025 under which it is used.
\<close>

section \<open>The dimensions of a delegation\<close>

lemma strict_dimensions_Some:
  assumes "strict_dimensions ds b = Some b'"
  shows "\<forall>(allowed, v) \<in> set ds. within_scope allowed v"
    and "b' \<longleftrightarrow> b \<or> (\<exists>(allowed, v) \<in> set ds. narrows_scope allowed v)"
proof -
  have "(\<forall>(allowed, v) \<in> set ds. within_scope allowed v)
    \<and> (b' \<longleftrightarrow> b \<or> (\<exists>(allowed, v) \<in> set ds. narrows_scope allowed v))"
    using assms
  proof (induction ds b rule: strict_dimensions.induct)
    case (3 allowed selected rest strict)
    have "allowed = [] \<or> 1 < length allowed \<longleftrightarrow> length allowed \<noteq> 1"
      by (cases allowed) auto
    then show ?case using 3 by (auto simp: within_scope_def narrows_scope_def split: if_splits)
  qed (auto simp: within_scope_def narrows_scope_def)
  then show "\<forall>(allowed, v) \<in> set ds. within_scope allowed v"
    "b' \<longleftrightarrow> b \<or> (\<exists>(allowed, v) \<in> set ds. narrows_scope allowed v)" by blast+
qed

text \<open>The currency of a delegation is named when its ceiling does not stand for it.\<close>

definition delegation_names :: "delegation_scope_dto \<Rightarrow> bool" where
  "delegation_names d \<longleftrightarrow> dk_amountCeiling d = None \<or> dk_currency d \<noteq> None"

text \<open>A prepared delegation: its ceiling is a decimal in the currency it names.\<close>

definition delegation_prepared :: "delegation_scope_dto \<Rightarrow> bool" where
  "delegation_prepared d \<longleftrightarrow> (case dk_amountCeiling d of None \<Rightarrow> True
     | Some c \<Rightarrow> is_decimal (my_amount c) \<and> frac_digits (my_amount c) \<le> 8
         \<and> (case dk_currency d of None \<Rightarrow> True | Some y \<Rightarrow> my_currency c = y))"

lemma prepareDelegation_Inr:
  assumes "prepareDelegation env now dto = Inr p"
  shows "delegation_prepared (dp_scope p)" and "dp_delegateUserId p = dq_delegateUserId dto"
    and "delegation_names (dq_scope dto) \<Longrightarrow> delegation_names (dp_scope p)"
proof -
  let ?scope = "dq_scope dto"
  obtain ceiling where c: "normalized_ceiling (dk_amountCeiling ?scope) = Inr ceiling"
    and scope: "dp_scope p = ?scope\<lparr>dk_amountCeiling := ceiling\<rparr>"
    and delegate: "dp_delegateUserId p = dq_delegateUserId dto"
    and same: "case (dk_amountCeiling ?scope, dk_currency ?scope) of (Some c, Some y) \<Rightarrow> my_currency c = y | _ \<Rightarrow> True"
    using assms by (auto simp: prepareDelegation_def Let_def res_bind_def res_guard_def
        split: option.splits sum.splits if_splits)
  show "dp_delegateUserId p = dq_delegateUserId dto" by (rule delegate)
  have none: "ceiling = None \<longleftrightarrow> dk_amountCeiling ?scope = None"
    using c by (auto simp: normalized_ceiling_def res_bind_def split: option.splits sum.splits)
  show "delegation_names (dp_scope p)" if "delegation_names ?scope"
    using that none by (simp add: delegation_names_def scope)
  show "delegation_prepared (dp_scope p)"
  proof (cases "dk_amountCeiling ?scope")
    case None
    then show ?thesis using none by (simp add: delegation_prepared_def scope)
  next
    case (Some m)
    then obtain a where a: "normalizePositiveDecimal (my_amount m) = Inr a"
      "ceiling = Some \<lparr>my_amount = a, my_currency = my_currency m\<rparr>"
      using c by (auto simp: normalized_ceiling_def res_bind_def split: sum.splits)
    then obtain w f where "amount_match (my_amount m) = Some (w, f)" "length f \<le> 8" "a = normalizeDecimal (my_amount m)"
      by (auto simp: normalizePositiveDecimal_def representableAmount_def split: if_splits option.splits)
    then have "is_decimal a" "frac_digits a \<le> 8"
      using normalized_decimal(2,3) by fastforce+
    then show ?thesis
      using same Some a(2) by (auto simp: delegation_prepared_def scope split: option.splits)
  qed
qed

section \<open>Admitted delegations are usable\<close>

lemma narrows_current:
  assumes "strictlyNarrows (loaded_scope s src) d" and src: "grant_row_valid src"
    and prepared: "delegation_prepared d" and named: "delegation_names d"
    and limit: "numeric_value (map_option my_amount (dk_amountCeiling d)) = Inr limit"
  shows "within_scope (branch_scope s (ag_id src)) (dk_branchId d)"
    and "within_scope (unit_scope s (ag_id src)) (dk_treasuryUnitId d)"
    and "within_scope (document_scope s (ag_id src)) (dk_documentType d)"
    and "within_scope (method_scope s (ag_id src)) (dk_methodCategory d)"
    and "within_scope (currency_scope s (ag_id src)) (dk_currency d)"
    and "case limit of None \<Rightarrow> True
      | Some c \<Rightarrow> (case ag_amountCeiling src of None \<Rightarrow> True
          | Some g \<Rightarrow> ag_amountCeilingCurrency src \<noteq> None
              \<and> ag_amountCeilingCurrency src = map_option my_currency (dk_amountCeiling d) \<and> compareDecimal c g \<le> 0)
        \<and> (currency_scope s (ag_id src) = [] \<or> (case map_option my_currency (dk_amountCeiling d) of None \<Rightarrow> False
            | Some y \<Rightarrow> y \<in> set (currency_scope s (ag_id src))))"
    and "narrows_scope (branch_scope s (ag_id src)) (dk_branchId d)
      \<or> narrows_scope (unit_scope s (ag_id src)) (dk_treasuryUnitId d)
      \<or> narrows_scope (document_scope s (ag_id src)) (dk_documentType d)
      \<or> narrows_scope (method_scope s (ag_id src)) (dk_methodCategory d)
      \<or> narrows_scope (currency_scope s (ag_id src)) (dk_currency d)
      \<or> (case limit of None \<Rightarrow> False | Some c \<Rightarrow> (case ag_amountCeiling src of None \<Rightarrow> True
          | Some g \<Rightarrow> compareDecimal c g < 0))"
proof -
  let ?a = "loaded_scope s src"
  let ?target = "coalesce (dk_currency d) (map_option my_currency (dk_amountCeiling d))"
  let ?dims = "[(sk_branchIds ?a, dk_branchId d), (sk_treasuryUnitIds ?a, dk_treasuryUnitId d),
    (sk_documentTypes ?a, dk_documentType d), (sk_methodCategories ?a, dk_methodCategory d),
    (effectiveCurrencies ?a, ?target)]"
  obtain b where b: "strict_dimensions ?dims False = Some b"
    and ceiling: "strict_ceiling (sk_amountCeiling ?a) (dk_amountCeiling d) b = Some True"
    using assms(1) by (auto simp: strictlyNarrows_def Let_def bind_eq_Some_conv split: option.splits)
  note dims = strict_dimensions_Some [OF b]
  have target: "?target = dk_currency d"
    using named by (cases "dk_currency d") (auto simp: delegation_names_def)
  have currency: "within_scope (currency_scope s (ag_id src)) (dk_currency d)"
    "narrows_scope (effectiveCurrencies ?a) ?target \<Longrightarrow> narrows_scope (currency_scope s (ag_id src)) (dk_currency d)"
    using dims(1) unfolding target
    by (auto simp: within_scope_def narrows_scope_def effectiveCurrencies_def loaded_scope_def split: option.splits if_splits)
  show "within_scope (branch_scope s (ag_id src)) (dk_branchId d)"
    "within_scope (unit_scope s (ag_id src)) (dk_treasuryUnitId d)"
    "within_scope (document_scope s (ag_id src)) (dk_documentType d)"
    "within_scope (method_scope s (ag_id src)) (dk_methodCategory d)"
    using dims(1) by (simp_all add: loaded_scope_def)
  show "within_scope (currency_scope s (ag_id src)) (dk_currency d)" by (rule currency(1))
  have money: "compareDecimal l g = decimalCompare (my_amount c) (strip_fraction g)
      \<and> ag_amountCeilingCurrency src \<noteq> None \<and> sk_amountCeiling ?a = Some \<lparr>my_amount = strip_fraction g,
        my_currency = the (ag_amountCeilingCurrency src)\<rparr>"
    if "dk_amountCeiling d = Some c" "limit = Some l" "ag_amountCeiling src = Some g" for c l g
  proof -
    have c: "is_decimal (my_amount c)" "frac_digits (my_amount c) \<le> 8"
      using prepared that(1) by (simp_all add: delegation_prepared_def)
    have l: "pg_numeric 8 (my_amount c) = Inr l"
      using limit that(1,2) by (auto simp: numeric_value_def res_bind_def split: sum.splits)
    note exact = pg_numeric_exact [OF c l] and g = valid_ceiling [OF src that(3)]
    have strip: "is_decimal (strip_fraction g)" "dec_rat (strip_fraction g) = dec_rat g"
      using strip_fraction_rat [OF g(1)] g(2) by simp_all
    obtain y where y: "ag_amountCeilingCurrency src = Some y" using g(3) by blast
    show ?thesis
      using compareDecimal_rat [OF exact(2) g(1)] decimalCompare_rat [OF c(1) strip(1)] exact(3) strip(2) that(3) y
      by (simp add: loaded_scope_def row_ceiling_def)
  qed
  have limit_none: "limit = None \<longleftrightarrow> dk_amountCeiling d = None"
    using limit by (auto simp: numeric_value_def res_bind_def split: option.splits sum.splits)
  show "case limit of None \<Rightarrow> True
      | Some c \<Rightarrow> (case ag_amountCeiling src of None \<Rightarrow> True
          | Some g \<Rightarrow> ag_amountCeilingCurrency src \<noteq> None
              \<and> ag_amountCeilingCurrency src = map_option my_currency (dk_amountCeiling d) \<and> compareDecimal c g \<le> 0)
        \<and> (currency_scope s (ag_id src) = [] \<or> (case map_option my_currency (dk_amountCeiling d) of None \<Rightarrow> False
            | Some y \<Rightarrow> y \<in> set (currency_scope s (ag_id src))))"
  proof (cases limit)
    case (Some l)
    then obtain c where c: "dk_amountCeiling d = Some c" using limit_none by fastforce
    then have y: "dk_currency d = Some (my_currency c)"
      using named prepared by (auto simp: delegation_names_def delegation_prepared_def)
    show ?thesis
    proof (cases "ag_amountCeiling src")
      case None
      then show ?thesis using Some c y currency(1) by (simp add: within_scope_def)
    next
      case g: (Some g)
      show ?thesis
        using money [OF c Some g] ceiling c y currency(1) Some g
        by (auto simp: strict_ceiling_def within_scope_def split: if_splits)
    qed
  qed simp
  show "narrows_scope (branch_scope s (ag_id src)) (dk_branchId d)
      \<or> narrows_scope (unit_scope s (ag_id src)) (dk_treasuryUnitId d)
      \<or> narrows_scope (document_scope s (ag_id src)) (dk_documentType d)
      \<or> narrows_scope (method_scope s (ag_id src)) (dk_methodCategory d)
      \<or> narrows_scope (currency_scope s (ag_id src)) (dk_currency d)
      \<or> (case limit of None \<Rightarrow> False | Some c \<Rightarrow> (case ag_amountCeiling src of None \<Rightarrow> True
          | Some g \<Rightarrow> compareDecimal c g < 0))"
  proof (cases b)
    case True
    then show ?thesis using dims(2) currency(2) by (auto simp: loaded_scope_def)
  next
    case False
    then obtain c where c: "dk_amountCeiling d = Some c"
      using ceiling by (auto simp: strict_ceiling_def split: option.splits)
    then obtain l where l: "limit = Some l" using limit_none by fastforce
    show ?thesis
    proof (cases "ag_amountCeiling src")
      case None
      then show ?thesis using l by simp
    next
      case g: (Some g)
      then show ?thesis using money [OF c l g] ceiling c l False by (auto simp: strict_ceiling_def split: if_splits)
    qed
  qed
qed

section \<open>A run of the command\<close>

lemma delegation_guards_run:
  assumes "delegation_guards env dto org actor s = Inr (source, s')"
  shows "s' = s" and "source \<in> set (t_accessGrants s)" and "delegable env s org (dp_accessGrantId dto) actor source"
    and "ag_validFrom source \<le> dp_validFrom dto"
    and "case ag_validTo source of None \<Rightarrow> True | Some t \<Rightarrow> dp_validTo dto \<le> t"
    and "user_active s org (dp_delegateUserId dto)" and "strictlyNarrows (loaded_scope s source) (dp_scope dto)"
proof -
  show "s' = s" using tx_keepsD [OF keeps_policy_references(2) assms, of "\<lambda>s. s"] .
  have same: "t' = t" if "validateDelegationReferences org (dp_scope dto) t = Inr (u, t')" for t t' u
    using tx_keepsD [OF keeps_validations(2) that, of "\<lambda>s. s"] .
  have "source \<in> set (t_accessGrants s) \<and> delegable env s org (dp_accessGrantId dto) actor source
    \<and> ag_validFrom source \<le> dp_validFrom dto
    \<and> (case ag_validTo source of None \<Rightarrow> True | Some t \<Rightarrow> dp_validTo dto \<le> t)
    \<and> user_active s org (dp_delegateUserId dto) \<and> strictlyNarrows (loaded_scope s source) (dp_scope dto)"
    using assms unfolding delegation_guards_def
    by (auto simp: tx_bind_Inr tx_then_Inr tx_guard_Inr tx_return_Inr not_less
      split: option.splits dest!: find_SomeD dest: same)
  then show "source \<in> set (t_accessGrants s)" and "delegable env s org (dp_accessGrantId dto) actor source"
    and "ag_validFrom source \<le> dp_validFrom dto"
    and "case ag_validTo source of None \<Rightarrow> True | Some t \<Rightarrow> dp_validTo dto \<le> t"
    and "user_active s org (dp_delegateUserId dto)" and "strictlyNarrows (loaded_scope s source) (dp_scope dto)"
    by blast+
qed

lemma delegation_work_run:
  fixes s s' :: "'z admin_db_scheme"
  assumes "createDelegation_work env dto actor command s = Inr (r, s')"
  obtains t :: "'z admin_db_scheme" and source i limit d where "access_part t = access_part s"
    and "delegation_guards env dto (pk_organizationId command) actor t = Inr (source, t)"
    and "numeric_value (map_option my_amount (dk_amountCeiling (dp_scope dto))) = Inr limit"
    and "d = delegation_row_of env i (pk_organizationId command) actor dto source
      (access_grant_scope_digest (ae_env env) t source) limit"
    and "access_part s' = access_part (t\<lparr>t_delegations := t_delegations t @ [d]\<rparr>)"
proof -
  let ?org = "pk_organizationId command"
  obtain t0 t1 t2 t3 t4 u0 u1 u2 source i limit n v details where
    lock: "pg_advisory_xact_lock ?org (''delegation:'' @ dp_accessGrantId dto) s = Inr (u0, t0)"
    and guards: "delegation_guards env dto ?org actor t0 = Inr (source, t1)"
    and uuid: "randomUUID (ae_env env) t1 = Inr (i, t2)"
    and limit: "numeric_value (map_option my_amount (dk_amountCeiling (dp_scope dto))) = Inr limit"
    and audit: "security_audit env command ''DELEGATION_CREATED'' details
      (t_delegations_update (\<lambda>rows. rows @ [delegation_row_of env i ?org actor dto source
        (access_grant_scope_digest (ae_env env) t1 source) limit]) t2) = Inr (u1, t3)"
    and clock: "newDate (ae_env env) t3 = Inr (n, t4)"
    and view: "(case delegationView t4 n (delegation_row_of env i ?org actor dto source
        (access_grant_scope_digest (ae_env env) t1 source) limit) of
          None \<Rightarrow> tx_throw (JsFault ''Cannot read properties of undefined'')
        | Some v \<Rightarrow> tx_return (DelegationResponse v)) t4 = Inr (r, s')"
    using assms
    unfolding createDelegation_work_def Let_def tx_then_Inr tx_bind_Inr tx_read_run tx_lift_Inr tx_insert_Inr
    by (elim exE conjE) (simp; elim exE conjE; rule that; assumption)
  have t1: "t1 = t0" by (rule delegation_guards_run(1) [OF guards])
  have t0: "t0 = s\<lparr>advisory_locks := advisory_locks t0\<rparr>" using lock by (auto simp: pg_advisory_xact_lock_def)
  have part0: "access_part t0 = access_part s" by (subst t0) (simp add: access_part_def)
  have s': "s' = t4" using view by (auto split: option.splits)
  let ?d = "delegation_row_of env i ?org actor dto source (access_grant_scope_digest (ae_env env) t1 source) limit"
  have "access_part t3 = access_part (t_delegations_update (\<lambda>rows. rows @ [?d]) t2)"
    by (rule tx_keepsD [OF keeps_audit audit]) (simp_all add: access_part_def)
  then have part: "access_part s' = access_part (t0\<lparr>t_delegations := t_delegations t0 @ [?d]\<rparr>)"
    using clock uuid t1 unfolding s' by (auto simp: newDate_def randomUUID_def access_part_def)
  have "delegation_guards env dto ?org actor t0 = Inr (source, t0)" using guards t1 by simp
  from that [OF part0 this limit _ part] show thesis using t1 by simp
qed


text \<open>
  What a call that added a delegation leaves: a row that is current for its delegate at every
  moment of its period, as long as the database stays as it is.
\<close>

lemma delegated:
  fixes s s' :: "'z admin_db_scheme"
  assumes run: "createDelegation env org dto key reqId context stepUp s = (Inr r, s')"
    and changed: "t_delegations s' \<noteq> t_delegations s"
    and rows: "\<forall>g \<in> set (t_accessGrants s). grant_row_valid g"
    and named: "delegation_names (dq_scope dto)"
  obtains d src where "t_delegations s' = t_delegations s @ [d]" and "src \<in> set (t_accessGrants s')"
    and "ag_userRefId src = sx_userId context" and "dg_delegateUserId d = dq_delegateUserId dto"
    and "\<And>now. dg_validFrom d \<le> now \<Longrightarrow> now < dg_validTo d \<Longrightarrow>
      delegation_current_for ((ae_env env)\<lparr>env_now := now\<rparr>) s' d src (dq_delegateUserId dto)"
proof -
  obtain p where p: "prepareDelegation env (env_clock (ae_env env) (clock_reads s)) dto = Inr p"
    and call: "protected env context (expected_command env ''createDelegation'' org (dq_body dto) key reqId context stepUp)
      (\<lambda>command. createDelegation_work env p (sx_userId context) command) s = (Inr r, s')"
    using run by (auto simp: createDelegation_def split: sum.splits)
  note prepared = prepareDelegation_Inr [OF p]
  obtain command where "protectedCommand env command (createDelegation_work env p (sx_userId context) command) s = Inr (r, s')"
    using call by (cases rule: protected_run) auto
  then show thesis
  proof (cases rule: protectedCommand_run)
    case replayed
    then show ?thesis using changed by (simp add: lock_recorded_def)
  next
    case (fresh q s1 s2 s3)
    let ?org = "pk_organizationId command" and ?actor = "sx_userId context"
    obtain t :: "'z admin_db_scheme" and source i limit d where t: "access_part t = access_part s1"
      and guards: "delegation_guards env p ?org ?actor t = Inr (source, t)"
      and limit: "numeric_value (map_option my_amount (dk_amountCeiling (dp_scope p))) = Inr limit"
      and d: "d = delegation_row_of env i ?org ?actor p source (access_grant_scope_digest (ae_env env) t source) limit"
      and part: "access_part s2 = access_part (t\<lparr>t_delegations := t_delegations t @ [d]\<rparr>)"
      using delegation_work_run [OF fresh(5)] by metis
    note g = delegation_guards_run [OF guards]
    have before: "access_part s1 = access_part s"
      using fresh(4) by (auto simp: insertIdempotency_Inr Let_def lock_recorded_def access_part_def)
    have after: "access_part s' = access_part s2"
      using fresh(6) unfolding fresh(7) by (auto simp: saveIdempotency_Inr proof_spent_def access_part_def)
    have tables: "t_delegations s' = t_delegations s @ [d]" "t_accessGrants s' = t_accessGrants s"
      "t_roles s' = t_roles t" "t_userRefs s' = t_userRefs t" "t_identityAccounts s' = t_identityAccounts t"
      "t_accessGrants t = t_accessGrants s"
      using part t before after by (simp_all add: access_part_def)
    have scopes: "branch_scope s' = branch_scope t" "unit_scope s' = unit_scope t" "cashbox_scope s' = cashbox_scope t"
      "account_scope s' = account_scope t" "document_scope s' = document_scope t" "method_scope s' = method_scope t"
      "currency_scope s' = currency_scope t"
      using part after
      by (simp_all add: access_part_def branch_scope_def unit_scope_def cashbox_scope_def account_scope_def
          document_scope_def method_scope_def currency_scope_def fun_eq_iff)
    have src: "source \<in> set (t_accessGrants s)" "grant_row_valid source" using g(2) tables rows by simp_all
    have held: "ag_id source = dp_accessGrantId p" "ag_organizationId source = ?org" "ag_userRefId source = ?actor"
      "organization_role_active t source" "ag_state source = ''ACTIVE''" "user_active t ?org (ag_userRefId source)"
      using g(3) by (auto simp: delegable_def permission_held_def grant_current_def)
    have digest: "access_grant_scope_digest e s' source = access_grant_scope_digest e' t source"
      if "he_sha256 e = he_sha256 e'" for e e'
      by (simp add: access_grant_scope_digest_def scopes that)
    note narrow = narrows_current [OF g(7) src(2) prepared(1) prepared(3) [OF named] limit]
    have active: "user_active s' = user_active t" by (simp add: user_active_def tables fun_eq_iff)
    have current: "delegation_current_for ((ae_env env)\<lparr>env_now := now\<rparr>) s' d source (dq_delegateUserId dto)"
      if "dg_validFrom d \<le> now" "now < dg_validTo d" for now
    proof -
      have "grant_current ((ae_env env)\<lparr>env_now := now\<rparr>) source"
        using that g(4,5) held(5) by (auto simp: grant_current_def d delegation_row_of_def split: option.splits)
      moreover have "dg_sourceScopeDigest d = access_grant_scope_digest ((ae_env env)\<lparr>env_now := now\<rparr>) s' source"
        using digest [of "(ae_env env)\<lparr>env_now := now\<rparr>" "ae_env env"] by (simp add: d delegation_row_of_def)
      moreover have currency: "dg_amountCeilingCurrency d = map_option my_currency (dk_amountCeiling (dp_scope p))"
        by (simp add: d delegation_row_of_def)
      ultimately show ?thesis
        using that held g(6) narrow unfolding delegation_current_for_def scopes active currency
        by (simp add: d delegation_row_of_def prepared(2) tables organization_role_active_def)
    qed
    show ?thesis
      by (rule that [OF tables(1) _ held(3) _ current]) (use src(1) tables(2) prepared(2) in \<open>simp_all add: d delegation_row_of_def\<close>)
  qed
qed

end
