(* ===== verification/Treasury.thy ===== *)
theory Treasury
  imports Administration Lifecycle
begin

text \<open>
  The payments and their administration as one system: a step is a call of a payment service or
  of the access administration. The payment services read the policies and never change them, so
  what the administration guarantees of them holds whatever happens.
\<close>

inductive treasury_step :: "'z admin_db_scheme \<Rightarrow> 'z admin_db_scheme \<Rightarrow> bool" where
  payment: "payment_step s s' \<Longrightarrow> treasury_step s s'"
| administration: "admin_step s s' \<Longrightarrow> treasury_step s s'"

section \<open>Payment services keep the policies\<close>

lemma keeps_update: "(\<And>g s. f (upd g s) = f s) \<Longrightarrow> tx_keeps f (tx_update check get upd p h)"
  by (auto simp: tx_keeps_def tx_update_Inr)

lemma ignores_policies [tx_frame]: "ignores_checks t_approvalPolicies"
  by (simp add: ignores_checks_def)

lemma core_policies_kept [simp]: "t_approvalPolicies (core s) = t_approvalPolicies s"
  by (simp add: core_def)

lemma keeps_shared_policies [tx_frame]:
  "tx_keeps t_approvalPolicies (appendMovement env m)"
  "tx_keeps t_approvalPolicies (appendAudit env a)"
  "tx_keeps t_approvalPolicies (appendOutbox env x)"
  "tx_keeps t_approvalPolicies (acquireIdempotencyLock k)"
  "tx_keeps t_approvalPolicies (insertIdempotency env k d)"
  "tx_keeps t_approvalPolicies (saveIdempotency k r st)"
  unfolding appendMovement_def appendAudit_def appendOutbox_def acquireIdempotencyLock_def
    insertIdempotency_def saveIdempotency_def Let_def
  by (intro tx_frame keeps_statements keeps_update keeps_write; simp)+

lemma keeps_effect_policies [tx_frame]:
  "tx_keeps t_approvalPolicies (appendEffect env e)"
  "tx_keeps t_approvalPolicies (createInstruction env b)"
  "tx_keeps t_approvalPolicies (consumeReservations org ids)"
  "tx_keeps t_approvalPolicies (completeExecution org i u m v)"
  "tx_keeps t_approvalPolicies (completeReversal org i j v m)"
  "tx_keeps t_approvalPolicies (createReversal env input)"
  unfolding appendEffect_def createInstruction_def consumeReservations_def completeExecution_def
    completeReversal_def createReversal_def Let_def
  by (intro tx_frame keeps_statements keeps_update keeps_write; simp)+

lemma keeps_number_policies [tx_frame]: "tx_keeps t_approvalPolicies (nextPaymentNumber org d)"
  by (simp add: nextPaymentNumber_def tx_keeps_def Let_def)

lemma keeps_replay [tx_frame]: "tx_keeps f (replay_payment r d)"
  by (auto simp: replay_payment_def tx_keeps_def split: option.splits response.splits)

lemma keeps_execute_policies: "tx_keeps t_approvalPolicies (execute_tx env ctx body v d)"
  unfolding execute_tx_def execute_fresh_def execution_writes_def executeLine_def executeInstruction_def
    Let_def
  by (intro tx_frame keeps_uuid) simp_all

lemma keeps_reverse_policies: "tx_keeps t_approvalPolicies (reverse_tx env ctx body reason v d)"
  unfolding reverse_tx_def reverse_fresh_def reversal_writes_def reverseEffect_def read_view_def Let_def
  by (intro tx_frame keeps_replay_reversal)

lemma core_keeps_policies: "core s' = core t \<Longrightarrow> t_approvalPolicies s' = t_approvalPolicies t"
  by (metis core_policies_kept)

lemma payment_step_policies:
  assumes "payment_step s s'"
  shows "t_approvalPolicies s' = t_approvalPolicies s"
  using assms
proof cases
  case (createRequest env org u qdto key rid r1)
  then show ?thesis
    using createRequest_cases [of env org u qdto key rid s r1 s']
    by (auto simp: requested_def dest!: core_keeps_policies)
next
  case (create env org u cdto key rid r2)
  then show ?thesis
  proof (cases rule: create_cases)
    case 1
    then show ?thesis by (rule core_keeps_policies)
  next
    case (2 derived i num)
    then show ?thesis by (auto simp: created_def Let_def dest!: core_keeps_policies)
  qed
next
  case (submit env org u i key etag rid r3)
  then show ?thesis
  proof (cases rule: submit_cases)
    case 1
    then show ?thesis by (rule core_keeps_policies)
  next
    case 2
    from 2(2) show ?thesis by (auto simp: submitted_def dest!: core_keeps_policies)
  qed
next
  case (act env org u i adto key etag rid r4)
  then show ?thesis
  proof (cases rule: act_cases)
    case 1
    then show ?thesis by (rule core_keeps_policies)
  next
    case 2
    from 2(3) show ?thesis by (auto simp: acted_def dest!: core_keeps_policies)
  qed
next
  case (execute env ctx ebody r5)
  show ?thesis
  proof (cases r5)
    case (Inl e)
    then show ?thesis using execute by (auto simp: execute_def rethrow_Inl transaction_Inl split: sum.splits)
  next
    case (Inr view)
    obtain v d where "execute_tx env ctx ebody v d s = Inr (view, s')"
      using execute_Inr [OF execute [unfolded Inr]] .
    then show ?thesis by (rule tx_keepsD [OF keeps_execute_policies])
  qed
next
  case (reverse env ctx rbody r6)
  show ?thesis
  proof (cases r6)
    case (Inl e)
    then show ?thesis
      using reverse by (auto simp: reverse_def Let_def rethrow_Inl transaction_Inl split: sum.splits if_splits)
  next
    case (Inr pair)
    obtain v d where "reverse_tx env ctx rbody (trim (rv_reason rbody)) v d s = Inr (pair, s')"
      using reverse_Inr [OF reverse [unfolded Inr]] .
    then show ?thesis by (rule tx_keepsD [OF keeps_reverse_policies])
  qed
qed

lemma steps_unambiguous:
  assumes "treasury_step\<^sup>*\<^sup>* s s'" and "policies_unambiguous s"
  shows "policies_unambiguous s'"
  using assms
proof (induction rule: rtranclp_induct)
  case (step t u)
  from step(2) show ?case
  proof cases
    case payment
    then show ?thesis using payment_step_policies step(3,4) keeps_unambiguous by blast
  next
    case administration
    then show ?thesis using call_unambiguous step(3,4) unfolding admin_step_def by blast
  qed
qed

section \<open>Policies are only added\<close>

lemma work_adds_policies:
  fixes s s' :: "'z admin_db_scheme"
  assumes "admin_work env context command work" and "work s = Inr (r, s')"
  shows "\<exists>new. t_approvalPolicies s' = t_approvalPolicies s @ new"
  using assms(1)
proof cases
  case (policy_work prepared)
  from assms(2) [unfolded policy_work(1)] show ?thesis
    by (cases rule: policy_work_run) blast
next
  case role_work
  then show ?thesis using assms(2) tx_keepsD [OF work_policies(1)] by (metis append_Nil2)
next
  case grant_work
  then show ?thesis using assms(2) tx_keepsD [OF work_policies(2)] by (metis append_Nil2)
next
  case delegation_work
  then show ?thesis using assms(2) tx_keepsD [OF work_policies(3)] by (metis append_Nil2)
qed

lemma call_adds_policies:
  fixes s s' :: "'z admin_db_scheme"
  assumes "admin_call env context stepUp s r s'"
  shows "\<exists>new. t_approvalPolicies s' = t_approvalPolicies s @ new"
  using assms
proof (cases rule: admin_call_run)
  case challenged
  then show ?thesis using challenge_keeps(2) [OF challenged(2)] by simp
next
  case (ran command work response)
  show ?thesis
    using ran(4)
  proof (cases rule: protectedCommand_run)
    case replayed
    then show ?thesis by (simp add: lock_recorded_def)
  next
    case (fresh p s1 s2 s3)
    have "t_approvalPolicies s1 = t_approvalPolicies s" "t_approvalPolicies s' = t_approvalPolicies s2"
      using fresh(4,6) unfolding fresh(7)
      by (auto simp: insertIdempotency_Inr saveIdempotency_Inr Let_def lock_recorded_def proof_spent_def)
    then show ?thesis using work_adds_policies [OF ran(2) fresh(5)] by simp
  qed
qed simp

lemma steps_add_policies:
  assumes "treasury_step\<^sup>*\<^sup>* s s'"
  shows "\<exists>new. t_approvalPolicies s' = t_approvalPolicies s @ new"
  using assms
proof (induction rule: rtranclp_induct)
  case (step t u)
  have "\<exists>more. t_approvalPolicies u = t_approvalPolicies t @ more"
    using step(2)
  proof cases
    case payment
    then show ?thesis using payment_step_policies [of t u] by (metis append_Nil2)
  next
    case administration
    then show ?thesis using call_adds_policies unfolding admin_step_def by blast
  qed
  then show ?case using step.IH by auto
qed simp

lemma same_scope_ambiguous:
  assumes "policy_row_valid r" and "policy_row_valid q" and "policy_scope_of q = policy_scope_of r"
  shows "ambiguousPolicyOverlap (policy_scope_of r) (policy_scope_of q)"
proof -
  have self: "keys_overlap k k" for k by (simp add: keys_overlap_def split: option.splits)
  have "\<not> below_minimum (ap_maximumBaseAmount r) (ap_minimumBaseAmount r)"
    using valid_amounts [OF assms(1)]
    by (fastforce simp: below_minimum_def decimalCompare_rat split: option.splits if_splits)
  then have "policyScopesOverlap (policy_scope_of r) (policy_scope_of r)"
    by (simp add: policyScopesOverlap_def policy_scope_of_def self)
  moreover have "\<not> strictlyNarrowerPolicy (policy_scope_of r) (policy_scope_of r)"
    using narrower_policy_dominates [of s org r s org r] dominates_subset valid_bounds [OF assms(1)]
    by blast
  ultimately show ?thesis by (simp add: ambiguousPolicyOverlap_def assms(3))
qed

section \<open>Resolution of the contexts\<close>

lemma res_map_all: "(\<forall>x \<in> set xs. \<exists>y. f x = Inr y) \<Longrightarrow> \<exists>ys. res_map f xs = Inr ys"
  by (induction xs) (auto simp: res_bind_def)

lemma first_lines_subset: "set (first_lines seen ls) \<subseteq> set ls"
  by (induction seen ls rule: first_lines.induct) (auto simp: Let_def)

lemma contexts_resolved:
  assumes "policies_unambiguous s" and "is_decimal a"
    and "\<And>l. l \<in> set lines \<Longrightarrow> policies s org payment (yl_currency l) (yl_methodCategory l) a \<noteq> []"
    and "\<And>l p. l \<in> set lines \<Longrightarrow> 
      uniqueMaximal (policies s org payment (yl_currency l) (yl_methodCategory l) a) = Some p \<Longrightarrow> policy_usable p"
  shows "\<exists>contexts. resolveContexts s org payment lines a = Inr contexts"
proof -
  have "\<exists>c. resolve_context s org payment a entry = Inr c" if l: "snd entry \<in> set lines" for entry
  proof -
    let ?ps = "policies s org payment (yl_currency (snd entry)) (yl_methodCategory (snd entry)) a"
    obtain p where p: "uniqueMaximal ?ps = Some p"
      using governing_policy [OF assms(1,2) assms(3) [OF l]] .
    then show ?thesis using assms(4) [OF l p] by (auto simp: resolve_context_def split: prod.splits)
  qed
  then show ?thesis
    unfolding resolveContexts_def Let_def
    by (intro res_map_all) (use first_lines_subset [of "[]" lines] in \<open>auto dest!: set_zip_rightD\<close>)
qed

end
