(* ===== verification/Administration_Sample.thy ===== *)
theory Administration_Sample
  imports Delegation_Facts Treasury Sample
begin

text \<open>
  A small organization for the witnesses of the administration: a manager whose grant is limited
  to two currencies and an amount, an approver and a clerk, one approval policy, and the proofs of
  three commands, each run once: a narrower policy, a grant that names its currencies, and a
  grant that names only a ceiling.
\<close>

section \<open>The organization\<close>

text \<open>A stand-in for the hash with its form: 64 digits, which tell texts of different length apart.\<close>

definition hex_text :: "str \<Rightarrow> str" where
  "hex_text s = take 64 (replicate (length s) (CHR ''1'') @ replicate 64 (CHR ''0''))"

definition admin_host :: env where
  "admin_host = sample_env\<lparr>he_sha256 := hex_text\<rparr>"

definition admin_env :: access_env where
  "admin_env = \<lparr>ae_env = admin_host, ae_localTime = id, ae_otherDate = (\<lambda>_. None),
     ae_tokens = (\<lambda>n. ''token-'' @ show_nat n)\<rparr>"

definition staff :: "uuid \<Rightarrow> user_ref_row" where
  "staff u = user_maker\<lparr>us_id := u, us_subjectKey := u, us_displayName := u\<rparr>"

definition staff_account :: "uuid \<Rightarrow> identity_account_row" where
  "staff_account u = account_maker\<lparr>ia_id := ''ia_'' @ u, ia_userRefId := u, ia_normalizedLogin := u\<rparr>"

definition staff_grant :: "uuid \<Rightarrow> uuid \<Rightarrow> access_grant_row" where
  "staff_grant u r = \<lparr>ag_id = ''gr_'' @ u, ag_organizationId = ''org'', ag_userRefId = u, ag_roleId = r,
     ag_scopeType = ''ORGANIZATION'', ag_scopeId = ''org'', ag_organizationWide = True,
     ag_amountCeiling = None, ag_amountCeilingCurrency = None, ag_validFrom = 0, ag_validTo = None,
     ag_reason = None, ag_state = ''ACTIVE'', ag_version = 0, ag_createdAt = 0, ag_updatedAt = 0\<rparr>"

definition manager_grant :: access_grant_row where
  "manager_grant = (staff_grant ''manager'' ''adm'')\<lparr>ag_organizationWide := False,
     ag_amountCeiling := Some ''1000.00000000'', ag_amountCeilingCurrency := Some ''IRR''\<rparr>"

definition base_policy :: approval_policy_row where
  "base_policy = \<lparr>ap_id = ''pol'', ap_organizationId = ''org'', ap_code = ''BASE'', ap_name = ''BASE'',
     ap_documentType = ''PAYMENT'', ap_organizationWide = False, ap_branchId = None,
     ap_treasuryUnitId = None, ap_currency = Some ''IRR'', ap_methodCategory = None,
     ap_minimumBaseAmount = None, ap_maximumBaseAmount = None,
     ap_separationRules = [''APPROVER_NOT_EXECUTOR'', ''CREATOR_NOT_EXECUTOR''],
     ap_aggregationWindowKind = None, ap_aggregationKeys = None,
     ap_aggregationOverrideSecondApproval = None, ap_state = ''ACTIVE'', ap_policyVersion = 1,
     ap_createdAt = 0, ap_updatedAt = 0\<rparr>"

definition base_step :: approval_step_row where
  "base_step = \<lparr>as_id = ''st'', as_organizationId = ''org'', as_approvalPolicyId = ''pol'',
     as_stepOrder = 1, as_requiredRoleId = Some ''ap'', as_namedApproverId = None,
     as_approvalsRequired = 1, as_separationRules = []\<rparr>"

section \<open>The commands\<close>

definition new_policy :: approval_policy_create where
  "new_policy = \<lparr>yc_code = ''SMALL'', yc_documentType = ''PAYMENT'', yc_organizationWide = False,
     yc_scope = Some \<lparr>yk_keys = 2, yk_branchId = None, yk_treasuryUnitId = None, yk_currency = Some ''IRR'',
       yk_methodCategory = None, yk_minimumBaseAmount = None, yk_maximumBaseAmount = Some ''1000''\<rparr>,
     yc_steps = [\<lparr>yt_order = 1, yt_roleId = Some ''ap'', yt_approverUserId = None, yt_approvalsRequired = 1\<rparr>],
     yc_separationRules = Some [''CREATOR_NOT_EXECUTOR'', ''APPROVER_NOT_EXECUTOR''],
     yc_paymentAggregation = None, yc_body = JObject [(''code'', JString ''SMALL'')]\<rparr>"

definition scope_none :: grant_scope_dto where
  "scope_none = \<lparr>zk_keys = 1, zk_branchIds = None, zk_treasuryUnitIds = None, zk_cashboxIds = None,
     zk_bankAccountIds = None, zk_documentTypes = None, zk_methodCategories = None, zk_currencies = None,
     zk_amountCeiling = Some \<lparr>my_amount = ''500'', my_currency = ''IRR''\<rparr>\<rparr>"

definition ceiling_grant :: access_grant_create where
  "ceiling_grant = \<lparr>xg_userId = ''clerk'', xg_roleId = ''ap'', xg_organizationWide = False,
     xg_scope = Some scope_none, xg_validFrom = None, xg_validTo = None, xg_reason = None,
     xg_body = JObject [(''userId'', JString ''clerk'')]\<rparr>"

definition named_grant :: access_grant_create where
  "named_grant = ceiling_grant\<lparr>xg_scope := Some (scope_none\<lparr>zk_currencies := Some [''IRR'']\<rparr>)\<rparr>"

definition ceiling_delegation :: delegation_create where
  "ceiling_delegation = \<lparr>dq_accessGrantId = ''gr_manager'', dq_delegateUserId = ''clerk'',
     dq_scope = \<lparr>dk_keys = 1, dk_branchId = None, dk_treasuryUnitId = None, dk_documentType = None,
       dk_methodCategory = None, dk_currency = None,
       dk_amountCeiling = Some \<lparr>my_amount = ''1000'', my_currency = ''IRR''\<rparr>\<rparr>,
     dq_reason = ''leave'', dq_validFrom = ''2026-01-01T00:00:00Z'', dq_validTo = ''2027-01-01T00:00:00Z'',
     dq_body = JObject [(''reason'', JString ''leave'')]\<rparr>"

definition named_delegation :: delegation_create where
  "named_delegation = ceiling_delegation\<lparr>dq_scope := (dq_scope ceiling_delegation)\<lparr>dk_currency := Some ''IRR''\<rparr>\<rparr>"

definition command_digest_of :: "str \<Rightarrow> json \<Rightarrow> str" where
  "command_digest_of op body = (case commandDigest admin_host op body of Inl _ \<Rightarrow> [] | Inr d \<Rightarrow> d)"

definition admin_challenge :: "str \<Rightarrow> str \<Rightarrow> json \<Rightarrow> auth_challenge_row" where
  "admin_challenge i op body = challenge\<lparr>ch_id := i, ch_identityAccountId := ''ia_manager'', ch_tokenDigest := i,
     ch_requestBodyDigest := Some (command_digest_of op body), ch_idempotencyKey := Some (''key-'' @ i)\<rparr>"

definition admin_proof :: "str \<Rightarrow> auth_step_up_proof_row" where
  "admin_proof i = step_up_proof\<lparr>sp_id := i, sp_challengeId := i, sp_tokenDigest := digest admin_host i\<rparr>"

definition admin_session :: session_context where
  "admin_session = \<lparr>sx_accountId = ''ia_manager'', sx_physicalSessionId = ''as'', sx_userId = ''manager''\<rparr>"

definition admin_step_up :: "str \<Rightarrow> step_up_context" where
  "admin_step_up i = \<lparr>sc_proofId = i, sc_method = ''POST'', sc_path = ''/p''\<rparr>"

definition admin_db :: admin_db where
  "admin_db = \<lparr>
     uuids_drawn = 0,
     clock_reads = 0,
     advisory_locks = [],
     t_currencies = [irr, irr\<lparr>cu_code := ''USD'', cu_baseCurrency := False\<rparr>],
     t_organizations = [org_row],
     t_branches = [branch],
     t_treasuryUnits = [unit],
     t_userRefs = [staff ''manager'', staff ''boss'', staff ''clerk''],
     t_roles = [role\<lparr>ro_id := ''adm'', ro_code := ''ADM''\<rparr>, role\<lparr>ro_id := ''ap'', ro_code := ''AP''\<rparr>],
     t_parties = [party],
     t_methodDefinitions = [cash_method],
     t_methodMappings = [],
     t_methodRequiredReferences = [],
     t_methodAllowedCurrencies = [],
     t_methodAmountLimits = [],
     t_cashboxes = [cashbox],
     t_cashboxCurrencyControls = [control],
     t_cashboxDays = [],
     t_bankAccounts = [account],
     t_exchangeRates = [],
     t_attachments = [],
     t_approvalPolicies = [base_policy],
     t_approvalSteps = [base_step],
     t_identityAccounts = [staff_account ''manager'', staff_account ''boss'', staff_account ''clerk''],
     t_rolePermissions = [\<lparr>rp_roleId = ''adm'', rp_permission = ''access-grant.manage''\<rparr>,
       \<lparr>rp_roleId = ''adm'', rp_permission = ''approval-policy.manage''\<rparr>,
       \<lparr>rp_roleId = ''adm'', rp_permission = ''delegation.manage''\<rparr>,
       \<lparr>rp_roleId = ''ap'', rp_permission = ''payment.approve''\<rparr>],
     t_accessGrants = [manager_grant, staff_grant ''boss'' ''ap''],
     t_delegations = [],
     t_accessGrantBranchScopes = [],
     t_accessGrantTreasuryUnitScopes = [],
     t_accessGrantCashboxScopes = [],
     t_accessGrantBankAccountScopes = [],
     t_accessGrantDocumentTypeScopes = [],
     t_accessGrantMethodCategoryScopes = [],
     t_accessGrantCurrencyScopes = [
       \<lparr>gy_accessGrantId = ''gr_manager'', gy_organizationId = ''org'', gy_currency = ''IRR''\<rparr>,
       \<lparr>gy_accessGrantId = ''gr_manager'', gy_organizationId = ''org'', gy_currency = ''USD''\<rparr>],
     t_authChallenges = [admin_challenge ''policy'' ''createApprovalPolicy'' (yc_body new_policy),
       admin_challenge ''grant'' ''createAccessGrant'' (xg_body ceiling_grant),
       admin_challenge ''delegation'' ''createDelegation'' (dq_body ceiling_delegation)],
     t_authStepUpProofs = [admin_proof ''policy'', admin_proof ''grant'', admin_proof ''delegation''],
     t_idempotencyRecords = [],
     t_movementFacts = [],
     t_auditEvents = [],
     t_outboxEvents = [],
     t_paymentRequestNumberCounters = [],
     t_paymentNumberCounters = [],
     t_paymentRequests = [],
     t_paymentDocuments = [],
     t_paymentApprovalSnapshots = [],
     t_paymentApprovalSnapshotContexts = [],
     t_paymentApprovalSnapshotSteps = [],
     t_paymentApprovalActions = [],
     t_paymentApprovalAggregations = [],
     t_paymentApprovalAggregationParticipants = [],
     t_paymentLines = [],
     t_paymentAllocations = [],
     t_paymentReservations = [],
     t_bankInstructions = [],
     t_paymentExecutionEffects = [],
     t_paymentRequestAttachmentLinks = [],
     t_paymentLineAttachmentLinks = [],
     t_operationPermissions = CANON_PERMISSIONS,
     t_securityAuditEvents = []\<rparr>"

definition policy_run :: "access_response res \<times> admin_db" where
  "policy_run = createApprovalPolicy admin_env ''org'' new_policy (Some ''key-policy'') ''r-1'' admin_session
     (admin_step_up ''policy'') admin_db"

definition ceiling_run :: "access_response res \<times> admin_db" where
  "ceiling_run = createAccessGrant admin_env ''org'' ceiling_grant (Some ''key-grant'') ''r-2'' admin_session
     (admin_step_up ''grant'') admin_db"

definition named_run :: "access_response res \<times> admin_db" where
  "named_run = createAccessGrant admin_env ''org'' named_grant (Some ''key-grant'') ''r-2'' admin_session
     (admin_step_up ''grant'') admin_db"

definition delegation_run :: "delegation_create \<Rightarrow> access_response res \<times> admin_db" where
  "delegation_run dto = createDelegation admin_env ''org'' dto (Some ''key-delegation'') ''r-4'' admin_session
     (admin_step_up ''delegation'') admin_db"

end
