(* ===== verification/Administration_Properties.thy ===== *)
theory Administration_Properties
  imports Administration_Sample
begin

text \<open>
  The properties of the access administration: that the policies never leave a payment without a
  governing one by their overlap, that a step-up proof is good for one command, and how far a
  grant goes beyond the grant of the one who gives it.
\<close>

section \<open>Policies\<close>

text \<open>
  What \<open>createApprovalPolicy\<close> calls strictly narrower is what the approval service
  calls dominating, and is strict inclusion of the payments governed, for the rows a policy table
  can hold.
\<close>

lemma narrower_is_dominance:
  assumes "policy_row_valid r" and "policy_row_valid q"
  shows "(strictlyNarrowerPolicy (policy_scope_of r) (policy_scope_of q)
      \<longleftrightarrow> dominates (policy_of s org r) (policy_of s' org' q))
    \<and> (strictlyNarrowerPolicy (policy_scope_of r) (policy_scope_of q)
      \<longleftrightarrow> policy_scope (policy_of s org r) \<subset> policy_scope (policy_of s' org' q))"
  using narrower_policy_dominates dominates_subset valid_bounds [OF assms(1)] valid_bounds [OF assms(2)] by metis

definition small_policy :: approval_policy_row where
  "small_policy = base_policy\<lparr>ap_id := ''small'', ap_maximumBaseAmount := Some ''1000.00000000''\<rparr>"

lemma small_checks:
  "policy_row_valid small_policy" "policy_row_valid base_policy"
  "strictlyNarrowerPolicy (policy_scope_of small_policy) (policy_scope_of base_policy)"
  by code_simp+

lemma narrower_is_dominance_witness:
  "policy_scope (policy_of admin_db ''org'' small_policy) \<subset> policy_scope (policy_of admin_db ''org'' base_policy)"
  using narrower_is_dominance [OF small_checks(1,2)] small_checks(3) by blast

text \<open>
  Property C17. Whatever is called, by anybody and with any outcome, of the payment services and the
  administration: approval policies are only ever added, never changed or removed; policies that
  did not overlap ambiguously never come to do so; and a policy is never given a successor, since
  no later policy for the same documents has the scope of an active one.
\<close>

theorem policies_permanent:
  assumes "treasury_step\<^sup>*\<^sup>* s s'" and "policies_unambiguous s"
  shows "policies_unambiguous s' \<and> (\<exists>new. t_approvalPolicies s' = t_approvalPolicies s @ new
    \<and> (\<forall>r \<in> set (t_approvalPolicies s). \<forall>q \<in> set new. rivals r q \<longrightarrow> policy_scope_of q \<noteq> policy_scope_of r))"
proof -
  have un: "policies_unambiguous s'" by (rule steps_unambiguous [OF assms])
  obtain new where new: "t_approvalPolicies s' = t_approvalPolicies s @ new"
    using steps_add_policies [OF assms(1)] by blast
  have "policy_scope_of q \<noteq> policy_scope_of r"
    if "r \<in> set (t_approvalPolicies s)" "q \<in> set new" "rivals r q" for r q
  proof
    assume same: "policy_scope_of q = policy_scope_of r"
    have "ap_id r \<noteq> ap_id q" using un that unfolding policies_unambiguous_def new by (auto simp: image_iff)
    then have "\<not> ambiguousPolicyOverlap (policy_scope_of r) (policy_scope_of q)"
      using un that unfolding policies_unambiguous_def new by auto
    moreover have "policy_row_valid r" "policy_row_valid q"
      using un that unfolding policies_unambiguous_def new by auto
    ultimately show False using same_scope_ambiguous same by blast
  qed
  then show ?thesis using un new by blast
qed

text \<open>The run of the policy command, repeated under its key and with its spent proof.\<close>

lemma policy_created:
  "case policy_run of (Inl e, t) \<Rightarrow> False | (Inr r, t) \<Rightarrow>
     map ap_id (t_approvalPolicies t) = [''pol'', ''id-1'']
     \<and> (case createApprovalPolicy admin_env ''org'' new_policy (Some ''key-policy'') ''r-3'' admin_session
          (admin_step_up ''policy'') t of (Inl e, u) \<Rightarrow> False | (Inr r', u) \<Rightarrow> True)"
  by code_simp

lemmas policy_createdD = runD [OF policy_created]

lemma admin_checks:
  "policies_unambiguous admin_db" "distinct (tokens admin_db)" "scopes_known admin_db"
  "\<forall>g \<in> set (t_accessGrants admin_db). grant_row_valid g \<and> scope_mode_ok admin_db g"
  "map ap_id (t_approvalPolicies admin_db) = [''pol'']"
  by code_simp+

lemma policy_call:
  "\<exists>r. admin_call admin_env admin_session (admin_step_up ''policy'') admin_db (Inr r) (snd policy_run)"
proof -
  obtain r where "policy_run = (Inr r, snd policy_run)" using policy_createdD by blast
  then show ?thesis unfolding policy_run_def by (blast intro: admin_call.createApprovalPolicy)
qed

lemma policy_step: "treasury_step\<^sup>*\<^sup>* admin_db (snd policy_run)"
  using policy_call unfolding admin_step_def [symmetric]
  by (blast intro: r_into_rtranclp treasury_step.administration admin_step_def [THEN iffD2])

lemma policies_permanent_witness:
  "policies_unambiguous (snd policy_run) \<and> length (t_approvalPolicies (snd policy_run)) = 2"
proof -
  have "map ap_id (t_approvalPolicies (snd policy_run)) = [''pol'', ''id-1'']"
    using policy_createdD by blast
  then have "length (t_approvalPolicies (snd policy_run)) = 2" by (metis length_map length_Cons list.size(3) One_nat_def Suc_1)
  then show ?thesis using policies_permanent [OF policy_step admin_checks(1)] by simp
qed






section \<open>Proofs\<close>

text \<open>
  Property C15. A step-up proof is good for one command. Once a call under it has changed anything,
  then after whatever calls of the administration every other call under the same proof, for any
  operation, arguments or session, either fails or only repeats the answer stored under its key,
  and changes nothing.
\<close>

theorem proof_single_use:
  fixes s s' t t' :: "'z admin_db_scheme"
  assumes "distinct (tokens s)"
    and first: "admin_call env context stepUp s (Inr r) s'" and "core s' \<noteq> core s"
    and "admin_step\<^sup>*\<^sup>* s' t"
    and second: "admin_call env' context' stepUp' t (Inr r') t'"
    and "digest (ae_env env') (sc_proofId stepUp') = digest (ae_env env) (sc_proofId stepUp)"
  shows "core t' = core t
    \<and> (\<exists>k d. findIdempotency k t = Some \<lparr>re_requestDigest = d, re_response = Some (AccessResponse r')\<rparr>)"
proof -
  obtain command work where c: "pk_proofDigest command = digest (ae_env env) (sc_proofId stepUp)"
    "admin_work env context command work" "protectedCommand env command work s = Inr (r, s')"
    using first by (cases rule: admin_call_run) auto
  have "spent (pk_proofDigest command) s'"
    by (rule ran_tokens(3) [OF c(3) admin_work_bookkeeping [OF c(2)] assms(1,3)])
  then have spent: "spent (pk_proofDigest command) t" using steps_tokens [OF assms(4)] by blast
  obtain command' work' where c': "pk_proofDigest command' = digest (ae_env env') (sc_proofId stepUp')"
    "admin_work env' context' command' work'" "protectedCommand env' command' work' t = Inr (r', t')"
    using second by (cases rule: admin_call_run) auto
  show ?thesis
    using ran_tokens(4) [OF c'(3) admin_work_bookkeeping [OF c'(2)]] spent c(1) c'(1) assms(6) by auto
qed

lemma proof_single_use_witness:
  "\<exists>r t. createApprovalPolicy admin_env ''org'' new_policy (Some ''key-policy'') ''r-3'' admin_session
       (admin_step_up ''policy'') (snd policy_run) = (Inr r, t) \<and> core t = core (snd policy_run)"
proof -
  obtain r where first: "admin_call admin_env admin_session (admin_step_up ''policy'') admin_db (Inr r) (snd policy_run)"
    using policy_call by blast
  obtain r' t where run: "createApprovalPolicy admin_env ''org'' new_policy (Some ''key-policy'') ''r-3'' admin_session
       (admin_step_up ''policy'') (snd policy_run) = (Inr r', t)"
    using policy_createdD [THEN conjunct2, THEN conjunct2, THEN runD] by blast
  have "map ap_id (t_approvalPolicies (snd policy_run)) \<noteq> map ap_id (t_approvalPolicies admin_db)"
    using policy_createdD admin_checks(5) by simp
  then have "core (snd policy_run) \<noteq> core admin_db" by (metis core_policies_kept)
  from proof_single_use [OF admin_checks(2) first this rtranclp.rtrancl_refl
      admin_call.createApprovalPolicy [OF run]]
  show ?thesis using run by blast
qed


section \<open>Grants\<close>

text \<open>
  Property C16. Administration attenuates: a grant that names its currencies reaches no payment that
  the grant of the manager who gave it does not reach, and is in force only while that one is.
\<close>

theorem grant_attenuates:
  fixes s s' :: "'z admin_db_scheme"
  assumes run: "createAccessGrant env org dto key reqId context stepUp s = (Inr r, s')"
    and changed: "t_accessGrants s' \<noteq> t_accessGrants s"
    and known: "scopes_known s" and rows: "\<forall>g \<in> set (t_accessGrants s). grant_row_valid g \<and> scope_mode_ok s g"
    and named: "names_currencies dto"
  shows "\<exists>ag src. t_accessGrants s' = t_accessGrants s @ [ag] \<and> src \<in> set (t_accessGrants s)
    \<and> permission_held env s org (sx_userId context) ''access-grant.manage'' src
    \<and> ag_validFrom src \<le> ag_validFrom ag
    \<and> (case ag_validTo src of None \<Rightarrow> True | Some e \<Rightarrow> (\<exists>t. ag_validTo ag = Some t \<and> t \<le> e))
    \<and> (\<forall>ctx. grant_covers PAYMENT_PROFILE ctx (own_grant s' ag) \<longrightarrow> grant_covers PAYMENT_PROFILE ctx (own_grant s src))"
proof -
  obtain p owner i limit where p: "prepareGrant env (env_clock (ae_env env) (clock_reads s)) dto = Inr p"
    and source: "list_ex (\<lambda>source. grantContains source (prepared_authorization p))
      (permissionGrants env s org (sx_userId context) ''access-grant.manage'')"
    and limit: "numeric_value (map_option my_amount (sk_amountCeiling (pz_scope p))) = Inr limit"
    and new: "t_accessGrants s' = t_accessGrants s @ [grant_row env i owner p limit]"
      "scope_lists s' i = wanted_lists (pz_scope p)"
    by (rule granted [OF run changed known])
  obtain src where src: "src \<in> set (t_accessGrants s)"
    "permission_held env s org (sx_userId context) ''access-grant.manage'' src"
    and contains: "grantContains (row_authorization s src) (prepared_authorization p)"
    using source by (auto simp: permissionGrants_def list_ex_iff)
  let ?ag = "grant_row env i owner p limit"
  have period: "ag_validFrom src \<le> ag_validFrom ?ag"
    "case ag_validTo src of None \<Rightarrow> True | Some e \<Rightarrow> (\<exists>t. ag_validTo ?ag = Some t \<and> t \<le> e)"
    using contains by (auto simp: grantContains_def row_authorization_def prepared_authorization_def grant_row_def
        split: if_splits option.splits)
  have "grant_covers PAYMENT_PROFILE ctx (own_grant s src)"
    if "grant_covers PAYMENT_PROFILE ctx (own_grant s' ?ag)" for ctx
    by (rule contained_covers [OF contains _ _ new(2) prepareGrant_ceiling [OF p] limit
        prepareGrant_named [OF p named] that]) (use rows src(1) in auto)
  then show ?thesis using new(1) src period by blast
qed

lemma named_created:
  "case named_run of (Inl e, t) \<Rightarrow> False | (Inr r, t) \<Rightarrow>
     map ag_id (t_accessGrants t) = [''gr_manager'', ''gr_boss'', ''id-1'']"
  by code_simp

lemma named_checks:
  "names_currencies named_grant" "map ag_id (t_accessGrants admin_db) = [''gr_manager'', ''gr_boss'']"
  by code_simp+

lemma grant_attenuates_witness:
  "\<exists>ag src. t_accessGrants (snd named_run) = t_accessGrants admin_db @ [ag] \<and> src \<in> set (t_accessGrants admin_db)
    \<and> (\<forall>ctx. grant_covers PAYMENT_PROFILE ctx (own_grant (snd named_run) ag) \<longrightarrow>
         grant_covers PAYMENT_PROFILE ctx (own_grant admin_db src))"
proof -
  obtain r where run: "createAccessGrant admin_env ''org'' named_grant (Some ''key-grant'') ''r-2'' admin_session
     (admin_step_up ''grant'') admin_db = (Inr r, snd named_run)"
    using runD [OF named_created] unfolding named_run_def by blast
  have "t_accessGrants (snd named_run) \<noteq> t_accessGrants admin_db"
    using runD [OF named_created] named_checks(2) by auto
  from grant_attenuates [OF run this admin_checks(3,4) named_checks(1)] show ?thesis by blast
qed




section \<open>Delegations\<close>

text \<open>
  Property C19. A delegation takes effect: when the command accepts a delegation that names the currency
  of its ceiling, the database function that decides its use finds it current for its delegate at
  every moment of its period, while the database stays as it is.
\<close>

theorem delegation_takes_effect:
  fixes s s' :: "'z admin_db_scheme"
  assumes "createDelegation env org dto key reqId context stepUp s = (Inr r, s')"
    and "t_delegations s' \<noteq> t_delegations s"
    and "\<forall>g \<in> set (t_accessGrants s). grant_row_valid g"
    and "delegation_names (dq_scope dto)"
  shows "\<exists>d src. t_delegations s' = t_delegations s @ [d] \<and> src \<in> set (t_accessGrants s')
    \<and> ag_userRefId src = sx_userId context \<and> dg_delegateUserId d = dq_delegateUserId dto
    \<and> (\<forall>now. dg_validFrom d \<le> now \<longrightarrow> now < dg_validTo d \<longrightarrow>
        delegation_current_for ((ae_env env)\<lparr>env_now := now\<rparr>) s' d src (dq_delegateUserId dto))"
  by (rule delegated [OF assms]) blast

lemma named_delegation_created:
  "case delegation_run named_delegation of (Inl e, t) \<Rightarrow> False | (Inr r, t) \<Rightarrow>
     length (t_delegations t) = 1"
  by code_simp

lemma delegation_checks:
  "delegation_names (dq_scope named_delegation)" "t_delegations admin_db = []"
  "\<forall>g \<in> set (t_accessGrants admin_db). grant_row_valid g"
  by code_simp+

lemma delegation_takes_effect_witness:
  "\<exists>d src. t_delegations (snd (delegation_run named_delegation)) = [d]
    \<and> (\<forall>now. dg_validFrom d \<le> now \<longrightarrow> now < dg_validTo d \<longrightarrow>
        delegation_current_for (admin_host\<lparr>env_now := now\<rparr>) (snd (delegation_run named_delegation)) d src ''clerk'')"
proof -
  obtain r where run: "createDelegation admin_env ''org'' named_delegation (Some ''key-delegation'') ''r-4'' admin_session
     (admin_step_up ''delegation'') admin_db = (Inr r, snd (delegation_run named_delegation))"
    using runD [OF named_delegation_created] unfolding delegation_run_def by blast
  have "t_delegations (snd (delegation_run named_delegation)) \<noteq> t_delegations admin_db"
    using runD [OF named_delegation_created] delegation_checks(2) by auto
  from delegation_takes_effect [OF run this delegation_checks(3,1)]
  show ?thesis by (simp add: delegation_checks(2) admin_env_def named_delegation_def ceiling_delegation_def) blast
qed


end
