(* ===== verification/Spec2Isabelle.thy ===== *)
theory Spec2Isabelle
  imports Execution_Properties Reversal_Properties Policy_Properties Money_Properties Access_Properties Numbering_Properties Canonical_Json
    Approval_Properties Lifecycle_Properties Administration_Properties
begin

text \<open>
  A verification development for the treasury backend, a NestJS service over PostgreSQL. Its domains
  (payments, receipts, transfers, settlement, cheques, cashboxes, banks, accounting) share one
  pattern: a controller hands a validated body to a service, the service runs one database
  transaction against a repository, and the transaction ends in a stored response, an audit event
  and an outbox event, or in a problem document. This development models the payment domain and
  everything it rests on, from the request to the rows: policies and approvals, authorities and
  their administration, sources of money, amounts, numbers, idempotency and errors.

  The parts of the program and how they interact
  \<^item> A payment starts as a request or a draft (\<open>payments/payment.service.ts\<close>), is submitted, which
    freezes the approval policies that govern it as a snapshot of steps, and is acted on until no
    step misses an approval (\<open>payments/payment-approval.service.ts\<close>). An approved payment is executed
    against its cashboxes and bank accounts, and an executed one may be reversed
    (\<open>payments/payment-execution.service.ts\<close>). All of them go through \<open>payments/payment*.repository.ts\<close>.
  \<^item> Execution and reversal ask the effect services of the cashboxes and banks
    (\<open>cashbox-and-custody/*-effects.service.ts\<close>, \<open>banking/*-effects.service.ts\<close>) whether a source can
    pay, and append to the shared ledger (\<open>foundation-effects/foundation-effects.service.ts\<close>).
  \<^item> Every command asks \<open>access-control/access-authorization.service.ts\<close> for an authority: an own or
    a delegated grant that covers the payment. Roles, grants, approval policies and delegations are
    created by \<open>access-control/access-admin.service.ts\<close> and \<open>access-admin.repository.ts\<close> under a
    step-up proof.
  \<^item> \<open>common/http.ts\<close> gives the digest by which a repeated command is recognised and
    \<open>common/problem.ts\<close> the document a failed one is answered with.

  The theories, in the order of the dependencies
  \<^item> Language and shared vocabulary: \<open>Treasury_Prelude\<close> (exceptions, the result monad of validation,
    the transaction monad with its rules, lists as arrays and sets), \<open>Js_Text\<close> (string functions,
    patterns), \<open>Decimal_Text\<close> (decimal arithmetic on strings), \<open>Json_Digest\<close> (\<open>common/http.ts\<close>),
    \<open>Problem\<close> (\<open>common/problem.ts\<close>).
  \<^item> Data: \<open>Access_Views\<close> and \<open>Payment_Types\<close> (bodies and views), \<open>Schema\<close> and \<open>Payment_Schema\<close> (the
    tables of \<open>database/schema.ts\<close>, a record per row, a list per table, in the layers
    \<open>world\<close>, \<open>reference_db\<close>, \<open>access_db\<close>, \<open>ledger_db\<close>, \<open>payment_db\<close> and, for the
    administration, \<open>admin_db\<close>), \<open>Payment_Constraints\<close> (checks, unique
    indexes, references), \<open>Commit_Guards\<close> (the deferred triggers of migrations 0017 and 0019).
  \<^item> Shared services: \<open>Foundation_Effects\<close>, \<open>Source_Effects\<close>, \<open>Authorization\<close> (with the functions of
    migration 0025), \<open>Payment_Repository\<close> (idempotency records, number counters, views).
  \<^item> Drafts: \<open>Payment_Facts\<close>, \<open>Payment_Drafts\<close>. Approval: \<open>Payment_Policy\<close> (dominance, the unique
    maximal policy, the merge of step lists), \<open>Approval_Repository\<close>, \<open>Approval_Views\<close>,
    \<open>Payment_Approval\<close>. Execution: \<open>Execution_Repository\<close>, \<open>Payment_Execution\<close>.
  \<^item> Access administration: \<open>Access_Scopes\<close> (bodies, their preparation, containment and overlap),
    \<open>Access_Schema\<close> (constraints), \<open>Access_Admin\<close> (the protected command and the four operations).
  \<^item> The libraries behind the properties: \<open>Tables\<close>, \<open>Keyed_Commands\<close>, \<open>Execution_Facts\<close>,
    \<open>Execution_Funds\<close>, \<open>Reversal_Facts\<close>, \<open>Reversal_Funds\<close>, \<open>Draft_Facts\<close>, \<open>Submission_Facts\<close>,
    \<open>Approval_Facts\<close>, \<open>Approval_Steps\<close>, \<open>Step_Order\<close>, \<open>Policy_Scope\<close>, \<open>Lifecycle\<close>, \<open>Lifecycle_Facts\<close>,
    \<open>Lifecycle_Invariants\<close>, \<open>Approval_Invariants\<close>,
    \<open>Policy_Registry\<close>, \<open>Administration\<close>, \<open>Treasury\<close>, \<open>Grant_Facts\<close>, \<open>Delegation_Facts\<close>. \<open>Sample\<close>, \<open>Approval_Sample\<close> and \<open>Administration_Sample\<close>
    hold the concrete databases of the witnesses.
  \<^item> The properties: \<open>Execution_Properties\<close>, \<open>Reversal_Properties\<close>, \<open>Approval_Properties\<close>,
    \<open>Lifecycle_Properties\<close>, \<open>Policy_Properties\<close>, \<open>Money_Properties\<close>, \<open>Access_Properties\<close>,
    \<open>Numbering_Properties\<close>, \<open>Canonical_Json\<close>,
    \<open>Administration_Properties\<close>.

  How state and operations correspond to the code
  \<^item> An operation of a service is a function from the environment, the arguments and the database to
    a result and the database afterwards. A transaction is a function from the database to an
    exception or a result with the next database; \<open>transaction\<close> commits or drops it. The steps are
    in the source's order, every guard is a branch with the exception of the source, and the
    mapping of exceptions at the end of a handler is applied by \<open>rethrow\<close>.
  \<^item> An insert checks its row, the unique indexes and the references, and throws the SQLSTATE of the
    constraint that fails; a commit guard runs at the end of the transaction it belongs to.
  \<^item> The environment holds what is outside the code: the clock, fresh identifiers, the hash functions
    and the collation. The database counts the identifiers and the clock readings taken, so that
    each is drawn once. The clock reading \<open>new Date()\<close> before the transaction of an administration
    command is the first of the command, and does not advance the count. Property statements name
    what they need of the environment: identifiers not yet in use, and digests that differ for
    different texts where a table is keyed by a digest.
  \<^item> Identifiers, dates and amounts are text as the driver returns them, a timestamp is its
    milliseconds, a null column is an option, a status is the text of its column. A validated body is a record of
    its decoded fields, beside the JSON value the digest is taken of.

  What the groups of lemmas show
  \<^item> Execution and reversal: what a successful run has checked and exactly what it wrote, that it never
    overdraws a source, happens once, is answered again from the stored record, and that a reversal
    restores every position.
  \<^item> Drafts, submission, approval: what each run checked and wrote; that approvals progress and are
    never counted twice; and, over every sequence of calls of all the services by anybody with any
    outcome (\<open>Lifecycle\<close>), that the constraints hold, that what is approved has all its approvals,
    given by others than the rules bar, that the ledger is append-only, and that the documents refine
    the register of states and versions of the documented workflow.
  \<^item> Policies: dominance is strict inclusion of the payments governed, the governing policy is the
    least candidate, and the merge of step lists terminates, succeeds exactly without a cycle, and
    orders every step after its predecessors.
  \<^item> Money, numbers, digests, authorities: exactness and bounds of the readings, conversions and
    prints of amounts, distinct business numbers, independence of the digest from the order of keys,
    and that an authority rests on a grant in force and a delegation never exceeds its grantor.
  \<^item> Administration: a step-up proof is good for one command; a grant that names its currencies never
    exceeds its giver's; policies are only added and never overlap ambiguously, over every sequence of
    calls of the payment services and the administration, so that a submission is never stopped by
    ambiguity; an accepted delegation that names its currency takes effect. Where a ceiling stands
    for a missing currency, two theorems show by a run that a grant then exceeds its giver's and
    that a delegation then never takes effect.

  Interfaces
  \<^item> \<open>fixed_point\<close> (a reading of decimals at a scale; \<open>fixed8\<close>, \<open>fixed12\<close>), \<open>idempotency_store\<close> (what a
    lookup returns after an insertion; \<open>idem\<close>), \<open>movement_ledger\<close> (positions as sums of movements;
    \<open>ledger\<close>), \<open>table\<close> (a read and an update that fit; one interpretation per table written by a
    batch). Each is interpreted on the definitions of the model.

  Termination and fuel
  \<^item> All operations are total. The two loops that are not structural are the digit loop that prints
    a number, which falls with the number, and the merge of step lists, whose loop takes a node out
    of the ready list in every round; \<open>composeSteps_acyclic\<close> shows that its failure is a cycle and
    nothing else. No definition uses fuel.

  Not modelled
  \<^item> Row locks (\<open>FOR UPDATE\<close>, \<open>FOR SHARE\<close>): a transaction runs alone, so an interleaving is a sequence
    of whole transactions. Advisory locks are recorded in the state, not contended for.
  \<^item> Lengths of character columns, column defaults no insert uses, indexes that are not unique.
  \<^item> Lists with cursors (\<open>list\<close> of every service): read-only queries over pages.
  \<^item> Authentication (\<open>auth.service.ts\<close>, \<open>credential.service.ts\<close>, \<open>identity.service.ts\<close>): sessions,
    passwords and TOTP are cryptography and session storage; a command receives the actor and the
    session as arguments. The revocations of \<open>access-admin.service.ts\<close> end sessions there.
  \<^item> Receipts, transfers, collection and settlement, cashbox operations, bank instructions' outcomes,
    cheques, accounting, reporting, master data and print templates: domains of their own beside the
    payments, which touch the payment tables through the ledger, the reservations and the
    allocations; those rows are arbitrary in the properties.
  \<^item> Controllers, modules, the connection pool, start-up checks and scripts: the framework and I/O.
\<close>

end
